(* ===== verification/Prelude.thy ===== *)
theory Prelude
  imports Main "HOL-Library.Multiset"
begin

text \<open>
  Shared vocabulary of the development: the Go string, integer and slice operations the
  helpdesk sources use, with the generic facts every component needs.

  Go strings are byte sequences and \<^typ>\<open>string\<close> is a list of 8-bit characters, so
  \<^const>\<open>length\<close> is Go's \<^verbatim>\<open>len\<close> and comparison is bytewise. The case
  conversions are the ASCII ones. Go's \<^verbatim>\<open>int\<close> and
  \<^verbatim>\<open>time.Duration\<close> are 64-bit: values are \<^typ>\<open>int\<close>, and
  \<open>wrap64\<close> is applied where the source multiplies and can overflow.
\<close>

named_theorems go_defs \<open>definitions of the Go library operations\<close>
named_theorems go_simps \<open>rewrite rules for the Go library operations\<close>

section \<open>Integers\<close>

definition wrap64 :: "int \<Rightarrow> int" where
  "wrap64 x = (x + 2 ^ 63) mod 2 ^ 64 - 2 ^ 63"

section \<open>Strings\<close>

text \<open>Bytewise lexicographic order, as SQLite's BINARY collation and Go's \<^verbatim>\<open><\<close>.\<close>

fun str_less :: "string \<Rightarrow> string \<Rightarrow> bool" where
  "str_less _ [] = False"
| "str_less [] (y # ys) = True"
| "str_less (x # xs) (y # ys) =
     ((of_char x :: nat) < of_char y \<or> (x = y \<and> str_less xs ys))"

definition str_le :: "string \<Rightarrow> string \<Rightarrow> bool" where
  "str_le x y \<longleftrightarrow> x = y \<or> str_less x y"

text \<open>\<^verbatim>\<open>strings.HasPrefix\<close>, \<^verbatim>\<open>strings.TrimPrefix\<close>, \<^verbatim>\<open>strings.TrimSuffix\<close>.\<close>

fun HasPrefix :: "string \<Rightarrow> string \<Rightarrow> bool" where
  "HasPrefix s [] = True"
| "HasPrefix [] (p # ps) = False"
| "HasPrefix (c # cs) (p # ps) = (c = p \<and> HasPrefix cs ps)"

definition TrimPrefix :: "string \<Rightarrow> string \<Rightarrow> string" where
  "TrimPrefix s p = (if HasPrefix s p then drop (length p) s else s)"

definition TrimSuffix :: "string \<Rightarrow> string \<Rightarrow> string" where
  "TrimSuffix s p = rev (TrimPrefix (rev s) (rev p))"

text \<open>\<^verbatim>\<open>strings.Contains\<close>.\<close>

fun str_contains :: "string \<Rightarrow> string \<Rightarrow> bool" where
  "str_contains [] p = (p = [])"
| "str_contains (c # cs) p = (HasPrefix (c # cs) p \<or> str_contains cs p)"

text \<open>\<^verbatim>\<open>strings.ToLower\<close> and \<^verbatim>\<open>strings.ToUpper\<close> on ASCII.\<close>

definition lower_char :: "char \<Rightarrow> char" where
  "lower_char c = (let n = (of_char c :: nat) in
     if 65 \<le> n \<and> n \<le> 90 then char_of (n + 32) else c)"

definition upper_char :: "char \<Rightarrow> char" where
  "upper_char c = (let n = (of_char c :: nat) in
     if 97 \<le> n \<and> n \<le> 122 then char_of (n - 32) else c)"

definition ToLower :: "string \<Rightarrow> string" where
  "ToLower s = map lower_char s"

definition ToUpper :: "string \<Rightarrow> string" where
  "ToUpper s = map upper_char s"

text \<open>\<^verbatim>\<open>strings.Join\<close> and \<^verbatim>\<open>strings.Split\<close> on a one-byte separator.\<close>

fun join_str :: "string \<Rightarrow> string list \<Rightarrow> string" where
  "join_str sep [] = []"
| "join_str sep [x] = x"
| "join_str sep (x # y # ys) = x @ sep @ join_str sep (y # ys)"

fun split_char :: "char \<Rightarrow> string \<Rightarrow> string list" where
  "split_char c [] = [[]]"
| "split_char c (x # xs) =
     (if x = c then [] # split_char c xs
      else (case split_char c xs of [] \<Rightarrow> [[x]] | y # ys \<Rightarrow> (x # y) # ys))"

text \<open>\<^verbatim>\<open>strings.TrimSpace\<close> (ASCII white space) and \<^verbatim>\<open>strings.Trim\<close> with a cutset.\<close>

definition is_space :: "char \<Rightarrow> bool" where
  "is_space c \<longleftrightarrow> (of_char c :: nat) \<in> {9, 10, 11, 12, 13, 32}"

definition trim_with :: "(char \<Rightarrow> bool) \<Rightarrow> string \<Rightarrow> string" where
  "trim_with p s = rev (dropWhile p (rev (dropWhile p s)))"

definition TrimSpace :: "string \<Rightarrow> string" where
  "TrimSpace s = trim_with is_space s"

text \<open>Decimal output: \<^verbatim>\<open>strconv.Itoa\<close> and \<^verbatim>\<open>%d\<close>.\<close>

definition digit :: "nat \<Rightarrow> char" where
  "digit k = char_of (48 + k)"

fun nat_str :: "nat \<Rightarrow> string" where
  "nat_str n = (if n < 10 then [digit n] else nat_str (n div 10) @ [digit (n mod 10)])"

declare nat_str.simps [simp del]

definition Itoa :: "int \<Rightarrow> string" where
  "Itoa i = (if i < 0 then CHR ''-'' # nat_str (nat (- i)) else nat_str (nat i))"

text \<open>Fixed-width decimal digits, as the time formatter writes them.\<close>

fun digits :: "nat \<Rightarrow> nat \<Rightarrow> string" where
  "digits 0 n = []"
| "digits (Suc w) n = digits w (n div 10) @ [digit (n mod 10)]"

text \<open>
  \<^verbatim>\<open>%q\<close> (\<^verbatim>\<open>strconv.Quote\<close>): bytes above ASCII are taken to belong to
  printable runes and pass unchanged. \<^verbatim>\<open>%v\<close> on a string slice separates by blanks.
  Field widths count runes, that is bytes other than UTF-8 continuation bytes.
\<close>

definition hex_digit :: "nat \<Rightarrow> char" where
  "hex_digit k = (if k < 10 then char_of (48 + k) else char_of (87 + k))"

definition quote_char :: "char \<Rightarrow> string" where
  "quote_char c = (let n = (of_char c :: nat) in
     if n = 34 then [CHR 0x5C, CHR 0x22]
     else if n = 92 then [CHR 0x5C, CHR 0x5C]
     else if n = 7 then [CHR 0x5C, CHR ''a'']
     else if n = 8 then [CHR 0x5C, CHR ''b'']
     else if n = 12 then [CHR 0x5C, CHR ''f'']
     else if n = 10 then [CHR 0x5C, CHR ''n'']
     else if n = 13 then [CHR 0x5C, CHR ''r'']
     else if n = 9 then [CHR 0x5C, CHR ''t'']
     else if n = 11 then [CHR 0x5C, CHR ''v'']
     else if n < 32 \<or> n = 127 then [CHR 0x5C, CHR ''x'', hex_digit (n div 16), hex_digit (n mod 16)]
     else [c])"

definition Quote :: "string \<Rightarrow> string" where
  "Quote s = CHR 0x22 # concat (map quote_char s) @ [CHR 0x22]"

definition fmt_strs :: "string list \<Rightarrow> string" where
  "fmt_strs xs = CHR ''['' # join_str '' '' xs @ '']''"

definition rune_count :: "string \<Rightarrow> nat" where
  "rune_count s = length (filter (\<lambda>c. \<not> (128 \<le> (of_char c :: nat) \<and> (of_char c :: nat) < 192)) s)"

definition pad_right :: "nat \<Rightarrow> string \<Rightarrow> string" where
  "pad_right w s = s @ replicate (w - rune_count s) (CHR '' '')"

section \<open>Maps as association lists\<close>

text \<open>
  A Go map whose iteration order matters is an association list: the list order stands for
  the order in which a \<^verbatim>\<open>range\<close> loop visits the entries, which Go leaves open.
\<close>

definition map_keys :: "('k \<times> 'v) list \<Rightarrow> 'k list" where
  "map_keys m = map fst m"

section \<open>Facts\<close>

lemma wrap64_id: "- (2 ^ 63) \<le> x \<Longrightarrow> x < 2 ^ 63 \<Longrightarrow> wrap64 x = x"
  by (simp add: wrap64_def)

lemma wrap64_range: "- (2 ^ 63) \<le> wrap64 x \<and> wrap64 x < 2 ^ 63"
proof -
  have "0 \<le> (x + 2 ^ 63) mod 2 ^ 64 \<and> (x + 2 ^ 63) mod 2 ^ 64 < (2 ^ 64 :: int)"
    by simp
  then show ?thesis
    by (simp add: wrap64_def)
qed

lemma HasPrefix_iff: "HasPrefix s p \<longleftrightarrow> (\<exists>t. s = p @ t)"
  by (induction s p rule: HasPrefix.induct) auto

lemma HasPrefix_append [simp]: "HasPrefix (p @ t) p"
  by (simp add: HasPrefix_iff)

lemma TrimPrefix_append [simp]: "TrimPrefix (p @ t) p = t"
  by (simp add: TrimPrefix_def)

lemma str_contains_iff: "str_contains s p \<longleftrightarrow> (\<exists>u v. s = u @ p @ v)"
proof (induction s p rule: str_contains.induct)
  case (2 c cs p)
  show ?case
  proof
    assume "str_contains (c # cs) p"
    then consider "HasPrefix (c # cs) p" | "str_contains cs p" by auto
    then show "\<exists>u v. c # cs = u @ p @ v"
    proof cases
      case 1
      then obtain v where "c # cs = p @ v" by (auto simp: HasPrefix_iff)
      then have "c # cs = [] @ p @ v" by simp
      then show ?thesis by blast
    next
      case 2
      then obtain u v where "cs = u @ p @ v" using "2.IH" by auto
      then have "c # cs = (c # u) @ p @ v" by simp
      then show ?thesis by blast
    qed
  next
    assume "\<exists>u v. c # cs = u @ p @ v"
    then obtain u v where uv: "c # cs = u @ p @ v" by blast
    show "str_contains (c # cs) p"
    proof (cases u)
      case Nil
      with uv have "HasPrefix (c # cs) p" by (auto simp: HasPrefix_iff)
      then show ?thesis by simp
    next
      case (Cons d w)
      with uv have "cs = w @ p @ v" by simp
      then show ?thesis using "2.IH" by auto
    qed
  qed
qed simp

lemma of_char_digit [simp]: "k < 10 \<Longrightarrow> (of_char (digit k) :: nat) = 48 + k"
  by (simp add: digit_def)

lemma digit_eval:
  "digit 0 = CHR ''0''" "digit 1 = CHR ''1''" "digit (Suc 0) = CHR ''1''" "digit 2 = CHR ''2''"
  "digit 3 = CHR ''3''" "digit 4 = CHR ''4''" "digit 5 = CHR ''5''" "digit 6 = CHR ''6''"
  "digit 7 = CHR ''7''" "digit 8 = CHR ''8''" "digit 9 = CHR ''9''"
  by (simp_all add: digit_def char_of_def bit_0)

lemma digit_inject [simp]: "a < 10 \<Longrightarrow> b < 10 \<Longrightarrow> digit a = digit b \<longleftrightarrow> a = b"
  by (metis add_left_cancel of_char_digit)

lemma str_less_irrefl [simp]: "\<not> str_less s s"
  by (induction s) auto

lemma length_digits [simp]: "length (digits w n) = w"
  by (induction w arbitrary: n) auto

lemma digits_numeral:
  "digits (numeral k) n = digits (pred_numeral k) (n div 10) @ [digit (n mod 10)]"
  unfolding numeral_eq_Suc [of k] by (rule digits.simps(2))

lemma map_disjoint:
  "\<forall>n \<in> set ys. f n \<notin> set (map f xs) \<Longrightarrow> set (map f xs) \<inter> set (map f ys) = {}"
  by (auto simp: image_iff) metis

lemma less_div_mod:
  fixes a b k :: nat
  assumes "0 < k"
  shows "a < b \<longleftrightarrow> a div k < b div k \<or> (a div k = b div k \<and> a mod k < b mod k)"
proof (cases "a div k" "b div k" rule: linorder_cases)
  case less
  then have "a < b"
    by (meson div_le_mono leD leI)
  with less show ?thesis by simp
next
  case equal
  then show ?thesis
    by (metis add_less_cancel_left mult_div_mod_eq nat_less_le)
next
  case greater
  then have "\<not> a < b"
    by (meson div_le_mono leD less_imp_le)
  with greater show ?thesis by simp
qed

text \<open>Fixed-width digit strings compare as the numbers they print.\<close>

lemma str_less_digits:
  "a < 10 ^ w \<Longrightarrow> b < 10 ^ w \<Longrightarrow>
   str_less (digits w a @ xs) (digits w b @ ys) \<longleftrightarrow> a < b \<or> (a = b \<and> str_less xs ys)"
proof (induction w arbitrary: a b xs ys)
  case 0
  then show ?case by simp
next
  case (Suc w)
  have ab: "a div 10 < 10 ^ w" "b div 10 < 10 ^ w"
    using Suc.prems by auto
  have "str_less (digits (Suc w) a @ xs) (digits (Suc w) b @ ys) \<longleftrightarrow>
      str_less (digits w (a div 10) @ digit (a mod 10) # xs)
               (digits w (b div 10) @ digit (b mod 10) # ys)"
    by simp
  also have "\<dots> \<longleftrightarrow> a div 10 < b div 10 \<or>
      (a div 10 = b div 10 \<and> (a mod 10 < b mod 10 \<or> (a mod 10 = b mod 10 \<and> str_less xs ys)))"
    using Suc.IH [OF ab] by simp
  also have "\<dots> \<longleftrightarrow> a < b \<or> (a = b \<and> str_less xs ys)"
  proof -
    have "a < b \<longleftrightarrow> a div 10 < b div 10 \<or> (a div 10 = b div 10 \<and> a mod 10 < b mod 10)"
      by (rule less_div_mod) simp
    moreover have "a = b \<longleftrightarrow> a div 10 = b div 10 \<and> a mod 10 = b mod 10"
      by (metis div_mult_mod_eq)
    ultimately show ?thesis by auto
  qed
  finally show ?case .
qed

lemma str_less_append_same [simp]: "str_less (p @ xs) (p @ ys) = str_less xs ys"
  by (induction p) auto

text \<open>First match of a list, the shape of every rule scan of the program.\<close>

lemma find_append:
  "find P (xs @ ys) = (case find P xs of Some x \<Rightarrow> Some x | None \<Rightarrow> find P ys)"
  by (induction xs) auto

lemma find_Some_mem: "find P xs = Some x \<Longrightarrow> x \<in> set xs \<and> P x"
  by (induction xs) (auto split: if_splits)

end
