(* ===== verification/Go_Time.thy ===== *)
theory Go_Time
  imports Prelude
begin

text \<open>
  Instants and the two timestamp layouts of the audit databases.

  A \<open>time\<close> is the number of nanoseconds since \<^verbatim>\<open>0001-01-01T00:00:00Z\<close>
  in UTC, so \<^term>\<open>0 :: nat\<close> is Go's zero \<^verbatim>\<open>time.Time\<close> and the test
  against it is \<^verbatim>\<open>IsZero\<close>. The calendar date is obtained by stepping one day at a
  time from the epoch. \<open>fmt_sqlite\<close> is the layout \<^verbatim>\<open>sqliteTimeFormat\<close> of
  \<^verbatim>\<open>internal/audit/store.go\<close>; \<open>fmt_rfc3339nano\<close> is the standard
  \<^verbatim>\<open>time.RFC3339Nano\<close> layout, which drops trailing zeros of the fraction. The facts
  below say when the bytewise order of the stored strings is the order of the instants.
\<close>

type_synonym time = nat
type_synonym duration = int

section \<open>Calendar\<close>

definition sec_ns :: nat where
  "sec_ns = 1000000000"

definition is_leap :: "nat \<Rightarrow> bool" where
  "is_leap y \<longleftrightarrow> (y mod 4 = 0 \<and> y mod 100 \<noteq> 0) \<or> y mod 400 = 0"

definition days_in_month :: "nat \<Rightarrow> nat \<Rightarrow> nat" where
  "days_in_month y m =
     (if m = 2 then (if is_leap y then 29 else 28)
      else if m = 4 \<or> m = 6 \<or> m = 9 \<or> m = 11 then 30 else 31)"

fun next_day :: "nat \<times> nat \<times> nat \<Rightarrow> nat \<times> nat \<times> nat" where
  "next_day (y, m, d) =
     (if d < days_in_month y m then (y, m, d + 1)
      else if m < 12 then (y, m + 1, 1) else (y + 1, 1, 1))"

fun civil :: "nat \<Rightarrow> nat \<times> nat \<times> nat" where
  "civil 0 = (1, 1, 1)"
| "civil (Suc n) = next_day (civil n)"

definition day_of :: "time \<Rightarrow> nat" where
  "day_of t = t div sec_ns div 86400"

definition sod_of :: "time \<Rightarrow> nat" where
  "sod_of t = t div sec_ns mod 86400"

definition nsec_of :: "time \<Rightarrow> nat" where
  "nsec_of t = t mod sec_ns"

definition year_of :: "time \<Rightarrow> nat" where
  "year_of t = fst (civil (day_of t))"

section \<open>Layouts\<close>

text \<open>The year is written with at least four digits and is never truncated.\<close>

definition fmt_year :: "nat \<Rightarrow> string" where
  "fmt_year y = (if y < 10 ^ 4 then digits 4 y else nat_str y)"

definition fmt_seconds :: "time \<Rightarrow> string" where
  "fmt_seconds t = (case civil (day_of t) of (y, m, d) \<Rightarrow>
     fmt_year y @ CHR ''-'' # digits 2 m @ CHR ''-'' # digits 2 d @ CHR ''T'' #
     digits 2 (sod_of t div 3600) @ CHR '':'' #
     digits 2 (sod_of t mod 3600 div 60) @ CHR '':'' # digits 2 (sod_of t mod 60))"

definition fmt_sqlite :: "time \<Rightarrow> string" where
  "fmt_sqlite t = fmt_seconds t @ CHR ''.'' # digits 9 (nsec_of t) @ ''Z''"

definition fmt_fraction :: "nat \<Rightarrow> string" where
  "fmt_fraction ns =
     (if ns = 0 then [] else CHR ''.'' # rev (dropWhile (\<lambda>c. c = CHR ''0'') (rev (digits 9 ns))))"

text \<open>The layout \<^verbatim>\<open>time.RFC3339\<close>.\<close>

definition fmt_rfc3339 :: "time \<Rightarrow> string" where
  "fmt_rfc3339 t = fmt_seconds t @ ''Z''"

definition fmt_rfc3339nano :: "time \<Rightarrow> string" where
  "fmt_rfc3339nano t = fmt_seconds t @ fmt_fraction (nsec_of t) @ ''Z''"

definition time_add :: "time \<Rightarrow> duration \<Rightarrow> time" where
  "time_add t d = nat (int t + d)"

definition Minute :: duration where
  "Minute = 60000000000"

definition Second :: duration where
  "Second = 1000000000"

section \<open>The calendar is increasing\<close>

fun date_ok :: "nat \<times> nat \<times> nat \<Rightarrow> bool" where
  "date_ok (y, m, d) \<longleftrightarrow> 1 \<le> m \<and> m \<le> 12 \<and> 1 \<le> d \<and> d \<le> days_in_month y m"

fun date_key :: "nat \<times> nat \<times> nat \<Rightarrow> nat" where
  "date_key (y, m, d) = (y * 16 + m) * 32 + d"

lemma days_in_month_bounds: "28 \<le> days_in_month y m \<and> days_in_month y m \<le> 31"
  by (simp add: days_in_month_def)

lemma days_in_month_pos [simp]: "Suc 0 \<le> days_in_month y m"
  by (simp add: days_in_month_def)

lemma next_day_ok: "date_ok x \<Longrightarrow> date_ok (next_day x)"
  by (cases x) auto

lemma next_day_key: "date_ok x \<Longrightarrow> date_key x < date_key (next_day x)"
proof (cases x)
  case (fields y m d)
  assume "date_ok x"
  with fields days_in_month_bounds [of y m] show ?thesis by auto
qed

lemma civil_ok: "date_ok (civil n)"
proof (induction n)
  case 0
  show ?case by (simp add: days_in_month_def)
next
  case (Suc n)
  then show ?case by (simp add: next_day_ok)
qed

lemma civil_mono: "m < n \<Longrightarrow> date_key (civil m) < date_key (civil n)"
proof (induction n)
  case (Suc n)
  have "date_key (civil n) < date_key (civil (Suc n))"
    using next_day_key [OF civil_ok] by simp
  with Suc show ?case by (cases "m = n") auto
qed simp

lemma date_key_less:
  assumes "m < 16" "m' < 16" "d < 32" "d' < 32"
  shows "date_key (y, m, d) < date_key (y', m', d') \<longleftrightarrow>
    y < y' \<or> (y = y' \<and> (m < m' \<or> (m = m' \<and> d < d')))"
  using assms by auto

lemma civil_bounds:
  "civil n = (y, m, d) \<Longrightarrow> m < 16 \<and> d < 32"
  using civil_ok [of n] days_in_month_bounds [of y m] by auto

lemma civil_less_iff:
  assumes "civil a = (y, m, d)" "civil b = (y', m', d')"
  shows "a < b \<longleftrightarrow> y < y' \<or> (y = y' \<and> (m < m' \<or> (m = m' \<and> d < d')))"
proof -
  have "a < b \<longleftrightarrow> date_key (civil a) < date_key (civil b)"
    using civil_mono by (metis linorder_neqE_nat order_less_asym)
  then show ?thesis
    using date_key_less civil_bounds assms by simp
qed

lemma civil_inject:
  assumes "civil a = (y, m, d)" "civil b = (y', m', d')"
  shows "a = b \<longleftrightarrow> (y, m, d) = (y', m', d')"
  using civil_mono assms by (metis linorder_neqE_nat less_irrefl_nat)

section \<open>Order of the stored strings\<close>

lemma sod_less: "sod_of t < 86400"
  by (simp add: sod_of_def)

lemma nsec_less: "nsec_of t < 10 ^ 9"
  by (simp add: nsec_of_def sec_ns_def)

lemma clock_less:
  fixes a b :: nat
  shows "a < b \<longleftrightarrow> a div 3600 < b div 3600 \<or> (a div 3600 = b div 3600 \<and>
    (a mod 3600 div 60 < b mod 3600 div 60 \<or> (a mod 3600 div 60 = b mod 3600 div 60 \<and>
     a mod 60 < b mod 60)))"
proof -
  have "a mod 3600 mod 60 = a mod 60" "b mod 3600 mod 60 = b mod 60"
    by (simp_all add: mod_mod_cancel)
  then show ?thesis
    using less_div_mod [of 3600 a b] less_div_mod [of 60 "a mod 3600" "b mod 3600"] by simp
qed

lemma clock_eq:
  fixes a b :: nat
  shows "a = b \<longleftrightarrow> a div 3600 = b div 3600 \<and> a mod 3600 div 60 = b mod 3600 div 60 \<and>
    a mod 60 = b mod 60"
  using clock_less [of a b] clock_less [of b a] by (metis linorder_neqE_nat less_irrefl_nat)

text \<open>The date and clock part compares as the number of seconds.\<close>

lemma fmt_seconds_order:
  assumes "year_of t < 10000" "year_of u < 10000"
  shows "str_less (fmt_seconds t @ xs) (fmt_seconds u @ ys) \<longleftrightarrow>
    t div sec_ns < u div sec_ns \<or> (t div sec_ns = u div sec_ns \<and> str_less xs ys)"
proof -
  obtain y m d where t: "civil (day_of t) = (y, m, d)" by (cases "civil (day_of t)") auto
  obtain y' m' d' where u: "civil (day_of u) = (y', m', d')" by (cases "civil (day_of u)") auto
  have b: "m < 10 ^ 2" "d < 10 ^ 2" "m' < 10 ^ 2" "d' < 10 ^ 2"
    using civil_bounds [OF t] civil_bounds [OF u] by auto
  have y: "y < 10 ^ 4" "y' < 10 ^ 4"
    using assms t u by (simp_all add: year_of_def)
  have c: "sod_of x div 3600 < 10 ^ 2" "sod_of x mod 3600 div 60 < 10 ^ 2"
    "sod_of x mod 60 < 10 ^ 2" for x
  proof -
    show "sod_of x div 3600 < 10 ^ 2" using sod_less [of x] by simp
    have "sod_of x mod 3600 < 3600" by simp
    then show "sod_of x mod 3600 div 60 < 10 ^ 2" by simp
    have "sod_of x mod 60 < 60" by simp
    then show "sod_of x mod 60 < 10 ^ 2" by simp
  qed
  have "str_less (fmt_seconds t @ xs) (fmt_seconds u @ ys) \<longleftrightarrow>
      day_of t < day_of u \<or> (day_of t = day_of u \<and>
        (sod_of t < sod_of u \<or> (sod_of t = sod_of u \<and> str_less xs ys)))"
    unfolding civil_less_iff [OF t u] civil_inject [OF t u]
      clock_less [of "sod_of t"] clock_eq [of "sod_of t"]
    using y b c by (auto simp: fmt_seconds_def t u fmt_year_def str_less_digits simp del: digits.simps)
  also have "\<dots> \<longleftrightarrow> t div sec_ns < u div sec_ns \<or>
      (t div sec_ns = u div sec_ns \<and> str_less xs ys)"
  proof -
    have "t div sec_ns < u div sec_ns \<longleftrightarrow>
        day_of t < day_of u \<or> (day_of t = day_of u \<and> sod_of t < sod_of u)"
      unfolding day_of_def sod_of_def by (rule less_div_mod) simp
    moreover have "t div sec_ns = u div sec_ns \<longleftrightarrow>
        day_of t = day_of u \<and> sod_of t = sod_of u"
      unfolding day_of_def sod_of_def by (metis div_mult_mod_eq)
    ultimately show ?thesis by auto
  qed
  finally show ?thesis .
qed

lemma fmt_sqlite_less:
  assumes "year_of t < 10000" "year_of u < 10000"
  shows "str_less (fmt_sqlite t) (fmt_sqlite u) \<longleftrightarrow> t < u"
proof -
  have "str_less (CHR ''.'' # digits 9 (nsec_of t) @ ''Z'') (CHR ''.'' # digits 9 (nsec_of u) @ ''Z'')
      \<longleftrightarrow> nsec_of t < nsec_of u"
    using str_less_digits [OF nsec_less nsec_less] by (simp del: digits.simps)
  moreover have "t < u \<longleftrightarrow> t div sec_ns < u div sec_ns \<or>
      (t div sec_ns = u div sec_ns \<and> nsec_of t < nsec_of u)"
    unfolding nsec_of_def by (rule less_div_mod) (simp add: sec_ns_def)
  ultimately show ?thesis
    unfolding fmt_sqlite_def fmt_seconds_order [OF assms] by simp
qed

text \<open>
  With the variable-width layout the order is right between different seconds; inside one
  second it depends on the fractions only.
\<close>

lemma fmt_rfc3339nano_less:
  assumes "year_of t < 10000" "year_of u < 10000"
  shows "str_less (fmt_rfc3339nano t) (fmt_rfc3339nano u) \<longleftrightarrow>
    t div sec_ns < u div sec_ns \<or> (t div sec_ns = u div sec_ns \<and>
      str_less (fmt_fraction (nsec_of t) @ ''Z'') (fmt_fraction (nsec_of u) @ ''Z''))"
  unfolding fmt_rfc3339nano_def by (rule fmt_seconds_order [OF assms])

end
