(* ===== verification/Policy_Types.thy ===== *)
theory Policy_Types
  imports Go_Time
begin

text \<open>
  The data of \<^verbatim>\<open>internal/policy/types.go\<close>: policy files, requests, decisions and
  evaluation traces, with the small methods declared on them. Action classes and effects are
  strings in the source and may carry any value a file or a request puts there, so they are
  strings here. An instant of the \<^verbatim>\<open>time\<close> package is a pair of the UTC instant and the
  UTC offset, in seconds, of its location. \<^verbatim>\<open>time.LoadLocation\<close> reads the host's zone
  database and is the parameter \<open>tz\<close>: it maps a zone name to the offset of each instant.
\<close>

type_synonym go_time = "time \<times> int"
type_synonym zones = "string \<Rightarrow> (time \<Rightarrow> int) option"

section \<open>Action classes and effects\<close>

definition ActionRead :: string where "ActionRead = ''read''"
definition ActionWrite :: string where "ActionWrite = ''write''"
definition ActionDestructive :: string where "ActionDestructive = ''destructive''"

definition EffectAllow :: string where "EffectAllow = ''allow''"
definition EffectDeny :: string where "EffectDeny = ''deny''"
definition EffectRequireApproval :: string where "EffectRequireApproval = ''require_approval''"

lemmas effect_defs = EffectAllow_def EffectDeny_def EffectRequireApproval_def
lemmas action_defs = ActionRead_def ActionWrite_def ActionDestructive_def

section \<open>Policy files\<close>

record principal_spec =
  ps_User :: string
  ps_Role :: string
  ps_Service :: string
  ps_Any :: bool

record resource_match =
  rm_Name :: string
  rm_NamePattern :: string
  rm_Tags :: "string list"
  rm_Namespace :: string
  rm_Sensitivity :: "string list"
  rm_Tool :: string
  rm_ToolPattern :: string

record resource_spec =
  rs_Type :: string
  rs_Match :: resource_match

record schedule =
  sc_Days :: "string list"
  sc_Hours :: "int list"
  sc_Timezone :: string

record conditions =
  co_RequireApproval :: bool
  co_ApprovalQuorum :: int
  co_MaxRowsAffected :: int
  co_MaxPodsAffected :: int
  co_MaxXactAgeSecs :: int
  co_Schedule :: "schedule option"
  co_AllowedPurposes :: "string list"
  co_BlockedPurposes :: "string list"

record rule =
  ru_Action :: "string list"
  ru_Effect :: string
  ru_Conditions :: "conditions option"
  ru_Message :: string

record policy =
  pol_Name :: string
  pol_Description :: string
  pol_Enabled :: "bool option"
  pol_Priority :: int
  pol_Principals :: "principal_spec list"
  pol_Resources :: "resource_spec list"
  pol_Rules :: "rule list"

record config =
  cfg_Version :: string
  cfg_Policies :: "policy list"

definition IsEnabled :: "policy \<Rightarrow> bool" where
  "IsEnabled p = (case pol_Enabled p of None \<Rightarrow> True | Some b \<Rightarrow> b)"

text \<open>A policy file writes the action of a rule as one string or as a list of strings.\<close>

datatype yaml_action = Single string | Many "string list" | Other

definition UnmarshalYAML :: "yaml_action \<Rightarrow> (string list) option" where
  "UnmarshalYAML y = (case y of Single s \<Rightarrow> Some [s] | Many xs \<Rightarrow> Some xs | Other \<Rightarrow> None)"

fun action_Matches :: "string list \<Rightarrow> string \<Rightarrow> bool" where
  "action_Matches [] action = False"
| "action_Matches (ac # acs) action = (if ac = action then True else action_Matches acs action)"

section \<open>Schedules\<close>

definition dayToName :: "int \<Rightarrow> string" where
  "dayToName d =
     (if d = 1 then ''mon'' else if d = 2 then ''tue'' else if d = 3 then ''wed''
      else if d = 4 then ''thu'' else if d = 5 then ''fri'' else if d = 6 then ''sat''
      else if d = 0 then ''sun'' else [])"

text \<open>Local clock of an instant; day 0 of the calendar is a Monday and Sunday is 0.\<close>

definition local_secs :: "go_time \<Rightarrow> int" where
  "local_secs t = int (fst t div sec_ns) + snd t"

definition Weekday :: "go_time \<Rightarrow> int" where
  "Weekday t = (local_secs t div 86400 + 1) mod 7"

definition Hour :: "go_time \<Rightarrow> int" where
  "Hour t = local_secs t mod 86400 div 3600"

definition schedule_IsActive :: "zones \<Rightarrow> schedule option \<Rightarrow> go_time \<Rightarrow> bool" where
  "schedule_IsActive tz so now = (case so of
     None \<Rightarrow> True
   | Some s \<Rightarrow>
       (let now = (if sc_Timezone s \<noteq> [] then
                     (case tz (sc_Timezone s) of
                        Some loc \<Rightarrow> (fst now, loc (fst now))
                      | None \<Rightarrow> now)
                   else now)
        in if sc_Days s \<noteq> [] \<and> dayToName (Weekday now) \<notin> set (sc_Days s) then False
           else if sc_Hours s \<noteq> [] \<and> Hour now \<notin> set (sc_Hours s) then False
           else True))"

section \<open>Requests\<close>

record request_principal =
  rp_UserID :: string
  rp_Roles :: "string list"
  rp_Service :: string

record request_resource =
  rr_Type :: string
  rr_Name :: string
  rr_Tags :: "string list"
  rr_Namespace :: string
  rr_Extra :: "string \<rightharpoonup> string"
  rr_Sensitivity :: "string list"
  rr_ToolName :: string

record request_context =
  rc_Timestamp :: go_time
  rc_TraceID :: string
  rc_RowsAffected :: int
  rc_PodsAffected :: int
  rc_XactAgeSecs :: int
  rc_Purpose :: string
  rc_PurposeNote :: string

record request =
  rq_Principal :: request_principal
  rq_Resource :: request_resource
  rq_Action :: string
  rq_Context :: request_context

section \<open>Decisions and traces\<close>

record decision =
  dc_Effect :: string
  dc_PolicyName :: string
  dc_RuleIndex :: nat
  dc_Message :: string
  dc_Conditions :: "string list"
  dc_RequiresApproval :: bool
  dc_ApprovalQuorum :: int

record condition_trace =
  ct_Name :: string
  ct_Passed :: bool
  ct_Detail :: string

record rule_trace =
  rt_Index :: nat
  rt_Actions :: "string list"
  rt_Effect :: string
  rt_Matched :: bool
  rt_SkipReason :: string
  rt_Conditions :: "condition_trace list"

record policy_trace =
  pt_PolicyName :: string
  pt_Matched :: bool
  pt_SkipReason :: string
  pt_RequiredTags :: "string list list"
  pt_Rules :: "rule_trace list"

record decision_trace =
  dt_Decision :: decision
  dt_PoliciesEvaluated :: "policy_trace list"
  dt_DefaultApplied :: bool
  dt_Explanation :: string

definition IsAllowed :: "decision \<Rightarrow> bool" where
  "IsAllowed d \<longleftrightarrow> dc_Effect d = EffectAllow"

definition IsDenied :: "decision \<Rightarrow> bool" where
  "IsDenied d \<longleftrightarrow> dc_Effect d = EffectDeny"

definition NeedsApproval :: "decision \<Rightarrow> bool" where
  "NeedsApproval d \<longleftrightarrow> dc_Effect d = EffectRequireApproval \<or> dc_RequiresApproval d"

section \<open>Facts\<close>

lemma effects_distinct [simp]:
  "EffectAllow \<noteq> EffectDeny" "EffectDeny \<noteq> EffectAllow"
  "EffectAllow \<noteq> EffectRequireApproval" "EffectRequireApproval \<noteq> EffectAllow"
  "EffectDeny \<noteq> EffectRequireApproval" "EffectRequireApproval \<noteq> EffectDeny"
  by (simp_all add: effect_defs)

lemma action_Matches_iff [simp]: "action_Matches acs a \<longleftrightarrow> a \<in> set acs"
  by (induction acs) auto

lemma dayToName_Weekday_nonempty: "dayToName (Weekday t) \<noteq> []"
proof -
  have "0 \<le> Weekday t \<and> Weekday t < 7"
    by (simp add: Weekday_def)
  then have "Weekday t \<in> {0, 1, 2, 3, 4, 5, 6}"
    by auto
  then show ?thesis by (auto simp: dayToName_def)
qed

lemma Hour_bounds: "0 \<le> Hour t \<and> Hour t < 24"
proof -
  have "0 \<le> local_secs t mod 86400 \<and> local_secs t mod 86400 < 86400"
    by simp
  then show ?thesis
    by (auto simp: Hour_def)
qed

end
