(* ===== verification/Policy_Explain.thy ===== *)
theory Policy_Explain
  imports Policy_Types
begin

text \<open>
  The rendering of a decision trace as text, \<^verbatim>\<open>internal/policy/explain.go\<close>. The
  non-ASCII glyphs of the messages are their UTF-8 bytes.
\<close>

definition u_dash :: string where "u_dash = [CHR 0xE2, CHR 0x80, CHR 0x94]"
definition u_bullet :: string where "u_bullet = [CHR 0xE2, CHR 0x80, CHR 0xA2]"
definition u_arrow :: string where "u_arrow = [CHR 0xE2, CHR 0x86, CHR 0x92]"
definition u_check :: string where "u_check = [CHR 0xE2, CHR 0x9C, CHR 0x93]"
definition u_cross :: string where "u_cross = [CHR 0xE2, CHR 0x9C, CHR 0x97]"
definition nl :: string where "nl = [CHR 0x0A]"

definition effectLabel :: "string \<Rightarrow> string" where
  "effectLabel e =
     (if e = EffectRequireApproval then ''REQUIRES APPROVAL''
      else if e = EffectDeny then ''DENIED''
      else if e = EffectAllow then ''ALLOWED''
      else ToUpper e)"

text \<open>
  The tag sets offered to the operator when nothing matched: each distinct set once, with the
  policy that lists it first. The first component is the map \<^verbatim>\<open>seen\<close>.
\<close>

fun unlock_sets :: "string set \<Rightarrow> string \<Rightarrow> string list list \<Rightarrow> string set \<times> (string list \<times> string) list" where
  "unlock_sets seen name [] = (seen, [])"
| "unlock_sets seen name (tags # rest) =
     (let key = join_str '','' tags in
      if key \<in> seen then unlock_sets seen name rest
      else (let (seen', out) = unlock_sets (insert key seen) name rest
            in (seen', (tags, name) # out)))"

fun unlock_policies :: "string set \<Rightarrow> policy_trace list \<Rightarrow> (string list \<times> string) list" where
  "unlock_policies seen [] = []"
| "unlock_policies seen (pt # pts) =
     (if pt_SkipReason pt \<noteq> ''resource_mismatch'' then unlock_policies seen pts
      else (let (seen', out) = unlock_sets seen (pt_PolicyName pt) (pt_RequiredTags pt)
            in out @ unlock_policies seen' pts))"

definition unlock_line :: "string list \<times> string \<Rightarrow> string" where
  "unlock_line x = ''  '' @ u_bullet @ '' tags: ['' @ join_str '', '' (fst x) @ '']  '' @ u_arrow @
     '' enables policy '' @ Quote (snd x) @ nl"

definition condition_line :: "condition_trace \<Rightarrow> string" where
  "condition_line ct = ''    '' @ (if ct_Passed ct then u_check else u_cross) @ '' '' @
     ct_Name ct @ '': '' @ ct_Detail ct @ nl"

definition rule_lines :: "rule_trace \<Rightarrow> string" where
  "rule_lines rt =
     (let ruleLabel = pad_right 28 (join_str ''|'' (rt_Actions rt) @ '' '' @ u_arrow @ '' '' @ rt_Effect rt);
          head = ''  Rule '' @ pad_right 2 (nat_str (rt_Index rt)) @ ''  '' @ ruleLabel
      in if \<not> rt_Matched rt
         then head @ ''  skipped '' @ u_dash @ '' '' @ rt_SkipReason rt @ nl
         else head @ ''  matched'' @ nl @ concat (map condition_line (rt_Conditions rt)))"

definition policy_lines :: "string \<Rightarrow> policy_trace \<Rightarrow> string" where
  "policy_lines label pt = nl @
     (if \<not> pt_Matched pt
      then ''Policy '' @ Quote (pt_PolicyName pt) @ '': skipped ('' @ pt_SkipReason pt @ '')'' @ nl
      else ''Policy '' @ Quote (pt_PolicyName pt) @ '' matched:'' @ nl @
           concat (map rule_lines (pt_Rules pt)) @ ''  '' @ u_arrow @ '' '' @ label @ nl)"

definition buildExplanation :: "request \<Rightarrow> decision_trace \<Rightarrow> string" where
  "buildExplanation req trace =
     (let res = rq_Resource req;
          resourceDesc = rr_Type res @ '' '' @ rr_Name res @
            (if rr_Tags res \<noteq> [] then '' (tags: '' @ join_str '', '' (rr_Tags res) @ '')'' else []);
          dec = dt_Decision trace;
          label = effectLabel (dc_Effect dec);
          header = ''Access to '' @ resourceDesc @ '' for '' @ rq_Action req @ '': '' @ label @ nl
      in if dt_DefaultApplied trace then
           header @ nl @ ''No policy matched this resource '' @ u_dash @ '' default effect is '' @
           dc_Effect dec @ ''.'' @ nl @
           (if rr_Tags res = [] then
              (let lines = unlock_policies {} (dt_PoliciesEvaluated trace) in
               nl @ ''This resource has no tags, so no tag-based policy can match it.'' @ nl @
               ''Add it to HELPDESK_INFRA_CONFIG with one of the following tag sets:'' @ nl @ nl @
               concat (map unlock_line lines) @
               (if lines = []
                then ''  (no tag-based policies are configured for this resource type)'' @ nl else []))
            else [])
         else
           header @ concat (map (policy_lines label) (dt_PoliciesEvaluated trace)) @ nl @
           (if dc_Effect dec = EffectDeny then
              (if dc_Message dec \<noteq> [] then ''Reason: '' @ dc_Message dec
               else ''No further action is possible for this request.'')
            else if dc_Effect dec = EffectRequireApproval then
              ''An approval request has been created. Use `approvals list` to see pending requests.''
            else if dc_Effect dec = EffectAllow then ''The request is permitted to proceed.''
            else []))"

section \<open>Facts\<close>

definition unlock_key :: "string list \<times> string \<Rightarrow> string" where
  "unlock_key x = join_str '','' (fst x)"

lemma unlock_sets_seen:
  "fst (unlock_sets seen name tss) = seen \<union> set (map (join_str '','') tss)"
  by (induction seen name tss rule: unlock_sets.induct) (auto simp: Let_def case_prod_beta)

lemma unlock_sets_keys:
  "unlock_key ` set (snd (unlock_sets seen name tss)) = join_str '','' ` set tss - seen"
proof (induction seen name tss rule: unlock_sets.induct)
  case (2 seen name tags rest)
  then show ?case
    by (cases "join_str '','' tags \<in> seen")
       (auto simp: Let_def case_prod_beta unlock_key_def [of "(tags, name)"])
qed simp

lemma unlock_sets_distinct:
  "distinct (map unlock_key (snd (unlock_sets seen name tss)))"
proof (induction seen name tss rule: unlock_sets.induct)
  case (2 seen name tags rest)
  then show ?case
    by (cases "join_str '','' tags \<in> seen")
       (auto simp: Let_def case_prod_beta unlock_sets_keys unlock_key_def [of "(tags, name)"])
qed simp

lemma unlock_policies_keys:
  "unlock_key ` set (unlock_policies seen pts) \<inter> seen = {} \<and>
   distinct (map unlock_key (unlock_policies seen pts))"
proof (induction seen pts rule: unlock_policies.induct)
  case (2 seen pt pts)
  let ?u = "unlock_sets seen (pt_PolicyName pt) (pt_RequiredTags pt)"
  show ?case
  proof (cases "pt_SkipReason pt = ''resource_mismatch''")
    case True
    have IH: "unlock_key ` set (unlock_policies (fst ?u) pts) \<inter> fst ?u = {}"
      "distinct (map unlock_key (unlock_policies (fst ?u) pts))"
      using "2.IH"(2) [of ?u "fst ?u" "snd ?u"] True by simp_all
    have "unlock_key ` set (snd ?u) \<subseteq> fst ?u - seen"
      by (auto simp: unlock_sets_keys unlock_sets_seen)
    moreover have "seen \<subseteq> fst ?u"
      by (simp add: unlock_sets_seen)
    ultimately show ?thesis
      using IH True unlock_sets_distinct [of seen "pt_PolicyName pt" "pt_RequiredTags pt"]
      by (auto simp: Let_def case_prod_beta)
  qed (use 2 in simp)
qed simp

end
