(* ===== verification/Go_Glob.thy ===== *)
theory Go_Glob
  imports Prelude
begin

text \<open>
  Shell pattern matching as Go's \<^verbatim>\<open>path/filepath.Match\<close> does it on Unix, which the
  policy engine uses for name and tool patterns. The functions follow the library's
  \<^verbatim>\<open>scanChunk\<close>, \<^verbatim>\<open>matchChunk\<close> and \<^verbatim>\<open>getEsc\<close>, on
  one-byte runes. \<open>glob_match\<close> is \<^term>\<open>None\<close> for
  \<^verbatim>\<open>ErrBadPattern\<close>.
\<close>

datatype chunk_result = Bad_Pattern | No_Match | Rest string

section \<open>Splitting a pattern at its stars\<close>

fun scan_chunk :: "bool \<Rightarrow> string \<Rightarrow> string \<times> string" where
  "scan_chunk inrange [] = ([], [])"
| "scan_chunk inrange [c] =
     (if c = CHR ''*'' \<and> \<not> inrange then ([], [c]) else ([c], []))"
| "scan_chunk inrange (c # d # cs) =
     (if c = CHR 0x5C then apfst (\<lambda>a. c # d # a) (scan_chunk inrange cs)
      else if c = CHR ''*'' \<and> \<not> inrange then ([], c # d # cs)
      else apfst (Cons c) (scan_chunk
        (if c = CHR ''['' then True else if c = CHR '']'' then False else inrange) (d # cs)))"

fun drop_stars :: "string \<Rightarrow> string" where
  "drop_stars [] = []"
| "drop_stars (c # cs) = (if c = CHR ''*'' then drop_stars cs else c # cs)"

section \<open>Matching one chunk\<close>

definition get_esc :: "string \<Rightarrow> (char \<times> string) option" where
  "get_esc chunk = (case chunk of [] \<Rightarrow> None
     | c # cs \<Rightarrow>
       if c = CHR ''-'' \<or> c = CHR '']'' then None
       else if c = CHR 0x5C then
         (case cs of d # e # ds \<Rightarrow> Some (d, e # ds) | _ \<Rightarrow> None)
       else (case cs of [] \<Rightarrow> None | _ \<Rightarrow> Some (c, cs)))"

lemma get_esc_length: "get_esc cs = Some (c, ds) \<Longrightarrow> length ds < length cs \<and> ds \<noteq> []"
  by (auto simp: get_esc_def split: list.splits if_splits)

function parse_ranges :: "bool \<Rightarrow> char \<Rightarrow> bool \<Rightarrow> string \<Rightarrow> (bool \<times> string) option" where
  "parse_ranges seen r found chunk =
     (if chunk \<noteq> [] \<and> hd chunk = CHR '']'' \<and> seen then Some (found, tl chunk)
      else case get_esc chunk of
        None \<Rightarrow> None
      | Some (lo, ds) \<Rightarrow>
          (case (if hd ds = CHR ''-'' then get_esc (tl ds) else Some (lo, ds)) of
             None \<Rightarrow> None
           | Some (hi, es) \<Rightarrow>
               parse_ranges True r
                 (found \<or> ((of_char lo :: nat) \<le> of_char r \<and> (of_char r :: nat) \<le> of_char hi)) es))"
  by pat_completeness auto
termination
proof (relation "measure (\<lambda>(seen, r, found, chunk). length chunk)", goal_cases)
  case 1
  show ?case by simp
next
  case (2 seen r found chunk x lo ds y hi es)
  have "get_esc chunk = Some (lo, ds)"
    using 2 by simp
  from get_esc_length [OF this] have a: "length ds < length chunk" "ds \<noteq> []"
    by simp_all
  have "length es \<le> length ds"
  proof (cases "hd ds = CHR ''-''")
    case True
    then have "get_esc (tl ds) = Some (hi, es)" using 2 by auto
    from get_esc_length [OF this] show ?thesis by auto
  next
    case False
    then show ?thesis using 2 by auto
  qed
  with a show ?case by simp
qed

declare parse_ranges.simps [simp del]

lemma parse_ranges_length:
  "parse_ranges seen r found chunk = Some (m, ds) \<Longrightarrow> length ds \<le> length chunk"
proof (induction seen r found chunk rule: parse_ranges.induct)
  case (1 seen r found chunk)
  show ?case
  proof (cases "chunk \<noteq> [] \<and> hd chunk = CHR '']'' \<and> seen")
    case True
    with "1.prems" show ?thesis by (subst (asm) parse_ranges.simps) auto
  next
    case False
    then obtain lo cs hi es where p: "get_esc chunk = Some (lo, cs)"
      "(if hd cs = CHR ''-'' then get_esc (tl cs) else Some (lo, cs)) = Some (hi, es)"
      "parse_ranges True r
         (found \<or> ((of_char lo :: nat) \<le> of_char r \<and> (of_char r :: nat) \<le> of_char hi)) es = Some (m, ds)"
      using "1.prems" by (subst (asm) parse_ranges.simps) (auto split: option.splits)
    have "length ds \<le> length es"
      using "1.IH" [OF False p(1) refl p(2) refl] p(3) by simp
    moreover have "length es \<le> length cs"
      using p(2) get_esc_length [of "tl cs" hi es] by (auto split: if_splits)
    ultimately show ?thesis
      using get_esc_length [OF p(1)] by simp
  qed
qed

text \<open>
  \<open>match_chunk failed chunk s\<close>: once the match has failed the rest of the chunk is only
  checked for well-formedness.
\<close>

function match_chunk :: "bool \<Rightarrow> string \<Rightarrow> string \<Rightarrow> chunk_result" where
  "match_chunk failed [] s = (if failed then No_Match else Rest s)"
| "match_chunk failed (c # cs) s =
     (let failed = (failed \<or> s = []) in
      if c = CHR ''['' then
        (let neg = (cs \<noteq> [] \<and> hd cs = CHR ''^'');
             r = (if failed then CHR 0x00 else hd s)
         in case parse_ranges False r False (if neg then tl cs else cs) of
              None \<Rightarrow> Bad_Pattern
            | Some (m, ds) \<Rightarrow> match_chunk (failed \<or> m = neg) ds (if failed then s else tl s))
      else if c = CHR ''?'' then
        match_chunk (failed \<or> hd s = CHR ''/'') cs (if failed then s else tl s)
      else if c = CHR 0x5C then
        (case cs of [] \<Rightarrow> Bad_Pattern
         | d # ds \<Rightarrow> match_chunk (failed \<or> d \<noteq> hd s) ds (if failed then s else tl s))
      else match_chunk (failed \<or> c \<noteq> hd s) cs (if failed then s else tl s))"
  by pat_completeness auto
termination
proof (relation "measure (\<lambda>(failed, chunk, s). length chunk)", goal_cases)
  case (2 failed c cs s)
  then show ?case by (auto dest!: parse_ranges_length split: if_splits)
qed (auto dest!: parse_ranges_length)

fun star_match :: "string \<Rightarrow> bool \<Rightarrow> string \<Rightarrow> chunk_result" where
  "star_match chunk final [] = No_Match"
| "star_match chunk final (c # cs) =
     (if c = CHR ''/'' then No_Match
      else case match_chunk False chunk cs of
        Bad_Pattern \<Rightarrow> Bad_Pattern
      | No_Match \<Rightarrow> star_match chunk final cs
      | Rest t \<Rightarrow> if final \<and> t \<noteq> [] then star_match chunk final cs else Rest t)"

section \<open>The whole pattern\<close>

lemma scan_chunk_append: "fst (scan_chunk b p) @ snd (scan_chunk b p) = p"
  by (induction b p rule: scan_chunk.induct) simp_all

lemma drop_stars_length: "length (drop_stars p) \<le> length p"
  by (induction p) auto

lemma drop_stars_less: "p \<noteq> [] \<Longrightarrow> hd p = CHR ''*'' \<Longrightarrow> length (drop_stars p) < length p"
  using drop_stars_length by (cases p) (auto simp: le_imp_less_Suc)

lemma scan_chunk_nonempty:
  "p \<noteq> [] \<Longrightarrow> hd p \<noteq> CHR ''*'' \<Longrightarrow> fst (scan_chunk False p) \<noteq> []"
  by (cases "(False, p)" rule: scan_chunk.cases) auto

function glob_match :: "string \<Rightarrow> string \<Rightarrow> bool option" where
  "glob_match [] name = Some (name = [])"
| "glob_match (p # ps) name =
     (let star = (p = CHR ''*'');
          (chunk, rest) = scan_chunk False (drop_stars (p # ps))
      in if star \<and> chunk = [] then Some (CHR ''/'' \<notin> set name)
         else case (case match_chunk False chunk name of
                 Rest t \<Rightarrow> if t = [] \<or> rest \<noteq> [] then Rest t
                           else if star then star_match chunk (rest = []) name else No_Match
               | Bad_Pattern \<Rightarrow> Bad_Pattern
               | No_Match \<Rightarrow> if star then star_match chunk (rest = []) name else No_Match) of
             Rest t \<Rightarrow> glob_match rest t
           | Bad_Pattern \<Rightarrow> None
           | No_Match \<Rightarrow> Some False)"
  by pat_completeness auto
termination
proof (relation "measure (\<lambda>(p, name). length p)", goal_cases)
  case 1
  show ?case by simp
next
  case (2 p ps name star x chunk rest)
  have sc: "scan_chunk False (drop_stars (p # ps)) = (chunk, rest)"
    using 2 by simp
  have len: "length (drop_stars (p # ps)) = length chunk + length rest"
    using arg_cong [OF scan_chunk_append [of False "drop_stars (p # ps)"], of length] sc by simp
  show ?case
  proof (cases "p = CHR ''*''")
    case True
    then have "length (drop_stars (p # ps)) < length (p # ps)"
      by (intro drop_stars_less) auto
    with len show ?thesis by simp
  next
    case False
    then have "drop_stars (p # ps) = p # ps" by simp
    moreover have "chunk \<noteq> []"
      using scan_chunk_nonempty [of "p # ps"] False sc by simp
    ultimately show ?thesis using len by (cases chunk) auto
  qed
qed

declare glob_match.simps(2) [simp del]

text \<open>The boolean the policy engine keeps: \<^verbatim>\<open>matched, _ := filepath.Match(p, n)\<close>.\<close>

definition glob_matched :: "string \<Rightarrow> string \<Rightarrow> bool" where
  "glob_matched p n \<longleftrightarrow> glob_match p n = Some True"

section \<open>Literal and prefix patterns\<close>

definition glob_literal :: "string \<Rightarrow> bool" where
  "glob_literal p \<longleftrightarrow> (\<forall>c \<in> set p. c \<notin> {CHR ''*'', CHR ''?'', CHR ''['', CHR '']'', CHR 0x5C})"

lemma glob_literal_simps [simp]:
  "glob_literal []"
  "glob_literal (c # p) \<longleftrightarrow> c \<noteq> CHR ''*'' \<and> c \<noteq> CHR ''?'' \<and> c \<noteq> CHR ''['' \<and>
     c \<noteq> CHR '']'' \<and> c \<noteq> CHR 0x5C \<and> glob_literal p"
  by (auto simp: glob_literal_def)

lemma match_chunk_failed_literal:
  "glob_literal p \<Longrightarrow> match_chunk True p s = No_Match"
  by (induction p arbitrary: s) (simp_all add: Let_def)

lemma match_chunk_literal:
  "glob_literal p \<Longrightarrow>
   match_chunk False p s = (if HasPrefix s p then Rest (drop (length p) s) else No_Match)"
proof (induction p arbitrary: s)
  case (Cons c p)
  then show ?case
    by (cases s; cases "c = hd s") (simp_all add: Let_def match_chunk_failed_literal)
qed simp

lemma scan_chunk_literal:
  "glob_literal p \<Longrightarrow> r = [] \<or> hd r = CHR ''*'' \<Longrightarrow> scan_chunk False (p @ r) = (p, r)"
proof (induction p)
  case Nil
  then show ?case by (cases "(False, r)" rule: scan_chunk.cases) auto
next
  case (Cons c p)
  then have c: "c \<notin> {CHR ''*'', CHR ''?'', CHR ''['', CHR '']'', CHR 0x5C}"
    and p: "scan_chunk False (p @ r) = (p, r)" by auto
  show ?case
  proof (cases "p @ r")
    case Nil
    with c show ?thesis by simp
  next
    case (Cons d ds)
    then have "scan_chunk False (c # p @ r) = apfst (Cons c) (scan_chunk False (p @ r))"
      using c by simp
    then show ?thesis by (simp add: p)
  qed
qed

lemma glob_match_literal:
  assumes "glob_literal p"
  shows "glob_match p n = Some (n = p)"
proof (cases p)
  case (Cons c cs)
  with assms have c: "c \<noteq> CHR ''*''" by simp
  have sc: "scan_chunk False (c # cs) = (c # cs, [])"
    using scan_chunk_literal [OF assms, of "[]"] Cons by simp
  show ?thesis
    using c sc match_chunk_literal [OF assms] Cons
    by (auto simp: glob_match.simps(2) HasPrefix_iff)
qed auto

lemma glob_match_star: "glob_match ''*'' n = Some (CHR ''/'' \<notin> set n)"
  by (simp add: glob_match.simps(2))

text \<open>A prefix pattern such as \<^verbatim>\<open>prod-*\<close>: the rest of the name must not cross a slash.\<close>

lemma glob_match_prefix:
  assumes "glob_literal p"
  shows "glob_match (p @ ''*'') n = Some (\<exists>s. n = p @ s \<and> CHR ''/'' \<notin> set s)"
proof (cases p)
  case Nil
  then show ?thesis by (simp add: glob_match_star)
next
  case (Cons c cs)
  with assms have c: "c \<noteq> CHR ''*''" by simp
  have sc: "scan_chunk False (c # cs @ ''*'') = (c # cs, ''*'')"
    using scan_chunk_literal [OF assms, of "''*''"] Cons by simp
  show ?thesis
    using c sc match_chunk_literal [OF assms, of n] Cons
    by (auto simp: glob_match.simps(2) [of c] glob_match_star HasPrefix_iff)
qed

lemmas glob_eval = glob_matched_def glob_match.simps(2) parse_ranges.simps get_esc_def Let_def

end
