(* ===== verification/Policy_Engine.thy ===== *)
theory Policy_Engine
  imports Policy_Explain Go_Glob
begin

text \<open>
  The evaluation of \<^verbatim>\<open>internal/policy/engine.go\<close>. An engine holds the loaded
  configuration, the default effect and the dry-run switch; \<open>Explain\<close> returns the decision
  with its trace. \<open>tz\<close> is the zone database and \<open>now\<close> the reading of
  \<^verbatim>\<open>time.Now()\<close>. Logging is left out.

  The specification \<open>first_match\<close> at the end of the definitions is what the engine
  promises: among all rules of all policies, in order, the first one that governs the request
  decides, and the default effect applies when there is none.
\<close>

section \<open>Matching\<close>

fun principal_matches :: "request_principal \<Rightarrow> principal_spec list \<Rightarrow> bool" where
  "principal_matches pr [] = False"
| "principal_matches pr (p # ps) =
     (if ps_Any p then True
      else if ps_User p \<noteq> [] \<and> ps_User p = rp_UserID pr then True
      else if ps_Service p \<noteq> [] \<and> ps_Service p = rp_Service pr then True
      else if ps_Role p \<noteq> [] \<and> List.member (rp_Roles pr) (ps_Role p) then True
      else principal_matches pr ps)"

definition matchesPrincipal :: "policy \<Rightarrow> request_principal \<Rightarrow> bool" where
  "matchesPrincipal pol pr =
     (if pol_Principals pol = [] then True else principal_matches pr (pol_Principals pol))"

definition allPresent :: "string list \<Rightarrow> string list \<Rightarrow> bool" where
  "allPresent required available = list_all (\<lambda>s. List.member available s) required"

definition hasAllTags :: "string list \<Rightarrow> string list \<Rightarrow> bool" where
  "hasAllTags resourceTags requiredTags = list_all (\<lambda>t. List.member resourceTags t) requiredTags"

definition resource_entry_matches :: "request_resource \<Rightarrow> resource_spec \<Rightarrow> bool" where
  "resource_entry_matches res r =
     (let m = rs_Match r in
      if rs_Type r \<noteq> rr_Type res then False
      else if rm_Name m \<noteq> [] \<and> rm_Name m \<noteq> rr_Name res then False
      else if rm_NamePattern m \<noteq> [] \<and> \<not> glob_matched (rm_NamePattern m) (rr_Name res) then False
      else if rm_Namespace m \<noteq> [] \<and> rm_Namespace m \<noteq> rr_Namespace res then False
      else if rm_Tags m \<noteq> [] \<and> \<not> hasAllTags (rr_Tags res) (rm_Tags m) then False
      else if rm_Sensitivity m \<noteq> [] \<and> \<not> allPresent (rm_Sensitivity m) (rr_Sensitivity res) then False
      else if rm_Tool m \<noteq> [] \<and> rm_Tool m \<noteq> rr_ToolName res then False
      else if rm_ToolPattern m \<noteq> [] \<and> \<not> glob_matched (rm_ToolPattern m) (rr_ToolName res) then False
      else True)"

definition matchesResource :: "policy \<Rightarrow> request_resource \<Rightarrow> bool" where
  "matchesResource pol res = list_ex (resource_entry_matches res) (pol_Resources pol)"

definition resourceTagSets :: "policy \<Rightarrow> string \<Rightarrow> string list list" where
  "resourceTagSets pol resourceType =
     map (\<lambda>r. rm_Tags (rs_Match r))
       (filter (\<lambda>r. rs_Type r = resourceType \<and> rm_Tags (rs_Match r) \<noteq> []) (pol_Resources pol))"

definition actionsToStrings :: "string list \<Rightarrow> string list" where
  "actionsToStrings am = am"

section \<open>Conditions\<close>

text \<open>Go truncates integer division; ages are not negative.\<close>

definition fmtAgeSecs :: "int \<Rightarrow> string" where
  "fmtAgeSecs secs =
     (if secs \<ge> 3600 then Itoa (secs div 3600) @ ''h '' @ Itoa (secs mod 3600 div 60) @ ''m''
      else if secs \<ge> 60 then Itoa (secs div 60) @ ''m '' @ Itoa (secs mod 60) @ ''s''
      else Itoa secs @ ''s'')"

definition formatMessage :: "string \<Rightarrow> string" where
  "formatMessage s = TrimSpace s"

definition deny_with :: "string \<Rightarrow> string \<Rightarrow> decision \<Rightarrow> decision" where
  "deny_with msg cond d = d\<lparr>dc_Effect := EffectDeny, dc_Message := formatMessage msg,
     dc_Conditions := dc_Conditions d @ [formatMessage cond]\<rparr>"

definition cond_approval ::
  "conditions \<Rightarrow> decision \<times> condition_trace list \<Rightarrow> decision \<times> condition_trace list" where
  "cond_approval c x = (let (d, ts) = x in
     if co_RequireApproval c then
       (let q = (if co_ApprovalQuorum c = 0 then 1 else co_ApprovalQuorum c);
            d' = d\<lparr>dc_RequiresApproval := True, dc_ApprovalQuorum := q\<rparr>;
            d'' = (if dc_Effect d' = EffectAllow then d'\<lparr>dc_Effect := EffectRequireApproval\<rparr> else d')
        in (d'', ts @ [\<lparr>ct_Name = ''require_approval'', ct_Passed = True,
                        ct_Detail = ''quorum: '' @ Itoa q\<rparr>]))
     else (d, ts))"

definition cond_rows ::
  "conditions \<Rightarrow> request \<Rightarrow> decision \<times> condition_trace list \<Rightarrow> decision \<times> condition_trace list" where
  "cond_rows c req x = (let (d, ts) = x; n = rc_RowsAffected (rq_Context req); lim = co_MaxRowsAffected c in
     if lim > 0 then
       ((if n > lim then
           deny_with (''Operation affects '' @ Itoa n @ '' rows, limit is '' @ Itoa lim)
             (''max '' @ Itoa lim @ '' rows'') d
         else d),
        ts @ [\<lparr>ct_Name = ''max_rows_affected'', ct_Passed = (\<not> n > lim),
               ct_Detail = Itoa n @ '' rows affected, limit is '' @ Itoa lim\<rparr>])
     else (d, ts))"

definition cond_pods ::
  "conditions \<Rightarrow> request \<Rightarrow> decision \<times> condition_trace list \<Rightarrow> decision \<times> condition_trace list" where
  "cond_pods c req x = (let (d, ts) = x; n = rc_PodsAffected (rq_Context req); lim = co_MaxPodsAffected c in
     if lim > 0 then
       ((if n > lim then
           deny_with (''Operation affects '' @ Itoa n @ '' pods, limit is '' @ Itoa lim)
             (''max '' @ Itoa lim @ '' pods'') d
         else d),
        ts @ [\<lparr>ct_Name = ''max_pods_affected'', ct_Passed = (\<not> n > lim),
               ct_Detail = Itoa n @ '' pods affected, limit is '' @ Itoa lim\<rparr>])
     else (d, ts))"

definition cond_xact_age ::
  "conditions \<Rightarrow> request \<Rightarrow> decision \<times> condition_trace list \<Rightarrow> decision \<times> condition_trace list" where
  "cond_xact_age c req x = (let (d, ts) = x; n = rc_XactAgeSecs (rq_Context req); lim = co_MaxXactAgeSecs c in
     if lim > 0 \<and> n > 0 then
       ((if n > lim then
           deny_with (''Transaction has been open for '' @ fmtAgeSecs n @
               ''; rollback may take as long. Limit is '' @ fmtAgeSecs lim)
             (''max_xact_age: '' @ Itoa lim @ ''s'') d
         else d),
        ts @ [\<lparr>ct_Name = ''max_xact_age_secs'', ct_Passed = (\<not> n > lim),
               ct_Detail = ''transaction age '' @ Itoa n @ ''s, limit '' @ Itoa lim @ ''s''\<rparr>])
     else (d, ts))"

text \<open>The purpose conditions return at once when they fail: the flag says to stop.\<close>

definition cond_allowed ::
  "conditions \<Rightarrow> request \<Rightarrow> decision \<times> condition_trace list \<Rightarrow> bool \<times> decision \<times> condition_trace list" where
  "cond_allowed c req x = (let (d, ts) = x; p = rc_Purpose (rq_Context req); ps = co_AllowedPurposes c in
     if ps \<noteq> [] then
       (let allowed = List.member ps p;
            ts' = ts @ [\<lparr>ct_Name = ''allowed_purposes'', ct_Passed = allowed,
                         ct_Detail = ''purpose='' @ Quote p @ '' allowed='' @ fmt_strs ps\<rparr>]
        in if \<not> allowed then
             (True, deny_with (''Purpose '' @ Quote p @ '' is not in the allowed list '' @ fmt_strs ps)
                (''allowed_purposes: '' @ fmt_strs ps) d, ts')
           else (False, d, ts'))
     else (False, d, ts))"

definition cond_blocked ::
  "conditions \<Rightarrow> request \<Rightarrow> decision \<times> condition_trace list \<Rightarrow> decision \<times> condition_trace list" where
  "cond_blocked c req x = (let (d, ts) = x; p = rc_Purpose (rq_Context req); ps = co_BlockedPurposes c in
     if ps \<noteq> [] then
       (let blocked = List.member ps p;
            ts' = ts @ [\<lparr>ct_Name = ''blocked_purposes'', ct_Passed = (\<not> blocked),
                         ct_Detail = ''purpose='' @ Quote p @ '' blocked='' @ fmt_strs ps\<rparr>]
        in if blocked then
             (deny_with (''Purpose '' @ Quote p @ '' is in the blocked list '' @ fmt_strs ps)
                (''blocked_purposes: '' @ fmt_strs ps) d, ts')
           else (d, ts'))
     else (d, ts))"

definition applyConditionsWithTrace ::
  "decision \<Rightarrow> conditions \<Rightarrow> request \<Rightarrow> decision \<times> condition_trace list" where
  "applyConditionsWithTrace d c req =
     (let x = cond_xact_age c req (cond_pods c req (cond_rows c req (cond_approval c (d, []))));
          (stop, y) = cond_allowed c req x
      in if stop then y else cond_blocked c req y)"

section \<open>Evaluation\<close>

definition rule_scheduled :: "zones \<Rightarrow> request \<Rightarrow> rule \<Rightarrow> bool" where
  "rule_scheduled tz req r = (case ru_Conditions r of
     None \<Rightarrow> True
   | Some c \<Rightarrow> (case co_Schedule c of
       None \<Rightarrow> True
     | Some s \<Rightarrow> schedule_IsActive tz (Some s) (rc_Timestamp (rq_Context req))))"

definition rule_decision :: "policy \<Rightarrow> nat \<Rightarrow> rule \<Rightarrow> request \<Rightarrow> decision \<times> condition_trace list" where
  "rule_decision pol i r req =
     (let d = \<lparr>dc_Effect = ru_Effect r, dc_PolicyName = pol_Name pol, dc_RuleIndex = i,
               dc_Message = ru_Message r, dc_Conditions = [], dc_RequiresApproval = False,
               dc_ApprovalQuorum = 0\<rparr>
      in case ru_Conditions r of
           None \<Rightarrow> (d, [])
         | Some c \<Rightarrow> applyConditionsWithTrace d c req)"

fun explain_rules ::
  "zones \<Rightarrow> policy \<Rightarrow> request \<Rightarrow> nat \<Rightarrow> rule list \<Rightarrow> rule_trace list \<times> decision option" where
  "explain_rules tz pol req i [] = ([], None)"
| "explain_rules tz pol req i (r # rs) =
     (let rt = \<lparr>rt_Index = i, rt_Actions = actionsToStrings (ru_Action r), rt_Effect = ru_Effect r,
                rt_Matched = False, rt_SkipReason = [], rt_Conditions = []\<rparr>
      in if \<not> action_Matches (ru_Action r) (rq_Action req) then
           apfst (Cons (rt\<lparr>rt_SkipReason := ''action_mismatch''\<rparr>)) (explain_rules tz pol req (Suc i) rs)
         else if \<not> rule_scheduled tz req r then
           apfst (Cons (rt\<lparr>rt_SkipReason := ''schedule_inactive''\<rparr>)) (explain_rules tz pol req (Suc i) rs)
         else
           (let (d, cts) = rule_decision pol i r req
            in ([rt\<lparr>rt_Matched := True, rt_Effect := dc_Effect d, rt_Conditions := cts\<rparr>], Some d)))"

fun explain_policies ::
  "zones \<Rightarrow> request \<Rightarrow> policy list \<Rightarrow> policy_trace list \<times> decision option" where
  "explain_policies tz req [] = ([], None)"
| "explain_policies tz req (pol # pols) =
     (let pt = \<lparr>pt_PolicyName = pol_Name pol, pt_Matched = False, pt_SkipReason = [],
                pt_RequiredTags = [], pt_Rules = []\<rparr>
      in if \<not> IsEnabled pol then
           apfst (Cons (pt\<lparr>pt_SkipReason := ''disabled''\<rparr>)) (explain_policies tz req pols)
         else if \<not> matchesPrincipal pol (rq_Principal req) then
           apfst (Cons (pt\<lparr>pt_SkipReason := ''principal_mismatch''\<rparr>)) (explain_policies tz req pols)
         else if \<not> matchesResource pol (rq_Resource req) then
           apfst (Cons (pt\<lparr>pt_SkipReason := ''resource_mismatch'',
                           pt_RequiredTags := resourceTagSets pol (rr_Type (rq_Resource req))\<rparr>))
             (explain_policies tz req pols)
         else
           (let (rts, d) = explain_rules tz pol req 0 (pol_Rules pol);
                pt = pt\<lparr>pt_Matched := True, pt_Rules := rts\<rparr>
            in case d of
                 Some dec \<Rightarrow> ([pt], Some dec)
               | None \<Rightarrow> apfst (Cons pt) (explain_policies tz req pols)))"

record engine =
  en_Config :: config
  en_DefaultEffect :: string
  en_DryRun :: bool

definition default_decision :: "engine \<Rightarrow> decision" where
  "default_decision e = \<lparr>dc_Effect = en_DefaultEffect e, dc_PolicyName = ''default'', dc_RuleIndex = 0,
     dc_Message = ''No matching policy found'', dc_Conditions = [], dc_RequiresApproval = False,
     dc_ApprovalQuorum = 0\<rparr>"

definition explainEvaluate :: "zones \<Rightarrow> engine \<Rightarrow> request \<Rightarrow> decision_trace" where
  "explainEvaluate tz e req =
     (let (pts, d) = explain_policies tz req (cfg_Policies (en_Config e))
      in case d of
           Some dec \<Rightarrow> \<lparr>dt_Decision = dec, dt_PoliciesEvaluated = pts, dt_DefaultApplied = False,
                        dt_Explanation = []\<rparr>
         | None \<Rightarrow> \<lparr>dt_Decision = default_decision e, dt_PoliciesEvaluated = pts,
                    dt_DefaultApplied = True, dt_Explanation = []\<rparr>)"

definition with_timestamp :: "go_time \<Rightarrow> request \<Rightarrow> request" where
  "with_timestamp now req =
     (if fst (rc_Timestamp (rq_Context req)) = 0
      then req\<lparr>rq_Context := (rq_Context req)\<lparr>rc_Timestamp := now\<rparr>\<rparr> else req)"

definition Explain :: "zones \<Rightarrow> go_time \<Rightarrow> engine \<Rightarrow> request \<Rightarrow> decision_trace" where
  "Explain tz now e req0 =
     (let req = with_timestamp now req0;
          trace = explainEvaluate tz e req;
          trace = trace\<lparr>dt_Explanation := buildExplanation req trace\<rparr>;
          dec = dt_Decision trace
      in if en_DryRun e \<and> dc_Effect dec \<noteq> EffectAllow then
           trace\<lparr>dt_Decision := dec\<lparr>dc_Message := ''[DRY RUN] '' @ dc_Message dec,
                                     dc_Effect := EffectAllow\<rparr>\<rparr>
         else trace)"

definition Evaluate :: "zones \<Rightarrow> go_time \<Rightarrow> engine \<Rightarrow> request \<Rightarrow> decision" where
  "Evaluate tz now e req = dt_Decision (Explain tz now e req)"

section \<open>Errors of a decision\<close>

datatype policy_error =
    DeniedError decision string
  | ApprovalRequiredError decision

definition MustAllow :: "decision \<Rightarrow> policy_error option" where
  "MustAllow d =
     (if IsAllowed d then None
      else if NeedsApproval d then Some (ApprovalRequiredError d)
      else Some (DeniedError d []))"

fun policy_error_Error :: "policy_error \<Rightarrow> string" where
  "policy_error_Error (DeniedError d expl) =
     (if expl \<noteq> [] then expl
      else if dc_Message d \<noteq> [] then ''policy denied: '' @ dc_Message d
      else ''policy denied by '' @ dc_PolicyName d)"
| "policy_error_Error (ApprovalRequiredError d) =
     (if dc_Message d \<noteq> [] then ''approval required: '' @ dc_Message d
      else ''approval required by policy '' @ dc_PolicyName d)"

definition IsApprovalRequired :: "policy_error option \<Rightarrow> bool" where
  "IsApprovalRequired err = (case err of Some (ApprovalRequiredError _) \<Rightarrow> True | _ \<Rightarrow> False)"

definition IsDeniedErr :: "policy_error option \<Rightarrow> bool" where
  "IsDeniedErr err = (case err of Some (DeniedError _ _) \<Rightarrow> True | _ \<Rightarrow> False)"

section \<open>Specification: the first governing rule decides\<close>

definition candidates :: "policy list \<Rightarrow> (policy \<times> nat \<times> rule) list" where
  "candidates pols = concat (map (\<lambda>p. map (Pair p) (enumerate 0 (pol_Rules p))) pols)"

definition governs :: "zones \<Rightarrow> request \<Rightarrow> policy \<times> nat \<times> rule \<Rightarrow> bool" where
  "governs tz req x = (case x of (p, i, r) \<Rightarrow>
     IsEnabled p \<and> matchesPrincipal p (rq_Principal req) \<and> matchesResource p (rq_Resource req) \<and>
     rq_Action req \<in> set (ru_Action r) \<and> rule_scheduled tz req r)"

definition decide :: "request \<Rightarrow> policy \<times> nat \<times> rule \<Rightarrow> decision" where
  "decide req x = (case x of (p, i, r) \<Rightarrow> fst (rule_decision p i r req))"

definition first_match :: "zones \<Rightarrow> engine \<Rightarrow> request \<Rightarrow> decision" where
  "first_match tz e req =
     (case find (governs tz req) (candidates (cfg_Policies (en_Config e))) of
        Some x \<Rightarrow> decide req x
      | None \<Rightarrow> default_decision e)"

text \<open>What the conditions of a rule forbid for a request.\<close>

definition limits_exceeded :: "conditions \<Rightarrow> request \<Rightarrow> bool" where
  "limits_exceeded c req \<longleftrightarrow> (let x = rq_Context req in
     (0 < co_MaxRowsAffected c \<and> co_MaxRowsAffected c < rc_RowsAffected x) \<or>
     (0 < co_MaxPodsAffected c \<and> co_MaxPodsAffected c < rc_PodsAffected x) \<or>
     (0 < co_MaxXactAgeSecs c \<and> co_MaxXactAgeSecs c < rc_XactAgeSecs x))"

definition purpose_refused :: "conditions \<Rightarrow> request \<Rightarrow> bool" where
  "purpose_refused c req \<longleftrightarrow> (let p = rc_Purpose (rq_Context req) in
     (co_AllowedPurposes c \<noteq> [] \<and> p \<notin> set (co_AllowedPurposes c)) \<or> p \<in> set (co_BlockedPurposes c))"

section \<open>Facts about matching\<close>

lemma principal_matches_iff:
  "principal_matches pr ps \<longleftrightarrow> (\<exists>p \<in> set ps. ps_Any p \<or>
     (ps_User p \<noteq> [] \<and> ps_User p = rp_UserID pr) \<or>
     (ps_Service p \<noteq> [] \<and> ps_Service p = rp_Service pr) \<or>
     (ps_Role p \<noteq> [] \<and> ps_Role p \<in> set (rp_Roles pr)))"
  by (induction ps) auto

lemma allPresent_iff: "allPresent req av \<longleftrightarrow> set req \<subseteq> set av"
  by (auto simp: allPresent_def list_all_iff)

lemma hasAllTags_iff: "hasAllTags av req \<longleftrightarrow> set req \<subseteq> set av"
  by (auto simp: hasAllTags_def list_all_iff)

lemma matchesResource_iff:
  "matchesResource pol res \<longleftrightarrow> (\<exists>r \<in> set (pol_Resources pol). resource_entry_matches res r)"
  by (simp add: matchesResource_def list_ex_iff)

section \<open>Facts about conditions\<close>

text \<open>
  Each step of the chain changes the decision through one guarded update and appends at most
  one trace entry; the lemmas below state that per step, and the chain follows by rewriting.
\<close>

lemma deny_with_simps [simp]:
  "dc_Effect (deny_with m s d) = EffectDeny"
  "dc_RequiresApproval (deny_with m s d) = dc_RequiresApproval d"
  "dc_ApprovalQuorum (deny_with m s d) = dc_ApprovalQuorum d"
  "dc_PolicyName (deny_with m s d) = dc_PolicyName d"
  "dc_RuleIndex (deny_with m s d) = dc_RuleIndex d"
  by (simp_all add: deny_with_def)

definition same_but_effect :: "decision \<Rightarrow> decision \<Rightarrow> bool" where
  "same_but_effect d d' \<longleftrightarrow> dc_RequiresApproval d' = dc_RequiresApproval d \<and>
     dc_ApprovalQuorum d' = dc_ApprovalQuorum d \<and> dc_PolicyName d' = dc_PolicyName d \<and>
     dc_RuleIndex d' = dc_RuleIndex d"

definition failed :: "condition_trace list \<Rightarrow> bool" where
  "failed ts \<longleftrightarrow> (\<exists>t \<in> set ts. \<not> ct_Passed t)"

text \<open>A step that denies exactly when \<open>b\<close> holds, and records a failure exactly then.\<close>

definition denies :: "bool \<Rightarrow> decision \<times> condition_trace list \<Rightarrow> decision \<times> condition_trace list \<Rightarrow> bool" where
  "denies b x y \<longleftrightarrow> dc_Effect (fst y) = (if b then EffectDeny else dc_Effect (fst x)) \<and>
     same_but_effect (fst x) (fst y) \<and> (failed (snd y) \<longleftrightarrow> failed (snd x) \<or> b)"

lemma denies_trans: "denies b x y \<Longrightarrow> denies b' y z \<Longrightarrow> denies (b \<or> b') x z"
  by (auto simp: denies_def same_but_effect_def)

lemma cond_rows_denies:
  "denies (0 < co_MaxRowsAffected c \<and> co_MaxRowsAffected c < rc_RowsAffected (rq_Context req))
     x (cond_rows c req x)"
  by (cases x) (auto simp: cond_rows_def denies_def same_but_effect_def failed_def Let_def)

lemma cond_pods_denies:
  "denies (0 < co_MaxPodsAffected c \<and> co_MaxPodsAffected c < rc_PodsAffected (rq_Context req))
     x (cond_pods c req x)"
  by (cases x) (auto simp: cond_pods_def denies_def same_but_effect_def failed_def Let_def)

lemma cond_xact_age_denies:
  "denies (0 < co_MaxXactAgeSecs c \<and> co_MaxXactAgeSecs c < rc_XactAgeSecs (rq_Context req))
     x (cond_xact_age c req x)"
  by (cases x) (auto simp: cond_xact_age_def denies_def same_but_effect_def failed_def Let_def)

definition not_in_allowed :: "conditions \<Rightarrow> request \<Rightarrow> bool" where
  "not_in_allowed c req \<longleftrightarrow>
     co_AllowedPurposes c \<noteq> [] \<and> rc_Purpose (rq_Context req) \<notin> set (co_AllowedPurposes c)"

lemma cond_allowed_denies:
  "denies (not_in_allowed c req) x (snd (cond_allowed c req x))"
  by (cases x) (auto simp: cond_allowed_def denies_def same_but_effect_def failed_def Let_def
      not_in_allowed_def)

lemma cond_allowed_stops:
  "fst (cond_allowed c req x) \<longleftrightarrow> not_in_allowed c req"
  by (cases x) (auto simp: cond_allowed_def Let_def not_in_allowed_def)

lemma cond_blocked_denies:
  "denies (rc_Purpose (rq_Context req) \<in> set (co_BlockedPurposes c)) x (cond_blocked c req x)"
  by (cases x) (auto simp: cond_blocked_def denies_def same_but_effect_def failed_def Let_def)

lemma applyConditions_denies:
  "denies (limits_exceeded c req \<or> purpose_refused c req)
     (cond_approval c (d, [])) (applyConditionsWithTrace d c req)"
proof -
  let ?x = "cond_xact_age c req (cond_pods c req (cond_rows c req (cond_approval c (d, []))))"
  have lim: "denies (limits_exceeded c req) (cond_approval c (d, [])) ?x"
    using denies_trans [OF denies_trans [OF cond_rows_denies cond_pods_denies] cond_xact_age_denies]
    by (simp add: limits_exceeded_def Let_def disj_assoc)
  have al: "denies (limits_exceeded c req \<or> not_in_allowed c req)
      (cond_approval c (d, [])) (snd (cond_allowed c req ?x))"
    by (rule denies_trans [OF lim cond_allowed_denies])
  have unf: "applyConditionsWithTrace d c req =
      (if not_in_allowed c req then snd (cond_allowed c req ?x)
       else cond_blocked c req (snd (cond_allowed c req ?x)))"
    by (simp add: applyConditionsWithTrace_def Let_def case_prod_beta cond_allowed_stops)
  show ?thesis
  proof (cases "not_in_allowed c req")
    case True
    with al unf show ?thesis
      by (simp add: purpose_refused_def not_in_allowed_def Let_def)
  next
    case False
    then have "purpose_refused c req \<longleftrightarrow> rc_Purpose (rq_Context req) \<in> set (co_BlockedPurposes c)"
      by (auto simp: purpose_refused_def not_in_allowed_def Let_def)
    with denies_trans [OF al cond_blocked_denies] unf False show ?thesis by simp
  qed
qed

lemma cond_approval_simps:
  "dc_Effect (fst (cond_approval c (d, []))) =
     (if co_RequireApproval c \<and> dc_Effect d = EffectAllow then EffectRequireApproval else dc_Effect d)"
  "dc_RequiresApproval (fst (cond_approval c (d, []))) \<longleftrightarrow> co_RequireApproval c \<or> dc_RequiresApproval d"
  "dc_ApprovalQuorum (fst (cond_approval c (d, []))) =
     (if co_RequireApproval c then (if co_ApprovalQuorum c = 0 then 1 else co_ApprovalQuorum c)
      else dc_ApprovalQuorum d)"
  "dc_PolicyName (fst (cond_approval c (d, []))) = dc_PolicyName d"
  "dc_RuleIndex (fst (cond_approval c (d, []))) = dc_RuleIndex d"
  "failed (snd (cond_approval c (d, []))) \<longleftrightarrow> False"
  by (auto simp: cond_approval_def Let_def failed_def)

lemmas applyConditions_facts =
  applyConditions_denies [unfolded denies_def same_but_effect_def cond_approval_simps]

lemma applyConditions_effect:
  "dc_Effect (fst (applyConditionsWithTrace d c req)) =
     (if limits_exceeded c req \<or> purpose_refused c req then EffectDeny
      else if co_RequireApproval c \<and> dc_Effect d = EffectAllow then EffectRequireApproval
      else dc_Effect d)"
  using applyConditions_facts by blast

lemma applyConditions_requires:
  "dc_RequiresApproval (fst (applyConditionsWithTrace d c req)) \<longleftrightarrow>
     co_RequireApproval c \<or> dc_RequiresApproval d"
  using applyConditions_facts by blast

lemma applyConditions_quorum:
  "dc_ApprovalQuorum (fst (applyConditionsWithTrace d c req)) =
     (if co_RequireApproval c then (if co_ApprovalQuorum c = 0 then 1 else co_ApprovalQuorum c)
      else dc_ApprovalQuorum d)"
  using applyConditions_facts by blast

lemma applyConditions_names:
  "dc_PolicyName (fst (applyConditionsWithTrace d c req)) = dc_PolicyName d"
  "dc_RuleIndex (fst (applyConditionsWithTrace d c req)) = dc_RuleIndex d"
  using applyConditions_facts by blast+

text \<open>A condition trace holds a failed entry exactly when the decision was turned into a denial.\<close>

lemma applyConditions_trace:
  "failed (snd (applyConditionsWithTrace d c req)) \<longleftrightarrow> limits_exceeded c req \<or> purpose_refused c req"
  using applyConditions_facts by blast

section \<open>The engine computes the first governing rule\<close>

definition rule_governs :: "zones \<Rightarrow> request \<Rightarrow> rule \<Rightarrow> bool" where
  "rule_governs tz req r \<longleftrightarrow> rq_Action req \<in> set (ru_Action r) \<and> rule_scheduled tz req r"

definition policy_applies :: "request \<Rightarrow> policy \<Rightarrow> bool" where
  "policy_applies req p \<longleftrightarrow>
     IsEnabled p \<and> matchesPrincipal p (rq_Principal req) \<and> matchesResource p (rq_Resource req)"

lemma governs_iff:
  "governs tz req (p, i, r) \<longleftrightarrow> policy_applies req p \<and> rule_governs tz req r"
  by (auto simp: governs_def policy_applies_def rule_governs_def)

lemma governs_pair:
  "governs tz req (p, x) \<longleftrightarrow> policy_applies req p \<and> rule_governs tz req (snd x)"
  by (cases x) (simp add: governs_iff)

lemma explain_rules_spec:
  "snd (explain_rules tz pol req i rs) =
     map_option (\<lambda>(j, r). fst (rule_decision pol j r req))
       (find (\<lambda>(j, r). rule_governs tz req r) (enumerate i rs))"
  by (induction tz pol req i rs rule: explain_rules.induct)
     (auto simp: Let_def rule_governs_def split: prod.splits)

lemma find_map_snd:
  "find P (map (Pair p) xs) = map_option (Pair p) (find (\<lambda>x. P (p, x)) xs)"
  by (induction xs) auto

lemma candidates_Cons:
  "candidates (p # ps) = map (Pair p) (enumerate 0 (pol_Rules p)) @ candidates ps"
  by (simp add: candidates_def)

lemma explain_policies_skip:
  "\<not> policy_applies req p \<Longrightarrow>
   snd (explain_policies tz req (p # ps)) = snd (explain_policies tz req ps)"
  by (auto simp: policy_applies_def Let_def)

lemma explain_policies_take:
  "policy_applies req p \<Longrightarrow>
   snd (explain_policies tz req (p # ps)) =
     (case snd (explain_rules tz p req 0 (pol_Rules p)) of
        Some d \<Rightarrow> Some d | None \<Rightarrow> snd (explain_policies tz req ps))"
  by (auto simp: policy_applies_def Let_def split: prod.splits option.splits)

lemma explain_policies_spec:
  "snd (explain_policies tz req ps) = map_option (decide req) (find (governs tz req) (candidates ps))"
proof (induction ps)
  case Nil
  show ?case by (simp add: candidates_def)
next
  case (Cons p ps)
  show ?case
  proof (cases "policy_applies req p")
    case False
    then have "find (governs tz req) (map (Pair p) (enumerate 0 (pol_Rules p))) = None"
      by (auto simp: find_None_iff governs_iff)
    with Cons False show ?thesis
      by (simp add: explain_policies_skip candidates_Cons find_append del: explain_policies.simps)
  next
    case True
    then have "find (governs tz req) (map (Pair p) (enumerate 0 (pol_Rules p))) =
        map_option (Pair p)
          (find (\<lambda>(i, r). rule_governs tz req r) (enumerate 0 (pol_Rules p)))"
      by (simp add: find_map_snd governs_iff case_prod_unfold governs_pair)
    with Cons True show ?thesis
      by (auto simp: explain_policies_take explain_rules_spec candidates_Cons find_append decide_def
          case_prod_unfold simp del: explain_policies.simps split: option.splits)
  qed
qed

lemma explainEvaluate_decision: "dt_Decision (explainEvaluate tz e req) = first_match tz e req"
proof -
  obtain pts d where p: "explain_policies tz req (cfg_Policies (en_Config e)) = (pts, d)"
    by (cases "explain_policies tz req (cfg_Policies (en_Config e))") auto
  then have "d = map_option (decide req)
      (find (governs tz req) (candidates (cfg_Policies (en_Config e))))"
    using explain_policies_spec [of tz req "cfg_Policies (en_Config e)"] by simp
  with p show ?thesis
    by (auto simp: explainEvaluate_def first_match_def split: option.splits)
qed

lemma explainEvaluate_default:
  "dt_DefaultApplied (explainEvaluate tz e req) \<longleftrightarrow>
     (\<forall>x \<in> set (candidates (cfg_Policies (en_Config e))). \<not> governs tz req x)"
proof -
  obtain pts d where p: "explain_policies tz req (cfg_Policies (en_Config e)) = (pts, d)"
    by (cases "explain_policies tz req (cfg_Policies (en_Config e))") auto
  then have "d = map_option (decide req)
      (find (governs tz req) (candidates (cfg_Policies (en_Config e))))"
    using explain_policies_spec [of tz req "cfg_Policies (en_Config e)"] by simp
  with p show ?thesis
    by (auto simp: explainEvaluate_def find_None_iff dest: find_Some_mem split: option.splits)
qed

lemma Evaluate_enforcing:
  "\<not> en_DryRun e \<Longrightarrow> Evaluate tz now e req = first_match tz e (with_timestamp now req)"
  by (simp add: Evaluate_def Explain_def Let_def explainEvaluate_decision)

lemma Evaluate_dry_run:
  "en_DryRun e \<Longrightarrow> dc_Effect (Evaluate tz now e req) = EffectAllow"
  by (simp add: Evaluate_def Explain_def Let_def)

lemma Explain_requires:
  "dc_RequiresApproval (dt_Decision (Explain tz now e req)) =
     dc_RequiresApproval (first_match tz e (with_timestamp now req))"
  by (simp add: Explain_def Let_def explainEvaluate_decision)

lemma rule_decision_effect:
  "dc_Effect (fst (rule_decision p i r req)) =
     (case ru_Conditions r of None \<Rightarrow> ru_Effect r
      | Some c \<Rightarrow> if limits_exceeded c req \<or> purpose_refused c req then EffectDeny
          else if co_RequireApproval c \<and> ru_Effect r = EffectAllow then EffectRequireApproval
          else ru_Effect r)"
  by (auto simp: rule_decision_def Let_def applyConditions_effect split: option.splits)

lemma rule_decision_requires:
  "dc_RequiresApproval (fst (rule_decision p i r req)) \<longleftrightarrow>
     (case ru_Conditions r of None \<Rightarrow> False | Some c \<Rightarrow> co_RequireApproval c)"
  by (auto simp: rule_decision_def Let_def applyConditions_requires split: option.splits)

section \<open>The trace\<close>

definition policy_skip :: "request \<Rightarrow> policy \<Rightarrow> string" where
  "policy_skip req p =
     (if \<not> IsEnabled p then ''disabled''
      else if \<not> matchesPrincipal p (rq_Principal req) then ''principal_mismatch''
      else if \<not> matchesResource p (rq_Resource req) then ''resource_mismatch'' else [])"

definition matched_rules :: "policy_trace list \<Rightarrow> rule_trace list" where
  "matched_rules pts = filter rt_Matched (concat (map pt_Rules pts))"

lemma explain_policies_shape:
  "let pts = fst (explain_policies tz req ps) in
     map pt_PolicyName pts = take (length pts) (map pol_Name ps) \<and>
     map pt_Matched pts = take (length pts) (map (policy_applies req) ps) \<and>
     map pt_SkipReason pts = take (length pts) (map (policy_skip req) ps)"
  by (induction tz req ps rule: explain_policies.induct)
     (auto simp: Let_def policy_applies_def policy_skip_def split: option.splits prod.splits)

lemma explain_rules_matched:
  "filter rt_Matched (fst (explain_rules tz pol req i rs)) =
     (case find (\<lambda>(j, r). rule_governs tz req r) (enumerate i rs) of None \<Rightarrow> []
      | Some (j, r) \<Rightarrow> [\<lparr>rt_Index = j, rt_Actions = ru_Action r,
          rt_Effect = dc_Effect (fst (rule_decision pol j r req)), rt_Matched = True, rt_SkipReason = [],
          rt_Conditions = snd (rule_decision pol j r req)\<rparr>])"
  by (induction tz pol req i rs rule: explain_rules.induct)
     (auto simp: Let_def rule_governs_def actionsToStrings_def split: prod.splits)

lemma matched_rules_Cons:
  "matched_rules (pt # pts) = filter rt_Matched (pt_Rules pt) @ matched_rules pts"
  by (simp add: matched_rules_def)

lemma explain_policies_matched:
  "matched_rules (fst (explain_policies tz req ps)) =
     (case find (governs tz req) (candidates ps) of None \<Rightarrow> []
      | Some (p, j, r) \<Rightarrow> [\<lparr>rt_Index = j, rt_Actions = ru_Action r,
          rt_Effect = dc_Effect (fst (rule_decision p j r req)), rt_Matched = True, rt_SkipReason = [],
          rt_Conditions = snd (rule_decision p j r req)\<rparr>])"
proof (induction ps)
  case Nil
  show ?case by (simp add: candidates_def matched_rules_def)
next
  case (Cons p ps)
  have cands: "find (governs tz req) (candidates (p # ps)) =
      (case map_option (Pair p) (find (\<lambda>x. governs tz req (p, x)) (enumerate 0 (pol_Rules p))) of
         Some x \<Rightarrow> Some x | None \<Rightarrow> find (governs tz req) (candidates ps))"
    by (simp add: candidates_Cons find_append find_map_snd)
  show ?case
  proof (cases "policy_applies req p")
    case False
    then have "find (\<lambda>x. governs tz req (p, x)) (enumerate 0 (pol_Rules p)) = None"
      by (simp add: find_None_iff governs_pair)
    moreover from False have "matched_rules (fst (explain_policies tz req (p # ps))) =
        matched_rules (fst (explain_policies tz req ps))"
      by (auto simp: policy_applies_def Let_def matched_rules_Cons)
    ultimately show ?thesis
      using Cons cands by simp
  next
    case True
    have f: "find (\<lambda>x. governs tz req (p, x)) (enumerate 0 (pol_Rules p)) =
        find (\<lambda>(j, r). rule_governs tz req r) (enumerate 0 (pol_Rules p))"
      using True by (simp add: governs_pair case_prod_unfold)
    have "matched_rules (fst (explain_policies tz req (p # ps))) =
        filter rt_Matched (fst (explain_rules tz p req 0 (pol_Rules p))) @
        (case snd (explain_rules tz p req 0 (pol_Rules p)) of Some d \<Rightarrow> []
         | None \<Rightarrow> matched_rules (fst (explain_policies tz req ps)))"
      using True by (auto simp: policy_applies_def Let_def matched_rules_Cons
          split: option.splits prod.splits) (simp add: matched_rules_def)
    with Cons cands show ?thesis
      by (auto simp: f explain_rules_matched explain_rules_spec simp del: explain_policies.simps
          split: option.splits prod.splits)
  qed
qed

lemma Explain_trace:
  "dt_PoliciesEvaluated (Explain tz now e req) =
     fst (explain_policies tz (with_timestamp now req) (cfg_Policies (en_Config e)))"
  by (simp add: Explain_def explainEvaluate_def Let_def split: prod.splits option.splits)

section \<open>Blast-radius counts\<close>

definition with_counts :: "int \<Rightarrow> int \<Rightarrow> int \<Rightarrow> request \<Rightarrow> request" where
  "with_counts rows pods age req = req\<lparr>rq_Context := (rq_Context req)
     \<lparr>rc_RowsAffected := rows, rc_PodsAffected := pods, rc_XactAgeSecs := age\<rparr>\<rparr>"

lemma with_counts_timestamp:
  "with_timestamp now (with_counts a b c req) = with_counts a b c (with_timestamp now req)"
  by (simp add: with_timestamp_def with_counts_def)

lemma governs_with_counts: "governs tz (with_counts a b c req) = governs tz req"
  by (auto simp: governs_def with_counts_def rule_scheduled_def fun_eq_iff split: option.splits prod.splits)

lemma limits_exceeded_mono:
  "a \<le> a' \<Longrightarrow> b \<le> b' \<Longrightarrow> k \<le> k' \<Longrightarrow>
   limits_exceeded c (with_counts a b k req) \<Longrightarrow> limits_exceeded c (with_counts a' b' k' req)"
  by (auto simp: limits_exceeded_def with_counts_def Let_def)

lemma purpose_refused_with_counts:
  "purpose_refused c (with_counts a b k req) = purpose_refused c req"
  by (simp add: purpose_refused_def with_counts_def Let_def)

lemma decide_with_counts_mono:
  assumes "a \<le> a'" "b \<le> b'" "k \<le> k'"
    and "dc_Effect (decide (with_counts a' b' k' req) x) \<noteq> EffectDeny"
  shows "dc_Effect (decide (with_counts a b k req) x) = dc_Effect (decide (with_counts a' b' k' req) x)"
  using assms limits_exceeded_mono [OF assms(1-3)]
  by (cases x) (auto simp: decide_def rule_decision_effect purpose_refused_with_counts
      split: option.splits if_splits)

lemma first_match_with_counts_mono:
  assumes "a \<le> a'" "b \<le> b'" "k \<le> k'"
    and "dc_Effect (first_match tz e (with_counts a' b' k' req)) = EffectAllow"
  shows "dc_Effect (first_match tz e (with_counts a b k req)) = EffectAllow"
proof -
  have "find (governs tz (with_counts a b k req)) xs = find (governs tz req) xs" for a b k xs
    by (simp add: governs_with_counts)
  with assms(4) show ?thesis
    using decide_with_counts_mono [OF assms(1-3)]
    by (auto simp: first_match_def split: option.splits)
qed

section \<open>Properties\<close>

text \<open>C1: the engine implements its specification. The decision for a request is the one of the
  first rule, in policy order and then rule order, that governs the request (policy enabled,
  principal and resource matching, action listed, schedule active), and the default effect when no
  rule governs. Dry run changes only the effect, to allow, and marks the message.\<close>

theorem Evaluate_refines_first_match:
  "Evaluate tz now e req =
     (let d = first_match tz e (with_timestamp now req) in
      if en_DryRun e \<and> dc_Effect d \<noteq> EffectAllow
      then d\<lparr>dc_Message := ''[DRY RUN] '' @ dc_Message d, dc_Effect := EffectAllow\<rparr>
      else d)"
  by (simp add: Evaluate_def Explain_def Let_def explainEvaluate_decision)

text \<open>what the conditions of a governing rule do. When the first governing rule carries
  conditions, an exceeded row, pod or transaction-age limit or a refused purpose denies whatever
  the rule says; otherwise \<^verbatim>\<open>require_approval\<close> turns an allow into a request for approval,
  and the effect of the rule stands in every other case. The approval flag and the quorum follow
  the conditions, and the trace of the rule holds a failed entry exactly when it denied.\<close>

theorem conditions_enforced:
  "let (d, ts) = rule_decision p i (r\<lparr>ru_Conditions := Some c\<rparr>) req in
     dc_Effect d = (if limits_exceeded c req \<or> purpose_refused c req then EffectDeny
        else if co_RequireApproval c \<and> ru_Effect r = EffectAllow then EffectRequireApproval
        else ru_Effect r) \<and>
     dc_RequiresApproval d = co_RequireApproval c \<and>
     dc_ApprovalQuorum d = (if \<not> co_RequireApproval c then 0
        else if co_ApprovalQuorum c = 0 then 1 else co_ApprovalQuorum c) \<and>
     dc_PolicyName d = pol_Name p \<and> dc_RuleIndex d = i \<and>
     (\<exists>t \<in> set ts. \<not> ct_Passed t) = (limits_exceeded c req \<or> purpose_refused c req)"
  by (simp add: rule_decision_def Let_def case_prod_unfold applyConditions_effect
      applyConditions_requires applyConditions_quorum applyConditions_names
      applyConditions_trace [unfolded failed_def])

text \<open>blast-radius limits are monotone. A request that is allowed with some numbers of
  affected rows and pods and some transaction age is allowed with smaller ones.\<close>

theorem smaller_blast_radius_allowed:
  assumes "rows \<le> rows'" "pods \<le> pods'" "age \<le> age'"
    and "IsAllowed (Evaluate tz now e (with_counts rows' pods' age' req))"
  shows "IsAllowed (Evaluate tz now e (with_counts rows pods age req))"
proof (cases "en_DryRun e")
  case True
  then show ?thesis by (simp add: IsAllowed_def Evaluate_dry_run)
next
  case False
  with assms(4) show ?thesis
    using first_match_with_counts_mono [OF assms(1-3)]
    by (simp add: IsAllowed_def Evaluate_enforcing with_counts_timestamp)
qed

definition sample_engine :: engine where
  "sample_engine = \<lparr>en_Config = \<lparr>cfg_Version = ''1'', cfg_Policies =
     [\<lparr>pol_Name = ''prod-db'', pol_Description = [], pol_Enabled = None, pol_Priority = 100,
       pol_Principals = [],
       pol_Resources = [\<lparr>rs_Type = ''database'', rs_Match = \<lparr>rm_Name = [], rm_NamePattern = [],
         rm_Tags = [''production''], rm_Namespace = [], rm_Sensitivity = [], rm_Tool = [],
         rm_ToolPattern = []\<rparr>\<rparr>],
       pol_Rules = [\<lparr>ru_Action = [''write''], ru_Effect = ''allow'', ru_Conditions =
         Some \<lparr>co_RequireApproval = False, co_ApprovalQuorum = 0, co_MaxRowsAffected = 100,
           co_MaxPodsAffected = 0, co_MaxXactAgeSecs = 0, co_Schedule = None,
           co_AllowedPurposes = [], co_BlockedPurposes = []\<rparr>, ru_Message = []\<rparr>]\<rparr>]\<rparr>,
     en_DefaultEffect = ''deny'', en_DryRun = False\<rparr>"

definition sample_request :: request where
  "sample_request = \<lparr>rq_Principal = \<lparr>rp_UserID = ''alice'', rp_Roles = [], rp_Service = []\<rparr>,
     rq_Resource = \<lparr>rr_Type = ''database'', rr_Name = ''orders'', rr_Tags = [''production''],
       rr_Namespace = [], rr_Extra = Map.empty, rr_Sensitivity = [], rr_ToolName = ''kill_idle''\<rparr>,
     rq_Action = ''write'', rq_Context = \<lparr>rc_Timestamp = (1, 0), rc_TraceID = [],
       rc_RowsAffected = 0, rc_PodsAffected = 0, rc_XactAgeSecs = 0, rc_Purpose = [],
       rc_PurposeNote = []\<rparr>\<rparr>"

lemmas sample_eval = sample_engine_def sample_request_def IsAllowed_def Evaluate_enforcing
  first_match_def with_counts_def with_timestamp_def candidates_def governs_def matchesPrincipal_def
  matchesResource_def resource_entry_matches_def hasAllTags_def rule_scheduled_def decide_def
  rule_decision_effect limits_exceeded_def purpose_refused_def IsEnabled_def effect_defs Let_def

theorem smaller_blast_radius_allowed_witness:
  "IsAllowed (Evaluate (\<lambda>_. None) (1, 0) sample_engine (with_counts 50 0 0 sample_request))"
proof (rule smaller_blast_radius_allowed [of 50 100 0 0 0 0])
  show "IsAllowed (Evaluate (\<lambda>_. None) (1, 0) sample_engine (with_counts 100 0 0 sample_request))"
    by (simp add: sample_eval)
qed simp_all

text \<open>the trace is faithful. Its entries are the policies of the configuration in order, up to
  the deciding one, each with the outcome of the policy's own test and the reason it was skipped;
  at most one rule is marked as matched, it is the first governing rule, and its entry carries the
  effect and the condition results of the decision.\<close>

theorem trace_faithful:
  "let ps = cfg_Policies (en_Config e); req' = with_timestamp now req;
       pts = dt_PoliciesEvaluated (Explain tz now e req) in
     map pt_PolicyName pts = take (length pts) (map pol_Name ps) \<and>
     map pt_Matched pts = take (length pts) (map (policy_applies req') ps) \<and>
     map pt_SkipReason pts = take (length pts) (map (policy_skip req') ps) \<and>
     matched_rules pts = (case find (governs tz req') (candidates ps) of None \<Rightarrow> []
       | Some (p, j, r) \<Rightarrow> [\<lparr>rt_Index = j, rt_Actions = ru_Action r,
           rt_Effect = dc_Effect (fst (rule_decision p j r req')), rt_Matched = True,
           rt_SkipReason = [], rt_Conditions = snd (rule_decision p j r req')\<rparr>])"
  using explain_policies_shape [of tz "with_timestamp now req" "cfg_Policies (en_Config e)"]
  by (simp add: Let_def Explain_trace explain_policies_matched)

end
