(* ===== verification/Go_Sort.thy ===== *)
theory Go_Sort
  imports Prelude
begin

text \<open>
  \<^verbatim>\<open>sort.Slice\<close> and the \<^verbatim>\<open>ORDER BY\<close> of a query promise a sorted permutation and
  nothing about the order of equal elements. The locale \<open>slice_sort\<close> states these two laws; the
  insertion sort the Go runtime uses on slices of at most 12 elements is an instance.
\<close>

text \<open>The inner loop of Go's insertion sort: the sorted prefix is held in reverse.\<close>

fun sink :: "('a \<Rightarrow> 'a \<Rightarrow> bool) \<Rightarrow> 'a \<Rightarrow> 'a list \<Rightarrow> 'a list" where
  "sink lt x [] = [x]"
| "sink lt x (y # ys) = (if lt x y then y # sink lt x ys else x # y # ys)"

definition insertionSort :: "('a \<Rightarrow> 'a \<Rightarrow> bool) \<Rightarrow> 'a list \<Rightarrow> 'a list" where
  "insertionSort lt xs = rev (foldl (\<lambda>acc x. sink lt x acc) [] xs)"

section \<open>The contract of the sort\<close>

locale slice_sort =
  fixes srt :: "('a \<Rightarrow> 'a \<Rightarrow> bool) \<Rightarrow> 'a list \<Rightarrow> 'a list"
  assumes perm: "mset (srt lt xs) = mset xs"
    and ordered: "(\<And>x y z. lt x y \<Longrightarrow> lt y z \<Longrightarrow> lt x z) \<Longrightarrow>
      (\<And>x y z. lt x z \<Longrightarrow> lt x y \<or> lt y z) \<Longrightarrow> (\<And>x. \<not> lt x x) \<Longrightarrow>
      sorted_wrt (\<lambda>x y. \<not> lt y x) (srt lt xs)"
begin

lemma srt_set: "set (srt lt xs) = set xs"
  by (metis perm set_mset_mset)

text \<open>Keys that are pairwise different leave only one sorted permutation.\<close>

lemma srt_by_key_desc:
  fixes key :: "'a \<Rightarrow> int"
  defines "gt \<equiv> \<lambda>p q. key q < key p"
  shows "sorted_wrt (\<lambda>x y. key y \<le> key x) (srt gt xs)"
proof -
  have "sorted_wrt (\<lambda>x y. \<not> gt y x) (srt gt xs)"
    by (rule ordered) (auto simp: gt_def)
  then show ?thesis
    by (simp add: gt_def not_less)
qed

lemma srt_unique:
  fixes key :: "'a \<Rightarrow> int"
  defines "gt \<equiv> \<lambda>p q. key q < key p"
  assumes d: "distinct (map key xs)" and m: "mset ys = mset xs"
    and s: "sorted_wrt (\<lambda>x y. key y \<le> key x) ys"
  shows "srt gt xs = ys"
proof -
  let ?k = "\<lambda>x. - key x"
  have inj: "inj_on ?k (set xs)"
    using d by (auto simp: distinct_map inj_on_def)
  have "sorted (map ?k ys)" and "sorted (map ?k (srt gt xs))"
    using s srt_by_key_desc [of key xs] by (simp_all add: gt_def sorted_wrt_map)
  moreover have "mset (map ?k ys) = mset (map ?k (srt gt xs))"
    using m perm [of gt xs] by simp
  ultimately have "map ?k ys = map ?k (srt gt xs)"
    by (metis properties_for_sort)
  moreover have "set ys \<subseteq> set xs" "set (srt gt xs) \<subseteq> set xs"
    using m srt_set [of gt xs] by (metis set_mset_mset order_refl)+
  ultimately show ?thesis
    using inj map_inj_on [of ?k ys "srt gt xs"] by (metis Un_least inj_on_subset)
qed

end

lemma mset_sink: "mset (sink lt x ys) = add_mset x (mset ys)"
  by (induction lt x ys rule: sink.induct) auto

lemma set_sink: "set (sink lt x ys) = insert x (set ys)"
  by (induction lt x ys rule: sink.induct) auto

lemma mset_foldl_sink: "mset (foldl (\<lambda>acc x. sink lt x acc) acc xs) = mset acc + mset xs"
  by (induction xs arbitrary: acc) (auto simp: mset_sink)

lemma sink_ordered:
  assumes tr: "\<And>x y z. lt x y \<Longrightarrow> lt y z \<Longrightarrow> lt x z" and irr: "\<And>x. \<not> lt x x"
    and nt: "\<And>x y z. lt x z \<Longrightarrow> lt x y \<or> lt y z"
  shows "sorted_wrt (\<lambda>x y. \<not> lt x y) ys \<Longrightarrow> sorted_wrt (\<lambda>x y. \<not> lt x y) (sink lt x ys)"
proof (induction ys)
  case (Cons y ys)
  show ?case
  proof (cases "lt x y")
    case True
    then have "\<not> lt y x" using tr irr by blast
    with True Cons show ?thesis by (simp add: set_sink)
  next
    case False
    then have "\<forall>z \<in> set ys. \<not> lt x z" using Cons.prems nt by auto
    with False Cons show ?thesis by simp
  qed
qed simp

lemma foldl_sink_ordered:
  assumes "\<And>x y z. lt x y \<Longrightarrow> lt y z \<Longrightarrow> lt x z" and "\<And>x. \<not> lt x x"
    and "\<And>x y z. lt x z \<Longrightarrow> lt x y \<or> lt y z"
  shows "sorted_wrt (\<lambda>x y. \<not> lt x y) acc \<Longrightarrow>
    sorted_wrt (\<lambda>x y. \<not> lt x y) (foldl (\<lambda>acc x. sink lt x acc) acc xs)"
  by (induction xs arbitrary: acc) (simp_all add: sink_ordered [of lt, OF assms])

interpretation ins: slice_sort insertionSort
proof unfold_locales
  fix lt :: "'a \<Rightarrow> 'a \<Rightarrow> bool" and xs
  show "mset (insertionSort lt xs) = mset xs"
    by (simp add: insertionSort_def mset_foldl_sink)
  assume "\<And>x y z. lt x y \<Longrightarrow> lt y z \<Longrightarrow> lt x z" and "\<And>x y z. lt x z \<Longrightarrow> lt x y \<or> lt y z"
    and "\<And>x. \<not> lt x x"
  then have "sorted_wrt (\<lambda>x y. \<not> lt x y) (foldl (\<lambda>acc x. sink lt x acc) [] xs)"
    by (intro foldl_sink_ordered) auto
  then show "sorted_wrt (\<lambda>x y. \<not> lt y x) (insertionSort lt xs)"
    by (simp add: insertionSort_def sorted_wrt_rev)
qed

end
