(* ===== verification/Policy_Loader.thy ===== *)
theory Policy_Loader
  imports Policy_Engine Go_Sort
begin

text \<open>
  Loading of policy files, \<^verbatim>\<open>internal/policy/loader.go\<close>, and the construction of an
  engine, \<^verbatim>\<open>NewEngine\<close> of \<^verbatim>\<open>internal/policy/engine.go\<close>. The YAML package
  is not part of the sources and is the argument \<open>unmarshal\<close>. \<^verbatim>\<open>sort.Slice\<close>
  promises a sorted permutation and nothing about equal elements: it is the argument
  \<open>srt\<close>, with those two laws in the locale \<open>slice_sort\<close>, and the insertion sort the
  Go runtime uses on short slices (at most 12 elements) is an instance.
\<close>

section \<open>Environment expansion\<close>

definition isShellSpecialVar :: "char \<Rightarrow> bool" where
  "isShellSpecialVar c \<longleftrightarrow> List.member ''*#$@!?-0123456789'' c"

definition isAlphaNum :: "char \<Rightarrow> bool" where
  "isAlphaNum c \<longleftrightarrow> (let n = (of_char c :: nat) in
     n = 95 \<or> (48 \<le> n \<and> n \<le> 57) \<or> (97 \<le> n \<and> n \<le> 122) \<or> (65 \<le> n \<and> n \<le> 90))"

definition getShellName :: "string \<Rightarrow> string \<times> nat" where
  "getShellName s =
     (if s \<noteq> [] \<and> s ! 0 = CHR ''{'' then
        (if length s > 2 \<and> isShellSpecialVar (s ! 1) \<and> s ! 2 = CHR ''}'' then ([s ! 1], 3)
         else (let name = takeWhile (\<lambda>c. c \<noteq> CHR ''}'') (tl s) in
           if length name < length (tl s) then
             (if name = [] then ([], 2) else (name, length name + 2))
           else ([], 1)))
      else if s \<noteq> [] \<and> isShellSpecialVar (s ! 0) then ([s ! 0], 1)
      else (let name = takeWhile isAlphaNum s in (name, length name)))"

fun Expand :: "(string \<Rightarrow> string) \<Rightarrow> string \<Rightarrow> string" where
  "Expand env [] = []"
| "Expand env [c] = [c]"
| "Expand env (c # d # cs) =
     (if c = CHR ''$'' then
        (let (name, w) = getShellName (d # cs);
             rest = Expand env (drop w (d # cs))
         in if name = [] \<and> w > 0 then rest
            else if name = [] then c # rest
            else env name @ rest)
      else c # Expand env (d # cs))"

section \<open>Priorities\<close>

definition higher_priority :: "policy \<Rightarrow> policy \<Rightarrow> bool" where
  "higher_priority p q \<longleftrightarrow> pol_Priority p > pol_Priority q"

section \<open>Validation\<close>

fun validate_rules :: "string \<Rightarrow> nat \<Rightarrow> rule list \<Rightarrow> string option" where
  "validate_rules name j [] = None"
| "validate_rules name j (r # rs) =
     (let at = ''policy '' @ Quote name @ '' rule '' @ nat_str j @ '': '' in
      if ru_Action r = [] then Some (at @ ''action is required'')
      else if ru_Effect r = [] then Some (at @ ''effect is required'')
      else if ru_Effect r \<noteq> EffectAllow \<and> ru_Effect r \<noteq> EffectDeny \<and> ru_Effect r \<noteq> EffectRequireApproval
      then Some (at @ ''invalid effect '' @ Quote (ru_Effect r))
      else validate_rules name (Suc j) rs)"

fun validate_policies :: "string list \<Rightarrow> nat \<Rightarrow> policy list \<Rightarrow> string option" where
  "validate_policies seen i [] = None"
| "validate_policies seen i (p # ps) =
     (if pol_Name p = [] then Some (''policy '' @ nat_str i @ '': name is required'')
      else if List.member seen (pol_Name p)
      then Some (''policy '' @ nat_str i @ '': duplicate name '' @ Quote (pol_Name p))
      else if pol_Resources p = []
      then Some (''policy '' @ Quote (pol_Name p) @ '': at least one resource is required'')
      else if pol_Rules p = []
      then Some (''policy '' @ Quote (pol_Name p) @ '': at least one rule is required'')
      else (case validate_rules (pol_Name p) 0 (pol_Rules p) of
          Some err \<Rightarrow> Some err
        | None \<Rightarrow> validate_policies (pol_Name p # seen) (Suc i) ps))"

definition validate :: "config \<Rightarrow> string + config" where
  "validate cfg =
     (let cfg = (if cfg_Version cfg = [] then cfg\<lparr>cfg_Version := ''1''\<rparr> else cfg) in
      case validate_policies [] 0 (cfg_Policies cfg) of
        Some err \<Rightarrow> Inl err
      | None \<Rightarrow> Inr cfg)"

section \<open>Loading\<close>

definition Load ::
  "((policy \<Rightarrow> policy \<Rightarrow> bool) \<Rightarrow> policy list \<Rightarrow> policy list) \<Rightarrow> (string \<Rightarrow> string) \<Rightarrow>
   (string \<Rightarrow> string + config) \<Rightarrow> string \<Rightarrow> string + config" where
  "Load srt env unmarshal data =
     (case unmarshal (Expand env data) of
        Inl err \<Rightarrow> Inl (''parse policy YAML: '' @ err)
      | Inr cfg \<Rightarrow> (case validate cfg of
          Inl err \<Rightarrow> Inl (''validate policy: '' @ err)
        | Inr cfg \<Rightarrow> Inr (cfg\<lparr>cfg_Policies := srt higher_priority (cfg_Policies cfg)\<rparr>)))"

definition LoadFile ::
  "((policy \<Rightarrow> policy \<Rightarrow> bool) \<Rightarrow> policy list \<Rightarrow> policy list) \<Rightarrow> (string \<Rightarrow> string) \<Rightarrow>
   (string \<Rightarrow> string + config) \<Rightarrow> (string \<Rightarrow> string + string) \<Rightarrow> string \<Rightarrow> string + config" where
  "LoadFile srt env unmarshal readFile path =
     (case readFile path of
        Inl err \<Rightarrow> Inl (''read policy file: '' @ err)
      | Inr data \<Rightarrow> Load srt env unmarshal data)"

definition simple_rule :: "string \<Rightarrow> string \<Rightarrow> string \<Rightarrow> rule" where
  "simple_rule a eff msg =
     \<lparr>ru_Action = [a], ru_Effect = eff, ru_Conditions = None, ru_Message = msg\<rparr>"

definition any_resource :: "string \<Rightarrow> resource_spec" where
  "any_resource t = \<lparr>rs_Type = t, rs_Match = \<lparr>rm_Name = [], rm_NamePattern = [], rm_Tags = [],
     rm_Namespace = [], rm_Sensitivity = [], rm_Tool = [], rm_ToolPattern = []\<rparr>\<rparr>"

definition DefaultConfig :: config where
  "DefaultConfig = \<lparr>cfg_Version = ''1'', cfg_Policies =
     [\<lparr>pol_Name = ''default-allow-read'', pol_Description = ''Allow all read operations by default'',
       pol_Enabled = None, pol_Priority = 0, pol_Principals = [],
       pol_Resources = [any_resource ''database'', any_resource ''kubernetes''],
       pol_Rules =
         [simple_rule ActionRead EffectAllow [],
          simple_rule ActionWrite EffectRequireApproval ''Write operations require approval'',
          simple_rule ActionDestructive EffectDeny
            ''Destructive operations are not allowed by default policy'']\<rparr>]\<rparr>"

record engine_config =
  ec_PolicyConfig :: "config option"
  ec_DefaultEffect :: string
  ec_DryRun :: bool

definition NewEngine :: "engine_config \<Rightarrow> engine" where
  "NewEngine c =
     \<lparr>en_Config = (case ec_PolicyConfig c of None \<Rightarrow> DefaultConfig | Some p \<Rightarrow> p),
      en_DefaultEffect = (if ec_DefaultEffect c = [] then EffectDeny else ec_DefaultEffect c),
      en_DryRun = ec_DryRun c\<rparr>"

section \<open>Specification\<close>

definition wf_rule :: "rule \<Rightarrow> bool" where
  "wf_rule r \<longleftrightarrow> ru_Action r \<noteq> [] \<and> ru_Effect r \<in> {EffectAllow, EffectDeny, EffectRequireApproval}"

definition wf_policy :: "policy \<Rightarrow> bool" where
  "wf_policy p \<longleftrightarrow> pol_Name p \<noteq> [] \<and> pol_Resources p \<noteq> [] \<and> pol_Rules p \<noteq> [] \<and>
     list_all wf_rule (pol_Rules p)"

definition wf_config :: "config \<Rightarrow> bool" where
  "wf_config cfg \<longleftrightarrow> list_all wf_policy (cfg_Policies cfg) \<and> distinct (map pol_Name (cfg_Policies cfg))"

section \<open>Facts about validation and loading\<close>

lemma validate_rules_None: "validate_rules n j rs = None \<longleftrightarrow> list_all wf_rule rs"
  by (induction n j rs rule: validate_rules.induct) (auto simp: Let_def wf_rule_def effect_defs)

lemma validate_rules_Some: "validate_rules n j rs = Some e \<Longrightarrow> \<not> list_all wf_rule rs"
  by (metis option.distinct(1) validate_rules_None)

lemma validate_policies_None:
  "validate_policies seen i ps = None \<longleftrightarrow>
     list_all wf_policy ps \<and> distinct (map pol_Name ps) \<and> set (map pol_Name ps) \<inter> set seen = {}"
  by (induction seen i ps rule: validate_policies.induct)
     (auto simp: wf_policy_def validate_rules_None dest: validate_rules_Some split: option.splits)

lemma validate_policies_Some:
  "validate_policies [] i ps = Some e \<Longrightarrow> \<not> (list_all wf_policy ps \<and> distinct (map pol_Name ps))"
  using validate_policies_None [of "[]" i ps] by auto

lemma validate_Inr:
  "validate cfg = Inr cfg' \<longleftrightarrow> wf_config cfg \<and>
     cfg' = (if cfg_Version cfg = [] then cfg\<lparr>cfg_Version := ''1''\<rparr> else cfg)"
  by (auto simp: validate_def wf_config_def Let_def validate_policies_None
      dest: validate_policies_Some split: option.splits)

lemma Load_Inr:
  "Load srt env unm data = Inr cfg \<longleftrightarrow> (\<exists>c c'. unm (Expand env data) = Inr c \<and> validate c = Inr c' \<and>
     cfg = c'\<lparr>cfg_Policies := srt higher_priority (cfg_Policies c')\<rparr>)"
  by (auto simp: Load_def split: sum.splits)

lemma higher_priority_gt: "higher_priority = (\<lambda>p q. pol_Priority q < pol_Priority p)"
  by (auto simp: higher_priority_def fun_eq_iff)

lemma validate_Policies: "validate c = Inr c' \<Longrightarrow> cfg_Policies c' = cfg_Policies c"
  by (auto simp: validate_Inr)

lemma Load_sorted:
  assumes "slice_sort srt" and "Load srt env unm data = Inr cfg"
  shows "sorted_wrt (\<lambda>p q. pol_Priority q \<le> pol_Priority p) (cfg_Policies cfg)"
  using assms slice_sort.srt_by_key_desc [of srt pol_Priority]
  by (auto simp: Load_Inr higher_priority_gt)

lemma Load_wf:
  assumes "slice_sort srt" and "Load srt env unm data = Inr cfg"
  shows "wf_config cfg"
proof -
  obtain c c' where c: "validate c = Inr c'"
      "cfg = c'\<lparr>cfg_Policies := srt higher_priority (cfg_Policies c')\<rparr>"
    using assms(2) by (auto simp: Load_Inr)
  have m: "mset (cfg_Policies cfg) = mset (cfg_Policies c)"
    using c slice_sort.perm [OF assms(1)] validate_Policies [OF c(1)] by simp
  then have "set (cfg_Policies cfg) = set (cfg_Policies c)"
    by (metis set_mset_mset)
  moreover have "mset (map pol_Name (cfg_Policies cfg)) = mset (map pol_Name (cfg_Policies c))"
    using m by simp
  then have "distinct (map pol_Name (cfg_Policies cfg)) = distinct (map pol_Name (cfg_Policies c))"
    by (rule mset_eq_imp_distinct_iff)
  ultimately show ?thesis
    using c(1) by (simp add: validate_Inr wf_config_def list_all_iff)
qed

lemma wf_config_effects:
  assumes "wf_config cfg" and "x \<in> set (candidates (cfg_Policies cfg))"
  shows "dc_Effect (decide req x) \<in> {EffectAllow, EffectDeny, EffectRequireApproval}"
proof -
  obtain p i r where x: "x = (p, i, r)" by (cases x)
  with assms(2) have "p \<in> set (cfg_Policies cfg)" "r \<in> set (pol_Rules p)"
    by (auto simp: candidates_def in_set_enumerate_eq)
  with assms(1) have "wf_rule r"
    by (auto simp: wf_config_def wf_policy_def list_all_iff)
  then show ?thesis
    by (auto simp: x decide_def rule_decision_effect wf_rule_def split: option.splits)
qed

lemma Load_unique:
  assumes "slice_sort srt" "slice_sort srt'" and "mset (cfg_Policies c) = mset (cfg_Policies c')"
    and "distinct (map pol_Priority (cfg_Policies c))"
  shows "srt higher_priority (cfg_Policies c) = srt' higher_priority (cfg_Policies c')"
proof -
  let ?ys = "srt' higher_priority (cfg_Policies c')"
  have "mset ?ys = mset (cfg_Policies c)"
    using assms(3) slice_sort.perm [OF assms(2)] by simp
  moreover have "sorted_wrt (\<lambda>x y. pol_Priority y \<le> pol_Priority x) ?ys"
    unfolding higher_priority_gt by (rule slice_sort.srt_by_key_desc [OF assms(2)])
  ultimately show ?thesis
    using slice_sort.srt_unique [OF assms(1) assms(4)] by (simp add: higher_priority_gt)
qed

lemma DefaultConfig_first_match:
  "dc_Effect (first_match tz (NewEngine \<lparr>ec_PolicyConfig = None, ec_DefaultEffect = [], ec_DryRun = False\<rparr>) req) =
     (if List.member [''database'', ''kubernetes''] (rr_Type (rq_Resource req)) then
        (if rq_Action req = ActionRead then EffectAllow
         else if rq_Action req = ActionWrite then EffectRequireApproval else EffectDeny)
      else EffectDeny)"
  by (auto simp: first_match_def NewEngine_def DefaultConfig_def candidates_def simple_rule_def
      any_resource_def governs_def IsEnabled_def matchesPrincipal_def matchesResource_def
      resource_entry_matches_def rule_scheduled_def decide_def rule_decision_def default_decision_def
      action_defs Let_def)

section \<open>Properties\<close>

text \<open>validation accepts exactly the well-formed configurations, in which every policy has a
  name of its own, a resource and a rule, and every rule an action and one of the three effects;
  it changes nothing but an empty version, which becomes 1.\<close>

theorem validate_accepts_iff:
  "validate cfg = Inr cfg' \<longleftrightarrow> wf_config cfg \<and>
     cfg' = (if cfg_Version cfg = [] then cfg\<lparr>cfg_Version := ''1''\<rparr> else cfg)"
  by (rule validate_Inr)

text \<open>with pairwise different priorities, the order of the policies in the file and the
  choices of the unstable sort do not matter. Two files whose parsed policies are the same
  multiset load to engines that decide every request alike.\<close>

theorem load_order_irrelevant:
  assumes "slice_sort srt" and "slice_sort srt'"
    and "unm (Expand env data) = Inr c" and "unm (Expand env data') = Inr c'"
    and "mset (cfg_Policies c) = mset (cfg_Policies c')"
    and "distinct (map pol_Priority (cfg_Policies c))"
    and "Load srt env unm data = Inr l" and "Load srt' env unm data' = Inr l'"
  shows "Evaluate tz now (NewEngine \<lparr>ec_PolicyConfig = Some l, ec_DefaultEffect = def, ec_DryRun = dry\<rparr>) req =
         Evaluate tz now (NewEngine \<lparr>ec_PolicyConfig = Some l', ec_DefaultEffect = def, ec_DryRun = dry\<rparr>) req"
proof -
  have "cfg_Policies l = srt higher_priority (cfg_Policies c)"
    and "cfg_Policies l' = srt' higher_priority (cfg_Policies c')"
    using assms(3,4,7,8) by (auto simp: Load_Inr validate_Policies)
  then have "cfg_Policies l = cfg_Policies l'"
    using Load_unique [OF assms(1,2,5,6)] by simp
  then show ?thesis
    by (simp add: Evaluate_def Explain_def Let_def NewEngine_def explainEvaluate_def
        default_decision_def)
qed

definition sample_policy :: "string \<Rightarrow> int \<Rightarrow> policy" where
  "sample_policy n k = \<lparr>pol_Name = n, pol_Description = [], pol_Enabled = None, pol_Priority = k,
     pol_Principals = [], pol_Resources = [any_resource ''database''],
     pol_Rules = [simple_rule ActionRead EffectAllow []]\<rparr>"

definition sample_unmarshal :: "string \<Rightarrow> string + config" where
  "sample_unmarshal s = Inr \<lparr>cfg_Version = ''1'', cfg_Policies =
     (if s = ''up'' then [sample_policy ''a'' 1, sample_policy ''b'' 2]
      else [sample_policy ''b'' 2, sample_policy ''a'' 1])\<rparr>"

lemma sample_load:
  "Load insertionSort (\<lambda>_. []) sample_unmarshal ''up'' =
     Inr \<lparr>cfg_Version = ''1'', cfg_Policies = [sample_policy ''b'' 2, sample_policy ''a'' 1]\<rparr>"
  "Load insertionSort (\<lambda>_. []) sample_unmarshal ''down'' =
     Inr \<lparr>cfg_Version = ''1'', cfg_Policies = [sample_policy ''b'' 2, sample_policy ''a'' 1]\<rparr>"
  by (simp_all add: Load_def sample_unmarshal_def validate_def sample_policy_def any_resource_def
      simple_rule_def insertionSort_def higher_priority_def effect_defs action_defs Let_def)

theorem load_order_irrelevant_witness:
  "\<exists>l l'. Load insertionSort (\<lambda>_. []) sample_unmarshal ''up'' = Inr l \<and>
     Load insertionSort (\<lambda>_. []) sample_unmarshal ''down'' = Inr l' \<and>
     Evaluate (\<lambda>_. None) (1, 0) (NewEngine \<lparr>ec_PolicyConfig = Some l, ec_DefaultEffect = [], ec_DryRun = False\<rparr>) sample_request =
     Evaluate (\<lambda>_. None) (1, 0) (NewEngine \<lparr>ec_PolicyConfig = Some l', ec_DefaultEffect = [], ec_DryRun = False\<rparr>) sample_request"
proof -
  have "unm = sample_unmarshal \<Longrightarrow> mset (cfg_Policies (projr (unm ''up''))) =
      mset (cfg_Policies (projr (unm ''down'')))" for unm
    by (simp add: sample_unmarshal_def)
  then show ?thesis
    using load_order_irrelevant [OF ins.slice_sort_axioms ins.slice_sort_axioms,
        of sample_unmarshal "\<lambda>_. []" "''up''" "projr (sample_unmarshal ''up'')" "''down''"
           "projr (sample_unmarshal ''down'')", OF _ _ _ _ sample_load]
    by (simp add: sample_load sample_unmarshal_def sample_policy_def)
qed

text \<open>an engine over a loaded configuration, with the default effect unset, decides every
  request with one of the three effects, in enforcing mode and in dry run.\<close>

theorem loaded_engine_effects:
  assumes "slice_sort srt" and "Load srt env unm data = Inr cfg"
  shows "dc_Effect (Evaluate tz now (NewEngine \<lparr>ec_PolicyConfig = Some cfg, ec_DefaultEffect = [], ec_DryRun = dry\<rparr>) req)
         \<in> {EffectAllow, EffectDeny, EffectRequireApproval}"
proof -
  have wf: "wf_config cfg" by (rule Load_wf [OF assms])
  let ?e = "NewEngine \<lparr>ec_PolicyConfig = Some cfg, ec_DefaultEffect = [], ec_DryRun = dry\<rparr>"
  have "dc_Effect (first_match tz ?e r) \<in> {EffectAllow, EffectDeny, EffectRequireApproval}" for r
    using wf_config_effects [OF wf]
    by (auto simp: first_match_def NewEngine_def default_decision_def dest!: find_Some_mem
        split: option.splits)
  then show ?thesis
    by (cases dry) (auto simp: Evaluate_dry_run Evaluate_enforcing NewEngine_def)
qed

theorem loaded_engine_effects_witness:
  "dc_Effect (Evaluate (\<lambda>_. None) (1, 0) (NewEngine \<lparr>ec_PolicyConfig =
     Some \<lparr>cfg_Version = ''1'', cfg_Policies = [sample_policy ''b'' 2, sample_policy ''a'' 1]\<rparr>,
     ec_DefaultEffect = [], ec_DryRun = False\<rparr>) sample_request)
   \<in> {EffectAllow, EffectDeny, EffectRequireApproval}"
  by (rule loaded_engine_effects [OF ins.slice_sort_axioms sample_load(1)])

text \<open>the built-in configuration, used when no policy file is set. Database and Kubernetes
  reads are allowed, writes need approval, destructive actions and unknown action classes are
  denied, and so is every action on any other kind of resource.\<close>

theorem default_engine_decisions:
  "dc_Effect (Evaluate tz now (NewEngine \<lparr>ec_PolicyConfig = None, ec_DefaultEffect = [], ec_DryRun = False\<rparr>) req) =
     (if List.member [''database'', ''kubernetes''] (rr_Type (rq_Resource req)) then
        (if rq_Action req = ActionRead then EffectAllow
         else if rq_Action req = ActionWrite then EffectRequireApproval else EffectDeny)
      else EffectDeny)"
proof -
  have "\<not> en_DryRun (NewEngine \<lparr>ec_PolicyConfig = None, ec_DefaultEffect = [], ec_DryRun = False\<rparr>)"
    by (simp add: NewEngine_def)
  moreover have "rq_Resource (with_timestamp now req) = rq_Resource req"
    and "rq_Action (with_timestamp now req) = rq_Action req"
    by (simp_all add: with_timestamp_def)
  ultimately show ?thesis
    by (simp add: Evaluate_enforcing DefaultConfig_first_match)
qed

end
