(* ===== verification/Action_Class.thy ===== *)
theory Action_Class
  imports Prelude
begin

text \<open>
  Classification of operations, \<^verbatim>\<open>internal/audit/action.go\<close>: the tool table, the
  classification of gateway endpoints and of delegation messages, and the two methods on classes.
  \<^verbatim>\<open>ActionClass\<close> is a string type of the source.
\<close>

definition ClassRead :: string where "ClassRead = ''read''"
definition ClassWrite :: string where "ClassWrite = ''write''"
definition ClassDestructive :: string where "ClassDestructive = ''destructive''"
definition ClassEscalation :: string where "ClassEscalation = ''escalation''"
definition ClassUnknown :: string where "ClassUnknown = ''unknown''"

lemmas class_defs = ClassRead_def ClassWrite_def ClassDestructive_def ClassEscalation_def ClassUnknown_def

definition ToolClassification :: "(string \<times> string) list" where
  "ToolClassification = [
     (''check_connection'', ClassRead),
     (''get_server_info'', ClassRead),
     (''get_database_info'', ClassRead),
     (''get_active_connections'', ClassRead),
     (''get_connection_stats'', ClassRead),
     (''get_database_stats'', ClassRead),
     (''get_config_parameter'', ClassRead),
     (''get_replication_status'', ClassRead),
     (''get_lock_info'', ClassRead),
     (''get_table_stats'', ClassRead),
     (''get_session_info'', ClassRead),
     (''cancel_query'', ClassWrite),
     (''terminate_connection'', ClassDestructive),
     (''terminate_idle_connections'', ClassDestructive),
     (''resume_wal_replay'', ClassWrite),
     (''run_vacuum'', ClassWrite),
     (''drop_replication_slot'', ClassDestructive),
     (''reset_pg_setting'', ClassWrite),
     (''reset_cache_stats'', ClassWrite),
     (''get_status_summary'', ClassRead),
     (''get_pg_settings'', ClassRead),
     (''get_extensions'', ClassRead),
     (''get_baseline'', ClassRead),
     (''get_saved_snapshots'', ClassRead),
     (''get_slow_queries'', ClassRead),
     (''get_vacuum_status'', ClassRead),
     (''get_disk_usage'', ClassRead),
     (''get_wait_events'', ClassRead),
     (''get_blocking_queries'', ClassRead),
     (''explain_query'', ClassRead),
     (''read_pg_log'', ClassRead),
     (''read_uploaded_file'', ClassRead),
     (''get_pods'', ClassRead),
     (''get_pod_logs'', ClassRead),
     (''get_service'', ClassRead),
     (''describe_service'', ClassRead),
     (''get_endpoints'', ClassRead),
     (''get_nodes'', ClassRead),
     (''get_events'', ClassRead),
     (''describe_pod'', ClassRead),
     (''get_pod_resources'', ClassRead),
     (''get_node_status'', ClassRead),
     (''scale_deployment'', ClassDestructive),
     (''restart_deployment'', ClassDestructive),
     (''delete_pod'', ClassDestructive),
     (''rollback_scale_deployment'', ClassDestructive),
     (''rollback_exec_update'', ClassDestructive),
     (''rollback_exec_delete'', ClassDestructive),
     (''rollback_exec_insert'', ClassWrite),
     (''create_incident_bundle'', ClassWrite),
     (''list_incidents'', ClassRead),
     (''web_search'', ClassRead),
     (''check_host'', ClassRead),
     (''get_host_logs'', ClassRead),
     (''check_disk'', ClassRead),
     (''check_memory'', ClassRead),
     (''restart_container'', ClassDestructive),
     (''restart_service'', ClassDestructive)]"

definition ClassifyTool :: "string \<Rightarrow> string" where
  "ClassifyTool toolName =
     (case map_of ToolClassification toolName of Some c \<Rightarrow> c | None \<Rightarrow> ClassUnknown)"

section \<open>Endpoints\<close>

text \<open>The substring search is written out in the source.\<close>

definition containsImpl :: "string \<Rightarrow> string \<Rightarrow> bool" where
  "containsImpl s substr =
     list_ex (\<lambda>i. take (length substr) (drop i s) = substr) [0..<Suc (length s - length substr)]"

definition contains :: "string \<Rightarrow> string \<Rightarrow> bool" where
  "contains s substr \<longleftrightarrow> length s \<ge> length substr \<and>
     (s = substr \<or> length s > 0 \<and> containsImpl s substr)"

definition ClassifyEndpoint :: "string \<Rightarrow> string \<Rightarrow> string" where
  "ClassifyEndpoint method path =
     (if method = ''GET'' then ClassRead
      else if contains path ''/research'' then ClassRead
      else if contains path ''/incidents'' \<and> method = ''POST'' then ClassRead
      else if contains path ''/db/'' then ClassUnknown
      else if contains path ''/k8s/'' then ClassUnknown
      else if contains path ''/query'' then ClassUnknown
      else if contains path ''/fleet/playbooks'' \<and> contains path ''/run'' then ClassRead
      else if contains path ''/fleet/playbooks'' \<and> contains path ''/import'' then ClassRead
      else if contains path ''/fleet/playbooks'' \<and> (method = ''POST'' \<or> method = ''PUT'') then ClassWrite
      else if contains path ''/fleet/playbooks'' \<and> method = ''DELETE'' then ClassDestructive
      else ClassUnknown)"

section \<open>Classes\<close>

definition class_IsApprovalRequired :: "string \<Rightarrow> bool" where
  "class_IsApprovalRequired ac \<longleftrightarrow> ac = ClassWrite \<or> ac = ClassDestructive \<or> ac = ClassEscalation"

definition RiskLevel :: "string \<Rightarrow> int" where
  "RiskLevel ac =
     (if ac = ClassRead then 0 else if ac = ClassWrite then 1 else if ac = ClassEscalation then 2
      else if ac = ClassDestructive then 3 else - 1)"

section \<open>Delegation messages\<close>

definition inquiryPrefixes :: "string list" where
    "inquiryPrefixes = [''when was'', ''when did'', ''when is'', ''last time'', ''history of'',
     ''previous'', ''how long ago'', ''how many times'', ''what is the'', ''what are the'',
     ''what was'', ''is there a'', ''are there any'', ''has been'', ''have been'']"

definition destructiveKeywords :: "string list" where
    "destructiveKeywords = [''kill'', ''terminate'', ''delete'', ''drop'', ''remove'',
     ''destroy'', ''drain'', ''evict'', ''force'', ''truncate'', ''purge'']"

definition writeKeywords :: "string list" where
    "writeKeywords = [''scale'', ''restart'', ''update'', ''modify'', ''change'', ''alter'',
     ''create'', ''insert'', ''set'', ''patch'', ''apply'', ''rollout'', ''cordon'',
     ''uncordon'', ''vacuum'', ''reindex'', ''cancel'']"

definition readKeywords :: "string list" where
    "readKeywords = [''check'', ''get'', ''list'', ''show'', ''describe'', ''explain'',
     ''status'', ''info'', ''stats'', ''logs'', ''events'', ''search'', ''find'', ''query'',
     ''select'', ''count'', ''monitor'']"

definition ClassifyDelegation :: "string \<Rightarrow> string \<Rightarrow> string" where
  "ClassifyDelegation agent message =
     (let msg = ToLower message in
      if list_ex (str_contains msg) inquiryPrefixes then ClassRead
      else if list_ex (str_contains msg) destructiveKeywords then ClassDestructive
      else if list_ex (str_contains msg) writeKeywords then ClassWrite
      else if list_ex (str_contains msg) readKeywords then ClassRead
      else ClassUnknown)"

section \<open>Facts\<close>

lemma classes_distinct [simp]:
  "ClassRead \<noteq> ClassWrite" "ClassRead \<noteq> ClassDestructive" "ClassRead \<noteq> ClassEscalation"
  "ClassRead \<noteq> ClassUnknown" "ClassWrite \<noteq> ClassRead" "ClassWrite \<noteq> ClassDestructive"
  "ClassWrite \<noteq> ClassEscalation" "ClassWrite \<noteq> ClassUnknown" "ClassDestructive \<noteq> ClassRead"
  "ClassDestructive \<noteq> ClassWrite" "ClassDestructive \<noteq> ClassEscalation" "ClassDestructive \<noteq> ClassUnknown"
  "ClassEscalation \<noteq> ClassRead" "ClassEscalation \<noteq> ClassWrite" "ClassEscalation \<noteq> ClassDestructive"
  "ClassEscalation \<noteq> ClassUnknown" "ClassUnknown \<noteq> ClassRead" "ClassUnknown \<noteq> ClassWrite"
  "ClassUnknown \<noteq> ClassDestructive" "ClassUnknown \<noteq> ClassEscalation"
  by (simp_all add: class_defs)

lemma take_drop_eq_iff:
  "length p \<le> length s \<Longrightarrow>
   (\<exists>i \<le> length s - length p. take (length p) (drop i s) = p) \<longleftrightarrow> (\<exists>u v. s = u @ p @ v)"
proof
  assume "length p \<le> length s" "\<exists>i \<le> length s - length p. take (length p) (drop i s) = p"
  then obtain i where "take (length p) (drop i s) = p" by auto
  then have "s = take i s @ p @ drop (length p) (drop i s)"
    by (metis append_take_drop_id)
  then show "\<exists>u v. s = u @ p @ v" by blast
next
  assume "\<exists>u v. s = u @ p @ v"
  then obtain u v where "s = u @ p @ v" by blast
  then show "\<exists>i \<le> length s - length p. take (length p) (drop i s) = p"
    by (intro exI [of _ "length u"]) simp
qed

lemma map_of_known: "map_of T k = Some v \<Longrightarrow> list_all (\<lambda>x. Q (snd x)) T \<Longrightarrow> Q v"
  by (induction T) (auto split: if_splits)

lemma ToolClassification_classes:
  "list_all (\<lambda>x. snd x \<in> {ClassRead, ClassWrite, ClassDestructive}) ToolClassification"
  by (simp add: ToolClassification_def)

lemma ClassifyTool_known:
  "ClassifyTool t \<in> {ClassRead, ClassWrite, ClassDestructive, ClassUnknown}"
  using map_of_known [OF _ ToolClassification_classes, of t]
  by (auto simp: ClassifyTool_def split: option.splits)

section \<open>Properties\<close>

text \<open>the hand-written substring search agrees with \<^verbatim>\<open>strings.Contains\<close> on all inputs,
  the empty ones included.\<close>

theorem contains_equiv: "contains s sub = str_contains s sub"
proof (cases "length sub \<le> length s")
  case True
  have "containsImpl s sub \<longleftrightarrow> (\<exists>i \<le> length s - length sub. take (length sub) (drop i s) = sub)"
    unfolding containsImpl_def list_ex_iff set_upt by (metis atLeastLessThan_iff le0 less_Suc_eq_le)
  with True take_drop_eq_iff [OF True] show ?thesis
    by (cases "s = []") (auto simp: contains_def str_contains_iff)
next
  case False
  then show ?thesis
    by (auto simp: contains_def str_contains_iff)
qed

text \<open>every listed tool is classified as a read, a write or a destructive operation, and the
  class of a tool is unknown exactly when the table does not list it. An unknown tool has a risk
  below that of every listed one, and does not by itself require approval.\<close>

theorem ClassifyTool_total:
  "(ClassifyTool t = ClassUnknown \<longleftrightarrow> map_of ToolClassification t = None) \<and>
   ClassifyTool t \<in> {ClassRead, ClassWrite, ClassDestructive, ClassUnknown} \<and>
   (RiskLevel (ClassifyTool t) < 0 \<longleftrightarrow> map_of ToolClassification t = None) \<and>
   (class_IsApprovalRequired (ClassifyTool t) \<longleftrightarrow> RiskLevel (ClassifyTool t) > 0)"
proof (cases "map_of ToolClassification t")
  case None
  then show ?thesis
    by (simp add: ClassifyTool_def RiskLevel_def class_IsApprovalRequired_def)
next
  case (Some c)
  then have "c \<in> {ClassRead, ClassWrite, ClassDestructive}"
    by (rule map_of_known) (rule ToolClassification_classes)
  with Some show ?thesis
    by (auto simp: ClassifyTool_def RiskLevel_def class_IsApprovalRequired_def)
qed

end
