(* ===== verification/Approval_Policy.thy ===== *)
theory Approval_Policy
  imports Action_Class Go_Time "HOL-Library.AList"
begin

text \<open>
  The approval rules and the in-memory approval manager of \<^verbatim>\<open>internal/audit/approval.go\<close>,
  approval sessions with their store (\<^verbatim>\<open>approval_session_store.go\<close>) and HTTP handlers
  (\<^verbatim>\<open>cmd/auditd/approval_session_handlers.go\<close>), and the two gates of the gateway that use
  them (\<^verbatim>\<open>checkOperatingMode\<close> and \<^verbatim>\<open>checkApprovalMode\<close> of
  \<^verbatim>\<open>cmd/gateway/gateway.go\<close>). \<open>now\<close> is the reading of the clock, \<open>uid\<close>
  the fresh identifier. A database failure is the argument \<open>flt\<close> of a store operation.

  The locale \<open>single_resolution\<close> states what every table of pending requests promises; it is
  interpreted here for the manager and in the approval store for the stored requests.
\<close>

section \<open>Approvals and rules\<close>

record approval =
  av_Required :: bool
  av_Status :: string
  av_RequestedBy :: string
  av_RequestedAt :: time
  av_ApprovedBy :: string
  av_ApprovedAt :: time
  av_Justification :: string
  av_PolicyName :: string
  av_ExpiresAt :: time

definition zero_approval :: approval where
  "zero_approval = \<lparr>av_Required = False, av_Status = [], av_RequestedBy = [], av_RequestedAt = 0,
     av_ApprovedBy = [], av_ApprovedAt = 0, av_Justification = [], av_PolicyName = [], av_ExpiresAt = 0\<rparr>"

definition approval_IsValid :: "time \<Rightarrow> approval \<Rightarrow> bool" where
  "approval_IsValid now a =
     (if av_Status a \<noteq> ''approved'' \<and> av_Status a \<noteq> ''auto_approved'' then False
      else if av_ExpiresAt a \<noteq> 0 \<and> now > av_ExpiresAt a then False else True)"

record approval_rule =
  ar_Name :: string
  ar_ActionClasses :: "string list"
  ar_Agents :: "string list"
  ar_Tools :: "string list"
  ar_Environments :: "string list"
  ar_RequireApproval :: bool
  ar_AutoApprove :: bool
  ar_ApproverRole :: string

record approval_policy =
  apo_Name :: string
  apo_Description :: string
  apo_Rules :: "approval_rule list"

record approval_request =
  aq_ActionClass :: string
  aq_Agent :: string
  aq_Tool :: string
  aq_Environment :: string
  aq_Principal :: string

definition rule_matches :: "approval_rule \<Rightarrow> approval_request \<Rightarrow> bool" where
  "rule_matches r req =
     (if ar_ActionClasses r \<noteq> [] \<and> \<not> List.member (ar_ActionClasses r) (aq_ActionClass req) then False
      else if ar_Agents r \<noteq> [] \<and> \<not> List.member (ar_Agents r) (aq_Agent req) then False
      else if ar_Tools r \<noteq> [] \<and> \<not> List.member (ar_Tools r) (aq_Tool req) then False
      else if ar_Environments r \<noteq> [] \<and>
        \<not> list_ex (\<lambda>env. ToLower env = ToLower (aq_Environment req)) (ar_Environments r) then False
      else True)"

definition DefaultPolicy :: approval_policy where
  "DefaultPolicy = (let base = \<lparr>ar_Name = [], ar_ActionClasses = [], ar_Agents = [], ar_Tools = [],
       ar_Environments = [], ar_RequireApproval = False, ar_AutoApprove = False, ar_ApproverRole = []\<rparr> in
     \<lparr>apo_Name = ''default'', apo_Description = ''Default approval policy for helpdesk operations'',
      apo_Rules =
        [base\<lparr>ar_Name := ''auto-approve-reads'', ar_ActionClasses := [ClassRead], ar_AutoApprove := True\<rparr>,
         base\<lparr>ar_Name := ''require-approval-destructive'', ar_ActionClasses := [ClassDestructive],
           ar_RequireApproval := True, ar_ApproverRole := ''admin''\<rparr>,
         base\<lparr>ar_Name := ''require-approval-prod-writes'', ar_ActionClasses := [ClassWrite],
           ar_Environments := [''prod'', ''production''], ar_RequireApproval := True, ar_ApproverRole := ''dba''\<rparr>,
         base\<lparr>ar_Name := ''auto-approve-non-prod-writes'', ar_ActionClasses := [ClassWrite],
           ar_AutoApprove := True\<rparr>]\<rparr>)"

fun evaluate_rules :: "time \<Rightarrow> string \<Rightarrow> approval_request \<Rightarrow> approval_rule list \<Rightarrow> approval" where
  "evaluate_rules now name req [] =
     zero_approval\<lparr>av_Required := False, av_Status := ''not_required'', av_PolicyName := name @ ''/default''\<rparr>"
| "evaluate_rules now name req (r # rs) =
     (if rule_matches r req then
        (let a = zero_approval\<lparr>av_Required := ar_RequireApproval r, av_RequestedBy := aq_Principal req,
               av_RequestedAt := now, av_PolicyName := name @ ''/'' @ ar_Name r\<rparr>
         in if ar_RequireApproval r then a\<lparr>av_Status := ''pending''\<rparr>
            else if ar_AutoApprove r then
              a\<lparr>av_Status := ''auto_approved'', av_ApprovedBy := ''policy:'' @ ar_Name r, av_ApprovedAt := now\<rparr>
            else a\<lparr>av_Status := ''not_required''\<rparr>)
      else evaluate_rules now name req rs)"

definition approval_Evaluate :: "time \<Rightarrow> approval_policy \<Rightarrow> approval_request \<Rightarrow> approval" where
  "approval_Evaluate now p req = evaluate_rules now (apo_Name p) req (apo_Rules p)"

section \<open>The approval manager\<close>

record pending_approval =
  pa_EventID :: string
  pa_TraceID :: string
  pa_Request :: approval_request
  pa_Approval :: approval
  pa_CreatedAt :: time
  pa_Description :: string

record approval_manager =
  am_policy :: approval_policy
  am_pending :: "(string \<times> pending_approval) list"

definition NewApprovalManager :: "approval_policy option \<Rightarrow> approval_manager" where
  "NewApprovalManager policy =
     \<lparr>am_policy = (case policy of None \<Rightarrow> DefaultPolicy | Some p \<Rightarrow> p), am_pending = []\<rparr>"

definition am_RequestApproval ::
  "time \<Rightarrow> string \<Rightarrow> string \<Rightarrow> string \<Rightarrow> approval_request \<Rightarrow> approval_manager \<Rightarrow>
   pending_approval \<times> approval_manager" where
  "am_RequestApproval now eventID traceID description req m =
     (let approval = approval_Evaluate now (am_policy m) req;
          pending = \<lparr>pa_EventID = eventID, pa_TraceID = traceID, pa_Request = req, pa_Approval = approval,
            pa_CreatedAt = now, pa_Description = description\<rparr>
      in if av_Status approval = ''pending''
         then (pending, m\<lparr>am_pending := AList.update eventID pending (am_pending m)\<rparr>)
         else (pending, m))"

text \<open>The resolved record stays with whoever holds it; the result carries it.\<close>

definition am_Approve ::
  "time \<Rightarrow> string \<Rightarrow> string \<Rightarrow> string \<Rightarrow> duration \<Rightarrow> approval_manager \<Rightarrow>
   (string + pending_approval) \<times> approval_manager" where
  "am_Approve now eventID approverID justification validFor m =
     (case map_of (am_pending m) eventID of
        None \<Rightarrow> (Inl (''no pending approval for event '' @ eventID), m)
      | Some p \<Rightarrow>
          (let a = (pa_Approval p)\<lparr>av_Status := ''approved'', av_ApprovedBy := approverID,
                 av_ApprovedAt := now, av_Justification := justification\<rparr>;
               a = (if validFor > 0 then a\<lparr>av_ExpiresAt := time_add now validFor\<rparr> else a)
           in (Inr (p\<lparr>pa_Approval := a\<rparr>), m\<lparr>am_pending := AList.delete eventID (am_pending m)\<rparr>)))"

definition am_Deny ::
  "time \<Rightarrow> string \<Rightarrow> string \<Rightarrow> string \<Rightarrow> approval_manager \<Rightarrow>
   (string + pending_approval) \<times> approval_manager" where
  "am_Deny now eventID approverID reason m =
     (case map_of (am_pending m) eventID of
        None \<Rightarrow> (Inl (''no pending approval for event '' @ eventID), m)
      | Some p \<Rightarrow>
          (Inr (p\<lparr>pa_Approval := (pa_Approval p)\<lparr>av_Status := ''denied'', av_ApprovedBy := approverID,
              av_ApprovedAt := now, av_Justification := reason\<rparr>\<rparr>),
           m\<lparr>am_pending := AList.delete eventID (am_pending m)\<rparr>))"

definition GetPending :: "approval_manager \<Rightarrow> pending_approval list" where
  "GetPending m = map snd (am_pending m)"

definition GetPendingByID :: "string \<Rightarrow> approval_manager \<Rightarrow> pending_approval option" where
  "GetPendingByID eventID m = map_of (am_pending m) eventID"

section \<open>Approval sessions\<close>

record approval_session =
  se_SessionID :: string
  se_GrantedBy :: string
  se_GrantedAt :: time
  se_ExpiresAt :: time
  se_AllowedClasses :: "string list"
  se_Scope :: string
  se_Revoked :: bool

definition session_IsValid :: "time \<Rightarrow> approval_session option \<Rightarrow> string \<Rightarrow> bool" where
  "session_IsValid now so class = (case so of
     None \<Rightarrow> False
   | Some s \<Rightarrow>
       (if se_Revoked s then False
        else if now > se_ExpiresAt s then False
        else List.member (se_AllowedClasses s) class))"

text \<open>The table keeps times to the second.\<close>

definition to_seconds :: "time \<Rightarrow> time" where
  "to_seconds t = t div sec_ns * sec_ns"

datatype session_error = ErrNoRows | DBError string

definition session_Create ::
  "string option \<Rightarrow> string \<Rightarrow> time \<Rightarrow> approval_session \<Rightarrow> approval_session list \<Rightarrow>
   (session_error + approval_session) \<times> approval_session list" where
  "session_Create flt uid now sess tbl =
     (let sess = (if se_SessionID sess = [] then sess\<lparr>se_SessionID := ''aps_'' @ take 8 uid\<rparr> else sess);
          sess = (if se_GrantedAt sess = 0 then sess\<lparr>se_GrantedAt := now\<rparr> else sess)
      in case flt of
           Some e \<Rightarrow> (Inl (DBError e), tbl)
         | None \<Rightarrow>
             (if list_ex (\<lambda>s. se_SessionID s = se_SessionID sess) tbl
              then (Inl (DBError ''UNIQUE constraint failed''), tbl)
              else (Inr sess, tbl @ [sess\<lparr>se_GrantedAt := to_seconds (se_GrantedAt sess),
                se_ExpiresAt := to_seconds (se_ExpiresAt sess), se_Revoked := False\<rparr>])))"

definition session_Get ::
  "string option \<Rightarrow> string \<Rightarrow> approval_session list \<Rightarrow> session_error + approval_session" where
  "session_Get flt sid tbl = (case flt of
     Some e \<Rightarrow> Inl (DBError e)
   | None \<Rightarrow> (case find (\<lambda>s. se_SessionID s = sid) tbl of None \<Rightarrow> Inl ErrNoRows | Some s \<Rightarrow> Inr s))"

definition session_Revoke ::
  "string option \<Rightarrow> string \<Rightarrow> approval_session list \<Rightarrow> session_error option \<times> approval_session list" where
  "session_Revoke flt sid tbl = (case flt of
     Some e \<Rightarrow> (Some (DBError e), tbl)
   | None \<Rightarrow>
       (if list_ex (\<lambda>s. se_SessionID s = sid) tbl
        then (None, map (\<lambda>s. if se_SessionID s = sid then s\<lparr>se_Revoked := True\<rparr> else s) tbl)
        else (Some ErrNoRows, tbl)))"

record session_body =
  sb_GrantedBy :: string
  sb_ExpiresInSecs :: int
  sb_AllowedClasses :: "string list"
  sb_Scope :: string

text \<open>A response is its status with an error text or the session. \<open>body\<close> is the decoded
  request body or the decoder's error.\<close>

definition session_handleCreate ::
  "string option \<Rightarrow> string \<Rightarrow> time \<Rightarrow> string + session_body \<Rightarrow> approval_session list \<Rightarrow>
   (int \<times> (string + approval_session)) \<times> approval_session list" where
  "session_handleCreate flt uid now body tbl = (case body of
     Inl err \<Rightarrow> ((400, Inl (''invalid JSON: '' @ err)), tbl)
   | Inr b \<Rightarrow>
       (if sb_GrantedBy b = [] then ((400, Inl ''granted_by is required''), tbl)
        else if sb_ExpiresInSecs b \<le> 0 then ((400, Inl ''expires_in_secs must be positive''), tbl)
        else if sb_AllowedClasses b = [] then ((400, Inl ''allowed_classes must not be empty''), tbl)
        else
          (let sess = \<lparr>se_SessionID = [], se_GrantedBy = sb_GrantedBy b, se_GrantedAt = now,
                 se_ExpiresAt = time_add now (wrap64 (sb_ExpiresInSecs b * Second)),
                 se_AllowedClasses = sb_AllowedClasses b, se_Scope = sb_Scope b, se_Revoked = False\<rparr>
           in case session_Create flt uid now sess tbl of
                (Inl _, tbl') \<Rightarrow> ((500, Inl ''failed to create session''), tbl')
              | (Inr s, tbl') \<Rightarrow> ((201, Inr s), tbl'))))"

definition session_handleGet ::
  "string option \<Rightarrow> string \<Rightarrow> approval_session list \<Rightarrow> int \<times> (string + approval_session)" where
  "session_handleGet flt sid tbl =
     (if sid = [] then (400, Inl ''sessionID is required'')
      else (case session_Get flt sid tbl of
          Inl ErrNoRows \<Rightarrow> (404, Inl ''session not found'')
        | Inl (DBError _) \<Rightarrow> (500, Inl ''failed to get session'')
        | Inr s \<Rightarrow> (200, Inr s)))"

definition session_handleRevoke ::
  "string option \<Rightarrow> string \<Rightarrow> approval_session list \<Rightarrow> (int \<times> string) \<times> approval_session list" where
  "session_handleRevoke flt sid tbl =
     (if sid = [] then ((400, ''sessionID is required''), tbl)
      else (case session_Revoke flt sid tbl of
          (Some ErrNoRows, t) \<Rightarrow> ((404, ''session not found''), t)
        | (Some (DBError _), t) \<Rightarrow> ((500, ''failed to revoke session''), t)
        | (None, t) \<Rightarrow> ((204, []), t)))"

section \<open>The gates of the gateway\<close>

definition checkOperatingMode :: "string \<Rightarrow> string \<Rightarrow> bool" where
  "checkOperatingMode operatingMode toolName =
     (if operatingMode \<noteq> ''readonly-governed'' then True
      else (let class = ClassifyTool toolName in
        if class = ClassWrite \<or> class = ClassDestructive then False else True))"

definition em_dash :: string where
  "em_dash = [CHR 0xE2, CHR 0x80, CHR 0x94]"

record approval_context =
  ac_mode :: string
  ac_sessionID :: string

text \<open>\<open>fetch\<close> is the answer of auditd for the session; the flag of the result says that the call
  is blocked.\<close>

definition checkApprovalMode ::
  "time \<Rightarrow> string \<Rightarrow> (string \<Rightarrow> string + approval_session) \<Rightarrow> approval_context option \<Rightarrow> string \<Rightarrow> bool \<times> string" where
  "checkApprovalMode now auditURL fetch ctx toolName = (case ctx of
     None \<Rightarrow> (False, [])
   | Some c \<Rightarrow>
       (if ac_mode c = [] \<or> ac_mode c = ''auto'' then (False, [])
        else (let class = ClassifyTool toolName in
          if \<not> class_IsApprovalRequired class then (False, [])
          else if ac_mode c = ''manual'' then
            (True, ''approval_mode=manual: tool '' @ Quote toolName @ '' ('' @ class @ '') requires explicit approval '' @
               em_dash @ '' run in session mode with a valid approval session or obtain per-step approval'')
          else if ac_mode c = ''session'' then
            (if ac_sessionID c = [] then
               (True, ''approval_mode=session: tool '' @ Quote toolName @ '' ('' @ class @ '') requires an approval session '' @
                  em_dash @ '' supply approval_session in the run request'')
             else if auditURL = [] then
               (True, ''approval_mode=session: cannot validate session '' @ em_dash @ '' auditd not configured'')
             else (case fetch (ac_sessionID c) of
                 Inl err \<Rightarrow> (True, ''approval_mode=session: session '' @ Quote (ac_sessionID c) @ '' not found or error: '' @ err)
               | Inr s \<Rightarrow>
                   (if \<not> session_IsValid now (Some s) class then
                      (True, ''approval_mode=session: session '' @ Quote (ac_sessionID c) @ '' is not valid for '' @ class @
                         '' tool '' @ Quote toolName @ '': '' @
                         (if \<not> se_Revoked s \<and> now < se_ExpiresAt s
                          then ''does not cover action class '' @ Quote class else ''expired or revoked''))
                    else (False, []))))
          else (False, []))))"

section \<open>Tables of pending requests\<close>

text \<open>
  \<open>res x k s\<close> tries to resolve request \<open>k\<close> in the way \<open>x\<close>; \<open>pend\<close> says which
  requests are pending. Only a pending request is resolved, a success takes that request and no
  other out of the pending ones, and a failure changes none of them. \<open>resolve_all\<close> runs a
  sequence of attempts and returns the requests that were resolved, in order.
\<close>

fun resolve_all ::
  "('x \<Rightarrow> 'k \<Rightarrow> 's \<Rightarrow> ('e + 'r) \<times> 's) \<Rightarrow> ('x \<times> 'k) list \<Rightarrow> 's \<Rightarrow> 'k list \<times> 's" where
  "resolve_all res [] s = ([], s)"
| "resolve_all res ((x, k) # xs) s =
     (case res x k s of
        (Inl e, s') \<Rightarrow> resolve_all res xs s'
      | (Inr r, s') \<Rightarrow> apfst (Cons k) (resolve_all res xs s'))"

locale single_resolution =
  fixes res :: "'x \<Rightarrow> 'k \<Rightarrow> 's \<Rightarrow> ('e + 'r) \<times> 's" and pend :: "'s \<Rightarrow> 'k \<Rightarrow> bool"
  assumes only_pending: "res x k s = (Inr r, s') \<Longrightarrow> pend s k"
    and success: "res x k s = (Inr r, s') \<Longrightarrow> pend s' j \<longleftrightarrow> pend s j \<and> j \<noteq> k"
    and failure: "res x k s = (Inl e, s') \<Longrightarrow> pend s' = pend s"
begin

text \<open>However many resolutions race for a request, in whatever order, at most one succeeds.\<close>

lemma resolve_all_spec:
  "distinct (fst (resolve_all res xs s)) \<and>
   (\<forall>k. pend (snd (resolve_all res xs s)) k \<longleftrightarrow> pend s k \<and> k \<notin> set (fst (resolve_all res xs s))) \<and>
   (\<forall>k \<in> set (fst (resolve_all res xs s)). pend s k)"
proof (induction xs arbitrary: s)
  case (Cons y xs)
  obtain x k where y: "y = (x, k)" by (cases y)
  obtain a s' where r: "res x k s = (a, s')" by (cases "res x k s")
  show ?case
  proof (cases a)
    case (Inl e)
    with r y failure [of x k s e s'] Cons.IH [of s'] show ?thesis by simp
  next
    case (Inr v)
    with r have rs: "res x k s = (Inr v, s')" by simp
    with y only_pending [OF rs] success [OF rs] Cons.IH [of s'] show ?thesis by auto
  qed
qed simp

end

datatype manager_resolution =
    ByApprove string string duration
  | ByDeny string string

fun am_resolve :: "time \<Rightarrow> manager_resolution \<Rightarrow> string \<Rightarrow> approval_manager \<Rightarrow>
    (string + pending_approval) \<times> approval_manager" where
  "am_resolve now (ByApprove who why d) k m = am_Approve now k who why d m"
| "am_resolve now (ByDeny who why) k m = am_Deny now k who why m"

definition am_is_pending :: "approval_manager \<Rightarrow> string \<Rightarrow> bool" where
  "am_is_pending m k \<longleftrightarrow> map_of (am_pending m) k \<noteq> None"

lemmas am_resolve_defs = am_Approve_def am_Deny_def am_is_pending_def Let_def

interpretation manager: single_resolution "am_resolve now" am_is_pending for now
proof unfold_locales
  fix x k s r s' j e
  show "am_resolve now x k s = (Inr r, s') \<Longrightarrow> am_is_pending s k"
    by (cases x) (auto simp: am_resolve_defs split: option.splits)
  show "am_resolve now x k s = (Inr r, s') \<Longrightarrow> am_is_pending s' j = (am_is_pending s j \<and> j \<noteq> k)"
    by (cases x) (auto simp: am_resolve_defs delete_conv' split: option.splits if_splits)
  show "am_resolve now x k s = (Inl e, s') \<Longrightarrow> am_is_pending s' = am_is_pending s"
    by (cases x) (auto simp: am_resolve_defs split: option.splits)
qed

section \<open>Facts about rules and sessions\<close>

lemma evaluate_rules_find:
  "evaluate_rules now name req rs =
     (case find (\<lambda>r. rule_matches r req) rs of
        None \<Rightarrow> evaluate_rules now name req []
      | Some r \<Rightarrow> evaluate_rules now name req [r])"
  by (induction rs) (auto dest: find_Some_mem split: option.splits)

lemma evaluate_rules_expires: "av_ExpiresAt (evaluate_rules now name req rs) = 0"
  by (induction rs) (auto simp: zero_approval_def Let_def)

lemma find_map_upd:
  "(\<And>x. P (f x) = P x) \<Longrightarrow> find P (map f xs) = map_option f (find P xs)"
  by (induction xs) auto

section \<open>Properties\<close>

text \<open>the default approval policy, on every request. Reads are approved automatically,
  destructive operations always wait for approval, writes wait in the production environments
  (in any letter case) and are approved automatically elsewhere; every other class, escalations
  and unclassified operations included, needs no approval.\<close>

theorem default_approval_policy:
  "let a = approval_Evaluate now DefaultPolicy req; c = aq_ActionClass req in
     av_Status a = (if c = ClassRead then ''auto_approved''
        else if c = ClassDestructive then ''pending''
        else if c = ClassWrite then
          (if ToLower (aq_Environment req) \<in> {''prod'', ''production''} then ''pending'' else ''auto_approved'')
        else ''not_required'') \<and>
     (av_Required a \<longleftrightarrow> av_Status a = ''pending'') \<and>
     (approval_IsValid t a \<longleftrightarrow> av_Status a = ''auto_approved'')"
proof -
  have "ToLower ''prod'' = ''prod''" "ToLower ''production'' = ''production''"
    by (simp_all add: ToLower_def lower_char_def)
  then show ?thesis
    by (auto simp: approval_Evaluate_def DefaultPolicy_def rule_matches_def approval_IsValid_def
        zero_approval_def Let_def)
qed

text \<open>a pending request of the manager is resolved at most once. In any sequence of approvals
  and denials the resolved requests are pairwise different and were pending at the start, and what
  is pending afterwards is what was pending and was not resolved.\<close>

theorem manager_resolves_once:
  "distinct (fst (resolve_all (am_resolve now) xs m)) \<and>
   set (fst (resolve_all (am_resolve now) xs m)) \<subseteq> {k. am_is_pending m k} \<and>
   {k. am_is_pending (snd (resolve_all (am_resolve now) xs m)) k} =
     {k. am_is_pending m k} - set (fst (resolve_all (am_resolve now) xs m))"
  using manager.resolve_all_spec [of now xs m] by auto

text \<open>a request that waits can be approved. It leaves the pending requests, and the approval it
  yields is valid up to the end of the period given, without limit when none was.\<close>

theorem manager_approve_valid:
  assumes "av_Status (approval_Evaluate t0 (am_policy m) req) = ''pending''" and "0 < t1"
  shows "\<exists>p m'. am_Approve t1 ev who why d (snd (am_RequestApproval t0 ev tr desc req m)) = (Inr p, m') \<and>
     am_is_pending m' ev = False \<and> av_ApprovedBy (pa_Approval p) = who \<and>
     (approval_IsValid t (pa_Approval p) \<longleftrightarrow> d \<le> 0 \<or> t \<le> time_add t1 d)"
  using assms evaluate_rules_expires [of t0 "apo_Name (am_policy m)" req "apo_Rules (am_policy m)"]
  by (auto simp: am_RequestApproval_def am_Approve_def am_is_pending_def approval_IsValid_def
      approval_Evaluate_def update_conv delete_conv' time_add_def Let_def)

definition sample_deletion :: approval_request where
  "sample_deletion = \<lparr>aq_ActionClass = ClassDestructive, aq_Agent = ''k8s'', aq_Tool = ''delete_pod'',
     aq_Environment = ''staging'', aq_Principal = ''alice''\<rparr>"

theorem manager_approve_valid_witness:
  "\<exists>p m'. am_Approve 7 ''e'' ''bob'' ''ok'' 5
       (snd (am_RequestApproval 3 ''e'' ''t'' ''d'' sample_deletion (NewApprovalManager None))) = (Inr p, m') \<and>
     am_is_pending m' ''e'' = False \<and> av_ApprovedBy (pa_Approval p) = ''bob'' \<and>
     (approval_IsValid 12 (pa_Approval p) \<longleftrightarrow> (5 :: int) \<le> 0 \<or> 12 \<le> time_add 7 5)"
  by (rule manager_approve_valid)
     (simp_all add: NewApprovalManager_def DefaultPolicy_def approval_Evaluate_def rule_matches_def
       sample_deletion_def zero_approval_def Let_def)

text \<open>the life of an approval session. A session created over HTTP is found again, allows
  exactly the classes it names up to its expiry, which the table cuts to the second, and after a
  revocation allows nothing at any time.\<close>

theorem session_lifecycle:
  assumes "sb_GrantedBy b \<noteq> []" "0 < sb_ExpiresInSecs b" "sb_ExpiresInSecs b \<le> 9223372036"
    and "sb_AllowedClasses b \<noteq> []" and "''aps_'' @ take 8 uid \<notin> se_SessionID ` set tbl"
  shows "\<exists>s tbl'. session_handleCreate None uid now (Inr b) tbl = ((201, Inr s), tbl') \<and>
     (\<exists>g. session_handleGet None (se_SessionID s) tbl' = (200, Inr g) \<and>
        (\<forall>t c. session_IsValid t (Some g) c \<longleftrightarrow> c \<in> set (sb_AllowedClasses b) \<and>
           t \<le> to_seconds (now + nat (sb_ExpiresInSecs b) * sec_ns))) \<and>
     (\<exists>tbl''. session_handleRevoke None (se_SessionID s) tbl' = ((204, []), tbl'') \<and>
        (\<exists>g. session_handleGet None (se_SessionID s) tbl'' = (200, Inr g) \<and>
           (\<forall>t c. session_IsValid t (Some g) c = False)))"
proof -
  let ?sid = "''aps_'' @ take 8 uid"
  have w: "wrap64 (sb_ExpiresInSecs b * Second) = sb_ExpiresInSecs b * 1000000000"
    using assms(2,3) by (subst wrap64_id) (auto simp: Second_def)
  have e: "time_add now (wrap64 (sb_ExpiresInSecs b * Second)) = now + nat (sb_ExpiresInSecs b) * sec_ns"
    unfolding w using assms(2) by (simp add: time_add_def sec_ns_def nat_add_distrib nat_mult_distrib)
  have none: "\<not> list_ex (\<lambda>s. se_SessionID s = ?sid) tbl"
    using assms(5) unfolding list_ex_iff by (metis image_eqI)
  have f: "find (\<lambda>s. se_SessionID s = ?sid) tbl = None"
    using assms(5) unfolding find_None_iff by (metis image_eqI)
  then have f': "find (\<lambda>s. se_SessionID s = ?sid)
      (map (\<lambda>s. if se_SessionID s = ?sid then s\<lparr>se_Revoked := True\<rparr> else s) tbl) = None"
    by (subst find_map_upd) auto
  show ?thesis
    using assms(1,2,4) none f f' e
    by (simp add: session_handleCreate_def session_Create_def session_handleGet_def session_Get_def
        session_handleRevoke_def session_Revoke_def session_IsValid_def find_append Let_def not_less)
qed

theorem session_lifecycle_witness:
  "\<exists>s tbl'. session_handleCreate None ''0123456789'' 5000000000
       (Inr \<lparr>sb_GrantedBy = ''boris'', sb_ExpiresInSecs = 1800, sb_AllowedClasses = [''write''], sb_Scope = []\<rparr>) [] =
       ((201, Inr s), tbl')"
  using session_lifecycle [of "\<lparr>sb_GrantedBy = ''boris'', sb_ExpiresInSecs = 1800,
      sb_AllowedClasses = [''write''], sb_Scope = []\<rparr>" "''0123456789''" "[]" 5000000000]
  by auto

text \<open>the scope of a session restricts nothing. Replacing the scope of every session by any
  other one changes neither the validity of a session nor what the gateway lets through.\<close>

theorem session_scope_ignored:
  "session_IsValid now (Some (s\<lparr>se_Scope := sc\<rparr>)) class = session_IsValid now (Some s) class \<and>
   checkApprovalMode now url (\<lambda>i. map_sum id (\<lambda>s. s\<lparr>se_Scope := sc\<rparr>) (fetch i)) ctx tool =
   checkApprovalMode now url fetch ctx tool"
  by (auto simp: session_IsValid_def checkApprovalMode_def Let_def split: option.splits sum.splits)

text \<open>in session mode a tool that needs approval runs only under a session that auditd returned
  and that is valid for the class of the tool; in manual mode it does not run at all; and a
  read-only gateway refuses exactly the tools listed as writes or destructive.\<close>

theorem approval_modes:
  assumes "class_IsApprovalRequired (ClassifyTool tool)"
  shows "(fst (checkApprovalMode now url fetch (Some \<lparr>ac_mode = ''session'', ac_sessionID = sid\<rparr>) tool) = False \<longleftrightarrow>
        sid \<noteq> [] \<and> url \<noteq> [] \<and> (\<exists>s. fetch sid = Inr s \<and> session_IsValid now (Some s) (ClassifyTool tool))) \<and>
     fst (checkApprovalMode now url fetch (Some \<lparr>ac_mode = ''manual'', ac_sessionID = sid\<rparr>) tool) \<and>
     \<not> checkOperatingMode ''readonly-governed'' tool"
proof -
  have "ClassifyTool tool = ClassWrite \<or> ClassifyTool tool = ClassDestructive"
    using assms ClassifyTool_known [of tool] by (auto simp: class_IsApprovalRequired_def)
  then have "\<not> checkOperatingMode ''readonly-governed'' tool"
    by (auto simp: checkOperatingMode_def Let_def)
  with assms show ?thesis
    by (auto simp: checkApprovalMode_def Let_def split: sum.splits)
qed

theorem approval_modes_witness:
  "fst (checkApprovalMode 5 ''http://auditd'' (\<lambda>_. Inl ''none'') (Some \<lparr>ac_mode = ''session'', ac_sessionID = ''aps_1''\<rparr>)
     ''delete_pod'')"
  using approval_modes [of "''delete_pod''" 5 "''http://auditd''" "\<lambda>_. Inl ''none''" "''aps_1''"]
  by (simp add: ClassifyTool_def ToolClassification_def class_IsApprovalRequired_def)

end
