(* ===== verification/Go_Base64.thy ===== *)
theory Go_Base64
  imports Prelude
begin

text \<open>
  \<^verbatim>\<open>base64.RawStdEncoding\<close> of the Go library, as the API-key hashes use it: the standard
  alphabet, no padding, line breaks ignored by the decoder and spare bits of the last digit
  dropped. The decoder inverts the encoder.
\<close>

definition enc64 :: "nat \<Rightarrow> char" where
  "enc64 k = (if k < 26 then char_of (65 + k) else if k < 52 then char_of (71 + k)
     else if k < 62 then char_of (k - 4) else if k = 62 then CHR ''+'' else CHR ''/'')"

definition dec64 :: "char \<Rightarrow> nat option" where
  "dec64 c = (let n = (of_char c :: nat) in
     if 65 \<le> n \<and> n \<le> 90 then Some (n - 65) else if 97 \<le> n \<and> n \<le> 122 then Some (n - 71)
     else if 48 \<le> n \<and> n \<le> 57 then Some (n + 4) else if n = 43 then Some 62
     else if n = 47 then Some 63 else None)"

fun encode_bytes :: "nat list \<Rightarrow> nat list" where
  "encode_bytes [] = []"
| "encode_bytes [a] = [a div 4, a mod 4 * 16]"
| "encode_bytes [a, b] = [a div 4, a mod 4 * 16 + b div 16, b mod 16 * 4]"
| "encode_bytes (a # b # c # rest) =
     a div 4 # (a mod 4 * 16 + b div 16) # (b mod 16 * 4 + c div 64) # c mod 64 # encode_bytes rest"

fun decode_digits :: "nat list \<Rightarrow> nat list option" where
  "decode_digits [] = Some []"
| "decode_digits [x] = None"
| "decode_digits [x, y] = Some [x * 4 + y div 16]"
| "decode_digits [x, y, z] = Some [x * 4 + y div 16, y mod 16 * 16 + z div 4]"
| "decode_digits (x # y # z # w # rest) =
     map_option (\<lambda>bs. (x * 4 + y div 16) # (y mod 16 * 16 + z div 4) # (z mod 4 * 64 + w) # bs)
       (decode_digits rest)"

fun digit_values :: "string \<Rightarrow> nat list option" where
  "digit_values [] = Some []"
| "digit_values (c # cs) =
     (if c = CHR 0x0A \<or> c = CHR 0x0D then digit_values cs
      else (case dec64 c of None \<Rightarrow> None | Some v \<Rightarrow> map_option (Cons v) (digit_values cs)))"

definition EncodeToString :: "string \<Rightarrow> string" where
  "EncodeToString s = map enc64 (encode_bytes (map of_char s))"

definition DecodeString :: "string \<Rightarrow> string option" where
  "DecodeString s = (case digit_values s of None \<Rightarrow> None
     | Some ds \<Rightarrow> map_option (map char_of) (decode_digits ds))"

lemma encode_bytes_digits: "(\<forall>b \<in> set bs. b < 256) \<Longrightarrow> d \<in> set (encode_bytes bs) \<Longrightarrow> d < 64"
  by (induction bs rule: encode_bytes.induct) auto

lemma shift_join:
  fixes u v k :: nat
  assumes "v < k"
  shows "(u * k + v) div k = u" and "(u * k + v) mod k = v"
  using assms by auto

lemma digit_joins:
  fixes a b c :: nat
  assumes "b < 256" "c < 256"
  shows "(a mod 4 * 16 + b div 16) div 16 = a mod 4" "(a mod 4 * 16 + b div 16) mod 16 = b div 16"
    "(b mod 16 * 4 + c div 64) div 4 = b mod 16" "(b mod 16 * 4 + c div 64) mod 4 = c div 64"
proof -
  have "b div 16 < 16" "c div 64 < 4" using assms by auto
  then show "(a mod 4 * 16 + b div 16) div 16 = a mod 4" "(a mod 4 * 16 + b div 16) mod 16 = b div 16"
    "(b mod 16 * 4 + c div 64) div 4 = b mod 16" "(b mod 16 * 4 + c div 64) mod 4 = c div 64"
    by (simp_all only: shift_join)
qed

lemma decode_encode_bytes: "(\<forall>b \<in> set bs. b < 256) \<Longrightarrow> decode_digits (encode_bytes bs) = Some bs"
proof (induction bs rule: encode_bytes.induct)
  case (3 a b)
  then have "b < 256" by simp
  from digit_joins(1,2) [OF this, of 0] show ?case by simp
next
  case (4 a b c rest)
  then have "b < 256" "c < 256" by simp_all
  with 4 digit_joins [OF \<open>b < 256\<close> \<open>c < 256\<close>] show ?case by simp
qed simp_all

lemma of_char_enc64:
  "(of_char (enc64 k) :: nat) = (if k < 26 then 65 + k else if k < 52 then 71 + k
     else if k < 62 then k - 4 else if k = 62 then 43 else 47)"
  by (simp add: enc64_def)

lemma dec64_enc64: "k < 64 \<Longrightarrow> dec64 (enc64 k) = Some k"
  by (auto simp: dec64_def Let_def of_char_enc64)

lemma enc64_plain: "enc64 k \<notin> {CHR 0x0A, CHR 0x0D, CHR ''$''}"
proof -
  have "(of_char (enc64 k) :: nat) \<noteq> 10 \<and> (of_char (enc64 k) :: nat) \<noteq> 13 \<and>
      (of_char (enc64 k) :: nat) \<noteq> 36"
    unfolding of_char_enc64 by auto
  then show ?thesis by auto
qed

lemma digit_values_enc64: "(\<forall>d \<in> set ds. d < 64) \<Longrightarrow> digit_values (map enc64 ds) = Some ds"
  by (induction ds) (use enc64_plain in \<open>auto simp: dec64_enc64\<close>)

lemma of_char_less: "(of_char c :: nat) < 256"
  by (metis of_char_mod_256 mod_less_divisor zero_less_numeral)

lemma DecodeString_EncodeToString: "DecodeString (EncodeToString s) = Some s"
proof -
  let ?bs = "map of_char s :: nat list"
  have bs: "\<forall>b \<in> set ?bs. b < 256" by (auto simp: of_char_less)
  then have "digit_values (map enc64 (encode_bytes ?bs)) = Some (encode_bytes ?bs)"
    by (intro digit_values_enc64) (blast dest: encode_bytes_digits)
  then show ?thesis
    by (simp add: DecodeString_def EncodeToString_def decode_encode_bytes [OF bs] comp_def)
qed

lemma EncodeToString_no_dollar: "CHR ''$'' \<notin> set (EncodeToString s)"
  unfolding EncodeToString_def using enc64_plain by fastforce

end
