(* ===== verification/Identity.thy ===== *)
theory Identity
  imports Go_Base64 "HOL-Library.AList"
begin

text \<open>
  Principals and the identity providers of \<^verbatim>\<open>internal/identity\<close>: \<open>NoAuth\<close>
  (\<^verbatim>\<open>noneauth.go\<close>) and \<open>Static\<close> (\<^verbatim>\<open>static.go\<close>). An HTTP request is seen
  through its header lookup, which returns the empty string for a missing header. Argon2id is not
  part of the sources: its key derivation is the argument \<open>idkey\<close> (key, salt, time, memory,
  threads, output length). A Go map that is ranged over is an association list in the order of the
  visit. The locale \<open>provider\<close> is what the authorization layer relies on.
\<close>

section \<open>Principals\<close>

record principal =
  pr_UserID :: string
  pr_Roles :: "string list"
  pr_Service :: string
  pr_AuthMethod :: string
  pr_OperatorID :: string
  pr_OperatorRoles :: "string list"

definition zero_principal :: principal where
  "zero_principal = \<lparr>pr_UserID = [], pr_Roles = [], pr_Service = [], pr_AuthMethod = [],
     pr_OperatorID = [], pr_OperatorRoles = []\<rparr>"

definition IsAnonymous :: "principal \<Rightarrow> bool" where
  "IsAnonymous p \<longleftrightarrow> pr_AuthMethod p = ''header''"

definition HasRole :: "principal \<Rightarrow> string \<Rightarrow> bool" where
  "HasRole p role \<longleftrightarrow> List.member (pr_Roles p) role \<or> List.member (pr_OperatorRoles p) role"

definition EffectiveID :: "principal \<Rightarrow> string" where
  "EffectiveID p = (if pr_OperatorID p \<noteq> [] then pr_OperatorID p
     else if pr_Service p \<noteq> [] then pr_Service p else pr_UserID p)"

type_synonym headers = "string \<Rightarrow> string"
type_synonym resolver = "headers \<Rightarrow> string + principal"

section \<open>No authentication\<close>

definition NoAuth_Resolve :: resolver where
  "NoAuth_Resolve h = Inr (zero_principal\<lparr>pr_UserID := h ''X-User'', pr_AuthMethod := ''header''\<rparr>)"

section \<open>API key hashes\<close>

text \<open>\<^verbatim>\<open>strconv.ParseUint(s, 10, 32)\<close>.\<close>

fun parse_digits :: "nat \<Rightarrow> string \<Rightarrow> nat option" where
  "parse_digits acc [] = Some acc"
| "parse_digits acc (c # cs) = (let n = (of_char c :: nat) in
     if 48 \<le> n \<and> n \<le> 57 then parse_digits (acc * 10 + (n - 48)) cs else None)"

definition ParseUint32 :: "string \<Rightarrow> nat option" where
  "ParseUint32 s = (if s = [] then None else
     (case parse_digits 0 s of None \<Rightarrow> None | Some v \<Rightarrow> if v < 2 ^ 32 then Some v else None))"

text \<open>\<^verbatim>\<open>strings.SplitN(kv, "=", 2)\<close> with exactly two parts.\<close>

definition split_eq :: "string \<Rightarrow> (string \<times> string) option" where
  "split_eq kv = (let k = takeWhile (\<lambda>c. c \<noteq> CHR ''='') kv in
     if length k < length kv then Some (k, drop (Suc (length k)) kv) else None)"

type_synonym kdf = "string \<Rightarrow> string \<Rightarrow> nat \<Rightarrow> nat \<Rightarrow> nat \<Rightarrow> nat \<Rightarrow> string"

text \<open>The parameter loop: memory, time and threads, in that order.\<close>

fun argon_params :: "nat \<times> nat \<times> nat \<Rightarrow> string list \<Rightarrow> string + nat \<times> nat \<times> nat" where
  "argon_params mtp [] = Inr mtp"
| "argon_params (m, t, p) (kv # kvs) =
     (case split_eq kv of
        None \<Rightarrow> Inl (''invalid param '' @ Quote kv)
      | Some (k, s) \<Rightarrow> (case ParseUint32 s of
          None \<Rightarrow> Inl (''invalid param value '' @ Quote s)
        | Some v \<Rightarrow>
            (if k = ''m'' then argon_params (v, t, p) kvs
             else if k = ''t'' then argon_params (m, v, p) kvs
             else if k = ''p'' then argon_params (m, t, v) kvs
             else argon_params (m, t, p) kvs)))"

definition verifyArgon2id :: "kdf \<Rightarrow> string \<Rightarrow> string \<Rightarrow> string + bool" where
  "verifyArgon2id idkey key hashStr =
     (let parts = split_char (CHR ''$'') hashStr in
      if length parts \<noteq> 6 \<or> parts ! 1 \<noteq> ''argon2id'' then Inl ''invalid hash format''
      else (case argon_params (0, 0, 0) (split_char (CHR '','') (parts ! 3)) of
          Inl err \<Rightarrow> Inl err
        | Inr (memory, time, threads) \<Rightarrow>
            (case DecodeString (parts ! 4) of
               None \<Rightarrow> Inl ''invalid salt encoding''
             | Some salt \<Rightarrow> (case DecodeString (parts ! 5) of
                 None \<Rightarrow> Inl ''invalid hash encoding''
               | Some stored \<Rightarrow>
                   Inr (idkey key salt time memory (threads mod 256) (length stored) = stored)))))"

definition HashAPIKey :: "kdf \<Rightarrow> string \<Rightarrow> string \<Rightarrow> string" where
  "HashAPIKey idkey salt key =
     (let hash = idkey key salt 3 65536 4 32 in
      ''$argon2id$v=19$m='' @ nat_str 65536 @ '',t='' @ nat_str 3 @ '',p='' @ nat_str 4 @ ''$'' @
      EncodeToString salt @ ''$'' @ EncodeToString hash)"

section \<open>The static provider\<close>

record service_account =
  sa_ID :: string
  sa_Roles :: "string list"
  sa_APIKeyHash :: string

record users_config =
  uc_Users :: "(string \<times> string list) list"
  uc_ServiceAccounts :: "service_account list"
  uc_RoleAliases :: "(string \<times> string) list"

record static_provider =
  sp_users :: "(string \<times> string list) list"
  sp_serviceAccounts :: "(string \<times> service_account) list"
  sp_aliases :: "(string \<times> string) list"

text \<open>The file is read by \<open>readFile\<close> and decoded by the YAML package, \<open>unmarshal\<close>.\<close>

definition static_of_config :: "users_config \<Rightarrow> static_provider" where
  "static_of_config cfg =
     \<lparr>sp_users = foldl (\<lambda>m u. AList.update (fst u) (snd u) m) [] (uc_Users cfg),
      sp_serviceAccounts = foldl (\<lambda>m sa. AList.update (sa_ID sa) sa m) [] (uc_ServiceAccounts cfg),
      sp_aliases = foldl (\<lambda>m kv. AList.update (fst kv) (snd kv) m) [] (uc_RoleAliases cfg)\<rparr>"

definition NewStaticProvider ::
  "(string \<Rightarrow> string + string) \<Rightarrow> (string \<Rightarrow> string + users_config) \<Rightarrow> string \<Rightarrow> string + static_provider" where
  "NewStaticProvider readFile unmarshal path =
     (case readFile path of
        Inl err \<Rightarrow> Inl (''identity: reading users file '' @ Quote path @ '': '' @ err)
      | Inr data \<Rightarrow> (case unmarshal data of
          Inl err \<Rightarrow> Inl (''identity: parsing users file: '' @ err)
        | Inr cfg \<Rightarrow> Inr (static_of_config cfg)))"

definition expandRoles :: "static_provider \<Rightarrow> string list \<Rightarrow> string list" where
  "expandRoles sp roles =
     (if sp_aliases sp = [] then roles
      else map (\<lambda>r. case map_of (sp_aliases sp) r of Some c \<Rightarrow> c | None \<Rightarrow> r) roles)"

fun match_account :: "kdf \<Rightarrow> static_provider \<Rightarrow> string \<Rightarrow> (string \<times> service_account) list \<Rightarrow> string + principal" where
  "match_account idkey sp key [] = Inl ''identity: invalid API key''"
| "match_account idkey sp key ((i, sa) # rest) =
     (case verifyArgon2id idkey key (sa_APIKeyHash sa) of
        Inl _ \<Rightarrow> match_account idkey sp key rest
      | Inr ok \<Rightarrow>
          (if ok then Inr (zero_principal\<lparr>pr_Service := i, pr_Roles := expandRoles sp (sa_Roles sa),
                             pr_AuthMethod := ''api_key''\<rparr>)
           else match_account idkey sp key rest))"

definition resolveServiceAccount :: "kdf \<Rightarrow> static_provider \<Rightarrow> string \<Rightarrow> string + principal" where
  "resolveServiceAccount idkey sp key = match_account idkey sp key (sp_serviceAccounts sp)"

definition Static_Resolve :: "kdf \<Rightarrow> static_provider \<Rightarrow> resolver" where
  "Static_Resolve idkey sp h =
     (let auth = h ''Authorization''; user = h ''X-User'' in
      if HasPrefix auth ''Bearer '' then
        (case resolveServiceAccount idkey sp (TrimPrefix auth ''Bearer '') of
           Inl err \<Rightarrow> Inl err
         | Inr p \<Rightarrow>
             (if user \<noteq> [] then
                (case map_of (sp_users sp) user of
                   Some roles \<Rightarrow> Inr (p\<lparr>pr_OperatorID := user, pr_OperatorRoles := expandRoles sp roles\<rparr>)
                 | None \<Rightarrow> Inr p)
              else Inr p))
      else if user = [] then Inr (zero_principal\<lparr>pr_AuthMethod := ''header''\<rparr>)
      else (case map_of (sp_users sp) user of
          None \<Rightarrow> Inl (''identity: user '' @ Quote user @ '' not found in users config'')
        | Some roles \<Rightarrow> Inr (zero_principal\<lparr>pr_UserID := user, pr_Roles := expandRoles sp roles,
            pr_AuthMethod := ''static''\<rparr>)))"

definition PurposeFromRequest :: "string \<Rightarrow> string \<Rightarrow> string \<times> bool" where
  "PurposeFromRequest headerPurpose bodyPurpose =
     (if headerPurpose \<noteq> [] then (headerPurpose, True)
      else if bodyPurpose \<noteq> [] then (bodyPurpose, True) else ([], False))"

section \<open>The contract of a provider\<close>

text \<open>
  Roles, service names and operators come with a credential the provider has checked; a principal
  taken from a bare header carries none of them.
\<close>

locale provider =
  fixes resolve :: resolver
  assumes anonymous_bare: "resolve h = Inr p \<Longrightarrow> IsAnonymous p \<Longrightarrow>
    pr_Roles p = [] \<and> pr_OperatorRoles p = [] \<and> pr_Service p = [] \<and> pr_OperatorID p = []"
begin

lemma role_verified: "resolve h = Inr p \<Longrightarrow> HasRole p role \<Longrightarrow> \<not> IsAnonymous p"
  using anonymous_bare by (fastforce simp: HasRole_def)

lemma anonymous_id: "resolve h = Inr p \<Longrightarrow> IsAnonymous p \<Longrightarrow> EffectiveID p = pr_UserID p"
  using anonymous_bare by (fastforce simp: EffectiveID_def)

end

lemma match_account_api_key:
  "match_account idkey sp key xs = Inr p \<Longrightarrow>
     pr_AuthMethod p = ''api_key'' \<and> pr_OperatorID p = [] \<and> pr_OperatorRoles p = [] \<and> pr_UserID p = [] \<and>
     (\<exists>(i, sa) \<in> set xs. pr_Service p = i \<and> pr_Roles p = expandRoles sp (sa_Roles sa) \<and>
        verifyArgon2id idkey key (sa_APIKeyHash sa) = Inr True)"
  by (induction idkey sp key xs rule: match_account.induct)
     (auto simp: zero_principal_def split: sum.splits if_splits)

lemma Static_Resolve_anonymous:
  "Static_Resolve idkey sp h = Inr p \<Longrightarrow> IsAnonymous p \<Longrightarrow> p = zero_principal\<lparr>pr_AuthMethod := ''header''\<rparr>"
  by (auto simp: Static_Resolve_def resolveServiceAccount_def Let_def IsAnonymous_def
      split: if_splits sum.splits option.splits dest!: match_account_api_key)

interpretation noauth: provider NoAuth_Resolve
  by unfold_locales (auto simp: NoAuth_Resolve_def zero_principal_def)

interpretation static_auth: provider "Static_Resolve idkey sp" for idkey sp
  by unfold_locales (drule (1) Static_Resolve_anonymous, simp add: zero_principal_def)

section \<open>Facts about key hashes\<close>

lemma split_char_append: "c \<notin> set x \<Longrightarrow> split_char c (x @ c # y) = x # split_char c y"
  by (induction x) auto

lemma split_char_none: "c \<notin> set x \<Longrightarrow> split_char c x = [x]"
  by (induction x) auto

lemma HashAPIKey_shape:
  "HashAPIKey idkey salt key = [] @ CHR ''$'' # ''argon2id'' @ CHR ''$'' # ''v=19'' @ CHR ''$'' #
     ''m=65536,t=3,p=4'' @ CHR ''$'' # EncodeToString salt @ CHR ''$'' #
     EncodeToString (idkey key salt 3 65536 4 32)"
proof -
  have "nat_str 65536 = ''65536''" "nat_str 3 = ''3''" "nat_str 4 = ''4''"
    by (simp_all add: nat_str.simps digit_eval)
  then show ?thesis by (simp add: HashAPIKey_def Let_def)
qed

lemma HashAPIKey_split:
  "split_char (CHR ''$'') (HashAPIKey idkey salt key) =
     [[], ''argon2id'', ''v=19'', ''m=65536,t=3,p=4'', EncodeToString salt,
      EncodeToString (idkey key salt 3 65536 4 32)]"
proof -
  have "CHR ''$'' \<notin> set ''argon2id''" "CHR ''$'' \<notin> set ''v=19''" "CHR ''$'' \<notin> set ''m=65536,t=3,p=4''"
    by simp_all
  then show ?thesis
    unfolding HashAPIKey_shape
    by (simp only: split_char_append split_char_none EncodeToString_no_dollar list.set
        empty_iff not_False_eq_True)
qed

lemma argon_params_default:
  "argon_params (0, 0, 0) (split_char (CHR '','') ''m=65536,t=3,p=4'') = Inr (65536, 3, 4)"
  by (simp add: split_eq_def ParseUint32_def Let_def)

section \<open>Properties\<close>

text \<open>an API key verifies against its own hash, and against the hash of another key exactly
  when the key derivation maps both to the same output: for every 16-byte salt and every derivation
  that returns the requested number of bytes, parsing the stored text recovers the parameters, the
  salt and the digest that were written.\<close>

theorem api_key_roundtrip:
  assumes "\<And>k s t m p n. length (idkey k s t m p n) = n"
  shows "verifyArgon2id idkey key' (HashAPIKey idkey salt key) =
     Inr (idkey key' salt 3 65536 4 32 = idkey key salt 3 65536 4 32)"
  using assms
  by (simp add: verifyArgon2id_def HashAPIKey_split argon_params_default
      DecodeString_EncodeToString Let_def del: split_char.simps argon_params.simps)

theorem api_key_roundtrip_witness:
  "verifyArgon2id (\<lambda>k s t m p n. take n (k @ replicate n (CHR ''0''))) ''secret''
     (HashAPIKey (\<lambda>k s t m p n. take n (k @ replicate n (CHR ''0''))) ''salt'' ''secret'') = Inr True"
  by (subst api_key_roundtrip) simp_all

text \<open>what the static provider vouches for. A resolved principal is one of three: a service
  account of the file whose stored hash the presented key verifies, with the roles of that account
  and, when the request names a listed user, that user as operator; a listed user with the roles of
  the file; or the anonymous principal, without any role, when no credential was presented.\<close>

theorem static_principals:
  assumes "Static_Resolve idkey sp h = Inr p"
  shows "(pr_AuthMethod p = ''api_key'' \<and> HasPrefix (h ''Authorization'') ''Bearer '' \<and>
       (\<exists>(i, sa) \<in> set (sp_serviceAccounts sp). pr_Service p = i \<and>
          pr_Roles p = expandRoles sp (sa_Roles sa) \<and>
          verifyArgon2id idkey (TrimPrefix (h ''Authorization'') ''Bearer '') (sa_APIKeyHash sa) = Inr True) \<and>
       (pr_OperatorID p = [] \<and> pr_OperatorRoles p = [] \<or>
        pr_OperatorID p = h ''X-User'' \<and>
        map_option (expandRoles sp) (map_of (sp_users sp) (h ''X-User'')) = Some (pr_OperatorRoles p))) \<or>
     (p = zero_principal\<lparr>pr_UserID := h ''X-User'', pr_Roles := pr_Roles p, pr_AuthMethod := ''static''\<rparr> \<and>
        map_option (expandRoles sp) (map_of (sp_users sp) (h ''X-User'')) = Some (pr_Roles p)) \<or>
     (p = zero_principal\<lparr>pr_AuthMethod := ''header''\<rparr> \<and> h ''X-User'' = [] \<and>
        (HasPrefix (h ''Authorization'') ''Bearer '' \<longleftrightarrow> False))"
proof (cases "HasPrefix (h ''Authorization'') ''Bearer ''")
  case True
  then obtain q where q: "match_account idkey sp (TrimPrefix (h ''Authorization'') ''Bearer '')
        (sp_serviceAccounts sp) = Inr q"
      and p: "p = q \<or> (\<exists>roles. map_of (sp_users sp) (h ''X-User'') = Some roles \<and>
        p = q\<lparr>pr_OperatorID := h ''X-User'', pr_OperatorRoles := expandRoles sp roles\<rparr>)"
    using assms by (auto simp: Static_Resolve_def resolveServiceAccount_def Let_def
        split: sum.splits if_splits option.splits)
  from match_account_api_key [OF q] p True show ?thesis by auto
next
  case False
  with assms show ?thesis
    by (auto simp: Static_Resolve_def Let_def zero_principal_def split: if_splits option.splits)
qed

theorem static_principals_witness:
  "let sp = \<lparr>sp_users = [(''alice'', [''dba''])], sp_serviceAccounts = [], sp_aliases = []\<rparr>;
       h = (\<lambda>k. if k = ''X-User'' then ''alice'' else []);
       p = zero_principal\<lparr>pr_UserID := ''alice'', pr_Roles := [''dba''], pr_AuthMethod := ''static''\<rparr> in
   Static_Resolve (\<lambda>_ _ _ _ _ _. []) sp h = Inr p \<and>
   (map_option (expandRoles sp) (map_of (sp_users sp) (h ''X-User'')) = Some (pr_Roles p))"
  using static_principals [of "\<lambda>_ _ _ _ _ _. []"
      "\<lparr>sp_users = [(''alice'', [''dba''])], sp_serviceAccounts = [], sp_aliases = []\<rparr>"
      "\<lambda>k. if k = ''X-User'' then ''alice'' else []"
      "zero_principal\<lparr>pr_UserID := ''alice'', pr_Roles := [''dba''], pr_AuthMethod := ''static''\<rparr>"]
  by (simp add: Static_Resolve_def expandRoles_def zero_principal_def Let_def)

end
