(* ===== verification/Audit_Event.thy ===== *)
theory Audit_Event
  imports Approval_Policy Identity
begin

text \<open>
  Audit events, \<^verbatim>\<open>internal/audit/event.go\<close>. Event types and categories are strings of the
  source. Parameters, the pre-state of a mutation, policy traces and confidences are kept as their JSON text.
\<close>

record alternative =
  alt_Agent :: string
  alt_RejectedBecause :: string

record routing_decision =
  rd_Agent :: string
  rd_RequestCategory :: string
  rd_Confidence :: string
  rd_UserIntent :: string
  rd_ReasoningChain :: "string list"
  rd_AlternativesConsidered :: "alternative list"

record session =
  ss_ID :: string
  ss_UserID :: string
  ss_AgentName :: string
  ss_StartedAt :: time
  ss_DelegationCount :: int

record input =
  in_UserQuery :: string
  in_InfrastructureContext :: "string list"

record tool_execution =
  tx_Name :: string
  tx_Agent :: string
  tx_Parameters :: string
  tx_RawCommand :: string
  tx_Result :: string
  tx_Error :: string
  tx_Duration :: duration
  tx_PreState :: string

record outcome =
  oc_Status :: string
  oc_ErrorMessage :: string
  oc_Duration :: duration

record policy_decision =
  pd_ResourceType :: string
  pd_ResourceName :: string
  pd_Action :: string
  pd_Tags :: "string list"
  pd_Effect :: string
  pd_PolicyName :: string
  pd_RuleIndex :: nat
  pd_Message :: string
  pd_Note :: string
  pd_DryRun :: bool
  pd_PostExecution :: bool
  pd_Trace :: string
  pd_Explanation :: string
  pd_UserID :: string
  pd_Roles :: "string list"
  pd_Service :: string
  pd_AuthMethod :: string
  pd_AutoApproved :: bool
  pd_Purpose :: string
  pd_PurposeNote :: string
  pd_Sensitivity :: "string list"

record agent_reasoning =
  re_Reasoning :: string
  re_ToolCalls :: "string list"

record delegation_verification =
  dv_DelegationEventID :: string
  dv_Agent :: string
  dv_ActionClass :: string
  dv_ToolsConfirmed :: "string list"
  dv_WriteConfirmed :: "string list"
  dv_DestructiveConfirmed :: "string list"
  dv_Mismatch :: bool
  dv_MismatchReason :: string

record rollback_execution =
  rx_RollbackID :: string
  rx_OriginalEventID :: string
  rx_OriginalTraceID :: string
  rx_Plan :: string
  rx_Status :: string
  rx_ErrorMessage :: string

record governance_violation =
  gv_OperatingMode :: string
  gv_Module :: string
  gv_Severity :: string
  gv_Description :: string
  gv_Remediation :: string

record event =
  ev_EventID :: string
  ev_Timestamp :: time
  ev_EventType :: string
  ev_TraceID :: string
  ev_ParentID :: string
  ev_Origin :: string
  ev_ActionClass :: string
  ev_PrevHash :: string
  ev_EventHash :: string
  ev_Principal :: "principal option"
  ev_Purpose :: string
  ev_PurposeNote :: string
  ev_Session :: session
  ev_Input :: input
  ev_Output :: "string option"
  ev_Tool :: "tool_execution option"
  ev_Approval :: "approval option"
  ev_Decision :: "routing_decision option"
  ev_PolicyDecision :: "policy_decision option"
  ev_AgentReasoning :: "agent_reasoning option"
  ev_GovernanceViolation :: "governance_violation option"
  ev_DelegationVerification :: "delegation_verification option"
  ev_Outcome :: "outcome option"
  ev_RollbackExecution :: "rollback_execution option"

definition EventTypeDelegation :: string where "EventTypeDelegation = ''delegation_decision''"
definition EventTypeGatewayRequest :: string where "EventTypeGatewayRequest = ''gateway_request''"
definition EventTypeToolExecution :: string where "EventTypeToolExecution = ''tool_execution''"
definition EventTypePolicyDecision :: string where "EventTypePolicyDecision = ''policy_decision''"
definition EventTypeToolRetry :: string where "EventTypeToolRetry = ''tool_retry''"
definition EventTypeVerificationOutcome :: string where "EventTypeVerificationOutcome = ''verification_outcome''"
definition EventTypeDelegationVerification :: string where
  "EventTypeDelegationVerification = ''delegation_verification''"

definition EventTypeToolInvoked :: string where "EventTypeToolInvoked = ''tool_invoked''"
definition EventTypeAgentReasoning :: string where "EventTypeAgentReasoning = ''agent_reasoning''"

lemmas event_type_defs = EventTypeDelegation_def EventTypeGatewayRequest_def EventTypeToolExecution_def
  EventTypePolicyDecision_def EventTypeToolRetry_def EventTypeVerificationOutcome_def
  EventTypeDelegationVerification_def EventTypeToolInvoked_def EventTypeAgentReasoning_def

definition zero_event :: event where
  "zero_event = \<lparr>ev_EventID = [], ev_Timestamp = 0, ev_EventType = [], ev_TraceID = [], ev_ParentID = [],
     ev_Origin = [], ev_ActionClass = [], ev_PrevHash = [], ev_EventHash = [], ev_Principal = None,
     ev_Purpose = [], ev_PurposeNote = [],
     ev_Session = \<lparr>ss_ID = [], ss_UserID = [], ss_AgentName = [], ss_StartedAt = 0, ss_DelegationCount = 0\<rparr>,
     ev_Input = \<lparr>in_UserQuery = [], in_InfrastructureContext = []\<rparr>, ev_Output = None, ev_Tool = None,
     ev_Approval = None, ev_Decision = None, ev_PolicyDecision = None, ev_AgentReasoning = None,
     ev_GovernanceViolation = None, ev_DelegationVerification = None, ev_Outcome = None,
     ev_RollbackExecution = None\<rparr>"

end
