(* ===== verification/Hash_Chain.thy ===== *)
theory Hash_Chain
  imports Audit_Event
begin

text \<open>
  The hash chain of \<^verbatim>\<open>internal/audit/hash.go\<close>. The digest of an event is computed from an
  anonymous structure of fourteen of its fields, the record \<open>hash_input\<close>; encoding that structure
  as JSON, hashing it and printing the result in hexadecimal is the argument \<open>digest\<close>. The check
  of a chain slices the first sixteen characters of two hashes for its message and panics when one of
  them is shorter: its result is a break, a success, or \<open>Panic\<close>.

  The locale \<open>hash_store\<close> is the contract between the chain and a store that appends to it.
\<close>

definition GenesisHash :: string where
  "GenesisHash = replicate 64 (CHR ''0'')"

section \<open>Event hashes\<close>

record hash_input =
  hi_EventID :: string
  hi_Timestamp :: time
  hi_EventType :: string
  hi_TraceID :: string
  hi_ParentID :: string
  hi_ActionClass :: string
  hi_PrevHash :: string
  hi_Session :: session
  hi_Input :: input
  hi_Output :: "string option"
  hi_Tool :: "tool_execution option"
  hi_Approval :: "approval option"
  hi_Decision :: "routing_decision option"
  hi_Outcome :: "outcome option"

definition hashInput :: "event \<Rightarrow> hash_input" where
  "hashInput e = \<lparr>hi_EventID = ev_EventID e, hi_Timestamp = ev_Timestamp e, hi_EventType = ev_EventType e,
     hi_TraceID = ev_TraceID e, hi_ParentID = ev_ParentID e, hi_ActionClass = ev_ActionClass e,
     hi_PrevHash = ev_PrevHash e, hi_Session = ev_Session e, hi_Input = ev_Input e, hi_Output = ev_Output e,
     hi_Tool = ev_Tool e, hi_Approval = ev_Approval e, hi_Decision = ev_Decision e, hi_Outcome = ev_Outcome e\<rparr>"

type_synonym digest = "hash_input \<Rightarrow> string"

definition ComputeEventHash :: "digest \<Rightarrow> event \<Rightarrow> string" where
  "ComputeEventHash digest e = digest (hashInput e)"

definition VerifyEventHash :: "digest \<Rightarrow> event \<Rightarrow> bool" where
  "VerifyEventHash digest e =
     (if ev_EventHash e = [] then True else ComputeEventHash digest e = ev_EventHash e)"

section \<open>Chains\<close>

datatype chain_result = ChainOK | Broken nat string | Panic

definition linked_hash :: "digest \<Rightarrow> event \<Rightarrow> string" where
  "linked_hash digest e = (if ev_EventHash e = [] then ComputeEventHash digest e else ev_EventHash e)"

text \<open>The loop, with the previous event of the slice.\<close>

fun verify_from :: "digest \<Rightarrow> nat \<Rightarrow> event option \<Rightarrow> event list \<Rightarrow> chain_result" where
  "verify_from digest i prev [] = ChainOK"
| "verify_from digest i prev (e # es) =
     (if ev_EventHash e \<noteq> [] \<and> \<not> VerifyEventHash digest e
      then Broken i (''event '' @ ev_EventID e @ '' has invalid hash'')
      else (case prev of
          Some p \<Rightarrow>
            (let expected = linked_hash digest p in
             if ev_PrevHash e \<noteq> [] \<and> ev_PrevHash e \<noteq> expected then
               (if length (ev_PrevHash e) < 16 \<or> length expected < 16 then Panic
                else Broken i (''event '' @ ev_EventID e @ '' has broken chain link: prev_hash='' @
                  take 16 (ev_PrevHash e) @ ''..., expected='' @ take 16 expected @ ''...''))
             else verify_from digest (Suc i) (Some e) es)
        | None \<Rightarrow>
            (if ev_PrevHash e \<noteq> [] \<and> ev_PrevHash e \<noteq> GenesisHash then
               Broken i (''first event '' @ ev_EventID e @ '' has invalid prev_hash (expected genesis or empty)'')
             else verify_from digest (Suc i) (Some e) es)))"

definition VerifyChain :: "digest \<Rightarrow> event list \<Rightarrow> chain_result" where
  "VerifyChain digest events = verify_from digest 0 None events"

record chain_status =
  cs_Valid :: bool
  cs_TotalEvents :: nat
  cs_HashedEvents :: nat
  cs_LegacyEvents :: nat
  cs_BrokenAt :: int
  cs_Error :: string
  cs_FirstEventID :: string
  cs_LastEventID :: string
  cs_LastHash :: string

text \<open>None is the panic of the check.\<close>

definition VerifyChainStatus :: "digest \<Rightarrow> event list \<Rightarrow> chain_status option" where
  "VerifyChainStatus digest events =
     (let status = \<lparr>cs_Valid = False, cs_TotalEvents = length events, cs_HashedEvents = 0, cs_LegacyEvents = 0,
            cs_BrokenAt = - 1, cs_Error = [], cs_FirstEventID = [], cs_LastEventID = [], cs_LastHash = []\<rparr>
      in if events = [] then Some (status\<lparr>cs_Valid := True\<rparr>)
         else
           (let status = status\<lparr>cs_FirstEventID := ev_EventID (hd events),
                  cs_LastEventID := ev_EventID (last events),
                  cs_HashedEvents := length (filter (\<lambda>e. ev_EventHash e \<noteq> []) events),
                  cs_LegacyEvents := length (filter (\<lambda>e. ev_EventHash e = []) events),
                  cs_LastHash := linked_hash digest (last events)\<rparr>
            in case VerifyChain digest events of
                 ChainOK \<Rightarrow> Some (status\<lparr>cs_Valid := True\<rparr>)
               | Broken i err \<Rightarrow> Some (status\<lparr>cs_Valid := False, cs_BrokenAt := int i, cs_Error := err\<rparr>)
               | Panic \<Rightarrow> None))"

section \<open>Specification\<close>

text \<open>Appending to a chain: the new event carries the hash of the last one, and its own.\<close>

definition seal :: "digest \<Rightarrow> string \<Rightarrow> event \<Rightarrow> event" where
  "seal digest prev e = (let e = e\<lparr>ev_PrevHash := prev\<rparr> in e\<lparr>ev_EventHash := ComputeEventHash digest e\<rparr>)"

fun sealed :: "digest \<Rightarrow> string \<Rightarrow> event list \<Rightarrow> bool" where
  "sealed digest prev [] = True"
| "sealed digest prev (e # es) \<longleftrightarrow> ev_PrevHash e = prev \<and> ev_EventHash e = ComputeEventHash digest e \<and>
     sealed digest (ev_EventHash e) es"

definition chain_end :: "string \<Rightarrow> event list \<Rightarrow> string" where
  "chain_end prev es = (if es = [] then prev else ev_EventHash (last es))"

section \<open>Facts\<close>

lemma hashInput_unsealed [simp]: "hashInput (e\<lparr>ev_EventHash := h\<rparr>) = hashInput e"
  by (simp add: hashInput_def)

lemma seal_simps [simp]:
  "ev_PrevHash (seal d p e) = p" "ev_EventHash (seal d p e) = ComputeEventHash d (seal d p e)"
  by (simp_all add: seal_def Let_def ComputeEventHash_def)

lemma sealed_append:
  "sealed d p (es @ fs) \<longleftrightarrow> sealed d p es \<and> sealed d (chain_end p es) fs"
  by (induction d p es rule: sealed.induct) (auto simp: chain_end_def)

lemma verify_from_sealed:
  assumes "\<And>x. d x \<noteq> []"
  shows "sealed d (ev_EventHash p) es \<Longrightarrow> ev_EventHash p \<noteq> [] \<Longrightarrow> verify_from d i (Some p) es = ChainOK"
proof (induction es arbitrary: p i)
  case (Cons e es)
  then have e: "ev_PrevHash e = ev_EventHash p" "ev_EventHash e = ComputeEventHash d e"
      "sealed d (ev_EventHash e) es" by auto
  moreover have "ev_EventHash e \<noteq> []" using e(2) assms by (simp add: ComputeEventHash_def)
  ultimately have "verify_from d (Suc i) (Some e) es = ChainOK"
    by (intro Cons.IH)
  with e Cons.prems(2) \<open>ev_EventHash e \<noteq> []\<close> show ?case
    by (simp add: VerifyEventHash_def linked_hash_def Let_def)
qed simp

lemma sealed_verifies:
  assumes "\<And>x. d x \<noteq> []" "sealed d GenesisHash es"
  shows "VerifyChain d es = ChainOK"
proof (cases es)
  case Nil
  then show ?thesis by (simp add: VerifyChain_def)
next
  case (Cons e fs)
  with assms have e: "ev_PrevHash e = GenesisHash" "ev_EventHash e = ComputeEventHash d e"
      "sealed d (ev_EventHash e) fs" by auto
  then have ne: "ev_EventHash e \<noteq> []" using assms(1) by (simp add: ComputeEventHash_def)
  from verify_from_sealed [OF assms(1) e(3) ne] e ne show ?thesis
    by (simp add: Cons VerifyChain_def VerifyEventHash_def)
qed

text \<open>What a successful check establishes about events that carry hashes: they are sealed.\<close>

lemma verify_from_OK:
  "verify_from d i (Some p) es = ChainOK \<Longrightarrow> ev_EventHash p \<noteq> [] \<Longrightarrow>
   \<forall>e \<in> set es. ev_EventHash e \<noteq> [] \<and> ev_PrevHash e \<noteq> [] \<Longrightarrow> sealed d (ev_EventHash p) es"
proof (induction es arbitrary: p i)
  case (Cons e es)
  then have "ev_EventHash e = ComputeEventHash d e" "ev_PrevHash e = ev_EventHash p"
      "verify_from d (Suc i) (Some e) es = ChainOK"
    by (auto simp: VerifyEventHash_def linked_hash_def Let_def split: if_splits)
  moreover from this Cons have "sealed d (ev_EventHash e) es"
    by (intro Cons.IH) auto
  ultimately show ?case by simp
qed simp

lemma VerifyChain_sealed:
  assumes "VerifyChain d es = ChainOK" "\<forall>e \<in> set es. ev_EventHash e \<noteq> [] \<and> ev_PrevHash e \<noteq> []"
  shows "sealed d GenesisHash es"
proof (cases es)
  case (Cons e fs)
  with assms have "ev_EventHash e = ComputeEventHash d e" "ev_PrevHash e = GenesisHash"
      "verify_from d (Suc 0) (Some e) fs = ChainOK"
    by (auto simp: VerifyChain_def VerifyEventHash_def split: if_splits)
  with assms Cons verify_from_OK [of d "Suc 0" e fs] show ?thesis by simp
qed simp

text \<open>Two sealed chains with the same last hash agree backwards, up to a collision of the digest.\<close>

definition collision :: "digest \<Rightarrow> event list \<Rightarrow> event list \<Rightarrow> bool" where
  "collision d es fs \<longleftrightarrow> (\<exists>x \<in> hashInput ` set es. \<exists>y \<in> hashInput ` set fs. x \<noteq> y \<and> d x = d y)"

lemma sealed_snoc: "sealed d p (es @ [e]) \<longleftrightarrow> sealed d p es \<and> ev_PrevHash e = chain_end p es \<and>
   ev_EventHash e = ComputeEventHash d e"
  by (auto simp: sealed_append)

lemma sealed_unique:
  "sealed d p es \<Longrightarrow> sealed d p fs \<Longrightarrow> chain_end p es = chain_end p fs \<Longrightarrow> length es = length fs \<Longrightarrow>
   \<not> collision d es fs \<Longrightarrow> map hashInput es = map hashInput fs"
proof (induction es arbitrary: fs rule: rev_induct)
  case (snoc e es)
  then obtain f fs' where fs: "fs = fs' @ [f]"
    by (metis append_Nil2 length_0_conv length_append_singleton nat.distinct(1) rev_exhaust)
  from snoc.prems fs have d: "d (hashInput e) = d (hashInput f)"
    by (simp add: chain_end_def sealed_snoc ComputeEventHash_def)
  with snoc.prems(5) fs have h: "hashInput e = hashInput f"
    by (auto simp: collision_def)
  then have "ev_PrevHash e = ev_PrevHash f"
    by (simp add: hashInput_def)
  then have "map hashInput es = map hashInput fs'"
    using snoc.prems fs by (intro snoc.IH) (auto simp: sealed_snoc collision_def)
  with fs h show ?case by simp
qed simp

lemma sealed_nonempty:
  assumes "\<And>x. d x \<noteq> []"
  shows "sealed d p es \<Longrightarrow> e \<in> set es \<Longrightarrow> ev_EventHash e \<noteq> []"
proof (induction es arbitrary: p)
  case (Cons a es)
  then have "ev_EventHash a = d (hashInput a)" by (auto simp: ComputeEventHash_def)
  with assms have "ev_EventHash a \<noteq> []" by simp
  with Cons show ?case by auto
qed simp

section \<open>Stores that append to a chain\<close>

text \<open>\<open>rec a e s\<close> records event \<open>e\<close> under circumstances \<open>a\<close>; \<open>log\<close> and \<open>lasth\<close>
  read the recorded events and the hash the store remembers. \<open>record_all\<close> runs a sequence of
  attempts.\<close>

fun record_all :: "('a \<Rightarrow> event \<Rightarrow> 's \<Rightarrow> (string + event) \<times> 's) \<Rightarrow> ('a \<times> event) list \<Rightarrow> 's \<Rightarrow> 's" where
  "record_all rec [] s = s"
| "record_all rec ((a, e) # xs) s = record_all rec xs (snd (rec a e s))"

locale hash_store =
  fixes digest :: digest and rec :: "'a \<Rightarrow> event \<Rightarrow> 's \<Rightarrow> (string + event) \<times> 's"
    and log :: "'s \<Rightarrow> event list" and lasth :: "'s \<Rightarrow> string"
  assumes appends: "rec a e s = (Inr e', s') \<Longrightarrow>
      (\<exists>e0. e' = seal digest (lasth s) e0) \<and> log s' = log s @ [e'] \<and> lasth s' = ev_EventHash e'"
    and rejects: "rec a e s = (Inl err, s') \<Longrightarrow> log s' = log s \<and> lasth s' = lasth s"
begin

definition chained :: "'s \<Rightarrow> bool" where
  "chained s \<longleftrightarrow> sealed digest GenesisHash (log s) \<and> lasth s = chain_end GenesisHash (log s)"

lemma rec_chained: "chained s \<Longrightarrow> chained (snd (rec a e s))"
proof -
  assume c: "chained s"
  obtain r s' where r: "rec a e s = (r, s')" by (cases "rec a e s")
  show "chained (snd (rec a e s))"
  proof (cases r)
    case (Inl err)
    with r rejects [of a e s err s'] c show ?thesis by (simp add: chained_def)
  next
    case (Inr e')
    with r appends [of a e s e' s'] obtain e0 where
      "e' = seal digest (lasth s) e0" "log s' = log s @ [e']" "lasth s' = ev_EventHash e'" by auto
    with r c show ?thesis
      by (simp add: chained_def sealed_snoc chain_end_def)
  qed
qed

lemma record_all_chained: "chained s \<Longrightarrow> chained (record_all rec xs s)"
  by (induction xs arbitrary: s) (auto simp: rec_chained)

lemma record_all_verifies:
  assumes "\<And>x. digest x \<noteq> []" "chained s"
  shows "VerifyChain digest (log (record_all rec xs s)) = ChainOK"
  using sealed_verifies [OF assms(1)] record_all_chained [OF assms(2), of xs] by (simp add: chained_def)

end

section \<open>Properties\<close>


definition sample_digest :: digest where
  "sample_digest x = CHR ''h'' # replicate 15 (CHR ''-'') @ hi_EventID x @ hi_PrevHash x"


text \<open>the fields outside the hash can be rewritten. The policy decision, the principal, the
  purpose and its note, the origin, the agent reasoning, the governance violation, the delegation
  verification and the rollback record of every event can be replaced by anything without any
  effect on the result of the check.\<close>

theorem unhashed_fields_tamperable:
  "VerifyChain digest (map (\<lambda>e. e\<lparr>ev_PolicyDecision := f1 e, ev_Principal := f2 e, ev_Purpose := f3 e,
      ev_PurposeNote := f4 e, ev_Origin := f5 e, ev_AgentReasoning := f6 e, ev_GovernanceViolation := f7 e,
      ev_DelegationVerification := f8 e, ev_RollbackExecution := f9 e\<rparr>) es) = VerifyChain digest es"
proof -
  let ?f = "\<lambda>e. e\<lparr>ev_PolicyDecision := f1 e, ev_Principal := f2 e, ev_Purpose := f3 e,
      ev_PurposeNote := f4 e, ev_Origin := f5 e, ev_AgentReasoning := f6 e, ev_GovernanceViolation := f7 e,
      ev_DelegationVerification := f8 e, ev_RollbackExecution := f9 e\<rparr>"
  have h: "hashInput (?f e) = hashInput e" for e
    by (simp add: hashInput_def)
  have "verify_from digest i (map_option ?f p) (map ?f es) = verify_from digest i p es" for i p
  proof (induction es arbitrary: i p)
    case (Cons e es)
    from Cons [of "Suc i" "Some e"] show ?case
      by (cases p) (simp_all add: h VerifyEventHash_def ComputeEventHash_def linked_hash_def Let_def)
  qed simp
  from this [of 0 None] show ?thesis
    by (simp add: VerifyChain_def)
qed

text \<open>events without hashes pass as legacy events. Any list of events whose two hash fields are
  emptied is a valid chain, whatever the events say.\<close>

theorem stripped_chain_valid:
  "VerifyChain digest (map (\<lambda>e. e\<lparr>ev_PrevHash := [], ev_EventHash := []\<rparr>) es) = ChainOK"
proof -
  have "verify_from digest i p (map (\<lambda>e. e\<lparr>ev_PrevHash := [], ev_EventHash := []\<rparr>) es) = ChainOK" for i p
    by (induction es arbitrary: i p) (simp_all add: Let_def split: option.split)
  then show ?thesis by (simp add: VerifyChain_def)
qed

text \<open>the check itself can crash. After any recorded event, an event with a previous hash shorter
  than sixteen characters that is not the expected one, and no hash of its own, makes the check
  panic instead of reporting a broken link.\<close>

theorem short_hash_panics:
  assumes "\<And>x. digest x \<noteq> []" "sealed digest GenesisHash (es @ [e])"
    and "ev_EventHash f = []" "ev_PrevHash f \<noteq> []" "length (ev_PrevHash f) < 16"
    and "ev_PrevHash f \<noteq> ev_EventHash e"
  shows "VerifyChain digest (es @ [e, f]) = Panic"
proof -
  have last: "verify_from digest i (Some e) [f] = Panic" for i
    using assms by (simp add: sealed_snoc linked_hash_def ComputeEventHash_def Let_def)
  have step: "verify_from digest i p (es @ [e, f]) = Panic"
    if "sealed digest (case p of None \<Rightarrow> GenesisHash | Some q \<Rightarrow> ev_EventHash q) (es @ [e])"
      "\<And>q. p = Some q \<Longrightarrow> ev_EventHash q \<noteq> []" for i p
    using that
  proof (induction es arbitrary: i p)
    case Nil
    with last [of "Suc i"] show ?case
      by (cases p) (auto simp: VerifyEventHash_def linked_hash_def Let_def)
  next
    case (Cons a es)
    have a: "ev_EventHash a = ComputeEventHash digest a"
      using Cons.prems(1) by (cases p) auto
    have "ev_EventHash a \<noteq> []"
      unfolding a using assms(1) by (simp add: ComputeEventHash_def)
    moreover from Cons have "verify_from digest (Suc i) (Some a) (es @ [e, f]) = Panic"
      by (intro Cons.IH) (use calculation in auto)
    ultimately show ?case
      using Cons.prems by (cases p) (auto simp: VerifyEventHash_def linked_hash_def Let_def)
  qed
  from step [of None 0] assms(2) show ?thesis
    by (simp add: VerifyChain_def)
qed

theorem short_hash_panics_witness:
  "VerifyChain sample_digest ([] @ [seal sample_digest GenesisHash zero_event, zero_event\<lparr>ev_PrevHash := ''x''\<rparr>]) = Panic"
  by (rule short_hash_panics) (simp_all add: sample_digest_def zero_event_def ComputeEventHash_def)

end
