(* ===== verification/Audit_Store.thy ===== *)
theory Audit_Store
  imports Hash_Chain Go_Sort
begin

text \<open>
  The audit store of \<^verbatim>\<open>internal/audit/store.go\<close>: recording, outcome updates, queries and the
  integrity check. The table \<^verbatim>\<open>audit_events\<close> is the list of its rows in the order of their
  ids; the column \<^verbatim>\<open>raw_json\<close> is the event itself, the other columns are what
  \<^verbatim>\<open>Record\<close> derives from it, and the timestamp column is the fixed-width text. Failures of the
  database and of the JSON encoder are the argument \<open>flt\<close> of an operation. Recording holds a lock
  across the computation of the hash and the insertion, so it is one step. The notification of socket
  listeners is left out.
\<close>

section \<open>Placeholders\<close>

fun rebind_from :: "nat \<Rightarrow> string \<Rightarrow> string" where
  "rebind_from n [] = []"
| "rebind_from n (c # cs) =
     (if c = CHR ''?'' then CHR ''$'' # nat_str (Suc n) @ rebind_from (Suc n) cs
      else c # rebind_from n cs)"

definition rebind :: "bool \<Rightarrow> string \<Rightarrow> string" where
  "rebind isPostgres query = (if \<not> isPostgres then query else rebind_from 0 query)"

section \<open>Rows\<close>

record audit_row =
  aw_event_id :: string
  aw_timestamp :: string
  aw_event_type :: string
  aw_trace_id :: string
  aw_parent_id :: string
  aw_action_class :: string
  aw_prev_hash :: string
  aw_event_hash :: string
  aw_session_id :: string
  aw_session_agent :: string
  aw_user_id :: string
  aw_user_query :: string
  aw_purpose :: string
  aw_purpose_note :: string
  aw_origin :: string
  aw_tool_name :: string
  aw_approval_status :: string
  aw_decision_agent :: string
  aw_decision_category :: string
  aw_decision_confidence :: "string option"
  aw_outcome_status :: string
  aw_outcome_error :: string
  aw_outcome_duration_ms :: int
  aw_raw :: event

record audit_store =
  au_rows :: "audit_row list"
  au_lastHash :: string

text \<open>\<^verbatim>\<open>Duration.Milliseconds\<close> truncates toward zero.\<close>

definition Milliseconds :: "duration \<Rightarrow> int" where
  "Milliseconds d = (if d < 0 then - ((- d) div 1000000) else d div 1000000)"

definition outcome_columns :: "event \<Rightarrow> string \<times> string \<times> int" where
  "outcome_columns e =
     (case ev_Outcome e of
        Some o' \<Rightarrow> (oc_Status o', oc_ErrorMessage o', Milliseconds (oc_Duration o'))
      | None \<Rightarrow> (case ev_PolicyDecision e of
          Some p \<Rightarrow> (if pd_Effect p = ''deny'' then ''denied'' else pd_Effect p, [], 0)
        | None \<Rightarrow> (case ev_DelegationVerification e of
            Some v \<Rightarrow> (if dv_Mismatch v then ''unverified_claim'' else ''verified'', [], 0)
          | None \<Rightarrow> ([], [], 0))))"

definition row_of :: "event \<Rightarrow> audit_row" where
  "row_of e =
     (let (status, err, ms) = outcome_columns e;
          (purpose, note) = (if ev_Purpose e = [] then
              (case ev_PolicyDecision e of
                 Some p \<Rightarrow> (pd_Purpose p, pd_PurposeNote p)
               | None \<Rightarrow> (ev_Purpose e, ev_PurposeNote e))
            else (ev_Purpose e, ev_PurposeNote e));
          toolName = (case ev_Tool e of Some t \<Rightarrow> tx_Name t | None \<Rightarrow> []);
          toolAgent = (case ev_Tool e of Some t \<Rightarrow> tx_Agent t | None \<Rightarrow> []);
          agent0 = (case ev_Decision e of Some d \<Rightarrow> rd_Agent d | None \<Rightarrow> []);
          agent = (if agent0 = [] \<and> toolAgent \<noteq> [] then toolAgent else agent0)
      in \<lparr>aw_event_id = ev_EventID e, aw_timestamp = fmt_sqlite (ev_Timestamp e),
          aw_event_type = ev_EventType e, aw_trace_id = ev_TraceID e, aw_parent_id = ev_ParentID e,
          aw_action_class = ev_ActionClass e, aw_prev_hash = ev_PrevHash e, aw_event_hash = ev_EventHash e,
          aw_session_id = ss_ID (ev_Session e), aw_session_agent = ss_AgentName (ev_Session e),
          aw_user_id = ss_UserID (ev_Session e), aw_user_query = in_UserQuery (ev_Input e),
          aw_purpose = purpose, aw_purpose_note = note, aw_origin = ev_Origin e, aw_tool_name = toolName,
          aw_approval_status = (case ev_Approval e of Some a \<Rightarrow> av_Status a | None \<Rightarrow> []),
          aw_decision_agent = agent,
          aw_decision_category = (case ev_Decision e of Some d \<Rightarrow> rd_RequestCategory d | None \<Rightarrow> []),
          aw_decision_confidence = map_option rd_Confidence (ev_Decision e),
          aw_outcome_status = status, aw_outcome_error = err, aw_outcome_duration_ms = ms, aw_raw = e\<rparr>)"

section \<open>Operations\<close>

definition initLastHash :: "audit_row list \<Rightarrow> audit_store" where
  "initLastHash rows = \<lparr>au_rows = rows, au_lastHash =
     (if rows = [] then GenesisHash
      else if aw_event_hash (last rows) \<noteq> [] then aw_event_hash (last rows) else GenesisHash)\<rparr>"

record record_args =
  ra_uid :: string
  ra_now :: time
  ra_marshal :: "string option"
  ra_insert :: "string option"

definition Record :: "digest \<Rightarrow> record_args \<Rightarrow> event \<Rightarrow> audit_store \<Rightarrow> (string + event) \<times> audit_store" where
  "Record digest a e s =
     (let e = (if ev_EventID e = [] then e\<lparr>ev_EventID := ''evt_'' @ take 8 (ra_uid a)\<rparr> else e);
          e = (if ev_Timestamp e = 0 then e\<lparr>ev_Timestamp := ra_now a\<rparr> else e);
          e = e\<lparr>ev_PrevHash := au_lastHash s\<rparr>;
          e = e\<lparr>ev_EventHash := ComputeEventHash digest e\<rparr>
      in case ra_marshal a of
           Some err \<Rightarrow> (Inl (''marshal event: '' @ err), s)
         | None \<Rightarrow> (case ra_insert a of
             Some err \<Rightarrow> (Inl (''insert event: '' @ err), s)
           | None \<Rightarrow>
               (if list_ex (\<lambda>r. aw_event_id r = ev_EventID e) (au_rows s)
                then (Inl ''insert event: UNIQUE constraint failed: audit_events.event_id'', s)
                else (Inr e, \<lparr>au_rows = au_rows s @ [row_of e], au_lastHash = ev_EventHash e\<rparr>))))"

text \<open>Only the indexed columns of the outcome change; the event as recorded stays.\<close>

definition RecordOutcome :: "string option \<Rightarrow> string \<Rightarrow> outcome \<Rightarrow> audit_store \<Rightarrow> string option \<times> audit_store" where
  "RecordOutcome flt eventID o' s = (case flt of
     Some e \<Rightarrow> (Some e, s)
   | None \<Rightarrow> (None, s\<lparr>au_rows := map (\<lambda>r. if aw_event_id r = eventID then
        r\<lparr>aw_outcome_status := oc_Status o', aw_outcome_error := oc_ErrorMessage o',
          aw_outcome_duration_ms := Milliseconds (oc_Duration o')\<rparr> else r) (au_rows s)\<rparr>))"

definition recorded :: "audit_store \<Rightarrow> event list" where
  "recorded s = map aw_raw (au_rows s)"

definition VerifyIntegrity :: "digest \<Rightarrow> string option \<Rightarrow> audit_store \<Rightarrow> (string + chain_status) option" where
  "VerifyIntegrity digest flt s = (case flt of
     Some e \<Rightarrow> Some (Inl (''query events for verify: '' @ e))
   | None \<Rightarrow> map_option Inr (VerifyChainStatus digest (recorded s)))"

section \<open>Queries\<close>

text \<open>Confidences are compared as numbers; \<open>conf_le\<close> is that comparison on their texts.\<close>

record query_options =
  qe_EventID :: string
  qe_SessionID :: string
  qe_EventType :: string
  qe_EventTypes :: "string list"
  qe_Agent :: string
  qe_Since :: time
  qe_MinConfidence :: "string option"
  qe_MaxConfidence :: "string option"
  qe_Limit :: int
  qe_TraceID :: string
  qe_TraceIDPrefix :: string
  qe_ActionClass :: string
  qe_ToolName :: string
  qe_ApprovalStatus :: string
  qe_OutcomeStatus :: string
  qe_Origin :: string

text \<open>The pattern of LIKE: percent stands for any text, underscore for one character, and letters
  match in both cases, as SQLite does on ASCII.\<close>

fun like_match :: "string \<Rightarrow> string \<Rightarrow> bool" where
  "like_match [] s = (s = [])"
| "like_match (p # ps) [] = (p = CHR ''%'' \<and> like_match ps [])"
| "like_match (p # ps) (c # cs) =
     (if p = CHR ''%'' then like_match ps (c # cs) \<or> like_match (p # ps) cs
      else if p = CHR ''_'' then like_match ps cs
      else lower_char p = lower_char c \<and> like_match ps cs)"

definition wants :: "string \<Rightarrow> string \<Rightarrow> bool" where
  "wants opt col \<longleftrightarrow> opt = [] \<or> col = opt"

definition row_selected :: "(string \<Rightarrow> string \<Rightarrow> bool) \<Rightarrow> query_options \<Rightarrow> audit_row \<Rightarrow> bool" where
  "row_selected conf_le q r \<longleftrightarrow>
     wants (qe_EventID q) (aw_event_id r) \<and> wants (qe_SessionID q) (aw_session_id r) \<and>
     (if qe_EventType q \<noteq> [] then aw_event_type r = qe_EventType q
      else qe_EventTypes q = [] \<or> List.member (qe_EventTypes q) (aw_event_type r)) \<and>
     wants (qe_Agent q) (aw_decision_agent r) \<and>
     (qe_Since q = 0 \<or> str_le (fmt_sqlite (qe_Since q)) (aw_timestamp r)) \<and>
     (case qe_MinConfidence q of None \<Rightarrow> True | Some m \<Rightarrow>
        (case aw_decision_confidence r of None \<Rightarrow> False | Some c \<Rightarrow> conf_le m c)) \<and>
     (case qe_MaxConfidence q of None \<Rightarrow> True | Some m \<Rightarrow>
        (case aw_decision_confidence r of None \<Rightarrow> False | Some c \<Rightarrow> conf_le c m)) \<and>
     wants (qe_TraceID q) (aw_trace_id r) \<and>
     (qe_TraceIDPrefix q = [] \<or> like_match (qe_TraceIDPrefix q @ ''%'') (aw_trace_id r)) \<and>
     wants (qe_ActionClass q) (aw_action_class r) \<and> wants (qe_ToolName q) (aw_tool_name r) \<and>
     wants (qe_ApprovalStatus q) (aw_approval_status r) \<and>
     wants (qe_OutcomeStatus q) (aw_outcome_status r) \<and> wants (qe_Origin q) (aw_origin r)"

definition ts_before :: "audit_row \<Rightarrow> audit_row \<Rightarrow> bool" where
  "ts_before a b = str_less (aw_timestamp a) (aw_timestamp b)"

definition Query ::
  "((audit_row \<Rightarrow> audit_row \<Rightarrow> bool) \<Rightarrow> audit_row list \<Rightarrow> audit_row list) \<Rightarrow> (string \<Rightarrow> string \<Rightarrow> bool) \<Rightarrow>
   string option \<Rightarrow> query_options \<Rightarrow> audit_store \<Rightarrow> string + event list" where
  "Query srt conf_le flt q s = (case flt of
     Some e \<Rightarrow> Inl (''query events: '' @ e)
   | None \<Rightarrow>
       (let sel = filter (row_selected conf_le q) (au_rows s);
            rows = srt (if qe_TraceID q \<noteq> [] \<or> qe_TraceIDPrefix q \<noteq> [] then ts_before
                        else (\<lambda>a b. ts_before b a)) sel
        in Inr (map aw_raw (if qe_Limit q > 0 then take (nat (qe_Limit q)) rows else rows))))"

section \<open>Facts\<close>

lemma Record_seal:
  assumes "Record digest a e s = (Inr e', s')"
  shows "(\<exists>e0. e' = seal digest (au_lastHash s) e0) \<and> recorded s' = recorded s @ [e'] \<and>
    au_lastHash s' = ev_EventHash e'"
proof -
  let ?e1 = "if ev_EventID e = [] then e\<lparr>ev_EventID := ''evt_'' @ take 8 (ra_uid a)\<rparr> else e"
  let ?e2 = "if ev_Timestamp ?e1 = 0 then ?e1\<lparr>ev_Timestamp := ra_now a\<rparr> else ?e1"
  have raw: "aw_raw (row_of x) = x" for x
    by (simp add: row_of_def Let_def case_prod_unfold)
  have "e' = seal digest (au_lastHash s) ?e2" "au_rows s' = au_rows s @ [row_of e']" "au_lastHash s' = ev_EventHash e'"
    using assms unfolding Record_def seal_def Let_def by (auto split: option.splits if_splits)
  then show ?thesis
    by (auto simp: recorded_def raw)
qed

lemma Record_fails: "Record digest a e s = (Inl err, s') \<Longrightarrow> s' = s"
  unfolding Record_def Let_def by (auto split: option.splits if_splits)

interpretation audit_log: hash_store digest "Record digest" recorded au_lastHash for digest
  by unfold_locales (drule Record_seal, simp, drule Record_fails, simp)

lemma RecordOutcome_recorded: "recorded (snd (RecordOutcome flt i o' s)) = recorded s"
  by (auto simp: RecordOutcome_def recorded_def split: option.splits)

lemma initLastHash_chained:
  assumes "\<And>x. digest x \<noteq> []" "sealed digest GenesisHash (map aw_raw rows)"
    and "\<forall>r \<in> set rows. aw_event_hash r = ev_EventHash (aw_raw r)"
  shows "audit_log.chained digest (initLastHash rows)"
proof (cases rows rule: rev_exhaust)
  case Nil
  then show ?thesis
    by (simp add: audit_log.chained_def initLastHash_def recorded_def chain_end_def)
next
  case (snoc rs r)
  with assms have "ev_EventHash (aw_raw r) = ComputeEventHash digest (aw_raw r)"
    by (simp add: sealed_snoc)
  with assms(1) have "ev_EventHash (aw_raw r) \<noteq> []" by (simp add: ComputeEventHash_def)
  with snoc assms show ?thesis
    by (simp add: audit_log.chained_def initLastHash_def recorded_def chain_end_def)
qed

lemma row_of_hash: "aw_event_hash (row_of e) = ev_EventHash e" "aw_raw (row_of e) = e"
  by (simp_all add: row_of_def Let_def case_prod_unfold)


definition coherent :: "audit_store \<Rightarrow> bool" where
  "coherent s \<longleftrightarrow> (\<forall>r \<in> set (au_rows s). aw_event_hash r = ev_EventHash (aw_raw r) \<and>
     aw_timestamp r = fmt_sqlite (ev_Timestamp (aw_raw r)))"

lemma Record_coherent: "coherent s \<Longrightarrow> coherent (snd (Record digest a e s))"
  unfolding Record_def Let_def coherent_def
  by (auto simp: row_of_def Let_def case_prod_unfold split: option.splits if_splits)

lemma record_all_coherent: "coherent s \<Longrightarrow> coherent (record_all (Record digest) xs s)"
  by (induction xs arbitrary: s) (auto simp: Record_coherent)

lemma restart_same:
  assumes "\<And>x. digest x \<noteq> []" "audit_log.chained digest s" "coherent s"
  shows "initLastHash (au_rows s) = s"
proof (cases "au_rows s" rule: rev_exhaust)
  case Nil
  with assms(2) show ?thesis
    by (simp add: audit_log.chained_def initLastHash_def recorded_def chain_end_def)
next
  case (snoc rs r)
  have "sealed digest GenesisHash (recorded s)" "aw_raw r \<in> set (recorded s)"
    using assms(2) snoc by (simp_all add: audit_log.chained_def recorded_def)
  then have "ev_EventHash (aw_raw r) \<noteq> []"
    by (rule sealed_nonempty [OF assms(1)])
  moreover have "au_lastHash s = ev_EventHash (aw_raw r)"
    using assms(2) snoc by (simp add: audit_log.chained_def recorded_def chain_end_def)
  ultimately show ?thesis
    using snoc assms(3) by (simp add: initLastHash_def coherent_def)
qed

lemma str_less_trans: "str_less x y \<Longrightarrow> str_less y z \<Longrightarrow> str_less x z"
proof (induction x y arbitrary: z rule: str_less.induct)
  case (2 y ys)
  then show ?case by (cases z) auto
next
  case (3 x xs y ys)
  then show ?case by (cases z) auto
qed simp

lemma str_less_linear: "str_less x y \<or> x = y \<or> str_less y x"
proof (induction x y rule: str_less.induct)
  case (1 x)
  then show ?case by (cases x) auto
next
  case (3 x xs y ys)
  then show ?case
    using linorder_less_linear [of "of_char x :: nat" "of_char y"] of_char_eq_iff [of x y, where 'a = nat] by auto
qed simp

lemma ts_sorted:
  assumes "slice_sort srt"
  shows "sorted_wrt (\<lambda>x y. \<not> ts_before y x) (srt ts_before rows)"
    and "sorted_wrt (\<lambda>x y. \<not> ts_before x y) (srt (\<lambda>a b. ts_before b a) rows)"
proof -
  have tr: "ts_before x y \<Longrightarrow> ts_before y z \<Longrightarrow> ts_before x z" for x y z
    unfolding ts_before_def by (rule str_less_trans)
  have nt: "ts_before x z \<Longrightarrow> ts_before x y \<or> ts_before y z" for x y z
    unfolding ts_before_def
    using str_less_linear [of "aw_timestamp x" "aw_timestamp y"] str_less_trans by auto
  show "sorted_wrt (\<lambda>x y. \<not> ts_before y x) (srt ts_before rows)"
    by (rule slice_sort.ordered [OF assms]) (auto intro: tr dest: nt simp: ts_before_def [of x x for x])
  show "sorted_wrt (\<lambda>x y. \<not> ts_before x y) (srt (\<lambda>a b. ts_before b a) rows)"
    by (rule slice_sort.ordered [OF assms, of "\<lambda>a b. ts_before b a"])
       (auto intro: tr dest: nt simp: ts_before_def [of x x for x])
qed

section \<open>Properties\<close>



text \<open>a trace is returned in the order of time. For a query by trace without a limit the result
  holds exactly the recorded events whose rows match, sorted by their timestamps, for any sort the
  database may use; the fixed-width timestamps make the order of the texts the order of time.\<close>

theorem trace_query_chronological:
  assumes "slice_sort srt" "coherent s" "qe_TraceID q \<noteq> []" "qe_Limit q = 0"
    and "\<And>r. r \<in> set (au_rows s) \<Longrightarrow> year_of (ev_Timestamp (aw_raw r)) < 10000"
  shows "\<exists>es. Query srt conf_le None q s = Inr es \<and> sorted (map ev_Timestamp es) \<and>
     mset es = mset (map aw_raw (filter (row_selected conf_le q) (au_rows s)))"
proof -
  let ?rows = "srt ts_before (filter (row_selected conf_le q) (au_rows s))"
  have m: "mset ?rows = mset (filter (row_selected conf_le q) (au_rows s))"
    by (rule slice_sort.perm [OF assms(1)])
  then have sub: "set ?rows \<subseteq> set (au_rows s)"
    by (metis filter_is_subset set_mset_mset)
  have ts: "ev_Timestamp (aw_raw x) \<le> ev_Timestamp (aw_raw y)"
    if "x \<in> set ?rows" "y \<in> set ?rows" "\<not> ts_before y x" for x y
  proof -
    have x: "x \<in> set (au_rows s)" and y: "y \<in> set (au_rows s)" using that(1,2) sub by auto
    then have "aw_timestamp x = fmt_sqlite (ev_Timestamp (aw_raw x))"
        "aw_timestamp y = fmt_sqlite (ev_Timestamp (aw_raw y))"
      using assms(2) by (simp_all add: coherent_def)
    with that(3) fmt_sqlite_less [OF assms(5) [OF y] assms(5) [OF x]] show ?thesis
      by (simp add: ts_before_def not_less)
  qed
  have "sorted_wrt (\<lambda>x y. ev_Timestamp (aw_raw x) \<le> ev_Timestamp (aw_raw y)) ?rows"
    using ts_sorted(1) [OF assms(1)] by (rule sorted_wrt_mono_rel [rotated]) (rule ts)
  then have "sorted (map ev_Timestamp (map aw_raw ?rows))"
    by (simp add: sorted_wrt_map)
  moreover have "mset (map aw_raw ?rows) = mset (map aw_raw (filter (row_selected conf_le q) (au_rows s)))"
    using m by (simp only: mset_map)
  ultimately show ?thesis
    using assms(3,4) by (simp add: Query_def Let_def)
qed

definition sample_query :: query_options where
  "sample_query = \<lparr>qe_EventID = [], qe_SessionID = [], qe_EventType = [], qe_EventTypes = [], qe_Agent = [],
     qe_Since = 0, qe_MinConfidence = None, qe_MaxConfidence = None, qe_Limit = 0, qe_TraceID = ''tr_1'',
     qe_TraceIDPrefix = [], qe_ActionClass = [], qe_ToolName = [], qe_ApprovalStatus = [],
     qe_OutcomeStatus = [], qe_Origin = []\<rparr>"

definition sample_log :: audit_store where
  "sample_log = \<lparr>au_rows = [row_of (zero_event\<lparr>ev_TraceID := ''tr_1'', ev_Timestamp := 7\<rparr>),
     row_of (zero_event\<lparr>ev_TraceID := ''tr_1'', ev_Timestamp := 3\<rparr>)], au_lastHash = GenesisHash\<rparr>"

theorem trace_query_chronological_witness:
  "\<exists>es. Query insertionSort (\<lambda>_ _. True) None sample_query sample_log = Inr es \<and> sorted (map ev_Timestamp es)"
proof -
  have row: "aw_raw (row_of e) = e" "aw_timestamp (row_of e) = fmt_sqlite (ev_Timestamp e)"
      "aw_event_hash (row_of e) = ev_EventHash e" for e
    by (simp_all add: row_of_def Let_def case_prod_unfold)
  have "\<exists>es. Query insertionSort (\<lambda>_ _. True) None sample_query sample_log = Inr es \<and> sorted (map ev_Timestamp es) \<and>
      mset es = mset (map aw_raw (filter (row_selected (\<lambda>_ _. True) sample_query) (au_rows sample_log)))"
  proof (rule trace_query_chronological [OF ins.slice_sort_axioms])
    show "coherent sample_log"
      by (simp add: coherent_def sample_log_def row)
    show "year_of (ev_Timestamp (aw_raw r)) < 10000" if "r \<in> set (au_rows sample_log)" for r
      using that by (auto simp: sample_log_def row year_of_def day_of_def sec_ns_def)
  qed (simp_all add: sample_query_def)
  then show ?thesis by blast
qed

end
