(* ===== verification/Go_Json.thy ===== *)
theory Go_Json
  imports Prelude
begin

text \<open>
  Decoded JSON values as the code sees them behind \<^verbatim>\<open>any\<close>: a
  \<^verbatim>\<open>map[string]any\<close> is an association list with unique keys, and the type assertions of
  the source are the partial readings below. Of a number the code only uses its conversion to an
  integer, which is what the constructor carries.
\<close>

datatype json = JNull | JBool bool | JNum int | JStr string | JArr "json list" | JObj "(string \<times> json) list"

type_synonym json_map = "(string \<times> json) list"

definition as_str :: "json option \<Rightarrow> string option" where
  "as_str v = (case v of Some (JStr s) \<Rightarrow> Some s | _ \<Rightarrow> None)"

definition as_bool :: "json option \<Rightarrow> bool option" where
  "as_bool v = (case v of Some (JBool b) \<Rightarrow> Some b | _ \<Rightarrow> None)"

definition as_num :: "json option \<Rightarrow> int option" where
  "as_num v = (case v of Some (JNum n) \<Rightarrow> Some n | _ \<Rightarrow> None)"

text \<open>The assertion with a discarded flag: the zero value when the type is another.\<close>

definition str_or_empty :: "json option \<Rightarrow> string" where
  "str_or_empty v = (case as_str v of Some s \<Rightarrow> s | None \<Rightarrow> [])"

text \<open>The strings among the elements of an array.\<close>

definition strs_of :: "json list \<Rightarrow> string list" where
  "strs_of vs = List.map_filter (\<lambda>v. as_str (Some v)) vs"

lemma as_str_simps [simp]:
  "as_str (Some (JStr s)) = Some s" "as_str None = None" "as_str (Some JNull) = None"
  "as_str (Some (JBool b)) = None" "as_str (Some (JNum n)) = None" "as_str (Some (JArr vs)) = None"
  "as_str (Some (JObj m)) = None"
  by (simp_all add: as_str_def)

lemma str_or_empty_simps [simp]:
  "str_or_empty (Some (JStr s)) = s" "str_or_empty None = []"
  by (simp_all add: str_or_empty_def)

lemma strs_of_simps [simp]:
  "strs_of [] = []" "strs_of (JStr s # vs) = s # strs_of vs"
  by (simp_all add: strs_of_def List.map_filter_def)

end
