(* ===== verification/Tool_Audit.thy ===== *)
theory Tool_Audit
  imports Audit_Store Go_Json Action_Class
begin

text \<open>
  How requests and tool calls reach the audit trail: the trace context of
  \<^verbatim>\<open>internal/audit/trace.go\<close>, the middleware of \<^verbatim>\<open>internal/audit/trace_middleware.go\<close>
  that fills it from the metadata of an A2A message, and the tool auditor of
  \<^verbatim>\<open>internal/audit/tool_audit.go\<close>. The auditor behind a tool auditor is used only through its
  \<^verbatim>\<open>Record\<close>, whose error is logged and dropped, so an operation is modelled by the list of the
  events it hands over, in order. \<open>uid\<close> and \<open>now\<close> are the fresh UUID text and the clock reading.
\<close>

section \<open>Trace context\<close>

record trace_context =
  tc_TraceID :: string
  tc_ParentID :: string
  tc_Origin :: string
  tc_Principal :: principal
  tc_Purpose :: string
  tc_PurposeNote :: string
  tc_PurposeExplicit :: bool
  tc_ApprovalMode :: string
  tc_ApprovalSession :: string

definition NewTraceIDWithPrefix :: "string \<Rightarrow> string \<Rightarrow> string" where
  "NewTraceIDWithPrefix uid prefix = prefix @ take 12 uid"

definition NewTraceContext :: "string \<Rightarrow> string \<Rightarrow> principal \<Rightarrow> trace_context" where
  "NewTraceContext uid origin p = \<lparr>tc_TraceID = NewTraceIDWithPrefix uid ''tr_'', tc_ParentID = [],
     tc_Origin = origin, tc_Principal = p, tc_Purpose = [], tc_PurposeNote = [], tc_PurposeExplicit = False,
     tc_ApprovalMode = [], tc_ApprovalSession = []\<rparr>"

definition Child :: "trace_context \<Rightarrow> string \<Rightarrow> trace_context" where
  "Child tc parentEventID = \<lparr>tc_TraceID = tc_TraceID tc, tc_ParentID = parentEventID,
     tc_Origin = tc_Origin tc, tc_Principal = tc_Principal tc, tc_Purpose = tc_Purpose tc,
     tc_PurposeNote = tc_PurposeNote tc, tc_PurposeExplicit = tc_PurposeExplicit tc,
     tc_ApprovalMode = [], tc_ApprovalSession = []\<rparr>"

definition TraceIDFromContext :: "trace_context option \<Rightarrow> string" where
  "TraceIDFromContext tc = (case tc of Some t \<Rightarrow> tc_TraceID t | None \<Rightarrow> [])"

definition trace_principal :: "trace_context option \<Rightarrow> principal" where
  "trace_principal tc = (case tc of Some t \<Rightarrow> tc_Principal t | None \<Rightarrow> zero_principal)"

definition PurposeFromContext :: "trace_context option \<Rightarrow> string \<times> string" where
  "PurposeFromContext tc = (case tc of Some t \<Rightarrow> (tc_Purpose t, tc_PurposeNote t) | None \<Rightarrow> ([], []))"

definition PurposeExplicitFromContext :: "trace_context option \<Rightarrow> bool" where
  "PurposeExplicitFromContext tc = (case tc of Some t \<Rightarrow> tc_PurposeExplicit t | None \<Rightarrow> False)"

section \<open>A2A messages\<close>

record a2a_message =
  am_ContextID :: string
  am_Metadata :: "json_map option"
  am_Parts :: "(string \<times> string) list"

record a2a_request_data =
  ad_traceID :: string
  ad_userQuery :: string
  ad_contextID :: string
  ad_userID :: string
  ad_roles :: "string list"
  ad_service :: string
  ad_authMethod :: string
  ad_purpose :: string
  ad_purposeNote :: string
  ad_purposeExplicit :: bool
  ad_approvalMode :: string
  ad_approvalSession :: string

definition zero_a2a :: a2a_request_data where
  "zero_a2a = \<lparr>ad_traceID = [], ad_userQuery = [], ad_contextID = [], ad_userID = [], ad_roles = [],
     ad_service = [], ad_authMethod = [], ad_purpose = [], ad_purposeNote = [], ad_purposeExplicit = False,
     ad_approvalMode = [], ad_approvalSession = []\<rparr>"

definition resolvedPrincipal :: "a2a_request_data \<Rightarrow> principal" where
  "resolvedPrincipal d = zero_principal\<lparr>pr_UserID := ad_userID d, pr_Roles := ad_roles d,
     pr_Service := ad_service d, pr_AuthMethod := ad_authMethod d\<rparr>"

text \<open>The metadata of a JSON body; a value of another type leaves the field empty. An array of
  another element type than \<^verbatim>\<open>any\<close> does not come out of the decoder.\<close>

definition metadata_fields :: "json_map \<Rightarrow> a2a_request_data" where
  "metadata_fields m = zero_a2a\<lparr>ad_traceID := str_or_empty (map_of m ''trace_id''),
     ad_userID := str_or_empty (map_of m ''user_id''), ad_service := str_or_empty (map_of m ''service''),
     ad_authMethod := str_or_empty (map_of m ''auth_method''), ad_purpose := str_or_empty (map_of m ''purpose''),
     ad_purposeNote := str_or_empty (map_of m ''purpose_note''),
     ad_purposeExplicit := (as_bool (map_of m ''purpose_explicit'') = Some True),
     ad_approvalMode := str_or_empty (map_of m ''approval_mode''),
     ad_approvalSession := str_or_empty (map_of m ''approval_session''),
     ad_roles := (case map_of m ''roles'' of Some (JArr vs) \<Rightarrow> strs_of vs | _ \<Rightarrow> [])\<rparr>"

definition parseA2ARequest :: "a2a_message option \<Rightarrow> a2a_request_data" where
  "parseA2ARequest body = (case body of
     None \<Rightarrow> zero_a2a
   | Some msg \<Rightarrow>
       (let out = (case am_Metadata msg of Some m \<Rightarrow> metadata_fields m | None \<Rightarrow> zero_a2a);
            out = (case find (\<lambda>p. fst p = ''text'' \<and> snd p \<noteq> []) (am_Parts msg) of
                     Some p \<Rightarrow> out\<lparr>ad_userQuery := snd p\<rparr> | None \<Rightarrow> out)
        in out\<lparr>ad_contextID := am_ContextID msg\<rparr>))"

definition trace_id_of :: "string \<Rightarrow> a2a_request_data \<Rightarrow> string" where
  "trace_id_of uid parsed =
     (if ad_traceID parsed = [] then NewTraceIDWithPrefix uid ''ar_'' else ad_traceID parsed)"

definition context_of :: "string \<Rightarrow> a2a_request_data \<Rightarrow> trace_context" where
  "context_of uid parsed = \<lparr>tc_TraceID = trace_id_of uid parsed, tc_ParentID = [], tc_Origin = ''agent'',
     tc_Principal = resolvedPrincipal parsed, tc_Purpose = ad_purpose parsed,
     tc_PurposeNote = ad_purposeNote parsed, tc_PurposeExplicit = ad_purposeExplicit parsed,
     tc_ApprovalMode = ad_approvalMode parsed, tc_ApprovalSession = ad_approvalSession parsed\<rparr>"

definition anchor_event :: "string \<Rightarrow> string \<Rightarrow> time \<Rightarrow> string \<Rightarrow> trace_context \<Rightarrow> a2a_request_data \<Rightarrow> event" where
  "anchor_event suid euid now agentName tc parsed = zero_event\<lparr>ev_EventID := ''req_'' @ take 8 euid,
     ev_Timestamp := now, ev_EventType := EventTypeGatewayRequest, ev_TraceID := tc_TraceID tc,
     ev_Principal := Some (tc_Principal tc), ev_Purpose := tc_Purpose tc, ev_PurposeNote := tc_PurposeNote tc,
     ev_Session := (ev_Session zero_event)\<lparr>
       ss_ID := (if ad_contextID parsed = [] then ''asess_'' @ take 8 suid else ad_contextID parsed),
       ss_UserID := EffectiveID (tc_Principal tc)\<rparr>,
     ev_Input := (ev_Input zero_event)\<lparr>in_UserQuery := ad_userQuery parsed\<rparr>,
     ev_Tool := Some \<lparr>tx_Name = [], tx_Agent = agentName, tx_Parameters = [], tx_RawCommand = [],
       tx_Result = [], tx_Error = [], tx_Duration = 0, tx_PreState = []\<rparr>\<rparr>"

text \<open>The middleware. The shared trace store is the second component of the state the handler runs
  on: it is set before the handler and cleared after it. A body that cannot be read goes to the
  handler without a context.\<close>

definition TraceMiddlewareWithAudit ::
  "bool \<Rightarrow> string \<Rightarrow> string \<times> string \<times> string \<Rightarrow> time \<Rightarrow>
   (trace_context option \<Rightarrow> string \<Rightarrow> 'r \<times> event list) \<Rightarrow> a2a_message option option \<Rightarrow> string \<Rightarrow>
   'r \<times> event list \<times> string" where
  "TraceMiddlewareWithAudit auditing agentName uids now next body store = (case body of
     None \<Rightarrow> (let (r, es) = next None store in (r, es, store))
   | Some b \<Rightarrow>
       (let (tuid, suid, euid) = uids;
            parsed = parseA2ARequest b;
            tc = context_of tuid parsed;
            anchor = (if auditing \<and> ad_userQuery parsed \<noteq> [] then [anchor_event suid euid now agentName tc parsed]
              else []);
            (r, es) = next (Some tc) (tc_TraceID tc)
        in (r, anchor @ es, [])))"

section \<open>The tool auditor\<close>

record tool_auditor =
  ta_auditor :: bool
  ta_agentName :: string
  ta_sessionID :: string
  ta_traceID :: string
  ta_traceStore :: "string option"

definition getTraceID :: "tool_auditor \<Rightarrow> string" where
  "getTraceID ta = (case ta_traceStore ta of
     Some t \<Rightarrow> if t \<noteq> [] then t else ta_traceID ta
   | None \<Rightarrow> ta_traceID ta)"

record tool_call =
  tl_Name :: string
  tl_Parameters :: string
  tl_RawCommand :: string
  tl_PreState :: string

definition truncateString :: "string \<Rightarrow> nat \<Rightarrow> string" where
  "truncateString s maxLen = (if length s \<le> maxLen then s else take maxLen s @ ''...'')"

definition outcomeStatus :: "string \<Rightarrow> string" where
  "outcomeStatus errMsg = (if errMsg \<noteq> [] then ''error'' else ''success'')"

definition auto_approval :: "time \<Rightarrow> string \<Rightarrow> approval" where
  "auto_approval now who = zero_approval\<lparr>av_Required := True, av_Status := ''auto_approved'',
     av_RequestedBy := who, av_ApprovedBy := ''approval_mode:auto'', av_ApprovedAt := now,
     av_RequestedAt := now, av_PolicyName := ''approval_mode:auto''\<rparr>"

definition pre_authorised :: "trace_context option \<Rightarrow> bool" where
  "pre_authorised tc = (case tc of Some t \<Rightarrow> tc_ApprovalMode t = ''auto'' \<or> tc_ApprovalMode t = ''force''
     | None \<Rightarrow> False)"

definition session_event :: "tool_auditor \<Rightarrow> string \<Rightarrow> time \<Rightarrow> string \<Rightarrow> event" where
  "session_event ta evid now ty = zero_event\<lparr>ev_EventID := evid, ev_Timestamp := now, ev_EventType := ty,
     ev_TraceID := getTraceID ta, ev_Session := (ev_Session zero_event)\<lparr>ss_ID := ta_sessionID ta\<rparr>\<rparr>"

definition tool_of :: "tool_auditor \<Rightarrow> string \<Rightarrow> tool_execution" where
  "tool_of ta name = \<lparr>tx_Name = name, tx_Agent = ta_agentName ta, tx_Parameters = [], tx_RawCommand = [],
     tx_Result = [], tx_Error = [], tx_Duration = 0, tx_PreState = []\<rparr>"

definition RecordToolCall ::
  "tool_auditor \<Rightarrow> string \<Rightarrow> time \<Rightarrow> trace_context option \<Rightarrow> tool_call \<Rightarrow> string \<times> string \<Rightarrow> duration \<Rightarrow> event list" where
  "RecordToolCall ta uid now tc call result dur =
     (if \<not> ta_auditor ta then []
      else
        (let cls = ClassifyTool (tl_Name call);
             (output, err) = result;
             e = (session_event ta (''tool_'' @ take 8 uid) now EventTypeToolExecution)\<lparr>
               ev_Origin := (case tc of Some t \<Rightarrow> tc_Origin t | None \<Rightarrow> []), ev_ActionClass := cls,
               ev_Input := (ev_Input zero_event)\<lparr>in_UserQuery := tl_RawCommand call\<rparr>,
               ev_Tool := Some ((tool_of ta (tl_Name call))\<lparr>tx_Parameters := tl_Parameters call,
                 tx_RawCommand := tl_RawCommand call, tx_Result := truncateString output 500, tx_Error := err,
                 tx_Duration := dur, tx_PreState := tl_PreState call\<rparr>),
               ev_Outcome := Some \<lparr>oc_Status = outcomeStatus err, oc_ErrorMessage = err, oc_Duration = dur\<rparr>\<rparr>
         in [if pre_authorised tc \<and> (cls = ClassWrite \<or> cls = ClassDestructive)
             then e\<lparr>ev_Approval := Some (auto_approval now (EffectiveID (trace_principal tc)))\<rparr> else e]))"

definition RecordPolicyDecision ::
  "tool_auditor \<Rightarrow> string \<Rightarrow> time \<Rightarrow> trace_context option \<Rightarrow> policy_decision \<Rightarrow> event list" where
  "RecordPolicyDecision ta uid now tc pd =
     (if \<not> ta_auditor ta then []
      else
        (let e = (session_event ta (''pol_'' @ take 8 uid) now EventTypePolicyDecision)\<lparr>
               ev_ActionClass := pd_Action pd, ev_PolicyDecision := Some pd\<rparr>
         in [if pd_AutoApproved pd then
               e\<lparr>ev_Approval := Some (auto_approval now
                 (case tc of Some t \<Rightarrow> EffectiveID (tc_Principal t) | None \<Rightarrow> []))\<rparr>
             else e]))"

definition zero_policy_decision :: policy_decision where
  "zero_policy_decision = \<lparr>pd_ResourceType = [], pd_ResourceName = [], pd_Action = [], pd_Tags = [],
     pd_Effect = [], pd_PolicyName = [], pd_RuleIndex = 0, pd_Message = [], pd_Note = [], pd_DryRun = False,
     pd_PostExecution = False, pd_Trace = [], pd_Explanation = [], pd_UserID = [], pd_Roles = [],
     pd_Service = [], pd_AuthMethod = [], pd_AutoApproved = False, pd_Purpose = [], pd_PurposeNote = [],
     pd_Sensitivity = []\<rparr>"

definition RecordToolInvoked ::
  "tool_auditor \<Rightarrow> string \<Rightarrow> time \<Rightarrow> trace_context option \<Rightarrow> string \<Rightarrow> string \<Rightarrow> string \<Rightarrow> string list \<Rightarrow> event list" where
  "RecordToolInvoked ta uid now tc resourceType resourceName action tags =
     (if \<not> ta_auditor ta then []
      else [(session_event ta (''inv_'' @ take 8 uid) now EventTypeToolInvoked)\<lparr>
          ev_Origin := (case tc of Some t \<Rightarrow> tc_Origin t | None \<Rightarrow> []), ev_ActionClass := action,
          ev_PolicyDecision := Some (zero_policy_decision\<lparr>pd_ResourceType := resourceType,
            pd_ResourceName := resourceName, pd_Action := action, pd_Tags := tags\<rparr>)\<rparr>])"

definition RecordToolRetry ::
  "tool_auditor \<Rightarrow> string \<Rightarrow> time \<Rightarrow> string \<Rightarrow> int \<Rightarrow> bool \<Rightarrow> event list" where
  "RecordToolRetry ta uid now toolName attempt resolved =
     (if \<not> ta_auditor ta then []
      else [(session_event ta (''rty_'' @ take 8 uid) now EventTypeToolRetry)\<lparr>
          ev_ActionClass := ClassRead, ev_Tool := Some (tool_of ta toolName),
          ev_Input := (ev_Input zero_event)\<lparr>in_UserQuery := ''retry check '' @ Itoa attempt @ '' for '' @ toolName\<rparr>,
          ev_Outcome := Some \<lparr>oc_Status = (if resolved then ''resolved'' else ''retrying''),
            oc_ErrorMessage = [], oc_Duration = 0\<rparr>\<rparr>])"

definition verification_status :: "string \<Rightarrow> string" where
  "verification_status s = (if s = ''ok'' \<or> s = [] then ''verified_ok''
     else if s = ''warning'' then ''verified_warning''
     else if s = ''failed'' then ''verified_failed'' else s)"

definition RecordToolVerification :: "tool_auditor \<Rightarrow> string \<Rightarrow> time \<Rightarrow> string \<Rightarrow> string \<Rightarrow> event list" where
  "RecordToolVerification ta uid now toolName verifyStatus =
     (if \<not> ta_auditor ta then []
      else [(session_event ta (''vfy_'' @ take 8 uid) now EventTypeVerificationOutcome)\<lparr>
          ev_Tool := Some (tool_of ta toolName),
          ev_Input := (ev_Input zero_event)\<lparr>in_UserQuery := ''verification outcome for '' @ toolName\<rparr>,
          ev_Outcome := Some \<lparr>oc_Status = verification_status verifyStatus, oc_ErrorMessage = [],
            oc_Duration = 0\<rparr>\<rparr>])"

definition RecordAgentReasoning :: "tool_auditor \<Rightarrow> string \<Rightarrow> time \<Rightarrow> string \<Rightarrow> string list \<Rightarrow> event list" where
  "RecordAgentReasoning ta uid now reasoning toolCalls =
     (if \<not> ta_auditor ta \<or> reasoning = [] then []
      else [(session_event ta (''rsn_'' @ take 8 uid) now EventTypeAgentReasoning)\<lparr>
          ev_AgentReasoning := Some \<lparr>re_Reasoning = reasoning, re_ToolCalls = toolCalls\<rparr>\<rparr>])"

section \<open>Metadata of outgoing messages\<close>

text \<open>The gateway (\<^verbatim>\<open>proxyToAgent\<close>) and the delegation tool write the caller into the
  metadata. \<open>ac\<close> is the approval context of a playbook run, its mode and session.\<close>

definition put_str :: "string \<Rightarrow> string \<Rightarrow> json_map" where
  "put_str k v = (if v \<noteq> [] then [(k, JStr v)] else [])"

definition put_strs :: "string \<Rightarrow> string list \<Rightarrow> json_map" where
  "put_strs k vs = (if vs \<noteq> [] then [(k, JArr (map JStr vs))] else [])"

definition principal_metadata :: "principal \<Rightarrow> json_map" where
  "principal_metadata p = put_str ''user_id'' (pr_UserID p) @ put_strs ''roles'' (pr_Roles p) @
     put_str ''service'' (pr_Service p) @ put_str ''auth_method'' (pr_AuthMethod p)"

definition approval_metadata :: "(string \<times> string) option \<Rightarrow> json_map" where
  "approval_metadata ac = (case ac of
     Some (mode, sid) \<Rightarrow> put_str ''approval_mode'' mode @
       (if mode \<noteq> [] then put_str ''approval_session'' sid else [])
   | None \<Rightarrow> [])"

definition gateway_metadata ::
  "string \<Rightarrow> principal \<Rightarrow> string \<Rightarrow> string \<Rightarrow> bool \<Rightarrow> (string \<times> string) option \<Rightarrow> json_map" where
  "gateway_metadata traceID p purpose purposeNote purposeExplicit ac =
     [(''trace_id'', JStr traceID)] @ principal_metadata p @ put_str ''purpose'' purpose @
     put_str ''purpose_note'' purposeNote @ [(''purpose_explicit'', JBool purposeExplicit)] @
     approval_metadata ac"

definition delegate_metadata :: "string \<Rightarrow> trace_context option \<Rightarrow> json_map" where
  "delegate_metadata traceID tc = put_str ''trace_id'' traceID @
     (case tc of
        Some t \<Rightarrow> principal_metadata (tc_Principal t) @ put_str ''purpose'' (tc_Purpose t) @
          put_str ''purpose_note'' (tc_PurposeNote t) @
          (if tc_PurposeExplicit t then [(''purpose_explicit'', JBool True)] else [])
      | None \<Rightarrow> [])"

section \<open>The shared trace store\<close>

text \<open>One \<^verbatim>\<open>CurrentTraceStore\<close> serves all requests of an agent. An action carries the trace ID of
  its request: the middleware sets the store, a tool call reads it through the tool auditor, and the end
  of the request clears it. The run returns the pairs of own and recorded trace ID.\<close>

datatype store_action = Arrive string | Call string | Leave string

fun store_run :: "tool_auditor \<Rightarrow> string \<Rightarrow> store_action list \<Rightarrow> (string \<times> string) list" where
  "store_run ta cur [] = []"
| "store_run ta cur (Arrive t # acts) = store_run ta t acts"
| "store_run ta cur (Call t # acts) = (t, getTraceID (ta\<lparr>ta_traceStore := Some cur\<rparr>)) # store_run ta cur acts"
| "store_run ta cur (Leave t # acts) = store_run ta [] acts"

definition one_request :: "string \<times> nat \<Rightarrow> store_action list" where
  "one_request r = Arrive (fst r) # replicate (snd r) (Call (fst r)) @ [Leave (fst r)]"

section \<open>Facts\<close>

lemma map_of_put:
  "map_of (put_str k v @ m) k' = (if k' = k \<and> v \<noteq> [] then Some (JStr v) else map_of m k')"
  "map_of (put_str k v) k' = (if k' = k \<and> v \<noteq> [] then Some (JStr v) else None)"
  "map_of (put_strs k vs @ m) k' = (if k' = k \<and> vs \<noteq> [] then Some (JArr (map JStr vs)) else map_of m k')"
  by (auto simp: put_str_def put_strs_def)

lemma map_of_approval:
  "map_of (approval_metadata (Some (mode, sid))) k = (if k = ''approval_mode'' \<and> mode \<noteq> [] then Some (JStr mode)
     else if k = ''approval_session'' \<and> mode \<noteq> [] \<and> sid \<noteq> [] then Some (JStr sid) else None)"
  by (simp add: approval_metadata_def map_of_put del: map_of_append)

lemma str_or_empty_put [simp]: "str_or_empty (if v \<noteq> [] then Some (JStr v) else None) = v"
  "str_or_empty (if v = [] then None else Some (JStr v)) = v"
  by simp_all

lemma map_of_gateway_metadata:
  "str_or_empty (map_of (gateway_metadata tid p pu no ex (Some (mode, sid))) ''trace_id'') = tid"
  "str_or_empty (map_of (gateway_metadata tid p pu no ex (Some (mode, sid))) ''user_id'') = pr_UserID p"
  "str_or_empty (map_of (gateway_metadata tid p pu no ex (Some (mode, sid))) ''service'') = pr_Service p"
  "str_or_empty (map_of (gateway_metadata tid p pu no ex (Some (mode, sid))) ''auth_method'') = pr_AuthMethod p"
  "str_or_empty (map_of (gateway_metadata tid p pu no ex (Some (mode, sid))) ''purpose'') = pu"
  "str_or_empty (map_of (gateway_metadata tid p pu no ex (Some (mode, sid))) ''purpose_note'') = no"
  "as_bool (map_of (gateway_metadata tid p pu no ex (Some (mode, sid))) ''purpose_explicit'') = Some ex"
  "str_or_empty (map_of (gateway_metadata tid p pu no ex (Some (mode, sid))) ''approval_mode'') = mode"
  "str_or_empty (map_of (gateway_metadata tid p pu no ex (Some (mode, sid))) ''approval_session'') =
     (if mode = [] then [] else sid)"
  "map_of (gateway_metadata tid p pu no ex (Some (mode, sid))) ''roles'' =
     (if pr_Roles p = [] then None else Some (JArr (map JStr (pr_Roles p))))"
  unfolding gateway_metadata_def principal_metadata_def append_assoc
  by (simp_all add: map_of_put map_of_approval as_bool_def del: map_of_append)

lemma strs_of_map_JStr [simp]: "strs_of (map JStr xs) = xs"
  by (induction xs) auto

lemma store_run_calls:
  "t \<noteq> [] \<Longrightarrow> store_run ta t (replicate n (Call t) @ acts) = replicate n (t, t) @ store_run ta t acts"
  by (induction n) (auto simp: getTraceID_def)

lemma store_run_one_request:
  "fst r \<noteq> [] \<Longrightarrow> store_run ta cur (one_request r @ acts) = replicate (snd r) (fst r, fst r) @ store_run ta [] acts"
  by (simp add: one_request_def store_run_calls)

lemma store_run_sequential:
  "(\<forall>r \<in> set rs. fst r \<noteq> []) \<Longrightarrow>
   store_run ta cur (concat (map one_request rs)) = concat (map (\<lambda>r. replicate (snd r) (fst r, fst r)) rs)"
  by (induction rs arbitrary: cur) (auto simp: store_run_one_request)

section \<open>Properties\<close>

text \<open>C39: what an agent knows of the caller. The context an agent builds from the metadata the gateway
  sent carries the user, the roles, the service, the authentication method, the declared purpose and the
  approval mode of the caller unchanged, and drops the operator and the roles of the operator: behind a
  service account the agent sees the service only.\<close>

theorem caller_over_a2a:
  "context_of uid (parseA2ARequest (Some \<lparr>am_ContextID = c,
      am_Metadata = Some (gateway_metadata traceID p purpose note expl (Some (mode, sid))), am_Parts = ps\<rparr>)) =
    \<lparr>tc_TraceID = (if traceID = [] then ''ar_'' @ take 12 uid else traceID), tc_ParentID = [], tc_Origin = ''agent'',
     tc_Principal = p\<lparr>pr_OperatorID := [], pr_OperatorRoles := []\<rparr>, tc_Purpose = purpose, tc_PurposeNote = note,
     tc_PurposeExplicit = expl, tc_ApprovalMode = mode, tc_ApprovalSession = (if mode = [] then [] else sid)\<rparr>"
proof -
  define m where "m = gateway_metadata traceID p purpose note expl (Some (mode, sid))"
  note look = map_of_gateway_metadata [of traceID p purpose "note" expl mode sid, folded m_def]
  have "metadata_fields m = \<lparr>ad_traceID = traceID, ad_userQuery = [], ad_contextID = [], ad_userID = pr_UserID p,
      ad_roles = pr_Roles p, ad_service = pr_Service p, ad_authMethod = pr_AuthMethod p, ad_purpose = purpose,
      ad_purposeNote = note, ad_purposeExplicit = expl, ad_approvalMode = mode,
      ad_approvalSession = (if mode = [] then [] else sid)\<rparr>"
    by (simp add: metadata_fields_def zero_a2a_def look)
  then show ?thesis
    unfolding m_def [symmetric]
    by (cases p) (simp add: context_of_def parseA2ARequest_def trace_id_of_def NewTraceIDWithPrefix_def
        resolvedPrincipal_def zero_principal_def Let_def split: option.split)
qed

text \<open>tool events carry the trace of their request when the requests of an agent run one after
  the other. When two of them overlap, the shared store holds the trace of the later one, so a call of the
  first request is recorded under the second, and after the second has left under none but the static
  fallback.\<close>

theorem trace_attribution:
  assumes "\<forall>r \<in> set rs. fst r \<noteq> []" "t \<noteq> []" "u \<noteq> []"
  shows "store_run ta cur (concat (map one_request rs)) = concat (map (\<lambda>r. replicate (snd r) (fst r, fst r)) rs) \<and>
    store_run ta cur [Arrive t, Arrive u, Call t, Leave u, Call t, Leave t] = [(t, u), (t, ta_traceID ta)]"
  using assms by (simp add: store_run_sequential getTraceID_def)

theorem trace_attribution_witness:
  "store_run \<lparr>ta_auditor = True, ta_agentName = ''db'', ta_sessionID = ''s'', ta_traceID = [], ta_traceStore = None\<rparr> []
     [Arrive ''tr_a'', Arrive ''tr_b'', Call ''tr_a'', Leave ''tr_b'', Call ''tr_a'', Leave ''tr_a''] =
     [(''tr_a'', ''tr_b''), (''tr_a'', [])]"
  using trace_attribution [of "[(''tr_a'', 2), (''tr_b'', 1)]" "''tr_a''" "''tr_b''"
      "\<lparr>ta_auditor = True, ta_agentName = ''db'', ta_sessionID = ''s'', ta_traceID = [], ta_traceStore = None\<rparr>" "[]"]
  by simp

end
