(* ===== verification/Approval_Store.thy ===== *)
theory Approval_Store
  imports Approval_Policy Go_Sort
begin

text \<open>
  The persistent approval requests of \<^verbatim>\<open>internal/audit/approval_store.go\<close>. The table
  \<^verbatim>\<open>approval_requests\<close> is the list of its rows in insertion order; a row is the
  \<^verbatim>\<open>StoredApproval\<close> that scanning it returns. A time column holds the RFC 3339 text of an
  instant, or NULL for the zero time: a row keeps the instant, and every comparison a statement makes
  on the column is made on the text. The request context is its JSON text. Failures of the database
  are arguments: \<open>flt\<close> of the statement, \<open>qflt\<close> of the query that follows it.

  A waiter is a channel of capacity one, named by a number: \<open>st_waiters\<close> maps a request to the
  registered channels and \<open>st_inbox\<close> holds what was sent. Operations of the store are atomic
  steps; \<open>WaitForResolution\<close> is split where it can be interrupted, into the check, the
  registration and the receipt.
\<close>

section \<open>Data\<close>

record stored_approval =
  ap_ApprovalID :: string
  ap_EventID :: string
  ap_TraceID :: string
  ap_Status :: string
  ap_ActionClass :: string
  ap_ToolName :: string
  ap_AgentName :: string
  ap_ResourceType :: string
  ap_ResourceName :: string
  ap_RequestedBy :: string
  ap_RequestedAt :: time
  ap_RequestContext :: string
  ap_ResolvedBy :: string
  ap_ResolvedAt :: time
  ap_ResolutionReason :: string
  ap_ExpiresAt :: time
  ap_ApprovalValidUntil :: time
  ap_PolicyName :: string
  ap_ApproverRole :: string
  ap_CallbackURL :: string
  ap_CallbackSentAt :: time
  ap_CreatedAt :: time
  ap_UpdatedAt :: time

record approval_store =
  st_rows :: "stored_approval list"
  st_waiters :: "string \<Rightarrow> nat list"
  st_inbox :: "nat \<Rightarrow> stored_approval option"

definition NewApprovalStore :: "stored_approval list \<Rightarrow> approval_store" where
  "NewApprovalStore rows = \<lparr>st_rows = rows, st_waiters = (\<lambda>_. []), st_inbox = (\<lambda>_. None)\<rparr>"

definition not_pending_error :: "string \<Rightarrow> string" where
  "not_pending_error approvalID = ''approval '' @ approvalID @ '' not found or not pending''"

section \<open>Queries\<close>

definition CreateRequest ::
  "string option \<Rightarrow> string \<Rightarrow> time \<Rightarrow> stored_approval \<Rightarrow> approval_store \<Rightarrow>
   (string + stored_approval) \<times> approval_store" where
  "CreateRequest flt uid now req st =
     (let req = (if ap_ApprovalID req = [] then req\<lparr>ap_ApprovalID := ''apr_'' @ take 8 uid\<rparr> else req);
          req = (if ap_RequestedAt req = 0 then req\<lparr>ap_RequestedAt := now\<rparr> else req);
          req = (if ap_Status req = [] then req\<lparr>ap_Status := ''pending''\<rparr> else req);
          req = req\<lparr>ap_CreatedAt := now, ap_UpdatedAt := now\<rparr>;
          row = req\<lparr>ap_ResolvedBy := [], ap_ResolvedAt := 0, ap_ResolutionReason := [],
            ap_ApprovalValidUntil := 0, ap_CallbackSentAt := 0\<rparr>
      in case flt of
           Some e \<Rightarrow> (Inl e, st)
         | None \<Rightarrow>
             (if list_ex (\<lambda>r. ap_ApprovalID r = ap_ApprovalID req) (st_rows st)
              then (Inl ''UNIQUE constraint failed: approval_requests.approval_id'', st)
              else (Inr req, st\<lparr>st_rows := st_rows st @ [row]\<rparr>)))"

definition GetRequest :: "string option \<Rightarrow> string \<Rightarrow> approval_store \<Rightarrow> string + stored_approval" where
  "GetRequest flt approvalID st = (case flt of
     Some e \<Rightarrow> Inl e
   | None \<Rightarrow> (case find (\<lambda>r. ap_ApprovalID r = approvalID) (st_rows st) of
       None \<Rightarrow> Inl ''approval not found''
     | Some r \<Rightarrow> Inr r))"

definition created_later :: "stored_approval \<Rightarrow> stored_approval \<Rightarrow> bool" where
  "created_later a b = str_less (fmt_rfc3339nano (ap_CreatedAt b)) (fmt_rfc3339nano (ap_CreatedAt a))"

type_synonym row_sort =
  "(stored_approval \<Rightarrow> stored_approval \<Rightarrow> bool) \<Rightarrow> stored_approval list \<Rightarrow> stored_approval list"

definition GetRequestByTraceAndTool ::
  "row_sort \<Rightarrow> string option \<Rightarrow> string \<Rightarrow> string \<Rightarrow> approval_store \<Rightarrow> string + stored_approval" where
  "GetRequestByTraceAndTool srt flt traceID toolName st = (case flt of
     Some e \<Rightarrow> Inl e
   | None \<Rightarrow> (case srt created_later
         (filter (\<lambda>r. ap_TraceID r = traceID \<and> ap_ToolName r = toolName) (st_rows st)) of
       [] \<Rightarrow> Inl ''approval not found''
     | r # _ \<Rightarrow> Inr r))"

record approval_query =
  qo_Status :: string
  qo_AgentName :: string
  qo_TraceID :: string
  qo_RequestedBy :: string
  qo_ToolName :: string
  qo_Since :: time
  qo_Limit :: int

definition query_selects :: "approval_query \<Rightarrow> stored_approval \<Rightarrow> bool" where
  "query_selects q r \<longleftrightarrow>
     (qo_Status q = [] \<or> ap_Status r = qo_Status q) \<and>
     (qo_AgentName q = [] \<or> ap_AgentName r = qo_AgentName q) \<and>
     (qo_TraceID q = [] \<or> ap_TraceID r = qo_TraceID q) \<and>
     (qo_RequestedBy q = [] \<or> ap_RequestedBy r = qo_RequestedBy q) \<and>
     (qo_ToolName q = [] \<or> ap_ToolName r = qo_ToolName q) \<and>
     (qo_Since q = 0 \<or> str_le (fmt_rfc3339nano (qo_Since q)) (fmt_rfc3339nano (ap_CreatedAt r)))"

definition ListRequests ::
  "row_sort \<Rightarrow> string option \<Rightarrow> approval_query \<Rightarrow> approval_store \<Rightarrow> string + stored_approval list" where
  "ListRequests srt flt q st = (case flt of
     Some e \<Rightarrow> Inl e
   | None \<Rightarrow>
       (let rows = srt created_later (filter (query_selects q) (st_rows st))
        in Inr (if qo_Limit q > 0 then take (nat (qo_Limit q)) rows else rows)))"

section \<open>Waiters\<close>

definition send :: "stored_approval \<Rightarrow> nat \<Rightarrow> (nat \<Rightarrow> stored_approval option) \<Rightarrow> nat \<Rightarrow> stored_approval option" where
  "send req ch inbox = (case inbox ch of None \<Rightarrow> inbox(ch \<mapsto> req) | Some _ \<Rightarrow> inbox)"

definition notifyWaiters :: "string option \<Rightarrow> string \<Rightarrow> approval_store \<Rightarrow> approval_store" where
  "notifyWaiters qflt approvalID st =
     (let channels = st_waiters st approvalID;
          st = st\<lparr>st_waiters := (st_waiters st)(approvalID := [])\<rparr>
      in if channels = [] then st
         else (case GetRequest qflt approvalID st of
             Inl _ \<Rightarrow> st
           | Inr req \<Rightarrow> st\<lparr>st_inbox := foldl (\<lambda>ib ch. send req ch ib) (st_inbox st) channels\<rparr>))"

text \<open>The three phases of \<^verbatim>\<open>WaitForResolution\<close>: an answer at once unless the request is
  pending, the registration of a fresh channel, and the end of the wait by a message or by the
  context, with the deferred removal of the channel.\<close>

definition wait_check :: "string option \<Rightarrow> string \<Rightarrow> approval_store \<Rightarrow> (string + stored_approval) option" where
  "wait_check flt approvalID st = (case GetRequest flt approvalID st of
     Inl e \<Rightarrow> Some (Inl e)
   | Inr req \<Rightarrow> if ap_Status req \<noteq> ''pending'' then Some (Inr req) else None)"

definition wait_register :: "string \<Rightarrow> nat \<Rightarrow> approval_store \<Rightarrow> approval_store" where
  "wait_register approvalID ch st =
     st\<lparr>st_waiters := (st_waiters st)(approvalID := st_waiters st approvalID @ [ch])\<rparr>"

definition wait_end :: "string option \<Rightarrow> string \<Rightarrow> nat \<Rightarrow> approval_store \<Rightarrow>
    (string + stored_approval) option \<times> approval_store" where
  "wait_end ctxErr approvalID ch st =
     (let st' = st\<lparr>st_waiters := (st_waiters st)(approvalID := remove1 ch (st_waiters st approvalID))\<rparr>
      in case st_inbox st ch of
           Some req \<Rightarrow> (Some (Inr req), st'\<lparr>st_inbox := (st_inbox st)(ch := None)\<rparr>)
         | None \<Rightarrow> (case ctxErr of Some e \<Rightarrow> (Some (Inl e), st') | None \<Rightarrow> (None, st)))"

section \<open>Resolution\<close>

definition is_pending_row :: "string \<Rightarrow> stored_approval \<Rightarrow> bool" where
  "is_pending_row approvalID r \<longleftrightarrow> ap_ApprovalID r = approvalID \<and> ap_Status r = ''pending''"

definition approve_row :: "time \<Rightarrow> string \<Rightarrow> string \<Rightarrow> duration \<Rightarrow> stored_approval \<Rightarrow> stored_approval" where
  "approve_row now who reason validFor r = r\<lparr>ap_Status := ''approved'', ap_ResolvedBy := who,
     ap_ResolvedAt := now, ap_ResolutionReason := reason,
     ap_ApprovalValidUntil := (if validFor > 0 then time_add now validFor else 0), ap_UpdatedAt := now\<rparr>"

definition close_row :: "string \<Rightarrow> time \<Rightarrow> string \<Rightarrow> string \<Rightarrow> stored_approval \<Rightarrow> stored_approval" where
  "close_row status now who reason r = r\<lparr>ap_Status := status, ap_ResolvedBy := who,
     ap_ResolvedAt := now, ap_ResolutionReason := reason, ap_UpdatedAt := now\<rparr>"

text \<open>The guarded UPDATE that Approve, Deny and Cancel share, with the row count and the
  notification.\<close>

definition resolve_row ::
  "string option \<Rightarrow> string option \<Rightarrow> string \<Rightarrow> (stored_approval \<Rightarrow> stored_approval) \<Rightarrow> approval_store \<Rightarrow>
   (string + unit) \<times> approval_store" where
  "resolve_row flt qflt approvalID upd st = (case flt of
     Some e \<Rightarrow> (Inl e, st)
   | None \<Rightarrow>
       (if length (filter (is_pending_row approvalID) (st_rows st)) = 0
        then (Inl (not_pending_error approvalID), st)
        else (Inr (), notifyWaiters qflt approvalID
          (st\<lparr>st_rows := map (\<lambda>r. if is_pending_row approvalID r then upd r else r) (st_rows st)\<rparr>))))"

definition Approve ::
  "string option \<Rightarrow> string option \<Rightarrow> time \<Rightarrow> string \<Rightarrow> string \<Rightarrow> string \<Rightarrow> duration \<Rightarrow> approval_store \<Rightarrow>
   (string + unit) \<times> approval_store" where
  "Approve flt qflt now approvalID approvedBy reason validFor st =
     resolve_row flt qflt approvalID (approve_row now approvedBy reason validFor) st"

definition Deny ::
  "string option \<Rightarrow> string option \<Rightarrow> time \<Rightarrow> string \<Rightarrow> string \<Rightarrow> string \<Rightarrow> approval_store \<Rightarrow>
   (string + unit) \<times> approval_store" where
  "Deny flt qflt now approvalID deniedBy reason st =
     resolve_row flt qflt approvalID (close_row ''denied'' now deniedBy reason) st"

definition Cancel ::
  "string option \<Rightarrow> string option \<Rightarrow> time \<Rightarrow> string \<Rightarrow> string \<Rightarrow> string \<Rightarrow> approval_store \<Rightarrow>
   (string + unit) \<times> approval_store" where
  "Cancel flt qflt now approvalID cancelledBy reason st =
     resolve_row flt qflt approvalID (close_row ''cancelled'' now cancelledBy reason) st"

section \<open>Expiry\<close>

definition expired_row :: "time \<Rightarrow> stored_approval \<Rightarrow> bool" where
  "expired_row now r \<longleftrightarrow> ap_Status r = ''pending'' \<and> ap_ExpiresAt r \<noteq> 0 \<and>
     str_less (fmt_rfc3339nano (ap_ExpiresAt r)) (fmt_rfc3339nano now)"

definition expire_row :: "time \<Rightarrow> stored_approval \<Rightarrow> stored_approval" where
  "expire_row now r = r\<lparr>ap_Status := ''expired'', ap_ResolvedAt := now,
     ap_ResolutionReason := ''Approval request expired'', ap_UpdatedAt := now\<rparr>"

text \<open>The SELECT of the ids and the UPDATE are two statements.\<close>

definition expire_select :: "time \<Rightarrow> approval_store \<Rightarrow> string list" where
  "expire_select now st = map ap_ApprovalID (filter (expired_row now) (st_rows st))"

definition expire_update :: "string option \<Rightarrow> time \<Rightarrow> string list \<Rightarrow> approval_store \<Rightarrow> nat \<times> approval_store" where
  "expire_update qflt now ids st =
     (let affected = length (filter (expired_row now) (st_rows st));
          st = st\<lparr>st_rows := map (\<lambda>r. if expired_row now r then expire_row now r else r) (st_rows st)\<rparr>
      in (affected, foldl (\<lambda>s i. notifyWaiters qflt i s) st ids))"

definition ExpireRequests ::
  "string option \<Rightarrow> string option \<Rightarrow> string option \<Rightarrow> time \<Rightarrow> approval_store \<Rightarrow> (string + nat) \<times> approval_store" where
  "ExpireRequests sflt uflt qflt now st = (case sflt of
     Some e \<Rightarrow> (Inl e, st)
   | None \<Rightarrow>
       (let ids = expire_select now st
        in if ids = [] then (Inr 0, st)
           else (case uflt of
               Some e \<Rightarrow> (Inl e, st)
             | None \<Rightarrow> (let (n, st') = expire_update qflt now ids st in (Inr n, st')))))"

definition MarkCallbackSent ::
  "string option \<Rightarrow> time \<Rightarrow> string \<Rightarrow> approval_store \<Rightarrow> string option \<times> approval_store" where
  "MarkCallbackSent flt now approvalID st = (case flt of
     Some e \<Rightarrow> (Some e, st)
   | None \<Rightarrow> (None, st\<lparr>st_rows := map (\<lambda>r. if ap_ApprovalID r = approvalID
       then r\<lparr>ap_CallbackSentAt := now, ap_UpdatedAt := now\<rparr> else r) (st_rows st)\<rparr>))"

definition IsApprovalValid :: "time \<Rightarrow> stored_approval \<Rightarrow> bool" where
  "IsApprovalValid now req =
     (if ap_Status req \<noteq> ''approved'' then False
      else if ap_ApprovalValidUntil req \<noteq> 0 \<and> now > ap_ApprovalValidUntil req then False else True)"

section \<open>Histories of the store\<close>

text \<open>The operations as steps of a state machine, in any order and with any failures. Requests are
  created pending, as every caller does; the two statements of an expiry run are apart, so the ids
  of its notifications are arbitrary.\<close>

inductive approval_step :: "approval_store \<Rightarrow> approval_store \<Rightarrow> bool" where
  step_create: "ap_Status req \<in> {[], ''pending''} \<Longrightarrow> approval_step st (snd (CreateRequest flt uid now req st))"
| step_approve: "approval_step st (snd (Approve flt qflt now i who why d st))"
| step_deny: "approval_step st (snd (Deny flt qflt now i who why st))"
| step_cancel: "approval_step st (snd (Cancel flt qflt now i who why st))"
| step_expire: "approval_step st (snd (expire_update qflt now ids st))"
| step_mark: "approval_step st (snd (MarkCallbackSent flt now i st))"
| step_register: "approval_step st (wait_register i ch st)"
| step_receive: "approval_step st (snd (wait_end ctxErr i ch st))"

definition statuses :: "string list" where
  "statuses = [''pending'', ''approved'', ''denied'', ''expired'', ''cancelled'']"

definition row_ok :: "stored_approval \<Rightarrow> bool" where
  "row_ok r \<longleftrightarrow> List.member statuses (ap_Status r) \<and>
     (ap_Status r = ''pending'' \<longrightarrow> ap_ResolvedBy r = [] \<and> ap_ResolvedAt r = 0 \<and> ap_ResolutionReason r = []) \<and>
     (ap_Status r \<noteq> ''approved'' \<longrightarrow> ap_ApprovalValidUntil r = 0)"

definition store_ok :: "approval_store \<Rightarrow> bool" where
  "store_ok st \<longleftrightarrow> distinct (map ap_ApprovalID (st_rows st)) \<and> list_all row_ok (st_rows st)"

text \<open>What a resolution wrote.\<close>

definition resolution :: "stored_approval \<Rightarrow> string \<times> string \<times> time \<times> string \<times> time" where
  "resolution r = (ap_Status r, ap_ResolvedBy r, ap_ResolvedAt r, ap_ResolutionReason r, ap_ApprovalValidUntil r)"

definition evolves :: "stored_approval \<Rightarrow> stored_approval \<Rightarrow> bool" where
  "evolves r r' \<longleftrightarrow> ap_ApprovalID r' = ap_ApprovalID r \<and> (row_ok r \<longrightarrow> row_ok r') \<and>
     (ap_Status r \<noteq> ''pending'' \<longrightarrow> resolution r' = resolution r)"

definition rows_evolve :: "stored_approval list \<Rightarrow> stored_approval list \<Rightarrow> bool" where
  "rows_evolve rs rs' \<longleftrightarrow> (\<exists>f new. rs' = map f rs @ new \<and> (\<forall>r. evolves r (f r)) \<and> list_all row_ok new \<and>
     distinct (map ap_ApprovalID new) \<and>
     (\<forall>n \<in> set new. ap_ApprovalID n \<notin> set (map ap_ApprovalID rs)))"

section \<open>Facts\<close>

lemma notifyWaiters_rows [simp]: "st_rows (notifyWaiters q i st) = st_rows st"
  by (simp add: notifyWaiters_def Let_def split: sum.splits)

lemma foldl_notify_rows [simp]: "st_rows (foldl (\<lambda>s i. notifyWaiters q i s) st ids) = st_rows st"
  by (induction ids arbitrary: st) simp_all

lemma evolves_refl: "evolves r r"
  by (simp add: evolves_def)

lemma rows_evolve_map: "(\<And>r. evolves r (f r)) \<Longrightarrow> rows_evolve rs (map f rs)"
  unfolding rows_evolve_def by (intro exI [of _ f] exI [of _ "[]"]) simp

lemma rows_evolve_refl: "rows_evolve rs rs"
  using rows_evolve_map [of id rs] evolves_refl by simp

lemma rows_evolve_new:
  "row_ok n \<Longrightarrow> \<forall>r \<in> set rs. ap_ApprovalID r \<noteq> ap_ApprovalID n \<Longrightarrow> rows_evolve rs (rs @ [n])"
  unfolding rows_evolve_def
  by (intro exI [of _ id] exI [of _ "[n]"]) (auto simp: evolves_refl simp flip: ex_simps)

lemma approve_row_evolves: "is_pending_row i r \<Longrightarrow> evolves r (approve_row now who why d r)"
  by (simp add: evolves_def is_pending_row_def approve_row_def row_ok_def statuses_def)

lemma close_row_evolves:
  "is_pending_row i r \<Longrightarrow> status \<in> {''denied'', ''cancelled''} \<Longrightarrow> evolves r (close_row status now who why r)"
  by (auto simp: evolves_def is_pending_row_def close_row_def row_ok_def statuses_def)

lemma expire_row_evolves: "expired_row now r \<Longrightarrow> evolves r (expire_row now r)"
  by (simp add: evolves_def expired_row_def expire_row_def row_ok_def statuses_def)

lemma resolve_row_rows:
  assumes "\<And>r. is_pending_row i r \<Longrightarrow> evolves r (upd r)"
  shows "rows_evolve (st_rows st) (st_rows (snd (resolve_row flt q i upd st)))"
  using assms
  by (auto simp: resolve_row_def evolves_refl intro!: rows_evolve_map rows_evolve_refl split: option.splits)

lemma CreateRequest_rows:
  "ap_Status req \<in> {[], ''pending''} \<Longrightarrow>
   rows_evolve (st_rows st) (st_rows (snd (CreateRequest flt uid now req st)))"
  by (auto simp: CreateRequest_def Let_def list_ex_iff row_ok_def statuses_def
      intro!: rows_evolve_new rows_evolve_refl split: option.splits)

lemma MarkCallbackSent_rows: "rows_evolve (st_rows st) (st_rows (snd (MarkCallbackSent flt now i st)))"
  by (auto simp: MarkCallbackSent_def evolves_def row_ok_def resolution_def
      intro!: rows_evolve_map rows_evolve_refl split: option.splits)

lemma expire_update_rows: "rows_evolve (st_rows st) (st_rows (snd (expire_update q now ids st)))"
  by (auto simp: expire_update_def Let_def expire_row_evolves evolves_refl intro!: rows_evolve_map)

lemma approval_step_rows: "approval_step st st' \<Longrightarrow> rows_evolve (st_rows st) (st_rows st')"
proof (induction rule: approval_step.induct)
  case (step_receive st ctxErr i ch)
  show ?case
    by (simp add: wait_end_def Let_def rows_evolve_refl split: option.splits)
qed (simp_all add: CreateRequest_rows Approve_def Deny_def Cancel_def resolve_row_rows
    approve_row_evolves close_row_evolves expire_update_rows MarkCallbackSent_rows wait_register_def
    rows_evolve_refl)

lemma rows_evolve_ok:
  assumes "rows_evolve rs rs'" "distinct (map ap_ApprovalID rs)" "list_all row_ok rs"
  shows "distinct (map ap_ApprovalID rs') \<and> list_all row_ok rs'"
proof -
  obtain f new where f: "rs' = map f rs @ new" "\<And>r. evolves r (f r)" "list_all row_ok new"
      "distinct (map ap_ApprovalID new)" "\<forall>n \<in> set new. ap_ApprovalID n \<notin> set (map ap_ApprovalID rs)"
    using assms(1) by (auto simp: rows_evolve_def)
  then have "map ap_ApprovalID rs' = map ap_ApprovalID rs @ map ap_ApprovalID new"
    by (simp add: evolves_def)
  moreover have "set (map ap_ApprovalID rs) \<inter> set (map ap_ApprovalID new) = {}"
    using f(5) by (rule map_disjoint)
  moreover have "list_all row_ok rs'"
    using f(1-3) assms(3) by (auto simp: list_all_iff evolves_def)
  ultimately show ?thesis
    using f(4) assms(2) by simp
qed

lemma rows_evolve_final:
  assumes "rows_evolve rs rs'" "r \<in> set rs" "ap_Status r \<noteq> ''pending''"
  shows "\<exists>r' \<in> set rs'. ap_ApprovalID r' = ap_ApprovalID r \<and> resolution r' = resolution r"
proof -
  obtain f new where "rs' = map f rs @ new" "evolves r (f r)"
    using assms(1) by (auto simp: rows_evolve_def)
  with assms(2,3) show ?thesis
    by (intro bexI [of _ "f r"]) (auto simp: evolves_def)
qed

section \<open>Resolution as a contract\<close>

datatype store_resolution =
    ToApprove string string duration
  | ToDeny string string
  | ToCancel string string

text \<open>One attempt with its own clock reading and its own failures.\<close>

type_synonym store_attempt = "store_resolution \<times> time \<times> string option \<times> string option"

fun store_resolve :: "store_attempt \<Rightarrow> string \<Rightarrow> approval_store \<Rightarrow> (string + unit) \<times> approval_store" where
  "store_resolve (ToApprove who why d, now, flt, q) k st = Approve flt q now k who why d st"
| "store_resolve (ToDeny who why, now, flt, q) k st = Deny flt q now k who why st"
| "store_resolve (ToCancel who why, now, flt, q) k st = Cancel flt q now k who why st"

definition store_is_pending :: "approval_store \<Rightarrow> string \<Rightarrow> bool" where
  "store_is_pending st k \<longleftrightarrow> list_ex (is_pending_row k) (st_rows st)"

lemma resolve_row_pending:
  assumes "\<And>r. ap_ApprovalID (upd r) = ap_ApprovalID r" "\<And>r. ap_Status (upd r) \<noteq> ''pending''"
  shows "resolve_row flt q k upd st = (Inr u, st') \<Longrightarrow>
      store_is_pending st k \<and> (store_is_pending st' j \<longleftrightarrow> store_is_pending st j \<and> j \<noteq> k)"
    and "resolve_row flt q k upd st = (Inl e, st') \<Longrightarrow> st' = st"
  using assms
  by (auto simp: resolve_row_def store_is_pending_def list_ex_iff is_pending_row_def filter_empty_conv
      split: option.splits if_splits)

lemma store_resolve_row:
  "\<exists>flt q upd. store_resolve x k st = resolve_row flt q k upd st \<and>
     (\<forall>r. ap_ApprovalID (upd r) = ap_ApprovalID r \<and> ap_Status (upd r) \<noteq> ''pending'')"
proof -
  obtain how now flt q where x: "x = (how, now, flt, q)" by (cases x)
  show ?thesis
  proof (cases how)
    case (ToApprove who why d)
    then show ?thesis
      by (intro exI [of _ flt] exI [of _ q] exI [of _ "approve_row now who why d"])
         (simp add: x Approve_def approve_row_def)
  next
    case (ToDeny who why)
    then show ?thesis
      by (intro exI [of _ flt] exI [of _ q] exI [of _ "close_row ''denied'' now who why"])
         (simp add: x Deny_def close_row_def)
  next
    case (ToCancel who why)
    then show ?thesis
      by (intro exI [of _ flt] exI [of _ q] exI [of _ "close_row ''cancelled'' now who why"])
         (simp add: x Cancel_def close_row_def)
  qed
qed

interpretation requests: single_resolution store_resolve store_is_pending
proof unfold_locales
  fix x k s r s' j e
  obtain flt q upd where u: "store_resolve x k s = resolve_row flt q k upd s"
      "\<And>r. ap_ApprovalID (upd r) = ap_ApprovalID r" "\<And>r. ap_Status (upd r) \<noteq> ''pending''"
    using store_resolve_row [of x k s] by auto
  show "store_resolve x k s = (Inr r, s') \<Longrightarrow> store_is_pending s k"
    using resolve_row_pending(1) [OF u(2,3)] u(1) by simp
  show "store_resolve x k s = (Inr r, s') \<Longrightarrow> store_is_pending s' j = (store_is_pending s j \<and> j \<noteq> k)"
    using resolve_row_pending(1) [OF u(2,3)] u(1) by simp
  show "store_resolve x k s = (Inl e, s') \<Longrightarrow> store_is_pending s' = store_is_pending s"
    using resolve_row_pending(2) [OF u(2,3), where flt = flt and q = q and k = k and st = s] u(1) by metis
qed

section \<open>Facts about waiting\<close>

lemma send_other: "ch \<noteq> ch' \<Longrightarrow> send r ch ib ch' = ib ch'"
  by (simp add: send_def split: option.splits)

lemma foldl_send:
  "foldl (\<lambda>ib ch. send r ch ib) ib chs c =
     (if ib c \<noteq> None then ib c else if c \<in> set chs then Some r else None)"
  by (induction chs arbitrary: ib) (auto simp: send_def split: option.splits)

lemma find_pending_map:
  assumes "distinct (map ap_ApprovalID rs)" "list_ex (is_pending_row i) rs"
    and "\<And>r. ap_ApprovalID (upd r) = ap_ApprovalID r"
  shows "\<exists>r \<in> set rs. is_pending_row i r \<and>
    find (\<lambda>r. ap_ApprovalID r = i) (map (\<lambda>r. if is_pending_row i r then upd r else r) rs) = Some (upd r)"
  using assms
proof (induction rs)
  case (Cons a rs)
  show ?case
  proof (cases "ap_ApprovalID a = i")
    case True
    with Cons.prems(1) have "\<not> list_ex (is_pending_row i) rs"
      unfolding list_ex_iff is_pending_row_def by (metis distinct.simps(2) image_eqI list.simps(9) set_map)
    with Cons.prems(2) have "is_pending_row i a" by simp
    with True Cons.prems(3) show ?thesis by simp
  next
    case False
    then have "\<not> is_pending_row i a" by (simp add: is_pending_row_def)
    with Cons False show ?thesis by auto
  qed
qed simp

lemma resolve_row_notifies:
  assumes "distinct (map ap_ApprovalID (st_rows st))" "store_is_pending st i"
    and "ch \<in> set (st_waiters st i)" "st_inbox st ch = None"
    and "\<And>r. ap_ApprovalID (upd r) = ap_ApprovalID r"
  shows "\<exists>r \<in> set (st_rows st). is_pending_row i r \<and>
    fst (resolve_row None None i upd st) = Inr () \<and>
    st_inbox (snd (resolve_row None None i upd st)) ch = Some (upd r)"
proof -
  obtain r where r: "r \<in> set (st_rows st)" "is_pending_row i r"
      "find (\<lambda>r. ap_ApprovalID r = i) (map (\<lambda>r. if is_pending_row i r then upd r else r) (st_rows st)) = Some (upd r)"
    using find_pending_map [OF assms(1) _ assms(5)] assms(2) by (auto simp: store_is_pending_def)
  have "filter (is_pending_row i) (st_rows st) \<noteq> []"
    using r(1,2) by (auto simp: filter_empty_conv)
  with r assms(3,4) show ?thesis
    by (intro bexI [of _ r]) (auto simp: resolve_row_def notifyWaiters_def GetRequest_def foldl_send Let_def)
qed

section \<open>Facts about expiry\<close>

lemma expired_row_iff:
  assumes "year_of (ap_ExpiresAt r) < 10000" "year_of now < 10000"
    and "ap_ExpiresAt r div sec_ns \<noteq> now div sec_ns"
  shows "expired_row now r \<longleftrightarrow> ap_Status r = ''pending'' \<and> ap_ExpiresAt r \<noteq> 0 \<and> ap_ExpiresAt r < now"
proof -
  have "ap_ExpiresAt r < now \<longleftrightarrow> ap_ExpiresAt r div sec_ns < now div sec_ns"
  proof
    assume "ap_ExpiresAt r < now"
    then have "ap_ExpiresAt r div sec_ns \<le> now div sec_ns" by (intro div_le_mono) simp
    with assms(3) show "ap_ExpiresAt r div sec_ns < now div sec_ns" by simp
  next
    assume "ap_ExpiresAt r div sec_ns < now div sec_ns"
    then show "ap_ExpiresAt r < now"
      using div_le_mono [of now "ap_ExpiresAt r" sec_ns] by (cases "ap_ExpiresAt r < now") auto
  qed
  with assms show ?thesis
    by (auto simp: expired_row_def fmt_rfc3339nano_less)
qed

section \<open>Properties\<close>

text \<open>C14: every history of the store keeps its invariant. From an empty table, after any sequence
  of creations, approvals, denials, cancellations, expiry runs, callback marks and waits, with any
  database failures in between, ids are unique, every status is one of the five, a pending request
  carries no resolution, and only an approved one has a validity period.\<close>

theorem approval_store_invariant:
  assumes "approval_step\<^sup>*\<^sup>* (NewApprovalStore []) st"
  shows "store_ok st"
  using assms
proof (induction rule: rtranclp_induct)
  case base
  show ?case by (simp add: NewApprovalStore_def store_ok_def)
next
  case (step y z)
  then show ?case
    using rows_evolve_ok [OF approval_step_rows [OF step.hyps(2)]] by (simp add: store_ok_def)
qed

definition sample_approval :: stored_approval where
  "sample_approval = \<lparr>ap_ApprovalID = ''apr_1'', ap_EventID = [], ap_TraceID = ''tr_1'', ap_Status = ''pending'',
     ap_ActionClass = ''write'', ap_ToolName = ''cancel_query'', ap_AgentName = ''db'',
     ap_ResourceType = ''database'', ap_ResourceName = ''orders'', ap_RequestedBy = ''alice'',
     ap_RequestedAt = 10, ap_RequestContext = ''null'', ap_ResolvedBy = [], ap_ResolvedAt = 0,
     ap_ResolutionReason = [], ap_ExpiresAt = 0, ap_ApprovalValidUntil = 0, ap_PolicyName = [],
     ap_ApproverRole = [], ap_CallbackURL = [], ap_CallbackSentAt = 0, ap_CreatedAt = 10, ap_UpdatedAt = 10\<rparr>"

definition sample_store :: approval_store where
  "sample_store = snd (CreateRequest None ''x'' 10 sample_approval (NewApprovalStore []))"

lemma sample_store_step: "approval_step (NewApprovalStore []) sample_store"
  unfolding sample_store_def by (rule step_create) (simp add: sample_approval_def)

lemma sample_store_rows: "sample_store = NewApprovalStore [sample_approval]"
  by (simp add: sample_store_def CreateRequest_def NewApprovalStore_def sample_approval_def Let_def)

theorem approval_store_invariant_witness: "store_ok (snd (Approve None None 20 ''apr_1'' ''bob'' [] 0 sample_store))"
proof -
  have "approval_step\<^sup>*\<^sup>* (NewApprovalStore []) sample_store"
    by (rule r_into_rtranclp) (rule sample_store_step)
  then have "approval_step\<^sup>*\<^sup>* (NewApprovalStore []) (snd (Approve None None 20 ''apr_1'' ''bob'' [] 0 sample_store))"
    by (rule rtranclp.rtrancl_into_rtrancl) (rule step_approve)
  then show ?thesis by (rule approval_store_invariant)
qed

text \<open>C15: a resolution is final. Once a request is approved, denied, expired or cancelled, its
  status, resolver, time, reason and validity never change again, whatever the store does next.\<close>

theorem resolution_is_final:
  assumes "approval_step\<^sup>*\<^sup>* st st'" and "r \<in> set (st_rows st)" and "ap_Status r \<noteq> ''pending''"
  shows "\<exists>r' \<in> set (st_rows st'). ap_ApprovalID r' = ap_ApprovalID r \<and> resolution r' = resolution r"
  using assms(1)
proof (induction rule: rtranclp_induct)
  case base
  with assms(2) show ?case by blast
next
  case (step y z)
  then obtain r' where r': "r' \<in> set (st_rows y)" "ap_ApprovalID r' = ap_ApprovalID r" "resolution r' = resolution r"
    by blast
  then have "ap_Status r' \<noteq> ''pending''"
    using assms(3) by (simp add: resolution_def)
  then show ?case
    using rows_evolve_final [OF approval_step_rows [OF step.hyps(2)] r'(1)] r' by auto
qed

theorem resolution_is_final_witness:
  "\<exists>r' \<in> set (st_rows (snd (Deny None None 30 ''apr_1'' ''eve'' [] (NewApprovalStore [approve_row 20 ''bob'' [] 0 sample_approval])))).
     ap_ApprovalID r' = ''apr_1'' \<and> ap_Status r' = ''approved''"
proof -
  let ?r = "approve_row 20 ''bob'' [] 0 sample_approval"
  let ?st = "NewApprovalStore [?r]"
  have "approval_step\<^sup>*\<^sup>* ?st (snd (Deny None None 30 ''apr_1'' ''eve'' [] ?st))"
    by (rule r_into_rtranclp) (rule step_deny)
  from resolution_is_final [OF this, of ?r] show ?thesis
    by (auto simp: NewApprovalStore_def approve_row_def sample_approval_def resolution_def)
qed

text \<open>a stored request is resolved at most once. In any sequence of approvals, denials and
  cancellations, with any failures, the successful ones concern pairwise different requests that
  were pending, and exactly those stop being pending.\<close>

theorem store_resolves_once:
  "distinct (fst (resolve_all store_resolve xs st)) \<and>
   set (fst (resolve_all store_resolve xs st)) \<subseteq> {k. store_is_pending st k} \<and>
   {k. store_is_pending (snd (resolve_all store_resolve xs st)) k} =
     {k. store_is_pending st k} - set (fst (resolve_all store_resolve xs st))"
  using requests.resolve_all_spec [of xs st] by auto

text \<open>a waiter that is registered while its request is pending is woken. When the request is
  then approved, the registered channel holds the approved row, and the end of the wait returns it;
  denials and cancellations deliver theirs in the same way.\<close>

theorem waiter_notified:
  assumes "store_ok st" "store_is_pending st i" "ch \<in> set (st_waiters st i)" "st_inbox st ch = None"
  shows "\<exists>r \<in> set (st_rows st). is_pending_row i r \<and>
      fst (wait_end None i ch (snd (Approve None None now i who why d st))) = Some (Inr (approve_row now who why d r)) \<and>
      fst (wait_end None i ch (snd (Deny None None now i who why st))) = Some (Inr (close_row ''denied'' now who why r)) \<and>
      fst (wait_end None i ch (snd (Cancel None None now i who why st))) = Some (Inr (close_row ''cancelled'' now who why r))"
proof -
  have d: "distinct (map ap_ApprovalID (st_rows st))"
    using assms(1) by (simp add: store_ok_def)
  obtain r where r: "r \<in> set (st_rows st)" "is_pending_row i r"
    using assms(2) by (auto simp: store_is_pending_def list_ex_iff)
  have wake: "fst (wait_end None i ch (snd (resolve_row None None i upd st))) = Some (Inr (upd r))"
    if keeps: "\<And>r. ap_ApprovalID (upd r) = ap_ApprovalID r" for upd
  proof -
    obtain r' where r': "r' \<in> set (st_rows st)" "is_pending_row i r'"
        "st_inbox (snd (resolve_row None None i upd st)) ch = Some (upd r')"
      using resolve_row_notifies [OF d assms(2-4) keeps] by blast
    have "r' = r"
      using d r r' by (auto simp: distinct_map is_pending_row_def dest: inj_onD)
    with r'(3) show ?thesis by (simp add: wait_end_def Let_def)
  qed
  show ?thesis
    using r unfolding Approve_def Deny_def Cancel_def
    by (intro bexI [of _ r] conjI wake) (simp_all add: approve_row_def close_row_def)
qed

lemma sample_store_simps:
  "store_ok sample_store" "store_is_pending sample_store ''apr_1''"
  by (simp_all add: sample_store_rows NewApprovalStore_def store_ok_def row_ok_def statuses_def
      sample_approval_def store_is_pending_def is_pending_row_def)

theorem waiter_notified_witness:
  "\<exists>r. fst (wait_end None ''apr_1'' 0 (snd (Approve None None 20 ''apr_1'' ''bob'' [] 0
     (wait_register ''apr_1'' 0 sample_store)))) = Some (Inr (approve_row 20 ''bob'' [] 0 r))"
proof -
  let ?st = "wait_register ''apr_1'' 0 sample_store"
  have "store_ok ?st" "store_is_pending ?st ''apr_1''" "0 \<in> set (st_waiters ?st ''apr_1'')"
      "st_inbox ?st 0 = None"
    using sample_store_simps
    by (simp_all add: wait_register_def store_ok_def store_is_pending_def sample_store_rows NewApprovalStore_def)
  from waiter_notified [OF this, of 20 "''bob''" "[]" 0] show ?thesis by blast
qed

text \<open>a wake-up can be lost. The wait checks the status and registers its channel in two steps;
  when the request is approved in between, nothing is ever sent to the channel, and no later
  approval, denial or cancellation of the request succeeds, so only the timeout ends the wait.\<close>

theorem lost_wakeup:
  "wait_check None ''apr_1'' sample_store = None \<and>
   (let st = wait_register ''apr_1'' 0 (snd (Approve None None 20 ''apr_1'' ''bob'' [] 0 sample_store)) in
      \<not> store_is_pending st ''apr_1'' \<and> st_inbox st 0 = None \<and>
      fst (wait_end None ''apr_1'' 0 st) = None \<and>
      ''apr_1'' \<notin> set (fst (resolve_all store_resolve xs st)))"
proof -
  let ?st = "wait_register ''apr_1'' 0 (snd (Approve None None 20 ''apr_1'' ''bob'' [] 0 sample_store))"
  have "\<not> store_is_pending ?st ''apr_1''" "st_inbox ?st 0 = None"
    by (simp_all add: wait_register_def Approve_def resolve_row_def sample_store_rows NewApprovalStore_def
        sample_approval_def is_pending_row_def approve_row_def notifyWaiters_def store_is_pending_def Let_def)
  moreover from this have "''apr_1'' \<notin> set (fst (resolve_all store_resolve xs ?st))"
    using requests.resolve_all_spec [of xs ?st] by blast
  ultimately show ?thesis
    by (simp add: wait_check_def GetRequest_def sample_store_rows NewApprovalStore_def sample_approval_def
        wait_end_def Let_def)
qed

text \<open>what an expiry run does. It marks expired exactly the pending requests whose expiry text is
  below the text of the current time; away from the current second these are exactly the ones whose
  expiry time has passed. It reports their number and changes no other row.\<close>

theorem expiry_exact:
  assumes "\<And>r. r \<in> set (st_rows st) \<Longrightarrow> year_of (ap_ExpiresAt r) < 10000" and "year_of now < 10000"
    and "\<And>r. r \<in> set (st_rows st) \<Longrightarrow> ap_ExpiresAt r div sec_ns \<noteq> now div sec_ns"
  shows "\<exists>n. fst (ExpireRequests None None q now st) = Inr n \<and>
     n = length (filter (\<lambda>r. ap_Status r = ''pending'' \<and> ap_ExpiresAt r \<noteq> 0 \<and> ap_ExpiresAt r < now) (st_rows st)) \<and>
     st_rows (snd (ExpireRequests None None q now st)) =
       map (\<lambda>r. if ap_Status r = ''pending'' \<and> ap_ExpiresAt r \<noteq> 0 \<and> ap_ExpiresAt r < now
                then expire_row now r else r) (st_rows st)"
proof -
  let ?P = "\<lambda>r. ap_Status r = ''pending'' \<and> ap_ExpiresAt r \<noteq> 0 \<and> ap_ExpiresAt r < now"
  have p: "expired_row now r = ?P r" if "r \<in> set (st_rows st)" for r
    using expired_row_iff [OF assms(1) [OF that] assms(2) assms(3) [OF that]] .
  have f: "filter (expired_row now) (st_rows st) = filter ?P (st_rows st)"
    using p by (intro filter_cong) auto
  have m: "map (\<lambda>r. if expired_row now r then expire_row now r else r) (st_rows st) =
      map (\<lambda>r. if ?P r then expire_row now r else r) (st_rows st)"
    using p by (intro map_cong) auto
  show ?thesis
  proof (cases "filter ?P (st_rows st) = []")
    case True
    then have "map (\<lambda>r. if ?P r then expire_row now r else r) (st_rows st) = st_rows st"
      by (intro map_idI) (auto simp: filter_empty_conv)
    with True f show ?thesis by (simp add: ExpireRequests_def expire_select_def Let_def)
  next
    case False
    with f m show ?thesis
      by (simp add: ExpireRequests_def expire_select_def expire_update_def Let_def)
  qed
qed

theorem expiry_exact_witness:
  "\<exists>n. fst (ExpireRequests None None None 7000000000 (NewApprovalStore [sample_approval\<lparr>ap_ExpiresAt := 5000000000\<rparr>])) = Inr n \<and>
     n = length (filter (\<lambda>r. ap_Status r = ''pending'' \<and> ap_ExpiresAt r \<noteq> 0 \<and> ap_ExpiresAt r < 7000000000)
       (st_rows (NewApprovalStore [sample_approval\<lparr>ap_ExpiresAt := 5000000000\<rparr>])))"
  using expiry_exact [of "NewApprovalStore [sample_approval\<lparr>ap_ExpiresAt := 5000000000\<rparr>]" 7000000000 None]
  by (auto simp: NewApprovalStore_def year_of_def day_of_def sec_ns_def)

text \<open>inside one second the comparison of the stored texts is wrong. A request that expired on a
  full second is not expired half a second later, and one that expires half a second later is
  expired on the full second.\<close>

theorem expiry_within_second:
  assumes "year_of t < 10000" "t mod sec_ns = 0" "0 < t" "year_of (t + 500000000) < 10000"
  shows "\<not> expired_row (t + 500000000) (sample_approval\<lparr>ap_ExpiresAt := t\<rparr>) \<and>
    expired_row t (sample_approval\<lparr>ap_ExpiresAt := t + 500000000\<rparr>)"
proof -
  have sec: "(t + 500000000) div sec_ns = t div sec_ns" and ns: "nsec_of (t + 500000000) = 500000000"
    using assms(2) by (auto simp: sec_ns_def nsec_of_def div_add1_eq mod_add_eq)
  have "fmt_fraction 500000000 = ''.5''"
    by (simp add: fmt_fraction_def digit_eval digits_numeral)
  then show ?thesis
    using assms(2,3) sec ns fmt_rfc3339nano_less [OF assms(1,4)] fmt_rfc3339nano_less [OF assms(4,1)]
    by (simp add: expired_row_def sample_approval_def nsec_of_def fmt_fraction_def)
qed

theorem expiry_within_second_witness:
  "\<not> expired_row (5000000000 + 500000000) (sample_approval\<lparr>ap_ExpiresAt := 5000000000\<rparr>) \<and>
    expired_row 5000000000 (sample_approval\<lparr>ap_ExpiresAt := 5000000000 + 500000000\<rparr>)"
  by (rule expiry_within_second) (simp_all add: year_of_def day_of_def sec_ns_def)

end
