(* ===== verification/Authz.thy ===== *)
theory Authz
  imports Identity Go_Sort
begin

text \<open>
  Authorization of HTTP requests, \<^verbatim>\<open>internal/authz\<close>: the permission check, the dynamic
  role check, the middleware that runs them after identity resolution, and the three permission
  tables. Errors keep the wrapped sentinel, which decides the HTTP status. A handler is a function
  of the principal the middleware stores in the request context.
\<close>

section \<open>Permissions\<close>

record permission =
  pe_AllowAnonymous :: bool
  pe_RequireRoles :: "string list"
  pe_AdminBypass :: bool
  pe_ServiceOnly :: bool

definition zero_permission :: permission where
  "zero_permission = \<lparr>pe_AllowAnonymous = False, pe_RequireRoles = [], pe_AdminBypass = False,
     pe_ServiceOnly = False\<rparr>"

definition anonymous :: permission where
  "anonymous = zero_permission\<lparr>pe_AllowAnonymous := True\<rparr>"

definition authenticated :: permission where
  "authenticated = zero_permission\<lparr>pe_AdminBypass := True\<rparr>"

definition service_only :: permission where
  "service_only = zero_permission\<lparr>pe_ServiceOnly := True, pe_AdminBypass := True\<rparr>"

definition roles :: "string list \<Rightarrow> permission" where
  "roles rs = zero_permission\<lparr>pe_RequireRoles := rs, pe_AdminBypass := True\<rparr>"

section \<open>The authorizer\<close>

record authorizer =
  az_permissions :: "(string \<times> permission) list"
  az_enforcing :: bool
  az_adminRole :: string

datatype auth_error = ErrUnauthorized string | ErrForbidden string

definition auth_Error :: "auth_error \<Rightarrow> string" where
  "auth_Error err = (case err of ErrUnauthorized m \<Rightarrow> ''authentication required: '' @ m
     | ErrForbidden m \<Rightarrow> ''forbidden: '' @ m)"

definition NewAuthorizer :: "(string \<times> permission) list \<Rightarrow> bool \<Rightarrow> authorizer" where
  "NewAuthorizer perms enforcing =
     \<lparr>az_permissions = perms, az_enforcing = enforcing, az_adminRole = ''admin''\<rparr>"

definition SetAdminRole :: "string \<Rightarrow> authorizer \<Rightarrow> authorizer" where
  "SetAdminRole role a = a\<lparr>az_adminRole := role\<rparr>"

definition Authorize :: "authorizer \<Rightarrow> string \<Rightarrow> principal \<Rightarrow> auth_error option" where
  "Authorize a pattern p =
     (if \<not> az_enforcing a then None
      else (case map_of (az_permissions a) pattern of
          None \<Rightarrow> (if IsAnonymous p then Some (ErrUnauthorized ''unknown route'') else None)
        | Some perm \<Rightarrow>
            (if pe_AllowAnonymous perm then None
             else if IsAnonymous p then Some (ErrUnauthorized ''this endpoint requires authentication'')
             else if pe_AdminBypass perm \<and> HasRole p (az_adminRole a) then None
             else if pe_ServiceOnly perm \<and> pr_Service p = []
             then Some (ErrForbidden ''endpoint restricted to service accounts'')
             else if pe_RequireRoles perm = [] then None
             else if list_ex (HasRole p) (pe_RequireRoles perm) then None
             else Some (ErrForbidden (''one of roles '' @ fmt_strs (pe_RequireRoles perm) @ '' required'')))))"

definition Require :: "authorizer \<Rightarrow> principal \<Rightarrow> string list \<Rightarrow> auth_error option" where
  "Require a p rs =
     (if \<not> az_enforcing a then None
      else if HasRole p (az_adminRole a) then None
      else if list_ex (HasRole p) rs then None
      else if rs = [] then Some (ErrForbidden ''no roles specified'')
      else Some (ErrForbidden (''one of roles '' @ fmt_strs rs @ '' required'')))"

text \<open>The permission table inverted; \<^verbatim>\<open>sort.Strings\<close> on strings has one result.\<close>

definition grants_append :: "string \<Rightarrow> string \<Rightarrow> (string \<times> string list) list \<Rightarrow> (string \<times> string list) list" where
  "grants_append pattern role m =
     AList.update role ((case map_of m role of None \<Rightarrow> [] | Some xs \<Rightarrow> xs) @ [pattern]) m"

definition RoleGrants :: "authorizer \<Rightarrow> (string \<times> string list) list" where
  "RoleGrants a =
     (let result = foldl (\<lambda>m (pattern, perm). foldl (\<lambda>m role. grants_append pattern role m) m (pe_RequireRoles perm))
        [] (az_permissions a)
      in map (\<lambda>(role, ps). (role, insertionSort str_less ps)) result)"

text \<open>The principal in the request context; without the middleware it is the zero value.\<close>

definition PrincipalFromContext :: "principal option \<Rightarrow> principal" where
  "PrincipalFromContext ctx = (case ctx of Some p \<Rightarrow> p | None \<Rightarrow> zero_principal)"

section \<open>Middleware\<close>

datatype 'r http_result = HTTPError int string | Handled 'r

definition Middleware :: "authorizer \<Rightarrow> resolver \<Rightarrow> string \<Rightarrow> (principal \<Rightarrow> 'r) \<Rightarrow> headers \<Rightarrow> 'r http_result" where
  "Middleware a resolve pattern handler h =
     (let p = (case resolve h of
          Inl err \<Rightarrow> zero_principal\<lparr>pr_AuthMethod := ''header''\<rparr>
        | Inr q \<Rightarrow> q)
      in case Authorize a pattern p of
           Some err \<Rightarrow> HTTPError (case err of ErrUnauthorized _ \<Rightarrow> 401 | ErrForbidden _ \<Rightarrow> 403) (auth_Error err)
         | None \<Rightarrow> Handled (handler (PrincipalFromContext (Some p))))"

section \<open>Permission tables\<close>

definition DefaultAgentPermissions :: "(string \<times> permission) list" where
  "DefaultAgentPermissions = [
     (''POST /tool/{name}'', service_only)]"

definition DefaultGatewayPermissions :: "(string \<times> permission) list" where
  "DefaultGatewayPermissions = [
     (''GET /health'', anonymous),
     (''GET /metrics'', anonymous),
     (''GET /api/v1/agents'', anonymous),
     (''GET /api/v1/tools'', anonymous),
     (''GET /api/v1/tools/{toolName}'', anonymous),
     (''GET /api/v1/roles'', anonymous),
     (''POST /api/v1/query'', authenticated),
     (''POST /api/v1/incidents'', authenticated),
     (''GET /api/v1/incidents'', authenticated),
     (''GET /api/v1/incidents/{runID}'', authenticated),
     (''POST /api/v1/research'', authenticated),
     (''GET /api/v1/infrastructure'', authenticated),
     (''GET /api/v1/databases'', authenticated),
     (''POST /api/v1/admin/infra/register-db'', authenticated),
     (''GET /api/v1/governance'', authenticated),
     (''GET /api/v1/governance/policies'', authenticated),
     (''GET /api/v1/governance/explain'', authenticated),
     (''GET /api/v1/governance/events'', authenticated),
     (''GET /api/v1/governance/events/{eventID}'', authenticated),
     (''GET /api/v1/governance/approvals/pending'', authenticated),
     (''GET /api/v1/governance/approvals'', authenticated),
     (''GET /api/v1/governance/verify'', authenticated),
     (''GET /api/v1/governance/journeys'', authenticated),
     (''GET /api/v1/governance/govbot/runs'', authenticated),
     (''POST /api/v1/governance/approvals/{approvalID}/approve'', roles [''dba'', ''fleet-approver'']),
     (''POST /api/v1/governance/approvals/{approvalID}/deny'', roles [''dba'', ''fleet-approver'']),
     (''GET /api/v1/tool-results'', authenticated),
     (''GET /api/v1/decisions'', authenticated),
     (''GET /api/v1/decisions/{id}'', authenticated),
     (''POST /api/v1/decisions/{id}/resolve'', authenticated),
     (''POST /api/v1/webhooks/git'', anonymous),
     (''POST /api/v1/fleet/plan'', authenticated),
     (''POST /api/v1/fleet/snapshot'', authenticated),
     (''POST /api/v1/fleet/review'', authenticated),
     (''GET /api/v1/fleet/jobs'', authenticated),
     (''GET /api/v1/fleet/jobs/{jobID}'', authenticated),
     (''GET /api/v1/fleet/jobs/{jobID}/servers'', authenticated),
     (''GET /api/v1/fleet/jobs/{jobID}/servers/{serverName}'', authenticated),
     (''GET /api/v1/fleet/jobs/{jobID}/servers/{serverName}/steps'', authenticated),
     (''GET /api/v1/fleet/jobs/{jobID}/approval/{approvalID}'', authenticated),
     (''POST /api/v1/fleet/uploads'', authenticated),
     (''GET /api/v1/fleet/uploads/{uploadID}'', authenticated),
     (''GET /api/v1/fleet/uploads/{uploadID}/content'', authenticated),
     (''GET /api/v1/fleet/playbooks'', authenticated),
     (''GET /api/v1/fleet/playbooks/{playbookID}'', authenticated),
     (''POST /api/v1/fleet/playbooks'', authenticated),
     (''PUT /api/v1/fleet/playbooks/{playbookID}'', authenticated),
     (''DELETE /api/v1/fleet/playbooks/{playbookID}'', authenticated),
     (''POST /api/v1/fleet/playbooks/from-trace'', authenticated),
     (''POST /api/v1/fleet/playbooks/import'', authenticated),
     (''POST /api/v1/fleet/playbooks/{playbookID}/activate'', authenticated),
     (''POST /api/v1/fleet/playbooks/{playbookID}/run'', authenticated),
     (''GET /api/v1/fleet/playbooks/{playbookID}/runs'', authenticated),
     (''GET /api/v1/fleet/playbooks/{playbookID}/stats'', authenticated),
     (''GET /api/v1/fleet/playbook-runs'', authenticated),
     (''PATCH /api/v1/fleet/playbook-runs/{runID}'', authenticated),
     (''GET /api/v1/fleet/playbook-runs/{runID}'', authenticated),
     (''GET /api/v1/fleet/playbook-runs/{runID}/steps'', authenticated),
     (''GET /api/v1/fleet/playbook-runs/{runID}/pending-step'', authenticated),
     (''GET /api/v1/fleet/playbook-runs/{runID}/events'', authenticated),
     (''GET /api/v1/fleet/playbook-runs/{runID}/feedback'', authenticated),
     (''POST /api/v1/fleet/playbook-runs/{runID}/feedback'', authenticated),
     (''POST /api/v1/fleet/playbook-runs/{runID}/request-feedback'', authenticated),
     (''GET /api/v1/fleet/playbook-runs/{runID}/evaluation'', authenticated),
     (''POST /api/v1/fleet/playbook-runs/{runID}/evaluation'', authenticated),
     (''POST /api/v1/fleet/playbook-runs/{runID}/proceed'', authenticated),
     (''POST /api/v1/fleet/playbook-runs/{runID}/proceed-escalation'', authenticated),
     (''GET /api/v1/fleet/series/{seriesID}/version-stats'', authenticated),
     (''GET /api/v1/fleet/calibration'', authenticated),
     (''GET /api/v1/fleet/fault-run-history'', authenticated),
     (''POST /api/v1/db/{tool}'', roles [''dba'', ''sre'', ''oncall'', ''sre-automation'']),
     (''POST /api/v1/k8s/{tool}'', roles [''sre'', ''k8s-admin'', ''oncall'', ''sre-automation'']),
     (''POST /api/v1/fleet/jobs'', roles [''fleet-operator''])]"

definition DefaultAuditdPermissions :: "(string \<times> permission) list" where
  "DefaultAuditdPermissions = [
     (''GET /health'', anonymous),
     (''GET /v1/events'', authenticated),
     (''GET /v1/events/{eventID}'', authenticated),
     (''GET /v1/verify'', authenticated),
     (''GET /v1/journeys'', authenticated),
     (''GET /v1/approvals'', authenticated),
     (''GET /v1/approvals/pending'', authenticated),
     (''GET /v1/approvals/{approvalID}'', authenticated),
     (''GET /v1/approvals/{approvalID}/wait'', authenticated),
     (''GET /v1/governance/info'', anonymous),
     (''GET /v1/governance/policies'', authenticated),
     (''GET /v1/governance/explain'', authenticated),
     (''GET /v1/govbot/runs'', authenticated),
     (''GET /v1/fleet/jobs'', authenticated),
     (''GET /v1/fleet/jobs/{jobID}'', authenticated),
     (''GET /v1/fleet/jobs/{jobID}/servers'', authenticated),
     (''GET /v1/fleet/jobs/{jobID}/servers/{serverName}'', authenticated),
     (''GET /v1/fleet/jobs/{jobID}/servers/{serverName}/steps'', authenticated),
     (''GET /v1/fleet/jobs/{jobID}/approval/{approvalID}'', authenticated),
     (''GET /v1/fleet/playbooks'', authenticated),
     (''GET /v1/fleet/playbooks/{playbookID}'', authenticated),
     (''POST /v1/events'', service_only),
     (''POST /v1/events/{eventID}/outcome'', service_only),
     (''POST /v1/approvals'', service_only),
     (''POST /v1/governance/check'', service_only),
     (''POST /v1/govbot/runs'', service_only),
     (''POST /v1/fleet/playbooks'', authenticated),
     (''PUT /v1/fleet/playbooks/{playbookID}'', authenticated),
     (''DELETE /v1/fleet/playbooks/{playbookID}'', authenticated),
     (''POST /v1/fleet/playbooks/{playbookID}/activate'', authenticated),
     (''POST /v1/fleet/playbooks/{playbookID}/runs'', service_only),
     (''GET /v1/fleet/playbooks/{playbookID}/runs'', authenticated),
     (''GET /v1/fleet/playbooks/{playbookID}/stats'', authenticated),
     (''PATCH /v1/fleet/playbook-runs/{runID}'', authenticated),
     (''GET /v1/fleet/playbook-runs/{runID}'', authenticated),
     (''POST /v1/uploads'', authenticated),
     (''GET /v1/uploads/{uploadID}'', authenticated),
     (''GET /v1/uploads/{uploadID}/content'', authenticated),
     (''POST /v1/tool-results'', service_only),
     (''GET /v1/tool-results'', authenticated),
     (''POST /v1/fleet/jobs'', service_only),
     (''PATCH /v1/fleet/jobs/{jobID}/status'', service_only),
     (''POST /v1/fleet/jobs/{jobID}/servers'', service_only),
     (''PATCH /v1/fleet/jobs/{jobID}/servers/{serverName}'', service_only),
     (''POST /v1/fleet/jobs/{jobID}/servers/{serverName}/steps'', service_only),
     (''PATCH /v1/fleet/jobs/{jobID}/servers/{serverName}/steps/{stepIndex}'', service_only),
     (''POST /v1/fleet/jobs/{jobID}/approval'', service_only),
     (''POST /v1/approvals/{approvalID}/approve'', roles [''dba'', ''fleet-approver'']),
     (''POST /v1/approvals/{approvalID}/deny'', roles [''dba'', ''fleet-approver'']),
     (''POST /v1/approvals/{approvalID}/cancel'', authenticated),
     (''GET /v1/rollbacks'', authenticated),
     (''GET /v1/rollbacks/{rollbackID}'', authenticated),
     (''POST /v1/events/{eventID}/rollback-plan'', authenticated),
     (''GET /v1/fleet/jobs/{jobID}/rollback'', authenticated),
     (''POST /v1/rollbacks'', roles [''operator'', ''admin'']),
     (''POST /v1/rollbacks/{rollbackID}/cancel'', roles [''operator'', ''admin'']),
     (''POST /v1/fleet/jobs/{jobID}/rollback'', roles [''operator'', ''fleet-approver'', ''admin''])]"

definition auditd_routes :: "string list" where
  "auditd_routes = [
     ''POST /v1/events'',
     ''POST /v1/events/{eventID}/outcome'',
     ''GET /v1/events'',
     ''GET /v1/verify'',
     ''POST /v1/approvals'',
     ''GET /v1/approvals'',
     ''GET /v1/approvals/pending'',
     ''GET /v1/approvals/{approvalID}'',
     ''GET /v1/approvals/{approvalID}/wait'',
     ''POST /v1/approvals/{approvalID}/approve'',
     ''POST /v1/approvals/{approvalID}/deny'',
     ''POST /v1/approvals/{approvalID}/cancel'',
     ''GET /v1/governance/info'',
     ''GET /v1/governance/policies'',
     ''GET /v1/governance/explain'',
     ''POST /v1/governance/check'',
     ''GET /v1/events/{eventID}'',
     ''GET /v1/journeys'',
     ''POST /v1/govbot/runs'',
     ''GET /v1/govbot/runs'',
     ''POST /v1/fleet/jobs'',
     ''GET /v1/fleet/jobs'',
     ''GET /v1/fleet/jobs/{jobID}'',
     ''PATCH /v1/fleet/jobs/{jobID}/status'',
     ''POST /v1/fleet/jobs/{jobID}/servers'',
     ''PATCH /v1/fleet/jobs/{jobID}/servers/{serverName}'',
     ''GET /v1/fleet/jobs/{jobID}/servers'',
     ''GET /v1/fleet/jobs/{jobID}/servers/{serverName}'',
     ''POST /v1/fleet/jobs/{jobID}/servers/{serverName}/steps'',
     ''PATCH /v1/fleet/jobs/{jobID}/servers/{serverName}/steps/{stepIndex}'',
     ''GET /v1/fleet/jobs/{jobID}/servers/{serverName}/steps'',
     ''POST /v1/fleet/playbooks'',
     ''GET /v1/fleet/playbooks'',
     ''GET /v1/fleet/playbooks/{playbookID}'',
     ''PUT /v1/fleet/playbooks/{playbookID}'',
     ''DELETE /v1/fleet/playbooks/{playbookID}'',
     ''POST /v1/fleet/playbooks/{playbookID}/activate'',
     ''POST /v1/fleet/playbooks/{playbookID}/judge-verdict'',
     ''POST /v1/fleet/playbooks/{playbookID}/runs'',
     ''PATCH /v1/fleet/playbook-runs/{runID}'',
     ''GET /v1/fleet/playbooks/{playbookID}/runs'',
     ''GET /v1/fleet/playbooks/{playbookID}/stats'',
     ''GET /v1/fleet/playbook-runs/{runID}'',
     ''GET /v1/fleet/playbook-runs'',
     ''GET /v1/fleet/playbook-runs/feedback-pending'',
     ''POST /v1/fleet/playbook-runs/{runID}/feedback'',
     ''GET /v1/fleet/playbook-runs/{runID}/feedback'',
     ''POST /v1/fleet/playbook-runs/{runID}/evaluation'',
     ''GET /v1/fleet/playbook-runs/{runID}/evaluation'',
     ''GET /v1/fleet/series/{seriesID}/version-stats'',
     ''GET /v1/fleet/calibration'',
     ''GET /v1/fleet/fault-run-history'',
     ''POST /v1/fleet/fault-stability'',
     ''GET /v1/fleet/fault-stability'',
     ''GET /v1/fleet/fault-stability/{faultID}'',
     ''POST /v1/fleet/playbook-runs/{runID}/steps'',
     ''PATCH /v1/fleet/playbook-runs/{runID}/steps/{stepIndex}'',
     ''GET /v1/fleet/playbook-runs/{runID}/steps'',
     ''GET /v1/fleet/playbook-runs/{runID}/pending-step'',
     ''POST /v1/approval/sessions'',
     ''GET /v1/approval/sessions/{sessionID}'',
     ''DELETE /v1/approval/sessions/{sessionID}'',
     ''POST /v1/uploads'',
     ''GET /v1/uploads/{uploadID}'',
     ''GET /v1/uploads/{uploadID}/content'',
     ''POST /v1/tool-results'',
     ''GET /v1/tool-results'',
     ''POST /v1/fleet/jobs/{jobID}/approval'',
     ''GET /v1/fleet/jobs/{jobID}/approval/{approvalID}'',
     ''POST /v1/rollbacks'',
     ''GET /v1/rollbacks'',
     ''GET /v1/rollbacks/{rollbackID}'',
     ''POST /v1/rollbacks/{rollbackID}/cancel'',
     ''POST /v1/events/{eventID}/rollback-plan'',
     ''POST /v1/fleet/jobs/{jobID}/rollback'',
     ''GET /v1/fleet/jobs/{jobID}/rollback'',
     ''GET /health'']"

section \<open>Specification\<close>

definition may_access :: "string \<Rightarrow> permission \<Rightarrow> principal \<Rightarrow> bool" where
  "may_access admin perm p \<longleftrightarrow> pe_AllowAnonymous perm \<or> (\<not> IsAnonymous p \<and>
     ((pe_AdminBypass perm \<and> HasRole p admin) \<or>
      ((pe_ServiceOnly perm \<longrightarrow> pr_Service p \<noteq> []) \<and>
       (pe_RequireRoles perm = [] \<or> (\<exists>r \<in> set (pe_RequireRoles perm). HasRole p r)))))"

lemmas permission_defs = anonymous_def authenticated_def service_only_def roles_def zero_permission_def

section \<open>Facts\<close>

lemma Authorize_known:
  "az_enforcing a \<Longrightarrow> map_of (az_permissions a) pat = Some perm \<Longrightarrow>
   Authorize a pat p = None \<longleftrightarrow> may_access (az_adminRole a) perm p"
  by (auto simp: Authorize_def may_access_def list_ex_iff)

lemma Authorize_anonymous:
  "az_enforcing a \<Longrightarrow> IsAnonymous p \<Longrightarrow> Authorize a pat p = None \<longleftrightarrow>
     (\<exists>perm. map_of (az_permissions a) pat = Some perm \<and> pe_AllowAnonymous perm)"
  by (auto simp: Authorize_def split: option.splits)

lemma Authorize_protected:
  "az_enforcing a \<Longrightarrow> Authorize a pat p = None \<Longrightarrow>
   (\<And>perm. map_of (az_permissions a) pat = Some perm \<Longrightarrow> \<not> pe_AllowAnonymous perm) \<Longrightarrow> \<not> IsAnonymous p"
  using Authorize_anonymous by blast

lemma Require_iff:
  "az_enforcing a \<Longrightarrow> Require a p rs = None \<longleftrightarrow> HasRole p (az_adminRole a) \<or> (\<exists>r \<in> set rs. HasRole p r)"
  by (auto simp: Require_def list_ex_iff)

lemma Middleware_Handled:
  "Middleware a resolve pat f h = Handled r \<longleftrightarrow> (\<exists>p. Authorize a pat p = None \<and> r = f p \<and>
     (resolve h = Inr p \<or> (\<exists>e. resolve h = Inl e) \<and> p = zero_principal\<lparr>pr_AuthMethod := ''header''\<rparr>))"
  by (auto simp: Middleware_def Let_def PrincipalFromContext_def split: sum.splits option.splits)

context provider
begin

text \<open>Behind the middleware of an enforcing authorizer, a handler of a protected route runs only
  for a principal the provider resolved from a checked credential.\<close>

lemma protected_handler:
  assumes "az_enforcing a" "Middleware a resolve pat f h = Handled r"
    and "\<And>perm. map_of (az_permissions a) pat = Some perm \<Longrightarrow> \<not> pe_AllowAnonymous perm"
  shows "\<exists>p. resolve h = Inr p \<and> r = f p \<and> \<not> IsAnonymous p \<and> Authorize a pat p = None"
proof -
  obtain p where p: "Authorize a pat p = None" "r = f p"
      "resolve h = Inr p \<or> p = zero_principal\<lparr>pr_AuthMethod := ''header''\<rparr>"
    using assms(2) by (auto simp: Middleware_Handled)
  moreover have "\<not> IsAnonymous p"
    using Authorize_protected [OF assms(1) p(1) assms(3)] .
  ultimately show ?thesis
    by (auto simp: IsAnonymous_def)
qed

lemma role_route:
  assumes "az_enforcing a" "Middleware a resolve pat f h = Handled r"
    and "map_of (az_permissions a) pat = Some (roles rs)" "rs \<noteq> []"
  shows "\<exists>p. resolve h = Inr p \<and> r = f p \<and> \<not> IsAnonymous p \<and>
    (HasRole p (az_adminRole a) \<or> (\<exists>x \<in> set rs. HasRole p x))"
  using protected_handler [OF assms(1,2)] assms
  by (auto simp: Authorize_known may_access_def permission_defs)

end

lemma map_of_filter: "map_of T k = Some v \<Longrightarrow> Q v \<Longrightarrow> k \<in> set (map fst (filter (\<lambda>x. Q (snd x)) T))"
  by (induction T) (auto split: if_splits)

lemma public_patterns:
  assumes "map fst (filter (\<lambda>x. pe_AllowAnonymous (snd x)) T) = pubs"
    and "list_all (\<lambda>k. \<exists>v. map_of T k = Some v \<and> pe_AllowAnonymous v) pubs" and "IsAnonymous p"
  shows "Authorize (NewAuthorizer T True) pat p = None \<longleftrightarrow> pat \<in> set pubs"
  using assms map_of_filter [of T pat _ pe_AllowAnonymous]
  by (auto simp: Authorize_anonymous NewAuthorizer_def list_all_iff)

section \<open>Properties\<close>

text \<open>the permission check decides as its table says. In enforcing mode a listed route is
  granted exactly when it is public, or the caller is authenticated and is an admin on a route with
  the bypass, or satisfies both the service-account restriction and the role list; a refusal is 401
  for anonymous callers and 403 for all others. Unlisted routes refuse anonymous callers only.\<close>

theorem Authorize_decides:
  "(Authorize a pat p = None \<longleftrightarrow> (az_enforcing a \<longrightarrow> (case map_of (az_permissions a) pat of
      None \<Rightarrow> \<not> IsAnonymous p | Some perm \<Rightarrow> may_access (az_adminRole a) perm p))) \<and>
   (\<forall>err. Authorize a pat p = Some err \<longrightarrow> (IsAnonymous p \<longleftrightarrow> (\<exists>m. err = ErrUnauthorized m)))"
  by (auto simp: Authorize_def may_access_def list_ex_iff split: option.splits)

theorem Authorize_decides_witness:
  "let a = NewAuthorizer DefaultAuditdPermissions True;
       p = zero_principal\<lparr>pr_UserID := ''bob'', pr_AuthMethod := ''static''\<rparr> in
   (Authorize a ''POST /v1/events'' p = None \<longleftrightarrow> may_access ''admin'' service_only p) \<and>
   \<not> may_access ''admin'' service_only p"
  using Authorize_decides [of "NewAuthorizer DefaultAuditdPermissions True" "''POST /v1/events''"
      "zero_principal\<lparr>pr_UserID := ''bob'', pr_AuthMethod := ''static''\<rparr>"]
  by (simp add: NewAuthorizer_def DefaultAuditdPermissions_def may_access_def permission_defs
      zero_principal_def HasRole_def)

text \<open>the routes of auditd that an anonymous caller reaches, over all route patterns, are the
  health check and the governance summary.\<close>

theorem auditd_public_routes:
  assumes "IsAnonymous p"
  shows "Authorize (NewAuthorizer DefaultAuditdPermissions True) pat p = None \<longleftrightarrow>
     pat \<in> set [''GET /health'', ''GET /v1/governance/info'']"
  by (rule public_patterns [OF _ _ assms])
     (simp_all add: DefaultAuditdPermissions_def permission_defs)

theorem auditd_public_routes_witness:
  "Authorize (NewAuthorizer DefaultAuditdPermissions True) ''GET /v1/events''
     (zero_principal\<lparr>pr_AuthMethod := ''header''\<rparr>) \<noteq> None"
  using auditd_public_routes [of "zero_principal\<lparr>pr_AuthMethod := ''header''\<rparr>" "''GET /v1/events''"]
  by (simp add: IsAnonymous_def)

definition session_routes :: "string list" where
  "session_routes = [''POST /v1/approval/sessions'', ''DELETE /v1/approval/sessions/{sessionID}'']"

lemma session_routes_registered: "list_all (List.member auditd_routes) session_routes"
  by (simp add: session_routes_def auditd_routes_def)

lemma session_routes_missing: "list_all (\<lambda>r. map_of DefaultAuditdPermissions r = None) session_routes"
  by (simp add: session_routes_def DefaultAuditdPermissions_def)

text \<open>the routes that create and revoke approval sessions are registered by auditd and have no
  entry in its permission table. Their patterns go through the authorization wrapper, and the check
  lets every authenticated principal pass on them, whatever its roles and whether it is a service
  account or a person.\<close>

theorem auditd_unlisted_routes:
  assumes "r \<in> set session_routes"
  shows "r \<in> set auditd_routes \<and>
    (Authorize (NewAuthorizer DefaultAuditdPermissions True) r p = None \<longleftrightarrow> IsAnonymous p = False)"
  using assms session_routes_registered session_routes_missing
  by (auto simp: Authorize_def NewAuthorizer_def list_all_iff)

theorem auditd_unlisted_routes_witness:
  "Authorize (NewAuthorizer DefaultAuditdPermissions True) ''POST /v1/approval/sessions''
     (zero_principal\<lparr>pr_UserID := ''bob'', pr_AuthMethod := ''static''\<rparr>) = None"
  using auditd_unlisted_routes [of "''POST /v1/approval/sessions''"
      "zero_principal\<lparr>pr_UserID := ''bob'', pr_AuthMethod := ''static''\<rparr>"]
  by (simp add: session_routes_def IsAnonymous_def)

end
