(* ===== verification/Approval_Handlers.thy ===== *)
theory Approval_Handlers
  imports Approval_Store Authz
begin

text \<open>
  The HTTP handlers of \<^verbatim>\<open>cmd/auditd/approval_handlers.go\<close> and the one that creates
  approvals for fleet jobs (\<^verbatim>\<open>cmd/auditd/fleet_handlers.go\<close>), over the approval store, and the
  lookups the agents make through \<^verbatim>\<open>internal/audit/approval_client.go\<close>. A request body is
  the decoded structure or the failure of reading or decoding it; a response is its status with an
  error text or a value. \<open>ctx\<close> is the principal the authorization wrapper stored. Webhooks, mails
  and log lines of the handlers are left out: they do not touch the store.
\<close>

datatype 'b body = ReadError | BadJSON string | Body 'b

type_synonym 'v response = "int \<times> (string + 'v)"

section \<open>Creation\<close>

definition isFleetApproval :: "stored_approval \<Rightarrow> bool" where
  "isFleetApproval a \<longleftrightarrow> ap_AgentName a = ''fleet-runner'' \<or> ap_ResourceType a = ''fleet_job''"

record create_approval_request =
  cr_EventID :: string
  cr_TraceID :: string
  cr_ActionClass :: string
  cr_ToolName :: string
  cr_AgentName :: string
  cr_ResourceType :: string
  cr_ResourceName :: string
  cr_RequestedBy :: string
  cr_Context :: string
  cr_PolicyName :: string
  cr_ApproverRole :: string
  cr_ExpiresInMin :: int
  cr_CallbackURL :: string

definition zero_stored :: stored_approval where
  "zero_stored = \<lparr>ap_ApprovalID = [], ap_EventID = [], ap_TraceID = [], ap_Status = [],
     ap_ActionClass = [], ap_ToolName = [], ap_AgentName = [], ap_ResourceType = [], ap_ResourceName = [],
     ap_RequestedBy = [], ap_RequestedAt = 0, ap_RequestContext = [], ap_ResolvedBy = [], ap_ResolvedAt = 0,
     ap_ResolutionReason = [], ap_ExpiresAt = 0, ap_ApprovalValidUntil = 0, ap_PolicyName = [],
     ap_ApproverRole = [], ap_CallbackURL = [], ap_CallbackSentAt = 0, ap_CreatedAt = 0, ap_UpdatedAt = 0\<rparr>"

text \<open>The product of minutes and \<^verbatim>\<open>time.Minute\<close> is a 64-bit multiplication.\<close>

definition minutes :: "int \<Rightarrow> duration" where
  "minutes m = wrap64 (m * Minute)"

definition handleCreateApproval ::
  "string option \<Rightarrow> string \<Rightarrow> time \<Rightarrow> create_approval_request body \<Rightarrow> approval_store \<Rightarrow>
   stored_approval response \<times> approval_store" where
  "handleCreateApproval flt uid now b st = (case b of
     ReadError \<Rightarrow> ((400, Inl ''failed to read body''), st)
   | BadJSON e \<Rightarrow> ((400, Inl (''invalid JSON: '' @ e)), st)
   | Body req \<Rightarrow>
       (if cr_ActionClass req = [] then ((400, Inl ''action_class is required''), st)
        else if cr_RequestedBy req = [] then ((400, Inl ''requested_by is required''), st)
        else
          (let approval = zero_stored\<lparr>ap_EventID := cr_EventID req, ap_TraceID := cr_TraceID req,
                 ap_Status := ''pending'', ap_ActionClass := cr_ActionClass req, ap_ToolName := cr_ToolName req,
                 ap_AgentName := cr_AgentName req, ap_ResourceType := cr_ResourceType req,
                 ap_ResourceName := cr_ResourceName req, ap_RequestedBy := cr_RequestedBy req,
                 ap_RequestContext := cr_Context req, ap_PolicyName := cr_PolicyName req,
                 ap_ApproverRole := cr_ApproverRole req, ap_CallbackURL := cr_CallbackURL req,
                 ap_ExpiresAt := (if cr_ExpiresInMin req > 0 then time_add now (minutes (cr_ExpiresInMin req))
                   else time_add now (60 * Minute))\<rparr>
           in case CreateRequest flt uid now approval st of
                (Inl _, st') \<Rightarrow> ((500, Inl ''failed to create approval request''), st')
              | (Inr a, st') \<Rightarrow> ((201, Inr a), st'))))"

record job_approval_request =
  jr_ActionClass :: string
  jr_ResourceName :: string
  jr_RequestedBy :: string
  jr_Context :: string
  jr_ExpiresAt :: "time option"

text \<open>\<open>jr_ExpiresAt\<close> is the parsed expiry, absent when the field is empty or does not parse;
  \<open>configured\<close> says that the server has an approval store.\<close>

definition handleCreateJobApproval ::
  "bool \<Rightarrow> string option \<Rightarrow> string \<Rightarrow> time \<Rightarrow> string \<Rightarrow> job_approval_request body \<Rightarrow> approval_store \<Rightarrow>
   stored_approval response \<times> approval_store" where
  "handleCreateJobApproval configured flt uid now jobID b st =
     (if \<not> configured then ((503, Inl ''approval store not configured''), st)
      else if jobID = [] then ((400, Inl ''missing job ID''), st)
      else (case b of
        ReadError \<Rightarrow> ((400, Inl ''invalid JSON: ''), st)
      | BadJSON e \<Rightarrow> ((400, Inl (''invalid JSON: '' @ e)), st)
      | Body req \<Rightarrow>
          (if jr_ActionClass req = [] then ((400, Inl ''action_class is required''), st)
           else
             (let approval = zero_stored\<lparr>ap_ActionClass := jr_ActionClass req, ap_ResourceType := ''fleet_job'',
                    ap_ResourceName := jr_ResourceName req,
                    ap_RequestedBy := (if jr_RequestedBy req = [] then ''fleet-runner'' else jr_RequestedBy req),
                    ap_RequestContext := jr_Context req, ap_AgentName := ''fleet-runner'',
                    ap_ApproverRole := ''fleet-approver'', ap_TraceID := jobID,
                    ap_ExpiresAt := (case jr_ExpiresAt req of Some t \<Rightarrow> t | None \<Rightarrow> 0)\<rparr>
              in case CreateRequest flt uid now approval st of
                   (Inl _, st') \<Rightarrow> ((500, Inl ''failed to create approval request''), st')
                 | (Inr a, st') \<Rightarrow> ((201, Inr a), st')))))"

section \<open>Reading\<close>

definition handleGetApproval :: "string option \<Rightarrow> string \<Rightarrow> approval_store \<Rightarrow> stored_approval response" where
  "handleGetApproval flt approvalID st =
     (if approvalID = [] then (400, Inl ''missing approval ID'')
      else (case GetRequest flt approvalID st of
          Inl e \<Rightarrow> (404, Inl e)
        | Inr a \<Rightarrow> (200, Inr a)))"

text \<open>\<open>limit\<close> is the parsed query parameter, absent when it is missing or not a number.\<close>

definition handleListApprovals ::
  "row_sort \<Rightarrow> string option \<Rightarrow> (string \<Rightarrow> string) \<Rightarrow> int option \<Rightarrow> approval_store \<Rightarrow> stored_approval list response" where
  "handleListApprovals srt flt q limit st =
     (let opts = \<lparr>qo_Status = q ''status'', qo_AgentName = q ''agent'', qo_TraceID = q ''trace_id'',
            qo_RequestedBy = q ''requested_by'', qo_ToolName = q ''tool_name'', qo_Since = 0,
            qo_Limit = (case limit of Some l \<Rightarrow> if l > 0 then l else 100 | None \<Rightarrow> 100)\<rparr>
      in case ListRequests srt flt opts st of
           Inl _ \<Rightarrow> (500, Inl ''failed to list approvals'')
         | Inr xs \<Rightarrow> (200, Inr xs))"

definition handlePendingApprovals ::
  "row_sort \<Rightarrow> string option \<Rightarrow> approval_store \<Rightarrow> stored_approval list response" where
  "handlePendingApprovals srt flt st =
     (case ListRequests srt flt \<lparr>qo_Status = ''pending'', qo_AgentName = [], qo_TraceID = [], qo_RequestedBy = [],
          qo_ToolName = [], qo_Since = 0, qo_Limit = 100\<rparr> st of
        Inl _ \<Rightarrow> (500, Inl ''failed to list approvals'')
      | Inr xs \<Rightarrow> (200, Inr xs))"

section \<open>Resolution\<close>

record approve_request =
  ab_ApprovedBy :: string
  ab_Reason :: string
  ab_ValidForMin :: int

record deny_request =
  db_DeniedBy :: string
  db_Reason :: string

definition required_role :: "stored_approval \<Rightarrow> string" where
  "required_role a = (if isFleetApproval a then ''fleet-approver'' else ''dba'')"

text \<open>The updated row of the response is read again; a failure of that read answers with null.\<close>

definition reread :: "string option \<Rightarrow> string \<Rightarrow> approval_store \<Rightarrow> stored_approval option response" where
  "reread rflt approvalID st = (200, Inr (case GetRequest rflt approvalID st of Inl _ \<Rightarrow> None | Inr a \<Rightarrow> Some a))"

record handler_faults =
  hf_get :: "string option"
  hf_update :: "string option"
  hf_notify :: "string option"
  hf_reread :: "string option"

definition no_faults :: handler_faults where
  "no_faults = \<lparr>hf_get = None, hf_update = None, hf_notify = None, hf_reread = None\<rparr>"

definition handleApprove ::
  "handler_faults \<Rightarrow> authorizer \<Rightarrow> time \<Rightarrow> principal option \<Rightarrow> string \<Rightarrow> approve_request body \<Rightarrow> approval_store \<Rightarrow>
   stored_approval option response \<times> approval_store" where
  "handleApprove hf az now ctx approvalID b st =
     (if approvalID = [] then ((400, Inl ''missing approval ID''), st)
      else (case b of
        ReadError \<Rightarrow> ((400, Inl ''failed to read body''), st)
      | BadJSON e \<Rightarrow> ((400, Inl (''invalid JSON: '' @ e)), st)
      | Body req \<Rightarrow>
          (case GetRequest (hf_get hf) approvalID st of
             Inl _ \<Rightarrow> ((404, Inl ''approval not found''), st)
           | Inr existing \<Rightarrow>
               (let p = PrincipalFromContext ctx;
                    grant = (\<lambda>who.
                      let validFor = (if ab_ValidForMin req > 0 then minutes (ab_ValidForMin req) else 0) in
                      case Approve (hf_update hf) (hf_notify hf) now approvalID who (ab_Reason req) validFor st of
                        (Inl e, st') \<Rightarrow> ((400, Inl e), st')
                      | (Inr _, st') \<Rightarrow> (reread (hf_reread hf) approvalID st', st'))
                in if \<not> IsAnonymous p then
                     (case Require az p [required_role existing] of
                        Some e \<Rightarrow> ((403, Inl (auth_Error e)), st)
                      | None \<Rightarrow>
                          (if EffectiveID p = ap_RequestedBy existing then
                             ((403, Inl ''four-eyes constraint: approver and requester must be different people''), st)
                           else grant (EffectiveID p)))
                   else if ab_ApprovedBy req = [] then ((400, Inl ''approved_by is required''), st)
                   else grant (ab_ApprovedBy req)))))"

definition handleDeny ::
  "handler_faults \<Rightarrow> authorizer \<Rightarrow> time \<Rightarrow> principal option \<Rightarrow> string \<Rightarrow> deny_request body \<Rightarrow> approval_store \<Rightarrow>
   stored_approval option response \<times> approval_store" where
  "handleDeny hf az now ctx approvalID b st =
     (if approvalID = [] then ((400, Inl ''missing approval ID''), st)
      else (case b of
        ReadError \<Rightarrow> ((400, Inl ''failed to read body''), st)
      | BadJSON e \<Rightarrow> ((400, Inl (''invalid JSON: '' @ e)), st)
      | Body req \<Rightarrow>
          (case GetRequest (hf_get hf) approvalID st of
             Inl _ \<Rightarrow> ((404, Inl ''approval not found''), st)
           | Inr existing \<Rightarrow>
               (let p = PrincipalFromContext ctx;
                    refuse = (\<lambda>who.
                      case Deny (hf_update hf) (hf_notify hf) now approvalID who (db_Reason req) st of
                        (Inl e, st') \<Rightarrow> ((400, Inl e), st')
                      | (Inr _, st') \<Rightarrow> (reread (hf_reread hf) approvalID st', st'))
                in if \<not> IsAnonymous p then
                     (case Require az p [required_role existing] of
                        Some e \<Rightarrow> ((403, Inl (auth_Error e)), st)
                      | None \<Rightarrow> refuse (EffectiveID p))
                   else if db_DeniedBy req = [] then ((400, Inl ''denied_by is required''), st)
                   else refuse (db_DeniedBy req)))))"

text \<open>An empty body is accepted and leaves both fields empty; the principal is not consulted.\<close>

definition handleCancel ::
  "handler_faults \<Rightarrow> time \<Rightarrow> principal option \<Rightarrow> string \<Rightarrow> (string \<times> string) body option \<Rightarrow> approval_store \<Rightarrow>
   string response \<times> approval_store" where
  "handleCancel hf now ctx approvalID b st =
     (if approvalID = [] then ((400, Inl ''missing approval ID''), st)
      else (case b of
        Some ReadError \<Rightarrow> ((400, Inl ''failed to read body''), st)
      | Some (BadJSON e) \<Rightarrow> ((400, Inl (''invalid JSON: '' @ e)), st)
      | _ \<Rightarrow>
          (let (who, reason) = (case b of Some (Body x) \<Rightarrow> x | _ \<Rightarrow> ([], []));
               who = (if who = [] then ''system'' else who)
           in case Cancel (hf_update hf) (hf_notify hf) now approvalID who reason st of
                (Inl e, st') \<Rightarrow> ((400, Inl e), st')
              | (Inr _, st') \<Rightarrow> ((200, Inr ''cancelled''), st'))))"

text \<open>The timeout of a long poll: 30 seconds, or the parameter cut to 120 seconds.\<close>

definition wait_timeout :: "duration option \<Rightarrow> duration" where
  "wait_timeout v = (case v of None \<Rightarrow> 30 * Second
     | Some d \<Rightarrow> if d > 120 * Second then 120 * Second else d)"

section \<open>Lookups of the agents\<close>

definition client_list :: "row_sort \<Rightarrow> string \<Rightarrow> string \<Rightarrow> string \<Rightarrow> string \<Rightarrow> int \<Rightarrow> approval_store \<Rightarrow> string + stored_approval list" where
  "client_list srt status agent trace tool limit st =
     ListRequests srt None \<lparr>qo_Status = status, qo_AgentName = agent, qo_TraceID = trace, qo_RequestedBy = [],
       qo_ToolName = tool, qo_Since = 0, qo_Limit = (if limit > 0 then limit else 100)\<rparr> st"

definition CheckExistingApproval ::
  "row_sort \<Rightarrow> time \<Rightarrow> string \<Rightarrow> string \<Rightarrow> approval_store \<Rightarrow> string + stored_approval option" where
  "CheckExistingApproval srt now traceID toolName st =
     (if traceID = [] then Inr None
      else (case client_list srt ''approved'' [] traceID [] 10 st of
          Inl e \<Rightarrow> Inl e
        | Inr xs \<Rightarrow> Inr (find (\<lambda>a. \<not> (toolName \<noteq> [] \<and> ap_ToolName a \<noteq> toolName) \<and>
            \<not> (ap_ApprovalValidUntil a \<noteq> 0 \<and> ap_ApprovalValidUntil a < now)) xs)))"

definition FindApprovalByTool ::
  "row_sort \<Rightarrow> time \<Rightarrow> string \<Rightarrow> string \<Rightarrow> approval_store \<Rightarrow> string + stored_approval option" where
  "FindApprovalByTool srt now toolName agentName st =
     (case client_list srt ''approved'' agentName [] toolName 5 st of
        Inl e \<Rightarrow> Inl e
      | Inr approved \<Rightarrow>
          (case find (\<lambda>a. ap_ApprovalValidUntil a = 0 \<or> ap_ApprovalValidUntil a > now) approved of
             Some a \<Rightarrow> Inr (Some a)
           | None \<Rightarrow>
               (case client_list srt ''pending'' agentName [] toolName 1 st of
                  Inl e \<Rightarrow> Inl e
                | Inr [] \<Rightarrow> Inr None
                | Inr (a # _) \<Rightarrow> Inr (Some a))))"

section \<open>Facts\<close>

lemma GetRequest_Inr:
  "GetRequest flt i st = Inr r \<Longrightarrow> r \<in> set (st_rows st) \<and> ap_ApprovalID r = i"
  by (auto simp: GetRequest_def dest: find_Some_mem split: option.splits)

lemma unique_row:
  "store_ok st \<Longrightarrow> r \<in> set (st_rows st) \<Longrightarrow> r' \<in> set (st_rows st) \<Longrightarrow>
   ap_ApprovalID r = ap_ApprovalID r' \<Longrightarrow> r = r'"
  by (auto simp: store_ok_def distinct_map dest: inj_onD)

lemma resolve_row_Inr:
  assumes "store_ok st" "resolve_row flt q i upd st = (Inr u, st')"
    and "r \<in> set (st_rows st)" "ap_ApprovalID r = i"
  shows "is_pending_row i r \<and> st_rows st' = map (\<lambda>x. if x = r then upd x else x) (st_rows st)"
proof -
  have "flt = None" and ne: "filter (is_pending_row i) (st_rows st) \<noteq> []"
      and rows: "st_rows st' = map (\<lambda>x. if is_pending_row i x then upd x else x) (st_rows st)"
    using assms(2) by (auto simp: resolve_row_def split: option.splits if_splits)
  then obtain x where x: "x \<in> set (st_rows st)" "is_pending_row i x"
    by (auto simp: filter_empty_conv)
  then have "x = r"
    using unique_row [OF assms(1) x(1) assms(3)] assms(4) by (simp add: is_pending_row_def)
  with x have p: "is_pending_row i r" by simp
  have "is_pending_row i y \<longleftrightarrow> y = r" if "y \<in> set (st_rows st)" for y
    using unique_row [OF assms(1) that assms(3)] p by (auto simp: is_pending_row_def)
  then have "map (\<lambda>x. if is_pending_row i x then upd x else x) (st_rows st) =
      map (\<lambda>x. if x = r then upd x else x) (st_rows st)"
    by (intro map_cong) auto
  with p rows show ?thesis by simp
qed

lemma resolve_row_Inl: "resolve_row flt q i upd st = (Inl e, st') \<Longrightarrow> st' = st"
  by (auto simp: resolve_row_def split: option.splits if_splits)

lemma resolution_Inl:
  "Approve flt q now i who why d st = (Inl e, st') \<Longrightarrow> st' = st"
  "Deny flt q now i who why st = (Inl e, st') \<Longrightarrow> st' = st"
  "Cancel flt q now i who why st = (Inl e, st') \<Longrightarrow> st' = st"
  by (simp_all add: Approve_def Deny_def Cancel_def resolve_row_Inl)

definition keeps_unless_ok :: "('v response \<times> approval_store) \<Rightarrow> approval_store \<Rightarrow> bool" where
  "keeps_unless_ok y st \<longleftrightarrow> fst (fst y) = 200 \<or> snd y = st"

lemma keeps_unless_ok_simps [simp]:
  "keeps_unless_ok ((c, v), st) st" "keeps_unless_ok ((200, v), st') st" "keeps_unless_ok (reread q i st', st'') st"
  by (simp_all add: keeps_unless_ok_def reread_def)

lemma outcome_keeps:
  assumes "\<And>e st'. y = (Inl e, st') \<Longrightarrow> st' = st" "\<And>st'. fst (ok st') = 200"
  shows "keeps_unless_ok (case y of (Inl e, st') \<Rightarrow> ((400, Inl e), st') | (Inr u, st') \<Rightarrow> (ok st', st')) st"
  using assms by (auto simp: keeps_unless_ok_def split: prod.split sum.split)

lemma fst_reread [simp]: "fst (reread q i st) = 200"
  by (simp add: reread_def)

lemma handleApprove_keeps: "keeps_unless_ok (handleApprove hf az now ctx i b st) st"
  by (cases "GetRequest (hf_get hf) i st")
     (auto simp: handleApprove_def Let_def split: body.split option.split
       intro!: outcome_keeps dest: resolution_Inl(1))

lemma handleDeny_keeps: "keeps_unless_ok (handleDeny hf az now ctx i b st) st"
  by (cases "GetRequest (hf_get hf) i st")
     (auto simp: handleDeny_def Let_def split: body.split option.split
       intro!: outcome_keeps dest: resolution_Inl(2))

lemma handleCancel_keeps: "keeps_unless_ok (handleCancel hf now ctx i b st) st"
  by (auto simp: handleCancel_def Let_def split: body.split option.split prod.split_asm
       intro!: outcome_keeps dest: resolution_Inl(3))

lemma handleApprove_authenticated:
  assumes "\<not> IsAnonymous p" "handleApprove hf az now (Some p) i (Body req) st = ((200, x), st')"
  shows "\<exists>r. GetRequest (hf_get hf) i st = Inr r \<and> Require az p [required_role r] = None \<and>
    EffectiveID p \<noteq> ap_RequestedBy r \<and>
    Approve (hf_update hf) (hf_notify hf) now i (EffectiveID p) (ab_Reason req)
      (if ab_ValidForMin req > 0 then minutes (ab_ValidForMin req) else 0) st = (Inr (), st')"
  using assms
  by (auto simp: handleApprove_def PrincipalFromContext_def Let_def
      split: if_splits sum.splits option.splits prod.splits)

lemma handleApprove_approved:
  assumes "store_ok st" "az_enforcing az" "\<not> IsAnonymous p"
    and "handleApprove hf az now (Some p) i (Body req) st = ((200, x), st')"
  shows "\<exists>r \<in> set (st_rows st). is_pending_row i r \<and> EffectiveID p \<noteq> ap_RequestedBy r \<and>
     (HasRole p (az_adminRole az) \<or> HasRole p (required_role r)) \<and>
     st_rows st' = map (\<lambda>y. if y = r then approve_row now (EffectiveID p) (ab_Reason req)
       (if ab_ValidForMin req > 0 then minutes (ab_ValidForMin req) else 0) y else y) (st_rows st)"
proof -
  obtain r where r: "GetRequest (hf_get hf) i st = Inr r" "Require az p [required_role r] = None"
      "EffectiveID p \<noteq> ap_RequestedBy r"
      "Approve (hf_update hf) (hf_notify hf) now i (EffectiveID p) (ab_Reason req)
        (if ab_ValidForMin req > 0 then minutes (ab_ValidForMin req) else 0) st = (Inr (), st')"
    using handleApprove_authenticated [OF assms(3,4)] by blast
  have mem: "r \<in> set (st_rows st)" "ap_ApprovalID r = i"
    using GetRequest_Inr [OF r(1)] by simp_all
  from resolve_row_Inr [OF assms(1) r(4) [unfolded Approve_def] mem] r(2,3) mem show ?thesis
    using assms(2) by (auto simp: Require_iff)
qed

text \<open>The route of the handler, as \<^verbatim>\<open>cmd/auditd/main.go\<close> registers it behind the
  middleware of the server.\<close>

definition approve_route :: string where
  "approve_route = ''POST /v1/approvals/{approvalID}/approve''"

definition auditd_approve ::
  "resolver \<Rightarrow> bool \<Rightarrow> handler_faults \<Rightarrow> time \<Rightarrow> headers \<Rightarrow> string \<Rightarrow> approve_request body \<Rightarrow> approval_store \<Rightarrow>
   (stored_approval option response \<times> approval_store) http_result" where
  "auditd_approve resolve enforcing hf now h i b st =
     (let az = NewAuthorizer DefaultAuditdPermissions enforcing in
      Middleware az resolve approve_route (\<lambda>p. handleApprove hf az now (Some p) i b st) h)"

lemma approve_route_roles:
  "map_of DefaultAuditdPermissions approve_route = Some (roles [''dba'', ''fleet-approver''])"
  by (simp add: DefaultAuditdPermissions_def approve_route_def)

context provider
begin

lemma approved_over_http:
  assumes "store_ok st" "auditd_approve resolve True hf now h i (Body req) st = Handled ((200, x), st')"
  shows "\<exists>p. resolve h = Inr p \<and> \<not> IsAnonymous p \<and>
    (\<exists>r \<in> set (st_rows st). is_pending_row i r \<and> EffectiveID p \<noteq> ap_RequestedBy r \<and>
     (HasRole p ''admin'' \<or> HasRole p (required_role r)) \<and>
     st_rows st' = map (\<lambda>y. if y = r then approve_row now (EffectiveID p) (ab_Reason req)
       (if ab_ValidForMin req > 0 then minutes (ab_ValidForMin req) else 0) y else y) (st_rows st))"
proof -
  define az where "az = NewAuthorizer DefaultAuditdPermissions True"
  have az: "az_enforcing az" "az_adminRole az = ''admin''" "az_permissions az = DefaultAuditdPermissions"
    by (simp_all add: az_def NewAuthorizer_def)
  have m: "Middleware az resolve approve_route (\<lambda>p. handleApprove hf az now (Some p) i (Body req) st) h
      = Handled ((200, x), st')"
    using assms(2) by (simp add: auditd_approve_def az_def Let_def)
  obtain p where p: "resolve h = Inr p" "\<not> IsAnonymous p"
      "handleApprove hf az now (Some p) i (Body req) st = ((200, x), st')"
    using role_route [OF az(1) m, of "[''dba'', ''fleet-approver'']"] approve_route_roles az(3)
    by (metis list.distinct(1))
  from handleApprove_approved [OF assms(1) az(1) p(2,3)] p(1,2) az(2) show ?thesis
    by auto
qed

end

section \<open>Properties\<close>

text \<open>C2: the four-eyes rule, from the HTTP request to the stored row. When the enforcing server
  answers 200 to an approval, the provider of the users file has authenticated the caller, exactly
  one row changed, and that row was the pending request: it is now approved in the name of the
  caller, who is not the one that requested it and who holds the role for its kind of request, or the
  admin role. Neither a forged name in the body nor a header without a credential gets there.\<close>

theorem four_eyes:
  assumes "store_ok st" "auditd_approve (Static_Resolve idkey sp) True hf now h i (Body req) st = Handled ((200, x), st')"
  shows "\<exists>p. Static_Resolve idkey sp h = Inr p \<and> \<not> IsAnonymous p \<and>
    (\<exists>r \<in> set (st_rows st). is_pending_row i r \<and> EffectiveID p \<noteq> ap_RequestedBy r \<and>
     (HasRole p ''admin'' \<or> HasRole p (required_role r)) \<and>
     st_rows st' = map (\<lambda>y. if y = r then approve_row now (EffectiveID p) (ab_Reason req)
       (if ab_ValidForMin req > 0 then minutes (ab_ValidForMin req) else 0) y else y) (st_rows st))"
  using assms by (rule static_auth.approved_over_http)

definition sample_dba :: principal where
  "sample_dba = zero_principal\<lparr>pr_UserID := ''bob'', pr_Roles := [''dba''], pr_AuthMethod := ''static''\<rparr>"

definition sample_users :: static_provider where
  "sample_users = \<lparr>sp_users = [(''bob'', [''dba''])], sp_serviceAccounts = [], sp_aliases = []\<rparr>"

definition sample_header :: headers where
  "sample_header k = (if k = ''X-User'' then ''bob'' else [])"

definition sample_body :: "approve_request" where
  "sample_body = \<lparr>ab_ApprovedBy = [], ab_Reason = ''ok'', ab_ValidForMin = 0\<rparr>"

lemma sample_resolve: "Static_Resolve idkey sample_users sample_header = Inr sample_dba"
  by (simp add: Static_Resolve_def sample_users_def sample_header_def sample_dba_def expandRoles_def Let_def)

lemma sample_approve:
  "\<exists>x st'. handleApprove no_faults (NewAuthorizer T True) 20 (Some sample_dba) ''apr_1'' (Body sample_body) sample_store
     = ((200, x), st')"
  by (simp add: handleApprove_def sample_store_rows NewApprovalStore_def sample_approval_def sample_dba_def
      sample_body_def no_faults_def GetRequest_def PrincipalFromContext_def IsAnonymous_def Require_def
      NewAuthorizer_def HasRole_def required_role_def isFleetApproval_def EffectiveID_def zero_principal_def
      Approve_def resolve_row_def is_pending_row_def reread_def Let_def)

lemma sample_authorized: "Authorize (NewAuthorizer DefaultAuditdPermissions True) approve_route sample_dba = None"
  using approve_route_roles
  by (simp add: Authorize_def NewAuthorizer_def permission_defs sample_dba_def IsAnonymous_def HasRole_def
      zero_principal_def)

theorem four_eyes_witness:
  "\<exists>x st'. auditd_approve (Static_Resolve (\<lambda>_ _ _ _ _ _. []) sample_users) True no_faults 20 sample_header ''apr_1''
     (Body sample_body) sample_store = Handled ((200, x), st') \<and>
     (\<exists>r \<in> set (st_rows sample_store). EffectiveID sample_dba \<noteq> ap_RequestedBy r)"
proof -
  obtain x st' where "handleApprove no_faults (NewAuthorizer DefaultAuditdPermissions True) 20 (Some sample_dba)
      ''apr_1'' (Body sample_body) sample_store = ((200, x), st')"
    using sample_approve by blast
  then have h: "auditd_approve (Static_Resolve (\<lambda>_ _ _ _ _ _. []) sample_users) True no_faults 20 sample_header
      ''apr_1'' (Body sample_body) sample_store = Handled ((200, x), st')"
    by (simp add: auditd_approve_def Middleware_def sample_resolve sample_authorized PrincipalFromContext_def)
  from four_eyes [OF sample_store_simps(1) h] h sample_resolve show ?thesis by auto
qed

text \<open>a refused or failed resolution changes nothing. Whatever the caller, the body, the role
  check, the four-eyes rule or the database object to, an answer other than 200 leaves the store as
  it was, for approvals, denials and cancellations alike.\<close>

theorem refused_resolution_keeps_store:
  "(fst (fst (handleApprove hf az now ctx i b st)) \<noteq> 200 \<longrightarrow> snd (handleApprove hf az now ctx i b st) = st) \<and>
   (fst (fst (handleDeny hf az now ctx i d st)) \<noteq> 200 \<longrightarrow> snd (handleDeny hf az now ctx i d st) = st) \<and>
   (fst (fst (handleCancel hf now ctx i c st)) \<noteq> 200 \<longrightarrow> snd (handleCancel hf now ctx i c st) = st)"
  using handleApprove_keeps [of hf az now ctx i b st] handleDeny_keeps [of hf az now ctx i d st]
    handleCancel_keeps [of hf now ctx i c st]
  by (auto simp: keeps_unless_ok_def)

theorem refused_resolution_keeps_store_witness:
  "snd (handleApprove no_faults (NewAuthorizer [] True) 20 (Some (zero_principal\<lparr>pr_UserID := ''eve''\<rparr>)) ''apr_1''
     (Body sample_body) sample_store) = sample_store"
  using refused_resolution_keeps_store [of no_faults "NewAuthorizer [] True" 20
      "Some (zero_principal\<lparr>pr_UserID := ''eve''\<rparr>)" "''apr_1''" "Body sample_body" sample_store]
  by (auto simp: handleApprove_def sample_store_rows NewApprovalStore_def sample_approval_def
      sample_body_def no_faults_def GetRequest_def PrincipalFromContext_def IsAnonymous_def Require_def
      NewAuthorizer_def HasRole_def required_role_def isFleetApproval_def zero_principal_def Let_def)

text \<open>how long an approval lasts. Up to 153722867 minutes an approval is valid to the end of the
  minutes granted and no longer; from one minute more the 64-bit product is negative, no end is
  stored and the approval never expires.\<close>

theorem approval_period:
  assumes "0 < now" "0 < m" "m \<le> 307445734"
  shows "IsApprovalValid t (approve_row now who why (minutes m) r) \<longleftrightarrow>
    t \<le> now + nat m * 60000000000 \<or> 153722867 < m"
proof (cases "m \<le> 153722867")
  case True
  then have "minutes m = m * 60000000000"
    unfolding minutes_def Minute_def using assms(2) by (intro wrap64_id) auto
  then show ?thesis
    using assms True
    by (auto simp: IsApprovalValid_def approve_row_def time_add_def nat_add_distrib nat_mult_distrib)
next
  case False
  then have "(m * 60000000000 + 2 ^ 63) mod 2 ^ 64 = m * 60000000000 + 2 ^ 63 - 2 ^ 64"
    using assms(3) by (subst mod_pos_geq) simp_all
  then have "minutes m < 0"
    unfolding minutes_def Minute_def wrap64_def using assms(3) by simp
  with False show ?thesis
    by (simp add: IsApprovalValid_def approve_row_def)
qed

theorem approval_period_witness:
  "IsApprovalValid 999999999999999999999 (approve_row 20 ''bob'' [] (minutes 153722868) sample_approval)"
  using approval_period [of 20 153722868 "999999999999999999999" "''bob''" "[]" sample_approval] by simp

text \<open>cancelling is open to every caller. The outcome does not depend on who asks, and any
  pending request is cancelled in the name the body gives, whoever requested it.\<close>

theorem cancel_without_ownership:
  assumes "store_ok st" "r \<in> set (st_rows st)" "is_pending_row i r" "i \<noteq> []" "who \<noteq> []"
  shows "fst (handleCancel no_faults now ctx i (Some (Body (who, why))) st) = (200, Inr ''cancelled'') \<and>
    close_row ''cancelled'' now who why r \<in> set (st_rows (snd (handleCancel no_faults now ctx i (Some (Body (who, why))) st)))"
proof -
  obtain st' where st': "Cancel None None now i who why st = (Inr (), st')"
  proof -
    have "filter (is_pending_row i) (st_rows st) \<noteq> []"
      using assms(2,3) by (auto simp: filter_empty_conv)
    then show ?thesis
      using that by (simp add: Cancel_def resolve_row_def)
  qed
  have "ap_ApprovalID r = i" using assms(3) by (simp add: is_pending_row_def)
  with resolve_row_Inr [OF assms(1) st' [unfolded Cancel_def] assms(2)]
  have "close_row ''cancelled'' now who why r \<in> set (st_rows st')"
    using assms(2) by force
  with st' assms(4,5) show ?thesis
    by (simp add: handleCancel_def no_faults_def Let_def)
qed

theorem cancel_without_ownership_witness:
  "fst (handleCancel no_faults 30 (Some (zero_principal\<lparr>pr_UserID := ''eve'', pr_AuthMethod := ''static''\<rparr>)) ''apr_1''
     (Some (Body (''mallory'', []))) sample_store) = (200, Inr ''cancelled'')"
  using cancel_without_ownership [OF sample_store_simps(1), of sample_approval "''apr_1''" "''mallory''" 30
      "Some (zero_principal\<lparr>pr_UserID := ''eve'', pr_AuthMethod := ''static''\<rparr>)" "[]"]
  by (simp add: sample_store_rows NewApprovalStore_def is_pending_row_def sample_approval_def)

end
