(* ===== verification/Infra.thy ===== *)
theory Infra
  imports Prelude
begin

text \<open>
  The infrastructure inventory, \<^verbatim>\<open>internal/infra/infra.go\<close>: its data, loading, the expansion of
  hosting information, connection endpoints and the lookup of a database by name or connection string.
  The maps of the file are association lists with unique keys, in the order in which a loop visits them.
  \<open>getenv\<close> reads the process environment; the file system and the JSON decoder are arguments of
  \<open>infra_Load\<close>.
\<close>

section \<open>Data\<close>

record db_server =
  db_Name :: string
  db_ConnectionString :: string
  db_PasswordEnv :: string
  db_K8sCluster :: string
  db_K8sNamespace :: string
  db_K8sPodSelector :: string
  db_VMName :: string
  db_ContainerName :: string
  db_SystemdUnit :: string
  db_Tags :: "string list"
  db_Sensitivity :: "string list"
  db_ApprovalOverrideRoles :: "string list"

record k8s_cluster =
  kc_Name :: string
  kc_Context :: string
  kc_Tags :: "string list"
  kc_Sensitivity :: "string list"

record vm =
  vm_Name :: string
  vm_Address :: string
  vm_Runtime :: string

record infra_config =
  ic_DBServers :: "(string \<times> db_server) list"
  ic_K8sClusters :: "(string \<times> k8s_cluster) list"
  ic_VMs :: "(string \<times> vm) list"

record db_info =
  di_ID :: string
  di_Name :: string
  di_ConnectionString :: string
  di_Hosting :: string
  di_K8sContext :: string
  di_K8sNamespace :: string
  di_VMAddress :: string
  di_VMRuntime :: string
  di_ContainerName :: string
  di_SystemdUnit :: string

definition infra_Load ::
  "(string \<Rightarrow> string + string) \<Rightarrow> (string \<Rightarrow> string + infra_config) \<Rightarrow> string \<Rightarrow> string + infra_config" where
  "infra_Load readFile unmarshal path = (case readFile path of
     Inl err \<Rightarrow> Inl (''failed to read infrastructure config file: '' @ err)
   | Inr data \<Rightarrow> (case unmarshal data of
       Inl err \<Rightarrow> Inl (''failed to parse infrastructure config: '' @ err)
     | Inr cfg \<Rightarrow> Inr cfg))"

definition ResolvedConnectionString :: "(string \<Rightarrow> string) \<Rightarrow> db_server \<Rightarrow> string" where
  "ResolvedConnectionString getenv db =
     (if db_PasswordEnv db = [] then db_ConnectionString db
      else let pw = getenv (db_PasswordEnv db) in
        if pw = [] then db_ConnectionString db
        else db_ConnectionString db @ '' password='' @ pw)"

section \<open>Hosting\<close>

definition expand_db :: "infra_config \<Rightarrow> string \<times> db_server \<Rightarrow> db_info" where
  "expand_db c x = (let (i, db) = x;
       info = \<lparr>di_ID = i, di_Name = db_Name db, di_ConnectionString = db_ConnectionString db, di_Hosting = [],
         di_K8sContext = [], di_K8sNamespace = [], di_VMAddress = [], di_VMRuntime = [],
         di_ContainerName = db_ContainerName db, di_SystemdUnit = db_SystemdUnit db\<rparr>
     in if db_K8sCluster db \<noteq> [] then
          (case map_of (ic_K8sClusters c) (db_K8sCluster db) of
             Some k \<Rightarrow> info\<lparr>di_Hosting := ''Kubernetes: '' @ kc_Name k, di_K8sContext := kc_Context k,
               di_K8sNamespace := (if db_K8sNamespace db = [] then ''default'' else db_K8sNamespace db)\<rparr>
           | None \<Rightarrow> info\<lparr>di_Hosting := ''Kubernetes: '' @ db_K8sCluster db @ '' (not configured)''\<rparr>)
        else if db_VMName db \<noteq> [] then
          (case map_of (ic_VMs c) (db_VMName db) of
             Some v \<Rightarrow> info\<lparr>di_Hosting := ''VM: '' @ vm_Name v, di_VMAddress := vm_Address v,
               di_VMRuntime := vm_Runtime v\<rparr>
           | None \<Rightarrow> info\<lparr>di_Hosting := ''VM: '' @ db_VMName db @ '' (not configured)''\<rparr>)
        else info\<lparr>di_Hosting := ''Standalone''\<rparr>)"

definition ListDatabases :: "infra_config option \<Rightarrow> db_info list" where
  "ListDatabases co = (case co of None \<Rightarrow> [] | Some c \<Rightarrow> map (expand_db c) (ic_DBServers c))"

section \<open>Endpoints\<close>

text \<open>\<^verbatim>\<open>strings.Fields\<close> and \<^verbatim>\<open>strings.Cut(field, "=")\<close>.\<close>

fun Fields_from :: "string \<Rightarrow> string \<Rightarrow> string list" where
  "Fields_from w [] = (if w = [] then [] else [w])"
| "Fields_from w (c # cs) = (if is_space c then (if w = [] then [] else [w]) @ Fields_from [] cs
     else Fields_from (w @ [c]) cs)"

definition Fields :: "string \<Rightarrow> string list" where
  "Fields s = Fields_from [] s"

definition Cut_eq :: "string \<Rightarrow> (string \<times> string) option" where
  "Cut_eq s = (let k = takeWhile (\<lambda>c. c \<noteq> CHR ''='') s in
     if length k < length s then Some (k, drop (Suc (length k)) s) else None)"

definition endpoint_field :: "string \<times> string \<times> string \<Rightarrow> string \<Rightarrow> string \<times> string \<times> string" where
  "endpoint_field x f = (let (host, port, dbname) = x in
     case Cut_eq f of
       None \<Rightarrow> x
     | Some (k, v) \<Rightarrow>
         (if k = ''host'' then (v, port, dbname)
          else if k = ''port'' then (host, v, dbname)
          else if k = ''dbname'' then (host, port, v) else x))"

definition connEndpoint :: "string \<Rightarrow> string" where
  "connEndpoint connStr =
     (let (host, port, dbname) = foldl endpoint_field ([], [], []) (Fields connStr) in
      if host = [] \<and> port = [] then []
      else host @ (if port \<noteq> [] then CHR '':'' # port else []) @ (if dbname \<noteq> [] then CHR ''/'' # dbname else []))"

definition FindDBByConnStr :: "infra_config option \<Rightarrow> string \<Rightarrow> (db_server \<times> string) option" where
  "FindDBByConnStr co connStr = (case co of
     None \<Rightarrow> None
   | Some c \<Rightarrow>
       (if connStr = [] then None
        else (case find (\<lambda>(key, db). key = connStr \<or> db_Name db = connStr \<or> db_ConnectionString db = connStr)
                  (ic_DBServers c) of
            Some (key, db) \<Rightarrow> Some (db, key)
          | None \<Rightarrow>
              (let ep = connEndpoint connStr in
               if ep = [] then None
               else map_option (\<lambda>(key, db). (db, key))
                 (find (\<lambda>(key, db). connEndpoint (db_ConnectionString db) = ep) (ic_DBServers c))))))"

section \<open>Facts\<close>

lemma Fields_from_word: "\<forall>c \<in> set v. \<not> is_space c \<Longrightarrow> Fields_from w (v @ s) = Fields_from (w @ v) s"
  by (induction v arbitrary: w) auto

lemma Fields_from_snoc:
  "is_space b \<Longrightarrow> Fields_from w (s @ b # v) = Fields_from w s @ Fields_from [] v"
  by (induction s arbitrary: w) auto

lemma Fields_append_word:
  assumes "\<forall>c \<in> set v. \<not> is_space c" "v \<noteq> []"
  shows "Fields (s @ CHR '' '' # v) = Fields s @ [v]"
  using assms Fields_from_word [of v "[]" "[]"]
  by (simp add: Fields_def Fields_from_snoc is_space_def)

lemma FindDBByConnStr_sound:
  "FindDBByConnStr co s = Some (db, key) \<Longrightarrow> \<exists>c. co = Some c \<and> (key, db) \<in> set (ic_DBServers c)"
  by (auto simp: FindDBByConnStr_def Let_def dest!: find_Some_mem split: option.splits if_splits)

section \<open>Properties\<close>

text \<open>the endpoint shown to the model does not depend on the password. Appending the resolved
  password to a connection string, as the agents do before they connect, leaves its endpoint the same,
  so the resolved string is attributed to the database it belongs to.\<close>

theorem endpoint_hides_password:
  assumes "\<forall>c \<in> set (getenv (db_PasswordEnv db)). \<not> is_space c"
  shows "connEndpoint (ResolvedConnectionString getenv db) = connEndpoint (db_ConnectionString db)"
proof -
  let ?w = "''password='' @ getenv (db_PasswordEnv db)"
  have "Fields (db_ConnectionString db @ CHR '' '' # ?w) = Fields (db_ConnectionString db) @ [?w]"
    using assms by (intro Fields_append_word) (auto simp: is_space_def)
  moreover have "endpoint_field x ?w = x" for x
    by (cases x) (simp add: endpoint_field_def Cut_eq_def Let_def)
  ultimately show ?thesis
    by (simp add: ResolvedConnectionString_def connEndpoint_def Let_def)
qed

theorem endpoint_hides_password_witness:
  "let db = \<lparr>db_Name = ''orders'', db_ConnectionString = ''host=h port=5432'', db_PasswordEnv = ''PW'',
       db_K8sCluster = [], db_K8sNamespace = [], db_K8sPodSelector = [], db_VMName = [], db_ContainerName = [],
       db_SystemdUnit = [], db_Tags = [], db_Sensitivity = [], db_ApprovalOverrideRoles = []\<rparr> in
   connEndpoint (ResolvedConnectionString (\<lambda>_. ''secret'') db) = connEndpoint ''host=h port=5432''"
  unfolding Let_def by (subst endpoint_hides_password) (simp_all add: is_space_def)

end
