(* ===== verification/Governance.thy ===== *)
theory Governance
  imports Policy_Loader Tool_Audit Approval_Handlers Infra
begin

text \<open>
  The policy endpoints of the audit service, \<^verbatim>\<open>cmd/auditd/governance_handlers.go\<close>: the start-up
  of the engine, the resolution of tags and sensitivity from the inventory, the hypothetical check
  \<^verbatim>\<open>GET /v1/governance/explain\<close> and the check \<^verbatim>\<open>POST /v1/governance/check\<close>, which records its
  decision in the audit store. \<open>traceJSON\<close> encodes a trace; \<open>uids\<close> are the fresh UUID texts.
\<close>

section \<open>The server\<close>

record governance_server =
  gs_policyEngine :: "engine option"
  gs_policyFile :: string
  gs_infraConfig :: "infra_config option"

definition should_load :: "(string \<Rightarrow> string) \<Rightarrow> bool" where
  "should_load getenv \<longleftrightarrow> (let policyEnabled = getenv ''HELPDESK_POLICY_ENABLED'';
       policyFile = getenv ''HELPDESK_POLICY_FILE'' in
     policyEnabled = ''true'' \<or> policyEnabled = ''1'' \<or> (policyEnabled = [] \<and> policyFile \<noteq> []))"

definition newGovernanceServer ::
  "(string \<Rightarrow> string) \<Rightarrow> (string \<Rightarrow> string + config) \<Rightarrow> (string \<Rightarrow> string + infra_config) \<Rightarrow> governance_server" where
  "newGovernanceServer getenv loadPolicy loadInfra =
     (let policyFile = getenv ''HELPDESK_POLICY_FILE'';
          load = should_load getenv \<and> policyFile \<noteq> [];
          infraPath = getenv ''HELPDESK_INFRA_CONFIG''
      in \<lparr>gs_policyEngine =
            (if load then
               (case loadPolicy policyFile of
                  Inr cfg \<Rightarrow> Some (NewEngine \<lparr>ec_PolicyConfig = Some cfg, ec_DefaultEffect = [], ec_DryRun = False\<rparr>)
                | Inl _ \<Rightarrow> None)
             else None),
          gs_policyFile = (if load then policyFile else []),
          gs_infraConfig = (if infraPath = [] then None
            else (case loadInfra infraPath of Inr ic \<Rightarrow> Some ic | Inl _ \<Rightarrow> None))\<rparr>)"

definition tagsFromInfra :: "governance_server \<Rightarrow> string \<Rightarrow> string \<Rightarrow> string list" where
  "tagsFromInfra s ty name = (case gs_infraConfig s of
     None \<Rightarrow> []
   | Some c \<Rightarrow>
       (if ty = ''database'' then (case map_of (ic_DBServers c) name of Some d \<Rightarrow> db_Tags d | None \<Rightarrow> [])
        else if ty = ''kubernetes'' then (case map_of (ic_K8sClusters c) name of Some k \<Rightarrow> kc_Tags k | None \<Rightarrow> [])
        else []))"

definition resourceInInfra :: "governance_server \<Rightarrow> string \<Rightarrow> string \<Rightarrow> bool" where
  "resourceInInfra s ty name = (case gs_infraConfig s of
     None \<Rightarrow> False
   | Some c \<Rightarrow>
       (if ty = ''database'' then map_of (ic_DBServers c) name \<noteq> None
        else if ty = ''kubernetes'' then map_of (ic_K8sClusters c) name \<noteq> None else False))"

definition sensitivityFromInfra :: "governance_server \<Rightarrow> string \<Rightarrow> string \<Rightarrow> string list" where
  "sensitivityFromInfra s ty name = (case gs_infraConfig s of
     None \<Rightarrow> []
   | Some c \<Rightarrow>
       (if ty = ''database'' then (case map_of (ic_DBServers c) name of Some d \<Rightarrow> db_Sensitivity d | None \<Rightarrow> [])
        else if ty = ''kubernetes'' then
          (case map_of (ic_K8sClusters c) name of Some k \<Rightarrow> kc_Sensitivity k | None \<Rightarrow> [])
        else []))"

section \<open>Hypothetical checks\<close>

definition comma_list :: "string \<Rightarrow> string list" where
  "comma_list raw = (if raw = [] then [] else filter (\<lambda>t. t \<noteq> []) (map TrimSpace (split_char (CHR '','') raw)))"

definition zero_context :: request_context where
  "zero_context = \<lparr>rc_Timestamp = (0, 0), rc_TraceID = [], rc_RowsAffected = 0, rc_PodsAffected = 0,
     rc_XactAgeSecs = 0, rc_Purpose = [], rc_PurposeNote = []\<rparr>"

definition explain_request :: "governance_server \<Rightarrow> (string \<Rightarrow> string) \<Rightarrow> request" where
  "explain_request s q =
     (let ty = q ''resource_type''; name = q ''resource_name''; tags = comma_list (q ''tags'');
          sens = comma_list (q ''sensitivity'')
      in \<lparr>rq_Principal = \<lparr>rp_UserID = q ''user_id'', rp_Roles = (if q ''role'' \<noteq> [] then [q ''role''] else []),
            rp_Service = q ''service''\<rparr>,
          rq_Resource = \<lparr>rr_Type = ty, rr_Name = name, rr_Tags = (if tags = [] then tagsFromInfra s ty name else tags),
            rr_Namespace = [], rr_Extra = Map.empty,
            rr_Sensitivity = (if sens = [] then sensitivityFromInfra s ty name else sens), rr_ToolName = []\<rparr>,
          rq_Action = q ''action'', rq_Context = zero_context\<lparr>rc_Purpose := q ''purpose''\<rparr>\<rparr>)"

definition not_found_note :: "string \<Rightarrow> string" where
  "not_found_note name = map char_of ([226, 154, 160, 239, 184, 143] :: nat list) @ ''  Resource '' @ [CHR 0x22] @ name @ [CHR 0x22] @
     '' was not found in the infrastructure config.'' @ [CHR 0x0A] @
     ''Tags and sensitivity could not be resolved '' @ map char_of ([226, 128, 148] :: nat list) @
     '' policy evaluation used no tags.'' @ [CHR 0x0A] @
     ''Check that the resource name matches exactly (case-sensitive) in HELPDESK_INFRA_CONFIG.'' @
     [CHR 0x0A, CHR 0x0A]"

text \<open>The answer without an engine is the note that policies are disabled.\<close>

definition handleExplain ::
  "zones \<Rightarrow> go_time \<Rightarrow> governance_server \<Rightarrow> (string \<Rightarrow> string) \<Rightarrow> decision_trace option response" where
  "handleExplain tz now s q = (case gs_policyEngine s of
     None \<Rightarrow> (200, Inr None)
   | Some e \<Rightarrow>
       (if q ''resource_type'' = [] \<or> q ''resource_name'' = [] \<or> q ''action'' = []
        then (400, Inl ''resource_type, resource_name and action are required'')
        else
          (let req = explain_request s q;
               trace = Explain tz now e req;
               missing = comma_list (q ''tags'') = [] \<and> gs_infraConfig s \<noteq> None \<and> rr_Tags (rq_Resource req) = [] \<and>
                 \<not> resourceInInfra s (q ''resource_type'') (q ''resource_name'')
           in (200, Inr (Some (if missing then
                 trace\<lparr>dt_Explanation := not_found_note (q ''resource_name'') @ dt_Explanation trace\<rparr> else trace))))))"

section \<open>Checks of the agents\<close>

record policy_check_request =
  cq_ResourceType :: string
  cq_ResourceName :: string
  cq_Action :: string
  cq_Tags :: "string list"
  cq_TraceID :: string
  cq_SessionID :: string
  cq_AgentName :: string
  cq_Note :: string
  cq_RowsAffected :: int
  cq_PodsAffected :: int
  cq_XactAgeSecs :: int
  cq_PostExecution :: bool
  cq_Principal :: principal
  cq_Purpose :: string
  cq_PurposeNote :: string
  cq_Sensitivity :: "string list"
  cq_ToolName :: string

record policy_check_response =
  cp_Effect :: string
  cp_PolicyName :: string
  cp_Message :: string
  cp_Explanation :: string
  cp_RequiresApproval :: bool
  cp_Trace :: decision_trace
  cp_EventID :: string
  cp_TraceID :: string

definition check_tags :: "governance_server \<Rightarrow> policy_check_request \<Rightarrow> string list" where
  "check_tags s req = (if cq_Tags req = [] then tagsFromInfra s (cq_ResourceType req) (cq_ResourceName req)
     else cq_Tags req)"

definition check_sensitivity :: "governance_server \<Rightarrow> policy_check_request \<Rightarrow> string list" where
  "check_sensitivity s req = (if cq_Sensitivity req = []
     then sensitivityFromInfra s (cq_ResourceType req) (cq_ResourceName req) else cq_Sensitivity req)"

definition pol_request :: "governance_server \<Rightarrow> policy_check_request \<Rightarrow> request" where
  "pol_request s req =
     \<lparr>rq_Principal = \<lparr>rp_UserID = pr_UserID (cq_Principal req), rp_Roles = pr_Roles (cq_Principal req),
        rp_Service = pr_Service (cq_Principal req)\<rparr>,
      rq_Resource = \<lparr>rr_Type = cq_ResourceType req, rr_Name = cq_ResourceName req, rr_Tags = check_tags s req,
        rr_Namespace = [], rr_Extra = Map.empty, rr_Sensitivity = check_sensitivity s req,
        rr_ToolName = cq_ToolName req\<rparr>,
      rq_Action = cq_Action req,
      rq_Context = zero_context\<lparr>rc_TraceID := cq_TraceID req, rc_RowsAffected := cq_RowsAffected req,
        rc_PodsAffected := cq_PodsAffected req, rc_XactAgeSecs := cq_XactAgeSecs req,
        rc_Purpose := cq_Purpose req, rc_PurposeNote := cq_PurposeNote req\<rparr>\<rparr>"

definition check_event ::
  "(decision_trace \<Rightarrow> string) \<Rightarrow> string \<Rightarrow> time \<Rightarrow> governance_server \<Rightarrow> policy_check_request \<Rightarrow> decision_trace \<Rightarrow> event" where
  "check_event traceJSON evid now s req trace =
     (let d = dt_Decision trace in
      zero_event\<lparr>ev_EventID := evid, ev_Timestamp := now, ev_EventType := EventTypePolicyDecision,
        ev_TraceID := cq_TraceID req, ev_ActionClass := cq_Action req,
        ev_Session := (ev_Session zero_event)\<lparr>ss_ID := (if cq_SessionID req = [] then cq_TraceID req
          else cq_SessionID req)\<rparr>,
        ev_PolicyDecision := Some (zero_policy_decision\<lparr>pd_ResourceType := cq_ResourceType req,
          pd_ResourceName := cq_ResourceName req, pd_Action := cq_Action req, pd_Tags := check_tags s req,
          pd_Effect := dc_Effect d, pd_PolicyName := dc_PolicyName d, pd_RuleIndex := dc_RuleIndex d,
          pd_Message := dc_Message d, pd_Note := cq_Note req, pd_PostExecution := cq_PostExecution req,
          pd_Trace := traceJSON trace, pd_Explanation := dt_Explanation trace,
          pd_Sensitivity := check_sensitivity s req, pd_UserID := pr_UserID (cq_Principal req),
          pd_Roles := pr_Roles (cq_Principal req), pd_Service := pr_Service (cq_Principal req),
          pd_AuthMethod := pr_AuthMethod (cq_Principal req), pd_Purpose := cq_Purpose req,
          pd_PurposeNote := cq_PurposeNote req\<rparr>)\<rparr>)"

record check_args =
  ca_digest :: digest
  ca_traceJSON :: "decision_trace \<Rightarrow> string"
  ca_record :: record_args
  ca_traceUID :: string
  ca_eventUID :: string
  ca_tz :: zones
  ca_now :: go_time

definition handlePolicyCheck ::
  "check_args \<Rightarrow> governance_server \<Rightarrow> policy_check_request body \<Rightarrow> audit_store \<Rightarrow>
   policy_check_response response \<times> audit_store" where
  "handlePolicyCheck a s b st = (case gs_policyEngine s of
     None \<Rightarrow> ((503, Inl ''policy engine not configured; set HELPDESK_POLICY_FILE and HELPDESK_POLICY_ENABLED''), st)
   | Some e \<Rightarrow> (case b of
       ReadError \<Rightarrow> ((400, Inl ''invalid JSON: ''), st)
     | BadJSON err \<Rightarrow> ((400, Inl (''invalid JSON: '' @ err)), st)
     | Body req0 \<Rightarrow>
         (if cq_ResourceType req0 = [] \<or> cq_ResourceName req0 = [] \<or> cq_Action req0 = []
          then ((400, Inl ''resource_type, resource_name and action are required''), st)
          else if cq_AgentName req0 \<noteq> [] \<and> cq_TraceID req0 = []
          then ((400, Inl ''agent requests must include trace_id''), st)
          else
            (let req = (if cq_TraceID req0 = [] then req0\<lparr>cq_TraceID := ''chk_'' @ take 8 (ca_traceUID a)\<rparr> else req0);
                 trace = Explain (ca_tz a) (ca_now a) e (pol_request s req);
                 d = dt_Decision trace;
                 evid = ''pol_'' @ take 8 (ca_eventUID a);
                 st' = snd (Record (ca_digest a) (ca_record a)
                   (check_event (ca_traceJSON a) evid (fst (ca_now a)) s req trace) st);
                 resp = \<lparr>cp_Effect = dc_Effect d, cp_PolicyName = dc_PolicyName d, cp_Message = dc_Message d,
                   cp_Explanation = dt_Explanation trace, cp_RequiresApproval = NeedsApproval d, cp_Trace = trace,
                   cp_EventID = evid, cp_TraceID = cq_TraceID req\<rparr>
             in ((if IsDenied d then 403 else 200, Inr resp), st')))))"

section \<open>Facts\<close>

definition with_trace :: "string \<Rightarrow> request \<Rightarrow> request" where
  "with_trace t req = req\<lparr>rq_Context := (rq_Context req)\<lparr>rc_TraceID := t\<rparr>\<rparr>"

lemma cond_with_trace:
  "cond_rows c (with_trace t req) = cond_rows c req" "cond_pods c (with_trace t req) = cond_pods c req"
  "cond_xact_age c (with_trace t req) = cond_xact_age c req" "cond_allowed c (with_trace t req) = cond_allowed c req"
  "cond_blocked c (with_trace t req) = cond_blocked c req"
  by (simp_all add: with_trace_def fun_eq_iff cond_rows_def cond_pods_def cond_xact_age_def cond_allowed_def
      cond_blocked_def)

lemma rule_decision_with_trace: "rule_decision p i r (with_trace t req) = rule_decision p i r req"
  unfolding rule_decision_def applyConditionsWithTrace_def cond_with_trace by (rule refl)

lemma governs_with_trace: "governs tz (with_trace t req) x = governs tz req x"
proof -
  have fields: "rq_Principal (with_trace t req) = rq_Principal req" "rq_Resource (with_trace t req) = rq_Resource req"
      "rq_Action (with_trace t req) = rq_Action req" "rc_Timestamp (rq_Context (with_trace t req)) = rc_Timestamp (rq_Context req)"
    by (simp_all add: with_trace_def)
  show ?thesis unfolding governs_def rule_scheduled_def fields by (rule refl)
qed

lemma with_timestamp_with_trace: "with_timestamp now (with_trace t req) = with_trace t (with_timestamp now req)"
  by (simp add: with_timestamp_def with_trace_def)

lemma Evaluate_with_trace: "Evaluate tz now e (with_trace t req) = Evaluate tz now e req"
proof -
  have "first_match tz e (with_trace t r) = first_match tz e r" for r
    unfolding first_match_def decide_def ext [OF governs_with_trace] rule_decision_with_trace by (rule refl)
  then show ?thesis
    by (simp add: Evaluate_def Explain_def Let_def explainEvaluate_decision with_timestamp_with_trace)
qed

lemma Record_fresh:
  assumes "ra_marshal a = None" "ra_insert a = None" "ev_EventID e \<notin> aw_event_id ` set (au_rows s)" "ev_EventID e \<noteq> []"
  shows "\<exists>e'. Record digest a e s = (Inr e', snd (Record digest a e s)) \<and> ev_PolicyDecision e' = ev_PolicyDecision e \<and>
    ev_EventID e' = ev_EventID e \<and> ev_TraceID e' = ev_TraceID e"
proof -
  have "\<not> list_ex (\<lambda>r. aw_event_id r = ev_EventID e) (au_rows s)"
    using assms(3) by (auto simp: list_ex_iff image_iff)
  with assms(1,2,4) show ?thesis by (simp add: Record_def Let_def)
qed

section \<open>Properties\<close>

text \<open>a check is decided by the engine and put on record. When the request is complete, the
  answer carries the decision of the engine for it, with 403 exactly for a denial; whatever happens to the
  audit record, the answer is the same. When the database accepts it, exactly one event is appended,
  with the trace of the request and the effect, policy and message of the answer.\<close>

theorem policy_check_recorded:
  assumes "gs_policyEngine s = Some e" "cq_ResourceType req \<noteq> []" "cq_ResourceName req \<noteq> []" "cq_Action req \<noteq> []"
    and "cq_TraceID req \<noteq> []" "handlePolicyCheck a s (Body req) st = ((code, r), st')"
  shows "let d = Evaluate (ca_tz a) (ca_now a) e (pol_request s req) in
    (\<exists>resp. r = Inr resp \<and> cp_Effect resp = dc_Effect d \<and> cp_RequiresApproval resp = NeedsApproval d \<and>
      code = (if IsDenied d then 403 else 200) \<and>
      (ra_marshal (ca_record a) = None \<and> ra_insert (ca_record a) = None \<and>
       cp_EventID resp \<notin> aw_event_id ` set (au_rows st) \<longrightarrow>
       (\<exists>ev pd. recorded st' = recorded st @ [ev] \<and> ev_EventID ev = cp_EventID resp \<and> ev_TraceID ev = cq_TraceID req \<and>
          ev_PolicyDecision ev = Some pd \<and> pd_Effect pd = cp_Effect resp \<and> pd_PolicyName pd = cp_PolicyName resp \<and>
          pd_Message pd = cp_Message resp)))"
proof -
  let ?trace = "Explain (ca_tz a) (ca_now a) e (pol_request s req)"
  let ?ev = "check_event (ca_traceJSON a) (''pol_'' @ take 8 (ca_eventUID a)) (fst (ca_now a)) s req ?trace"
  have st': "st' = snd (Record (ca_digest a) (ca_record a) ?ev st)"
    and r: "r = Inr \<lparr>cp_Effect = dc_Effect (dt_Decision ?trace), cp_PolicyName = dc_PolicyName (dt_Decision ?trace),
      cp_Message = dc_Message (dt_Decision ?trace), cp_Explanation = dt_Explanation ?trace,
      cp_RequiresApproval = NeedsApproval (dt_Decision ?trace), cp_Trace = ?trace,
      cp_EventID = ''pol_'' @ take 8 (ca_eventUID a), cp_TraceID = cq_TraceID req\<rparr>"
    and code: "code = (if IsDenied (dt_Decision ?trace) then 403 else 200)"
    using assms by (auto simp: handlePolicyCheck_def Let_def)
  have pd: "\<exists>pd. ev_PolicyDecision ?ev = Some pd \<and> pd_Effect pd = dc_Effect (dt_Decision ?trace) \<and>
      pd_PolicyName pd = dc_PolicyName (dt_Decision ?trace) \<and> pd_Message pd = dc_Message (dt_Decision ?trace)"
    by (simp add: check_event_def Let_def)
  have ids: "ev_EventID ?ev = ''pol_'' @ take 8 (ca_eventUID a)" "ev_TraceID ?ev = cq_TraceID req"
    by (simp_all add: check_event_def Let_def)
  have "\<exists>ev. recorded st' = recorded st @ [ev] \<and> ev_EventID ev = ev_EventID ?ev \<and> ev_TraceID ev = ev_TraceID ?ev \<and>
      ev_PolicyDecision ev = ev_PolicyDecision ?ev"
    if "ra_marshal (ca_record a) = None" "ra_insert (ca_record a) = None" "ev_EventID ?ev \<notin> aw_event_id ` set (au_rows st)"
    using Record_fresh [OF that, of "ca_digest a"] ids(1) st' Record_seal by (metis append_is_Nil_conv list.distinct(1))
  then show ?thesis
    using r code pd ids by (fastforce simp: Evaluate_def Let_def)
qed

definition sample_args :: check_args where
  "sample_args = \<lparr>ca_digest = (\<lambda>_. ''h''), ca_traceJSON = (\<lambda>_. []),
     ca_record = \<lparr>ra_uid = [], ra_now = 1, ra_marshal = None, ra_insert = None\<rparr>, ca_traceUID = [], ca_eventUID = [],
     ca_tz = (\<lambda>_. None), ca_now = (1, 0)\<rparr>"

definition sample_server :: "engine \<Rightarrow> governance_server" where
  "sample_server eng = \<lparr>gs_policyEngine = Some eng, gs_policyFile = ''p.yaml'', gs_infraConfig = None\<rparr>"

definition sample_check :: policy_check_request where
  "sample_check = \<lparr>cq_ResourceType = ''database'', cq_ResourceName = ''orders'', cq_Action = ''write'',
     cq_Tags = [''production''], cq_TraceID = ''tr_1'', cq_SessionID = [], cq_AgentName = ''database_agent'', cq_Note = [],
     cq_RowsAffected = 0, cq_PodsAffected = 0, cq_XactAgeSecs = 0, cq_PostExecution = False,
     cq_Principal = zero_principal\<lparr>pr_UserID := ''alice''\<rparr>, cq_Purpose = [], cq_PurposeNote = [], cq_Sensitivity = [],
     cq_ToolName = []\<rparr>"

theorem policy_check_recorded_witness:
  "\<exists>ev. recorded (snd (handlePolicyCheck sample_args (sample_server sample_engine) (Body sample_check) (initLastHash []))) = [ev]
     \<and> ev_TraceID ev = ''tr_1''"
proof -
  let ?h = "handlePolicyCheck sample_args (sample_server sample_engine) (Body sample_check) (initLastHash [])"
  obtain code r st' where h: "?h = ((code, r), st')" by (metis surj_pair)
  have pre: "gs_policyEngine (sample_server sample_engine) = Some sample_engine" "cq_ResourceType sample_check \<noteq> []"
      "cq_ResourceName sample_check \<noteq> []" "cq_Action sample_check \<noteq> []" "cq_TraceID sample_check \<noteq> []"
      "ra_marshal (ca_record sample_args) = None" "ra_insert (ca_record sample_args) = None"
      "cq_TraceID sample_check = ''tr_1''" "au_rows (initLastHash []) = []" "recorded (initLastHash []) = []"
    by (simp_all add: sample_server_def sample_check_def sample_args_def initLastHash_def recorded_def)
  from policy_check_recorded [OF pre(1-5) h] pre(6-10) h show ?thesis by (auto simp: Let_def)
qed

text \<open>the hypothetical check answers like the real one, for the same principal, resource, action and
  purpose, as long as the real one names no tool: tags and sensitivity are resolved alike, and nothing is
  recorded. A query cannot name a tool, so a policy that is bound to one never governs its answer.\<close>

theorem explain_mirrors_check:
  assumes "gs_policyEngine s = Some e" "q ''resource_type'' \<noteq> []" "q ''resource_name'' \<noteq> []" "q ''action'' \<noteq> []"
    and "cq_ResourceType req = q ''resource_type''" "cq_ResourceName req = q ''resource_name''" "cq_Action req = q ''action''"
    and "cq_Tags req = comma_list (q ''tags'')" "cq_Sensitivity req = comma_list (q ''sensitivity'')"
    and "cq_Principal req = zero_principal\<lparr>pr_UserID := q ''user_id'', pr_Roles := (if q ''role'' \<noteq> [] then [q ''role''] else []),
      pr_Service := q ''service''\<rparr>"
    and "cq_Purpose req = q ''purpose''" "cq_PurposeNote req = []" "cq_RowsAffected req = 0" "cq_PodsAffected req = 0"
    and "cq_XactAgeSecs req = 0" "cq_TraceID req \<noteq> []" "cq_ToolName req = []"
  shows "\<exists>t resp. handleExplain (ca_tz a) (ca_now a) s q = (200, Inr (Some t)) \<and>
    snd (fst (handlePolicyCheck a s (Body req) st)) = Inr resp \<and> dt_Decision t = dt_Decision (cp_Trace resp)"
proof -
  have eq: "pol_request s req = with_trace (cq_TraceID req) (explain_request s q)"
    using assms by (simp add: pol_request_def explain_request_def with_trace_def check_tags_def check_sensitivity_def
        zero_context_def zero_principal_def Let_def)
  have "dt_Decision (Explain (ca_tz a) (ca_now a) e (pol_request s req)) =
      dt_Decision (Explain (ca_tz a) (ca_now a) e (explain_request s q))"
    using Evaluate_with_trace by (simp add: eq Evaluate_def)
  with assms(1-7,16) show ?thesis
    by (simp add: handleExplain_def handlePolicyCheck_def Let_def)
qed

definition sample_query :: "string \<Rightarrow> string" where
  "sample_query k = (case map_of [(''resource_type'', ''database''), (''resource_name'', ''orders''), (''action'', ''write''),
     (''tags'', ''production''), (''user_id'', ''alice'')] k of Some v \<Rightarrow> v | None \<Rightarrow> [])"

theorem explain_mirrors_check_witness:
  "\<exists>t resp. handleExplain (\<lambda>_. None) (1, 0) (sample_server sample_engine) sample_query = (200, Inr (Some t)) \<and>
    snd (fst (handlePolicyCheck sample_args (sample_server sample_engine) (Body sample_check) (initLastHash []))) = Inr resp \<and>
    dt_Decision t = dt_Decision (cp_Trace resp)"
proof -
  have "\<exists>t resp. handleExplain (ca_tz sample_args) (ca_now sample_args) (sample_server sample_engine) sample_query =
      (200, Inr (Some t)) \<and> snd (fst (handlePolicyCheck sample_args (sample_server sample_engine) (Body sample_check)
        (initLastHash []))) = Inr resp \<and> dt_Decision t = dt_Decision (cp_Trace resp)"
    by (rule explain_mirrors_check [where e = sample_engine])
       (simp_all add: sample_server_def sample_check_def sample_query_def comma_list_def TrimSpace_def trim_with_def is_space_def zero_principal_def)
  then show ?thesis by (simp add: sample_args_def)
qed

end
