(* ===== verification/Enforcer.thy ===== *)
theory Enforcer
  imports Governance
begin

text \<open>
  The policy enforcer of the agents, \<^verbatim>\<open>agentutil/agentutil.go\<close>: the check before a tool runs, the
  check of its measured result, the check of the age of a transaction, the approval workflow and the
  remote mode, in which the audit service decides. An enforcer that holds no engine and no URL enforces
  nothing. Every check returns the events it hands to the tool auditor, the error for the caller, and
  the approval store. The environment of a check carries the operating mode, the clock, the fresh
  identifiers, the reply of the audit service to each request, and the failures of the approval client.
\<close>

section \<open>State\<close>

record call_context =
  cx_trace :: "trace_context option"
  cx_toolName :: string

record policy_enforcer =
  ef_engine :: "engine option"
  ef_policyCheckURL :: string
  ef_policyCheckAPIKey :: string
  ef_policyCheckTimeout :: duration
  ef_traceStore :: "string option"
  ef_approvalClient :: bool
  ef_approvalTimeout :: duration
  ef_agentName :: string
  ef_toolAuditor :: "tool_auditor option"
  ef_requirePurposeForSensitive :: bool

definition NewPolicyEnforcer :: "engine option \<Rightarrow> string option \<Rightarrow> policy_enforcer" where
  "NewPolicyEnforcer eng traceStore = \<lparr>ef_engine = eng, ef_policyCheckURL = [], ef_policyCheckAPIKey = [],
     ef_policyCheckTimeout = 0, ef_traceStore = traceStore, ef_approvalClient = False,
     ef_approvalTimeout = 30 * Second, ef_agentName = [], ef_toolAuditor = None,
     ef_requirePurposeForSensitive = False\<rparr>"

text \<open>The configuration has the same fields; unset timeouts get their defaults.\<close>

definition NewPolicyEnforcerWithConfig :: "policy_enforcer \<Rightarrow> policy_enforcer" where
  "NewPolicyEnforcerWithConfig cfg = cfg\<lparr>
     ef_approvalTimeout := (if ef_approvalTimeout cfg = 0 then 30 * Second else ef_approvalTimeout cfg),
     ef_policyCheckTimeout := (if ef_policyCheckTimeout cfg = 0 then 5 * Second else ef_policyCheckTimeout cfg)\<rparr>"

record agent_config =
  ag_PolicyEnabled :: bool
  ag_PolicyFile :: string
  ag_PolicyDryRun :: bool
  ag_DefaultPolicy :: string
  ag_PolicyCheckURL :: string

text \<open>In remote mode the probe of the service is only logged.\<close>

definition InitPolicyEngine :: "(string \<Rightarrow> string + config) \<Rightarrow> agent_config \<Rightarrow> string + engine option" where
  "InitPolicyEngine loadFile cfg =
     (if \<not> ag_PolicyEnabled cfg then Inr None
      else if ag_PolicyCheckURL cfg \<noteq> [] then Inr None
      else if ag_PolicyFile cfg = []
      then Inl ''HELPDESK_POLICY_ENABLED is true but HELPDESK_POLICY_FILE is not set''
      else (case loadFile (ag_PolicyFile cfg) of
          Inl err \<Rightarrow> Inl (''load policy file: '' @ err)
        | Inr policyCfg \<Rightarrow> Inr (Some (NewEngine \<lparr>ec_PolicyConfig = Some policyCfg,
            ec_DefaultEffect = (if ToLower (ag_DefaultPolicy cfg) = ''allow'' then EffectAllow else EffectDeny),
            ec_DryRun = ag_PolicyDryRun cfg\<rparr>))))"

datatype check_error = PolicyErr policy_error | ApprovalPendingError string | PlainErr string

definition em_dash :: string where
  "em_dash = map char_of ([226, 128, 148] :: nat list)"

definition check_Error :: "check_error \<Rightarrow> string" where
  "check_Error err = (case err of
     PolicyErr p \<Rightarrow> policy_error_Error p
   | ApprovalPendingError i \<Rightarrow> ''approval required (ID: '' @ i @ '') '' @ em_dash @
       '' this operation needs human authorization before it can execute. Ask an approver to run: ./approvals approve '' @
       i @ '' '' @ em_dash @ '' then reply here to retry.''
   | PlainErr m \<Rightarrow> m)"

section \<open>Remote checks\<close>

text \<open>The reply of the service as the agent decodes it; \<open>None\<close> is a body that does not decode.\<close>

record policy_check_resp =
  px_Effect :: string
  px_PolicyName :: string
  px_Message :: string
  px_Explanation :: string
  px_EventID :: string

datatype remote_reply = MarshalError string | RequestError | NoReply | Reply int "policy_check_resp option"

definition callRemotePolicyCheck :: "remote_reply \<Rightarrow> string + policy_check_resp" where
  "callRemotePolicyCheck r = (case r of
     MarshalError err \<Rightarrow> Inl (''policy check failed: marshal: '' @ err)
   | RequestError \<Rightarrow> Inl ''policy check failed: policy service unreachable''
   | NoReply \<Rightarrow> Inl ''policy check failed: policy service unreachable''
   | Reply code body \<Rightarrow>
       (if code \<noteq> 200 \<and> code \<noteq> 403 then
          (if code = 401 then
             Inl ''policy check failed: agent not authenticated to audit service (set HELPDESK_AUDIT_API_KEY)''
           else Inl (''policy check failed: policy service returned '' @ Itoa code))
        else (case body of
            None \<Rightarrow> Inl ''policy check failed: policy service unreachable''
          | Some resp \<Rightarrow> Inr resp)))"

section \<open>The environment of a check\<close>

record check_env =
  ce_mode :: string
  ce_tz :: zones
  ce_now :: go_time
  ce_inv_uid :: string
  ce_pol_uid :: string
  ce_apr_uid :: string
  ce_traceJSON :: "decision_trace \<Rightarrow> string"
  ce_contextJSON :: "string list \<Rightarrow> string \<Rightarrow> string"
  ce_remote :: "policy_check_request \<Rightarrow> remote_reply"
  ce_srt :: row_sort
  ce_find_fault :: "string option"
  ce_check_fault :: "string option"
  ce_create_fault :: "string option"
  ce_insert_fault :: "string option"

definition current_trace :: "policy_enforcer \<Rightarrow> string" where
  "current_trace e = (case ef_traceStore e of Some t \<Rightarrow> t | None \<Rightarrow> [])"

section \<open>The approval workflow\<close>

definition tool_key :: "string \<Rightarrow> string \<Rightarrow> string" where
  "tool_key resourceType resourceName = resourceType @ '':'' @ resourceName"

definition create_approval ::
  "check_env \<Rightarrow> policy_enforcer \<Rightarrow> call_context \<Rightarrow> string \<Rightarrow> string \<Rightarrow> string \<Rightarrow> string \<Rightarrow> string list \<Rightarrow> string \<Rightarrow>
   approval_store \<Rightarrow> check_error option \<times> approval_store" where
  "create_approval v e cx traceID ty name action tags note st =
     (let p = trace_principal (cx_trace cx);
          requestedBy = (if pr_UserID p = [] then ef_agentName e else pr_UserID p);
          req = \<lparr>cr_EventID = [], cr_TraceID = traceID, cr_ActionClass = action, cr_ToolName = tool_key ty name,
            cr_AgentName = ef_agentName e, cr_ResourceType = ty, cr_ResourceName = name,
            cr_RequestedBy = requestedBy, cr_Context = ce_contextJSON v tags note, cr_PolicyName = [],
            cr_ApproverRole = [], cr_ExpiresInMin = 0, cr_CallbackURL = []\<rparr>
      in case ce_create_fault v of
           Some err \<Rightarrow> (Some (PlainErr (''approval request failed: send request: '' @ err)), st)
         | None \<Rightarrow> (case handleCreateApproval (ce_insert_fault v) (ce_apr_uid v) (fst (ce_now v)) (Body req) st of
             ((code, Inr a), st') \<Rightarrow> (Some (ApprovalPendingError (ap_ApprovalID a)), st')
           | ((code, Inl msg), st') \<Rightarrow> (Some (PlainErr (''approval request failed: unexpected status '' @ Itoa code @
               '': '' @ msg @ [CHR 0x0A])), st')))"

definition requestApproval ::
  "check_env \<Rightarrow> policy_enforcer \<Rightarrow> call_context \<Rightarrow> string \<Rightarrow> string \<Rightarrow> string \<Rightarrow> string \<Rightarrow> string list \<Rightarrow> string \<Rightarrow>
   approval_store \<Rightarrow> check_error option \<times> approval_store" where
  "requestApproval v e cx traceID ty name action tags note st =
     (let key = tool_key ty name; now = fst (ce_now v);
          existing = (case ce_find_fault v of Some err \<Rightarrow> Inl err
            | None \<Rightarrow> FindApprovalByTool (ce_srt v) now key (ef_agentName e) st);
          same_turn = (case ce_check_fault v of Some err \<Rightarrow> Inl err
            | None \<Rightarrow> CheckExistingApproval (ce_srt v) now traceID key st);
          fallback =
            (if traceID \<noteq> [] \<and> (case same_turn of Inr (Some _) \<Rightarrow> True | _ \<Rightarrow> False) then (None, st)
             else create_approval v e cx traceID ty name action tags note st)
      in case existing of
           Inr (Some a) \<Rightarrow>
             (if ap_Status a = ''approved'' then (None, st)
              else if ap_Status a = ''pending'' then (Some (ApprovalPendingError (ap_ApprovalID a)), st)
              else fallback)
         | _ \<Rightarrow> fallback)"

definition remote_denial :: "policy_check_resp \<Rightarrow> check_error" where
  "remote_denial resp = PolicyErr (DeniedError
     \<lparr>dc_Effect = EffectDeny, dc_PolicyName = px_PolicyName resp, dc_RuleIndex = 0, dc_Message = px_Message resp,
      dc_Conditions = [], dc_RequiresApproval = False, dc_ApprovalQuorum = 0\<rparr> (px_Explanation resp))"

definition handleRemoteResponse ::
  "check_env \<Rightarrow> policy_enforcer \<Rightarrow> call_context \<Rightarrow> policy_check_resp \<Rightarrow> string \<Rightarrow> string \<Rightarrow> string \<Rightarrow> string \<Rightarrow>
   string list \<Rightarrow> string \<Rightarrow> approval_store \<Rightarrow> check_error option \<times> approval_store" where
  "handleRemoteResponse v e cx resp traceID ty name action tags note st =
     (if px_Effect resp = ''allow'' then (None, st)
      else if px_Effect resp = ''deny'' then (Some (remote_denial resp), st)
      else if px_Effect resp = ''require_approval'' then
        (if ef_approvalClient e then requestApproval v e cx traceID ty name action tags note st
         else (Some (PolicyErr (ApprovalRequiredError \<lparr>dc_Effect = EffectRequireApproval,
             dc_PolicyName = px_PolicyName resp, dc_RuleIndex = 0, dc_Message = px_Message resp,
             dc_Conditions = [], dc_RequiresApproval = False, dc_ApprovalQuorum = 0\<rparr>)), st))
      else (None, st))"

section \<open>The check before a tool runs\<close>

definition hasSensitiveSensitivity :: "string list \<Rightarrow> bool" where
  "hasSensitiveSensitivity sensitivity = list_ex (\<lambda>s. s = ''pii'' \<or> s = ''critical'') sensitivity"

definition audit_decision :: "check_env \<Rightarrow> policy_enforcer \<Rightarrow> call_context \<Rightarrow> policy_decision \<Rightarrow> event list" where
  "audit_decision v e cx pd = (case ef_toolAuditor e of
     None \<Rightarrow> []
   | Some ta \<Rightarrow> RecordPolicyDecision ta (ce_pol_uid v) (fst (ce_now v)) (cx_trace cx) pd)"

definition base_decision ::
  "call_context \<Rightarrow> string \<Rightarrow> string \<Rightarrow> string \<Rightarrow> string list \<Rightarrow> policy_decision" where
  "base_decision cx ty name action tags = (let p = trace_principal (cx_trace cx) in
     zero_policy_decision\<lparr>pd_ResourceType := ty, pd_ResourceName := name, pd_Action := action, pd_Tags := tags,
       pd_UserID := pr_UserID p, pd_Roles := pr_Roles p, pd_Service := pr_Service p,
       pd_AuthMethod := pr_AuthMethod p\<rparr>)"

definition readonly_blocked :: "check_env \<Rightarrow> string \<Rightarrow> bool" where
  "readonly_blocked v action \<longleftrightarrow> ToLower (ce_mode v) = ''readonly-governed'' \<and>
     (action = ActionWrite \<or> action = ActionDestructive)"

definition readonly_message :: "string \<Rightarrow> string \<Rightarrow> string" where
  "readonly_message ty action = ''tool '' @ Quote ty @ '' is a '' @ action @
     '' operation and is not permitted in readonly-governed mode; '' @
     ''set HELPDESK_OPERATING_MODE=fix to enable mutations''"

definition purpose_missing :: "policy_enforcer \<Rightarrow> call_context \<Rightarrow> string list \<Rightarrow> bool" where
  "purpose_missing e cx sensitivity \<longleftrightarrow> ef_requirePurposeForSensitive e \<and> hasSensitiveSensitivity sensitivity \<and>
     \<not> PurposeExplicitFromContext (cx_trace cx)"

definition purpose_message :: "call_context \<Rightarrow> string \<Rightarrow> string \<Rightarrow> string list \<Rightarrow> string" where
  "purpose_message cx ty name sensitivity = ''access to '' @ ty @ ''/'' @ name @
     '' requires an explicit purpose declaration (sensitivity: '' @ join_str '','' sensitivity @
     '', current purpose '' @ Quote (fst (PurposeFromContext (cx_trace cx))) @
     '' was derived from operating mode, not declared); add '' @ [CHR 0x27] @ ''purpose'' @ [CHR 0x27] @
     '' to your request body or X-Purpose header''"

definition local_request ::
  "policy_enforcer \<Rightarrow> call_context \<Rightarrow> string \<Rightarrow> string \<Rightarrow> string \<Rightarrow> string list \<Rightarrow> string list \<Rightarrow> string \<Rightarrow> request" where
  "local_request e cx ty name action tags sensitivity toolName =
     (let p = trace_principal (cx_trace cx); (purpose, purposeNote) = PurposeFromContext (cx_trace cx) in
      \<lparr>rq_Principal = \<lparr>rp_UserID = pr_UserID p, rp_Roles = pr_Roles p, rp_Service = pr_Service p\<rparr>,
       rq_Resource = \<lparr>rr_Type = ty, rr_Name = name, rr_Tags = tags, rr_Namespace = [], rr_Extra = Map.empty,
         rr_Sensitivity = sensitivity, rr_ToolName = toolName\<rparr>,
       rq_Action = action,
       rq_Context = zero_context\<lparr>rc_TraceID := current_trace e, rc_Purpose := purpose,
         rc_PurposeNote := purposeNote\<rparr>\<rparr>)"

definition remote_request ::
  "policy_enforcer \<Rightarrow> call_context \<Rightarrow> string \<Rightarrow> string \<Rightarrow> string \<Rightarrow> string list \<Rightarrow> policy_check_request" where
  "remote_request e cx ty name action tags =
     (let (purpose, purposeNote) = PurposeFromContext (cx_trace cx) in
      \<lparr>cq_ResourceType = ty, cq_ResourceName = name, cq_Action = action, cq_Tags = tags,
       cq_TraceID = current_trace e, cq_SessionID = [], cq_AgentName = ef_agentName e, cq_Note = [],
       cq_RowsAffected = 0, cq_PodsAffected = 0, cq_XactAgeSecs = 0, cq_PostExecution = False,
       cq_Principal = trace_principal (cx_trace cx), cq_Purpose = purpose, cq_PurposeNote = purposeNote,
       cq_Sensitivity = [], cq_ToolName = []\<rparr>)"

definition explained :: "check_env \<Rightarrow> policy_decision \<Rightarrow> decision_trace \<Rightarrow> call_context \<Rightarrow> policy_decision" where
  "explained v pd trace cx = (let d = dt_Decision trace in
     pd\<lparr>pd_Effect := dc_Effect d, pd_PolicyName := dc_PolicyName d, pd_RuleIndex := dc_RuleIndex d,
       pd_Message := dc_Message d, pd_Trace := ce_traceJSON v trace, pd_Explanation := dt_Explanation trace,
       pd_Purpose := fst (PurposeFromContext (cx_trace cx)), pd_PurposeNote := snd (PurposeFromContext (cx_trace cx))\<rparr>)"

definition check_local ::
  "check_env \<Rightarrow> policy_enforcer \<Rightarrow> call_context \<Rightarrow> engine \<Rightarrow> string \<Rightarrow> string \<Rightarrow> string \<Rightarrow> string list \<Rightarrow> string \<Rightarrow>
   string list \<Rightarrow> approval_store \<Rightarrow> event list \<times> check_error option \<times> approval_store" where
  "check_local v e cx eng ty name action tags note sensitivity st =
     (let trace = Explain (ce_tz v) (ce_now v) eng
            (local_request e cx ty name action tags sensitivity (cx_toolName cx));
          d = dt_Decision trace;
          autoApproved = NeedsApproval d \<and> pre_authorised (cx_trace cx);
          events = audit_decision v e cx ((explained v (base_decision cx ty name action tags) trace cx)\<lparr>
            pd_Note := note, pd_AutoApproved := autoApproved\<rparr>)
      in if NeedsApproval d then
           (if autoApproved then (events, None, st)
            else if ef_approvalClient e then
              (events, requestApproval v e cx (current_trace e) ty name action tags note st)
            else (events, Some (PolicyErr (ApprovalRequiredError d)), st))
         else if IsDenied d then (events, Some (PolicyErr (DeniedError d (dt_Explanation trace))), st)
         else (events, None, st))"

definition check_remote ::
  "check_env \<Rightarrow> policy_enforcer \<Rightarrow> call_context \<Rightarrow> string \<Rightarrow> string \<Rightarrow> string \<Rightarrow> string list \<Rightarrow> string \<Rightarrow>
   string list \<Rightarrow> approval_store \<Rightarrow> check_error option \<times> approval_store" where
  "check_remote v e cx ty name action tags note sensitivity st =
     (case callRemotePolicyCheck (ce_remote v ((remote_request e cx ty name action tags)\<lparr>cq_Note := note,
           cq_Sensitivity := sensitivity, cq_ToolName := cx_toolName cx\<rparr>)) of
        Inl err \<Rightarrow> (Some (PlainErr err), st)
      | Inr resp \<Rightarrow> handleRemoteResponse v e cx resp (current_trace e) ty name action tags note st)"

definition CheckTool ::
  "check_env \<Rightarrow> policy_enforcer \<Rightarrow> call_context \<Rightarrow> string \<Rightarrow> string \<Rightarrow> string \<Rightarrow> string list \<Rightarrow> string \<Rightarrow>
   string list \<Rightarrow> approval_store \<Rightarrow> event list \<times> check_error option \<times> approval_store" where
  "CheckTool v e cx ty name action tags note sensitivity st =
     (let invoked = (case ef_toolAuditor e of None \<Rightarrow> []
            | Some ta \<Rightarrow> RecordToolInvoked ta (ce_inv_uid v) (fst (ce_now v)) (cx_trace cx) ty name action tags);
          refused = (\<lambda>policyName msg. (invoked @ audit_decision v e cx ((base_decision cx ty name action tags)\<lparr>
            pd_Effect := ''deny'', pd_PolicyName := policyName, pd_Message := msg, pd_Note := note\<rparr>),
            Some (PlainErr msg), st))
      in if readonly_blocked v action then refused ''readonly_governed_mode'' (readonly_message ty action)
         else if purpose_missing e cx sensitivity
         then refused ''require_purpose_for_sensitive'' (purpose_message cx ty name sensitivity)
         else if ef_policyCheckURL e \<noteq> [] then
           (invoked, check_remote v e cx ty name action tags note sensitivity st)
         else (case ef_engine e of
             None \<Rightarrow> (invoked, None, st)
           | Some eng \<Rightarrow> apfst (append invoked) (check_local v e cx eng ty name action tags note sensitivity st)))"

definition CheckDatabase ::
  "check_env \<Rightarrow> policy_enforcer \<Rightarrow> call_context \<Rightarrow> string \<Rightarrow> string \<Rightarrow> string list \<Rightarrow> string \<Rightarrow> string list \<Rightarrow>
   approval_store \<Rightarrow> event list \<times> check_error option \<times> approval_store" where
  "CheckDatabase v e cx dbName action tags note sensitivity st =
     CheckTool v e cx ''database'' dbName action tags note sensitivity st"

definition CheckKubernetes ::
  "check_env \<Rightarrow> policy_enforcer \<Rightarrow> call_context \<Rightarrow> string \<Rightarrow> string \<Rightarrow> string list \<Rightarrow> string \<Rightarrow> string list \<Rightarrow>
   approval_store \<Rightarrow> event list \<times> check_error option \<times> approval_store" where
  "CheckKubernetes v e cx ns action tags note sensitivity st =
     CheckTool v e cx ''kubernetes'' ns action tags note sensitivity st"

section \<open>Checks of measured effects\<close>

record tool_outcome =
  to_RowsAffected :: int
  to_PodsAffected :: int
  to_Err :: "string option"

text \<open>The common part of the two checks: remote denials count, and so do local ones, which are audited.\<close>

definition check_measured ::
  "check_env \<Rightarrow> policy_enforcer \<Rightarrow> call_context \<Rightarrow> policy_check_request \<Rightarrow> request \<Rightarrow> policy_decision \<Rightarrow>
   event list \<times> check_error option" where
  "check_measured v e cx rreq lreq pd =
     (if ef_policyCheckURL e \<noteq> [] then
        (case callRemotePolicyCheck (ce_remote v rreq) of
           Inl err \<Rightarrow> ([], Some (PlainErr err))
         | Inr resp \<Rightarrow> ([], if px_Effect resp \<noteq> ''deny'' then None else Some (remote_denial resp)))
      else (case ef_engine e of
          None \<Rightarrow> ([], None)
        | Some eng \<Rightarrow>
            (let trace = Explain (ce_tz v) (ce_now v) eng lreq; d = dt_Decision trace in
             if dc_Effect d \<noteq> EffectDeny then ([], None)
             else (audit_decision v e cx (explained v pd trace cx),
               Some (PolicyErr (DeniedError d (dt_Explanation trace)))))))"

definition CheckResult ::
  "check_env \<Rightarrow> policy_enforcer \<Rightarrow> call_context \<Rightarrow> string \<Rightarrow> string \<Rightarrow> string \<Rightarrow> string list \<Rightarrow> tool_outcome \<Rightarrow>
   event list \<times> check_error option" where
  "CheckResult v e cx ty name action tags out =
     (if to_Err out \<noteq> None then ([], None)
      else if action = ActionRead \<and> to_RowsAffected out = 0 \<and> to_PodsAffected out = 0 then ([], None)
      else check_measured v e cx
        ((remote_request e cx ty name action tags)\<lparr>cq_RowsAffected := to_RowsAffected out,
          cq_PodsAffected := to_PodsAffected out, cq_PostExecution := True\<rparr>)
        (let r = local_request e cx ty name action tags [] [] in
         r\<lparr>rq_Context := (rq_Context r)\<lparr>rc_RowsAffected := to_RowsAffected out, rc_PodsAffected := to_PodsAffected out\<rparr>\<rparr>)
        ((base_decision cx ty name action tags)\<lparr>pd_PostExecution := True\<rparr>))"

definition CheckDatabaseSessionAge ::
  "check_env \<Rightarrow> policy_enforcer \<Rightarrow> call_context \<Rightarrow> string \<Rightarrow> string \<Rightarrow> string list \<Rightarrow> int \<Rightarrow> bool \<Rightarrow>
   event list \<times> check_error option" where
  "CheckDatabaseSessionAge v e cx dbName action tags xactAgeSecs hasWrites =
     (if \<not> hasWrites \<or> xactAgeSecs = 0 then ([], None)
      else check_measured v e cx
        ((remote_request e cx ''database'' dbName action tags)\<lparr>cq_XactAgeSecs := xactAgeSecs\<rparr>)
        (let r = local_request e cx ''database'' dbName action tags [] [] in
         r\<lparr>rq_Context := (rq_Context r)\<lparr>rc_XactAgeSecs := xactAgeSecs\<rparr>\<rparr>)
        (base_decision cx ''database'' dbName action tags))"

section \<open>Facts about the approval workflow\<close>

text \<open>An approval that covers a resource at an instant.\<close>

definition granted :: "time \<Rightarrow> string \<Rightarrow> stored_approval \<Rightarrow> bool" where
  "granted now key a \<longleftrightarrow> ap_Status a = ''approved'' \<and> ap_ToolName a = key \<and>
     (ap_ApprovalValidUntil a = 0 \<or> now \<le> ap_ApprovalValidUntil a)"

lemma tool_key_nonempty [simp]: "tool_key ty name \<noteq> []"
  by (simp add: tool_key_def)

lemma client_list_sound:
  assumes "slice_sort srt" "client_list srt status agent trace tool limit st = Inr xs" "a \<in> set xs"
  shows "a \<in> set (st_rows st) \<and> (status = [] \<or> ap_Status a = status) \<and> (tool = [] \<or> ap_ToolName a = tool)"
proof -
  have "a \<in> set (srt created_later (filter (query_selects \<lparr>qo_Status = status, qo_AgentName = agent, qo_TraceID = trace,
      qo_RequestedBy = [], qo_ToolName = tool, qo_Since = 0, qo_Limit = if limit > 0 then limit else 100\<rparr>) (st_rows st)))"
    using assms(2,3) by (auto simp: client_list_def ListRequests_def Let_def dest: in_set_takeD split: if_splits)
  then show ?thesis
    by (auto simp: slice_sort.srt_set [OF assms(1)] query_selects_def)
qed

lemma FindApprovalByTool_approved:
  assumes "slice_sort srt" "FindApprovalByTool srt now key agent st = Inr (Some a)" "ap_Status a = ''approved''"
    and "key \<noteq> []"
  shows "a \<in> set (st_rows st) \<and> granted now key a"
  using assms client_list_sound [OF assms(1)]
  by (fastforce simp: FindApprovalByTool_def granted_def dest!: find_Some_mem split: sum.splits option.splits list.splits)

lemma CheckExistingApproval_approved:
  assumes "slice_sort srt" "CheckExistingApproval srt now trace key st = Inr (Some a)" "key \<noteq> []"
  shows "a \<in> set (st_rows st) \<and> granted now key a"
  using assms client_list_sound [OF assms(1)]
  by (fastforce simp: CheckExistingApproval_def granted_def dest!: find_Some_mem split: sum.splits if_splits)

lemma create_approval_blocks: "fst (create_approval v e cx traceID ty name action tags note st) \<noteq> None"
  by (auto simp: create_approval_def Let_def split: option.splits prod.splits sum.splits)

lemma requestApproval_None:
  assumes "slice_sort (ce_srt v)" "requestApproval v e cx traceID ty name action tags note st = (None, st')"
  shows "st' = st \<and> (\<exists>r \<in> set (st_rows st). granted (fst (ce_now v)) (tool_key ty name) r)"
  using assms create_approval_blocks [of v e cx traceID ty name action tags "note" st]
  by (auto simp: requestApproval_def Let_def split: option.splits sum.splits if_splits
      dest!: FindApprovalByTool_approved [OF assms(1)] CheckExistingApproval_approved [OF assms(1)])

section \<open>The audit service as the remote side\<close>

text \<open>What the agent decodes of the answer of \<^verbatim>\<open>handlePolicyCheck\<close>; the body of an error has no
  field that the agent reads.\<close>

definition agent_view :: "policy_check_response \<Rightarrow> policy_check_resp" where
  "agent_view r = \<lparr>px_Effect = cp_Effect r, px_PolicyName = cp_PolicyName r, px_Message = cp_Message r,
     px_Explanation = cp_Explanation r, px_EventID = cp_EventID r\<rparr>"

definition auditd_reply :: "check_args \<Rightarrow> governance_server \<Rightarrow> audit_store \<Rightarrow> policy_check_request \<Rightarrow> remote_reply" where
  "auditd_reply a s ast req = (case fst (handlePolicyCheck a s (Body req) ast) of
     (code, Inr resp) \<Rightarrow> Reply code (Some (agent_view resp))
   | (code, Inl _) \<Rightarrow> Reply code (Some \<lparr>px_Effect = [], px_PolicyName = [], px_Message = [], px_Explanation = [],
       px_EventID = []\<rparr>))"

section \<open>Facts about the checks\<close>

lemma handleRemoteResponse_None:
  assumes "slice_sort (ce_srt v)" "handleRemoteResponse v e cx resp traceID ty name action tags note st = (None, st')"
  shows "st' = st \<and> px_Effect resp \<noteq> ''deny'' \<and> (px_Effect resp = ''require_approval'' \<longrightarrow>
    ef_approvalClient e \<and> (\<exists>r \<in> set (st_rows st). granted (fst (ce_now v)) (tool_key ty name) r))"
  using assms requestApproval_None [OF assms(1)]
  by (auto simp: handleRemoteResponse_def split: if_splits)

lemma check_remote_None:
  assumes "slice_sort (ce_srt v)" "check_remote v e cx ty name action tags note sensitivity st = (None, st')"
  shows "st' = st \<and> (\<exists>code resp. ce_remote v ((remote_request e cx ty name action tags)\<lparr>cq_Note := note,
      cq_Sensitivity := sensitivity, cq_ToolName := cx_toolName cx\<rparr>) = Reply code (Some resp) \<and>
    (code = 200 \<or> code = 403) \<and> px_Effect resp \<noteq> ''deny'' \<and> (px_Effect resp = ''require_approval'' \<longrightarrow>
      ef_approvalClient e \<and> (\<exists>r \<in> set (st_rows st). granted (fst (ce_now v)) (tool_key ty name) r)))"
  using assms(2) handleRemoteResponse_None [OF assms(1)]
  by (fastforce simp: check_remote_def callRemotePolicyCheck_def
      split: sum.splits remote_reply.splits if_splits option.splits)

lemma check_local_None:
  assumes "slice_sort (ce_srt v)" "check_local v e cx eng ty name action tags note sensitivity st = (es, None, st')"
  shows "st' = st \<and> (let d = Evaluate (ce_tz v) (ce_now v) eng
      (local_request e cx ty name action tags sensitivity (cx_toolName cx)) in
    if NeedsApproval d then pre_authorised (cx_trace cx) \<or>
      ef_approvalClient e \<and> (\<exists>r \<in> set (st_rows st). granted (fst (ce_now v)) (tool_key ty name) r)
    else \<not> IsDenied d)"
  using assms(2) requestApproval_None [OF assms(1)]
  by (auto simp: check_local_def Evaluate_def Let_def split: if_splits)

lemma requestApproval_cong:
  assumes "ef_agentName e' = ef_agentName e"
  shows "requestApproval v e' cx traceID ty name action tags note st =
    requestApproval v e cx traceID ty name action tags note st"
  unfolding requestApproval_def create_approval_def assms by (rule refl)

lemma pol_request_local:
  assumes "gs_infraConfig s = None \<or> tags \<noteq> [] \<and> sensitivity \<noteq> []"
  shows "pol_request s ((remote_request e cx ty name action tags)\<lparr>cq_Note := n, cq_Sensitivity := sensitivity,
      cq_ToolName := tool\<rparr>) = local_request e cx ty name action tags sensitivity tool"
  using assms
  by (auto simp: pol_request_def remote_request_def local_request_def check_tags_def check_sensitivity_def
      tagsFromInfra_def sensitivityFromInfra_def zero_context_def Let_def case_prod_unfold)

lemma auditd_reply_decision:
  assumes "gs_policyEngine s = Some eng" "cq_ResourceType req \<noteq> []" "cq_ResourceName req \<noteq> []"
    and "cq_Action req \<noteq> []" "cq_TraceID req \<noteq> []"
  shows "callRemotePolicyCheck (auditd_reply a s ast req) =
    (let trace = Explain (ca_tz a) (ca_now a) eng (pol_request s req); d = dt_Decision trace in
     Inr \<lparr>px_Effect = dc_Effect d, px_PolicyName = dc_PolicyName d, px_Message = dc_Message d,
       px_Explanation = dt_Explanation trace, px_EventID = ''pol_'' @ take 8 (ca_eventUID a)\<rparr>)"
  using assms
  by (simp add: auditd_reply_def handlePolicyCheck_def callRemotePolicyCheck_def agent_view_def Let_def)

lemma effects_fold:
  "''allow'' = EffectAllow" "''deny'' = EffectDeny" "''require_approval'' = EffectRequireApproval"
  by (simp_all add: effect_defs)

text \<open>The verdict of the engine as both modes see it.\<close>

lemma remote_verdict:
  assumes "dc_Effect d \<in> {EffectAllow, EffectDeny, EffectRequireApproval}"
    and "NeedsApproval d \<longleftrightarrow> dc_Effect d = EffectRequireApproval"
    and "px_Effect resp = dc_Effect d" "px_PolicyName resp = dc_PolicyName d" "px_Message resp = dc_Message d"
    and "ef_agentName e' = ef_agentName e" "ef_approvalClient e' = ef_approvalClient e"
  shows "apfst (map_option check_Error) (handleRemoteResponse v e' cx resp traceID ty name action tags note st) =
    apfst (map_option check_Error)
      (if NeedsApproval d then
         (if ef_approvalClient e then requestApproval v e cx traceID ty name action tags note st
          else (Some (PolicyErr (ApprovalRequiredError d)), st))
       else if IsDenied d then (Some (PolicyErr (DeniedError d (px_Explanation resp))), st)
       else (None, st))"
  using assms requestApproval_cong [OF assms(6)]
  unfolding handleRemoteResponse_def effects_fold
  by (auto simp: IsDenied_def remote_denial_def check_Error_def)

section \<open>Properties\<close>


definition sample_env :: check_env where
  "sample_env = \<lparr>ce_mode = ''fix'', ce_tz = (\<lambda>_. None), ce_now = (1, 0), ce_inv_uid = [], ce_pol_uid = [],
     ce_apr_uid = ''0a1b2c3d'', ce_traceJSON = (\<lambda>_. []), ce_contextJSON = (\<lambda>_ _. []), ce_remote = (\<lambda>_. NoReply),
     ce_srt = insertionSort, ce_find_fault = None, ce_check_fault = None, ce_create_fault = None,
     ce_insert_fault = None\<rparr>"

definition sample_cx :: call_context where
  "sample_cx = \<lparr>cx_trace = Some \<lparr>tc_TraceID = ''tr_1'', tc_ParentID = [], tc_Origin = ''agent'',
     tc_Principal = zero_principal\<lparr>pr_UserID := ''alice''\<rparr>, tc_Purpose = ''diagnostic'', tc_PurposeNote = [],
     tc_PurposeExplicit = True, tc_ApprovalMode = [], tc_ApprovalSession = []\<rparr>, cx_toolName = ''kill_idle''\<rparr>"

definition sample_enforcer :: "engine \<Rightarrow> policy_enforcer" where
  "sample_enforcer eng = (NewPolicyEnforcer (Some eng) (Some ''tr_1''))\<lparr>ef_approvalClient := True,
     ef_agentName := ''database_agent''\<rparr>"

lemma sample_fields [simp]:
  "ce_tz sample_env = (\<lambda>_. None)" "ce_now sample_env = (1, 0)" "ce_srt sample_env = insertionSort"
  "ef_policyCheckURL (sample_enforcer eng) = []" "ef_engine (sample_enforcer eng) = Some eng"
  "ef_approvalClient (sample_enforcer eng)" "ef_agentName (sample_enforcer eng) = ''database_agent''"
  "ef_toolAuditor (sample_enforcer eng) = None" "current_trace (sample_enforcer eng) = ''tr_1''"
  "cx_toolName sample_cx = ''kill_idle''" "\<not> pre_authorised (cx_trace sample_cx)"
  "\<not> readonly_blocked sample_env action" "\<not> purpose_missing (sample_enforcer eng) cx sens"
  "slice_sort insertionSort"
  by (simp_all add: sample_env_def sample_enforcer_def NewPolicyEnforcer_def sample_cx_def pre_authorised_def
      current_trace_def readonly_blocked_def ToLower_def lower_char_def purpose_missing_def ins.slice_sort_axioms)

definition sample_conditions :: conditions where
  "sample_conditions = \<lparr>co_RequireApproval = False, co_ApprovalQuorum = 0, co_MaxRowsAffected = 100,
     co_MaxPodsAffected = 0, co_MaxXactAgeSecs = 0, co_Schedule = None, co_AllowedPurposes = [],
     co_BlockedPurposes = []\<rparr>"

definition one_rule_engine :: "conditions \<Rightarrow> engine" where
  "one_rule_engine c = \<lparr>en_Config = \<lparr>cfg_Version = ''1'', cfg_Policies =
     [\<lparr>pol_Name = ''prod-db'', pol_Description = [], pol_Enabled = None, pol_Priority = 100, pol_Principals = [],
       pol_Resources = [any_resource ''database''],
       pol_Rules = [\<lparr>ru_Action = [''write''], ru_Effect = ''allow'', ru_Conditions = Some c, ru_Message = []\<rparr>]\<rparr>]\<rparr>,
     en_DefaultEffect = ''deny'', en_DryRun = False\<rparr>"

abbreviation sample_local_request :: "engine \<Rightarrow> request" where
  "sample_local_request eng \<equiv> local_request (sample_enforcer eng) sample_cx ''database'' ''orders'' ''write''
     [''production''] [] ''kill_idle''"

lemma with_timestamp_counts:
  "rc_RowsAffected (rq_Context (with_timestamp now r)) = rc_RowsAffected (rq_Context r)"
  "rc_PodsAffected (rq_Context (with_timestamp now r)) = rc_PodsAffected (rq_Context r)"
  "rc_XactAgeSecs (rq_Context (with_timestamp now r)) = rc_XactAgeSecs (rq_Context r)"
  "rq_Principal (with_timestamp now r) = rq_Principal r" "rq_Resource (with_timestamp now r) = rq_Resource r"
  "rq_Action (with_timestamp now r) = rq_Action r"
  by (simp_all add: with_timestamp_def)

lemma one_rule_decision:
  assumes "co_Schedule c = None"
  shows "dc_Effect (Evaluate (\<lambda>_. None) now (one_rule_engine c) (sample_local_request (one_rule_engine c))) =
      (if purpose_refused c (sample_local_request (one_rule_engine c)) then EffectDeny
       else if co_RequireApproval c then EffectRequireApproval else EffectAllow)"
    and "dc_RequiresApproval (Evaluate (\<lambda>_. None) now (one_rule_engine c) (sample_local_request (one_rule_engine c)))
      \<longleftrightarrow> co_RequireApproval c"
proof -
  let ?r = "sample_local_request (one_rule_engine c)" and ?e = "one_rule_engine c"
  let ?p = "hd (cfg_Policies (en_Config ?e))"
  have nolim: "limits_exceeded c (with_timestamp now ?r) \<longleftrightarrow> False"
    unfolding limits_exceeded_def Let_def with_timestamp_counts
    by (auto simp: local_request_def zero_context_def Let_def case_prod_unfold)
  have pur: "purpose_refused c (with_timestamp now ?r) = purpose_refused c ?r"
    by (simp add: with_timestamp_def purpose_refused_def)
  have rule: "ru_Conditions (hd (pol_Rules ?p)) = Some c" "ru_Effect (hd (pol_Rules ?p)) = EffectAllow"
    by (simp_all add: one_rule_engine_def effect_defs)
  have g: "governs (\<lambda>_. None) (with_timestamp now ?r) (?p, 0, hd (pol_Rules ?p))"
    unfolding governs_def with_timestamp_counts using assms
    by (simp add: one_rule_engine_def local_request_def matchesPrincipal_def matchesResource_def
        resource_entry_matches_def any_resource_def rule_scheduled_def IsEnabled_def Let_def case_prod_unfold)
  have d: "Evaluate (\<lambda>_. None) now ?e ?r = fst (rule_decision ?p 0 (hd (pol_Rules ?p)) (with_timestamp now ?r))"
    using g by (simp add: Evaluate_enforcing first_match_def candidates_def one_rule_engine_def decide_def)
  show "dc_Effect (Evaluate (\<lambda>_. None) now ?e ?r) =
      (if purpose_refused c ?r then EffectDeny else if co_RequireApproval c then EffectRequireApproval else EffectAllow)"
    unfolding d by (simp add: rule_decision_def rule applyConditions_effect nolim pur)
  show "dc_RequiresApproval (Evaluate (\<lambda>_. None) now ?e ?r) \<longleftrightarrow> co_RequireApproval c"
    unfolding d by (simp add: rule_decision_def rule applyConditions_requires)
qed

lemma sample_local_runs:
  "\<exists>es. CheckTool sample_env (sample_enforcer (one_rule_engine sample_conditions)) sample_cx ''database'' ''orders''
     ''write'' [''production''] [] [] st = (es, None, st)"
  using one_rule_decision [of sample_conditions "(1, 0)"]
  by (simp add: CheckTool_def check_local_def Evaluate_def sample_conditions_def purpose_refused_def
      NeedsApproval_def IsDenied_def Let_def)




text \<open>an approval overrides a denial in local mode. When the first governing rule demands approval
  and one of its limits or purposes refuses the call, the decision is a denial that carries the approval
  flag. A pre-authorised call runs all the same, because the flag is tested before the effect; in remote mode
  the same decision is refused.\<close>

theorem denial_overridden:
  assumes "ef_policyCheckURL e = []" "ef_engine e = Some eng"
    and "\<not> readonly_blocked v action" "\<not> purpose_missing e cx sensitivity" "pre_authorised (cx_trace cx)"
    and "d = Evaluate (ce_tz v) (ce_now v) eng
      (local_request e cx ty name action tags sensitivity (cx_toolName cx))"
    and "IsDenied d" "dc_RequiresApproval d" "px_Effect resp = dc_Effect d"
  shows "snd (CheckTool v e cx ty name action tags note sensitivity st) = (None, st) \<and>
    handleRemoteResponse v e cx resp traceID ty name action tags note st = (Some (remote_denial resp), st)"
  using assms
  by (simp add: CheckTool_def check_local_def Evaluate_def NeedsApproval_def IsDenied_def handleRemoteResponse_def
      effects_fold Let_def)

definition strict_conditions :: conditions where
  "strict_conditions = sample_conditions\<lparr>co_RequireApproval := True, co_AllowedPurposes := [''maintenance'']\<rparr>"

definition auto_cx :: call_context where
  "auto_cx = sample_cx\<lparr>cx_trace := map_option (tc_ApprovalMode_update (\<lambda>_. ''auto'')) (cx_trace sample_cx)\<rparr>"

theorem denial_overridden_witness:
  "let eng = one_rule_engine strict_conditions in
   IsDenied (Evaluate (\<lambda>_. None) (1, 0) eng (sample_local_request eng)) \<and>
   snd (CheckTool sample_env (sample_enforcer eng) auto_cx ''database'' ''orders'' ''write'' [''production''] [] [] (NewApprovalStore [])) = (None, NewApprovalStore [])"
proof -
  let ?eng = "one_rule_engine strict_conditions"
  have same: "local_request (sample_enforcer ?eng) auto_cx ''database'' ''orders'' ''write'' [''production''] []
      (cx_toolName auto_cx) = sample_local_request ?eng"
    by (simp add: local_request_def auto_cx_def sample_cx_def trace_principal_def PurposeFromContext_def)
  have c: "co_Schedule strict_conditions = None" "co_RequireApproval strict_conditions"
    by (simp_all add: strict_conditions_def sample_conditions_def)
  have "purpose_refused strict_conditions (sample_local_request eng)" for eng
    by (simp add: purpose_refused_def strict_conditions_def local_request_def sample_cx_def PurposeFromContext_def Let_def)
  then have d: "IsDenied (Evaluate (\<lambda>_. None) (1, 0) ?eng (sample_local_request ?eng))"
      "dc_RequiresApproval (Evaluate (\<lambda>_. None) (1, 0) ?eng (sample_local_request ?eng))"
    using one_rule_decision [OF c(1), of "(1, 0)"] c(2) by (simp_all add: IsDenied_def)
  have "snd (CheckTool sample_env (sample_enforcer ?eng) auto_cx ''database'' ''orders'' ''write'' [''production''] [] [] (NewApprovalStore [])) = (None, NewApprovalStore [])"
    by (rule denial_overridden [where eng = ?eng and resp = "\<lparr>px_Effect = EffectDeny, px_PolicyName = [], px_Message = [],
          px_Explanation = [], px_EventID = []\<rparr>", OF _ _ _ _ _ refl, THEN conjunct1])
       (use d in \<open>simp_all add: same IsDenied_def, simp add: auto_cx_def sample_cx_def pre_authorised_def\<close>)
  with d show ?thesis by (simp add: Let_def)
qed

lemma singleton_sort: "slice_sort srt \<Longrightarrow> srt lt [x] = [x]"
  using slice_sort.perm [of srt lt "[x]"] by simp

lemma client_list_total: "\<exists>xs. client_list srt status agent trace tool limit st = Inr xs"
  by (simp add: client_list_def ListRequests_def Let_def)

lemma client_list_new:
  assumes "slice_sort srt" "\<forall>r \<in> set (st_rows st). ap_ToolName r \<noteq> key" "key \<noteq> []" "st_rows st' = st_rows st @ [x]"
  shows "client_list srt status agent [] key limit st' =
    Inr (if (status = [] \<or> ap_Status x = status) \<and> (agent = [] \<or> ap_AgentName x = agent) \<and> ap_ToolName x = key
      then [x] else [])"
proof -
  have "filter (query_selects \<lparr>qo_Status = status, qo_AgentName = agent, qo_TraceID = [], qo_RequestedBy = [],
      qo_ToolName = key, qo_Since = 0, qo_Limit = l\<rparr>) (st_rows st) = []" for l
    using assms(2,3) by (auto simp: filter_empty_conv query_selects_def)
  moreover have "srt created_later [] = []"
    using slice_sort.perm [OF assms(1), of created_later "[]"] by simp
  ultimately show ?thesis
    using assms(3,4) singleton_sort [OF assms(1)]
    by (simp add: client_list_def ListRequests_def query_selects_def Let_def)
qed

lemma FindApprovalByTool_new:
  assumes "slice_sort srt" "\<forall>r \<in> set (st_rows st). ap_ToolName r \<noteq> key" "key \<noteq> []" "st_rows st' = st_rows st @ [x]"
    and "ap_ToolName x = key" "ap_AgentName x = agent"
  shows "FindApprovalByTool srt now key agent st' = Inr (
    if ap_Status x = ''approved'' \<and> (ap_ApprovalValidUntil x = 0 \<or> now < ap_ApprovalValidUntil x)
      \<or> ap_Status x = ''pending'' then Some x else None)"
  using assms(5,6) by (simp add: FindApprovalByTool_def client_list_new [OF assms(1-4)])

lemma FindApprovalByTool_none:
  assumes "slice_sort srt" "\<forall>r \<in> set (st_rows st). ap_ToolName r \<noteq> key" "key \<noteq> []"
  shows "FindApprovalByTool srt now key agent st = Inr None" "CheckExistingApproval srt now trace key st = Inr None"
proof -
  have "client_list srt status agent' trace' key limit st = Inr []" for status agent' trace' limit
  proof -
    obtain xs where xs: "client_list srt status agent' trace' key limit st = Inr xs"
      using client_list_total by blast
    have "x \<notin> set xs" for x
      using client_list_sound [OF assms(1) xs, of x] assms(2,3) by auto
    with xs show ?thesis by (cases xs) auto
  qed
  then show "FindApprovalByTool srt now key agent st = Inr None"
    by (simp add: FindApprovalByTool_def)
  show "CheckExistingApproval srt now trace key st = Inr None"
  proof (cases "CheckExistingApproval srt now trace key st")
    case (Inl e)
    then show ?thesis
      using client_list_total [of srt "''approved''" "[]" trace "[]" 10 st]
      by (auto simp: CheckExistingApproval_def split: if_splits)
  next
    case (Inr r)
    with CheckExistingApproval_approved [OF assms(1), of now trace key st] assms(2,3) show ?thesis
      by (cases r) (auto simp: granted_def)
  qed
qed

definition new_request ::
  "check_env \<Rightarrow> policy_enforcer \<Rightarrow> call_context \<Rightarrow> string \<Rightarrow> string \<Rightarrow> string \<Rightarrow> string \<Rightarrow> string list \<Rightarrow> string \<Rightarrow> stored_approval" where
  "new_request v e cx traceID ty name action tags note = zero_stored\<lparr>ap_ApprovalID := ''apr_'' @ take 8 (ce_apr_uid v),
     ap_TraceID := traceID, ap_Status := ''pending'', ap_ActionClass := action, ap_ToolName := tool_key ty name,
     ap_AgentName := ef_agentName e, ap_ResourceType := ty, ap_ResourceName := name,
     ap_RequestedBy := (let u = pr_UserID (trace_principal (cx_trace cx)) in if u = [] then ef_agentName e else u),
     ap_RequestedAt := fst (ce_now v), ap_RequestContext := ce_contextJSON v tags note,
     ap_ExpiresAt := time_add (fst (ce_now v)) (60 * Minute), ap_CreatedAt := fst (ce_now v), ap_UpdatedAt := fst (ce_now v)\<rparr>"

lemma create_approval_new:
  assumes "ce_create_fault v = None" "ce_insert_fault v = None" "action \<noteq> []"
    and "pr_UserID (trace_principal (cx_trace cx)) \<noteq> [] \<or> ef_agentName e \<noteq> []"
    and "\<forall>r \<in> set (st_rows st). ap_ApprovalID r \<noteq> ''apr_'' @ take 8 (ce_apr_uid v)"
  shows "create_approval v e cx traceID ty name action tags note st =
    (Some (ApprovalPendingError (''apr_'' @ take 8 (ce_apr_uid v))),
     st\<lparr>st_rows := st_rows st @ [new_request v e cx traceID ty name action tags note]\<rparr>)"
proof -
  have "\<not> list_ex (\<lambda>r. ap_ApprovalID r = ''apr_'' @ take 8 (ce_apr_uid v)) (st_rows st)"
    using assms(5) by (simp add: list_ex_iff)
  with assms(1-4) show ?thesis
    by (auto simp: create_approval_def handleCreateApproval_def CreateRequest_def new_request_def zero_stored_def Let_def)
qed

text \<open>C8: the approval workflow from the agent to the store and back. A call that needs approval, for a
  resource no request names yet, stores one pending request in the name of the user and tells its ID; a retry
  finds the pending request and stores nothing. After it is approved, a retry succeeds as long as the
  approval lasts, in any later turn, and for every action, since the request is looked up by resource only.\<close>

theorem approval_workflow:
  assumes "slice_sort (ce_srt v)" "ce_find_fault v = None" "ce_create_fault v = None" "ce_insert_fault v = None"
    and "action \<noteq> []" "pr_UserID (trace_principal (cx_trace cx)) \<noteq> [] \<or> ef_agentName e \<noteq> []"
    and "\<forall>r \<in> set (st_rows st). ap_ApprovalID r \<noteq> ''apr_'' @ take 8 (ce_apr_uid v)"
    and "\<forall>r \<in> set (st_rows st). ap_ToolName r \<noteq> tool_key ty name"
    and "requestApproval v e cx traceID ty name action tags note st = (err, st1)"
    and "Approve None None now i who why validFor st1 = (Inr (), st2)" "i = ''apr_'' @ take 8 (ce_apr_uid v)"
    and "slice_sort (ce_srt v')" "ce_find_fault v' = None"
    and "validFor \<le> 0 \<or> fst (ce_now v') < time_add now validFor"
  shows "err = Some (ApprovalPendingError i) \<and>
    st_rows st1 = st_rows st @ [new_request v e cx traceID ty name action tags note] \<and>
    requestApproval v' e cx' traceID' ty name action' tags' note' st1 = (Some (ApprovalPendingError i), st1) \<and>
    requestApproval v' e cx' traceID' ty name action' tags' note' st2 = (None, st2)"
proof -
  let ?x = "new_request v e cx traceID ty name action tags note" and ?key = "tool_key ty name"
  have x: "ap_ToolName ?x = ?key" "ap_AgentName ?x = ef_agentName e" "ap_Status ?x = ''pending''" "ap_ApprovalID ?x = i"
    using assms(11) by (simp_all add: new_request_def)
  have "requestApproval v e cx traceID ty name action tags note st = create_approval v e cx traceID ty name action tags note st"
    using FindApprovalByTool_none [OF assms(1,8)] assms(2)
    by (auto simp: requestApproval_def Let_def split: option.split)
  then have r1: "err = Some (ApprovalPendingError i)" "st_rows st1 = st_rows st @ [?x]"
    using create_approval_new [OF assms(3-7), of traceID ty name tags "note"] assms(9,11) by auto
  have "st_rows st2 = map (\<lambda>r. if is_pending_row i r then approve_row now who why validFor r else r) (st_rows st1)"
    using assms(10) by (auto simp: Approve_def resolve_row_def split: if_splits)
  moreover have "map (\<lambda>r. if is_pending_row i r then approve_row now who why validFor r else r) (st_rows st) = st_rows st"
    using assms(7,11) by (intro map_idI) (auto simp: is_pending_row_def)
  ultimately have r2: "st_rows st2 = st_rows st @ [approve_row now who why validFor ?x]"
    using r1(2) x by (simp add: is_pending_row_def)
  have f1: "FindApprovalByTool (ce_srt v') (fst (ce_now v')) ?key (ef_agentName e) st1 = Inr (Some ?x)"
    using FindApprovalByTool_new [OF assms(12,8) tool_key_nonempty r1(2) x(1,2)] x(3) by simp
  have f2: "FindApprovalByTool (ce_srt v') (fst (ce_now v')) ?key (ef_agentName e) st2 =
      Inr (Some (approve_row now who why validFor ?x))"
    using FindApprovalByTool_new [OF assms(12,8) tool_key_nonempty r2] x assms(14)
    by (auto simp: approve_row_def)
  show ?thesis
    using r1 f1 f2 x assms(13) by (simp add: requestApproval_def approve_row_def Let_def)
qed

theorem approval_workflow_witness:
  "let e = sample_enforcer (one_rule_engine sample_conditions);
       st1 = snd (requestApproval sample_env e sample_cx ''tr_1'' ''database'' ''orders'' ''write'' [] [] (NewApprovalStore []));
       st2 = snd (Approve None None 20 ''apr_0a1b2c3d'' ''bob'' [] 0 st1) in
   fst (requestApproval sample_env e sample_cx ''tr_2'' ''database'' ''orders'' ''destructive'' [] [] st2) = None"
proof -
  let ?e = "sample_enforcer (one_rule_engine sample_conditions)" and ?st = "NewApprovalStore []"
  define st1 where "st1 = snd (requestApproval sample_env ?e sample_cx ''tr_1'' ''database'' ''orders'' ''write'' [] [] ?st)"
  define st2 where "st2 = snd (Approve None None 20 ''apr_0a1b2c3d'' ''bob'' [] 0 st1)"
  have f: "ce_find_fault sample_env = None" "ce_create_fault sample_env = None" "ce_insert_fault sample_env = None"
      "''apr_0a1b2c3d'' = ''apr_'' @ take 8 (ce_apr_uid sample_env)"
      "pr_UserID (trace_principal (cx_trace sample_cx)) \<noteq> [] \<or> ef_agentName ?e \<noteq> []"
    by (simp_all add: sample_env_def sample_cx_def trace_principal_def)
  have rows: "st_rows ?st = []" by (simp add: NewApprovalStore_def)
  have "requestApproval sample_env ?e sample_cx ''tr_1'' ''database'' ''orders'' ''write'' [] [] ?st =
      create_approval sample_env ?e sample_cx ''tr_1'' ''database'' ''orders'' ''write'' [] [] ?st"
    using FindApprovalByTool_none [of insertionSort ?st "tool_key ''database'' ''orders''"] f(1) rows
    by (auto simp: requestApproval_def Let_def split: option.split)
  also have "\<dots> = (Some (ApprovalPendingError ''apr_0a1b2c3d''), ?st\<lparr>st_rows :=
      [new_request sample_env ?e sample_cx ''tr_1'' ''database'' ''orders'' ''write'' [] []]\<rparr>)"
    using create_approval_new [OF f(2,3) _ f(5), of "''write''" ?st] f(4) rows by simp
  finally have r: "requestApproval sample_env ?e sample_cx ''tr_1'' ''database'' ''orders'' ''write'' [] [] ?st =
      (Some (ApprovalPendingError ''apr_0a1b2c3d''), st1)" "st_rows st1 =
      [new_request sample_env ?e sample_cx ''tr_1'' ''database'' ''orders'' ''write'' [] []]"
    by (simp_all add: st1_def)
  have ap: "Approve None None 20 ''apr_0a1b2c3d'' ''bob'' [] 0 st1 = (Inr (), st2)"
    using f(4) r(2) by (simp add: st2_def Approve_def resolve_row_def is_pending_row_def new_request_def)
  have "fst (requestApproval sample_env ?e sample_cx ''tr_2'' ''database'' ''orders'' ''destructive'' [] [] st2) = None"
    by (subst approval_workflow [OF _ f(1-3) _ f(5) _ _ r(1) ap f(4) _ f(1), THEN conjunct2, THEN conjunct2, THEN conjunct2])
       (simp_all add: rows)
  then show ?thesis by (simp add: Let_def st2_def [unfolded st1_def])
qed

text \<open>C38: the remote check against failures. Every failure of the transport, every status but 200 and
  403 and every body that does not decode blocks the tool. A body that decodes is taken by its effect, and
  an effect that is none of the three known ones, the empty one included, lets the tool run, also when
  the status was 403.\<close>

theorem remote_failures_block:
  "(case callRemotePolicyCheck r of
      Inl _ \<Rightarrow> snd (CheckTool (v\<lparr>ce_remote := (\<lambda>_. r)\<rparr>) (e\<lparr>ef_policyCheckURL := CHR ''u'' # url\<rparr>) cx ty name action tags note sens st)
          \<noteq> (None, st)
    | Inr resp \<Rightarrow> (\<exists>code. r = Reply code (Some resp) \<and> (code = 200 \<or> code = 403)) \<and>
        (px_Effect resp \<in> {''allow'', ''deny'', ''require_approval''} \<or>
         snd (CheckTool (v\<lparr>ce_remote := (\<lambda>_. r), ce_mode := ''fix''\<rparr>) (e\<lparr>ef_policyCheckURL := CHR ''u'' # url,
             ef_requirePurposeForSensitive := False\<rparr>) cx ty name action tags note sens st) = (None, st)))"
proof (cases "callRemotePolicyCheck r")
  case (Inl err)
  then show ?thesis
    by (auto simp: CheckTool_def check_remote_def Let_def)
next
  case (Inr resp)
  then have "\<exists>code. r = Reply code (Some resp) \<and> (code = 200 \<or> code = 403)"
    by (auto simp: callRemotePolicyCheck_def split: remote_reply.splits if_splits option.splits)
  moreover have "\<not> readonly_blocked (v\<lparr>ce_remote := (\<lambda>_. r), ce_mode := ''fix''\<rparr>) action"
    by (simp add: readonly_blocked_def ToLower_def lower_char_def)
  ultimately show ?thesis
    using Inr by (auto simp: CheckTool_def check_remote_def purpose_missing_def handleRemoteResponse_def Let_def)
qed

end
