(* ===== verification/Go_Float.thy ===== *)
theory Go_Float
  imports Prelude Complex_Main
begin

text \<open>
  The \<^verbatim>\<open>float64\<close> values of the rollout strategy. A value is the rational number it stands
  for, \<open>round_even\<close> is the rounding to the nearest integer with ties to even, and \<open>fl64\<close> rounds a
  rational below \<^term>\<open>2 ^ 53 :: rat\<close> to the nearest number with a 53-bit significand, as a division
  or a product of two such values does. Values near the subnormal range do not occur. \<open>fmt0\<close> is the
  verb \<^verbatim>\<open>%.0f\<close>.
\<close>

definition round_even :: "rat \<Rightarrow> int" where
  "round_even x = (let f = \<lfloor>x\<rfloor>; r = x - of_int f in
     if r < 1 / 2 then f else if 1 / 2 < r then f + 1 else if even f then f else f + 1)"

text \<open>How often a numerator has to be doubled until the quotient reaches 53 significant bits.\<close>

function scale53 :: "nat \<Rightarrow> nat \<Rightarrow> nat" where
  "scale53 a b = (if a = 0 \<or> b * 2 ^ 52 \<le> a then 0 else Suc (scale53 (2 * a) b))"
  by pat_completeness auto
termination
  by (relation "measure (\<lambda>(a, b). b * 2 ^ 52 - a)") auto

declare scale53.simps [simp del]

definition fl64 :: "rat \<Rightarrow> rat" where
  "fl64 x = (if x \<le> 0 then x
     else let (p, q) = quotient_of x; k = scale53 (nat p) (nat q) in of_int (round_even (x * 2 ^ k)) / 2 ^ k)"

definition fmt0 :: "rat \<Rightarrow> string" where
  "fmt0 x = Itoa (round_even x)"

section \<open>The rounding error\<close>

lemma round_even_error: "\<bar>of_int (round_even x) - x\<bar> \<le> 1 / 2"
proof -
  have "of_int \<lfloor>x\<rfloor> \<le> x" "x < of_int \<lfloor>x\<rfloor> + 1"
    by linarith+
  then show ?thesis
    by (auto simp: round_even_def Let_def abs_le_iff)
qed

lemma round_even_of_int [simp]: "round_even (of_int i) = i"
  by (simp add: round_even_def)

lemma scale53_reaches: "0 < a \<Longrightarrow> b * 2 ^ 52 \<le> a * 2 ^ scale53 a b"
proof (induction a b rule: scale53.induct)
  case (1 a b)
  show ?case
  proof (cases "b * 2 ^ 52 \<le> a")
    case True
    then show ?thesis
      by (simp add: scale53.simps [of a b])
  next
    case False
    with 1 have "b * 2 ^ 52 \<le> 2 * a * 2 ^ scale53 (2 * a) b"
      by simp
    with False \<open>0 < a\<close> show ?thesis
      by (simp add: scale53.simps [of a b] mult.assoc mult.left_commute)
  qed
qed

lemma fl64_scaled:
  assumes "0 < x"
  obtains k where "fl64 x = of_int (round_even (x * 2 ^ k)) / 2 ^ k" "2 ^ 52 \<le> x * 2 ^ k"
proof -
  obtain p q where pq: "quotient_of x = (p, q)"
    by (cases "quotient_of x")
  have q: "0 < q" and x: "x = of_int p / of_int q"
    using quotient_of_denom_pos [OF pq] quotient_of_div [OF pq] by auto
  with assms have p: "0 < p"
    by (simp add: zero_less_divide_iff)
  define k where "k = scale53 (nat p) (nat q)"
  have "nat q * 2 ^ 52 \<le> nat p * 2 ^ k"
    unfolding k_def using p by (intro scale53_reaches) simp
  then have "int (nat q * 2 ^ 52) \<le> int (nat p * 2 ^ k)"
    by (simp only: of_nat_le_iff)
  then have "q * 2 ^ 52 \<le> p * 2 ^ k"
    using p q by simp
  then have "of_int (q * 2 ^ 52) \<le> (of_int (p * 2 ^ k) :: rat)"
    by (simp only: of_int_le_iff)
  then have "2 ^ 52 \<le> x * 2 ^ k"
    using q unfolding x by (simp add: pos_le_divide_eq mult.commute)
  moreover have "fl64 x = of_int (round_even (x * 2 ^ k)) / 2 ^ k"
    using assms by (simp add: fl64_def pq k_def Let_def)
  ultimately show thesis
    using that by blast
qed

lemma fl64_error:
  assumes "0 < x"
  shows "\<bar>fl64 x - x\<bar> \<le> x / 2 ^ 53"
proof -
  obtain k where k: "fl64 x = of_int (round_even (x * 2 ^ k)) / 2 ^ k" "2 ^ 52 \<le> x * 2 ^ k"
    using fl64_scaled [OF assms] .
  have "fl64 x - x = (of_int (round_even (x * 2 ^ k)) - x * 2 ^ k) / 2 ^ k"
    unfolding k by (simp add: diff_divide_distrib)
  then have "\<bar>fl64 x - x\<bar> = \<bar>of_int (round_even (x * 2 ^ k)) - x * 2 ^ k\<bar> / 2 ^ k"
    by simp
  also have "\<dots> \<le> 1 / 2 / 2 ^ k"
    by (intro divide_right_mono round_even_error) simp
  also have "\<dots> \<le> x / 2 ^ 53"
  proof -
    have "2 ^ 53 \<le> x * 2 ^ k * 2"
      using k(2) by simp
    then show ?thesis
      by (simp add: field_simps)
  qed
  finally show ?thesis .
qed

lemma fl64_half [simp]: "fl64 (1 / 2) = 1 / 2"
proof -
  obtain k where k: "fl64 (1 / 2) = of_int (round_even (1 / 2 * 2 ^ k)) / 2 ^ k" "(2 :: rat) ^ 52 \<le> 1 / 2 * 2 ^ k"
    using fl64_scaled [of "1 / 2"] by auto
  have "k \<noteq> 0"
    using k(2) by (cases k) simp_all
  then obtain j where "k = Suc j"
    using not0_implies_Suc by blast
  moreover from this have "1 / 2 * (2 :: rat) ^ k = of_int (2 ^ j)"
    by simp
  ultimately show ?thesis
    using k(1) by (metis (no_types, lifting) nonzero_eq_divide_eq of_int_0_eq_iff power_not_zero round_even_of_int zero_neq_numeral)
qed

text \<open>Against one half the rounded quotient compares as the exact one does.\<close>

lemma fl64_exceeds_half:
  assumes "0 < n" "n < 2 ^ 50" "f \<le> n"
  shows "1 / 2 < fl64 (of_nat f / of_nat n) \<longleftrightarrow> n < 2 * f"
proof -
  define x :: rat where "x = of_nat f / of_nat n"
  have n: "0 < (of_nat n :: rat)"
    using assms by simp
  have x1: "x \<le> 1"
    using assms n by (simp add: x_def)
  have big: "x / 2 ^ 53 < 1 / (2 * of_nat n)" if "0 < x"
  proof -
    have "(of_nat n :: rat) < of_nat (2 ^ 50)"
      using assms(2) by (simp only: of_nat_less_iff)
    then have "2 * of_nat n < (2 ^ 53 :: rat)"
      by simp
    then have "1 / 2 ^ 53 < 1 / (2 * of_nat n :: rat)"
      using n by (intro divide_strict_left_mono) simp_all
    moreover have "x / 2 ^ 53 \<le> 1 / 2 ^ 53"
      using x1 by (intro divide_right_mono) simp_all
    ultimately show ?thesis by linarith
  qed
  show ?thesis
  proof (cases "n" "2 * f" rule: linorder_cases)
    case less
    then have "(of_nat (n + 1) :: rat) \<le> of_nat (2 * f)"
      by (simp only: of_nat_le_iff)
    then have "(of_nat n + 1) / (2 * of_nat n) \<le> (2 * of_nat f :: rat) / (2 * of_nat n)"
      using n by (intro divide_right_mono) simp_all
    then have gap: "1 / 2 + 1 / (2 * of_nat n) \<le> x" and "0 < x"
      using n less by (simp_all add: x_def add_divide_distrib)
    then have "1 / 2 < fl64 x"
      using fl64_error [of x] big by linarith
    with less show ?thesis
      by (simp add: x_def)
  next
    case equal
    then have "x = 1 / 2"
      using n by (simp add: x_def)
    then have "fl64 (of_nat f / of_nat n) = 1 / 2"
      unfolding x_def by simp
    with equal show ?thesis
      by simp
  next
    case greater
    then have "(of_nat (2 * f + 1) :: rat) \<le> of_nat n"
      by (simp only: of_nat_le_iff)
    then have "(2 * of_nat f + 1) / (2 * of_nat n) \<le> (of_nat n :: rat) / (2 * of_nat n)"
      using n by (intro divide_right_mono) simp_all
    then have gap: "x + 1 / (2 * of_nat n) \<le> 1 / 2"
      using n by (simp add: x_def add_divide_distrib)
    have "fl64 x \<le> 1 / 2"
    proof (cases "0 < x")
      case True
      then show ?thesis
        using fl64_error [of x] big gap by linarith
    next
      case False
      then show ?thesis
        by (simp add: fl64_def)
    qed
    with greater show ?thesis
      by (simp add: x_def)
  qed
qed

end
