(* ===== verification/Fleet_Plan.thy ===== *)
theory Fleet_Plan
  imports Go_Float Go_Time Go_Json Action_Class Infra
begin

text \<open>
  The plan of a fleet job, before anything runs: the job definition of
  \<^verbatim>\<open>internal/fleet/schema.go\<close>, the selection of servers (\<^verbatim>\<open>targets.go\<close>), the stages
  (\<^verbatim>\<open>stages.go\<close>, \<^verbatim>\<open>submit.go\<close>), the class of a job (\<^verbatim>\<open>approve.go\<close>), schema drift
  (\<^verbatim>\<open>schemadrift.go\<close>) and the comparison of plans (\<^verbatim>\<open>replan.go\<close>), all of
  \<^verbatim>\<open>cmd/fleet-runner\<close>. Maps are association lists in the order in which a loop visits them, which
  Go leaves open.
\<close>

section \<open>Job definitions\<close>

record tool_snapshot =
  ts_AgentVersion :: string
  ts_SchemaFingerprint :: string
  ts_CapturedAt :: time

record step =
  st_Agent :: string
  st_Tool :: string
  st_Args :: "json_map option"
  st_OnFailure :: string

record targets =
  tg_Tags :: "string list"
  tg_Names :: "string list"
  tg_Exclude :: "string list"

record strategy =
  sy_CanaryCount :: int
  sy_WaveSize :: int
  sy_WavePauseSeconds :: int
  sy_FailureThreshold :: rat
  sy_DryRun :: bool
  sy_CountPartialAsSuccess :: bool
  sy_ApprovalTimeoutSeconds :: int
  sy_WaveGate :: bool
  sy_SchemaDrift :: string

record job_def =
  jd_Name :: string
  jd_Steps :: "step list"
  jd_Targets :: targets
  jd_Strategy :: strategy
  jd_PlanTraceID :: string
  jd_ToolSnapshots :: "(string \<times> tool_snapshot) list"
  jd_PlanDescription :: string
  jd_PlanTargetHints :: "string list"
  jd_PlanServers :: "string list"

definition Defaults :: "strategy \<Rightarrow> strategy" where
  "Defaults s = s\<lparr>sy_CanaryCount := (if sy_CanaryCount s \<le> 0 then 1 else sy_CanaryCount s),
     sy_FailureThreshold := (if sy_FailureThreshold s \<le> 0 then 1 / 2 else sy_FailureThreshold s)\<rparr>"

section \<open>Selection of servers\<close>

definition resolveTargets :: "infra_config option \<Rightarrow> targets \<Rightarrow> string + string list" where
  "resolveTargets cfg t = (case cfg of
     None \<Rightarrow> Inl ''no infrastructure configuration loaded (set HELPDESK_INFRA_CONFIG)''
   | Some c \<Rightarrow>
       (let selected = map fst (filter (\<lambda>(key, srv). key \<notin> set (tg_Exclude t) \<and>
              (key \<in> set (tg_Names t) \<or>
               list_ex (\<lambda>wantTag. list_ex (\<lambda>serverTag. serverTag = wantTag) (db_Tags srv)) (tg_Tags t)))
              (ic_DBServers c))
        in Inr (if tg_Tags t = [] \<and> tg_Names t = []
                then filter (\<lambda>key. key \<notin> set (tg_Exclude t)) (map fst (ic_DBServers c))
                else selected)))"

section \<open>Stages\<close>

function chunk_loop :: "nat \<Rightarrow> 'a list \<Rightarrow> 'a list list" where
  "chunk_loop n s = (if s = [] \<or> n = 0 then []
     else let e = (if n > length s then length s else n) in take e s # chunk_loop n (drop e s))"
  by pat_completeness auto
termination
  by (relation "measure (\<lambda>(n, s). length s)") auto

declare chunk_loop.simps [simp del]

definition chunk :: "'a list \<Rightarrow> int \<Rightarrow> 'a list list" where
  "chunk s n = (if n \<le> 0 \<or> n \<ge> int (length s) then [s] else chunk_loop (nat n) s)"

definition waves_of :: "strategy \<Rightarrow> 'a list \<Rightarrow> 'a list list" where
  "waves_of st waveServers =
     chunk waveServers (if sy_WaveSize st \<le> 0 then int (length waveServers) else sy_WaveSize st)"

definition wave_name :: "int \<Rightarrow> string" where
  "wave_name i = ''wave-'' @ Itoa (i + 1)"

definition canary_count :: "strategy \<Rightarrow> 'a list \<Rightarrow> int" where
  "canary_count st servers =
     (if sy_CanaryCount st > int (length servers) then int (length servers) else sy_CanaryCount st)"

definition stage_of :: "strategy \<Rightarrow> string list \<Rightarrow> nat \<Rightarrow> string" where
  "stage_of st servers i = (let canaryCount = canary_count st servers in
     if int i \<ge> canaryCount then
       (let waveSize = (if sy_WaveSize st \<le> 0
              then (let rest = int (length servers) - canaryCount in if rest \<le> 0 then 1 else rest)
              else sy_WaveSize st)
        in wave_name ((int i - canaryCount) div waveSize))
     else ''canary'')"

definition buildStageAssignments :: "string list \<Rightarrow> strategy \<Rightarrow> (string \<times> string) list" where
  "buildStageAssignments servers st = map (\<lambda>(i, s). (s, stage_of st servers i)) (enumerate 0 servers)"

section \<open>The class of a job\<close>

definition jobActionClass :: "step list \<Rightarrow> string" where
  "jobActionClass steps = foldl (\<lambda>highest s. let class = ClassifyTool (st_Tool s) in
     if RiskLevel class > RiskLevel highest then class else highest) ClassRead steps"

section \<open>Schema drift\<close>

record tool_entry =
  te_Name :: string
  te_SchemaFingerprint :: string
  te_AgentVersion :: string

record drift_result =
  dr_Tool :: string
  dr_Snapshot :: tool_snapshot
  dr_CurrentFingerprint :: string
  dr_CurrentVersion :: string
  dr_FingerprintChanged :: bool
  dr_VersionChanged :: bool

datatype drift_error = NoSnapshots | ToolGone string tool_snapshot | Drifted string tool_snapshot tool_entry

fun drift_loop ::
  "(string \<rightharpoonup> tool_entry) \<Rightarrow> string \<Rightarrow> (string \<times> tool_snapshot) list \<Rightarrow> drift_result list \<Rightarrow>
   drift_result list \<times> drift_error option" where
  "drift_loop live policy [] results = (results, None)"
| "drift_loop live policy ((toolName, snap) # rest) results = (case live toolName of
     None \<Rightarrow>
       (let results' = results @ [\<lparr>dr_Tool = toolName, dr_Snapshot = snap, dr_CurrentFingerprint = [],
              dr_CurrentVersion = [], dr_FingerprintChanged = (ts_SchemaFingerprint snap \<noteq> []),
              dr_VersionChanged = (ts_AgentVersion snap \<noteq> [])\<rparr>]
        in if policy = ''abort'' then (results', Some (ToolGone toolName snap))
           else drift_loop live policy rest results')
   | Some entry \<Rightarrow>
       (let fpChanged = (ts_SchemaFingerprint snap \<noteq> [] \<and> te_SchemaFingerprint entry \<noteq> [] \<and>
              ts_SchemaFingerprint snap \<noteq> te_SchemaFingerprint entry);
            verChanged = (ts_AgentVersion snap \<noteq> [] \<and> te_AgentVersion entry \<noteq> [] \<and>
              ts_AgentVersion snap \<noteq> te_AgentVersion entry);
            results' = results @ [\<lparr>dr_Tool = toolName, dr_Snapshot = snap,
              dr_CurrentFingerprint = te_SchemaFingerprint entry, dr_CurrentVersion = te_AgentVersion entry,
              dr_FingerprintChanged = fpChanged, dr_VersionChanged = verChanged\<rparr>]
        in if \<not> fpChanged \<and> \<not> verChanged then drift_loop live policy rest results
           else if fpChanged \<and> policy = ''abort'' then (results', Some (Drifted toolName snap entry))
           else drift_loop live policy rest results'))"

definition CheckSchemaDrift ::
  "(string \<times> tool_snapshot) list \<Rightarrow> tool_entry list \<Rightarrow> string \<Rightarrow> drift_result list \<times> drift_error option" where
  "CheckSchemaDrift snapshots liveTools policy =
     (if policy = ''ignore'' then ([], None)
      else if snapshots = [] then ([], if policy = ''abort'' then Some NoSnapshots else None)
      else drift_loop (map_of (rev (map (\<lambda>t. (te_Name t, t)) liveTools))) policy snapshots [])"

section \<open>Divergence of plans\<close>

record plan_divergence =
  pv_OriginalSteps :: int
  pv_FreshSteps :: int
  pv_AddedTools :: "string list"
  pv_RemovedTools :: "string list"

definition Significant :: "plan_divergence \<Rightarrow> bool" where
  "Significant d =
     (if pv_AddedTools d \<noteq> [] \<or> pv_RemovedTools d \<noteq> [] then True
      else let orig = pv_OriginalSteps d in
        if orig = 0 then pv_FreshSteps d > 0
        else let delta = pv_FreshSteps d - orig; delta' = (if delta < 0 then - delta else delta)
          in delta' * 2 > orig)"

definition checkPlanDivergence :: "job_def \<Rightarrow> job_def \<Rightarrow> plan_divergence" where
  "checkPlanDivergence original fresh =
     (let origTools = remdups (map st_Tool (jd_Steps original)); freshTools = remdups (map st_Tool (jd_Steps fresh))
      in \<lparr>pv_OriginalSteps = int (length (jd_Steps original)), pv_FreshSteps = int (length (jd_Steps fresh)),
          pv_AddedTools = filter (\<lambda>t. t \<notin> set origTools) freshTools,
          pv_RemovedTools = filter (\<lambda>t. t \<notin> set freshTools) origTools\<rparr>)"

section \<open>Chunks\<close>

lemma chunk_loop_Nil [simp]: "chunk_loop n [] = []"
  by (simp add: chunk_loop.simps)

lemma chunk_loop_step: "0 < n \<Longrightarrow> s \<noteq> [] \<Longrightarrow> chunk_loop n s = take n s # chunk_loop n (drop n s)"
  by (subst chunk_loop.simps) (auto simp: Let_def)

lemma drop_induct:
  assumes "0 < n" "P []" "\<And>s. s \<noteq> [] \<Longrightarrow> P (drop n s) \<Longrightarrow> P s"
  shows "P s"
proof (induction s rule: length_induct)
  case (1 s)
  then show ?case
    using assms by (cases "s = []") auto
qed

lemma concat_chunk_loop:
  assumes "0 < n"
  shows "concat (chunk_loop n s) = s"
proof (induction s rule: drop_induct [OF assms])
  case (2 s)
  then show ?case
    using assms by (simp add: chunk_loop_step [of n s])
qed simp

lemma chunk_loop_sizes:
  assumes "0 < n"
  shows "\<forall>w \<in> set (chunk_loop n s). w \<noteq> [] \<and> length w \<le> n"
proof (induction s rule: drop_induct [OF assms])
  case (2 s)
  then show ?case
    using assms by (simp add: chunk_loop_step [of n s])
qed simp

lemma concat_chunk [simp]: "concat (chunk s n) = s"
  by (simp add: chunk_def concat_chunk_loop)

lemma chunk_sizes: "s \<noteq> [] \<Longrightarrow> 0 < n \<Longrightarrow> \<forall>w \<in> set (chunk s n). w \<noteq> [] \<and> int (length w) \<le> n"
  using chunk_loop_sizes [of "nat n" s] by (auto simp: chunk_def)

lemma concat_waves_of [simp]: "concat (waves_of st s) = s"
  by (simp add: waves_of_def)

lemma waves_nonempty: "s \<noteq> [] \<Longrightarrow> \<forall>w \<in> set (waves_of st s). w \<noteq> []"
  using chunk_sizes [of s "if sy_WaveSize st \<le> 0 then int (length s) else sy_WaveSize st"]
  by (auto simp: waves_of_def)

text \<open>The element at position \<open>i\<close> is in the chunk with number \<open>i div n\<close>.\<close>

definition labelled :: "(nat \<Rightarrow> 'b) \<Rightarrow> 'a list list \<Rightarrow> ('a \<times> 'b) list" where
  "labelled f ws = concat (map (\<lambda>(k, w). map (\<lambda>s. (s, f k)) w) (enumerate 0 ws))"

lemma labelled_Nil [simp]: "labelled f [] = []"
  by (simp add: labelled_def)

lemma labelled_Cons [simp]: "labelled f (w # ws) = map (\<lambda>s. (s, f 0)) w @ labelled (\<lambda>k. f (Suc k)) ws"
proof -
  have "enumerate (Suc 0) ws = map (\<lambda>(k, w). (Suc k, w)) (enumerate 0 ws)"
    by (rule nth_equalityI) (auto simp: nth_enumerate_eq)
  then show ?thesis
    by (simp add: labelled_def comp_def case_prod_unfold)
qed

lemma labelled_chunk_loop:
  assumes "0 < n"
  shows "labelled f (chunk_loop n s) = map (\<lambda>(i, x). (x, f (i div n))) (enumerate 0 s)"
proof (induction s arbitrary: f rule: drop_induct [OF assms])
  case (2 s)
  have "labelled f (chunk_loop n s) = map (\<lambda>x. (x, f 0)) (take n s) @
      map (\<lambda>(i, x). (x, f (Suc (i div n)))) (enumerate 0 (drop n s))"
    using 2(1) assms by (simp add: chunk_loop_step [of n s] 2(2))
  also have "\<dots> = map (\<lambda>(i, x). (x, f (i div n))) (enumerate 0 s)"
  proof (rule nth_equalityI)
    fix i
    assume "i < length (map (\<lambda>x. (x, f 0)) (take n s) @
      map (\<lambda>(i, x). (x, f (Suc (i div n)))) (enumerate 0 (drop n s)))"
    then have "i < length s" by simp
    then show "(map (\<lambda>x. (x, f 0)) (take n s) @
        map (\<lambda>(i, x). (x, f (Suc (i div n)))) (enumerate 0 (drop n s))) ! i =
        map (\<lambda>(i, x). (x, f (i div n))) (enumerate 0 s) ! i"
      using assms by (cases "i < n") (auto simp: nth_append nth_enumerate_eq le_div_geq)
  qed simp
  finally show ?case .
qed simp

lemma labelled_chunk:
  assumes "0 < n" "s \<noteq> []"
  shows "labelled f (chunk s n) = map (\<lambda>(i, x). (x, f (i div nat n))) (enumerate 0 s)"
proof (cases "n \<ge> int (length s)")
  case True
  then have "i div nat n = 0" if "i < length s" for i
    using that by simp
  with True show ?thesis
    by (auto simp: chunk_def intro!: nth_equalityI simp: nth_enumerate_eq)
next
  case False
  with assms show ?thesis
    by (simp add: chunk_def labelled_chunk_loop)
qed

section \<open>The recorded stages are the executed ones\<close>

lemma canary_count_bounds:
  "0 \<le> canary_count (Defaults s) servers" "canary_count (Defaults s) servers \<le> int (length servers)"
  by (auto simp: canary_count_def Defaults_def)

lemma stage_of_canary: "int i < canary_count st servers \<Longrightarrow> stage_of st servers i = ''canary''"
  by (simp add: stage_of_def)

lemma stage_of_wave:
  assumes "c = nat (canary_count st servers)" "0 \<le> canary_count st servers" "c + j < length servers"
  shows "stage_of st servers (c + j) = wave_name (int (j div nat
    (if sy_WaveSize st \<le> 0 then int (length (drop c servers)) else sy_WaveSize st)))"
  using assms by (auto simp: stage_of_def Let_def zdiv_int of_nat_diff nat_diff_distrib)

text \<open>
  C18: The stage that the job record assigns to every server is the stage in which the runner executes it:
  the assignments list the canaries first and then the servers of the waves in the order of the waves,
  each under the name of its wave.
\<close>

theorem stage_plan_agrees:
  "buildStageAssignments servers (Defaults s) =
     (let st = Defaults s; c = nat (canary_count st servers); waveServers = drop c servers in
        map (\<lambda>x. (x, ''canary'')) (take c servers) @
        (if waveServers = [] then [] else labelled (\<lambda>k. wave_name (int k)) (waves_of st waveServers)))"
proof -
  define st where "st = Defaults s"
  define c where "c = nat (canary_count st servers)"
  define size where "size = (if sy_WaveSize st \<le> 0 then int (length (drop c servers)) else sy_WaveSize st)"
  note cb = canary_count_bounds [of s servers, folded st_def]
  have c: "c \<le> length servers" "int c = canary_count st servers"
    using cb by (simp_all add: c_def)
  have waves: "labelled (\<lambda>k. wave_name (int k)) (waves_of st (drop c servers)) =
      map (\<lambda>(i, x). (x, wave_name (int (i div nat size)))) (enumerate 0 (drop c servers))"
    if "drop c servers \<noteq> []"
    using that unfolding waves_of_def size_def by (intro labelled_chunk) auto
  have "buildStageAssignments servers st = map (\<lambda>x. (x, ''canary'')) (take c servers) @
      map (\<lambda>(i, x). (x, wave_name (int (i div nat size)))) (enumerate 0 (drop c servers))"
    (is "?l = ?r")
  proof (rule nth_equalityI)
    show "length ?l = length ?r"
      by (simp add: buildStageAssignments_def)
    fix i
    assume "i < length ?l"
    then have i: "i < length servers"
      by (simp add: buildStageAssignments_def)
    show "?l ! i = ?r ! i"
    proof (cases "i < c")
      case True
      with i c show ?thesis
        by (simp add: buildStageAssignments_def nth_enumerate_eq nth_append stage_of_canary)
    next
      case False
      then obtain j where j: "i = c + j"
        using le_Suc_ex not_less by blast
      with i c have "stage_of st servers i = wave_name (int (j div nat size))"
        unfolding j size_def using cb by (intro stage_of_wave) (auto simp: c_def)
      with i j c show ?thesis
        by (simp add: buildStageAssignments_def nth_enumerate_eq nth_append)
    qed
  qed
  with waves show ?thesis
    by (simp add: st_def [symmetric] c_def [symmetric] Let_def)
qed

section \<open>The selected servers\<close>

text \<open>
  The selection of a job consists of the servers of the inventory that are not excluded and are
  named, carry a wanted tag, or are all wanted because neither names nor tags are given; exclusion wins
  over naming, a name that is not in the inventory is dropped without an error, and no server is selected
  more often than it is listed.
\<close>

theorem resolve_targets_exact:
  "\<exists>servers. resolveTargets (Some c) t = Inr servers \<and> mset servers \<subseteq># mset (map fst (ic_DBServers c)) \<and>
     set servers = {key. \<exists>srv. (key, srv) \<in> set (ic_DBServers c) \<and> key \<notin> set (tg_Exclude t) \<and>
       (tg_Tags t = [] \<and> tg_Names t = [] \<or> key \<in> set (tg_Names t) \<or> list_ex (\<lambda>tag. tag \<in> set (db_Tags srv)) (tg_Tags t))}"
proof (cases "tg_Tags t = [] \<and> tg_Names t = []")
  case True
  let ?s = "filter (\<lambda>key. key \<notin> set (tg_Exclude t)) (map fst (ic_DBServers c))"
  have "mset ?s \<subseteq># mset (map fst (ic_DBServers c))"
    unfolding mset_filter by (rule multiset_filter_subset)
  moreover have "resolveTargets (Some c) t = Inr ?s"
    using True by (simp add: resolveTargets_def)
  ultimately show ?thesis
    using True by (intro exI [of _ ?s]) force
next
  case False
  let ?P = "\<lambda>(key, srv). key \<notin> set (tg_Exclude t) \<and> (key \<in> set (tg_Names t) \<or>
    list_ex (\<lambda>wantTag. list_ex (\<lambda>serverTag. serverTag = wantTag) (db_Tags srv)) (tg_Tags t))"
  have "mset (map fst (filter ?P (ic_DBServers c))) \<subseteq># mset (map fst (ic_DBServers c))"
    unfolding mset_map mset_filter by (intro image_mset_subseteq_mono multiset_filter_subset)
  moreover have "resolveTargets (Some c) t = Inr (map fst (filter ?P (ic_DBServers c)))"
    using False by (auto simp: resolveTargets_def Let_def)
  moreover have "set (map fst (filter ?P (ic_DBServers c))) = {key. \<exists>srv. (key, srv) \<in> set (ic_DBServers c) \<and>
      key \<notin> set (tg_Exclude t) \<and> (tg_Tags t = [] \<and> tg_Names t = [] \<or> key \<in> set (tg_Names t) \<or>
        list_ex (\<lambda>tag. tag \<in> set (db_Tags srv)) (tg_Tags t))}"
    using False by (force simp: list_ex_iff)
  ultimately show ?thesis by blast
qed

section \<open>Which jobs need approval\<close>

lemma jobActionClass_class: "jobActionClass steps \<in> {ClassRead} \<union> (\<lambda>s. ClassifyTool (st_Tool s)) ` set steps"
proof -
  have "foldl (\<lambda>highest s. let class = ClassifyTool (st_Tool s) in
     if RiskLevel class > RiskLevel highest then class else highest) h steps
     \<in> {h} \<union> (\<lambda>s. ClassifyTool (st_Tool s)) ` set steps" for h
    by (induction steps arbitrary: h) (auto simp: Let_def)
  then show ?thesis
    by (simp add: jobActionClass_def)
qed

lemma jobActionClass_risk:
  "RiskLevel (jobActionClass steps) = Max ({0} \<union> (\<lambda>s. RiskLevel (ClassifyTool (st_Tool s))) ` set steps)"
proof -
  have "RiskLevel (foldl (\<lambda>highest s. let class = ClassifyTool (st_Tool s) in
     if RiskLevel class > RiskLevel highest then class else highest) h steps)
     = Max ({RiskLevel h} \<union> (\<lambda>s. RiskLevel (ClassifyTool (st_Tool s))) ` set steps)" for h
  proof (induction steps arbitrary: h)
    case (Cons s steps)
    then show ?case
      by (cases "steps = []") (auto simp: Let_def max_def insert_commute)
  qed simp
  from this [of ClassRead] show ?thesis
    by (simp add: jobActionClass_def RiskLevel_def)
qed

lemma approval_required_iff:
  "class_IsApprovalRequired (jobActionClass steps) \<longleftrightarrow>
     list_ex (\<lambda>s. map_of ToolClassification (st_Tool s) \<in> {Some ClassWrite, Some ClassDestructive}) steps"
proof -
  have risk: "class_IsApprovalRequired c \<longleftrightarrow> 0 < RiskLevel c"
    if "c \<in> {ClassRead, ClassWrite, ClassDestructive, ClassUnknown}" for c
    using that by (auto simp: class_IsApprovalRequired_def RiskLevel_def)
  have tool: "0 < RiskLevel (ClassifyTool t) \<longleftrightarrow>
      map_of ToolClassification t \<in> {Some ClassWrite, Some ClassDestructive}" for t
    using ClassifyTool_known [of t]
    by (cases "map_of ToolClassification t") (auto simp: ClassifyTool_def RiskLevel_def)
  have "jobActionClass steps \<in> {ClassRead, ClassWrite, ClassDestructive, ClassUnknown}"
    using jobActionClass_class [of steps] ClassifyTool_known by (metis (no_types, lifting) Un_iff imageE insertI1 singletonD)
  then have "class_IsApprovalRequired (jobActionClass steps) \<longleftrightarrow> 0 < RiskLevel (jobActionClass steps)"
    by (rule risk)
  also have "\<dots> \<longleftrightarrow> (\<exists>s \<in> set steps. 0 < RiskLevel (ClassifyTool (st_Tool s)))"
    by (auto simp: jobActionClass_risk Max_gr_iff)
  finally show ?thesis
    by (simp add: tool list_ex_iff)
qed

text \<open>
  A job requires approval exactly when one of its steps uses a tool that the table lists as a write
  or a destructive operation. Tools that the table does not list count as reads.
\<close>

theorem job_approval_iff:
  "class_IsApprovalRequired (jobActionClass steps) \<longleftrightarrow>
     list_ex (\<lambda>s. map_of ToolClassification (st_Tool s) \<in> {Some ClassWrite, Some ClassDestructive}) steps"
  by (rule approval_required_iff)

section \<open>Drift\<close>

lemma drift_loop_abort:
  "snd (drift_loop live ''abort'' snaps results) = None \<longleftrightarrow>
     list_all (\<lambda>(tool, snap). case live tool of None \<Rightarrow> False
       | Some e \<Rightarrow> ts_SchemaFingerprint snap = [] \<or> te_SchemaFingerprint e = [] \<or>
           te_SchemaFingerprint e = ts_SchemaFingerprint snap) snaps"
proof (induction snaps arbitrary: results)
  case (Cons x snaps)
  then show ?case
    by (cases x) (auto simp: Let_def split: option.splits)
qed simp

text \<open>
  Under the policy \<^verbatim>\<open>abort\<close> the drift check lets a job pass exactly when it has snapshots
  and each of their tools is still listed with the fingerprint of the plan, where an empty fingerprint
  on either side counts as unchanged. A changed version of the agent alone never stops a job.
\<close>

theorem drift_abort_exact:
  "snd (CheckSchemaDrift snapshots liveTools ''abort'') = None \<longleftrightarrow> snapshots \<noteq> [] \<and>
     list_all (\<lambda>(tool, snap). case find (\<lambda>t. te_Name t = tool) (rev liveTools) of None \<Rightarrow> False
       | Some e \<Rightarrow> ts_SchemaFingerprint snap = [] \<or> te_SchemaFingerprint e = [] \<or>
           te_SchemaFingerprint e = ts_SchemaFingerprint snap) snapshots"
proof -
  have "map_of (map (\<lambda>t. (te_Name t, t)) ts) tool = find (\<lambda>t. te_Name t = tool) ts"
    for ts :: "tool_entry list" and tool
    by (induction ts) auto
  then show ?thesis
    by (simp add: CheckSchemaDrift_def drift_loop_abort rev_map)
qed

end
