(* ===== verification/Http_Client.thy ===== *)
theory Http_Client
  imports Go_Time Go_Json
begin

text \<open>
  Programs that talk to HTTP services. A program is a tree of actions: it reads the clock, sleeps, or
  sends a request and goes on with the reply. The world answers each request from everything that
  happened before, so it covers servers with any state and any failures, and it decides how long a
  request takes and by how much a timer is late. \<open>run\<close> executes one program; \<open>par\<close> executes
  several goroutines under a schedule that picks the next one at every step. The record of a run is the
  list of requests with their replies.
\<close>

section \<open>Requests and programs\<close>

record http_req =
  hq_method :: string
  hq_url :: string
  hq_headers :: "(string \<times> string) list"
  hq_body :: "json option"

datatype http_reply = Refused string | Response int string

datatype 'a prog =
    Return 'a
  | Now "time \<Rightarrow> 'a prog"
  | Sleep duration "'a prog"
  | Call http_req "http_reply \<Rightarrow> 'a prog"

primrec bindP :: "'a prog \<Rightarrow> ('a \<Rightarrow> 'b prog) \<Rightarrow> 'b prog" where
  "bindP (Return x) g = g x"
| "bindP (Now f) g = Now (\<lambda>t. bindP (f t) g)"
| "bindP (Sleep d p) g = Sleep d (bindP p g)"
| "bindP (Call r f) g = Call r (\<lambda>x. bindP (f x) g)"

record net =
  nt_calls :: "(http_req \<times> http_reply) list"
  nt_now :: time

record world =
  wd_reply :: "net \<Rightarrow> http_req \<Rightarrow> http_reply \<times> nat"
  wd_late :: "net \<Rightarrow> nat"

definition sleep :: "world \<Rightarrow> duration \<Rightarrow> net \<Rightarrow> net" where
  "sleep w d n = n\<lparr>nt_now := nt_now n + nat d + wd_late w n\<rparr>"

definition send :: "world \<Rightarrow> http_req \<Rightarrow> net \<Rightarrow> http_reply \<times> net" where
  "send w r n = (let (x, d) = wd_reply w n r in
     (x, n\<lparr>nt_calls := nt_calls n @ [(r, x)], nt_now := nt_now n + d\<rparr>))"

primrec run :: "world \<Rightarrow> 'a prog \<Rightarrow> net \<Rightarrow> 'a \<times> net" where
  "run w (Return x) = (\<lambda>n. (x, n))"
| "run w (Now f) = (\<lambda>n. run w (f (nt_now n)) n)"
| "run w (Sleep d p) = (\<lambda>n. run w p (sleep w d n))"
| "run w (Call r f) = (\<lambda>n. let (x, n') = send w r n in run w (f x) n')"

section \<open>Goroutines\<close>

primrec advance :: "world \<Rightarrow> 'a prog \<Rightarrow> net \<Rightarrow> 'a prog \<times> net" where
  "advance w (Return x) n = (Return x, n)"
| "advance w (Now f) n = (f (nt_now n), n)"
| "advance w (Sleep d p) n = (p, sleep w d n)"
| "advance w (Call r f) n = (let (x, n') = send w r n in (f x, n'))"

primrec result :: "'a prog \<Rightarrow> 'a option" where
  "result (Return x) = Some x"
| "result (Now f) = None"
| "result (Sleep d p) = None"
| "result (Call r f) = None"

definition live :: "'a prog list \<Rightarrow> nat list" where
  "live ps = filter (\<lambda>i. result (ps ! i) = None) [0..<length ps]"

text \<open>The schedule is consulted with the number of the step; every interleaving is one of a schedule.\<close>

partial_function (option) par ::
  "(nat \<Rightarrow> nat) \<Rightarrow> world \<Rightarrow> nat \<Rightarrow> 'a prog list \<Rightarrow> net \<Rightarrow> ('a list \<times> net) option" where
  "par sch w j ps n =
     (if live ps = [] then Some (map (\<lambda>p. the (result p)) ps, n)
      else let i = live ps ! (sch j mod length (live ps)); (p, n') = advance w (ps ! i) n
        in par sch w (Suc j) (ps[i := p]) n')"

section \<open>Sending\<close>

text \<open>
  \<open>cd_url\<close> is the verdict of the URL parser on the text of a URL, \<open>cd_parse\<close> the JSON decoder and
  \<open>cd_text\<close> the encoder. A request whose URL does not parse is not sent.
\<close>

record codec =
  cd_url :: "string \<Rightarrow> string option"
  cd_parse :: "string \<Rightarrow> string + json"
  cd_text :: "json \<Rightarrow> string"

datatype sent = NotBuilt string | NotSent string | Got int string

definition http_do :: "codec \<Rightarrow> http_req \<Rightarrow> sent prog" where
  "http_do cd r = (case cd_url cd (hq_url r) of
     Some err \<Rightarrow> Return (NotBuilt err)
   | None \<Rightarrow> Call r (\<lambda>x. Return (case x of Refused err \<Rightarrow> NotSent err | Response c b \<Rightarrow> Got c b)))"

definition json_type :: "string \<times> string" where
  "json_type = (''Content-Type'', ''application/json'')"

definition bearer :: "string \<Rightarrow> (string \<times> string) list" where
  "bearer key = (if key = [] then [] else [(''Authorization'', ''Bearer '' @ key)])"

text \<open>A field with \<^verbatim>\<open>omitempty\<close>, an assignment to a decoded map, and the text fields of a
  decoded struct: keys match without regard to case, and a value of another type is an error.\<close>

definition omit :: "string \<Rightarrow> string \<Rightarrow> json_map" where
  "omit k s = (if s = [] then [] else [(k, JStr s)])"

definition json_put :: "string \<Rightarrow> json \<Rightarrow> json_map \<Rightarrow> json_map" where
  "json_put k v m = filter (\<lambda>(k', _). k' \<noteq> k) m @ [(k, v)]"

definition field_str :: "string \<Rightarrow> json \<Rightarrow> string option" where
  "field_str k v = (case v of
     JNull \<Rightarrow> Some []
   | JObj m \<Rightarrow> fold (\<lambda>(k', x) acc. if ToLower k' \<noteq> k then acc
       else (case (acc, x) of (Some _, JStr s) \<Rightarrow> Some s | (Some s, JNull) \<Rightarrow> Some s | _ \<Rightarrow> None)) m (Some [])
   | _ \<Rightarrow> None)"

section \<open>Laws of programs\<close>

lemma bindP_Return [simp]: "bindP p Return = p"
  by (induction p) simp_all

lemma bindP_assoc: "bindP (bindP p f) g = bindP p (\<lambda>x. bindP (f x) g)"
  by (induction p) simp_all

lemma run_bindP: "run w (bindP p g) n = (let (x, n') = run w p n in run w (g x) n')"
  by (induction p arbitrary: n) (simp_all add: case_prod_unfold Let_def)

lemma run_advance: "run w p n = (let (q, n') = advance w p n in run w q n')"
  by (cases p) (simp_all add: case_prod_unfold Let_def)

text \<open>
  \<open>talks Q p\<close>: every request of a program satisfies \<open>Q\<close>. \<open>atmost k p\<close>: the program makes at most
  \<open>k\<close> steps, whatever the world answers.
\<close>

primrec talks :: "(http_req \<Rightarrow> bool) \<Rightarrow> 'a prog \<Rightarrow> bool" where
  "talks Q (Return x) = True"
| "talks Q (Now f) = (\<forall>t. talks Q (f t))"
| "talks Q (Sleep d p) = talks Q p"
| "talks Q (Call r f) = (Q r \<and> (\<forall>x. talks Q (f x)))"

primrec atmost :: "nat \<Rightarrow> 'a prog \<Rightarrow> bool" where
  "atmost 0 p \<longleftrightarrow> result p \<noteq> None"
| "atmost (Suc k) p \<longleftrightarrow> (case p of Return x \<Rightarrow> True | Now f \<Rightarrow> (\<forall>t. atmost k (f t))
     | Sleep d q \<Rightarrow> atmost k q | Call r f \<Rightarrow> (\<forall>x. atmost k (f x)))"

lemma talks_bindP: "talks Q p \<Longrightarrow> (\<And>x. talks Q (g x)) \<Longrightarrow> talks Q (bindP p g)"
  by (induction p) auto

lemma talks_mono: "talks Q p \<Longrightarrow> (\<And>r. Q r \<Longrightarrow> R r) \<Longrightarrow> talks R p"
  by (induction p) auto

lemma atmost_Return [simp]: "atmost k (Return x)"
  by (cases k) simp_all

lemma atmost_mono: "atmost k p \<Longrightarrow> k \<le> m \<Longrightarrow> atmost m p"
proof (induction k arbitrary: p m)
  case 0
  then show ?case by (cases p) auto
next
  case (Suc k)
  then obtain m' where m: "m = Suc m'" "k \<le> m'"
    by (cases m) auto
  show ?case
    using Suc.prems(1) Suc.IH [OF _ m(2)] unfolding m(1) by (cases p) auto
qed

lemma atmost_bindP: "atmost k p \<Longrightarrow> (\<And>x. atmost m (g x)) \<Longrightarrow> atmost (k + m) (bindP p g)"
proof (induction k arbitrary: p)
  case 0
  then show ?case by (cases p) auto
next
  case (Suc k)
  show ?case
  proof (cases p)
    case (Return x)
    then show ?thesis
      using atmost_mono [OF Suc.prems(2) [of x], of "Suc k + m"] by simp
  qed (use Suc in auto)
qed

lemma atmost_advance: "atmost (Suc k) p \<Longrightarrow> result p = None \<Longrightarrow> atmost k (fst (advance w p n))"
  by (cases p) (auto simp: case_prod_unfold Let_def)

section \<open>Time and record only grow\<close>

text \<open>\<open>later n n'\<close>: the state after some activity; the clock does not go back and the record is
  extended. \<open>new n n'\<close> are the requests added in between.\<close>

definition later :: "net \<Rightarrow> net \<Rightarrow> bool" where
  "later n n' \<longleftrightarrow> nt_now n \<le> nt_now n' \<and> (\<exists>cs. nt_calls n' = nt_calls n @ cs)"

definition new :: "net \<Rightarrow> net \<Rightarrow> (http_req \<times> http_reply) list" where
  "new n n' = drop (length (nt_calls n)) (nt_calls n')"

lemma later_refl [simp]: "later n n"
  by (simp add: later_def)

lemma later_trans: "later a b \<Longrightarrow> later b c \<Longrightarrow> later a c"
  by (auto simp: later_def)

lemma later_sleep [simp]: "later n (sleep w d n)"
  by (simp add: later_def sleep_def)

lemma later_send: "send w r n = (x, n') \<Longrightarrow> later n n'"
  by (auto simp: later_def send_def Let_def split: prod.splits)

lemma later_new: "later n n' \<Longrightarrow> nt_calls n' = nt_calls n @ new n n'"
  by (auto simp: later_def new_def)

lemma new_self [simp]: "new n n = []"
  by (simp add: new_def)

lemma new_sleep [simp]: "new n (sleep w d n) = []"
  by (simp add: new_def sleep_def)

lemma new_trans: "later a b \<Longrightarrow> later b c \<Longrightarrow> new a c = new a b @ new b c"
  by (auto simp: later_def new_def)

lemma new_send: "send w r n = (x, n') \<Longrightarrow> new n n' = [(r, x)]"
  by (auto simp: new_def send_def Let_def split: prod.splits)

lemma later_run: "run w p n = (x, n') \<Longrightarrow> later n n'"
proof (induction p arbitrary: n)
  case (Sleep d p)
  then show ?case
    using later_trans [OF later_sleep] by fastforce
next
  case (Call r f)
  obtain y m where m: "send w r n = (y, m)"
    by (cases "send w r n")
  with Call.prems have "run w (f y) m = (x, n')"
    by simp
  with Call.IH [OF rangeI] m show ?case
    by (blast intro: later_trans later_send)
qed auto

lemma talks_run:
  "talks Q p \<Longrightarrow> run w p n = (x, n') \<Longrightarrow> \<forall>(r, y) \<in> set (new n n'). Q r"
proof (induction p arbitrary: n)
  case (Now f)
  then show ?case
    using Now.IH [OF rangeI, of "nt_now n" n] by simp
next
  case (Sleep d p)
  then have "later (sleep w d n) n'" "\<forall>(r, y) \<in> set (new (sleep w d n) n'). Q r"
    using later_run by auto
  then show ?case
    using new_trans [of n "sleep w d n" n'] by simp
next
  case (Call r f)
  obtain y m where m: "send w r n = (y, m)"
    by (cases "send w r n")
  with Call.prems have r: "run w (f y) m = (x, n')" "talks Q (f y)" "Q r"
    by simp_all
  have "new n n' = (r, y) # new m n'"
    using new_trans [OF later_send [OF m] later_run [OF r(1)]] new_send [OF m] by simp
  with Call.IH [OF rangeI r(2) r(1)] r(3) show ?case
    by auto
qed simp

lemma later_advance: "later n (snd (advance w p n))"
  by (cases p) (auto simp: case_prod_unfold Let_def intro: later_send prod.collapse [symmetric])

lemma talks_advance:
  assumes "talks Q p"
  shows "talks Q (fst (advance w p n))" "\<forall>(r, y) \<in> set (new n (snd (advance w p n))). Q r"
proof -
  show "talks Q (fst (advance w p n))"
    using assms by (cases p) (auto simp: case_prod_unfold Let_def)
  show "\<forall>(r, y) \<in> set (new n (snd (advance w p n))). Q r"
  proof (cases p)
    case (Call r f)
    then have "new n (snd (advance w p n)) = [(r, fst (send w r n))]"
      by (simp add: case_prod_unfold Let_def new_send [OF prod.collapse [symmetric]])
    with assms Call show ?thesis by simp
  qed simp_all
qed

section \<open>Goroutines reach an end\<close>

lemma live_iff: "i \<in> set (live ps) \<longleftrightarrow> i < length ps \<and> result (ps ! i) = None"
  by (auto simp: live_def)

lemma live_Nil: "live ps = [] \<longleftrightarrow> (\<forall>p \<in> set ps. result p \<noteq> None)"
  by (auto simp: live_def filter_empty_conv all_set_conv_all_nth)

lemma picked: "live ps \<noteq> [] \<Longrightarrow> live ps ! (k mod length (live ps)) \<in> set (live ps)"
  by (intro nth_mem mod_less_divisor) simp

text \<open>What every step of a goroutine keeps holds when all of them have returned.\<close>

lemma par_inv:
  assumes "par sch w j ps n = Some r" "I ps n"
    and step: "\<And>ps n i. I ps n \<Longrightarrow> i < length ps \<Longrightarrow> result (ps ! i) = None \<Longrightarrow>
      I (ps[i := fst (advance w (ps ! i) n)]) (snd (advance w (ps ! i) n))"
  shows "\<exists>qs. I qs (snd r) \<and> live qs = [] \<and> fst r = map (\<lambda>p. the (result p)) qs"
proof -
  have "w' = w \<longrightarrow> I ps n \<longrightarrow> (\<exists>qs. I qs (snd r) \<and> live qs = [] \<and> fst r = map (\<lambda>p. the (result p)) qs)"
    if "par sch w' j ps n = Some r" for w'
    using that
  proof (rule par.raw_induct [rotated], goal_cases)
    case (1 par' sch w' j ps n r)
    show ?case
    proof (intro impI)
      assume w: "w' = w" and I: "I ps n"
      show "\<exists>qs. I qs (snd r) \<and> live qs = [] \<and> fst r = map (\<lambda>p. the (result p)) qs"
      proof (cases "live ps = []")
        case True
        with 1(2) I show ?thesis by auto
      next
        case False
        define i where "i = live ps ! (sch j mod length (live ps))"
        have i: "i < length ps" "result (ps ! i) = None"
          using picked [OF False, of "sch j"] unfolding i_def live_iff by auto
        from 1(2) False have "par' sch w' (Suc j) (ps[i := fst (advance w' (ps ! i) n)]) (snd (advance w' (ps ! i) n)) = Some r"
          by (simp add: i_def Let_def case_prod_unfold)
        from 1(1) [OF this] w step [OF I i] show ?thesis by simp
      qed
    qed
  qed
  with assms(1,2) show ?thesis by simp
qed

lemma par_returns:
  assumes "list_all2 atmost ks ps"
  shows "\<exists>r. par sch w j ps n = Some r"
  using assms
proof (induction "sum_list ks" arbitrary: ks ps j n rule: less_induct)
  case less
  show ?case
  proof (cases "live ps = []")
    case True
    then show ?thesis by (simp add: par.simps)
  next
    case False
    define i where "i = live ps ! (sch j mod length (live ps))"
    have i: "i < length ps" "result (ps ! i) = None"
      using picked [OF False, of "sch j"] unfolding i_def live_iff by auto
    have ki: "i < length ks" "atmost (ks ! i) (ps ! i)"
      using less.prems i by (auto simp: list_all2_conv_all_nth)
    then obtain k where k: "ks ! i = Suc k"
      using i(2) by (cases "ks ! i") auto
    let ?p = "fst (advance w (ps ! i) n)" and ?n = "snd (advance w (ps ! i) n)"
    have "list_all2 atmost (ks[i := k]) (ps[i := ?p])"
      using less.prems ki k i(2) by (intro list_all2_update_cong) (auto intro: atmost_advance)
    moreover have "sum_list (ks[i := k]) < sum_list ks"
      using elem_le_sum_list [OF ki(1)] ki(1) k by (simp add: sum_list_update)
    ultimately obtain r where "par sch w (Suc j) (ps[i := ?p]) ?n = Some r"
      using less.hyps by blast
    then show ?thesis
      using False by (subst par.simps) (simp add: i_def Let_def case_prod_unfold)
  qed
qed

end
