(* ===== verification/Fleet_Run.thy ===== *)
theory Fleet_Run
  imports Fleet_Plan Http_Client
begin

text \<open>
  The execution of a fleet job, \<^verbatim>\<open>cmd/fleet-runner\<close>: the steps on one server
  (\<^verbatim>\<open>runner.go\<close>, with the trace verification of \<^verbatim>\<open>internal/client\<close>), approvals
  (\<^verbatim>\<open>approve.go\<close>), the staged rollout (\<^verbatim>\<open>stages.go\<close>), the preflight and the job record
  (\<^verbatim>\<open>preflight.go\<close>, \<^verbatim>\<open>submit.go\<close>). The steps on a server are a program of actions, so
  that the canaries run one after the other and the servers of a wave under an arbitrary interleaving.
  The context of the job is never cancelled, as in \<^verbatim>\<open>main.go\<close>. Log output is left out.
\<close>

section \<open>State\<close>

record runner_config =
  rn_gatewayURL :: string
  rn_auditURL :: string
  rn_apiKey :: string
  rn_auditAPIKey :: string
  rn_jobID :: string
  rn_submittedBy :: string
  rn_approvalPollInterval :: duration

record trace_verification =
  tv_TraceID :: string
  tv_ToolsConfirmed :: "(string \<times> string) list"
  tv_WriteConfirmed :: "string list"
  tv_DestructiveConfirmed :: "string list"

record step_result =
  sr_stepIdx :: nat
  sr_tool :: string
  sr_output :: string
  sr_err :: "string option"
  sr_verified :: "trace_verification option"

record server_result =
  sv_server :: string
  sv_steps :: "step_result list"
  sv_err :: "string option"

section \<open>Status updates\<close>

definition time_field :: "string \<Rightarrow> time option \<Rightarrow> json_map" where
  "time_field k t = (case t of None \<Rightarrow> [] | Some x \<Rightarrow> [(k, JStr (fmt_rfc3339nano x))])"

definition server_patch ::
  "runner_config \<Rightarrow> string \<Rightarrow> string \<Rightarrow> string \<Rightarrow> time option \<Rightarrow> time option \<Rightarrow> http_req" where
  "server_patch cfg serverName status output startedAt finishedAt = \<lparr>hq_method = ''PATCH'',
     hq_url = rn_auditURL cfg @ ''/v1/fleet/jobs/'' @ rn_jobID cfg @ ''/servers/'' @ serverName,
     hq_headers = json_type # bearer (rn_auditAPIKey cfg),
     hq_body = Some (JObj ([(''status'', JStr status)] @ omit ''output'' output @
       time_field ''started_at'' startedAt @ time_field ''finished_at'' finishedAt))\<rparr>"

definition patchServerStatus ::
  "codec \<Rightarrow> runner_config \<Rightarrow> string \<Rightarrow> string \<Rightarrow> string \<Rightarrow> time option \<Rightarrow> time option \<Rightarrow> string option prog" where
  "patchServerStatus cd cfg serverName status output startedAt finishedAt =
     (if rn_auditURL cfg = [] then Return None
      else bindP (http_do cd (server_patch cfg serverName status output startedAt finishedAt))
        (\<lambda>s. Return (case s of NotBuilt err \<Rightarrow> Some err | NotSent err \<Rightarrow> Some err | Got _ _ \<Rightarrow> None)))"

definition patchStepStatus ::
  "codec \<Rightarrow> runner_config \<Rightarrow> string \<Rightarrow> nat \<Rightarrow> string \<Rightarrow> string \<Rightarrow> unit prog" where
  "patchStepStatus cd cfg serverName stepIdx status output =
     (if rn_auditURL cfg = [] then Return ()
      else bindP (http_do cd \<lparr>hq_method = ''PATCH'',
          hq_url = rn_auditURL cfg @ ''/v1/fleet/jobs/'' @ rn_jobID cfg @ ''/servers/'' @ serverName @
            ''/steps/'' @ nat_str stepIdx,
          hq_headers = json_type # bearer (rn_auditAPIKey cfg),
          hq_body = Some (JObj ([(''status'', JStr status)] @ omit ''output'' output))\<rparr>)
        (\<lambda>_. Return ()))"

definition recordToolResult ::
  "codec \<Rightarrow> runner_config \<Rightarrow> string \<Rightarrow> step \<Rightarrow> string \<Rightarrow> unit prog" where
  "recordToolResult cd cfg serverName st output =
     (if rn_auditURL cfg = [] then Return ()
      else bindP (http_do cd \<lparr>hq_method = ''POST'',
          hq_url = rn_auditURL cfg @ ''/v1/tool-results'',
          hq_headers = json_type # bearer (rn_apiKey cfg),
          hq_body = Some (JObj [
            (''server_name'', JStr serverName),
            (''tool_name'', JStr (st_Tool st)),
            (''tool_args'', JStr (cd_text cd (case st_Args st of None \<Rightarrow> JNull | Some m \<Rightarrow> JObj m))),
            (''output'', JStr output),
            (''trace_id'', JStr (''tr_flj_'' @ rn_jobID cfg)),
            (''job_id'', JStr (rn_jobID cfg)),
            (''recorded_by'', JStr (rn_submittedBy cfg)),
            (''success'', JBool True)])\<rparr>)
        (\<lambda>_. Return ()))"

section \<open>Verification of a step\<close>

text \<open>The decoder of the event list: per event the class and the name of the tool, if any.\<close>

definition raw_event :: "json \<Rightarrow> (string \<times> string option) option" where
  "raw_event v = (case field_str ''action_class'' v of
     None \<Rightarrow> None
   | Some class \<Rightarrow> (case v of
       JObj m \<Rightarrow> (case map_of (rev (map (\<lambda>(k, x). (ToLower k, x)) m)) ''tool'' of
           None \<Rightarrow> Some (class, None)
         | Some JNull \<Rightarrow> Some (class, None)
         | Some t \<Rightarrow> (case field_str ''name'' t of Some nm \<Rightarrow> Some (class, Some nm) | None \<Rightarrow> None))
     | _ \<Rightarrow> Some (class, None)))"

definition raw_events :: "json \<Rightarrow> (string \<times> string option) list option" where
  "raw_events v = (case v of
     JNull \<Rightarrow> Some []
   | JArr vs \<Rightarrow> (let es = map raw_event vs in if None \<in> set es then None else Some (map the es))
   | _ \<Rightarrow> None)"

definition verification_of :: "string \<Rightarrow> (string \<times> string option) list \<Rightarrow> trace_verification" where
  "verification_of traceID events =
     (let named = List.map_filter (\<lambda>(class, nm). case nm of
            None \<Rightarrow> None | Some name \<Rightarrow> if name = [] then None else Some (name, class)) events
      in \<lparr>tv_TraceID = traceID, tv_ToolsConfirmed = named,
          tv_WriteConfirmed = map fst (filter (\<lambda>(_, class). class = ''write'') named),
          tv_DestructiveConfirmed = map fst (filter (\<lambda>(_, class). class = ''destructive'') named)\<rparr>)"

text \<open>One attempt gives an error or the decoded events; a request that cannot be built ends the loop.\<close>

definition verify_attempt ::
  "codec \<Rightarrow> string \<Rightarrow> (string + string + (string \<times> string option) list) prog" where
  "verify_attempt cd reqURL = bindP (http_do cd \<lparr>hq_method = ''GET'', hq_url = reqURL,
       hq_headers = [json_type], hq_body = None\<rparr>)
     (\<lambda>s. Return (case s of
        NotBuilt err \<Rightarrow> Inl (''verify trace: build request: '' @ err)
      | NotSent err \<Rightarrow> Inr (Inl (''verify trace: '' @ err))
      | Got code body \<Rightarrow>
          (if code \<noteq> 200 then Inr (Inl (''verify trace: auditd returned status '' @ Itoa code))
           else (case cd_parse cd body of
               Inl err \<Rightarrow> Inr (Inl (''verify trace: decode: '' @ err))
             | Inr v \<Rightarrow> (case raw_events v of
                 None \<Rightarrow> Inr (Inl ''verify trace: decode: wrong type'')
               | Some events \<Rightarrow> Inr (Inr events))))))"

definition VerifyTrace :: "codec \<Rightarrow> string \<Rightarrow> string \<Rightarrow> time \<Rightarrow> (string + trace_verification option) prog" where
  "VerifyTrace cd auditURL traceID since =
     (if auditURL = [] then Return (Inr None)
      else let reqURL = rev (dropWhile (\<lambda>c. c = CHR ''/'') (rev auditURL)) @
             ''/v1/events?event_type=tool_execution&trace_id='' @ traceID @ ''&since='' @ fmt_rfc3339 since;
             finish = (\<lambda>r. Return (case r of
                 Inl err \<Rightarrow> Inl err
               | Inr (Inl err) \<Rightarrow> Inl err
               | Inr (Inr events) \<Rightarrow> Inr (Some (verification_of traceID events))))
        in bindP (verify_attempt cd reqURL) (\<lambda>r. case r of
             Inl err \<Rightarrow> finish r
           | Inr (Inl err) \<Rightarrow> Sleep (200 * 1000000) (bindP (verify_attempt cd reqURL) finish)
           | Inr (Inr events) \<Rightarrow>
               (if events = [] then Sleep (200 * 1000000) (bindP (verify_attempt cd reqURL) finish)
                else finish r)))"

definition verifyStep :: "codec \<Rightarrow> runner_config \<Rightarrow> time \<Rightarrow> trace_verification option prog" where
  "verifyStep cd cfg stepStart =
     (if rn_auditURL cfg = [] then Return None
      else bindP (VerifyTrace cd (rn_auditURL cfg) (''tr_'' @ rn_jobID cfg) stepStart)
        (\<lambda>r. Return (case r of Inl err \<Rightarrow> None | Inr verif \<Rightarrow> verif)))"

section \<open>The steps on one server\<close>

definition tool_request :: "runner_config \<Rightarrow> string \<Rightarrow> string \<Rightarrow> step \<Rightarrow> http_req" where
  "tool_request cfg serverName stage st =
     \<lparr>hq_method = ''POST'',
      hq_url = rn_gatewayURL cfg @
        (if st_Agent st = ''k8s'' then ''/api/v1/k8s/'' else ''/api/v1/db/'') @ st_Tool st,
      hq_headers = [json_type, (''X-Purpose'', ''fleet_rollout''),
        (''X-Purpose-Note'', ''job_id='' @ rn_jobID cfg @ '' server='' @ serverName @ '' stage='' @ stage),
        (''X-Trace-ID'', ''tr_'' @ rn_jobID cfg)] @ bearer (rn_apiKey cfg),
      hq_body = Some (JObj (json_put
        (if st_Agent st = ''k8s'' then ''context'' else ''connection_string'') (JStr serverName) (case st_Args st of None \<Rightarrow> [] | Some m \<Rightarrow> m)))\<rparr>"

definition callGatewayTool ::
  "codec \<Rightarrow> runner_config \<Rightarrow> string \<Rightarrow> string \<Rightarrow> step \<Rightarrow> (string \<times> string option) prog" where
  "callGatewayTool cd cfg serverName stage st =
     bindP (http_do cd (tool_request cfg serverName stage st)) (\<lambda>s. Return (case s of
        NotBuilt err \<Rightarrow> ([], Some (''create request: '' @ err))
      | NotSent err \<Rightarrow> ([], Some (''gateway unreachable: '' @ err))
      | Got code output \<Rightarrow>
          (if code \<noteq> 200 then (output, Some (''tool call returned '' @ Itoa code @ '': '' @ output))
           else (case cd_parse cd output of
               Inl err \<Rightarrow> (output, None)
             | Inr v \<Rightarrow> (case field_str ''text'' v of
                 None \<Rightarrow> (output, None)
               | Some text \<Rightarrow> (if text \<noteq> [] then text else output, None))))))"

definition last_output :: "step_result list \<Rightarrow> string" where
  "last_output srs = foldl (\<lambda>acc sr. if sr_output sr \<noteq> [] then sr_output sr else acc) [] srs"

primrec exec_loop ::
  "codec \<Rightarrow> runner_config \<Rightarrow> string \<Rightarrow> string \<Rightarrow> step list \<Rightarrow> nat \<Rightarrow> step_result list \<Rightarrow> bool \<Rightarrow> server_result prog" where
  "exec_loop cd cfg serverName stage [] idx done anyPartialFailure =
     Now (\<lambda>t. bindP (patchServerStatus cd cfg serverName (if anyPartialFailure then ''partial'' else ''success'')
         (last_output done) None (Some t))
       (\<lambda>_. Return \<lparr>sv_server = serverName, sv_steps = done, sv_err = None\<rparr>))"
| "exec_loop cd cfg serverName stage (st # rest) idx done anyPartialFailure =
     Now (\<lambda>stepStart. bindP (callGatewayTool cd cfg serverName stage st) (\<lambda>(output, err).
       case err of
         Some e \<Rightarrow>
           (let done' = done @ [\<lparr>sr_stepIdx = idx, sr_tool = st_Tool st, sr_output = output, sr_err = Some e,
                sr_verified = None\<rparr>];
                onFailure = (if st_OnFailure st = [] then ''stop'' else st_OnFailure st)
            in bindP (patchStepStatus cd cfg serverName idx ''failed'' output) (\<lambda>_.
                 if onFailure = ''continue'' then exec_loop cd cfg serverName stage rest (Suc idx) done' True
                 else Now (\<lambda>t. bindP (patchServerStatus cd cfg serverName ''failed'' output None (Some t)) (\<lambda>_.
                   Return \<lparr>sv_server = serverName, sv_steps = done',
                     sv_err = Some (''step '' @ nat_str idx @ '' ('' @ st_Tool st @ '') failed: '' @ e)\<rparr>))))
       | None \<Rightarrow>
           bindP (verifyStep cd cfg stepStart) (\<lambda>verified.
             let done' = done @ [\<lparr>sr_stepIdx = idx, sr_tool = st_Tool st, sr_output = output, sr_err = None,
                 sr_verified = verified\<rparr>]
             in bindP (patchStepStatus cd cfg serverName idx ''success'' output) (\<lambda>_.
               bindP (recordToolResult cd cfg serverName st output) (\<lambda>_.
                 exec_loop cd cfg serverName stage rest (Suc idx) done' anyPartialFailure)))))"

definition executeSteps ::
  "codec \<Rightarrow> runner_config \<Rightarrow> string \<Rightarrow> string \<Rightarrow> step list \<Rightarrow> server_result prog" where
  "executeSteps cd cfg serverName stage steps =
     Now (\<lambda>t. bindP (patchServerStatus cd cfg serverName ''running'' [] (Some t) None)
       (\<lambda>_. exec_loop cd cfg serverName stage steps 0 [] False))"

definition isServerFailure :: "server_result \<Rightarrow> bool \<Rightarrow> bool" where
  "isServerFailure res countPartialAsSuccess =
     (if sv_err res \<noteq> None then True
      else if countPartialAsSuccess then False
      else list_ex (\<lambda>sr. sr_err sr \<noteq> None) (sv_steps res))"

section \<open>Approvals\<close>

definition approval_timeout :: "int \<Rightarrow> int" where
  "approval_timeout timeoutSecs = (if timeoutSecs \<le> 0 then 30 * 60 else timeoutSecs)"

definition approval_body :: "runner_config \<Rightarrow> job_def \<Rightarrow> string \<Rightarrow> json_map \<Rightarrow> time \<Rightarrow> json" where
  "approval_body cfg def resourceType context now =
     (let expiresAt = time_add now (wrap64 (approval_timeout (sy_ApprovalTimeoutSeconds (jd_Strategy def)) * Second));
          submittedBy = (if rn_submittedBy cfg = [] then ''fleet-runner'' else rn_submittedBy cfg)
      in JObj [
        (''action_class'', JStr (jobActionClass (jd_Steps def))),
        (''resource_type'', JStr resourceType),
        (''resource_name'', JStr (jd_Name def)),
        (''requested_by'', JStr submittedBy),
        (''context'', JObj context),
        (''expires_at'', JStr (fmt_rfc3339 expiresAt))])"

definition approval_post :: "runner_config \<Rightarrow> json \<Rightarrow> http_req" where
  "approval_post cfg body = \<lparr>hq_method = ''POST'',
     hq_url = rn_auditURL cfg @ ''/v1/fleet/jobs/'' @ rn_jobID cfg @ ''/approval'',
     hq_headers = json_type # bearer (rn_auditAPIKey cfg), hq_body = Some body\<rparr>"

text \<open>The two text fields of an approval, read from the text of a response.\<close>

definition decode_approval :: "codec \<Rightarrow> string \<Rightarrow> string + string \<times> string" where
  "decode_approval cd body = (case cd_parse cd body of
     Inl err \<Rightarrow> Inl err
   | Inr v \<Rightarrow> (case (field_str ''approval_id'' v, field_str ''status'' v) of
       (Some i, Some s) \<Rightarrow> Inr (i, s)
     | _ \<Rightarrow> Inl ''wrong type''))"

text \<open>The two requests differ in the wording of their errors, which \<open>gate\<close> selects.\<close>

definition approval_id_of :: "codec \<Rightarrow> bool \<Rightarrow> sent \<Rightarrow> string + string" where
  "approval_id_of cd gate s = (let label = (if gate then ''wave gate '' else []) in case s of
     NotBuilt err \<Rightarrow> Inl (''create '' @ label @ ''approval request: '' @ err)
   | NotSent err \<Rightarrow> Inl (''post '' @ label @ ''approval request: '' @ err)
   | Got code body \<Rightarrow>
       (if code \<ge> 300 then Inl (''auditd returned '' @ Itoa code @ '': '' @ body)
        else (case decode_approval cd body of
            Inl err \<Rightarrow> Inl (''decode '' @ label @ ''approval response: '' @ err)
          | Inr (i, _) \<Rightarrow>
              (if i = [] then Inl (''auditd returned empty approval_id'' @ (if gate then '' for wave gate'' else []))
               else Inr i))))"

definition requestFleetJobApproval :: "codec \<Rightarrow> runner_config \<Rightarrow> job_def \<Rightarrow> nat \<Rightarrow> (string + string) prog" where
  "requestFleetJobApproval cd cfg def serverCount =
     (if rn_auditURL cfg = [] then Return (Inl ''auditd URL not configured'')
      else Now (\<lambda>t. bindP (http_do cd (approval_post cfg (approval_body cfg def ''fleet_job'' [
          (''job_id'', JStr (rn_jobID cfg)),
          (''steps'', JArr (map (\<lambda>s. JStr (st_Tool s)) (jd_Steps def))),
          (''server_count'', JNum (int serverCount)),
          (''highest_risk'', JStr (jobActionClass (jd_Steps def)))] t)))
        (\<lambda>s. Return (approval_id_of cd False s))))"

definition requestWaveGateApproval ::
  "codec \<Rightarrow> runner_config \<Rightarrow> job_def \<Rightarrow> string list \<Rightarrow> nat \<Rightarrow> (string + string) prog" where
  "requestWaveGateApproval cd cfg def canaryServers waveServerCount =
     (if rn_auditURL cfg = [] then Return (Inl ''auditd URL not configured'')
      else Now (\<lambda>t. bindP (http_do cd (approval_post cfg (approval_body cfg def ''fleet_job_wave_gate'' [
          (''job_id'', JStr (rn_jobID cfg)),
          (''canary_servers'', JArr (map JStr canaryServers)),
          (''wave_server_count'', JNum (int waveServerCount)),
          (''gate_reason'', JStr (''canary phase complete '' @ map char_of [226, 128, 148 :: nat] @
             '' operator approval required before waves''))] t)))
        (\<lambda>s. Return (approval_id_of cd True s))))"

definition status_get :: "runner_config \<Rightarrow> string \<Rightarrow> http_req" where
  "status_get cfg approvalID = \<lparr>hq_method = ''GET'',
     hq_url = rn_auditURL cfg @ ''/v1/fleet/jobs/'' @ rn_jobID cfg @ ''/approval/'' @ approvalID,
     hq_headers = bearer (rn_auditAPIKey cfg), hq_body = None\<rparr>"

definition status_of :: "codec \<Rightarrow> sent \<Rightarrow> string + string" where
  "status_of cd s = (case s of
     NotBuilt err \<Rightarrow> Inl (''create status request: '' @ err)
   | NotSent err \<Rightarrow> Inl (''get approval status: '' @ err)
   | Got code body \<Rightarrow>
       (if code \<ge> 300 then Inl (''auditd returned '' @ Itoa code @ '': '' @ body)
        else (case decode_approval cd body of
            Inl err \<Rightarrow> Inl (''decode status response: '' @ err)
          | Inr (_, status) \<Rightarrow> Inr status)))"

definition getApprovalStatus :: "codec \<Rightarrow> runner_config \<Rightarrow> string \<Rightarrow> (string + string) prog" where
  "getApprovalStatus cd cfg approvalID =
     bindP (http_do cd (status_get cfg approvalID)) (\<lambda>s. Return (status_of cd s))"

datatype wait_error = WasDenied string | WasExpired string | WasCancelled string | TimedOut int

partial_function (option) wait_loop ::
  "codec \<Rightarrow> world \<Rightarrow> runner_config \<Rightarrow> string \<Rightarrow> int \<Rightarrow> int \<Rightarrow> duration \<Rightarrow> net \<Rightarrow>
   ((wait_error + bool) \<times> net) option" where
  "wait_loop cd w cfg approvalID timeoutSecs deadline pollInterval n =
     (let (status, n') = run w (getApprovalStatus cd cfg approvalID) (sleep w pollInterval n) in
      if status = Inr ''approved'' then Some (Inr True, n')
      else if status = Inr ''denied'' then Some (Inl (WasDenied approvalID), n')
      else if status = Inr ''expired'' then Some (Inl (WasExpired approvalID), n')
      else if status = Inr ''cancelled'' then Some (Inl (WasCancelled approvalID), n')
      else if int (nt_now n') > deadline then Some (Inl (TimedOut timeoutSecs), n')
      else wait_loop cd w cfg approvalID timeoutSecs deadline pollInterval n')"

definition waitForFleetApproval ::
  "codec \<Rightarrow> world \<Rightarrow> runner_config \<Rightarrow> string \<Rightarrow> int \<Rightarrow> duration \<Rightarrow> net \<Rightarrow> ((wait_error + bool) \<times> net) option" where
  "waitForFleetApproval cd w cfg approvalID timeoutSecs pollInterval n =
     (let secs = approval_timeout timeoutSecs in
      wait_loop cd w cfg approvalID secs (int (nt_now n) + wrap64 (secs * Second)) pollInterval n)"

section \<open>The staged rollout\<close>

datatype stage_error =
    NoServers
  | SliceBounds
  | RequestFailed string
  | ApprovalFailed wait_error
  | DeniedByApprover
  | CanaryFailed string "string option"
  | GateRequestFailed string
  | GateFailed wait_error
  | GateDenied
  | CircuitBreaker string rat rat

definition poll_interval :: "runner_config \<Rightarrow> duration" where
  "poll_interval cfg = (if rn_approvalPollInterval cfg \<le> 0 then 5 * Second else rn_approvalPollInterval cfg)"

text \<open>An approval is requested and awaited; the result says whether the rollout may go on.\<close>

definition await_approval ::
  "codec \<Rightarrow> world \<Rightarrow> runner_config \<Rightarrow> job_def \<Rightarrow> (string + string) prog \<Rightarrow>
   (string \<Rightarrow> stage_error) \<Rightarrow> (wait_error \<Rightarrow> stage_error) \<Rightarrow> stage_error \<Rightarrow> net \<Rightarrow> (stage_error option \<times> net) option" where
  "await_approval cd w cfg def request reqErr waitErr denied n =
     (case run w request n of
        (Inl err, n1) \<Rightarrow> Some (Some (reqErr err), n1)
      | (Inr approvalID, n1) \<Rightarrow>
          Option.bind (waitForFleetApproval cd w cfg approvalID (sy_ApprovalTimeoutSeconds (jd_Strategy def))
              (poll_interval cfg) n1)
            (\<lambda>(r, n2). Some (case r of Inl err \<Rightarrow> (Some (waitErr err), n2)
               | Inr approved \<Rightarrow> (if approved then None else Some denied, n2))))"

definition approval_gate ::
  "codec \<Rightarrow> world \<Rightarrow> runner_config \<Rightarrow> job_def \<Rightarrow> string list \<Rightarrow> net \<Rightarrow> (stage_error option \<times> net) option" where
  "approval_gate cd w cfg def servers n =
     (if class_IsApprovalRequired (jobActionClass (jd_Steps def)) \<and> \<not> sy_DryRun (jd_Strategy def) \<and>
         rn_auditURL cfg \<noteq> []
      then await_approval cd w cfg def (requestFleetJobApproval cd cfg def (length servers))
        RequestFailed ApprovalFailed DeniedByApprover n
      else Some (None, n))"

primrec canary_phase ::
  "codec \<Rightarrow> world \<Rightarrow> runner_config \<Rightarrow> job_def \<Rightarrow> string list \<Rightarrow> net \<Rightarrow> stage_error option \<times> net" where
  "canary_phase cd w cfg def [] n = (None, n)"
| "canary_phase cd w cfg def (server # rest) n =
     (let (res, n') = run w (executeSteps cd cfg server ''canary'' (jd_Steps def)) n in
      if isServerFailure res (sy_CountPartialAsSuccess (jd_Strategy def))
      then (Some (CanaryFailed server (sv_err res)), n')
      else canary_phase cd w cfg def rest n')"

definition wave_gate ::
  "codec \<Rightarrow> world \<Rightarrow> runner_config \<Rightarrow> job_def \<Rightarrow> string list \<Rightarrow> string list \<Rightarrow> net \<Rightarrow> (stage_error option \<times> net) option" where
  "wave_gate cd w cfg def canaryServers waveServers n =
     (if sy_WaveGate (jd_Strategy def) \<and> rn_auditURL cfg \<noteq> []
      then await_approval cd w cfg def (requestWaveGateApproval cd cfg def canaryServers (length waveServers))
        GateRequestFailed GateFailed GateDenied n
      else Some (None, n))"

definition runWave ::
  "(nat \<Rightarrow> nat) \<Rightarrow> codec \<Rightarrow> world \<Rightarrow> runner_config \<Rightarrow> string list \<Rightarrow> string \<Rightarrow> step list \<Rightarrow> net \<Rightarrow>
   (server_result list \<times> net) option" where
  "runWave sch cd w cfg servers waveName steps n =
     par sch w 0 (map (\<lambda>srv. executeSteps cd cfg srv waveName steps) servers) n"

definition failure_rate :: "strategy \<Rightarrow> server_result list \<Rightarrow> rat" where
  "failure_rate st results = fl64
     (of_nat (length (filter (\<lambda>res. isServerFailure res (sy_CountPartialAsSuccess st)) results)) /
      of_nat (length results))"

primrec wave_phase ::
  "(nat \<Rightarrow> nat \<Rightarrow> nat) \<Rightarrow> codec \<Rightarrow> world \<Rightarrow> runner_config \<Rightarrow> job_def \<Rightarrow> string list list \<Rightarrow> nat \<Rightarrow> net \<Rightarrow>
   (stage_error option \<times> net) option" where
  "wave_phase sch cd w cfg def [] waveIdx n = Some (None, n)"
| "wave_phase sch cd w cfg def (wave # rest) waveIdx n =
     (let waveName = wave_name (int waveIdx); st = jd_Strategy def in
      Option.bind (runWave (sch waveIdx) cd w cfg wave waveName (jd_Steps def) n) (\<lambda>(results, n').
        if failure_rate st results > sy_FailureThreshold st
        then Some (Some (CircuitBreaker waveName (failure_rate st results) (sy_FailureThreshold st)), n')
        else wave_phase sch cd w cfg def rest (Suc waveIdx)
          (if rest \<noteq> [] \<and> sy_WavePauseSeconds st > 0
           then sleep w (wrap64 (sy_WavePauseSeconds st * Second)) n' else n')))"

definition runStages ::
  "(nat \<Rightarrow> nat \<Rightarrow> nat) \<Rightarrow> codec \<Rightarrow> world \<Rightarrow> runner_config \<Rightarrow> job_def \<Rightarrow> string list \<Rightarrow> net \<Rightarrow>
   (stage_error option \<times> net) option" where
  "runStages sch cd w cfg def servers n =
     (if servers = [] then Some (Some NoServers, n)
      else Option.bind (approval_gate cd w cfg def servers n) (\<lambda>(gate, n1).
        if gate \<noteq> None then Some (gate, n1)
        else let canaryCount = canary_count (jd_Strategy def) servers in
          if canaryCount < 0 then Some (Some SliceBounds, n1)
          else let canaryServers = take (nat canaryCount) servers; waveServers = drop (nat canaryCount) servers;
                 (canary, n2) = canary_phase cd w cfg def canaryServers n1
            in if canary \<noteq> None then Some (canary, n2)
               else if waveServers = [] then Some (None, n2)
               else Option.bind (wave_gate cd w cfg def canaryServers waveServers n2) (\<lambda>(wgate, n3).
                 if wgate \<noteq> None then Some (wgate, n3)
                 else wave_phase sch cd w cfg def (waves_of (jd_Strategy def) waveServers) 0 n3)))"

end
