(* ===== verification/Fleet_Safety.thy ===== *)
theory Fleet_Safety
  imports Fleet_Run
begin

text \<open>
  Safety and termination of the rollout of \<open>Fleet_Run\<close>: which servers a run contacts, in which order
  relative to approvals, when it stops, and that it always ends. The facts about single programs are
  lifted to sequences and to interleaved waves by the rules of \<open>Http_Client\<close>.
\<close>

section \<open>Programs that must send a request\<close>

primrec must :: "(http_req \<Rightarrow> bool) \<Rightarrow> 'a prog \<Rightarrow> bool" where
  "must Q (Return x) = False"
| "must Q (Now f) = (\<forall>t. must Q (f t))"
| "must Q (Sleep d p) = must Q p"
| "must Q (Call r f) = (Q r \<or> (\<forall>x. must Q (f x)))"

lemma must_bindP_left: "must Q p \<Longrightarrow> must Q (bindP p g)"
  by (induction p) auto

lemma must_bindP_right: "(\<And>x. must Q (g x)) \<Longrightarrow> must Q (bindP p g)"
  by (induction p) auto

lemma must_advance:
  "must Q p \<Longrightarrow> must Q (fst (advance w p n)) \<or> (\<exists>(r, x) \<in> set (new n (snd (advance w p n))). Q r)"
proof (cases p)
  case (Call r f)
  assume "must Q p"
  have "new n (snd (advance w p n)) = [(r, fst (send w r n))]"
    using Call by (simp add: case_prod_unfold Let_def new_send [OF prod.collapse [symmetric]])
  with Call \<open>must Q p\<close> show ?thesis
    by (auto simp: case_prod_unfold Let_def)
qed auto

text \<open>A set of goroutines: every request is one its goroutine may send, and every goroutine that must
  send a request has sent it when all have returned.\<close>

lemma par_talks:
  assumes "par sch w j ps n = Some (xs, n')" "\<forall>p \<in> set ps. talks Q p"
  shows "later n n' \<and> (\<forall>(r, x) \<in> set (new n n'). Q r) \<and> length xs = length ps"
proof -
  let ?I = "\<lambda>qs m. length qs = length ps \<and> later n m \<and> (\<forall>(r, x) \<in> set (new n m). Q r) \<and> (\<forall>p \<in> set qs. talks Q p)"
  have "\<exists>qs. ?I qs (snd (xs, n')) \<and> live qs = [] \<and> fst (xs, n') = map (\<lambda>p. the (result p)) qs"
  proof (rule par_inv [OF assms(1), of ?I])
    fix qs m i
    assume I: "?I qs m" and i: "i < length qs" "result (qs ! i) = None"
    have t: "talks Q (qs ! i)"
      using I i by simp
    have l: "later m (snd (advance w (qs ! i) m))"
      by (rule later_advance)
    from I l have "new n (snd (advance w (qs ! i) m)) = new n m @ new m (snd (advance w (qs ! i) m))"
      by (intro new_trans) auto
    then show "?I (qs[i := fst (advance w (qs ! i) m)]) (snd (advance w (qs ! i) m))"
      using I l talks_advance [OF t, where w = w and n = m] later_trans set_update_subset_insert [of qs i] by fastforce
  qed (use assms(2) in simp)
  then show ?thesis by auto
qed

lemma par_must:
  assumes "par sch w j ps n = Some (xs, n')" "p \<in> set ps" "must Q p"
  shows "\<exists>(r, x) \<in> set (new n n'). Q r"
proof -
  obtain k where k: "k < length ps" "ps ! k = p"
    using assms(2) by (auto simp: in_set_conv_nth)
  let ?I = "\<lambda>qs m. k < length qs \<and> later n m \<and> ((\<exists>(r, x) \<in> set (new n m). Q r) \<or> must Q (qs ! k))"
  have "\<exists>qs. ?I qs (snd (xs, n')) \<and> live qs = [] \<and> fst (xs, n') = map (\<lambda>p. the (result p)) qs"
  proof (rule par_inv [OF assms(1), of ?I])
    fix qs m i
    assume I: "?I qs m" and i: "i < length qs" "result (qs ! i) = None"
    let ?m = "snd (advance w (qs ! i) m)"
    have l: "later m ?m"
      by (rule later_advance)
    from I l have nw: "new n ?m = new n m @ new m ?m"
      by (intro new_trans) auto
    have "(\<exists>(r, x) \<in> set (new n ?m). Q r) \<or> must Q (qs[i := fst (advance w (qs ! i) m)] ! k)"
    proof (cases "\<exists>(r, x) \<in> set (new n m). Q r")
      case False
      with I have "must Q (qs ! k)" by simp
      with must_advance [of Q "qs ! k" w m] I nw show ?thesis
        by (cases "i = k") auto
    qed (auto simp: nw)
    with I l show "?I (qs[i := fst (advance w (qs ! i) m)]) ?m"
      using later_trans by fastforce
  qed (use k assms(3) in simp)
  then obtain qs where q: "?I qs (snd (xs, n')) \<and> live qs = [] \<and> fst (xs, n') = map (\<lambda>p. the (result p)) qs" ..
  then have "\<not> must Q (qs ! k)"
    using live_iff [of k qs] by (cases "qs ! k") auto
  with q show ?thesis by simp
qed

lemma run_must: "must Q p \<Longrightarrow> run w p n = (x, n') \<Longrightarrow> \<exists>(r, y) \<in> set (new n n'). Q r"
proof (induction p arbitrary: n)
  case (Now f)
  then show ?case
    using Now.IH [OF rangeI, of "nt_now n" n] by simp
next
  case (Sleep d p)
  then have "later (sleep w d n) n'" "\<exists>(r, y) \<in> set (new (sleep w d n) n'). Q r"
    using later_run by auto
  then show ?case
    using new_trans [of n "sleep w d n" n'] by simp
next
  case (Call r f)
  obtain y m where m: "send w r n = (y, m)"
    by (cases "send w r n")
  with Call.prems have r: "run w (f y) m = (x, n')" and Q: "Q r \<or> must Q (f y)"
    by auto
  have "new n n' = (r, y) # new m n'"
    using new_trans [OF later_send [OF m] later_run [OF r]] new_send [OF m] by simp
  with Call.IH [OF rangeI _ r] Q show ?case
    by auto
qed simp

section \<open>Requests of the runner\<close>

text \<open>\<open>contacts cfg s r\<close>: the request calls a tool on the server \<open>s\<close>. \<open>quiet r\<close>: the request
  declares no purpose, so it calls no tool.\<close>

definition contacts :: "runner_config \<Rightarrow> string \<Rightarrow> http_req \<Rightarrow> bool" where
  "contacts cfg s r \<longleftrightarrow> (\<exists>stage st. r = tool_request cfg s stage st)"

definition quiet :: "http_req \<Rightarrow> bool" where
  "quiet r \<longleftrightarrow> ''X-Purpose'' \<notin> fst ` set (hq_headers r)"

definition contacted :: "runner_config \<Rightarrow> (http_req \<times> http_reply) list \<Rightarrow> string set" where
  "contacted cfg calls = {s. \<exists>(r, x) \<in> set calls. contacts cfg s r}"

lemma contactsI [simp]: "contacts cfg s (tool_request cfg s stage st)"
  by (auto simp: contacts_def)

lemma contacts_unique: "contacts cfg s r \<Longrightarrow> contacts cfg s' r \<Longrightarrow> s = s'"
  by (auto simp: contacts_def tool_request_def json_put_def)

lemma contacts_not_quiet: "contacts cfg s r \<Longrightarrow> \<not> quiet r"
  by (auto simp: contacts_def tool_request_def quiet_def)

lemma contacted_Nil [simp]: "contacted cfg [] = {}"
  by (simp add: contacted_def)

lemma contacted_append [simp]: "contacted cfg (xs @ ys) = contacted cfg xs \<union> contacted cfg ys"
  by (auto simp: contacted_def)

lemma contacted_quiet: "\<forall>(r, x) \<in> set calls. quiet r \<Longrightarrow> contacted cfg calls = {}"
  using contacts_not_quiet by (fastforce simp: contacted_def)

named_theorems talk_intros \<open>which requests a program of the runner sends\<close>

lemma talks_http_do [talk_intros]: "Q r \<Longrightarrow> talks Q (http_do cd r)"
  by (simp add: http_do_def split: option.splits)

lemma quiet_plain [simp]:
  "quiet \<lparr>hq_method = m, hq_url = u, hq_headers = json_type # bearer key, hq_body = b\<rparr>"
  "quiet \<lparr>hq_method = m, hq_url = u, hq_headers = bearer key, hq_body = b\<rparr>"
  "quiet \<lparr>hq_method = m, hq_url = u, hq_headers = [json_type], hq_body = b\<rparr>"
  by (simp_all add: quiet_def json_type_def bearer_def)

lemma talks_patchServerStatus [talk_intros]: "talks quiet (patchServerStatus cd cfg s status out t t')"
  by (auto simp: patchServerStatus_def server_patch_def intro!: talks_bindP talks_http_do)

lemma talks_patchStepStatus [talk_intros]: "talks quiet (patchStepStatus cd cfg s i status out)"
  by (auto simp: patchStepStatus_def intro!: talks_bindP talks_http_do)

lemma talks_recordToolResult [talk_intros]: "talks quiet (recordToolResult cd cfg s st out)"
  by (auto simp: recordToolResult_def intro!: talks_bindP talks_http_do)

lemma talks_verify_attempt: "talks quiet (verify_attempt cd u)"
  by (auto simp: verify_attempt_def intro!: talks_bindP talks_http_do)

lemma talks_verifyStep [talk_intros]: "talks quiet (verifyStep cd cfg t)"
  by (auto simp: verifyStep_def VerifyTrace_def Let_def intro!: talks_bindP talks_verify_attempt split: sum.splits)

lemma talks_callGatewayTool [talk_intros]: "talks (contacts cfg s) (callGatewayTool cd cfg s stage st)"
  by (auto simp: callGatewayTool_def intro!: talks_bindP talks_http_do)

abbreviation about :: "runner_config \<Rightarrow> string \<Rightarrow> http_req \<Rightarrow> bool" where
  "about cfg s r \<equiv> contacts cfg s r \<or> quiet r"

lemma talks_about:
  "talks quiet p \<Longrightarrow> talks (about cfg s) p" "talks (contacts cfg s) p \<Longrightarrow> talks (about cfg s) p"
  by (auto elim: talks_mono)

lemma talks_exec_loop: "talks (about cfg s) (exec_loop cd cfg s stage steps idx srs partial)"
proof (induction steps arbitrary: idx srs partial)
  case Nil
  show ?case
    by (auto intro!: talks_bindP talks_about(1) talk_intros)
next
  case (Cons st steps)
  show ?case
    by (auto simp: Let_def intro!: talks_bindP talks_about(2) [OF talks_callGatewayTool]
        talks_about(1) [OF talks_patchStepStatus] talks_about(1) [OF talks_patchServerStatus]
        talks_about(1) [OF talks_verifyStep] talks_about(1) [OF talks_recordToolResult] Cons split: option.splits)
qed

lemma talks_executeSteps: "talks (about cfg s) (executeSteps cd cfg s stage steps)"
  by (auto simp: executeSteps_def intro!: talks_bindP talks_exec_loop talks_about(1) [OF talks_patchServerStatus])

lemma must_executeSteps:
  assumes "steps \<noteq> []" "\<forall>u. cd_url cd u = None"
  shows "must (contacts cfg s) (executeSteps cd cfg s stage steps)"
proof -
  obtain st rest where st: "steps = st # rest"
    using assms(1) by (cases steps) auto
  have "must (contacts cfg s) (callGatewayTool cd cfg s stage st)"
    using assms(2) by (simp add: callGatewayTool_def http_do_def)
  then have "must (contacts cfg s) (exec_loop cd cfg s stage steps 0 [] False)"
    unfolding st by (simp add: must_bindP_left)
  then show ?thesis
    by (simp add: executeSteps_def must_bindP_right)
qed

section \<open>Length of the programs\<close>

named_theorems short_intros \<open>upper bounds on the steps of a program\<close>

lemma atmost_http_do: "atmost 1 (http_do cd r)"
  by (simp add: http_do_def split: option.splits)

lemma atmost_then_Return: "atmost k p \<Longrightarrow> atmost k (bindP p (\<lambda>x. Return (g x)))"
  using atmost_bindP [of k p 0 "\<lambda>x. Return (g x)"] by simp

lemma atmost_if: "atmost k p \<Longrightarrow> atmost k q \<Longrightarrow> atmost k (if b then p else q)"
  by simp

lemma atmost_small [short_intros]:
  "atmost 1 (patchServerStatus cd cfg s status out t t')"
  "atmost 1 (patchStepStatus cd cfg s i status out)"
  "atmost 1 (recordToolResult cd cfg s st out)"
  "atmost 1 (callGatewayTool cd cfg s stage st)"
  "atmost 1 (verify_attempt cd u)"
  unfolding patchServerStatus_def patchStepStatus_def recordToolResult_def callGatewayTool_def verify_attempt_def
  by (intro atmost_if atmost_Return atmost_then_Return atmost_http_do)+

lemma atmost_verifyStep: "atmost 3 (verifyStep cd cfg t)"
proof -
  have retry: "atmost 2 (Sleep d (bindP (verify_attempt cd u) (\<lambda>r. Return (g r))))" for d u and g :: "_ \<Rightarrow> 'a"
    using atmost_then_Return [OF atmost_small(5)] by (simp add: numeral_2_eq_2)
  have three: "(1 :: nat) + 2 = 3"
    by simp
  have "atmost (1 + 2) (VerifyTrace cd u i t)" for u i
  proof (cases "u = []")
    case False
    then show ?thesis
      unfolding VerifyTrace_def Let_def if_not_P [OF False]
      by (intro atmost_bindP atmost_small) (auto intro: retry split: sum.splits)
  qed (simp add: VerifyTrace_def)
  then show ?thesis
    unfolding verifyStep_def three by (intro atmost_if atmost_Return atmost_then_Return)
qed

lemma atmost_Now: "(\<And>t. atmost k (f t)) \<Longrightarrow> atmost (1 + k) (Now f)"
  by simp

lemma atmost_exec_loop: "atmost (2 + 7 * length steps) (exec_loop cd cfg s stage steps idx srs partial)"
proof (induction steps arbitrary: idx srs partial)
  case Nil
  have "atmost (1 + 1) (exec_loop cd cfg s stage [] idx srs partial)"
    unfolding exec_loop.simps by (intro atmost_Now atmost_then_Return atmost_small)
  then show ?case
    by (simp add: numeral_2_eq_2)
next
  case (Cons st steps)
  let ?k = "2 + 7 * length steps"
  have stop: "atmost (1 + 1) (Now (\<lambda>t. bindP (patchServerStatus cd cfg s ''failed'' out None (Some t)) (\<lambda>_. Return r)))"
    for out and r :: server_result
    by (intro atmost_Now atmost_then_Return atmost_small)
  let ?m = "3 + (1 + (1 + ?k))"
  have fail: "atmost ?m (bindP (patchStepStatus cd cfg s idx ''failed'' out) (\<lambda>_.
      if c then exec_loop cd cfg s stage steps (Suc idx) srs' True
      else Now (\<lambda>t. bindP (patchServerStatus cd cfg s ''failed'' out None (Some t)) (\<lambda>_. Return r))))" for out c srs' r
    by (intro atmost_mono [OF atmost_bindP [OF atmost_small(2), of ?k]] atmost_if atmost_mono [OF stop] Cons) simp_all
  have ok: "atmost ?m (bindP (verifyStep cd cfg t) (\<lambda>v.
      bindP (patchStepStatus cd cfg s idx ''success'' out) (\<lambda>_. bindP (recordToolResult cd cfg s st out) (\<lambda>_.
        exec_loop cd cfg s stage steps (Suc idx) (f v) partial))))" for t out f
    by (intro atmost_bindP atmost_small atmost_verifyStep Cons)
  have "atmost (1 + (1 + ?m)) (exec_loop cd cfg s stage (st # steps) idx srs partial)"
    unfolding exec_loop.simps Let_def
    by (intro atmost_Now atmost_bindP atmost_small; split prod.split, intro allI impI; split option.split,
        intro conjI allI impI; (rule ok)?, (rule fail)?)
  moreover have "1 + (1 + ?m) = 2 + 7 * length (st # steps)"
    by simp
  ultimately show ?case
    by metis
qed

lemma atmost_executeSteps: "atmost (4 + 7 * length steps) (executeSteps cd cfg s stage steps)"
proof -
  have "atmost (1 + (1 + (2 + 7 * length steps))) (executeSteps cd cfg s stage steps)"
    unfolding executeSteps_def by (intro atmost_Now atmost_bindP atmost_small atmost_exec_loop)
  then show ?thesis
    by (simp add: numeral_eq_Suc)
qed

section \<open>Waiting for an approval\<close>

lemma talks_getApprovalStatus: "talks (\<lambda>r. r = status_get cfg i) (getApprovalStatus cd cfg i)"
  by (auto simp: getApprovalStatus_def intro!: talks_bindP talks_http_do)

lemma quiet_status_get [simp]: "quiet (status_get cfg i)"
  by (simp add: status_get_def)

lemma quiet_approval_post [simp]: "quiet (approval_post cfg body)"
  by (simp add: approval_post_def)

text \<open>One round of the loop: the timer, the request and its answer.\<close>

lemma poll_round:
  assumes "run w (getApprovalStatus cd cfg i) (sleep w poll n) = (status, n')"
  shows "later n n'" "int (nt_now n) + poll \<le> int (nt_now n')" "length (new n n') \<le> 1"
    "\<forall>(r, x) \<in> set (new n n'). r = status_get cfg i"
    "status = Inr s \<Longrightarrow> \<exists>code body. new n n' = [(status_get cfg i, Response code body)] \<and> status_of cd (Got code body) = Inr s"
proof -
  let ?m = "sleep w poll n"
  have l: "later ?m n'"
    using assms by (rule later_run)
  have nw: "new n n' = new ?m n'"
    using new_trans [OF later_sleep l] by simp
  show "later n n'"
    using later_trans [OF later_sleep l] .
  show "int (nt_now n) + poll \<le> int (nt_now n')"
  proof -
    have "nt_now n + nat poll \<le> nt_now n'"
      using l by (simp add: later_def sleep_def)
    then show ?thesis by linarith
  qed
  show "\<forall>(r, x) \<in> set (new n n'). r = status_get cfg i"
    unfolding nw by (rule talks_run [OF talks_getApprovalStatus assms])
  consider e where "cd_url cd (hq_url (status_get cfg i)) = Some e" | "cd_url cd (hq_url (status_get cfg i)) = None"
    by fastforce
  then have "length (new n n') \<le> 1 \<and> (status = Inr s \<longrightarrow>
      (\<exists>code body. new n n' = [(status_get cfg i, Response code body)] \<and> status_of cd (Got code body) = Inr s))"
  proof cases
    case 1
    then show ?thesis
      using assms unfolding nw by (auto simp: getApprovalStatus_def http_do_def status_of_def)
  next
    case 2
    obtain x m where x: "send w (status_get cfg i) ?m = (x, m)"
      by (cases "send w (status_get cfg i) ?m")
    with 2 assms have "n' = m" "status = status_of cd (case x of Refused err \<Rightarrow> NotSent err | Response c b \<Rightarrow> Got c b)"
      by (auto simp: getApprovalStatus_def http_do_def)
    with new_send [OF x] show ?thesis
      unfolding nw by (cases x) (auto simp: status_of_def)
  qed
  then show "length (new n n') \<le> 1"
    "status = Inr s \<Longrightarrow> \<exists>code body. new n n' = [(status_get cfg i, Response code body)] \<and> status_of cd (Got code body) = Inr s"
    by blast+
qed

lemma wait_loop_returns:
  assumes "0 < poll"
  shows "\<exists>r n'. wait_loop cd w cfg i secs deadline poll n = Some (r, n') \<and>
    int (length (new n n')) * poll \<le> max 0 (deadline - int (nt_now n)) + poll"
proof (induction "nat (deadline - int (nt_now n))" arbitrary: n rule: less_induct)
  case less
  obtain status n1 where r: "run w (getApprovalStatus cd cfg i) (sleep w poll n) = (status, n1)"
    by (cases "run w (getApprovalStatus cd cfg i) (sleep w poll n)")
  note round = poll_round(1-3) [OF r]
  have one: "int (length (new n n1)) * poll \<le> max 0 (deadline - int (nt_now n)) + poll"
    using round(3) assms by (cases "length (new n n1)") auto
  show ?case
  proof (cases "status \<in> {Inr ''approved'', Inr ''denied'', Inr ''expired'', Inr ''cancelled''} \<or> int (nt_now n1) > deadline")
    case True
    then show ?thesis
      using one by (subst wait_loop.simps) (auto simp: r)
  next
    case False
    then have now: "int (nt_now n) + poll \<le> int (nt_now n1)" "int (nt_now n1) \<le> deadline"
      using round(2) by auto
    then obtain r' n' where w: "wait_loop cd w cfg i secs deadline poll n1 = Some (r', n')"
        and b: "int (length (new n1 n')) * poll \<le> max 0 (deadline - int (nt_now n1)) + poll"
      using less [of n1] assms by auto
    have eq: "wait_loop cd w cfg i secs deadline poll n = wait_loop cd w cfg i secs deadline poll n1"
      using False by (subst wait_loop.simps) (auto simp: r)
    have "length (new n n') \<le> length (new n n1) + length (new n1 n')"
      using round(1) by (auto simp: new_def later_def)
    then have "length (new n n') \<le> 1 + length (new n1 n')"
      using round(3) by linarith
    then have "int (length (new n n')) * poll \<le> (1 + int (length (new n1 n'))) * poll"
      using assms by (intro mult_right_mono) auto
    also have "\<dots> \<le> max 0 (deadline - int (nt_now n)) + poll"
      using b now by (simp add: algebra_simps)
    finally show ?thesis
      using w eq by auto
  qed
qed

lemma wait_loop_result:
  assumes "wait_loop cd w cfg i secs deadline poll n = Some r"
  shows "later n (snd r) \<and> (\<forall>(q, x) \<in> set (new n (snd r)). q = status_get cfg i) \<and>
    (\<forall>b. fst r = Inr b \<longrightarrow> b \<and> (\<exists>pre code body. new n (snd r) = pre @ [(status_get cfg i, Response code body)] \<and>
      status_of cd (Got code body) = Inr ''approved''))"
  using assms
proof (rule wait_loop.raw_induct [rotated], goal_cases)
  case (1 loop cd w cfg i secs deadline poll n r)
  obtain status n1 where run: "run w (getApprovalStatus cd cfg i) (sleep w poll n) = (status, n1)"
    by (cases "run w (getApprovalStatus cd cfg i) (sleep w poll n)")
  note round = poll_round(1,4) [OF run] and answer = poll_round(5) [OF run]
  show ?case
  proof (cases "status \<in> {Inr ''approved'', Inr ''denied'', Inr ''expired'', Inr ''cancelled''} \<or> int (nt_now n1) > deadline")
    case True
    then show ?thesis
      using 1(2) round answer [of "''approved''"] by (auto simp: run split: if_splits)
  next
    case False
    then have "loop cd w cfg i secs deadline poll n1 = Some r"
      using 1(2) by (auto simp: run)
    note IH = 1(1) [OF this]
    then have "new n (snd r) = new n n1 @ new n1 (snd r)"
      using round(1) by (intro new_trans) auto
    with IH round show ?thesis
      by (auto intro: later_trans)
  qed
qed

section \<open>Approval gates\<close>

lemma talks_requests:
  "talks quiet (requestFleetJobApproval cd cfg def k)" "talks quiet (requestWaveGateApproval cd cfg def cs k)"
  by (auto simp: requestFleetJobApproval_def requestWaveGateApproval_def intro!: talks_bindP talks_http_do)

lemma poll_interval_pos: "0 < poll_interval cfg"
  by (simp add: poll_interval_def Second_def)

lemma wait_returns: "\<exists>r n'. waitForFleetApproval cd w cfg i t (poll_interval cfg) n = Some (r, n')"
  using wait_loop_returns [OF poll_interval_pos] unfolding waitForFleetApproval_def Let_def by blast

lemma await_returns: "\<exists>r. await_approval cd w cfg def request reqErr waitErr denied n = Some r"
proof -
  obtain x n1 where x: "run w request n = (x, n1)"
    by (cases "run w request n")
  show ?thesis
  proof (cases x)
    case (Inr i)
    obtain r m where "waitForFleetApproval cd w cfg i (sy_ApprovalTimeoutSeconds (jd_Strategy def)) (poll_interval cfg) n1 = Some (r, m)"
      using wait_returns by blast
    with x Inr show ?thesis
      by (simp add: await_approval_def)
  qed (simp add: await_approval_def x)
qed

lemma await_result:
  assumes "await_approval cd w cfg def request reqErr waitErr denied n = Some (e, n')" "talks quiet request"
  shows "later n n'" "\<forall>(r, x) \<in> set (new n n'). quiet r"
    "e = None \<or> (\<exists>m. e = Some (reqErr m)) \<or> (\<exists>m. e = Some (waitErr m))"
    "e = None \<Longrightarrow> \<exists>i n1 pre code body. run w request n = (Inr i, n1) \<and>
       new n n' = new n n1 @ pre @ [(status_get cfg i, Response code body)] \<and>
       (\<forall>(r, x) \<in> set pre. r = status_get cfg i) \<and> status_of cd (Got code body) = Inr ''approved''"
proof -
  obtain x n1 where x: "run w request n = (x, n1)"
    by (cases "run w request n")
  have l1: "later n n1" and q1: "\<forall>(r, x) \<in> set (new n n1). quiet r"
    using later_run [OF x] talks_run [OF assms(2) x] by auto
  have "later n n' \<and> (\<forall>(r, x) \<in> set (new n n'). quiet r) \<and>
    (e = None \<or> (\<exists>m. e = Some (reqErr m)) \<or> (\<exists>m. e = Some (waitErr m))) \<and>
    (e = None \<longrightarrow> (\<exists>i n1 pre code body. run w request n = (Inr i, n1) \<and>
       new n n' = new n n1 @ pre @ [(status_get cfg i, Response code body)] \<and>
       (\<forall>(r, x) \<in> set pre. r = status_get cfg i) \<and> status_of cd (Got code body) = Inr ''approved''))"
  proof (cases x)
    case (Inl err)
    with assms(1) l1 q1 show ?thesis
      by (auto simp: await_approval_def x)
  next
    case (Inr i)
    then obtain r m where r': "waitForFleetApproval cd w cfg i (sy_ApprovalTimeoutSeconds (jd_Strategy def))
        (poll_interval cfg) n1 = Some (r, m)"
      using wait_returns by blast
    with assms(1) x Inr have m: "m = n'"
        and e: "e = (case r of Inl err \<Rightarrow> Some (waitErr err) | Inr approved \<Rightarrow> if approved then None else Some denied)"
      by (auto simp: await_approval_def split: sum.splits)
    note r = r' [unfolded m]
    note w = wait_loop_result [OF r [unfolded waitForFleetApproval_def Let_def], simplified]
    then have nw: "new n n' = new n n1 @ new n1 n'"
      using l1 by (intro new_trans) auto
    have q: "\<forall>(r, x) \<in> set (new n n'). quiet r"
      using q1 w unfolding nw by auto
    show ?thesis
    proof (cases r)
      case (Inr b)
      with w obtain pre code body where a: "b" "new n1 n' = pre @ [(status_get cfg i, Response code body)]"
          "status_of cd (Got code body) = Inr ''approved''" by auto
      moreover have "\<forall>(r, x) \<in> set pre. r = status_get cfg i"
        using w a(2) by auto
      ultimately show ?thesis
        using l1 w q e Inr x \<open>x = Inr i\<close> nw by (auto intro: later_trans)
    qed (use l1 w q e in \<open>auto intro: later_trans\<close>)
  qed
  then show "later n n'" "\<forall>(r, x) \<in> set (new n n'). quiet r"
    "e = None \<or> (\<exists>m. e = Some (reqErr m)) \<or> (\<exists>m. e = Some (waitErr m))"
    "e = None \<Longrightarrow> \<exists>i n1 pre code body. run w request n = (Inr i, n1) \<and>
       new n n' = new n n1 @ pre @ [(status_get cfg i, Response code body)] \<and>
       (\<forall>(r, x) \<in> set pre. r = status_get cfg i) \<and> status_of cd (Got code body) = Inr ''approved''"
    by blast+
qed

lemma gate_result:
  assumes "approval_gate cd w cfg def servers n = Some (e, n')"
  shows "later n n'" "\<forall>(r, x) \<in> set (new n n'). quiet r"
    "e = None \<or> (\<exists>m. e = Some (RequestFailed m)) \<or> (\<exists>m. e = Some (ApprovalFailed m))"
proof -
  consider "e = None" "n' = n" | "await_approval cd w cfg def (requestFleetJobApproval cd cfg def (length servers)) RequestFailed ApprovalFailed DeniedByApprover n = Some (e, n')"
    using assms unfolding approval_gate_def by (metis Pair_inject option.inject)
  then have "later n n' \<and> (\<forall>(r, x) \<in> set (new n n'). quiet r) \<and> (e = None \<or> (\<exists>m. e = Some (RequestFailed m)) \<or> (\<exists>m. e = Some (ApprovalFailed m)))"
  proof cases
    case 2
    from await_result(1-3) [OF this talks_requests(1)] show ?thesis by blast
  qed simp
  then show "later n n'" "\<forall>(r, x) \<in> set (new n n'). quiet r"
    "e = None \<or> (\<exists>m. e = Some (RequestFailed m)) \<or> (\<exists>m. e = Some (ApprovalFailed m))"
    by blast+
qed

lemma wave_gate_result:
  assumes "wave_gate cd w cfg def cs ws n = Some (e, n')"
  shows "later n n'" "\<forall>(r, x) \<in> set (new n n'). quiet r"
    "e = None \<or> (\<exists>m. e = Some (GateRequestFailed m)) \<or> (\<exists>m. e = Some (GateFailed m))"
proof -
  consider "e = None" "n' = n" | "await_approval cd w cfg def (requestWaveGateApproval cd cfg def cs (length ws)) GateRequestFailed GateFailed GateDenied n = Some (e, n')"
    using assms unfolding wave_gate_def by (metis Pair_inject option.inject)
  then have "later n n' \<and> (\<forall>(r, x) \<in> set (new n n'). quiet r) \<and> (e = None \<or> (\<exists>m. e = Some (GateRequestFailed m)) \<or> (\<exists>m. e = Some (GateFailed m)))"
  proof cases
    case 2
    from await_result(1-3) [OF this talks_requests(2)] show ?thesis by blast
  qed simp
  then show "later n n'" "\<forall>(r, x) \<in> set (new n n'). quiet r"
    "e = None \<or> (\<exists>m. e = Some (GateRequestFailed m)) \<or> (\<exists>m. e = Some (GateFailed m))"
    by blast+
qed

section \<open>The servers a phase contacts\<close>

text \<open>
  \<open>covers\<close>: a record contacts no server outside a set, and all of the set when the job has a step and
  the URLs are well formed.
\<close>

definition covers :: "codec \<Rightarrow> runner_config \<Rightarrow> job_def \<Rightarrow> (http_req \<times> http_reply) list \<Rightarrow> string set \<Rightarrow> bool" where
  "covers cd cfg def calls S \<longleftrightarrow> contacted cfg calls \<subseteq> S \<and>
     (jd_Steps def \<noteq> [] \<and> (\<forall>u. cd_url cd u = None) \<longrightarrow> S \<subseteq> contacted cfg calls)"

lemma covers_Nil [simp]: "covers cd cfg def [] {}"
  by (simp add: covers_def)

lemma covers_quiet: "\<forall>(r, x) \<in> set calls. quiet r \<Longrightarrow> covers cd cfg def calls {}"
  using contacted_quiet by (auto simp: covers_def)

lemma covers_append: "covers cd cfg def xs S \<Longrightarrow> covers cd cfg def ys T \<Longrightarrow> covers cd cfg def (xs @ ys) (S \<union> T)"
  by (auto simp: covers_def)

lemma covers_trans:
  assumes "later a b" "later b c" "covers cd cfg def (new a b) S" "covers cd cfg def (new b c) T"
  shows "covers cd cfg def (new a c) (S \<union> T)"
  unfolding new_trans [OF assms(1,2)] by (rule covers_append [OF assms(3,4)])

lemma contacted_about:
  assumes "\<forall>(r, x) \<in> set calls. \<exists>s \<in> S. about cfg s r"
  shows "contacted cfg calls \<subseteq> S"
proof
  fix s
  assume "s \<in> contacted cfg calls"
  then obtain r x where r: "(r, x) \<in> set calls" "contacts cfg s r"
    by (auto simp: contacted_def)
  with assms obtain t where "t \<in> S" "about cfg t r"
    by blast
  with r(2) show "s \<in> S"
    using contacts_unique contacts_not_quiet by blast
qed

lemma run_server:
  assumes "run w (executeSteps cd cfg s stage (jd_Steps def)) n = (res, n')"
  shows "later n n' \<and> covers cd cfg def (new n n') {s}"
proof -
  have "contacted cfg (new n n') \<subseteq> {s}"
    using talks_run [OF talks_executeSteps assms] by (intro contacted_about) simp
  moreover have "s \<in> contacted cfg (new n n')" if "jd_Steps def \<noteq> []" "\<forall>u. cd_url cd u = None"
    using run_must [OF must_executeSteps [OF that] assms] by (simp add: contacted_def)
  ultimately show ?thesis
    using later_run [OF assms] by (simp add: covers_def)
qed

lemma run_wave:
  assumes "runWave sch cd w cfg wave name (jd_Steps def) n = Some (results, n')"
  shows "later n n' \<and> covers cd cfg def (new n n') (set wave) \<and> length results = length wave"
proof -
  note par = assms [unfolded runWave_def]
  have t: "\<forall>p \<in> set (map (\<lambda>srv. executeSteps cd cfg srv name (jd_Steps def)) wave). talks (\<lambda>r. \<exists>s \<in> set wave. about cfg s r) p"
    by (auto intro: talks_mono [OF talks_executeSteps])
  have "s \<in> contacted cfg (new n n')" if "jd_Steps def \<noteq> []" "\<forall>u. cd_url cd u = None" "s \<in> set wave" for s
    using par_must [OF par _ must_executeSteps [OF that(1,2), where cfg = cfg and s = s and stage = name]] that(3)
    by (simp add: contacted_def)
  with par_talks [OF par t] contacted_about [of "new n n'" "set wave" cfg] show ?thesis
    by (auto simp: covers_def)
qed

lemma canary_result:
  "canary_phase cd w cfg def cs n = (e, n') \<Longrightarrow> later n n' \<and> (case e of
     None \<Rightarrow> covers cd cfg def (new n n') (set cs)
   | Some x \<Rightarrow> \<exists>k err. k < length cs \<and> x = CanaryFailed (cs ! k) err \<and>
       covers cd cfg def (new n n') (set (take (Suc k) cs)))"
proof (induction cs arbitrary: n)
  case (Cons s cs)
  obtain res m where r: "run w (executeSteps cd cfg s ''canary'' (jd_Steps def)) n = (res, m)"
    by (cases "run w (executeSteps cd cfg s ''canary'' (jd_Steps def)) n")
  note server = run_server [OF r]
  show ?case
  proof (cases "isServerFailure res (sy_CountPartialAsSuccess (jd_Strategy def))")
    case True
    with Cons.prems r server show ?thesis
      by (auto intro!: exI [of _ 0])
  next
    case False
    with Cons.prems r have c: "canary_phase cd w cfg def cs m = (e, n')"
      by simp
    note IH = Cons.IH [OF c]
    show ?thesis
    proof (cases e)
      case None
      with IH server covers_trans [of n m n' cd cfg def "{s}" "set cs"] show ?thesis
        by (auto intro: later_trans)
    next
      case (Some x)
      with IH obtain k err where k: "k < length cs" "x = CanaryFailed (cs ! k) err"
          "covers cd cfg def (new m n') (set (take (Suc k) cs))" by auto
      with IH server covers_trans [of n m n' cd cfg def "{s}"] have
        "covers cd cfg def (new n n') (set (take (Suc (Suc k)) (s # cs)))" by fastforce
      with k Some IH server show ?thesis
        by (auto intro: later_trans intro!: exI [of _ "Suc k"])
    qed
  qed
qed simp

lemma wave_result:
  "wave_phase sch cd w cfg def ws i n = Some (e, n') \<Longrightarrow> later n n' \<and> (case e of
     None \<Rightarrow> covers cd cfg def (new n n') (set (concat ws))
   | Some x \<Rightarrow> \<exists>k rate limit. k < length ws \<and> x = CircuitBreaker (wave_name (int (i + k))) rate limit \<and> limit < rate \<and>
       covers cd cfg def (new n n') (set (concat (take (Suc k) ws))))"
proof (induction ws arbitrary: i n)
  case (Cons wave ws)
  from Cons.prems obtain results m where r: "runWave (sch i) cd w cfg wave (wave_name (int i)) (jd_Steps def) n = Some (results, m)"
    by (auto simp: bind_eq_Some_conv Let_def)
  note wave = run_wave [OF r]
  let ?st = "jd_Strategy def"
  show ?case
  proof (cases "failure_rate ?st results > sy_FailureThreshold ?st")
    case True
    with Cons.prems r wave show ?thesis
      by (auto simp: Let_def intro!: exI [of _ 0])
  next
    case False
    obtain m' where m': "m' = (if ws \<noteq> [] \<and> sy_WavePauseSeconds ?st > 0 then sleep w (wrap64 (sy_WavePauseSeconds ?st * Second)) m else m)"
      by blast
    with False Cons.prems r have c: "wave_phase sch cd w cfg def ws (Suc i) m' = Some (e, n')"
      by (auto simp: Let_def)
    have m: "later n m'" "covers cd cfg def (new n m') (set wave)"
      using wave later_trans [OF _ later_sleep] new_trans [OF _ later_sleep] by (auto simp: m')
    note IH = Cons.IH [OF c]
    show ?thesis
    proof (cases e)
      case None
      with IH m covers_trans [of n m' n' cd cfg def "set wave"] show ?thesis
        by (auto intro: later_trans)
    next
      case (Some x)
      with IH obtain k a b where k: "k < length ws" "x = CircuitBreaker (wave_name (int (Suc i + k))) a b" "b < a"
          "covers cd cfg def (new m' n') (set (concat (take (Suc k) ws)))" by auto
      with IH m covers_trans [of n m' n' cd cfg def "set wave"] have
        "covers cd cfg def (new n n') (set (concat (take (Suc (Suc k)) (wave # ws))))" by fastforce
      moreover have "later n n'"
        using IH m later_trans by blast
      ultimately show ?thesis
        unfolding Some option.case using k(1-3) by (intro conjI exI [of _ "Suc k"]) (auto simp: algebra_simps)
    qed
  qed
qed simp

section \<open>The rollout\<close>

text \<open>Whatever the services answer and however a wave is interleaved, the rollout ends.\<close>

lemma runStages_returns: "\<exists>result. runStages sch cd w cfg def servers n = Some result"
proof -
  have wave: "\<exists>r. runWave s cd w cfg wave name steps n = Some r" for s wave name steps n
    unfolding runWave_def
    by (rule par_returns [of "replicate (length wave) (4 + 7 * length steps)"])
      (auto simp: list_all2_conv_all_nth intro: atmost_executeSteps)
  have waves: "\<exists>r. wave_phase sch cd w cfg def ws i n = Some r" for ws i n
  proof (induction ws arbitrary: i n)
    case (Cons v ws)
    obtain results m where "runWave (sch i) cd w cfg v (wave_name (int i)) (jd_Steps def) n = Some (results, m)"
      using wave by fastforce
    with Cons show ?case
      by (simp add: Let_def)
  qed simp
  have gate: "\<exists>e m. approval_gate cd w cfg def servers n = Some (e, m)" for n
    using await_returns unfolding approval_gate_def by (metis surj_pair)
  have wgate: "\<exists>e m. wave_gate cd w cfg def cs ws n = Some (e, m)" for cs ws n
    using await_returns unfolding wave_gate_def by (metis surj_pair)
  obtain e m where g: "approval_gate cd w cfg def servers n = Some (e, m)"
    using gate by blast
  let ?c = "nat (canary_count (jd_Strategy def) servers)"
  obtain e' m' where c: "canary_phase cd w cfg def (take ?c servers) m = (e', m')"
    by (cases "canary_phase cd w cfg def (take ?c servers) m")
  obtain e2 m2 where "wave_gate cd w cfg def (take ?c servers) (drop ?c servers) m' = Some (e2, m2)"
    using wgate by blast
  with g c waves show ?thesis
    by (simp add: runStages_def Let_def)
qed

text \<open>The ways in which a rollout of a non-empty list of servers ends.\<close>

lemma runStages_cases:
  assumes "runStages sch cd w cfg def servers n = Some (err, n')" "servers \<noteq> []"
    and c: "c = nat (canary_count (jd_Strategy def) servers)"
  obtains (gate) m where "approval_gate cd w cfg def servers n = Some (Some m, n')" "err = Some m"
    | (bounds) "approval_gate cd w cfg def servers n = Some (None, n')" "err = Some SliceBounds"
    | (canary) x n1 where "approval_gate cd w cfg def servers n = Some (None, n1)"
        "canary_phase cd w cfg def (take c servers) n1 = (Some x, n')" "err = Some x"
    | (all) n1 where "approval_gate cd w cfg def servers n = Some (None, n1)"
        "canary_phase cd w cfg def (take c servers) n1 = (None, n')" "drop c servers = []" "err = None"
    | (wave_gate) n1 n2 x where "approval_gate cd w cfg def servers n = Some (None, n1)"
        "canary_phase cd w cfg def (take c servers) n1 = (None, n2)"
        "wave_gate cd w cfg def (take c servers) (drop c servers) n2 = Some (Some x, n')" "err = Some x"
    | (waves) n1 n2 n3 where "approval_gate cd w cfg def servers n = Some (None, n1)"
        "canary_phase cd w cfg def (take c servers) n1 = (None, n2)"
        "wave_gate cd w cfg def (take c servers) (drop c servers) n2 = Some (None, n3)"
        "wave_phase sch cd w cfg def (waves_of (jd_Strategy def) (drop c servers)) 0 n3 = Some (err, n')"
proof -
  obtain g n1 where g: "approval_gate cd w cfg def servers n = Some (g, n1)"
    using assms by (auto simp: runStages_def bind_eq_Some_conv)
  obtain e n2 where ca: "canary_phase cd w cfg def (take c servers) n1 = (e, n2)"
    by (cases "canary_phase cd w cfg def (take c servers) n1")
  show thesis
    using assms g ca gate bounds canary all wave_gate waves unfolding runStages_def
    by (cases err) (auto simp: Let_def bind_eq_Some_conv split: if_splits)
qed

lemma before_waves:
  assumes "approval_gate cd w cfg def servers n = Some (None, n1)" "canary_phase cd w cfg def cs n1 = (None, n2)"
    "wave_gate cd w cfg def cs ws n2 = Some (e, n3)"
  shows "later n n3 \<and> covers cd cfg def (new n n3) (set cs)"
proof -
  have one: "later n n1" "covers cd cfg def (new n n1) {}"
    using gate_result [OF assms(1)] by (simp_all add: covers_quiet)
  have two: "later n1 n2" "covers cd cfg def (new n1 n2) (set cs)"
    using canary_result [OF assms(2)] by simp_all
  have three: "later n2 n3" "covers cd cfg def (new n2 n3) {}"
    using wave_gate_result [OF assms(3)] by (simp_all add: covers_quiet)
  note later = later_trans [OF one(1) two(1)]
  have "covers cd cfg def (new n n3) ({} \<union> set cs \<union> {})"
    by (rule covers_trans [OF later three(1) covers_trans [OF one(1) two(1) one(2) two(2)] three(2)])
  then show ?thesis
    using later_trans [OF later three(1)] by simp
qed

text \<open>
  C5: What a rollout has touched when it ends. Without an error, all servers; after a failed canary, the
  canaries up to the failed one and no other server; after a refused or failed wave gate, the canaries;
  after the circuit breaker, the canaries and the waves up to the one whose failure rate exceeded the
  threshold; in every other case, no server at all.
\<close>

theorem rollout_contained:
  assumes "runStages sch cd w cfg def servers n = Some (err, n')"
  shows "let st = jd_Strategy def; c = nat (canary_count st servers); canaries = take c servers;
           ws = waves_of st (drop c servers); touched = covers cd cfg def (new n n')
         in case err of
              None \<Rightarrow> touched (set servers)
            | Some (CanaryFailed s e) \<Rightarrow> \<exists>k < length canaries. s = canaries ! k \<and> touched (set (take (Suc k) canaries))
            | Some (CircuitBreaker name rate limit) \<Rightarrow> limit < rate \<and>
                (\<exists>k < length ws. name = wave_name (int k) \<and> touched (set canaries \<union> set (concat (take (Suc k) ws))))
            | Some (GateRequestFailed e) \<Rightarrow> touched (set canaries)
            | Some (GateFailed e) \<Rightarrow> touched (set canaries)
            | Some GateDenied \<Rightarrow> touched (set canaries)
            | Some _ \<Rightarrow> touched {}"
proof (cases "servers = []")
  case True
  with assms show ?thesis
    by (auto simp: runStages_def Let_def)
next
  case False
  define c where "c = nat (canary_count (jd_Strategy def) servers)"
  from assms False c_def show ?thesis
  proof (cases rule: runStages_cases)
    case (gate m)
    with gate_result [OF gate(1)] show ?thesis
      by (auto intro: covers_quiet)
  next
    case bounds
    with gate_result [OF bounds(1)] show ?thesis
      by (simp add: covers_quiet)
  next
    case (canary x n1)
    note g = gate_result [OF canary(1)]
    from canary canary_result [OF canary(2)] obtain k e where "k < length (take c servers)"
        "x = CanaryFailed (take c servers ! k) e" "later n1 n'"
        "covers cd cfg def (new n1 n') (set (take (Suc k) (take c servers)))" by auto
    with covers_trans [OF g(1) _ covers_quiet [OF g(2)]] canary show ?thesis
      by (auto simp: c_def [symmetric])
  next
    case (all n1)
    note g = gate_result [OF all(1)]
    from all canary_result [OF all(2)] covers_trans [OF g(1) _ covers_quiet [OF g(2)]] show ?thesis
      by (simp add: c_def [symmetric])
  next
    case (wave_gate n1 n2 x)
    with before_waves [OF wave_gate(1-3)] wave_gate_result(3) [OF wave_gate(3)] show ?thesis
      by (auto simp: c_def [symmetric])
  next
    case (waves n1 n2 n3)
    note three = before_waves [OF waves(1-3)] and wave = wave_result [OF waves(4)]
    have all: "set (take c servers) \<union> set (drop c servers) = set servers"
      by (metis append_take_drop_id set_append)
    from wave have "later n3 n'" ..
    note both = covers_trans [OF conjunct1 [OF three] this conjunct2 [OF three]]
    show ?thesis
    proof (cases err)
      case None
      with wave have "covers cd cfg def (new n3 n') (set (drop c servers))" by simp
      from both [OF this] None show ?thesis
        unfolding all by simp
    next
      case (Some x)
      with wave obtain k a b where k: "k < length (waves_of (jd_Strategy def) (drop c servers))"
          "x = CircuitBreaker (wave_name (int k)) a b" "b < a"
          "covers cd cfg def (new n3 n') (set (concat (take (Suc k) (waves_of (jd_Strategy def) (drop c servers)))))"
        by auto
      with both [OF k(4)] Some show ?thesis
        by (auto simp: Let_def c_def [symmetric] simp del: set_concat)
    qed
  qed
qed

section \<open>Approval before the first tool call\<close>

lemma request_result:
  assumes "run w (requestFleetJobApproval cd cfg def k) n = (Inr i, n')"
  shows "\<exists>ctx t code body. new n n' = [(approval_post cfg (approval_body cfg def ''fleet_job'' ctx t), Response code body)] \<and>
    approval_id_of cd False (Got code body) = Inr i"
proof -
  let ?ctx = "[(''job_id'', JStr (rn_jobID cfg)), (''steps'', JArr (map (\<lambda>s. JStr (st_Tool s)) (jd_Steps def))),
    (''server_count'', JNum (int k)), (''highest_risk'', JStr (jobActionClass (jd_Steps def)))]"
  define r where "r = approval_post cfg (approval_body cfg def ''fleet_job'' ?ctx (nt_now n))"
  have url: "rn_auditURL cfg \<noteq> []" "cd_url cd (hq_url r) = None"
    using assms by (auto simp: requestFleetJobApproval_def http_do_def approval_id_of_def Let_def r_def split: option.splits if_splits)
  obtain x m where x: "send w r n = (x, m)"
    by (cases "send w r n")
  have "n' = m" "approval_id_of cd False (case x of Refused err \<Rightarrow> NotSent err | Response c b \<Rightarrow> Got c b) = Inr i"
    using assms url x by (auto simp: requestFleetJobApproval_def http_do_def r_def [symmetric])
  with new_send [OF x] show ?thesis
    unfolding r_def by (cases x) (auto simp: approval_id_of_def Let_def)
qed

lemma runStages_gate:
  assumes "runStages sch cd w cfg def servers n = Some (err, n')" "contacted cfg (new n n') \<noteq> {}"
  obtains n1 where "approval_gate cd w cfg def servers n = Some (None, n1)" "later n n1" "later n1 n'"
proof -
  have ne: "servers \<noteq> []"
    using assms by (auto simp: runStages_def)
  from assms(1) ne refl show thesis
  proof (cases rule: runStages_cases)
    case (gate m)
    with contacted_quiet [OF gate_result(2)] assms(2) show ?thesis by blast
  next
    case bounds
    then show ?thesis
      using that gate_result(1) later_refl by blast
  next
    case (canary x n1)
    with canary_result [OF canary(2)] show ?thesis
      using that gate_result(1) by blast
  next
    case (all n1)
    with canary_result [OF all(2)] show ?thesis
      using that gate_result(1) by blast
  next
    case (wave_gate n1 n2 x)
    with canary_result [OF wave_gate(2)] wave_gate_result(1) [OF wave_gate(3)] show ?thesis
      using that gate_result(1) later_trans by blast
  next
    case (waves n1 n2 n3)
    have "later n1 n2" "later n2 n3" "later n3 n'"
      using canary_result [OF waves(2)] wave_gate_result(1) [OF waves(3)] wave_result [OF waves(4)] by simp_all
    then have "later n1 n'"
      using later_trans by blast
    then show ?thesis
      using that waves(1) gate_result(1) by blast
  qed
qed


text \<open>
  Without an audit service, or with the dry-run flag in the strategy, the rollout asks nobody: in
  every world, whatever the class of the job, it calls a tool on the first server, and so it does with a
  job that needs approval.
\<close>

theorem unguarded_rollout:
  assumes "sy_DryRun (jd_Strategy def) \<or> rn_auditURL cfg = []" "servers \<noteq> []" "0 < sy_CanaryCount (jd_Strategy def)"
    "jd_Steps def \<noteq> []" "\<forall>u. cd_url cd u = None"
  shows "\<exists>err n'. runStages sch cd w cfg def servers n = Some (err, n') \<and> hd servers \<in> contacted cfg (new n n')"
proof -
  define c where "c = nat (canary_count (jd_Strategy def) servers)"
  have gate: "approval_gate cd w cfg def servers n = Some (None, n)"
    using assms(1) by (auto simp: approval_gate_def)
  have cs: "take c servers = hd servers # tl (take c servers)" "\<not> canary_count (jd_Strategy def) servers < 0"
    using assms(2,3) by (cases servers; cases c; auto simp: c_def canary_count_def split: if_splits)+
  obtain e n2 where ca: "canary_phase cd w cfg def (take c servers) n = (e, n2)"
    by (cases "canary_phase cd w cfg def (take c servers) n")
  obtain S where S: "covers cd cfg def (new n n2) S" "hd servers \<in> S"
  proof -
    have "hd servers \<in> set (take (Suc k) servers)" for k
      using assms(2) by (cases servers) auto
    moreover have "hd servers \<in> set (take c servers)"
      by (subst cs(1)) simp
    ultimately show thesis
      using that canary_result [OF ca] by (cases e) (auto simp: min_def split: if_splits)
  qed
  then have hd: "hd servers \<in> contacted cfg (new n n2)"
    using assms(4,5) by (auto simp: covers_def)
  obtain err n' where r: "runStages sch cd w cfg def servers n = Some (err, n')"
    using runStages_returns by fastforce
  then have "later n2 n'"
    using gate ca cs(2) assms(2) wave_gate_result(1) wave_result later_trans unfolding runStages_def c_def [symmetric]
    by (fastforce simp: Let_def bind_eq_Some_conv c_def [symmetric] split: if_splits)
  moreover have "later n n2"
    using canary_result [OF ca] by blast
  ultimately have "new n n' = new n n2 @ new n2 n'"
    by (intro new_trans)
  with hd r show ?thesis
    by auto
qed


section \<open>Example runs\<close>

text \<open>
  A job that vacuums two servers. The audit service answers the request for approval and the first poll;
  everything later is refused, so that the canary fails.
\<close>

definition vacuum_job :: job_def where
  "vacuum_job = \<lparr>jd_Name = ''vacuum'',
     jd_Steps = [\<lparr>st_Agent = ''database'', st_Tool = ''run_vacuum'', st_Args = None, st_OnFailure = []\<rparr>],
     jd_Targets = \<lparr>tg_Tags = [], tg_Names = [''a'', ''b''], tg_Exclude = []\<rparr>,
     jd_Strategy = \<lparr>sy_CanaryCount = 1, sy_WaveSize = 0, sy_WavePauseSeconds = 0, sy_FailureThreshold = 0,
       sy_DryRun = False, sy_CountPartialAsSuccess = False, sy_ApprovalTimeoutSeconds = 0, sy_WaveGate = False,
       sy_SchemaDrift = []\<rparr>,
     jd_PlanTraceID = [], jd_ToolSnapshots = [], jd_PlanDescription = [], jd_PlanTargetHints = [], jd_PlanServers = []\<rparr>"

definition vacuum_runner :: "string \<Rightarrow> runner_config" where
  "vacuum_runner auditURL = \<lparr>rn_gatewayURL = ''http://g'', rn_auditURL = auditURL, rn_apiKey = [], rn_auditAPIKey = [],
     rn_jobID = ''j'', rn_submittedBy = ''op'', rn_approvalPollInterval = 1\<rparr>"

definition plain_codec :: codec where
  "plain_codec = \<lparr>cd_url = (\<lambda>_. None),
     cd_parse = (\<lambda>t. if t = ''A'' then Inr (JObj [(''approval_id'', JStr ''i'')])
       else if t = ''S'' then Inr (JObj [(''status'', JStr ''approved'')]) else Inl ''syntax''),
     cd_text = (\<lambda>_. [])\<rparr>"

definition short_world :: world where
  "short_world = \<lparr>wd_reply = (\<lambda>n r. if length (nt_calls n) = 0 then (Response 201 ''A'', 0)
      else if length (nt_calls n) = 1 then (Response 200 ''S'', 0) else (Refused ''down'', 0)),
     wd_late = (\<lambda>_. 0)\<rparr>"

definition down_world :: world where
  "down_world = \<lparr>wd_reply = (\<lambda>n r. (Refused ''down'', 0)), wd_late = (\<lambda>_. 0)\<rparr>"

definition fresh_net :: net where
  "fresh_net = \<lparr>nt_calls = [], nt_now = 0\<rparr>"

lemma plain_codec_simps [simp]:
  "cd_url plain_codec u = None"
  "cd_parse plain_codec ''A'' = Inr (JObj [(''approval_id'', JStr ''i'')])"
  "cd_parse plain_codec ''S'' = Inr (JObj [(''status'', JStr ''approved'')])"
  by (simp_all add: plain_codec_def)

lemma short_world_replies:
  "nt_calls n = [] \<Longrightarrow> wd_reply short_world n r = (Response 201 ''A'', 0)"
  "length (nt_calls n) = 1 \<Longrightarrow> wd_reply short_world n r = (Response 200 ''S'', 0)"
  "length (nt_calls n) \<ge> 2 \<Longrightarrow> wd_reply short_world n r = (Refused ''down'', 0)"
  by (auto simp: short_world_def)

lemma vacuum_needs_approval: "class_IsApprovalRequired (jobActionClass (jd_Steps vacuum_job))"
  by (simp add: approval_required_iff vacuum_job_def ToolClassification_def)

lemma vacuum_canaries: "take (nat (canary_count (jd_Strategy vacuum_job) [''a'', ''b''])) [''a'', ''b''] = [''a'']"
  by (simp add: canary_count_def vacuum_job_def)

lemma down_canary:
  assumes "\<forall>m r. later n m \<longrightarrow> fst (wd_reply w m r) = Refused e"
  shows "\<exists>err m. canary_phase plain_codec w cfg vacuum_job [''a''] n = (Some (CanaryFailed ''a'' (Some err)), m)"
proof -
  obtain st where steps: "jd_Steps vacuum_job = [st]" "st_OnFailure st = []"
    by (simp add: vacuum_job_def)
  obtain x n1 where one: "run w (patchServerStatus plain_codec cfg ''a'' ''running'' [] (Some (nt_now n)) None) n = (x, n1)"
    by (cases "run w (patchServerStatus plain_codec cfg ''a'' ''running'' [] (Some (nt_now n)) None) n")
  have "fst (wd_reply w n1 (tool_request cfg ''a'' ''canary'' st)) = Refused e"
    using assms later_run [OF one] by blast
  then obtain d where "wd_reply w n1 (tool_request cfg ''a'' ''canary'' st) = (Refused e, d)"
    by (metis prod.collapse)
  then obtain n2 where two: "run w (callGatewayTool plain_codec cfg ''a'' ''canary'' st) n1 = (([], Some (''gateway unreachable: '' @ e)), n2)"
    by (simp add: callGatewayTool_def http_do_def send_def)
  have "sv_err (fst (run w (exec_loop plain_codec cfg ''a'' ''canary'' [st] 0 [] False) n1)) \<noteq> None"
    by (simp only: exec_loop.simps run.simps run_bindP two steps(2) Let_def split_conv option.case)
      (simp add: case_prod_unfold run_bindP)
  then have "\<exists>res m. run w (executeSteps plain_codec cfg ''a'' ''canary'' (jd_Steps vacuum_job)) n = (res, m) \<and> sv_err res \<noteq> None"
    unfolding executeSteps_def steps(1) by (simp only: run.simps run_bindP one Let_def split_conv) (metis prod.collapse)
  then show ?thesis
    by (auto simp: isServerFailure_def)
qed

lemma covers_vacuum: "covers plain_codec cfg vacuum_job calls S \<longleftrightarrow> contacted cfg calls = S"
  by (auto simp: covers_def plain_codec_def vacuum_job_def)

lemma down_rollout:
  assumes "approval_gate plain_codec w cfg vacuum_job [''a'', ''b''] n = Some (None, n1)"
    "\<forall>m r. later n1 m \<longrightarrow> fst (wd_reply w m r) = Refused e"
  shows "\<exists>err n'. runStages sch plain_codec w cfg vacuum_job [''a'', ''b''] n = Some (Some (CanaryFailed ''a'' (Some err)), n') \<and>
    ''a'' \<in> contacted cfg (new n n')"
proof -
  obtain err m where c: "canary_phase plain_codec w cfg vacuum_job [''a''] n1 = (Some (CanaryFailed ''a'' (Some err)), m)"
    using down_canary [OF assms(2)] by blast
  have "canary_count (jd_Strategy vacuum_job) [''a'', ''b''] = 1"
    by (simp add: canary_count_def vacuum_job_def)
  with c assms(1) have "runStages sch plain_codec w cfg vacuum_job [''a'', ''b''] n = Some (Some (CanaryFailed ''a'' (Some err)), m)"
    by (simp add: runStages_def Let_def)
  moreover have "''a'' \<in> contacted cfg (new n m)"
  proof -
    from canary_result [OF c] have m: "later n1 m" "contacted cfg (new n1 m) = {''a''}"
      by (auto simp: covers_vacuum)
    show ?thesis
      unfolding new_trans [OF gate_result(1) [OF assms(1)] m(1)] by (simp add: m(2))
  qed
  ultimately show ?thesis by blast
qed

theorem rollout_contained_witness:
  "\<exists>e n'. runStages (\<lambda>_ _. 0) plain_codec down_world (vacuum_runner []) vacuum_job [''a'', ''b''] fresh_net =
       Some (Some (CanaryFailed ''a'' (Some e)), n') \<and>
     contacted (vacuum_runner []) (new fresh_net n') = {''a''}"
proof -
  have down: "\<forall>m r. later fresh_net m \<longrightarrow> fst (wd_reply down_world m r) = Refused ''down''"
    by (simp add: down_world_def)
  have "approval_gate plain_codec down_world (vacuum_runner []) vacuum_job [''a'', ''b''] fresh_net = Some (None, fresh_net)"
    by (simp add: approval_gate_def vacuum_runner_def)
  then obtain e n' where r: "runStages (\<lambda>_ _. 0) plain_codec down_world (vacuum_runner []) vacuum_job [''a'', ''b''] fresh_net =
       Some (Some (CanaryFailed ''a'' (Some e)), n')"
    using down_rollout [OF _ down] by blast
  from rollout_contained [OF r] obtain k where "k < length [''a'']"
      "contacted (vacuum_runner []) (new fresh_net n') = set (take (Suc k) [''a''])"
    by (simp only: Let_def option.case stage_error.case vacuum_canaries covers_vacuum) blast
  then have "contacted (vacuum_runner []) (new fresh_net n') = {''a''}"
    by simp
  with r show ?thesis by blast
qed

lemma short_gate:
  "\<exists>n1. approval_gate plain_codec short_world (vacuum_runner ''http://u'') vacuum_job [''a'', ''b''] fresh_net = Some (None, n1) \<and>
     length (nt_calls n1) = 2"
proof -
  let ?cfg = "vacuum_runner ''http://u''"
  have cfg: "rn_auditURL ?cfg \<noteq> []"
    by (simp add: vacuum_runner_def)
  obtain n1 where one: "run short_world (requestFleetJobApproval plain_codec ?cfg vacuum_job (length [''a'', ''b''])) fresh_net = (Inr ''i'', n1)"
      "length (nt_calls n1) = 1"
    using cfg short_world_replies(1) [of fresh_net]
    by (simp add: requestFleetJobApproval_def http_do_def fresh_net_def send_def
        approval_id_of_def decode_approval_def field_str_def ToLower_def lower_char_def Let_def)
  let ?m = "sleep short_world 1 n1"
  have "length (nt_calls ?m) = 1"
    using one(2) by (simp add: sleep_def)
  then obtain n2 where two: "run short_world (getApprovalStatus plain_codec ?cfg ''i'') ?m = (Inr ''approved'', n2)"
      "length (nt_calls n2) = 2"
    using short_world_replies(2) [of ?m]
    by (simp add: getApprovalStatus_def http_do_def send_def
        status_of_def decode_approval_def field_str_def ToLower_def lower_char_def Let_def)
  have "waitForFleetApproval plain_codec short_world ?cfg ''i'' t 1 n1 = Some (Inr True, n2)" for t
    unfolding waitForFleetApproval_def Let_def by (subst wait_loop.simps) (simp add: two)
  moreover have "poll_interval ?cfg = 1"
    by (simp add: poll_interval_def vacuum_runner_def)
  moreover have "\<not> sy_DryRun (jd_Strategy vacuum_job)"
    by (simp add: vacuum_job_def)
  ultimately show ?thesis
    using one two cfg vacuum_needs_approval by (simp add: approval_gate_def await_approval_def)
qed



theorem unguarded_rollout_witness:
  "class_IsApprovalRequired (jobActionClass (jd_Steps vacuum_job)) \<and>
   (\<exists>err n'. runStages (\<lambda>_ _. 0) plain_codec down_world (vacuum_runner []) vacuum_job [''a'', ''b''] fresh_net = Some (err, n') \<and>
     ''a'' \<in> contacted (vacuum_runner []) (new fresh_net n'))"
  using unguarded_rollout [of vacuum_job "vacuum_runner []" "[''a'', ''b'']" plain_codec "\<lambda>_ _. 0" down_world fresh_net]
    vacuum_needs_approval
  by (simp add: vacuum_job_def vacuum_runner_def)

end
