(* ===== verification/Fleet_Job.thy ===== *)
theory Fleet_Job
  imports Fleet_Safety
begin

text \<open>
  The life of a fleet job around its rollout: preflight checks (\<^verbatim>\<open>preflight.go\<close>), the job record
  (\<^verbatim>\<open>submit.go\<close>), the planner and the registry (\<^verbatim>\<open>replan.go\<close>, \<^verbatim>\<open>snapshot.go\<close>,
  \<^verbatim>\<open>schemadrift.go\<close>) and the order in which \<^verbatim>\<open>main.go\<close> puts them. Files are read through an
  argument, and the files that a run writes are part of its result. The decoders of the JSON documents
  of the job are arguments as well.
\<close>

section \<open>Requests of the job\<close>

record job_codec =
  jc_def :: "string \<Rightarrow> string + job_def"
  jc_json :: "job_def \<Rightarrow> json"
  jc_created :: "string \<Rightarrow> string + string"
  jc_tools :: "string \<Rightarrow> string + tool_entry list"
  jc_plan :: "string \<Rightarrow> string + job_def"

definition post :: "string \<Rightarrow> string \<Rightarrow> string \<Rightarrow> string \<Rightarrow> json \<Rightarrow> codec \<Rightarrow> (string + string) prog" where
  "post who method url apiKey body cd =
     bindP (http_do cd \<lparr>hq_method = method, hq_url = url, hq_headers = json_type # bearer apiKey, hq_body = Some body\<rparr>)
       (\<lambda>s. Return (case s of
          NotBuilt err \<Rightarrow> Inl err
        | NotSent err \<Rightarrow> Inl err
        | Got code respBody \<Rightarrow>
            (if code \<ge> 300 then Inl (who @ '' returned '' @ Itoa code @ '': '' @ respBody) else Inr respBody)))"

definition gatewayPost :: "codec \<Rightarrow> string \<Rightarrow> string \<Rightarrow> json \<Rightarrow> (string + string) prog" where
  "gatewayPost cd url apiKey body = post ''gateway'' ''POST'' url apiKey body cd"

definition auditPost :: "codec \<Rightarrow> string \<Rightarrow> string \<Rightarrow> json \<Rightarrow> (string + string) prog" where
  "auditPost cd url apiKey body = post ''auditd'' ''POST'' url apiKey body cd"

definition TrimSlash :: "string \<Rightarrow> string" where
  "TrimSlash s = TrimSuffix s ''/''"

definition callFleetSnapshot :: "codec \<Rightarrow> job_codec \<Rightarrow> string \<Rightarrow> string \<Rightarrow> job_def \<Rightarrow> (string + job_def) prog" where
  "callFleetSnapshot cd jc gatewayURL apiKey def =
     bindP (gatewayPost cd (TrimSlash gatewayURL @ ''/api/v1/fleet/snapshot'') apiKey (JObj [(''job_def'', jc_json jc def)]))
       (\<lambda>r. Return (case r of
          Inl err \<Rightarrow> Inl (''gateway snapshot call: '' @ err)
        | Inr body \<Rightarrow> (case jc_plan jc body of Inl err \<Rightarrow> Inl (''parse response: '' @ err) | Inr d \<Rightarrow> Inr d)))"

definition callFleetPlan ::
  "codec \<Rightarrow> job_codec \<Rightarrow> string \<Rightarrow> string \<Rightarrow> string \<Rightarrow> string list \<Rightarrow> (string + job_def) prog" where
  "callFleetPlan cd jc gatewayURL apiKey description targetHints =
     bindP (http_do cd \<lparr>hq_method = ''POST'', hq_url = TrimSlash gatewayURL @ ''/api/v1/fleet/plan'',
         hq_headers = json_type # bearer apiKey,
         hq_body = Some (JObj ([(''description'', JStr description)] @
           (if targetHints = [] then [] else [(''target_hints'', JArr (map JStr targetHints))])))\<rparr>)
       (\<lambda>s. Return (case s of
          NotBuilt err \<Rightarrow> Inl (''build request: '' @ err)
        | NotSent err \<Rightarrow> Inl (''gateway plan call: '' @ err)
        | Got code body \<Rightarrow>
            (if code \<ge> 300 then Inl (''gateway returned '' @ Itoa code @ '': '' @ body)
             else (case jc_plan jc body of Inl err \<Rightarrow> Inl (''parse response: '' @ err) | Inr d \<Rightarrow> Inr d))))"

definition tools_get :: "string \<Rightarrow> http_req" where
  "tools_get gatewayURL = \<lparr>hq_method = ''GET'', hq_url = TrimSlash gatewayURL @ ''/api/v1/tools'',
     hq_headers = [], hq_body = None\<rparr>"

definition fetchLiveTools :: "codec \<Rightarrow> job_codec \<Rightarrow> string \<Rightarrow> (string + tool_entry list) prog" where
  "fetchLiveTools cd jc gatewayURL =
     bindP (http_do cd (tools_get gatewayURL)) (\<lambda>s. Return (
       let url = hq_url (tools_get gatewayURL) in case s of
         NotBuilt err \<Rightarrow> Inl (''failed to reach gateway tools endpoint '' @ url @ '': '' @ err)
       | NotSent err \<Rightarrow> Inl (''failed to reach gateway tools endpoint '' @ url @ '': '' @ err)
       | Got code body \<Rightarrow>
           (if code \<noteq> 200 then Inl (''gateway tools endpoint returned '' @ Itoa code @ '': '' @ body)
            else (case jc_tools jc body of
                Inl err \<Rightarrow> Inl (''failed to parse gateway tools response: '' @ err)
              | Inr tools \<Rightarrow> Inr tools))))"

section \<open>Preflight\<close>

definition preflight_request :: "string \<Rightarrow> string \<Rightarrow> string \<Rightarrow> string \<Rightarrow> http_req" where
  "preflight_request gatewayURL apiKey jobID serverName =
     \<lparr>hq_method = ''POST'', hq_url = gatewayURL @ ''/api/v1/db/check_connection'',
      hq_headers = [json_type, (''X-Purpose'', ''fleet_rollout'')] @ bearer apiKey @
        [(''X-Purpose-Note'', (if jobID = [] then ''preflight'' else ''preflight job_id='' @ jobID) @
          '' server='' @ serverName)],
      hq_body = Some (JObj [(''connection_string'', JStr serverName)])\<rparr>"

definition preflightServer :: "codec \<Rightarrow> string \<Rightarrow> string \<Rightarrow> string \<Rightarrow> string \<Rightarrow> string option prog" where
  "preflightServer cd gatewayURL apiKey jobID serverName =
     bindP (http_do cd (preflight_request gatewayURL apiKey jobID serverName)) (\<lambda>s. Return (case s of
        NotBuilt err \<Rightarrow> Some (''create preflight request: '' @ err)
      | NotSent err \<Rightarrow> Some (''gateway unreachable: '' @ err)
      | Got code body \<Rightarrow>
          (if code \<noteq> 200 then Some (''check_connection returned '' @ Itoa code @ '': '' @ body) else None)))"

primrec runPreflight ::
  "codec \<Rightarrow> string \<Rightarrow> string \<Rightarrow> string \<Rightarrow> string list \<Rightarrow> (string \<times> string) list prog" where
  "runPreflight cd gatewayURL apiKey jobID [] = Return []"
| "runPreflight cd gatewayURL apiKey jobID (server # rest) =
     bindP (preflightServer cd gatewayURL apiKey jobID server) (\<lambda>r.
       bindP (runPreflight cd gatewayURL apiKey jobID rest) (\<lambda>failures.
         Return (case r of None \<Rightarrow> failures | Some err \<Rightarrow> (server, err) # failures)))"

section \<open>The job record\<close>

primrec each :: "('a \<Rightarrow> 'b prog) \<Rightarrow> 'a list \<Rightarrow> unit prog" where
  "each f [] = Return ()"
| "each f (x # xs) = bindP (f x) (\<lambda>_. each f xs)"

definition registerJobSteps :: "codec \<Rightarrow> string \<Rightarrow> string \<Rightarrow> string \<Rightarrow> string list \<Rightarrow> step list \<Rightarrow> unit prog" where
  "registerJobSteps cd auditURL apiKey jobID servers steps =
     each (\<lambda>serverName. each (\<lambda>(idx, st). auditPost cd
         (auditURL @ ''/v1/fleet/jobs/'' @ jobID @ ''/servers/'' @ serverName @ ''/steps'') apiKey
         (JObj [(''step_index'', JNum (int idx)), (''tool'', JStr (st_Tool st)), (''status'', JStr ''pending'')]))
       (enumerate 0 steps)) servers"

definition submitJob ::
  "codec \<Rightarrow> job_codec \<Rightarrow> string \<Rightarrow> string \<Rightarrow> string \<Rightarrow> string \<Rightarrow> string \<Rightarrow> job_def \<Rightarrow> (string \<times> string) list \<Rightarrow>
   (string + string) prog" where
  "submitJob cd jc gatewayURL auditURL apiKey auditAPIKey submittedBy def stages =
     (if gatewayURL = [] then Return (Inl ''gateway URL not configured (set HELPDESK_GATEWAY_URL)'')
      else Now (\<lambda>t. bindP (gatewayPost cd (gatewayURL @ ''/api/v1/fleet/jobs'') apiKey (JObj ([
          (''job_id'', JStr []), (''name'', JStr (jd_Name def)), (''submitted_by'', JStr submittedBy),
          (''submitted_at'', JStr (fmt_rfc3339nano t)), (''status'', JStr ''running''),
          (''job_def'', JStr (cd_text cd (jc_json jc def)))] @ omit ''plan_trace_id'' (jd_PlanTraceID def) @
          [(''created_at'', JStr (fmt_rfc3339nano 0)), (''updated_at'', JStr (fmt_rfc3339nano 0))])))
        (\<lambda>r. case r of
           Inl err \<Rightarrow> Return (Inl (''create job: '' @ err))
         | Inr resp \<Rightarrow> (case jc_created jc resp of
             Inl err \<Rightarrow> Return (Inl (''decode job response: '' @ err))
           | Inr jobID \<Rightarrow>
               (if jobID = [] then Return (Inl ''gateway returned empty job_id'')
                else bindP (each (\<lambda>(server, stage). auditPost cd
                    (auditURL @ ''/v1/fleet/jobs/'' @ jobID @ ''/servers'') auditAPIKey
                    (JObj [(''job_id'', JStr jobID), (''server_name'', JStr server), (''stage'', JStr stage),
                      (''status'', JStr ''pending''), (''started_at'', JStr (fmt_rfc3339nano 0)),
                      (''finished_at'', JStr (fmt_rfc3339nano 0))])) stages)
                  (\<lambda>_. bindP (registerJobSteps cd auditURL auditAPIKey jobID (map fst stages) (jd_Steps def))
                    (\<lambda>_. Return (Inr jobID))))))))"

definition recordJobOutcome :: "codec \<Rightarrow> string \<Rightarrow> string \<Rightarrow> string \<Rightarrow> string \<Rightarrow> unit prog" where
  "recordJobOutcome cd auditURL auditAPIKey jobID errMsg =
     (if auditURL = [] then Return ()
      else Now (\<lambda>t. bindP (auditPost cd (auditURL @ ''/v1/events'') auditAPIKey (JObj [
          (''event_id'', JStr (''gw_'' @ take 8 jobID @ ''_end'')),
          (''event_type'', JStr ''gateway_request''),
          (''trace_id'', JStr (''tr_'' @ jobID)),
          (''timestamp'', JStr (fmt_rfc3339nano t)),
          (''outcome'', JObj [(''status'', JStr ''error''), (''error_message'', JStr errMsg)])]))
        (\<lambda>_. Return ())))"

definition finalizeJob :: "codec \<Rightarrow> string \<Rightarrow> string \<Rightarrow> string \<Rightarrow> string \<Rightarrow> string \<Rightarrow> string option prog" where
  "finalizeJob cd auditURL auditAPIKey jobID status summary =
     (if auditURL = [] then Return None
      else bindP (http_do cd \<lparr>hq_method = ''PATCH'', hq_url = auditURL @ ''/v1/fleet/jobs/'' @ jobID @ ''/status'',
          hq_headers = json_type # bearer auditAPIKey,
          hq_body = Some (JObj [(''status'', JStr status), (''summary'', JStr summary)])\<rparr>)
        (\<lambda>s. case s of
           NotBuilt err \<Rightarrow> Return (Some err)
         | NotSent err \<Rightarrow> Return (Some err)
         | Got _ _ \<Rightarrow>
             (if status \<noteq> ''completed''
              then bindP (recordJobOutcome cd auditURL auditAPIKey jobID summary) (\<lambda>_. Return None)
              else Return None)))"

section \<open>The command\<close>

definition wait_text :: "wait_error \<Rightarrow> string" where
  "wait_text e = (case e of
     WasDenied i \<Rightarrow> ''approval '' @ i @ '' was denied''
   | WasExpired i \<Rightarrow> ''approval '' @ i @ '' expired''
   | WasCancelled i \<Rightarrow> ''approval '' @ i @ '' was cancelled''
   | TimedOut secs \<Rightarrow> ''approval timed out after '' @ Itoa secs @ '' seconds'')"

definition stage_text :: "stage_error \<Rightarrow> string" where
  "stage_text e = (case e of
     NoServers \<Rightarrow> ''no servers to process''
   | SliceBounds \<Rightarrow> ''slice bounds out of range''
   | RequestFailed m \<Rightarrow> ''failed to request approval: '' @ m
   | ApprovalFailed we \<Rightarrow> ''approval failed: '' @ wait_text we
   | DeniedByApprover \<Rightarrow> ''fleet job denied by approver''
   | CanaryFailed srv m \<Rightarrow> ''canary failed on '' @ srv @ '': '' @ (case m of Some t \<Rightarrow> t | None \<Rightarrow> ''%!w(<nil>)'')
   | GateRequestFailed m \<Rightarrow> ''failed to request wave gate approval: '' @ m
   | GateFailed we \<Rightarrow> ''wave gate approval failed: '' @ wait_text we
   | GateDenied \<Rightarrow> ''wave gate denied by operator '' @ map char_of [226, 128, 148 :: nat] @
       '' canary passed but waves were not approved''
   | CircuitBreaker wave rate limit \<Rightarrow> ''circuit breaker tripped in '' @ wave @ '': '' @ fmt0 (fl64 (rate * 100)) @
       ''% failed (threshold '' @ fmt0 (fl64 (limit * 100)) @ ''%)'')"

record flags =
  fg_jobFile :: string
  fg_gatewayURL :: string
  fg_auditURL :: string
  fg_apiKey :: string
  fg_auditAPIKey :: string
  fg_infraPath :: string
  fg_dryRun :: bool
  fg_canary :: int
  fg_waveSize :: int
  fg_pause :: int
  fg_approvalPollInterval :: duration
  fg_schemaDrift :: string
  fg_refreshSnapshots :: bool
  fg_planDescription :: string
  fg_planTargetHints :: string
  fg_replan :: string
  fg_clientUser :: string

record job_env =
  je_cd :: codec
  je_jc :: job_codec
  je_world :: world
  je_schedule :: "nat \<Rightarrow> nat \<Rightarrow> nat"
  je_readFile :: "string \<Rightarrow> string + string"
  je_writeFile :: "string \<Rightarrow> string option"
  je_infra :: "string \<Rightarrow> string + infra_config"

datatype job_end = Exit1 string | Exit0 | Ran "stage_error option"

type_synonym files = "(string \<times> job_def) list"

definition replan_Set :: "string \<Rightarrow> string option" where
  "replan_Set v = (if v \<in> {''true'', ''stop'', []} then Some ''stop'' else if v = ''auto'' then Some ''auto'' else None)"

definition apply_overrides :: "flags \<Rightarrow> job_def \<Rightarrow> job_def" where
  "apply_overrides fg def = (let s = Defaults (jd_Strategy def) in
     def\<lparr>jd_Strategy := s\<lparr>
       sy_DryRun := (if fg_dryRun fg then True else sy_DryRun s),
       sy_CanaryCount := (if fg_canary fg > 0 then fg_canary fg else sy_CanaryCount s),
       sy_WaveSize := (if fg_waveSize fg > 0 then fg_waveSize fg else sy_WaveSize s),
       sy_WavePauseSeconds := (if fg_pause fg \<ge> 0 then fg_pause fg else sy_WavePauseSeconds s)\<rparr>\<rparr>)"

definition plan_hints :: "string \<Rightarrow> string list" where
  "plan_hints s = (if s = [] then [] else filter (\<lambda>h. h \<noteq> []) (map TrimSpace (split_char (CHR '','') s)))"

definition drift_policy :: "flags \<Rightarrow> job_def \<Rightarrow> string" where
  "drift_policy fg def = (let policy = (if fg_schemaDrift fg \<noteq> [] then fg_schemaDrift fg else ''abort'') in
     if sy_SchemaDrift (jd_Strategy def) \<noteq> [] then sy_SchemaDrift (jd_Strategy def) else policy)"

definition load_job :: "job_env \<Rightarrow> flags \<Rightarrow> net \<Rightarrow> (string + job_def) \<times> files \<times> net" where
  "load_job env fg n =
     (if fg_planDescription fg \<noteq> [] then
        (case run (je_world env) (callFleetPlan (je_cd env) (je_jc env) (fg_gatewayURL fg) (fg_apiKey fg)
            (fg_planDescription fg) (plan_hints (fg_planTargetHints fg))) n of
           (Inl err, n') \<Rightarrow> (Inl err, [], n')
         | (Inr def, n') \<Rightarrow> (Inr def,
             if fg_jobFile fg \<noteq> [] \<and> je_writeFile env (fg_jobFile fg) = None then [(fg_jobFile fg, def)] else [], n'))
      else (case je_readFile env (fg_jobFile fg) of
          Inl err \<Rightarrow> (Inl (''failed to read job file: '' @ err), [], n)
        | Inr data \<Rightarrow> (case jc_def (je_jc env) data of
            Inl err \<Rightarrow> (Inl (''failed to parse job file: '' @ err), [], n)
          | Inr def \<Rightarrow> (Inr def, [], n))))"

definition resolve_job :: "infra_config \<Rightarrow> job_def \<Rightarrow> string + string list" where
  "resolve_job infra def = (case resolveTargets (Some infra) (jd_Targets def) of
     Inl err \<Rightarrow> Inl err
   | Inr servers \<Rightarrow> (if servers = [] then Inl ''no servers matched the target specification'' else Inr servers))"

text \<open>The drift gate: it stops the command, or passes the job that is to run with its servers.\<close>

definition replan ::
  "job_env \<Rightarrow> flags \<Rightarrow> infra_config \<Rightarrow> job_def \<Rightarrow> tool_entry list \<Rightarrow> string \<Rightarrow> net \<Rightarrow>
   (job_end + job_def \<times> string list) \<times> files \<times> net" where
  "replan env fg infra def liveTools policy n =
     (case run (je_world env) (callFleetPlan (je_cd env) (je_jc env) (fg_gatewayURL fg) (fg_apiKey fg)
         (jd_PlanDescription def) (jd_PlanTargetHints def)) n of
        (Inl err, n') \<Rightarrow> (Inl (Exit1 err), [], n')
      | (Inr planned, n') \<Rightarrow>
          (if Significant (checkPlanDivergence def planned) \<and> fg_replan fg = ''auto''
           then (Inl (Exit1 ''replanned plan diverges significantly from original''), [], n')
           else if fg_replan fg = ''stop''
           then (if fg_jobFile fg = [] then (Inl Exit0, [], n')
                 else (case je_writeFile env (fg_jobFile fg) of
                     Some err \<Rightarrow> (Inl (Exit1 err), [], n')
                   | None \<Rightarrow> (Inl Exit0, [(fg_jobFile fg, planned)], n')))
           else let def' = apply_overrides fg planned in
             (case resolve_job infra def' of
                Inl err \<Rightarrow> (Inl (Exit1 err), [], n')
              | Inr servers \<Rightarrow>
                  (if snd (CheckSchemaDrift (jd_ToolSnapshots def') liveTools policy) \<noteq> None
                   then (Inl (Exit1 ''schema drift check failed after replan''), [], n')
                   else (Inr (def', servers), [], n')))))"

definition drift_gate ::
  "job_env \<Rightarrow> flags \<Rightarrow> infra_config \<Rightarrow> job_def \<Rightarrow> string list \<Rightarrow> net \<Rightarrow>
   (job_end + job_def \<times> string list) \<times> files \<times> net" where
  "drift_gate env fg infra def servers n =
     (let policy = drift_policy fg def in
      if policy = ''ignore'' then (Inr (def, servers), [], n)
      else (case run (je_world env) (fetchLiveTools (je_cd env) (je_jc env) (fg_gatewayURL fg)) n of
          (Inl err, n') \<Rightarrow> (Inl (Exit1 err), [], n')
        | (Inr liveTools, n') \<Rightarrow>
            (if snd (CheckSchemaDrift (jd_ToolSnapshots def) liveTools policy) = None
             then (Inr (def, servers), [], n')
             else if fg_replan fg \<noteq> [] \<and> jd_PlanDescription def \<noteq> []
             then replan env fg infra def liveTools policy n'
             else (Inl (Exit1 ''schema drift check failed''), [], n'))))"

text \<open>Preflight, job record, rollout and its outcome.\<close>

definition runner_of :: "flags \<Rightarrow> string \<Rightarrow> string \<Rightarrow> runner_config" where
  "runner_of fg jobID submittedBy =
     \<lparr>rn_gatewayURL = fg_gatewayURL fg, rn_auditURL = fg_auditURL fg, rn_apiKey = fg_apiKey fg,
      rn_auditAPIKey = fg_auditAPIKey fg, rn_jobID = jobID, rn_submittedBy = submittedBy,
      rn_approvalPollInterval = fg_approvalPollInterval fg\<rparr>"

definition job_summary :: "job_def \<Rightarrow> string list \<Rightarrow> stage_error option \<Rightarrow> string" where
  "job_summary def servers runErr = (case runErr of
     None \<Rightarrow> ''Applied '' @ nat_str (length (jd_Steps def)) @ '' step(s) to '' @ nat_str (length servers) @ '' server(s).''
   | Some e \<Rightarrow> ''Failed: '' @ stage_text e)"

definition execute_job ::
  "job_env \<Rightarrow> flags \<Rightarrow> job_def \<Rightarrow> string list \<Rightarrow> net \<Rightarrow> (job_end \<times> net) option" where
  "execute_job env fg def servers n =
     (let w = je_world env; cd = je_cd env;
          (failures, n1) = run w (runPreflight cd (fg_gatewayURL fg) (fg_apiKey fg) [] servers) n
      in if failures \<noteq> [] then Some (Exit1 ''preflight checks failed'', n1)
         else let submittedBy = (if fg_clientUser fg = [] then ''fleet-runner'' else fg_clientUser fg);
           (r, n2) = run w (submitJob cd (je_jc env) (fg_gatewayURL fg) (fg_auditURL fg) (fg_apiKey fg)
             (fg_auditAPIKey fg) submittedBy def (buildStageAssignments servers (jd_Strategy def))) n1;
           jobID = (case r of Inl err \<Rightarrow> [] | Inr i \<Rightarrow> i)
         in Option.bind (runStages (je_schedule env) cd w (runner_of fg jobID submittedBy) def servers n2) (\<lambda>(runErr, n3).
           let status = (if runErr = None then ''completed'' else ''failed'');
             n4 = (if jobID = [] then n3
               else snd (run w (finalizeJob cd (fg_auditURL fg) (fg_auditAPIKey fg) jobID status
                 (job_summary def servers runErr)) n3))
           in Some (Ran runErr, n4)))"

definition fleet_main :: "job_env \<Rightarrow> flags \<Rightarrow> net \<Rightarrow> (job_end \<times> files \<times> net) option" where
  "fleet_main env fg n =
     (if fg_jobFile fg = [] \<and> fg_planDescription fg = []
      then Some (Exit1 ''--job-file or --plan-description is required'', [], n)
      else case load_job env fg n of
        (Inl err, fs, n1) \<Rightarrow> Some (Exit1 err, fs, n1)
      | (Inr loaded, fs, n1) \<Rightarrow>
        if fg_refreshSnapshots fg then
          (case run (je_world env) (callFleetSnapshot (je_cd env) (je_jc env) (fg_gatewayURL fg) (fg_apiKey fg) loaded) n1 of
             (Inl err, n2) \<Rightarrow> Some (Exit1 err, fs, n2)
           | (Inr updated, n2) \<Rightarrow> (case je_writeFile env (fg_jobFile fg) of
               Some err \<Rightarrow> Some (Exit1 err, fs, n2)
             | None \<Rightarrow> Some (Exit0, fs @ [(fg_jobFile fg, updated)], n2)))
        else let def = apply_overrides fg loaded in
          if jd_Name def = [] then Some (Exit1 ''job definition missing required field: name'', fs, n1)
          else if jd_Steps def = [] then Some (Exit1 ''job definition has no change steps (steps required)'', fs, n1)
          else (case je_infra env (fg_infraPath fg) of
            Inl err \<Rightarrow> Some (Exit1 err, fs, n1)
          | Inr infra \<Rightarrow> (case resolve_job infra def of
              Inl err \<Rightarrow> Some (Exit1 err, fs, n1)
            | Inr servers \<Rightarrow>
                if sy_DryRun (jd_Strategy def)
                then Some (Exit0, fs, snd (run (je_world env) (fetchLiveTools (je_cd env) (je_jc env) (fg_gatewayURL fg)) n1))
                else (case drift_gate env fg infra def servers n1 of
                  (Inl end, fs', n2) \<Rightarrow> Some (end, fs @ fs', n2)
                | (Inr (def', servers'), fs', n2) \<Rightarrow>
                    map_option (\<lambda>(end, n3). (end, fs @ fs', n3)) (execute_job env fg def' servers' n2)))))"

section \<open>Which requests the parts send\<close>

lemma quiet_no_headers [simp]: "quiet \<lparr>hq_method = m, hq_url = u, hq_headers = [], hq_body = b\<rparr>"
  by (simp add: quiet_def)

lemma quiet_tools_get [simp]: "quiet (tools_get g)"
  by (simp add: tools_get_def)

definition to_gateway :: "string \<Rightarrow> http_req \<Rightarrow> bool" where
  "to_gateway gatewayURL r \<longleftrightarrow> quiet r \<and> HasPrefix (hq_url r) (TrimSlash gatewayURL)"

lemma talks_gateway:
  "talks (to_gateway g) (callFleetPlan cd jc g k d hs)"
  "talks (to_gateway g) (callFleetSnapshot cd jc g k def)"
  "talks (to_gateway g) (fetchLiveTools cd jc g)"
  unfolding callFleetPlan_def callFleetSnapshot_def fetchLiveTools_def gatewayPost_def post_def
  by (auto simp: to_gateway_def tools_get_def intro!: talks_bindP talks_http_do)

lemma talks_post [talk_intros]: "talks quiet (post who m url key body cd)"
  by (auto simp: post_def intro!: talks_bindP talks_http_do)

lemma talks_each: "(\<And>x. x \<in> set xs \<Longrightarrow> talks Q (f x)) \<Longrightarrow> talks Q (each f xs)"
  by (induction xs) (auto intro!: talks_bindP)

lemma talks_submitJob: "talks quiet (submitJob cd jc g a k ak u def stages)"
  by (auto simp: submitJob_def registerJobSteps_def gatewayPost_def auditPost_def
      intro!: talks_bindP talks_post talks_each split: sum.splits)

lemma talks_finalizeJob: "talks quiet (finalizeJob cd a k j st sm)"
  by (auto simp: finalizeJob_def recordJobOutcome_def auditPost_def intro!: talks_bindP talks_post talks_http_do split: sent.splits)

definition is_preflight :: "http_req \<Rightarrow> bool" where
  "is_preflight r \<longleftrightarrow> (\<exists>g k j s. r = preflight_request g k j s)"

lemma preflight_not_contacts: "is_preflight r \<Longrightarrow> \<not> contacts cfg s r"
  by (auto simp: is_preflight_def preflight_request_def contacts_def tool_request_def bearer_def split: if_splits)

lemma contacted_before: "\<forall>(r, x) \<in> set calls. quiet r \<or> is_preflight r \<Longrightarrow> contacted cfg calls = {}"
  using preflight_not_contacts contacts_not_quiet unfolding contacted_def by fast

lemma talks_runPreflight: "talks is_preflight (runPreflight cd g k j servers)"
  by (induction servers) (auto simp: preflightServer_def is_preflight_def intro!: talks_bindP talks_http_do)

lemma preflight_passed:
  "run w (runPreflight cd g k j servers) n = ([], n') \<Longrightarrow> s \<in> set servers \<Longrightarrow>
   \<exists>body. (preflight_request g k j s, Response 200 body) \<in> set (new n n')"
proof (induction servers arbitrary: n)
  case (Cons v servers)
  obtain r n1 where one: "run w (preflightServer cd g k j v) n = (r, n1)"
    by (cases "run w (preflightServer cd g k j v) n")
  obtain fs n2 where two: "run w (runPreflight cd g k j servers) n1 = (fs, n2)"
    by (cases "run w (runPreflight cd g k j servers) n1")
  from Cons.prems(1) one two have ok: "r = None" "fs = []" "n2 = n'"
    by (auto simp: run_bindP split: option.splits)
  have nw: "new n n' = new n n1 @ new n1 n'"
    using new_trans [OF later_run [OF one] later_run [OF two]] ok by simp
  have "\<exists>body. new n n1 = [(preflight_request g k j v, Response 200 body)]"
  proof -
    obtain x m where x: "send w (preflight_request g k j v) n = (x, m)"
      by (cases "send w (preflight_request g k j v) n")
    from one ok(1) x have "n1 = m \<and> (\<exists>body. x = Response 200 body)"
      by (auto simp: preflightServer_def http_do_def split: option.splits http_reply.splits if_splits)
    with new_send [OF x] show ?thesis by auto
  qed
  with Cons two ok nw show ?case
    by auto
qed simp

section \<open>Before the rollout\<close>

lemma load_job_result:
  assumes "load_job env fg n = (r, fs, n')"
  shows "later n n'" "\<forall>(q, x) \<in> set (new n n'). to_gateway (fg_gatewayURL fg) q"
proof -
  let ?p = "callFleetPlan (je_cd env) (je_jc env) (fg_gatewayURL fg) (fg_apiKey fg) (fg_planDescription fg)
    (plan_hints (fg_planTargetHints fg))"
  consider "n' = n" | y where "run (je_world env) ?p n = (y, n')"
    using assms by (auto simp: load_job_def split: if_splits sum.splits prod.splits)
  then have "later n n' \<and> (\<forall>(q, x) \<in> set (new n n'). to_gateway (fg_gatewayURL fg) q)"
  proof cases
    case 2
    then show ?thesis
      using later_run [OF 2] talks_run [OF talks_gateway(1) 2] by simp
  qed simp
  then show "later n n'" "\<forall>(q, x) \<in> set (new n n'). to_gateway (fg_gatewayURL fg) q"
    by blast+
qed

lemma replan_result:
  assumes "replan env fg infra def tools policy n = (r, fs, n')"
  shows "later n n' \<and> (\<forall>(q, x) \<in> set (new n n'). quiet q) \<and> r \<noteq> Inl (Ran e)"
proof -
  let ?p = "callFleetPlan (je_cd env) (je_jc env) (fg_gatewayURL fg) (fg_apiKey fg) (jd_PlanDescription def) (jd_PlanTargetHints def)"
  have "\<exists>y. run (je_world env) ?p n = (y, n') \<and> r \<noteq> Inl (Ran e)"
    using assms by (auto simp: replan_def Let_def split: if_splits sum.splits prod.splits option.splits)
  then obtain y where y: "run (je_world env) ?p n = (y, n')" "r \<noteq> Inl (Ran e)" by blast
  then show ?thesis
    using later_run [OF y(1)] talks_run [OF talks_gateway(1) y(1)] by (auto simp: to_gateway_def)
qed

lemma drift_gate_result:
  assumes "drift_gate env fg infra def servers n = (r, fs, n')"
  shows "later n n' \<and> (\<forall>(q, x) \<in> set (new n n'). quiet q) \<and> r \<noteq> Inl (Ran e)"
proof (cases "drift_policy fg def = ''ignore''")
  case True
  with assms show ?thesis
    by (auto simp: drift_gate_def)
next
  case False
  obtain y n1 where y: "run (je_world env) (fetchLiveTools (je_cd env) (je_jc env) (fg_gatewayURL fg)) n = (y, n1)"
    by (cases "run (je_world env) (fetchLiveTools (je_cd env) (je_jc env) (fg_gatewayURL fg)) n")
  have one: "later n n1" "\<forall>(q, x) \<in> set (new n n1). quiet q"
    using later_run [OF y] talks_run [OF talks_gateway(3) y] by (auto simp: to_gateway_def)
  consider "n' = n1" "r \<noteq> Inl (Ran e)" | tools where "replan env fg infra def tools (drift_policy fg def) n1 = (r, fs, n')"
    using assms False y by (auto simp: drift_gate_def Let_def split: if_splits sum.splits)
  then show ?thesis
  proof cases
    case 2
    from replan_result [OF this] have two: "later n1 n'" "\<forall>(q, x) \<in> set (new n1 n'). quiet q" "r \<noteq> Inl (Ran e)"
      by blast+
    with one new_trans [OF one(1) two(1)] show ?thesis
      by (auto intro: later_trans)
  qed (use one in auto)
qed

text \<open>
  A dry run contacts no server and sends nothing to the audit service; every request goes to the
  gateway, for the plan and for the registry of tools. The registry is fetched whenever the plan is
  printed, although the output of the run says that there was no contact with the gateway.
\<close>

theorem dry_run_requests:
  assumes "fleet_main env fg n = Some (e, fs, n')" "fg_dryRun fg"
  shows "(\<forall>(q, x) \<in> set (new n n'). to_gateway (fg_gatewayURL fg) q) \<and>
    (e = Exit0 \<and> \<not> fg_refreshSnapshots fg \<and> (\<forall>u. cd_url (je_cd env) u = None) \<longrightarrow>
      tools_get (fg_gatewayURL fg) \<in> fst ` set (new n n'))"
proof -
  have dry: "sy_DryRun (jd_Strategy (apply_overrides fg d))" for d
    using assms(2) by (simp add: apply_overrides_def Let_def)
  let ?w = "je_world env" and ?g = "fg_gatewayURL fg"
  obtain r fs1 n1 where l: "load_job env fg n = (r, fs1, n1)"
    by (cases "load_job env fg n")
  note load = load_job_result [OF l]
  consider (none) "n' = n" "e \<noteq> Exit0" | (load) "n' = n1" "e \<noteq> Exit0"
    | (refresh) d y where "fg_refreshSnapshots fg" "run ?w (callFleetSnapshot (je_cd env) (je_jc env) ?g (fg_apiKey fg) d) n1 = (y, n')"
    | (tools) "n' = snd (run ?w (fetchLiveTools (je_cd env) (je_jc env) ?g) n1)"
    using assms(1) l dry unfolding fleet_main_def
    by (auto simp: Let_def split: if_splits sum.splits prod.splits option.splits)
  then show ?thesis
  proof cases
    case none
    then show ?thesis by simp
  next
    case load
    with load_job_result(2) [OF l] show ?thesis by simp
  next
    case refresh
    with new_trans [OF load(1) later_run [OF refresh(2)]] talks_run [OF talks_gateway(2) refresh(2)] load(2) show ?thesis
      by auto
  next
    case tools
    then obtain y where y: "run ?w (fetchLiveTools (je_cd env) (je_jc env) ?g) n1 = (y, n')"
      by (metis prod.collapse)
    have "must (\<lambda>q. q = tools_get ?g) (fetchLiveTools (je_cd env) (je_jc env) ?g)" if "\<forall>u. cd_url (je_cd env) u = None"
      using that by (simp add: fetchLiveTools_def http_do_def)
    with run_must [OF _ y] have "tools_get ?g \<in> fst ` set (new n1 n')" if "\<forall>u. cd_url (je_cd env) u = None"
      using that by (force simp: image_iff)
    moreover have "\<forall>(q, x) \<in> set (new n1 n'). to_gateway ?g q"
      by (rule talks_run [OF talks_gateway(3) y])
    ultimately show ?thesis
      using load(2) unfolding new_trans [OF load(1) later_run [OF y]] by auto
  qed
qed

lemma fleet_main_ran:
  assumes "fleet_main env fg n = Some (Ran err, fs, n')"
  obtains def servers n1 where "later n n1" "\<forall>(q, x) \<in> set (new n n1). quiet q"
    "execute_job env fg def servers n1 = Some (Ran err, n')"
proof -
  obtain r fs1 n1 where l: "load_job env fg n = (r, fs1, n1)"
    by (cases "load_job env fg n")
  note load = load_job_result [OF l]
  from assms l obtain infra def servers def' servers' fs2 n2 where
    d: "drift_gate env fg infra def servers n1 = (Inr (def', servers'), fs2, n2)"
      "execute_job env fg def' servers' n2 = Some (Ran err, n')"
    unfolding fleet_main_def using drift_gate_result
    by (fastforce simp: Let_def split: if_splits sum.splits prod.splits option.splits)
  from drift_gate_result [OF d(1)] have two: "later n1 n2" "\<forall>(q, x) \<in> set (new n1 n2). quiet q"
    by blast+
  have "\<forall>(q, x) \<in> set (new n n2). quiet q"
    using load(2) two(2) unfolding new_trans [OF load(1) two(1)] by (auto simp: to_gateway_def)
  then show thesis
    using that later_trans [OF load(1) two(1)] d(2) by blast
qed

lemma execute_job_ran:
  assumes "execute_job env fg def servers n = Some (Ran err, n')"
  obtains n1 r n2 rcfg n3 and sub :: "(string + string) prog" and fin :: "string option prog" where
    "run (je_world env) (runPreflight (je_cd env) (fg_gatewayURL fg) (fg_apiKey fg) [] servers) n = ([], n1)"
    "run (je_world env) sub n1 = (r, n2)" "talks quiet sub"
    "runStages (je_schedule env) (je_cd env) (je_world env) rcfg def servers n2 = Some (err, n3)"
    "n' = n3 \<or> n' = snd (run (je_world env) fin n3)" "talks quiet fin"
proof -
  let ?w = "je_world env" and ?cd = "je_cd env" and ?g = "fg_gatewayURL fg" and ?k = "fg_apiKey fg"
  obtain failures n1 where pf: "run ?w (runPreflight ?cd ?g ?k [] servers) n = (failures, n1)"
    by (cases "run ?w (runPreflight ?cd ?g ?k [] servers) n")
  have nil: "failures = []"
    using assms by (simp add: execute_job_def Let_def pf split: if_splits)
  define u where "u = (if fg_clientUser fg = [] then ''fleet-runner'' else fg_clientUser fg)"
  define sub where "sub = submitJob ?cd (je_jc env) ?g (fg_auditURL fg) ?k (fg_auditAPIKey fg) u def
    (buildStageAssignments servers (jd_Strategy def))"
  obtain r n2 where s: "run ?w sub n1 = (r, n2)"
    by (cases "run ?w sub n1")
  define jobID where "jobID = (case r of Inl err \<Rightarrow> [] | Inr i \<Rightarrow> i)"
  obtain e n3 where rs: "runStages (je_schedule env) ?cd ?w (runner_of fg jobID u) def servers n2 = Some (e, n3)"
    using runStages_returns [of "je_schedule env" ?cd ?w "runner_of fg jobID u" def servers n2] by auto
  let ?fin = "finalizeJob ?cd (fg_auditURL fg) (fg_auditAPIKey fg) jobID (if e = None then ''completed'' else ''failed'')
    (job_summary def servers e)"
  have "e = err" "n' = (if jobID = [] then n3 else snd (run ?w ?fin n3))"
    using assms unfolding execute_job_def Let_def pf nil u_def [symmetric] sub_def [symmetric] s jobID_def [symmetric] split_conv rs
    by simp_all
  moreover have "talks quiet sub"
    unfolding sub_def by (rule talks_submitJob)
  ultimately show thesis
    using that [OF pf [unfolded nil] s _ rs [unfolded \<open>e = err\<close>], of ?fin] talks_finalizeJob
    by (auto split: if_splits)
qed

lemma runStages_later:
  assumes "runStages sch cd w cfg def servers n = Some (err, n')"
  shows "later n n'"
proof (cases "servers = []")
  case True
  with assms show ?thesis by (simp add: runStages_def)
next
  case False
  from assms False refl show ?thesis
    by (cases rule: runStages_cases)
      (meson gate_result(1) canary_result wave_gate_result(1) wave_result later_trans)+
qed

text \<open>
  C19: The command runs a rollout only after every server of it passed the preflight check. Before the
  rollout no server is called with a tool of the job, each of its servers was asked for a connection and
  the gateway answered 200, and after the rollout nothing but the job record is written.
\<close>

theorem rollout_after_preflight:
  assumes "fleet_main env fg n = Some (Ran err, fs, n')"
  shows "\<exists>def servers rcfg n1 n2.
    runStages (je_schedule env) (je_cd env) (je_world env) rcfg def servers n1 = Some (err, n2) \<and>
    later n n1 \<and> later n1 n2 \<and> later n2 n' \<and> contacted rcfg (new n n1) = {} \<and> contacted rcfg (new n2 n') = {} \<and>
    (\<forall>s \<in> set servers. \<exists>body. (preflight_request (fg_gatewayURL fg) (fg_apiKey fg) [] s, Response 200 body) \<in> set (new n n1))"
proof -
  obtain def servers n0 where m: "later n n0" "\<forall>(q, x) \<in> set (new n n0). quiet q"
      "execute_job env fg def servers n0 = Some (Ran err, n')"
    using fleet_main_ran [OF assms] .
  obtain na r n1 rcfg n2 and sub :: "(string + string) prog" and fin :: "string option prog" where
    e: "run (je_world env) (runPreflight (je_cd env) (fg_gatewayURL fg) (fg_apiKey fg) [] servers) n0 = ([], na)"
      "run (je_world env) sub na = (r, n1)" "talks quiet sub"
      "runStages (je_schedule env) (je_cd env) (je_world env) rcfg def servers n1 = Some (err, n2)"
      "n' = n2 \<or> n' = snd (run (je_world env) fin n2)" "talks quiet fin"
    using execute_job_ran [OF m(3)] .
  have la: "later n0 na" "later na n1" "later n na" "later n n1"
    using later_run [OF e(1)] later_run [OF e(2)] m(1) later_trans by blast+
  have nw: "new n n1 = (new n n0 @ new n0 na) @ new na n1"
    by (simp only: new_trans [OF m(1) la(1)] new_trans [OF la(3,2)])
  have "\<forall>(q, x) \<in> set (new n n1). quiet q \<or> is_preflight q"
    using m(2) talks_run [OF talks_runPreflight e(1)] talks_run [OF e(3,2)] unfolding nw by auto
  moreover have "later n2 n' \<and> (\<forall>(q, x) \<in> set (new n2 n'). quiet q)"
    using e(5) later_run [of _ fin n2] talks_run [OF e(6), of _ n2] by (metis later_refl list.set(1) empty_iff new_self prod.collapse)
  moreover have "\<exists>body. (preflight_request (fg_gatewayURL fg) (fg_apiKey fg) [] s, Response 200 body) \<in> set (new n n1)"
    if "s \<in> set servers" for s
    using preflight_passed [OF e(1) that] unfolding nw by auto
  ultimately show ?thesis
    using e(4) la(4) runStages_later [OF e(4)] contacted_before contacted_quiet by blast
qed

text \<open>
  C16: The command always comes to an end, whatever the services answer, however long they take, and
  however the servers of a wave are interleaved: the only loop without a bound, the wait for an approval,
  gives up after its deadline.
\<close>

theorem fleet_job_terminates: "\<exists>result. fleet_main env fg n = Some result"
proof -
  have exec: "\<exists>r. execute_job env fg def servers n = Some r" for def servers n
  proof -
    obtain fs n1 where "run (je_world env) (runPreflight (je_cd env) (fg_gatewayURL fg) (fg_apiKey fg) [] servers) n = (fs, n1)"
      by fastforce
    moreover have "\<exists>e m. runStages (je_schedule env) (je_cd env) (je_world env) rcfg def servers n = Some (e, m)" for rcfg n
      using runStages_returns by fastforce
    ultimately show ?thesis
      by (simp add: execute_job_def Let_def case_prod_unfold bind_eq_Some_conv)
  qed
  then have "execute_job env fg def servers n \<noteq> None" for def servers n
    by (metis option.distinct(1))
  then have "fleet_main env fg n \<noteq> None"
    by (simp add: fleet_main_def Let_def del: not_None_eq split: prod.split sum.split option.split)
  then show ?thesis
    by blast
qed

section \<open>Example runs\<close>

definition vacuum_flags :: "bool \<Rightarrow> flags" where
  "vacuum_flags dry = \<lparr>fg_jobFile = ''job.json'', fg_gatewayURL = ''http://g'', fg_auditURL = [], fg_apiKey = [],
     fg_auditAPIKey = [], fg_infraPath = ''infra'', fg_dryRun = dry, fg_canary = 0, fg_waveSize = 0, fg_pause = - 1,
     fg_approvalPollInterval = 1, fg_schemaDrift = ''ignore'', fg_refreshSnapshots = False, fg_planDescription = [],
     fg_planTargetHints = [], fg_replan = [], fg_clientUser = []\<rparr>"

definition ok_world :: world where
  "ok_world = \<lparr>wd_reply = (\<lambda>n r. (Response 200 ''ok'', 0)), wd_late = (\<lambda>_. 0)\<rparr>"

definition vacuum_db :: db_server where
  "vacuum_db = \<lparr>db_Name = [], db_ConnectionString = [], db_PasswordEnv = [], db_K8sCluster = [], db_K8sNamespace = [],
     db_K8sPodSelector = [], db_VMName = [], db_ContainerName = [], db_SystemdUnit = [], db_Tags = [],
     db_Sensitivity = [], db_ApprovalOverrideRoles = []\<rparr>"

definition vacuum_env :: job_env where
  "vacuum_env = \<lparr>je_cd = plain_codec,
     je_jc = \<lparr>jc_def = (\<lambda>_. Inr vacuum_job), jc_json = (\<lambda>_. JNull), jc_created = (\<lambda>_. Inl ''no job''),
       jc_tools = (\<lambda>_. Inr []), jc_plan = (\<lambda>_. Inl ''no plan'')\<rparr>,
     je_world = ok_world, je_schedule = (\<lambda>_ _. 0), je_readFile = (\<lambda>_. Inr []), je_writeFile = (\<lambda>_. None),
     je_infra = (\<lambda>_. Inr \<lparr>ic_DBServers = [(''a'', vacuum_db), (''b'', vacuum_db)], ic_K8sClusters = [], ic_VMs = []\<rparr>)\<rparr>"

lemma ok_preflight: "\<exists>n'. run ok_world (runPreflight plain_codec g k j servers) n = ([], n')"
proof (induction servers arbitrary: n)
  case (Cons v servers)
  have "\<exists>m. run ok_world (preflightServer plain_codec g k j v) n = (None, m)"
    by (simp add: preflightServer_def http_do_def send_def ok_world_def)
  with Cons show ?case
    by (fastforce simp: run_bindP)
qed simp

lemma vacuum_load: "load_job vacuum_env (vacuum_flags dry) n = (Inr vacuum_job, [], n)"
  by (simp add: load_job_def vacuum_flags_def vacuum_env_def)

lemma vacuum_main:
  "fleet_main vacuum_env (vacuum_flags dry) n =
     (if dry then Some (Exit0, [], snd (run ok_world (fetchLiveTools plain_codec (je_jc vacuum_env) ''http://g'') n))
      else map_option (\<lambda>(end, n3). (end, [], n3))
        (execute_job vacuum_env (vacuum_flags dry) (apply_overrides (vacuum_flags dry) vacuum_job) [''a'', ''b''] n))"
proof -
  have fg: "fg_jobFile (vacuum_flags b) \<noteq> []" "\<not> fg_refreshSnapshots (vacuum_flags b)"
      "fg_gatewayURL (vacuum_flags b) = ''http://g''" for b
    by (simp_all add: vacuum_flags_def)
  have env: "je_world vacuum_env = ok_world" "je_cd vacuum_env = plain_codec"
    by (simp_all add: vacuum_env_def)
  have job: "jd_Name (apply_overrides fg vacuum_job) \<noteq> []" "jd_Steps (apply_overrides fg vacuum_job) \<noteq> []" for fg
    by (simp_all add: apply_overrides_def vacuum_job_def Let_def)
  have dry: "sy_DryRun (jd_Strategy (apply_overrides (vacuum_flags b) vacuum_job)) = b" for b
    by (simp add: apply_overrides_def vacuum_job_def vacuum_flags_def Let_def Defaults_def)
  obtain infra where infra: "je_infra vacuum_env p = Inr infra"
      "resolve_job infra (apply_overrides (vacuum_flags b) vacuum_job) = Inr [''a'', ''b'']" for p b
    by (simp add: vacuum_env_def resolve_job_def resolveTargets_def apply_overrides_def vacuum_job_def Let_def)
  have gate: "drift_gate vacuum_env (vacuum_flags b) i (apply_overrides (vacuum_flags b) vacuum_job) ss n =
      (Inr (apply_overrides (vacuum_flags b) vacuum_job, ss), [], n)" for ss b i
    by (simp add: drift_gate_def drift_policy_def apply_overrides_def vacuum_job_def vacuum_flags_def Let_def Defaults_def)
  show ?thesis
    by (cases dry) (simp_all add: fleet_main_def vacuum_load fg job dry infra gate env Let_def)
qed

theorem rollout_after_preflight_witness:
  "\<exists>err n' def servers rcfg n1 n2.
     fleet_main vacuum_env (vacuum_flags False) fresh_net = Some (Ran err, [], n') \<and>
     runStages (je_schedule vacuum_env) (je_cd vacuum_env) (je_world vacuum_env) rcfg def servers n1 = Some (err, n2) \<and>
     contacted rcfg (new fresh_net n1) = {}"
proof -
  have "\<exists>err n'. execute_job vacuum_env (vacuum_flags False) def servers n = Some (Ran err, n')" for def servers n
  proof -
    let ?fg = "vacuum_flags False"
    obtain n1 where pf: "run ok_world (runPreflight plain_codec (fg_gatewayURL ?fg) (fg_apiKey ?fg) [] servers) n = ([], n1)"
      using ok_preflight by blast
    have "je_world vacuum_env = ok_world" "je_cd vacuum_env = plain_codec"
      by (simp_all add: vacuum_env_def)
    moreover obtain r n2 where "run ok_world (submitJob plain_codec (je_jc vacuum_env) (fg_gatewayURL ?fg) (fg_auditURL ?fg)
        (fg_apiKey ?fg) (fg_auditAPIKey ?fg) ''fleet-runner'' def (buildStageAssignments servers (jd_Strategy def))) n1 = (r, n2)"
      by fastforce
    moreover obtain e n3 where "runStages (je_schedule vacuum_env) plain_codec ok_world
        (runner_of ?fg (case r of Inl err \<Rightarrow> [] | Inr i \<Rightarrow> i) ''fleet-runner'') def servers n2 = Some (e, n3)"
      using runStages_returns by fastforce
    moreover have "fg_clientUser ?fg = []"
      by (simp add: vacuum_flags_def)
    ultimately show ?thesis
      by (simp add: execute_job_def pf Let_def)
  qed
  then obtain err n' where "fleet_main vacuum_env (vacuum_flags False) fresh_net = Some (Ran err, [], n')"
    by (simp add: vacuum_main) blast
  with rollout_after_preflight [OF this] show ?thesis by blast
qed

theorem dry_run_requests_witness:
  "\<exists>n'. fleet_main vacuum_env (vacuum_flags True) fresh_net = Some (Exit0, [], n') \<and>
     tools_get ''http://g'' \<in> fst ` set (new fresh_net n')"
proof -
  obtain n' where r: "fleet_main vacuum_env (vacuum_flags True) fresh_net = Some (Exit0, [], n')"
    by (simp add: vacuum_main)
  have "tools_get (fg_gatewayURL (vacuum_flags True)) \<in> fst ` set (new fresh_net n')"
    using dry_run_requests [OF r] by (simp add: vacuum_flags_def vacuum_env_def)
  with r show ?thesis
    by (auto simp: vacuum_flags_def)
qed

end
