(* ===== verification/Fleet_Server.thy ===== *)
theory Fleet_Server
  imports Fleet_Safety
begin

text \<open>
  What one server of a fleet job goes through, \<^verbatim>\<open>executeSteps\<close> of \<^verbatim>\<open>runner.go\<close>: which steps
  are attempted, where the sequence stops, and which status reaches the audit service.
\<close>

definition final_status :: "server_result \<Rightarrow> string" where
  "final_status res = (if sv_err res \<noteq> None then ''failed''
     else if list_ex (\<lambda>sr. sr_err sr \<noteq> None) (sv_steps res) then ''partial'' else ''success'')"

text \<open>The results of the steps attempted so far, against the steps of the job.\<close>

definition attempted :: "step list \<Rightarrow> step_result list \<Rightarrow> string option \<Rightarrow> bool" where
  "attempted steps srs err \<longleftrightarrow> length srs \<le> length steps \<and> map sr_tool srs = map st_Tool (take (length srs) steps) \<and>
     (err = None \<longrightarrow> length srs = length steps) \<and>
     (\<forall>i < length srs. sr_err (srs ! i) \<noteq> None \<longrightarrow>
        (st_OnFailure (steps ! i) = ''continue'' \<longleftrightarrow> \<not> (err \<noteq> None \<and> Suc i = length srs))) \<and>
     (err \<noteq> None \<longrightarrow> srs \<noteq> [] \<and> sr_err (last srs) \<noteq> None)"

lemma attempted_Nil [simp]: "attempted [] [] None"
  by (simp add: attempted_def)

lemma attempted_step:
  assumes "attempted steps srs err" "sr_tool sr = st_Tool st" "sr_err sr \<noteq> None \<Longrightarrow> st_OnFailure st = ''continue''"
  shows "attempted (st # steps) (sr # srs) err"
  using assms by (auto simp: attempted_def nth_Cons' less_Suc_eq_0_disj)

lemma attempted_stop:
  "sr_tool sr = st_Tool st \<Longrightarrow> sr_err sr = Some e \<Longrightarrow> st_OnFailure st \<noteq> ''continue'' \<Longrightarrow> attempted (st # steps) [sr] (Some m)"
  by (simp add: attempted_def)

lemma run_patch:
  assumes "rn_auditURL cfg \<noteq> []" "\<forall>u. cd_url cd u = None"
  shows "\<exists>x y n'. run w (patchServerStatus cd cfg s status out t t') n = (x, n') \<and>
    new n n' = [(server_patch cfg s status out t t', y)] \<and> later n n'"
proof -
  obtain y n' where y: "send w (server_patch cfg s status out t t') n = (y, n')"
    by (cases "send w (server_patch cfg s status out t t') n")
  with assms new_send [OF y] later_send [OF y] show ?thesis
    by (simp add: patchServerStatus_def http_do_def)
qed

text \<open>The end of a server: its status update, then the result.\<close>

lemma run_finish:
  assumes "rn_auditURL cfg \<noteq> []" "\<forall>u. cd_url cd u = None"
    "run w (Now (\<lambda>t. bindP (patchServerStatus cd cfg s status out None (Some t)) (\<lambda>_. Return r))) n = (res, n')"
  shows "res = r \<and> later n n' \<and> (\<exists>t y. new n n' = [(server_patch cfg s status out None (Some t), y)])"
proof -
  obtain x y m where m: "run w (patchServerStatus cd cfg s status out None (Some (nt_now n))) n = (x, m)"
      "new n m = [(server_patch cfg s status out None (Some (nt_now n)), y)]" "later n m"
    using run_patch [OF assms(1,2)] by metis
  with assms(3) show ?thesis
    by (auto simp: run_bindP)
qed

lemma new_prefix:
  assumes "run w p n = (x, m)" "later m n'" "\<exists>pre t y. new m n' = pre @ [(Q t, y)]"
  shows "\<exists>pre t y. new n n' = pre @ [(Q t, y)]"
proof -
  from assms(3) obtain pre t y where "new m n' = pre @ [(Q t, y)]"
    by blast
  with new_trans [OF later_run [OF assms(1)] assms(2)] have "new n n' = (new n m @ pre) @ [(Q t, y)]"
    by simp
  then show ?thesis by blast
qed

lemma run_bindP_cases:
  assumes "run w (bindP p g) n = (x, n')"
  obtains y m where "run w p n = (y, m)" "run w (g y) m = (x, n')" "later m n'"
  using assms later_run by (cases "run w p n") (fastforce simp: run_bindP)

definition closes :: "runner_config \<Rightarrow> string \<Rightarrow> step list \<Rightarrow> step_result list \<Rightarrow> net \<Rightarrow> net \<Rightarrow> server_result \<Rightarrow> bool" where
  "closes cfg s steps srs n n' res \<longleftrightarrow> sv_server res = s \<and>
     (\<exists>srs'. sv_steps res = srs @ srs' \<and> attempted steps srs' (sv_err res)) \<and>
     (\<exists>out pre t y. new n n' = pre @ [(server_patch cfg s (final_status res) out None (Some t), y)])"

lemma closes_before:
  assumes "run w p n = (x, m)" "later m n'" "closes cfg s steps srs m n' res"
  shows "closes cfg s steps srs n n' res"
  using assms(3) new_prefix [OF assms(1,2), of "\<lambda>t. server_patch cfg s (final_status res) _ None (Some t)"]
  unfolding closes_def by meson

lemma closes_step:
  assumes "closes cfg s steps (srs @ [sr]) n n' res" "sr_tool sr = st_Tool st"
    "sr_err sr \<noteq> None \<Longrightarrow> st_OnFailure st = ''continue''"
  shows "closes cfg s (st # steps) srs n n' res"
  using assms attempted_step unfolding closes_def by fastforce

lemma closes_end:
  assumes "new n n' = [(server_patch cfg s (final_status res) out None (Some t), y)]"
    "sv_server res = s" "sv_steps res = srs @ srs'" "attempted steps srs' (sv_err res)"
  shows "closes cfg s steps srs n n' res"
  unfolding closes_def using assms by (metis append_Nil)

lemma exec_loop_result:
  assumes "rn_auditURL cfg \<noteq> []" "\<forall>u. cd_url cd u = None"
  shows "run w (exec_loop cd cfg s stage steps idx srs (list_ex (\<lambda>sr. sr_err sr \<noteq> None) srs)) n = (res, n') \<Longrightarrow>
    closes cfg s steps srs n n' res"
proof (induction steps arbitrary: idx srs n)
  case Nil
  from run_finish [OF assms Nil [unfolded exec_loop.simps]] obtain t y
    where r: "res = \<lparr>sv_server = s, sv_steps = srs, sv_err = None\<rparr>"
      "new n n' = [(server_patch cfg s (final_status res) (last_output srs) None (Some t), y)]"
    by (auto simp: final_status_def)
  show ?case
    by (rule closes_end [OF r(2), of _ "[]"]) (simp_all add: r(1))
next
  case (Cons st steps)
  let ?any = "list_ex (\<lambda>sr. sr_err sr \<noteq> None)"
  obtain outp err m where m: "run w (callGatewayTool cd cfg s stage st) n = ((outp, err), m)"
    by (cases "run w (callGatewayTool cd cfg s stage st) n") auto
  from Cons.prems have k: "run w (case err of
         Some e \<Rightarrow>
           (let done' = srs @ [\<lparr>sr_stepIdx = idx, sr_tool = st_Tool st, sr_output = outp, sr_err = Some e,
                sr_verified = None\<rparr>];
                onFailure = (if st_OnFailure st = [] then ''stop'' else st_OnFailure st)
            in bindP (patchStepStatus cd cfg s idx ''failed'' outp) (\<lambda>_.
                 if onFailure = ''continue'' then exec_loop cd cfg s stage steps (Suc idx) done' True
                 else Now (\<lambda>t. bindP (patchServerStatus cd cfg s ''failed'' outp None (Some t)) (\<lambda>_.
                   Return \<lparr>sv_server = s, sv_steps = done',
                     sv_err = Some (''step '' @ nat_str idx @ '' ('' @ st_Tool st @ '') failed: '' @ e)\<rparr>))))
       | None \<Rightarrow>
           bindP (verifyStep cd cfg (nt_now n)) (\<lambda>verified.
             let done' = srs @ [\<lparr>sr_stepIdx = idx, sr_tool = st_Tool st, sr_output = outp, sr_err = None,
                 sr_verified = verified\<rparr>]
             in bindP (patchStepStatus cd cfg s idx ''success'' outp) (\<lambda>_.
               bindP (recordToolResult cd cfg s st outp) (\<lambda>_.
                 exec_loop cd cfg s stage steps (Suc idx) done' (?any srs))))) m = (res, n')"
    by (simp only: exec_loop.simps run.simps run_bindP m Let_def prod.case)
  then have l: "later m n'"
    by (rule later_run)
  have "closes cfg s (st # steps) srs m n' res"
  proof (cases err)
    case None
    let ?sr = "\<lambda>v. \<lparr>sr_stepIdx = idx, sr_tool = st_Tool st, sr_output = outp, sr_err = None, sr_verified = v\<rparr>"
    from k [unfolded None option.case Let_def] obtain v a b x1 x2 c
      where r: "run w (verifyStep cd cfg (nt_now n)) m = (v, a)" "later a n'"
        "run w (patchStepStatus cd cfg s idx ''success'' outp) a = (x1, b)" "later b n'"
        "run w (recordToolResult cd cfg s st outp) b = (x2, c)" "later c n'"
        "run w (exec_loop cd cfg s stage steps (Suc idx) (srs @ [?sr v]) (?any srs)) c = (res, n')"
      by (elim run_bindP_cases) blast
    from r(7) have "run w (exec_loop cd cfg s stage steps (Suc idx) (srs @ [?sr v]) (?any (srs @ [?sr v]))) c = (res, n')"
      by simp
    from closes_step [OF Cons.IH [OF this], of st] have "closes cfg s (st # steps) srs c n' res"
      by simp
    then show ?thesis
      using r closes_before by metis
  next
    case (Some e)
    let ?sr = "\<lparr>sr_stepIdx = idx, sr_tool = st_Tool st, sr_output = outp, sr_err = Some e, sr_verified = None\<rparr>"
    from k [unfolded Some option.case Let_def] obtain x a
      where r: "run w (patchStepStatus cd cfg s idx ''failed'' outp) m = (x, a)" "later a n'"
        "run w (if (if st_OnFailure st = [] then ''stop'' else st_OnFailure st) = ''continue''
           then exec_loop cd cfg s stage steps (Suc idx) (srs @ [?sr]) True
           else Now (\<lambda>t. bindP (patchServerStatus cd cfg s ''failed'' outp None (Some t)) (\<lambda>_.
             Return \<lparr>sv_server = s, sv_steps = srs @ [?sr],
               sv_err = Some (''step '' @ nat_str idx @ '' ('' @ st_Tool st @ '') failed: '' @ e)\<rparr>))) a = (res, n')"
      by (elim run_bindP_cases) blast
    have "closes cfg s (st # steps) srs a n' res"
    proof (cases "st_OnFailure st = ''continue''")
      case True
      with r(3) have "run w (exec_loop cd cfg s stage steps (Suc idx) (srs @ [?sr]) (?any (srs @ [?sr]))) a = (res, n')"
        by simp
      from closes_step [OF Cons.IH [OF this], of st] True show ?thesis by simp
    next
      case False
      with r(3) have "run w (Now (\<lambda>t. bindP (patchServerStatus cd cfg s ''failed'' outp None (Some t)) (\<lambda>_.
             Return \<lparr>sv_server = s, sv_steps = srs @ [?sr],
               sv_err = Some (''step '' @ nat_str idx @ '' ('' @ st_Tool st @ '') failed: '' @ e)\<rparr>))) a = (res, n')"
        by (simp only: split: if_splits) (simp_all del: run.simps)
      from run_finish [OF assms this] obtain t y where f: "sv_server res = s" "sv_steps res = srs @ [?sr]"
          "sv_err res = Some (''step '' @ nat_str idx @ '' ('' @ st_Tool st @ '') failed: '' @ e)"
          "new a n' = [(server_patch cfg s ''failed'' outp None (Some t), y)]"
        by auto
      from f(4) have "new a n' = [(server_patch cfg s (final_status res) outp None (Some t), y)]"
        by (simp add: final_status_def f(3))
      from closes_end [OF this f(1,2)] attempted_stop [of ?sr st e] False f(3) show ?thesis
        by simp
    qed
    then show ?thesis
      using r closes_before by metis
  qed
  then show ?case
    using m l closes_before by metis
qed



end
