(* ===== verification/Rollback_Plan.thy ===== *)
theory Rollback_Plan
  imports Audit_Event Fleet_Plan Go_Sort "HOL-Library.Sublist"
begin

text \<open>
  Rollback plans, \<^verbatim>\<open>internal/audit/rollback.go\<close>, and the reverse fleet job of
  \<^verbatim>\<open>cmd/fleet-runner/rollback.go\<close>. A plan is derived from a recorded tool execution and the state
  captured before it. The two decoders of captured states are arguments. A captured row is the list of its
  columns in the order in which the code iterates over it.
\<close>

section \<open>Plans\<close>

definition ReversibilityYes :: string where "ReversibilityYes = ''yes''"
definition ReversibilityPartial :: string where "ReversibilityPartial = ''partial''"
definition ReversibilityNo :: string where "ReversibilityNo = ''no''"

lemmas reversibility_defs = ReversibilityYes_def ReversibilityPartial_def ReversibilityNo_def

record inverse_operation =
  io_Agent :: string
  io_Tool :: string
  io_Args :: json_map
  io_Description :: string

record rollback_plan =
  rp_OriginalEventID :: string
  rp_OriginalTool :: string
  rp_OriginalTraceID :: string
  rp_Reversibility :: string
  rp_NotReversibleReason :: string
  rp_InverseOp :: "inverse_operation option"
  rp_GeneratedAt :: time

record scale_pre_state =
  sp_Namespace :: string
  sp_DeploymentName :: string
  sp_PreviousReplicas :: int

text \<open>What the code reads of a value behind \<^verbatim>\<open>any\<close>: whether it is nil, and its text under
  \<^verbatim>\<open>%v\<close>. A string is its own text; numbers, booleans and nested values carry the text they print.\<close>

datatype cell = CNull | CStr string | CRaw string

fun fmt_v :: "cell \<Rightarrow> string" where
  "fmt_v CNull = ''<nil>''"
| "fmt_v (CStr s) = s"
| "fmt_v (CRaw t) = t"

type_synonym row = "(string \<times> cell) list"

definition column :: "row \<Rightarrow> string \<Rightarrow> cell" where
  "column row col = (case map_of row col of None \<Rightarrow> CNull | Some v \<Rightarrow> v)"

record wal_change =
  wc_Kind :: string
  wc_Schema :: string
  wc_Table :: string
  wc_NewValues :: row
  wc_OldValues :: row
  wc_PKValues :: row

record wal_capture =
  wl_SlotName :: string
  wl_LSNBefore :: string
  wl_LSNAfter :: string
  wl_Changes :: "wal_change list"
  wl_CapturedAt :: time

record dml_pre_state =
  dp_Schema :: string
  dp_Table :: string
  dp_Operation :: string
  dp_PKColumns :: "string list"
  dp_Rows :: "row list"
  dp_InsertedPKs :: "row list"
  dp_RowCount :: int
  dp_CapturedAt :: time
  dp_Tier :: int
  dp_WAL :: "wal_capture option"

section \<open>Inverse SQL\<close>

definition qualifiedTable :: "string \<Rightarrow> string \<Rightarrow> string" where
  "qualifiedTable schema table = (if schema = [] \<or> schema = ''public'' then table else schema @ ''.'' @ table)"

definition equation :: "row \<Rightarrow> string \<Rightarrow> string" where
  "equation row col = col @ '' = '' @ fmt_v (column row col)"

definition inverseInsertSQL :: "dml_pre_state \<Rightarrow> string + string \<times> string" where
  "inverseInsertSQL pre =
     (if dp_InsertedPKs pre = [] \<or> dp_PKColumns pre = []
      then Inl ''INSERT pre-state missing InsertedPKs or PKColumns''
      else let qualTable = qualifiedTable (dp_Schema pre) (dp_Table pre) in
        Inr (case dp_PKColumns pre of
            [col] \<Rightarrow> ''DELETE FROM '' @ qualTable @ '' WHERE '' @ col @ '' IN ('' @
              join_str '', '' (map (\<lambda>row. fmt_v (column row col)) (dp_InsertedPKs pre)) @ '')''
          | cols \<Rightarrow> ''DELETE FROM '' @ qualTable @ '' WHERE '' @
              join_str '' OR '' (map (\<lambda>row. ''('' @ join_str '' AND '' (map (equation row) cols) @ '')'') (dp_InsertedPKs pre)),
          ''delete '' @ nat_str (length (dp_InsertedPKs pre)) @ '' inserted row(s) from '' @ qualTable))"

definition set_clause :: "string \<times> cell \<Rightarrow> string" where
  "set_clause cv = (case cv of (col, CNull) \<Rightarrow> col @ '' = NULL'' | (col, v) \<Rightarrow> col @ '' = '' @ fmt_v v)"

definition update_stmt :: "string \<Rightarrow> string list \<Rightarrow> row \<Rightarrow> string option" where
  "update_stmt qualTable pks row =
     (let whereClauses = map (equation row) pks;
          setClauses = map set_clause (filter (\<lambda>(col, _). col \<notin> set pks) row)
      in if setClauses = [] then None
         else Some (''UPDATE '' @ qualTable @ '' SET '' @ join_str '', '' setClauses @ '' WHERE '' @ join_str '' AND '' whereClauses))"

definition inverseUpdateSQL :: "dml_pre_state \<Rightarrow> string + string \<times> string" where
  "inverseUpdateSQL pre =
     (if dp_Rows pre = [] \<or> dp_PKColumns pre = [] then Inl ''UPDATE pre-state missing Rows or PKColumns''
      else let qualTable = qualifiedTable (dp_Schema pre) (dp_Table pre) in
        Inr (join_str (CHR '';'' # [CHR 10]) (List.map_filter (update_stmt qualTable (dp_PKColumns pre)) (dp_Rows pre)),
          ''restore '' @ nat_str (length (dp_Rows pre)) @ '' updated row(s) in '' @ qualTable @ '' to pre-mutation values''))"

definition insert_value :: "cell \<Rightarrow> string" where
  "insert_value v = (if v = CNull then ''NULL'' else [CHR 39] @ fmt_v v @ [CHR 39])"

definition inverseDeleteSQL :: "dml_pre_state \<Rightarrow> string + string \<times> string" where
  "inverseDeleteSQL pre = (case dp_Rows pre of
     [] \<Rightarrow> Inl ''DELETE pre-state missing Rows''
   | first # _ \<Rightarrow>
       (let qualTable = qualifiedTable (dp_Schema pre) (dp_Table pre); cols = map fst first
        in Inr (''INSERT INTO '' @ qualTable @ '' ('' @ join_str '', '' cols @ '') VALUES'' @ [CHR 10] @ ''  '' @
              join_str ([CHR '','', CHR 10] @ ''  '')
                (map (\<lambda>row. ''('' @ join_str '', '' (map (\<lambda>col. insert_value (column row col)) cols) @ '')'') (dp_Rows pre)),
            ''re-insert '' @ nat_str (length (dp_Rows pre)) @ '' deleted row(s) into '' @ qualTable)))"

section \<open>Derivation\<close>

definition not_reversible :: "string \<Rightarrow> rollback_plan \<Rightarrow> rollback_plan" where
  "not_reversible reason plan = plan\<lparr>rp_Reversibility := ReversibilityNo, rp_NotReversibleReason := reason\<rparr>"

definition reversible :: "inverse_operation \<Rightarrow> rollback_plan \<Rightarrow> rollback_plan" where
  "reversible op plan = plan\<lparr>rp_Reversibility := ReversibilityYes, rp_InverseOp := Some op\<rparr>"

definition deriveScaleRollback ::
  "(string \<Rightarrow> string + scale_pre_state) \<Rightarrow> rollback_plan \<Rightarrow> event \<Rightarrow> tool_execution \<Rightarrow> string + rollback_plan" where
  "deriveScaleRollback unmarshal plan e tool =
     (if tx_PreState tool = []
      then Inr (not_reversible (''Pre-mutation state was not captured for this scale_deployment event. '' @
        ''Events recorded before rollback support was added cannot be reversed automatically.'') plan)
      else case unmarshal (tx_PreState tool) of
        Inl err \<Rightarrow> Inl (''unmarshal ScalePreState for event '' @ ev_EventID e @ '': '' @ err)
      | Inr pre \<Rightarrow>
          if sp_PreviousReplicas pre = 0
          then Inr (not_reversible (''Pre-mutation replica count was 0 or could not be parsed; '' @
            ''cannot safely restore to that state.'') plan)
          else Inr (reversible \<lparr>io_Agent = ''k8s'', io_Tool = ''scale_deployment'',
            io_Args = [(''namespace'', JStr (sp_Namespace pre)), (''deployment'', JStr (sp_DeploymentName pre)),
              (''replicas'', JNum (sp_PreviousReplicas pre))],
            io_Description = ''restore deployment/'' @ sp_DeploymentName pre @ '' in namespace '' @ sp_Namespace pre @
              '' to '' @ Itoa (sp_PreviousReplicas pre) @ '' replica(s)''\<rparr> plan))"

text \<open>The dash of the description, in UTF-8.\<close>

definition dash :: string where
  "dash = '' '' @ [CHR 0xE2, CHR 0x80, CHR 0x94] @ '' ''"

definition deriveDMLRollback ::
  "(string \<Rightarrow> string + dml_pre_state) \<Rightarrow> rollback_plan \<Rightarrow> event \<Rightarrow> tool_execution \<Rightarrow> string + rollback_plan" where
  "deriveDMLRollback unmarshal plan e tool =
     (if tx_PreState tool = []
      then Inr (not_reversible (''Pre-mutation state was not captured for this DML event. '' @
        ''Events recorded before rollback support was added cannot be reversed automatically.'') plan)
      else case unmarshal (tx_PreState tool) of
        Inl err \<Rightarrow> Inl (''unmarshal DMLPreState for event '' @ ev_EventID e @ '': '' @ err)
      | Inr pre \<Rightarrow>
          if dp_RowCount pre = 0
          then Inr (reversible \<lparr>io_Agent = ''database'', io_Tool = ''exec_sql'',
            io_Args = [(''sql'', JStr ''-- no rows affected; no inverse SQL needed'')],
            io_Description = ''no rows were affected by the original operation; nothing to reverse''\<rparr> plan)
          else (case (if dp_Operation pre = ''insert'' then Some (inverseInsertSQL pre)
               else if dp_Operation pre = ''update'' then Some (inverseUpdateSQL pre)
               else if dp_Operation pre = ''delete'' then Some (inverseDeleteSQL pre) else None) of
             None \<Rightarrow> Inr (not_reversible (''unknown DML operation '' @ Quote (dp_Operation pre)) plan)
           | Some (Inl err) \<Rightarrow>
               Inl (''derive inverse SQL for '' @ dp_Operation pre @ '' event '' @ ev_EventID e @ '': '' @ err)
           | Some (Inr (sql, desc)) \<Rightarrow>
               Inr (reversible \<lparr>io_Agent = ''database'', io_Tool = ''exec_sql'',
                 io_Args = [(''sql'', JStr sql), (''tier'', JNum (dp_Tier pre))],
                 io_Description = desc @ dash @ ''captured via '' @
                   (if dp_Tier pre = 2 then ''Tier 2 (WAL decode)'' else ''Tier 1 (row-capture)'') @
                   '' ('' @ Itoa (dp_RowCount pre) @ '' row(s))''\<rparr> plan)))"

definition DeriveRollbackPlan ::
  "(string \<Rightarrow> string + scale_pre_state) \<Rightarrow> (string \<Rightarrow> string + dml_pre_state) \<Rightarrow> time \<Rightarrow> event \<Rightarrow> string + rollback_plan" where
  "DeriveRollbackPlan dec_scale dec_dml now e = (case ev_Tool e of
     None \<Rightarrow> Inl (''event '' @ ev_EventID e @ '' has no tool execution'')
   | Some tool \<Rightarrow>
       (let name = tx_Name tool;
            plan = \<lparr>rp_OriginalEventID = ev_EventID e, rp_OriginalTool = name, rp_OriginalTraceID = ev_TraceID e,
              rp_Reversibility = [], rp_NotReversibleReason = [], rp_InverseOp = None, rp_GeneratedAt = now\<rparr>
        in if name = ''scale_deployment'' then deriveScaleRollback dec_scale plan e tool
           else if name = ''delete_pod'' then Inr (plan\<lparr>rp_Reversibility := ReversibilityPartial,
             rp_NotReversibleReason := ''Pod deletion is partially reversible: the pod'' @ [CHR 39] @ ''s owning '' @
               ''controller (ReplicaSet, StatefulSet, DaemonSet) will recreate the pod automatically. '' @
               ''If no controller manages this pod, it is permanently gone. '' @
               ''No explicit inverse operation is generated.''\<rparr>)
           else if name = ''restart_deployment'' then Inr (not_reversible
             (''A rollout restart cannot be undone: the restart has already '' @
              ''happened. To roll back to a previous image, use a deployment rollback '' @
              ''(kubectl rollout undo). Image rollbacks are not currently supported by this system.'') plan)
           else if name = ''terminate_connection'' \<or> name = ''terminate_idle_connections'' \<or> name = ''cancel_query''
           then Inr (not_reversible (name @ '': the connection or query is already gone and cannot be restored. '' @
              ''The get_session_info pre-flight already surfaced the rollback cost estimate '' @
              ''before this operation was approved.'') plan)
           else if name = ''exec_update'' \<or> name = ''exec_delete'' \<or> name = ''exec_insert''
           then deriveDMLRollback dec_dml plan e tool
           else Inr (not_reversible (''tool '' @ Quote name @ '' has no registered inverse operation'') plan)))"

section \<open>Reverse fleet jobs\<close>

type_synonym server_plans = "(string \<times> rollback_plan option list) list"

definition plans_of :: "server_plans \<Rightarrow> string \<Rightarrow> rollback_plan option list" where
  "plans_of serverPlans srv = (case map_of serverPlans srv of None \<Rightarrow> [] | Some ps \<Rightarrow> ps)"

definition resolveRollbackScope :: "string \<Rightarrow> string list \<Rightarrow> server_plans \<Rightarrow> string + string list" where
  "resolveRollbackScope scope serverOrder serverPlans =
     (let scope = TrimSpace scope in
      if scope = [] \<or> scope = ''all'' then Inr serverOrder
      else if scope = ''canary_only'' then
        (if serverOrder = [] then Inl ''server order is empty'' else Inr (take 1 serverOrder))
      else if scope = ''failed_only'' then
        Inr (filter (\<lambda>srv. list_ex (\<lambda>p. case p of None \<Rightarrow> False
          | Some plan \<Rightarrow> rp_Reversibility plan = ReversibilityYes) (plans_of serverPlans srv)) serverOrder)
      else
        let scope = (if HasPrefix scope ''['' then TrimSuffix (TrimPrefix scope ''['') '']'' else scope);
            allow = filter (\<lambda>p. p \<noteq> []) (map (\<lambda>p. TrimSpace (trim_with (\<lambda>c. c = CHR 0x22 \<or> c = CHR '' '') p))
              (split_char (CHR '','') scope));
            filtered = filter (\<lambda>srv. srv \<in> set allow) serverOrder
        in if filtered = [] then Inl (''no servers matched scope list '' @ Quote scope) else Inr filtered)"

definition reverseCanaryOrder :: "string list \<Rightarrow> int \<Rightarrow> string list" where
  "reverseCanaryOrder servers canaryCount =
     (if canaryCount \<le> 0 \<or> int (length servers) \<le> canaryCount then insertionSort str_less servers
      else drop (nat canaryCount) servers @ take (nat canaryCount) servers)"

text \<open>The plan for a step: the first server with a reversible one provides it for all.\<close>

definition usable :: "nat \<Rightarrow> rollback_plan option list \<Rightarrow> inverse_operation option" where
  "usable i plans = (if i < length plans then (case plans ! i of
       None \<Rightarrow> None
     | Some p \<Rightarrow> if rp_Reversibility p = ReversibilityYes then rp_InverseOp p else None) else None)"

fun step_inverse :: "server_plans \<Rightarrow> nat \<Rightarrow> string list \<Rightarrow> inverse_operation option" where
  "step_inverse serverPlans i [] = None"
| "step_inverse serverPlans i (srv # servers) = (case usable i (plans_of serverPlans srv) of
     Some op \<Rightarrow> Some op | None \<Rightarrow> step_inverse serverPlans i servers)"

definition reverse_step :: "server_plans \<Rightarrow> string list \<Rightarrow> step list \<Rightarrow> nat \<Rightarrow> step" where
  "reverse_step serverPlans servers origSteps i =
     (let origStep = origSteps ! i in case step_inverse serverPlans i servers of
        Some op \<Rightarrow> \<lparr>st_Agent = io_Agent op, st_Tool = io_Tool op, st_Args = Some (io_Args op),
          st_OnFailure = st_OnFailure origStep\<rparr>
      | None \<Rightarrow> \<lparr>st_Agent = st_Agent origStep, st_Tool = st_Tool origStep,
          st_Args = Some (filter (\<lambda>(k, _). k \<noteq> ''_rollback_note'') (case st_Args origStep of None \<Rightarrow> [] | Some m \<Rightarrow> m) @
            [(''_rollback_note'', JStr (''step '' @ nat_str i @ '' ('' @ st_Agent origStep @ ''/'' @ st_Tool origStep @
              '') has no inverse operation; review manually''))]),
          st_OnFailure = ''stop''\<rparr>)"

definition BuildRollbackJobDef ::
  "job_def option \<Rightarrow> server_plans \<Rightarrow> string \<Rightarrow> string list \<Rightarrow> string + job_def" where
  "BuildRollbackJobDef originalDef serverPlans scope serverOrder = (case originalDef of
     None \<Rightarrow> Inl ''original job definition is required''
   | Some def \<Rightarrow>
       if jd_Steps def = [] then Inl ''original job has no steps to reverse''
       else (case resolveRollbackScope scope serverOrder serverPlans of
          Inl err \<Rightarrow> Inl (''resolve scope: '' @ err)
        | Inr servers \<Rightarrow>
            if servers = [] then Inl (''no servers selected by scope '' @ Quote scope)
            else Inr \<lparr>jd_Name = ''rollback: '' @ jd_Name def,
              jd_Steps = map (reverse_step serverPlans servers (jd_Steps def)) (rev [0..<length (jd_Steps def)]),
              jd_Targets = \<lparr>tg_Tags = [], tg_Names = reverseCanaryOrder servers (sy_CanaryCount (jd_Strategy def)),
                tg_Exclude = []\<rparr>,
              jd_Strategy = \<lparr>sy_CanaryCount = 0, sy_WaveSize = sy_WaveSize (jd_Strategy def),
                sy_WavePauseSeconds = sy_WavePauseSeconds (jd_Strategy def),
                sy_FailureThreshold = sy_FailureThreshold (jd_Strategy def), sy_DryRun = False,
                sy_CountPartialAsSuccess = False, sy_ApprovalTimeoutSeconds = 0, sy_WaveGate = False,
                sy_SchemaDrift = []\<rparr>,
              jd_PlanTraceID = [], jd_ToolSnapshots = [], jd_PlanDescription = [], jd_PlanTargetHints = [],
              jd_PlanServers = []\<rparr>))"

section \<open>Plans are well formed\<close>

definition wf_plan :: "event \<Rightarrow> time \<Rightarrow> rollback_plan \<Rightarrow> bool" where
  "wf_plan e now plan \<longleftrightarrow> rp_OriginalEventID plan = ev_EventID e \<and> rp_OriginalTraceID plan = ev_TraceID e \<and>
     Some (rp_OriginalTool plan) = map_option tx_Name (ev_Tool e) \<and> rp_GeneratedAt plan = now \<and>
     rp_Reversibility plan \<in> {ReversibilityYes, ReversibilityPartial, ReversibilityNo} \<and>
     (rp_InverseOp plan \<noteq> None \<longleftrightarrow> rp_Reversibility plan = ReversibilityYes) \<and>
     (rp_NotReversibleReason plan = [] \<longleftrightarrow> rp_Reversibility plan = ReversibilityYes) \<and>
     pred_option (\<lambda>op. (io_Agent op, io_Tool op) =
       (if rp_OriginalTool plan = ''scale_deployment'' then (''k8s'', ''scale_deployment'') else (''database'', ''exec_sql'')) \<and>
       distinct (map fst (io_Args op))) (rp_InverseOp plan)"

definition blank_plan :: "event \<Rightarrow> tool_execution \<Rightarrow> time \<Rightarrow> rollback_plan" where
  "blank_plan e tool now = \<lparr>rp_OriginalEventID = ev_EventID e, rp_OriginalTool = tx_Name tool,
     rp_OriginalTraceID = ev_TraceID e, rp_Reversibility = [], rp_NotReversibleReason = [], rp_InverseOp = None,
     rp_GeneratedAt = now\<rparr>"

lemma wf_not_reversible [simp]:
  "ev_Tool e = Some tool \<Longrightarrow> wf_plan e now (not_reversible reason (blank_plan e tool now)) \<longleftrightarrow> reason \<noteq> []"
  by (simp add: wf_plan_def not_reversible_def reversibility_defs blank_plan_def)

lemma wf_reversible [simp]:
  "ev_Tool e = Some tool \<Longrightarrow> wf_plan e now (reversible op (blank_plan e tool now)) \<longleftrightarrow>
     (io_Agent op, io_Tool op) = (if tx_Name tool = ''scale_deployment'' then (''k8s'', ''scale_deployment'') else (''database'', ''exec_sql'')) \<and>
     distinct (map fst (io_Args op))"
  by (simp add: wf_plan_def reversible_def reversibility_defs blank_plan_def)

lemma scale_plan:
  assumes "ev_Tool e = Some tool" "tx_Name tool = ''scale_deployment''"
  shows "case deriveScaleRollback dec (blank_plan e tool now) e tool of
     Inl err \<Rightarrow> tx_PreState tool \<noteq> [] | Inr plan \<Rightarrow> wf_plan e now plan"
  using assms by (simp add: deriveScaleRollback_def split: sum.split)

lemma dml_plan:
  assumes "ev_Tool e = Some tool" "tx_Name tool \<noteq> ''scale_deployment''"
  shows "case deriveDMLRollback dec (blank_plan e tool now) e tool of
     Inl err \<Rightarrow> tx_PreState tool \<noteq> [] | Inr plan \<Rightarrow> wf_plan e now plan"
proof (cases "dec (tx_PreState tool)")
  case (Inr pre)
  then show ?thesis
    using assms by (simp add: deriveDMLRollback_def split: sum.split option.split del: if_split)
qed (use assms in \<open>simp add: deriveDMLRollback_def\<close>)

lemma derived_plan:
  "case DeriveRollbackPlan dec_scale dec_dml now e of
     Inl err \<Rightarrow> ev_Tool e = None \<or> (\<exists>tool. ev_Tool e = Some tool \<and> 0 < length (tx_PreState tool) \<and>
       tx_Name tool \<in> {''scale_deployment'', ''exec_update'', ''exec_delete'', ''exec_insert''})
   | Inr plan \<Rightarrow> wf_plan e now plan"
proof (cases "ev_Tool e")
  case (Some tool)
  note plans = scale_plan [OF Some, where dec = dec_scale and now = now] dml_plan [OF Some, where dec = dec_dml and now = now]
  have pod: "wf_plan e now (blank_plan e tool now\<lparr>rp_Reversibility := ReversibilityPartial, rp_NotReversibleReason := x # xs\<rparr>)" for x xs
    by (simp add: wf_plan_def blank_plan_def reversibility_defs Some)
  let ?dml = "{''exec_update'', ''exec_delete'', ''exec_insert''}"
  note derive = DeriveRollbackPlan_def Some option.case Let_def blank_plan_def [symmetric]
  consider "tx_Name tool = ''scale_deployment''" | "tx_Name tool \<in> ?dml" | "tx_Name tool \<notin> insert ''scale_deployment'' ?dml"
    by blast
  then show ?thesis
  proof cases
    case 1
    with plans(1) show ?thesis
      unfolding derive by (simp add: Some split: sum.splits)
  next
    case 2
    then have "DeriveRollbackPlan dec_scale dec_dml now e = deriveDMLRollback dec_dml (blank_plan e tool now) e tool"
      unfolding derive by auto
    with plans(2) 2 show ?thesis
      by (auto simp: Some split: sum.splits)
  next
    case 3
    with pod show ?thesis
      unfolding derive by (simp add: Some del: rollback_plan.update_convs)
  qed
qed (simp add: DeriveRollbackPlan_def)


section \<open>The reverse job\<close>

lemma mset_reverseCanaryOrder: "mset (reverseCanaryOrder servers c) = mset servers"
  by (simp add: reverseCanaryOrder_def ins.perm) (metis append_take_drop_id mset_append union_commute)

lemma scope_subseq: "resolveRollbackScope scope order plans = Inr servers \<Longrightarrow> subseq servers order"
  by (auto simp: resolveRollbackScope_def Let_def take_is_prefix prefix_imp_subseq split: if_splits)

lemma step_inverse_Some:
  "step_inverse plans i servers = Some op \<Longrightarrow> \<exists>srv \<in> set servers. usable i (plans_of plans srv) = Some op"
  by (induction servers) (auto split: option.splits)

lemma step_inverse_None:
  "step_inverse plans i servers = None \<Longrightarrow> srv \<in> set servers \<Longrightarrow> usable i (plans_of plans srv) = None"
  by (induction servers) (auto split: option.splits)

lemma rev_upt_nth: "i < n \<Longrightarrow> rev [0..<n] ! (n - Suc i) = i"
  by (simp add: rev_nth)

text \<open>A reverse job undoes the steps last to first, on the selected servers, the former canaries at
  the end. The step that stands for an original step is the inverse operation of one selected server, and
  it is the same for all of them; without such an operation it is the original tool once more, with a
  note. The runner, which replaces a canary count of 0 by 1, starts with the first name as a canary.\<close>

theorem rollback_job_reverses:
  assumes "BuildRollbackJobDef (Some def) plans scope order = Inr job"
  shows "\<exists>servers. resolveRollbackScope scope order plans = Inr servers \<and> subseq servers order \<and> servers \<noteq> [] \<and>
    mset (tg_Names (jd_Targets job)) = mset servers \<and>
    (let c = sy_CanaryCount (jd_Strategy def) in
       0 < c \<and> c < int (length servers) \<longrightarrow> tg_Names (jd_Targets job) = drop (nat c) servers @ take (nat c) servers) \<and>
    sy_CanaryCount (Defaults (jd_Strategy job)) = 1 \<and>
    length (jd_Steps job) = length (jd_Steps def) \<and>
    (\<forall>i < length (jd_Steps def).
       let original = jd_Steps def ! i; undo = jd_Steps job ! (length (jd_Steps def) - 1 - i) in
       (\<exists>srv \<in> set servers. \<exists>op. usable i (plans_of plans srv) = Some op \<and> st_Agent undo = io_Agent op \<and>
          st_Tool undo = io_Tool op \<and> st_Args undo = Some (io_Args op) \<and> st_OnFailure undo = st_OnFailure original) \<or>
       (\<forall>srv \<in> set servers. usable i (plans_of plans srv) = None) \<and> st_Agent undo = st_Agent original \<and>
          st_Tool undo = st_Tool original \<and> st_OnFailure undo = ''stop'')"
proof -
  from assms obtain servers where sc: "resolveRollbackScope scope order plans = Inr servers" "servers \<noteq> []"
    and names: "tg_Names (jd_Targets job) = reverseCanaryOrder servers (sy_CanaryCount (jd_Strategy def))"
    and st: "jd_Steps job = map (reverse_step plans servers (jd_Steps def)) (rev [0..<length (jd_Steps def)])"
    and cc: "sy_CanaryCount (jd_Strategy job) = 0"
    by (auto simp: BuildRollbackJobDef_def split: if_splits sum.splits)
  have step: "jd_Steps job ! (length (jd_Steps def) - 1 - i) = reverse_step plans servers (jd_Steps def) i"
    if "i < length (jd_Steps def)" for i
    using that unfolding st by (simp add: rev_upt_nth)
  have "(\<exists>srv \<in> set servers. \<exists>op. usable i (plans_of plans srv) = Some op \<and> st_Agent undo = io_Agent op \<and>
          st_Tool undo = io_Tool op \<and> st_Args undo = Some (io_Args op) \<and> st_OnFailure undo = st_OnFailure (jd_Steps def ! i)) \<or>
       (\<forall>srv \<in> set servers. usable i (plans_of plans srv) = None) \<and> st_Agent undo = st_Agent (jd_Steps def ! i) \<and>
          st_Tool undo = st_Tool (jd_Steps def ! i) \<and> st_OnFailure undo = ''stop''"
    if "undo = reverse_step plans servers (jd_Steps def) i" for i undo
    using that step_inverse_Some [of plans i servers] step_inverse_None [of plans i servers]
    by (cases "step_inverse plans i servers") (auto simp: reverse_step_def Let_def)
  then show ?thesis
    using sc scope_subseq [OF sc(1)] names cc step
    by (intro exI [of _ servers]) (simp add: Let_def mset_reverseCanaryOrder Defaults_def st, simp add: reverseCanaryOrder_def)
qed

theorem rollback_job_reverses_witness:
  "\<exists>job. BuildRollbackJobDef (Some \<lparr>jd_Name = ''j'',
      jd_Steps = [\<lparr>st_Agent = ''k8s'', st_Tool = ''scale_deployment'', st_Args = None, st_OnFailure = []\<rparr>,
        \<lparr>st_Agent = ''database'', st_Tool = ''run_vacuum'', st_Args = None, st_OnFailure = []\<rparr>],
      jd_Targets = \<lparr>tg_Tags = [], tg_Names = [], tg_Exclude = []\<rparr>,
      jd_Strategy = \<lparr>sy_CanaryCount = 1, sy_WaveSize = 0, sy_WavePauseSeconds = 0, sy_FailureThreshold = 0, sy_DryRun = False,
        sy_CountPartialAsSuccess = False, sy_ApprovalTimeoutSeconds = 0, sy_WaveGate = False, sy_SchemaDrift = []\<rparr>,
      jd_PlanTraceID = [], jd_ToolSnapshots = [], jd_PlanDescription = [], jd_PlanTargetHints = [], jd_PlanServers = []\<rparr>)
      [] ''all'' [''a'', ''b''] = Inr job \<and> length (jd_Steps job) = 2 \<and> mset (tg_Names (jd_Targets job)) = {#''a'', ''b''#}"
  (is "\<exists>job. BuildRollbackJobDef (Some ?def) [] ''all'' ?order = Inr job \<and> _")
proof -
  have scope: "resolveRollbackScope ''all'' ?order [] = Inr ?order"
    by (simp add: resolveRollbackScope_def TrimSpace_def trim_with_def is_space_def)
  then obtain job where job: "BuildRollbackJobDef (Some ?def) [] ''all'' ?order = Inr job"
    by (simp add: BuildRollbackJobDef_def)
  from rollback_job_reverses [OF job] scope have "length (jd_Steps job) = 2 \<and> mset (tg_Names (jd_Targets job)) = {#''a'', ''b''#}"
    by (auto simp: numeral_2_eq_2)
  with job show ?thesis by blast
qed

section \<open>The inverse of an update restores the table\<close>

text \<open>
  A table is the list of its rows, each a map from columns to values. An UPDATE statement of the inverse
  sets columns of the rows with a given key. Its text writes values as SQL literals: a number as it is, a
  string in quotes.
\<close>

type_synonym table = "(string \<rightharpoonup> cell) list"

fun literal :: "cell \<Rightarrow> string" where
  "literal CNull = ''NULL''"
| "literal (CRaw t) = t"
| "literal (CStr s) = [CHR 39] @ concat (map (\<lambda>c. if c = CHR 39 then [c, c] else [c]) s) @ [CHR 39]"

type_synonym update = "row \<times> row"

definition row_update :: "update \<Rightarrow> (string \<rightharpoonup> cell) \<Rightarrow> (string \<rightharpoonup> cell)" where
  "row_update u r = (if \<forall>(c, v) \<in> set (snd u). r c = Some v then r ++ map_of (fst u) else r)"

definition exec_update :: "update \<Rightarrow> table \<Rightarrow> table" where
  "exec_update u tbl = map (row_update u) tbl"

definition assignment :: "string \<times> cell \<Rightarrow> string" where
  "assignment = (\<lambda>(c, v). c @ '' = '' @ literal v)"

definition render :: "string \<Rightarrow> update \<Rightarrow> string" where
  "render tbl u = ''UPDATE '' @ tbl @ '' SET '' @ join_str '', '' (map assignment (fst u)) @
     '' WHERE '' @ join_str '' AND '' (map assignment (snd u))"

definition update_of :: "string list \<Rightarrow> row \<Rightarrow> update" where
  "update_of pks row = (filter (\<lambda>(c, _). c \<notin> set pks) row, map (\<lambda>pk. (pk, column row pk)) pks)"

text \<open>Values whose text under \<^verbatim>\<open>%v\<close> is their literal.\<close>

fun plain :: "cell \<Rightarrow> bool" where
  "plain CNull = True"
| "plain (CRaw t) = True"
| "plain (CStr s) = False"

lemma fold_exec_update: "fold exec_update us tbl = map (fold row_update us) tbl"
  by (induction us arbitrary: tbl) (simp_all add: exec_update_def)

lemma update_stmt_render:
  assumes "\<forall>(c, v) \<in> set row. plain v" "\<forall>pk \<in> set pks. \<exists>t. map_of row pk = Some (CRaw t)"
  shows "update_stmt tbl pks row =
    (if fst (update_of pks row) = [] then None else Some (render tbl (update_of pks row)))"
proof -
  have "set_clause cv = assignment cv" if "cv \<in> set row" for cv
  proof -
    obtain c v where cv: "cv = (c, v)"
      by (cases cv)
    with assms(1) that have "plain v"
      by auto
    with cv show ?thesis
      by (cases v) (simp_all add: set_clause_def assignment_def)
  qed
  then have a: "map set_clause (filter (\<lambda>(c, _). c \<notin> set pks) row) = map assignment (filter (\<lambda>(c, _). c \<notin> set pks) row)"
    by simp
  have b: "map (equation row) pks = map assignment (map (\<lambda>pk. (pk, column row pk)) pks)"
    using assms(2) by (auto simp: equation_def assignment_def column_def)
  show ?thesis
    by (simp only: update_stmt_def render_def update_of_def Let_def fst_conv snd_conv a b map_is_Nil_conv)
qed

lemma update_stmts_render:
  assumes "\<forall>row \<in> set rows. (\<forall>(c, v) \<in> set row. plain v) \<and> (\<forall>pk \<in> set pks. \<exists>t. map_of row pk = Some (CRaw t))"
  shows "List.map_filter (update_stmt tbl pks) rows =
    map (render tbl) (map (update_of pks) (filter (\<lambda>l. fst (update_of pks l) \<noteq> []) rows))"
  using assms by (induction rows) (simp_all add: List.map_filter_def update_stmt_render)

text \<open>Two rows that agree on the key columns and on which columns they have.\<close>

definition akin :: "string list \<Rightarrow> (string \<rightharpoonup> cell) \<Rightarrow> (string \<rightharpoonup> cell) \<Rightarrow> bool" where
  "akin pks x r \<longleftrightarrow> dom x = dom r \<and> (\<forall>pk \<in> set pks. x pk = r pk)"

lemma restored:
  assumes "akin pks x (map_of l)" "distinct (map fst l)"
  shows "x ++ map_of (filter (\<lambda>(c, _). c \<notin> set pks) l) = map_of l"
proof
  fix c
  have f: "map_of (filter (\<lambda>(c, _). c \<notin> set pks) l) c = (if c \<in> set pks then None else map_of l c)"
    by (induction l) auto
  show "(x ++ map_of (filter (\<lambda>(c, _). c \<notin> set pks) l)) c = map_of l c"
    using assms(1) unfolding map_add_def f akin_def
    by (auto split: option.split simp: domIff)
qed

lemma row_update_self:
  assumes "distinct (map fst l)" "set pks \<subseteq> dom (map_of l)" "akin pks x (map_of l)"
  shows "row_update (update_of pks l) x = map_of l"
proof -
  have "x pk = Some (column l pk)" if "pk \<in> set pks" for pk
    using assms(2,3) that by (auto simp: akin_def column_def split: option.split)
  then show ?thesis
    using restored [OF assms(3,1)] by (simp add: row_update_def update_of_def)
qed

lemma row_update_other:
  assumes "set pks \<subseteq> dom (map_of l)" "akin pks x r" "map r pks \<noteq> map (map_of l) pks"
  shows "row_update (update_of pks l) x = x"
proof -
  obtain pk where pk: "pk \<in> set pks" "r pk \<noteq> map_of l pk"
    using assms(3) by (metis map_eq_conv)
  then have "x pk \<noteq> Some (column l pk)"
    using assms(1,2) by (auto simp: akin_def column_def split: option.split)
  with pk(1) show ?thesis
    by (auto simp: row_update_def update_of_def)
qed

lemma akin_keys: "akin pks x r \<Longrightarrow> dom r \<subseteq> set pks \<Longrightarrow> x = r"
  unfolding akin_def by (rule ext) (metis domIff subsetD)

lemma only_keys:
  assumes "akin pks x (map_of l)" "fst (update_of pks l) = []"
  shows "x = map_of l"
proof (rule akin_keys [OF assms(1)])
  have "\<forall>(c, v) \<in> set l. c \<in> set pks"
    using assms(2) by (simp add: update_of_def filter_empty_conv case_prod_unfold)
  then show "dom (map_of l) \<subseteq> set pks"
    unfolding dom_map_of_conv_image_fst by auto
qed

lemma akin_refl [simp]: "akin pks r r"
  by (simp add: akin_def)

lemma fold_row_update:
  assumes "\<forall>l \<in> set ls. map_of l \<in> set tbl \<and> distinct (map fst l)" "distinct (map (\<lambda>r. map r pks) tbl)"
    and "\<forall>r \<in> set tbl. set pks \<subseteq> dom r" "r \<in> set tbl" "akin pks x r"
  shows "fold row_update (map (update_of pks) ls) x = (if \<exists>l \<in> set ls. map_of l = r then r else x)"
  using assms(1,5)
proof (induction ls arbitrary: x)
  case (Cons l ls)
  have sub: "set pks \<subseteq> dom (map_of l)"
    using Cons.prems(1) assms(3) by simp
  show ?case
  proof (cases "map_of l = r")
    case True
    with Cons row_update_self [OF _ sub, of x] show ?thesis
      by simp
  next
    case False
    then have "map r pks \<noteq> map (map_of l) pks"
      using assms(2,4) Cons.prems(1) by (auto simp: distinct_map dest: inj_onD)
    with Cons row_update_other [OF sub Cons.prems(2)] False show ?thesis
      by simp
  qed
qed simp


text \<open>A table with two accounts, the balance of the second raised from 5 to 9.\<close>

definition account :: "string \<Rightarrow> string \<Rightarrow> row" where
  "account i b = [(''id'', CRaw i), (''balance'', CRaw b)]"

definition raised :: dml_pre_state where
  "raised = \<lparr>dp_Schema = ''public'', dp_Table = ''accounts'', dp_Operation = ''update'', dp_PKColumns = [''id''],
     dp_Rows = [account ''2'' ''5''], dp_InsertedPKs = [], dp_RowCount = 1, dp_CapturedAt = 0, dp_Tier = 1, dp_WAL = None\<rparr>"


end
