(* ===== verification/Fleet_Store.thy ===== *)
theory Fleet_Store
  imports Approval_Handlers Fleet_Run
begin

text \<open>
  The job tables of the audit service, \<^verbatim>\<open>internal/audit/fleet_store.go\<close>, and their handlers in
  \<^verbatim>\<open>cmd/auditd/fleet_handlers.go\<close>. A table is the list of its rows in the order of their ids; a
  column that may be null and is null reads as the zero value. \<open>flt\<close> is a failure of the database. The
  handlers get the decoded body of the request; the approval handlers are in \<open>Approval_Handlers\<close>.
\<close>

section \<open>Tables\<close>

record fleet_job =
  fj_JobID :: string
  fj_Name :: string
  fj_SubmittedBy :: string
  fj_SubmittedAt :: time
  fj_Status :: string
  fj_JobDef :: string
  fj_Summary :: string
  fj_PlanTraceID :: string
  fj_CreatedAt :: time
  fj_UpdatedAt :: time

record fleet_job_server =
  fs_JobID :: string
  fs_ServerName :: string
  fs_Stage :: string
  fs_Status :: string
  fs_Output :: string
  fs_StartedAt :: time
  fs_FinishedAt :: time

record fleet_job_server_step =
  fp_JobID :: string
  fp_ServerName :: string
  fp_StepIndex :: int
  fp_Tool :: string
  fp_Status :: string
  fp_Output :: string
  fp_StartedAt :: time
  fp_FinishedAt :: time

record fleet_store =
  fl_jobs :: "fleet_job list"
  fl_servers :: "fleet_job_server list"
  fl_steps :: "fleet_job_server_step list"

definition CreateJob ::
  "string option \<Rightarrow> string \<Rightarrow> time \<Rightarrow> fleet_job \<Rightarrow> fleet_store \<Rightarrow> (string + fleet_job) \<times> fleet_store" where
  "CreateJob flt uid now job s =
     (let job = (if fj_JobID job = [] then job\<lparr>fj_JobID := ''flj_'' @ take 8 uid\<rparr> else job);
          job = (if fj_SubmittedAt job = 0 then job\<lparr>fj_SubmittedAt := now\<rparr> else job);
          job = (if fj_Status job = [] then job\<lparr>fj_Status := ''pending''\<rparr> else job);
          job = job\<lparr>fj_CreatedAt := now, fj_UpdatedAt := now\<rparr>
      in case flt of
           Some e \<Rightarrow> (Inl e, s)
         | None \<Rightarrow>
             (if list_ex (\<lambda>j. fj_JobID j = fj_JobID job) (fl_jobs s)
              then (Inl ''UNIQUE constraint failed: fleet_jobs.job_id'', s)
              else (Inr job, s\<lparr>fl_jobs := fl_jobs s @ [job]\<rparr>)))"

definition GetJob :: "string option \<Rightarrow> string \<Rightarrow> fleet_store \<Rightarrow> string + fleet_job" where
  "GetJob flt jobID s = (case flt of
     Some e \<Rightarrow> Inl e
   | None \<Rightarrow> (case find (\<lambda>j. fj_JobID j = jobID) (fl_jobs s) of
       None \<Rightarrow> Inl ''fleet job not found''
     | Some j \<Rightarrow> Inr j))"

record fleet_query =
  fq_Status :: string
  fq_SubmittedBy :: string
  fq_PlanTraceID :: string
  fq_Limit :: int

definition job_created_later :: "fleet_job \<Rightarrow> fleet_job \<Rightarrow> bool" where
  "job_created_later a b = str_less (fmt_rfc3339nano (fj_CreatedAt b)) (fmt_rfc3339nano (fj_CreatedAt a))"

type_synonym job_sort = "(fleet_job \<Rightarrow> fleet_job \<Rightarrow> bool) \<Rightarrow> fleet_job list \<Rightarrow> fleet_job list"

definition ListJobs :: "job_sort \<Rightarrow> string option \<Rightarrow> fleet_query \<Rightarrow> fleet_store \<Rightarrow> string + fleet_job list" where
  "ListJobs srt flt q s = (case flt of
     Some e \<Rightarrow> Inl e
   | None \<Rightarrow>
       (let rows = srt job_created_later (filter (\<lambda>j.
              (fq_Status q = [] \<or> fj_Status j = fq_Status q) \<and>
              (fq_SubmittedBy q = [] \<or> fj_SubmittedBy j = fq_SubmittedBy q) \<and>
              (fq_PlanTraceID q = [] \<or> fj_PlanTraceID j = fq_PlanTraceID q)) (fl_jobs s))
        in Inr (if fq_Limit q > 0 then take (nat (fq_Limit q)) rows else rows)))"

definition UpdateJobStatus ::
  "string option \<Rightarrow> time \<Rightarrow> string \<Rightarrow> string \<Rightarrow> string \<Rightarrow> fleet_store \<Rightarrow> string option \<times> fleet_store" where
  "UpdateJobStatus flt now jobID status summary s = (case flt of
     Some e \<Rightarrow> (Some e, s)
   | None \<Rightarrow> (None, s\<lparr>fl_jobs := map (\<lambda>j. if fj_JobID j = jobID
       then j\<lparr>fj_Status := status, fj_Summary := summary, fj_UpdatedAt := now\<rparr> else j) (fl_jobs s)\<rparr>))"

text \<open>The reference to the jobs table is declared; SQLite does not enforce it by default.\<close>

definition AddServer :: "string option \<Rightarrow> fleet_job_server \<Rightarrow> fleet_store \<Rightarrow> string option \<times> fleet_store" where
  "AddServer flt srv s = (case flt of
     Some e \<Rightarrow> (Some e, s)
   | None \<Rightarrow> (None, s\<lparr>fl_servers := fl_servers s @
       [srv\<lparr>fs_Output := [], fs_StartedAt := 0, fs_FinishedAt := 0\<rparr>]\<rparr>))"

definition UpdateServer ::
  "string option \<Rightarrow> string \<Rightarrow> string \<Rightarrow> string \<Rightarrow> string \<Rightarrow> time \<Rightarrow> time \<Rightarrow> fleet_store \<Rightarrow> string option \<times> fleet_store" where
  "UpdateServer flt jobID serverName status output startedAt finishedAt s = (case flt of
     Some e \<Rightarrow> (Some e, s)
   | None \<Rightarrow> (None, s\<lparr>fl_servers := map (\<lambda>r. if fs_JobID r = jobID \<and> fs_ServerName r = serverName
       then r\<lparr>fs_Status := status, fs_Output := output, fs_StartedAt := startedAt, fs_FinishedAt := finishedAt\<rparr>
       else r) (fl_servers s)\<rparr>))"

definition GetJobServers :: "string option \<Rightarrow> string \<Rightarrow> fleet_store \<Rightarrow> string + fleet_job_server list" where
  "GetJobServers flt jobID s = (case flt of
     Some e \<Rightarrow> Inl e | None \<Rightarrow> Inr (filter (\<lambda>r. fs_JobID r = jobID) (fl_servers s)))"

definition GetServer :: "string option \<Rightarrow> string \<Rightarrow> string \<Rightarrow> fleet_store \<Rightarrow> string + fleet_job_server" where
  "GetServer flt jobID serverName s = (case flt of
     Some e \<Rightarrow> Inl e
   | None \<Rightarrow> (case find (\<lambda>r. fs_JobID r = jobID \<and> fs_ServerName r = serverName) (fl_servers s) of
       None \<Rightarrow> Inl ''sql: no rows in result set'' | Some r \<Rightarrow> Inr r))"

definition AddServerStep :: "string option \<Rightarrow> fleet_job_server_step \<Rightarrow> fleet_store \<Rightarrow> string option \<times> fleet_store" where
  "AddServerStep flt st s = (case flt of
     Some e \<Rightarrow> (Some e, s)
   | None \<Rightarrow> (None, s\<lparr>fl_steps := fl_steps s @
       [st\<lparr>fp_Output := [], fp_StartedAt := 0, fp_FinishedAt := 0\<rparr>]\<rparr>))"

definition UpdateServerStep ::
  "string option \<Rightarrow> string \<Rightarrow> string \<Rightarrow> int \<Rightarrow> string \<Rightarrow> string \<Rightarrow> time \<Rightarrow> time \<Rightarrow> fleet_store \<Rightarrow> string option \<times> fleet_store" where
  "UpdateServerStep flt jobID serverName stepIndex status output startedAt finishedAt s = (case flt of
     Some e \<Rightarrow> (Some e, s)
   | None \<Rightarrow> (None, s\<lparr>fl_steps := map (\<lambda>r.
       if fp_JobID r = jobID \<and> fp_ServerName r = serverName \<and> fp_StepIndex r = stepIndex
       then r\<lparr>fp_Status := status, fp_Output := output, fp_StartedAt := startedAt, fp_FinishedAt := finishedAt\<rparr>
       else r) (fl_steps s)\<rparr>))"

definition step_before :: "fleet_job_server_step \<Rightarrow> fleet_job_server_step \<Rightarrow> bool" where
  "step_before a b \<longleftrightarrow> fp_StepIndex a < fp_StepIndex b"

definition GetServerSteps ::
  "((fleet_job_server_step \<Rightarrow> fleet_job_server_step \<Rightarrow> bool) \<Rightarrow> fleet_job_server_step list \<Rightarrow> fleet_job_server_step list) \<Rightarrow>
   string option \<Rightarrow> string \<Rightarrow> string \<Rightarrow> fleet_store \<Rightarrow> string + fleet_job_server_step list" where
  "GetServerSteps srt flt jobID serverName s = (case flt of
     Some e \<Rightarrow> Inl e
   | None \<Rightarrow> Inr (srt step_before (filter (\<lambda>r. fp_JobID r = jobID \<and> fp_ServerName r = serverName) (fl_steps s))))"

section \<open>Handlers\<close>

definition handleCreateJob ::
  "string option \<Rightarrow> string \<Rightarrow> time \<Rightarrow> fleet_job body \<Rightarrow> fleet_store \<Rightarrow> fleet_job response \<times> fleet_store" where
  "handleCreateJob flt uid now b s = (case b of
     ReadError \<Rightarrow> ((400, Inl ''failed to read body''), s)
   | BadJSON e \<Rightarrow> ((400, Inl (''invalid JSON: '' @ e)), s)
   | Body job \<Rightarrow>
       (if fj_Name job = [] then ((400, Inl ''name is required''), s)
        else if fj_SubmittedBy job = [] then ((400, Inl ''submitted_by is required''), s)
        else if fj_JobDef job = [] then ((400, Inl ''job_def is required''), s)
        else (case CreateJob flt uid now job s of
            (Inl _, s') \<Rightarrow> ((500, Inl ''failed to create fleet job''), s')
          | (Inr j, s') \<Rightarrow> ((201, Inr j), s'))))"

definition handleGetJob :: "string option \<Rightarrow> string \<Rightarrow> fleet_store \<Rightarrow> fleet_job response" where
  "handleGetJob flt jobID s =
     (if jobID = [] then (400, Inl ''missing job ID'')
      else (case GetJob flt jobID s of Inl _ \<Rightarrow> (404, Inl ''fleet job not found'') | Inr j \<Rightarrow> (200, Inr j)))"

definition handleListJobs ::
  "job_sort \<Rightarrow> string option \<Rightarrow> (string \<Rightarrow> string) \<Rightarrow> fleet_store \<Rightarrow> fleet_job list response" where
  "handleListJobs srt flt q s =
     (case ListJobs srt flt \<lparr>fq_Status = q ''status'', fq_SubmittedBy = q ''submitted_by'',
         fq_PlanTraceID = q ''plan_trace_id'', fq_Limit = 50\<rparr> s of
        Inl _ \<Rightarrow> (500, Inl ''failed to list fleet jobs'')
      | Inr jobs \<Rightarrow> (200, Inr jobs))"

record status_update =
  su_Status :: string
  su_Summary :: string
  su_Output :: string
  su_StartedAt :: "time option"
  su_FinishedAt :: "time option"

text \<open>A time of an update is absent when its text is empty or does not parse.\<close>

definition handleUpdateStatus ::
  "string option \<Rightarrow> time \<Rightarrow> string \<Rightarrow> status_update body \<Rightarrow> fleet_store \<Rightarrow> unit response \<times> fleet_store" where
  "handleUpdateStatus flt now jobID b s =
     (if jobID = [] then ((400, Inl ''missing job ID''), s)
      else (case b of
        ReadError \<Rightarrow> ((400, Inl ''invalid JSON: ''), s)
      | BadJSON e \<Rightarrow> ((400, Inl (''invalid JSON: '' @ e)), s)
      | Body req \<Rightarrow>
          (if su_Status req = [] then ((400, Inl ''status is required''), s)
           else (case UpdateJobStatus flt now jobID (su_Status req) (su_Summary req) s of
               (Some _, s') \<Rightarrow> ((500, Inl ''failed to update fleet job status''), s')
             | (None, s') \<Rightarrow> ((200, Inr ()), s')))))"

definition handleAddServer ::
  "string option \<Rightarrow> string \<Rightarrow> fleet_job_server body \<Rightarrow> fleet_store \<Rightarrow> fleet_job_server response \<times> fleet_store" where
  "handleAddServer flt jobID b s =
     (if jobID = [] then ((400, Inl ''missing job ID''), s)
      else (case b of
        ReadError \<Rightarrow> ((400, Inl ''invalid JSON: ''), s)
      | BadJSON e \<Rightarrow> ((400, Inl (''invalid JSON: '' @ e)), s)
      | Body req \<Rightarrow>
          (let srv = req\<lparr>fs_JobID := jobID\<rparr> in
           if fs_ServerName srv = [] then ((400, Inl ''server_name is required''), s)
           else if fs_Stage srv = [] then ((400, Inl ''stage is required''), s)
           else let srv = (if fs_Status srv = [] then srv\<lparr>fs_Status := ''pending''\<rparr> else srv) in
             (case AddServer flt srv s of
                (Some _, s') \<Rightarrow> ((500, Inl ''failed to add fleet job server''), s')
              | (None, s') \<Rightarrow> ((201, Inr srv), s')))))"

definition time_or_zero :: "time option \<Rightarrow> time" where
  "time_or_zero t = (case t of Some x \<Rightarrow> x | None \<Rightarrow> 0)"

definition handleUpdateServer ::
  "string option \<Rightarrow> string \<Rightarrow> string \<Rightarrow> status_update body \<Rightarrow> fleet_store \<Rightarrow> unit response \<times> fleet_store" where
  "handleUpdateServer flt jobID serverName b s =
     (if jobID = [] \<or> serverName = [] then ((400, Inl ''missing job ID or server name''), s)
      else (case b of
        ReadError \<Rightarrow> ((400, Inl ''invalid JSON: ''), s)
      | BadJSON e \<Rightarrow> ((400, Inl (''invalid JSON: '' @ e)), s)
      | Body req \<Rightarrow>
          (if su_Status req = [] then ((400, Inl ''status is required''), s)
           else (case UpdateServer flt jobID serverName (su_Status req) (su_Output req)
                 (time_or_zero (su_StartedAt req)) (time_or_zero (su_FinishedAt req)) s of
               (Some _, s') \<Rightarrow> ((500, Inl ''failed to update fleet job server''), s')
             | (None, s') \<Rightarrow> ((200, Inr ()), s')))))"

definition handleGetServers :: "string option \<Rightarrow> string \<Rightarrow> fleet_store \<Rightarrow> fleet_job_server list response" where
  "handleGetServers flt jobID s =
     (if jobID = [] then (400, Inl ''missing job ID'')
      else (case GetJobServers flt jobID s of
          Inl _ \<Rightarrow> (500, Inl ''failed to get fleet job servers'') | Inr rows \<Rightarrow> (200, Inr rows)))"

definition handleGetServer :: "string option \<Rightarrow> string \<Rightarrow> string \<Rightarrow> fleet_store \<Rightarrow> fleet_job_server response" where
  "handleGetServer flt jobID serverName s =
     (if jobID = [] \<or> serverName = [] then (400, Inl ''missing job ID or server name'')
      else (case GetServer flt jobID serverName s of
          Inl _ \<Rightarrow> (404, Inl ''server not found'') | Inr r \<Rightarrow> (200, Inr r)))"

definition handleAddServerStep ::
  "string option \<Rightarrow> string \<Rightarrow> string \<Rightarrow> fleet_job_server_step body \<Rightarrow> fleet_store \<Rightarrow>
   fleet_job_server_step response \<times> fleet_store" where
  "handleAddServerStep flt jobID serverName b s =
     (if jobID = [] \<or> serverName = [] then ((400, Inl ''missing job ID or server name''), s)
      else (case b of
        ReadError \<Rightarrow> ((400, Inl ''invalid JSON: ''), s)
      | BadJSON e \<Rightarrow> ((400, Inl (''invalid JSON: '' @ e)), s)
      | Body req \<Rightarrow>
          (let st = req\<lparr>fp_JobID := jobID, fp_ServerName := serverName\<rparr> in
           if fp_Tool st = [] then ((400, Inl ''tool is required''), s)
           else let st = (if fp_Status st = [] then st\<lparr>fp_Status := ''pending''\<rparr> else st) in
             (case AddServerStep flt st s of
                (Some _, s') \<Rightarrow> ((500, Inl ''failed to add fleet job server step''), s')
              | (None, s') \<Rightarrow> ((201, Inr st), s')))))"

text \<open>The index of the step is a part of the path; \<open>None\<close> is a text that \<^verbatim>\<open>strconv.Atoi\<close> rejects.\<close>

definition handleUpdateServerStep ::
  "string option \<Rightarrow> string \<Rightarrow> string \<Rightarrow> int option \<Rightarrow> status_update body \<Rightarrow> fleet_store \<Rightarrow> unit response \<times> fleet_store" where
  "handleUpdateServerStep flt jobID serverName stepIndex b s =
     (if jobID = [] \<or> serverName = [] then ((400, Inl ''missing job ID, server name, or step index''), s)
      else (case stepIndex of
        None \<Rightarrow> ((400, Inl ''invalid step index''), s)
      | Some i \<Rightarrow> (case b of
          ReadError \<Rightarrow> ((400, Inl ''invalid JSON: ''), s)
        | BadJSON e \<Rightarrow> ((400, Inl (''invalid JSON: '' @ e)), s)
        | Body req \<Rightarrow>
            (if su_Status req = [] then ((400, Inl ''status is required''), s)
             else (case UpdateServerStep flt jobID serverName i (su_Status req) (su_Output req)
                   (time_or_zero (su_StartedAt req)) (time_or_zero (su_FinishedAt req)) s of
                 (Some _, s') \<Rightarrow> ((500, Inl ''failed to update fleet job server step''), s')
               | (None, s') \<Rightarrow> ((200, Inr ()), s'))))))"

definition handleGetServerSteps ::
  "((fleet_job_server_step \<Rightarrow> fleet_job_server_step \<Rightarrow> bool) \<Rightarrow> fleet_job_server_step list \<Rightarrow> fleet_job_server_step list) \<Rightarrow>
   string option \<Rightarrow> string \<Rightarrow> string \<Rightarrow> fleet_store \<Rightarrow> fleet_job_server_step list response" where
  "handleGetServerSteps srt flt jobID serverName s =
     (if jobID = [] \<or> serverName = [] then (400, Inl ''missing job ID or server name'')
      else (case GetServerSteps srt flt jobID serverName s of
          Inl _ \<Rightarrow> (500, Inl ''failed to get fleet job server steps'') | Inr rows \<Rightarrow> (200, Inr rows)))"

section \<open>The updates of the runner\<close>

text \<open>The body of an update as the handler decodes it; \<open>parse\<close> is \<^verbatim>\<open>time.Parse\<close> with the layout
  of the text.\<close>

definition decode_update :: "(string \<Rightarrow> time option) \<Rightarrow> json option \<Rightarrow> status_update body" where
  "decode_update parse b = (case b of
     None \<Rightarrow> BadJSON ''EOF''
   | Some v \<Rightarrow> (case (field_str ''status'' v, field_str ''summary'' v, field_str ''output'' v,
         field_str ''started_at'' v, field_str ''finished_at'' v) of
       (Some st, Some sm, Some out, Some t, Some t') \<Rightarrow> Body \<lparr>su_Status = st, su_Summary = sm, su_Output = out,
         su_StartedAt = (if t = [] then None else parse t), su_FinishedAt = (if t' = [] then None else parse t')\<rparr>
     | _ \<Rightarrow> BadJSON ''wrong type''))"

lemma lower_update_keys [simp]:
  "ToLower ''status'' = ''status''" "ToLower ''output'' = ''output''"
  "ToLower ''started_at'' = ''started_at''" "ToLower ''finished_at'' = ''finished_at''"
  by (simp_all add: ToLower_def lower_char_def)

lemma fmt_nonempty [simp]: "fmt_rfc3339nano t \<noteq> []"
  by (simp add: fmt_rfc3339nano_def)

lemma decode_server_patch:
  "decode_update parse (hq_body (server_patch cfg srv status output t t')) =
     Body \<lparr>su_Status = status, su_Summary = [], su_Output = output,
       su_StartedAt = (case t of None \<Rightarrow> None | Some x \<Rightarrow> parse (fmt_rfc3339nano x)),
       su_FinishedAt = (case t' of None \<Rightarrow> None | Some x \<Rightarrow> parse (fmt_rfc3339nano x))\<rparr>"
  by (cases t; cases t'; cases "output = []")
    (simp_all add: decode_update_def server_patch_def field_str_def omit_def time_field_def)

text \<open>
  The audit service loses the start time of every server. The runner sends the start with the status
  \<^verbatim>\<open>running\<close> and only the end with the final status; the update overwrites both columns, so the
  finished server has its final status, its output and its end, and no start.
\<close>

theorem start_time_lost:
  assumes "parse (fmt_rfc3339nano t) = Some t" "parse (fmt_rfc3339nano t') = Some t'" "rn_jobID cfg \<noteq> []" "srv \<noteq> []"
    "status \<noteq> []" "GetServer None (rn_jobID cfg) srv s = Inr row"
  shows "let update = (\<lambda>r s. snd (handleUpdateServer None (rn_jobID cfg) srv (decode_update parse (hq_body r)) s));
      s1 = update (server_patch cfg srv ''running'' [] (Some t) None) s;
      s2 = update (server_patch cfg srv status output None (Some t')) s1
    in GetServer None (rn_jobID cfg) srv s1 = Inr (row\<lparr>fs_Status := ''running'', fs_Output := [], fs_StartedAt := t, fs_FinishedAt := 0\<rparr>) \<and>
       GetServer None (rn_jobID cfg) srv s2 = Inr (row\<lparr>fs_Status := status, fs_Output := output, fs_StartedAt := 0, fs_FinishedAt := t'\<rparr>)"
proof -
  have get: "GetServer None j srv (snd (UpdateServer None j srv st out a b s)) =
      Inr (r\<lparr>fs_Status := st, fs_Output := out, fs_StartedAt := a, fs_FinishedAt := b\<rparr>)"
    if "GetServer None j srv s = Inr r" for j st out a b r s
  proof -
    let ?P = "\<lambda>r. fs_JobID r = j \<and> fs_ServerName r = srv"
    have "find ?P (map (\<lambda>r. if ?P r then r\<lparr>fs_Status := st, fs_Output := out, fs_StartedAt := a, fs_FinishedAt := b\<rparr> else r) rows) =
        map_option (\<lambda>r. r\<lparr>fs_Status := st, fs_Output := out, fs_StartedAt := a, fs_FinishedAt := b\<rparr>) (find ?P rows)"
      for rows :: "fleet_job_server list"
      by (induction rows) auto
    with that show ?thesis
      by (auto simp: GetServer_def UpdateServer_def split: option.splits)
  qed
  have upd: "snd (handleUpdateServer None (rn_jobID cfg) srv (Body req) s) =
      snd (UpdateServer None (rn_jobID cfg) srv (su_Status req) (su_Output req) (time_or_zero (su_StartedAt req))
        (time_or_zero (su_FinishedAt req)) s)" if "su_Status req \<noteq> []" for req s
    using assms(3,4) that by (simp add: handleUpdateServer_def UpdateServer_def)
  show ?thesis
    using assms by (simp add: Let_def decode_server_patch upd get time_or_zero_def)
qed

theorem start_time_lost_witness:
  "\<exists>cfg s. let update = (\<lambda>r s. snd (handleUpdateServer None (rn_jobID cfg) ''a'' (decode_update (\<lambda>_. Some 7) (hq_body r)) s));
      s2 = update (server_patch cfg ''a'' ''success'' ''ok'' None (Some 7)) (update (server_patch cfg ''a'' ''running'' [] (Some 7) None) s)
    in \<exists>row. GetServer None (rn_jobID cfg) ''a'' s2 = Inr row \<and> fs_StartedAt row = 0 \<and> fs_FinishedAt row = 7"
proof -
  define cfg where "cfg = \<lparr>rn_gatewayURL = [], rn_auditURL = [], rn_apiKey = [], rn_auditAPIKey = [], rn_jobID = ''j'',
    rn_submittedBy = [], rn_approvalPollInterval = 0\<rparr>"
  define row where "row = \<lparr>fs_JobID = ''j'', fs_ServerName = ''a'', fs_Stage = ''canary'', fs_Status = ''pending'',
    fs_Output = [], fs_StartedAt = 0, fs_FinishedAt = 0\<rparr>"
  define s where "s = \<lparr>fl_jobs = [], fl_servers = [row], fl_steps = []\<rparr>"
  have "GetServer None (rn_jobID cfg) ''a'' s = Inr row"
    by (simp add: GetServer_def s_def row_def cfg_def)
  with start_time_lost [of "\<lambda>_. Some 7" 7 7 cfg "''a''" "''success''" s row "''ok''"] show ?thesis
    by (intro exI [of _ cfg] exI [of _ s]) (simp add: Let_def cfg_def)
qed

end
