(* ===== verification/Rollback_Store.thy ===== *)
theory Rollback_Store
  imports Rollback_Plan Fleet_Store Audit_Store
begin

text \<open>
  The rollback records of the audit service: \<^verbatim>\<open>internal/audit/rollback_store.go\<close>, the handlers of
  \<^verbatim>\<open>cmd/auditd/rollback_handlers.go\<close> and the executor of \<^verbatim>\<open>rollback_executor.go\<close>. A table is
  the list of its rows; a null column reads as the zero value. The stored plan is the JSON value whose
  text the column holds. Failures of the database, fresh identifiers and clock readings are arguments.
\<close>

section \<open>The JSON form of a plan\<close>

definition op_json :: "inverse_operation \<Rightarrow> json" where
  "op_json op = JObj [(''agent'', JStr (io_Agent op)), (''tool'', JStr (io_Tool op)), (''args'', JObj (io_Args op)),
     (''description'', JStr (io_Description op))]"

definition plan_json :: "rollback_plan \<Rightarrow> json" where
  "plan_json p = JObj ([(''original_event_id'', JStr (rp_OriginalEventID p)), (''original_tool'', JStr (rp_OriginalTool p)),
     (''original_trace_id'', JStr (rp_OriginalTraceID p)), (''reversibility'', JStr (rp_Reversibility p))] @
     omit ''not_reversible_reason'' (rp_NotReversibleReason p) @
     (case rp_InverseOp p of None \<Rightarrow> [] | Some op \<Rightarrow> [(''inverse_op'', op_json op)]) @
     [(''generated_at'', JStr (fmt_rfc3339nano (rp_GeneratedAt p)))])"

text \<open>The decoders: a member that is absent or null leaves the zero value, and one of another type is an
  error. Of members with the same name up to case the last one counts.\<close>

definition json_member :: "string \<Rightarrow> json \<Rightarrow> json" where
  "json_member k v = (case v of JObj m \<Rightarrow> (case map_of (rev (map (\<lambda>(k', x). (ToLower k', x)) m)) k of None \<Rightarrow> JNull | Some x \<Rightarrow> x)
     | _ \<Rightarrow> JNull)"

definition op_of :: "json \<Rightarrow> inverse_operation option" where
  "op_of v = (case (field_str ''agent'' v, field_str ''tool'' v, field_str ''description'' v, json_member ''args'' v) of
     (Some a, Some t, Some d, JObj m) \<Rightarrow> Some \<lparr>io_Agent = a, io_Tool = t, io_Args = m, io_Description = d\<rparr>
   | (Some a, Some t, Some d, JNull) \<Rightarrow> Some \<lparr>io_Agent = a, io_Tool = t, io_Args = [], io_Description = d\<rparr>
   | _ \<Rightarrow> None)"

definition inverse_of :: "json \<Rightarrow> inverse_operation option option" where
  "inverse_of v = (case json_member ''inverse_op'' v of JNull \<Rightarrow> Some None | x \<Rightarrow> map_option Some (op_of x))"

definition generated_of :: "(string \<Rightarrow> time option) \<Rightarrow> json \<Rightarrow> time option" where
  "generated_of parse v = (case json_member ''generated_at'' v of JNull \<Rightarrow> Some 0 | JStr t \<Rightarrow> parse t | _ \<Rightarrow> None)"

definition plan_of :: "(string \<Rightarrow> time option) \<Rightarrow> json \<Rightarrow> rollback_plan option" where
  "plan_of parse v = (case (field_str ''original_event_id'' v, field_str ''original_tool'' v,
       field_str ''original_trace_id'' v, field_str ''reversibility'' v, field_str ''not_reversible_reason'' v,
       inverse_of v, generated_of parse v) of
     (Some e, Some t, Some tr, Some r, Some why, Some op, Some g) \<Rightarrow> Some \<lparr>rp_OriginalEventID = e, rp_OriginalTool = t,
       rp_OriginalTraceID = tr, rp_Reversibility = r, rp_NotReversibleReason = why, rp_InverseOp = op, rp_GeneratedAt = g\<rparr>
   | _ \<Rightarrow> None)"

section \<open>The store\<close>

record rollback_record =
  rb_RollbackID :: string
  rb_OriginalEventID :: string
  rb_OriginalTraceID :: string
  rb_OriginalJobID :: string
  rb_Status :: string
  rb_InitiatedBy :: string
  rb_InitiatedAt :: time
  rb_ApprovalID :: string
  rb_RollbackTraceID :: string
  rb_PlanJSON :: json
  rb_ResultOutput :: string
  rb_CompletedAt :: time
  rb_CreatedAt :: time
  rb_UpdatedAt :: time

record fleet_rollback_record =
  fb_FleetRollbackID :: string
  fb_OriginalJobID :: string
  fb_Status :: string
  fb_InitiatedBy :: string
  fb_ApprovalID :: string
  fb_Scope :: string
  fb_RollbackJobID :: string
  fb_CreatedAt :: time
  fb_UpdatedAt :: time

record rollback_store =
  rs_rows :: "rollback_record list"
  rs_fleet :: "fleet_rollback_record list"

definition CreateRollback ::
  "string option \<Rightarrow> string \<Rightarrow> time \<Rightarrow> rollback_record \<Rightarrow> rollback_store \<Rightarrow> (string + rollback_record) \<times> rollback_store" where
  "CreateRollback flt uid now r s =
     (let r = (if rb_RollbackID r = [] then r\<lparr>rb_RollbackID := ''rbk_'' @ take 8 uid\<rparr> else r);
          r = (if rb_RollbackTraceID r = [] then r\<lparr>rb_RollbackTraceID := ''tr_'' @ rb_RollbackID r\<rparr> else r);
          r = (if rb_InitiatedAt r = 0 then r\<lparr>rb_InitiatedAt := now\<rparr> else r);
          r = (if rb_Status r = [] then r\<lparr>rb_Status := ''pending_approval''\<rparr> else r);
          r = r\<lparr>rb_CreatedAt := now, rb_UpdatedAt := now\<rparr>
      in case flt of
           Some e \<Rightarrow> (Inl e, s)
         | None \<Rightarrow>
             (if list_ex (\<lambda>x. rb_RollbackID x = rb_RollbackID r) (rs_rows s)
              then (Inl ''UNIQUE constraint failed: rollback_records.rollback_id'', s)
              else (Inr r, s\<lparr>rs_rows := rs_rows s @ [r]\<rparr>)))"

definition GetRollback :: "string option \<Rightarrow> string \<Rightarrow> rollback_store \<Rightarrow> string + rollback_record" where
  "GetRollback flt rollbackID s = (case flt of
     Some e \<Rightarrow> Inl e
   | None \<Rightarrow> (case find (\<lambda>r. rb_RollbackID r = rollbackID) (rs_rows s) of
       None \<Rightarrow> Inl ''rollback record not found'' | Some r \<Rightarrow> Inr r))"

definition active :: "string \<Rightarrow> bool" where
  "active status \<longleftrightarrow> status \<noteq> ''failed'' \<and> status \<noteq> ''cancelled''"

definition rollback_later :: "rollback_record \<Rightarrow> rollback_record \<Rightarrow> bool" where
  "rollback_later a b = str_less (fmt_rfc3339nano (rb_CreatedAt b)) (fmt_rfc3339nano (rb_CreatedAt a))"

definition GetRollbackByEventID ::
  "((rollback_record \<Rightarrow> rollback_record \<Rightarrow> bool) \<Rightarrow> rollback_record list \<Rightarrow> rollback_record list) \<Rightarrow>
   string option \<Rightarrow> string \<Rightarrow> rollback_store \<Rightarrow> string + rollback_record option" where
  "GetRollbackByEventID srt flt originalEventID s = (case flt of
     Some e \<Rightarrow> if str_contains e ''not found'' then Inr None else Inl e
   | None \<Rightarrow> (case srt rollback_later (filter (\<lambda>r. rb_OriginalEventID r = originalEventID \<and> active (rb_Status r)) (rs_rows s)) of
       [] \<Rightarrow> Inr None | r # _ \<Rightarrow> Inr (Some r)))"

definition terminal :: "string \<Rightarrow> bool" where
  "terminal status \<longleftrightarrow> status = ''success'' \<or> status = ''failed'' \<or> status = ''cancelled''"

definition UpdateRollbackStatus ::
  "string option \<Rightarrow> time \<Rightarrow> string \<Rightarrow> string \<Rightarrow> string \<Rightarrow> rollback_store \<Rightarrow> string option \<times> rollback_store" where
  "UpdateRollbackStatus flt now rollbackID status output s = (case flt of
     Some e \<Rightarrow> (Some e, s)
   | None \<Rightarrow> (None, s\<lparr>rs_rows := map (\<lambda>r. if rb_RollbackID r = rollbackID
       then r\<lparr>rb_Status := status, rb_ResultOutput := (if output \<noteq> [] then output else rb_ResultOutput r),
         rb_CompletedAt := (if terminal status then now else rb_CompletedAt r), rb_UpdatedAt := now\<rparr>
       else r) (rs_rows s)\<rparr>))"

definition SetRollbackApprovalID ::
  "string option \<Rightarrow> time \<Rightarrow> string \<Rightarrow> string \<Rightarrow> rollback_store \<Rightarrow> string option \<times> rollback_store" where
  "SetRollbackApprovalID flt now rollbackID approvalID s = (case flt of
     Some e \<Rightarrow> (Some e, s)
   | None \<Rightarrow> (None, s\<lparr>rs_rows := map (\<lambda>r. if rb_RollbackID r = rollbackID
       then r\<lparr>rb_ApprovalID := approvalID, rb_UpdatedAt := now\<rparr> else r) (rs_rows s)\<rparr>))"

record rollback_query =
  rq_OriginalEventID :: string
  rq_OriginalTraceID :: string
  rq_OriginalJobID :: string
  rq_Status :: string
  rq_InitiatedBy :: string
  rq_Limit :: int

definition ListRollbacks ::
  "((rollback_record \<Rightarrow> rollback_record \<Rightarrow> bool) \<Rightarrow> rollback_record list \<Rightarrow> rollback_record list) \<Rightarrow>
   string option \<Rightarrow> rollback_query \<Rightarrow> rollback_store \<Rightarrow> string + rollback_record list" where
  "ListRollbacks srt flt q s = (case flt of
     Some e \<Rightarrow> Inl e
   | None \<Rightarrow>
       (let rows = srt rollback_later (filter (\<lambda>r.
              wants (rq_OriginalEventID q) (rb_OriginalEventID r) \<and> wants (rq_OriginalTraceID q) (rb_OriginalTraceID r) \<and>
              wants (rq_OriginalJobID q) (rb_OriginalJobID r) \<and> wants (rq_Status q) (rb_Status r) \<and>
              wants (rq_InitiatedBy q) (rb_InitiatedBy r)) (rs_rows s))
        in Inr (if rq_Limit q > 0 then take (nat (rq_Limit q)) rows else rows)))"

definition CreateFleetRollback ::
  "string option \<Rightarrow> string \<Rightarrow> time \<Rightarrow> fleet_rollback_record \<Rightarrow> rollback_store \<Rightarrow>
   (string + fleet_rollback_record) \<times> rollback_store" where
  "CreateFleetRollback flt uid now r s =
     (let r = (if fb_FleetRollbackID r = [] then r\<lparr>fb_FleetRollbackID := ''frb_'' @ take 8 uid\<rparr> else r);
          r = (if fb_Status r = [] then r\<lparr>fb_Status := ''pending_approval''\<rparr> else r);
          r = (if fb_Scope r = [] then r\<lparr>fb_Scope := ''all''\<rparr> else r);
          r = r\<lparr>fb_CreatedAt := now, fb_UpdatedAt := now\<rparr>
      in case flt of
           Some e \<Rightarrow> (Inl e, s)
         | None \<Rightarrow>
             (if list_ex (\<lambda>x. fb_FleetRollbackID x = fb_FleetRollbackID r) (rs_fleet s)
              then (Inl ''UNIQUE constraint failed: fleet_rollback_records.fleet_rollback_id'', s)
              else (Inr r, s\<lparr>rs_fleet := rs_fleet s @ [r]\<rparr>)))"

definition GetFleetRollback :: "string option \<Rightarrow> string \<Rightarrow> rollback_store \<Rightarrow> string + fleet_rollback_record" where
  "GetFleetRollback flt fleetRollbackID s = (case flt of
     Some e \<Rightarrow> Inl e
   | None \<Rightarrow> (case find (\<lambda>r. fb_FleetRollbackID r = fleetRollbackID) (rs_fleet s) of
       None \<Rightarrow> Inl ''fleet rollback record not found'' | Some r \<Rightarrow> Inr r))"

definition fleet_later :: "fleet_rollback_record \<Rightarrow> fleet_rollback_record \<Rightarrow> bool" where
  "fleet_later a b = str_less (fmt_rfc3339nano (fb_CreatedAt b)) (fmt_rfc3339nano (fb_CreatedAt a))"

definition GetFleetRollbackByJobID ::
  "((fleet_rollback_record \<Rightarrow> fleet_rollback_record \<Rightarrow> bool) \<Rightarrow> fleet_rollback_record list \<Rightarrow> fleet_rollback_record list) \<Rightarrow>
   string option \<Rightarrow> string \<Rightarrow> rollback_store \<Rightarrow> string + fleet_rollback_record option" where
  "GetFleetRollbackByJobID srt flt originalJobID s = (case flt of
     Some e \<Rightarrow> if str_contains e ''not found'' then Inr None else Inl e
   | None \<Rightarrow> (case srt fleet_later (filter (\<lambda>r. fb_OriginalJobID r = originalJobID \<and> active (fb_Status r)) (rs_fleet s)) of
       [] \<Rightarrow> Inr None | r # _ \<Rightarrow> Inr (Some r)))"

definition UpdateFleetRollbackStatus ::
  "string option \<Rightarrow> time \<Rightarrow> string \<Rightarrow> string \<Rightarrow> string \<Rightarrow> rollback_store \<Rightarrow> string option \<times> rollback_store" where
  "UpdateFleetRollbackStatus flt now fleetRollbackID status rollbackJobID s = (case flt of
     Some e \<Rightarrow> (Some e, s)
   | None \<Rightarrow> (None, s\<lparr>rs_fleet := map (\<lambda>r. if fb_FleetRollbackID r = fleetRollbackID
       then r\<lparr>fb_Status := status, fb_RollbackJobID := (if rollbackJobID \<noteq> [] then rollbackJobID else fb_RollbackJobID r),
         fb_UpdatedAt := now\<rparr> else r) (rs_fleet s)\<rparr>))"

section \<open>Handlers\<close>

record rollback_server =
  rv_store :: rollback_store
  rv_audit :: audit_store
  rv_fleet :: fleet_store
  rv_approvals :: "approval_store option"

text \<open>What a handler gets from outside: sorts and decoders, the failures of each access, fresh identifiers
  and the clock at each reading. The plan always marshals, so that error branch of the code is dead.\<close>

record rollback_env =
  re_srt_events :: "(audit_row \<Rightarrow> audit_row \<Rightarrow> bool) \<Rightarrow> audit_row list \<Rightarrow> audit_row list"
  re_conf_le :: "string \<Rightarrow> string \<Rightarrow> bool"
  re_srt :: "(rollback_record \<Rightarrow> rollback_record \<Rightarrow> bool) \<Rightarrow> rollback_record list \<Rightarrow> rollback_record list"
  re_scale :: "string \<Rightarrow> string + scale_pre_state"
  re_dml :: "string \<Rightarrow> string + dml_pre_state"
  re_text :: "json \<Rightarrow> string"
  re_digest :: digest
  re_query :: "string option"
  re_dup :: "string option"
  re_create :: "string option"
  re_approve :: "string option"
  re_link :: "string option"
  re_get :: "string option"
  re_update :: "string option"
  re_record :: record_args
  re_uid_rollback :: string
  re_uid_approval :: string
  re_uid_event :: string
  re_clock :: "nat \<Rightarrow> time"

definition EventTypeRollbackInitiated :: string where "EventTypeRollbackInitiated = ''rollback_initiated''"
definition EventTypeRollbackExecuted :: string where "EventTypeRollbackExecuted = ''rollback_executed''"
definition EventTypeRollbackVerified :: string where "EventTypeRollbackVerified = ''rollback_verified''"

definition event_query :: "string \<Rightarrow> query_options" where
  "event_query eventID = \<lparr>qe_EventID = eventID, qe_SessionID = [], qe_EventType = EventTypeToolExecution,
     qe_EventTypes = [], qe_Agent = [], qe_Since = 0, qe_MinConfidence = None, qe_MaxConfidence = None, qe_Limit = 0,
     qe_TraceID = [], qe_TraceIDPrefix = [], qe_ActionClass = [], qe_ToolName = [], qe_ApprovalStatus = [],
     qe_OutcomeStatus = [], qe_Origin = []\<rparr>"

text \<open>The event of a request and its plan, or the answer of the handler that refuses it.\<close>

definition event_plan :: "rollback_env \<Rightarrow> string \<Rightarrow> rollback_server \<Rightarrow> (int \<times> string) + event \<times> rollback_plan" where
  "event_plan env eventID s =
     (case Query (re_srt_events env) (re_conf_le env) (re_query env) (event_query eventID) (rv_audit s) of
        Inl _ \<Rightarrow> Inl (500, ''failed to query event'')
      | Inr [] \<Rightarrow> Inl (404, ''event not found or not a tool_execution event'')
      | Inr (e # _) \<Rightarrow> (case DeriveRollbackPlan (re_scale env) (re_dml env) (re_clock env 0) e of
          Inl err \<Rightarrow> Inl (422, ''failed to derive rollback plan: '' @ err)
        | Inr plan \<Rightarrow> Inr (e, plan)))"

definition handleDeriveRollbackPlan :: "rollback_env \<Rightarrow> string \<Rightarrow> rollback_server \<Rightarrow> rollback_plan response" where
  "handleDeriveRollbackPlan env eventID s =
     (if eventID = [] then (400, Inl ''missing event ID'')
      else case event_plan env eventID s of
        Inl (code, err) \<Rightarrow> (code, Inl err) | Inr (_, plan) \<Rightarrow> (200, Inr plan))"

record initiate_request =
  ir_OriginalEventID :: string
  ir_Justification :: string
  ir_DryRun :: bool

datatype initiate_reply =
    NotReversible rollback_plan
  | DryRun rollback_plan
  | AlreadyActive rollback_record
  | Initiated rollback_record rollback_plan

text \<open>The checks of the handler, up to the one for duplicates, and the creation that follows.\<close>

definition initiate_check ::
  "rollback_env \<Rightarrow> initiate_request body \<Rightarrow> rollback_server \<Rightarrow>
   initiate_reply response + initiate_request \<times> event \<times> rollback_plan" where
  "initiate_check env b s = (case b of
     ReadError \<Rightarrow> Inl (400, Inl ''failed to read body'')
   | BadJSON e \<Rightarrow> Inl (400, Inl (''invalid JSON: '' @ e))
   | Body req \<Rightarrow>
       if ir_OriginalEventID req = [] then Inl (400, Inl ''original_event_id is required'')
       else (case event_plan env (ir_OriginalEventID req) s of
          Inl (code, err) \<Rightarrow> Inl (code, Inl err)
        | Inr (e, plan) \<Rightarrow>
            if rp_Reversibility plan = ReversibilityNo then Inl (422, Inr (NotReversible plan))
            else if ir_DryRun req then Inl (200, Inr (DryRun plan))
            else (case GetRollbackByEventID (re_srt env) (re_dup env) (ir_OriginalEventID req) (rv_store s) of
               Inl _ \<Rightarrow> Inl (500, Inl ''failed to check for existing rollbacks'')
             | Inr (Some existing) \<Rightarrow> Inl (409, Inr (AlreadyActive existing))
             | Inr None \<Rightarrow> Inr (req, e, plan))))"

definition rollback_approval ::
  "rollback_env \<Rightarrow> rollback_record \<Rightarrow> rollback_plan \<Rightarrow> initiate_request \<Rightarrow> string \<Rightarrow> stored_approval" where
  "rollback_approval env rbk plan req initiatedBy =
     \<lparr>ap_ApprovalID = [], ap_EventID = [], ap_TraceID = rb_RollbackTraceID rbk, ap_Status = ''pending'',
      ap_ActionClass = ClassDestructive, ap_ToolName = ''rollback'', ap_AgentName = ''auditd'',
      ap_ResourceType = (case rp_InverseOp plan of None \<Rightarrow> [] | Some op \<Rightarrow> io_Agent op),
      ap_ResourceName = rp_OriginalTool plan, ap_RequestedBy = initiatedBy, ap_RequestedAt = rb_CreatedAt rbk,
      ap_RequestContext = re_text env (JObj [(''justification'', JStr (ir_Justification req)),
        (''original_event_id'', JStr (ir_OriginalEventID req)), (''rollback_id'', JStr (rb_RollbackID rbk))]),
      ap_ResolvedBy = [], ap_ResolvedAt = 0, ap_ResolutionReason = [], ap_ExpiresAt = 0, ap_ApprovalValidUntil = 0,
      ap_PolicyName = ''rollback-requires-approval'', ap_ApproverRole = ''operator'', ap_CallbackURL = [],
      ap_CallbackSentAt = 0, ap_CreatedAt = 0, ap_UpdatedAt = 0\<rparr>"

definition rollback_event ::
  "(json \<Rightarrow> string) \<Rightarrow> string \<Rightarrow> string \<Rightarrow> rollback_record \<Rightarrow> rollback_plan \<Rightarrow> string \<Rightarrow> string \<Rightarrow> event" where
  "rollback_event txt eventID eventType rbk plan status errMsg = zero_event\<lparr>ev_EventID := eventID,
     ev_EventType := eventType, ev_TraceID := rb_RollbackTraceID rbk, ev_ActionClass := ClassDestructive,
     ev_Session := (ev_Session zero_event)\<lparr>ss_ID := rb_RollbackID rbk\<rparr>,
     ev_RollbackExecution := Some \<lparr>rx_RollbackID = rb_RollbackID rbk, rx_OriginalEventID = rb_OriginalEventID rbk,
       rx_OriginalTraceID = rb_OriginalTraceID rbk, rx_Plan = txt (plan_json plan), rx_Status = status, rx_ErrorMessage = errMsg\<rparr>,
     ev_Outcome := Some \<lparr>oc_Status = status, oc_ErrorMessage = errMsg, oc_Duration = 0\<rparr>\<rparr>"

definition link_approval ::
  "rollback_env \<Rightarrow> rollback_record \<Rightarrow> rollback_plan \<Rightarrow> initiate_request \<Rightarrow> string \<Rightarrow> rollback_server \<Rightarrow>
   rollback_record \<times> rollback_server" where
  "link_approval env rbk plan req initiatedBy s = (case rv_approvals s of
     None \<Rightarrow> (rbk, s)
   | Some aps \<Rightarrow> (case CreateRequest (re_approve env) (re_uid_approval env) (re_clock env 2)
         (rollback_approval env rbk plan req initiatedBy) aps of
       (Inl _, aps') \<Rightarrow> (rbk, s\<lparr>rv_approvals := Some aps'\<rparr>)
     | (Inr a, aps') \<Rightarrow> (rbk\<lparr>rb_ApprovalID := ap_ApprovalID a\<rparr>,
         s\<lparr>rv_approvals := Some aps', rv_store := snd (SetRollbackApprovalID (re_link env) (re_clock env 3)
           (rb_RollbackID rbk) (ap_ApprovalID a) (rv_store s))\<rparr>)))"

definition initiate_create ::
  "rollback_env \<Rightarrow> principal \<Rightarrow> initiate_request \<Rightarrow> event \<Rightarrow> rollback_plan \<Rightarrow> rollback_server \<Rightarrow>
   initiate_reply response \<times> rollback_server" where
  "initiate_create env who req e plan s =
     (let initiatedBy = (if EffectiveID who = [] then ''unknown'' else EffectiveID who);
          rbk = \<lparr>rb_RollbackID = [], rb_OriginalEventID = ir_OriginalEventID req, rb_OriginalTraceID = ev_TraceID e,
            rb_OriginalJobID = [], rb_Status = ''pending_approval'', rb_InitiatedBy = initiatedBy, rb_InitiatedAt = 0,
            rb_ApprovalID = [], rb_RollbackTraceID = [], rb_PlanJSON = plan_json plan, rb_ResultOutput = [],
            rb_CompletedAt = 0, rb_CreatedAt = 0, rb_UpdatedAt = 0\<rparr>
      in case CreateRollback (re_create env) (re_uid_rollback env) (re_clock env 1) rbk (rv_store s) of
           (Inl _, st) \<Rightarrow> ((500, Inl ''failed to create rollback record''), s\<lparr>rv_store := st\<rparr>)
         | (Inr rbk, st) \<Rightarrow>
             (let (rbk', s') = link_approval env rbk plan req initiatedBy (s\<lparr>rv_store := st\<rparr>);
                  ev = (rollback_event (re_text env) (''rbk_'' @ take 8 (re_uid_event env)) EventTypeRollbackInitiated
                    rbk' plan ''pending_approval'' [])\<lparr>ev_Input := \<lparr>in_UserQuery = ir_Justification req, in_InfrastructureContext = []\<rparr>\<rparr>
              in ((201, Inr (Initiated rbk' plan)),
                  s'\<lparr>rv_audit := snd (Record (re_digest env) (re_record env) ev (rv_audit s'))\<rparr>)))"

definition handleInitiateRollback ::
  "rollback_env \<Rightarrow> principal \<Rightarrow> initiate_request body \<Rightarrow> rollback_server \<Rightarrow> initiate_reply response \<times> rollback_server" where
  "handleInitiateRollback env who b s = (case initiate_check env b s of
     Inl reply \<Rightarrow> (reply, s) | Inr (req, e, plan) \<Rightarrow> initiate_create env who req e plan s)"

definition isNotFound :: "string \<Rightarrow> bool" where
  "isNotFound s \<longleftrightarrow> 9 \<le> length s \<and> drop (length s - 9) s = ''not found'' \<or> str_contains s ''not found''"

definition handleListRollbacks :: "rollback_env \<Rightarrow> (string \<Rightarrow> string) \<Rightarrow> int \<Rightarrow> rollback_server \<Rightarrow> rollback_record list response" where
  "handleListRollbacks env q limit s =
     (case ListRollbacks (re_srt env) (re_get env) \<lparr>rq_OriginalEventID = q ''original_event_id'',
         rq_OriginalTraceID = q ''original_trace_id'', rq_OriginalJobID = [], rq_Status = q ''status'',
         rq_InitiatedBy = q ''initiated_by'', rq_Limit = (if limit > 0 then limit else 50)\<rparr> (rv_store s) of
        Inl _ \<Rightarrow> (500, Inl ''failed to list rollbacks'') | Inr rows \<Rightarrow> (200, Inr rows))"

definition handleGetRollback ::
  "rollback_env \<Rightarrow> (string \<Rightarrow> time option) \<Rightarrow> string \<Rightarrow> rollback_server \<Rightarrow> (rollback_record \<times> rollback_plan option) response" where
  "handleGetRollback env parse rollbackID s =
     (if rollbackID = [] then (400, Inl ''missing rollback ID'')
      else case GetRollback (re_get env) rollbackID (rv_store s) of
        Inl err \<Rightarrow> if isNotFound err then (404, Inl ''rollback not found'') else (500, Inl ''failed to get rollback'')
      | Inr rbk \<Rightarrow> (200, Inr (rbk, plan_of parse (rb_PlanJSON rbk))))"

definition handleCancelRollback :: "rollback_env \<Rightarrow> string \<Rightarrow> rollback_server \<Rightarrow> rollback_record response \<times> rollback_server" where
  "handleCancelRollback env rollbackID s =
     (if rollbackID = [] then ((400, Inl ''missing rollback ID''), s)
      else case GetRollback (re_get env) rollbackID (rv_store s) of
        Inl err \<Rightarrow> (if isNotFound err then (404, Inl ''rollback not found'') else (500, Inl ''failed to get rollback''), s)
      | Inr rbk \<Rightarrow>
          if terminal (rb_Status rbk) then ((409, Inl (''rollback is already in terminal state: '' @ rb_Status rbk)), s)
          else if rb_Status rbk = ''executing''
          then ((409, Inl ''rollback is currently executing and cannot be cancelled''), s)
          else (case UpdateRollbackStatus (re_update env) (re_clock env 0) rollbackID ''cancelled'' [] (rv_store s) of
             (Some _, st) \<Rightarrow> ((500, Inl ''failed to cancel rollback''), s\<lparr>rv_store := st\<rparr>)
           | (None, st) \<Rightarrow> ((200, Inr (rbk\<lparr>rb_Status := ''cancelled''\<rparr>)), s\<lparr>rv_store := st\<rparr>)))"

record fleet_rollback_request =
  fq_Scope :: string
  fq_DryRun :: bool

datatype fleet_reply =
    FleetActive fleet_rollback_record
  | FleetDryRun string string string string
  | FleetInitiated fleet_rollback_record

text \<open>A body that cannot be read or decoded counts as an empty request.\<close>

definition handleInitiateFleetRollback ::
  "rollback_env \<Rightarrow> ((fleet_rollback_record \<Rightarrow> fleet_rollback_record \<Rightarrow> bool) \<Rightarrow> fleet_rollback_record list \<Rightarrow> fleet_rollback_record list) \<Rightarrow>
   principal \<Rightarrow> string \<Rightarrow> fleet_rollback_request body \<Rightarrow> rollback_server \<Rightarrow> fleet_reply response \<times> rollback_server" where
  "handleInitiateFleetRollback env srt who jobID b s =
     (if jobID = [] then ((400, Inl ''missing job ID''), s)
      else case GetJob (re_get env) jobID (rv_fleet s) of
        Inl err \<Rightarrow> (if isNotFound err then (404, Inl ''fleet job not found'') else (500, Inl ''failed to get fleet job''), s)
      | Inr job \<Rightarrow> (case GetFleetRollbackByJobID srt (re_dup env) jobID (rv_store s) of
          Inl _ \<Rightarrow> ((500, Inl ''failed to check for existing rollbacks''), s)
        | Inr (Some existing) \<Rightarrow> ((409, Inr (FleetActive existing)), s)
        | Inr None \<Rightarrow>
            (let (scope, dry) = (case b of Body req \<Rightarrow> (fq_Scope req, fq_DryRun req) | _ \<Rightarrow> ([], False));
                 scope = (if scope = [] then ''all'' else scope);
                 initiatedBy = (if EffectiveID who = [] then ''unknown'' else EffectiveID who)
             in if dry then ((200, Inr (FleetDryRun jobID scope (fj_Status job) (fj_Name job))), s)
                else (case CreateFleetRollback (re_create env) (re_uid_rollback env) (re_clock env 1)
                    \<lparr>fb_FleetRollbackID = [], fb_OriginalJobID = jobID, fb_Status = [], fb_InitiatedBy = initiatedBy,
                     fb_ApprovalID = [], fb_Scope = scope, fb_RollbackJobID = [], fb_CreatedAt = 0, fb_UpdatedAt = 0\<rparr> (rv_store s) of
                  (Inl _, st) \<Rightarrow> ((500, Inl ''failed to create fleet rollback record''), s\<lparr>rv_store := st\<rparr>)
                | (Inr frb, st) \<Rightarrow> ((201, Inr (FleetInitiated frb)), s\<lparr>rv_store := st\<rparr>)))))"

definition handleGetFleetRollback ::
  "rollback_env \<Rightarrow> ((fleet_rollback_record \<Rightarrow> fleet_rollback_record \<Rightarrow> bool) \<Rightarrow> fleet_rollback_record list \<Rightarrow> fleet_rollback_record list) \<Rightarrow>
   string \<Rightarrow> rollback_server \<Rightarrow> fleet_rollback_record response" where
  "handleGetFleetRollback env srt jobID s =
     (if jobID = [] then (400, Inl ''missing job ID'')
      else case GetFleetRollbackByJobID srt (re_get env) jobID (rv_store s) of
        Inl _ \<Rightarrow> (500, Inl ''failed to get fleet rollback'')
      | Inr None \<Rightarrow> (404, Inl ''no active rollback for this fleet job'')
      | Inr (Some frb) \<Rightarrow> (200, Inr frb))"

section \<open>The executor\<close>

record executor =
  ex_gatewayURL :: string
  ex_apiKey :: string

definition inverse_request :: "executor \<Rightarrow> rollback_record \<Rightarrow> inverse_operation \<Rightarrow> http_req" where
  "inverse_request ex rbk op = \<lparr>hq_method = ''POST'',
     hq_url = ex_gatewayURL ex @ ''/api/v1/'' @ io_Agent op @ ''/'' @ io_Tool op,
     hq_headers = json_type # bearer (ex_apiKey ex) @ [(''X-Trace-ID'', rb_RollbackTraceID rbk)],
     hq_body = Some (JObj (io_Args op))\<rparr>"

definition dispatchInverseOp :: "codec \<Rightarrow> executor \<Rightarrow> rollback_record \<Rightarrow> inverse_operation \<Rightarrow> (string + string) prog" where
  "dispatchInverseOp cd ex rbk op =
     (if ex_gatewayURL ex = [] then Return (Inr ''gateway not configured; rollback dispatch skipped'')
      else bindP (http_do cd (inverse_request ex rbk op)) (\<lambda>s. Return (case s of
          NotBuilt err \<Rightarrow> Inl (''build gateway request: '' @ err)
        | NotSent err \<Rightarrow> Inl (''gateway request failed: '' @ err)
        | Got code body \<Rightarrow>
            if code \<ge> 300 then Inl (''gateway returned '' @ Itoa code @ '': '' @ take 4096 body)
            else Inr (take 4096 body))))"

record execute_env =
  ee_codec :: codec
  ee_world :: world
  ee_parse :: "string \<Rightarrow> time option"
  ee_text :: "json \<Rightarrow> string"
  ee_digest :: digest
  ee_begin :: "string option"
  ee_finish :: "string option"
  ee_clock :: "nat \<Rightarrow> time"
  ee_executed :: record_args
  ee_verified :: record_args
  ee_uid_executed :: string
  ee_uid_verified :: string

definition emitEvent ::
  "execute_env \<Rightarrow> record_args \<Rightarrow> string \<Rightarrow> string \<Rightarrow> rollback_record \<Rightarrow> rollback_plan \<Rightarrow> string \<Rightarrow> string \<Rightarrow> audit_store \<Rightarrow> audit_store" where
  "emitEvent env a uid eventType rbk plan status errMsg s =
     snd (Record (ee_digest env) a (rollback_event (ee_text env) (take 3 eventType @ ''_'' @ take 8 uid) eventType
       rbk plan status errMsg) s)"

definition Execute ::
  "execute_env \<Rightarrow> executor \<Rightarrow> rollback_record \<Rightarrow> rollback_store \<times> audit_store \<times> net \<Rightarrow>
   string option \<times> rollback_store \<times> audit_store \<times> net" where
  "Execute env ex rbk = (\<lambda>(st, log, n).
     if terminal (rb_Status rbk) then (None, st, log, n)
     else (case plan_of (ee_parse env) (rb_PlanJSON rbk) of
        None \<Rightarrow> (Some ''unmarshal rollback plan'', st, log, n)
      | Some plan \<Rightarrow> (case (rp_Reversibility plan = ReversibilityYes, rp_InverseOp plan) of
          (True, Some op) \<Rightarrow>
            (case UpdateRollbackStatus (ee_begin env) (ee_clock env 0) (rb_RollbackID rbk) ''executing'' [] st of
               (Some err, st) \<Rightarrow> (Some (''transition to executing: '' @ err), st, log, n)
             | (None, st) \<Rightarrow>
                 (let (r, n) = run (ee_world env) (dispatchInverseOp (ee_codec env) ex rbk op) n;
                      (status, output) = (case r of Inl err \<Rightarrow> (''failed'', err) | Inr out \<Rightarrow> (''success'', out));
                      st = snd (UpdateRollbackStatus (ee_finish env) (ee_clock env 1) (rb_RollbackID rbk) status output st);
                      log = emitEvent env (ee_executed env) (ee_uid_executed env) EventTypeRollbackExecuted rbk plan status output log
                  in case r of
                       Inl err \<Rightarrow> (Some err, st, log, n)
                     | Inr _ \<Rightarrow> (None, st, emitEvent env (ee_verified env) (ee_uid_verified env) EventTypeRollbackVerified
                         rbk plan ''verified_ok'' [] log, n)))
        | _ \<Rightarrow> (Some (''rollback '' @ rb_RollbackID rbk @ '' plan is not executable (reversibility='' @ rp_Reversibility plan @ '')''),
            st, log, n))))"

section \<open>Facts\<close>

lemma lower_plan_keys [simp]:
  "ToLower ''original_event_id'' = ''original_event_id''" "ToLower ''original_tool'' = ''original_tool''"
  "ToLower ''original_trace_id'' = ''original_trace_id''" "ToLower ''reversibility'' = ''reversibility''"
  "ToLower ''not_reversible_reason'' = ''not_reversible_reason''" "ToLower ''inverse_op'' = ''inverse_op''"
  "ToLower ''generated_at'' = ''generated_at''" "ToLower ''agent'' = ''agent''" "ToLower ''tool'' = ''tool''"
  "ToLower ''args'' = ''args''" "ToLower ''description'' = ''description''"
  by (simp_all add: ToLower_def lower_char_def)

lemma op_roundtrip: "op_of (op_json op) = Some op"
  by (simp add: op_of_def op_json_def field_str_def json_member_def)

lemma plan_roundtrip:
  assumes "parse (fmt_rfc3339nano (rp_GeneratedAt p)) = Some (rp_GeneratedAt p)"
  shows "plan_of parse (plan_json p) = Some p"
proof -
  have "inverse_of (plan_json p) = Some (rp_InverseOp p)"
  proof (cases "rp_InverseOp p")
    case (Some op)
    have "op_json op \<noteq> JNull"
      by (simp add: op_json_def)
    then have "(case op_json op of JNull \<Rightarrow> Some None | x \<Rightarrow> map_option Some (op_of x)) = map_option Some (op_of (op_json op))"
      by (simp split: json.split)
    with Some show ?thesis
      by (simp add: inverse_of_def plan_json_def json_member_def omit_def op_roundtrip)
  qed (simp add: inverse_of_def plan_json_def json_member_def omit_def)
  moreover have "generated_of parse (plan_json p) = Some (rp_GeneratedAt p)"
    using assms by (simp add: generated_of_def plan_json_def json_member_def)
  moreover have "field_str ''original_event_id'' (plan_json p) = Some (rp_OriginalEventID p)"
    "field_str ''original_tool'' (plan_json p) = Some (rp_OriginalTool p)"
    "field_str ''original_trace_id'' (plan_json p) = Some (rp_OriginalTraceID p)"
    "field_str ''reversibility'' (plan_json p) = Some (rp_Reversibility p)"
    "field_str ''not_reversible_reason'' (plan_json p) = Some (rp_NotReversibleReason p)"
    by (simp_all add: field_str_def plan_json_def omit_def split: option.split)
  ultimately show ?thesis
    by (simp add: plan_of_def)
qed

section \<open>At most one active rollback\<close>

definition honest :: "string option \<Rightarrow> bool" where
  "honest flt \<longleftrightarrow> (case flt of None \<Rightarrow> True | Some e \<Rightarrow> \<not> str_contains e ''not found'')"

text \<open>The states that the handlers reach when they run one after the other. The event log, the job tables
  and the approvals may change in between in any way.\<close>

inductive served :: "rollback_server \<Rightarrow> bool" where
  fresh: "rs_rows (rv_store s) = [] \<Longrightarrow> rs_fleet (rv_store s) = [] \<Longrightarrow> served s"
| others: "served s \<Longrightarrow> served (s\<lparr>rv_audit := trail, rv_fleet := jobs, rv_approvals := aps\<rparr>)"
| initiate: "served s \<Longrightarrow> slice_sort (re_srt env) \<Longrightarrow> honest (re_dup env) \<Longrightarrow> served (snd (handleInitiateRollback env who b s))"
| cancel: "served s \<Longrightarrow> served (snd (handleCancelRollback env i s))"
| fleet: "served s \<Longrightarrow> slice_sort srt \<Longrightarrow> honest (re_dup env) \<Longrightarrow>
    served (snd (handleInitiateFleetRollback env srt who jobID fb s))"

definition active_for :: "string \<Rightarrow> rollback_store \<Rightarrow> rollback_record list" where
  "active_for eventID st = filter (\<lambda>r. rb_OriginalEventID r = eventID \<and> active (rb_Status r)) (rs_rows st)"

definition fleet_active_for :: "string \<Rightarrow> rollback_store \<Rightarrow> fleet_rollback_record list" where
  "fleet_active_for jobID st = filter (\<lambda>r. fb_OriginalJobID r = jobID \<and> active (fb_Status r)) (rs_fleet st)"

lemma sort_Nil: "slice_sort srt \<Longrightarrow> srt lt xs = [] \<longleftrightarrow> xs = []"
  by (metis mset_zero_iff slice_sort.perm)

lemma no_active:
  "GetRollbackByEventID srt flt i st = Inr None \<Longrightarrow> slice_sort srt \<Longrightarrow> honest flt \<Longrightarrow> active_for i st = []"
  by (auto simp: GetRollbackByEventID_def honest_def active_for_def sort_Nil split: option.splits list.splits if_splits)

lemma no_fleet_active:
  "GetFleetRollbackByJobID srt flt i st = Inr None \<Longrightarrow> slice_sort srt \<Longrightarrow> honest flt \<Longrightarrow> fleet_active_for i st = []"
  by (auto simp: GetFleetRollbackByJobID_def honest_def fleet_active_for_def sort_Nil split: option.splits list.splits if_splits)

text \<open>Updates of columns other than the status, and cancellations, add no active row.\<close>

lemma length_filter_mono: "(\<And>x. P x \<Longrightarrow> Q x) \<Longrightarrow> length (filter P xs) \<le> length (filter Q xs)"
  by (induction xs) auto

lemma link_store:
  "length (active_for i (snd (SetRollbackApprovalID flt now j a st))) \<le> length (active_for i st)"
  "rs_fleet (snd (SetRollbackApprovalID flt now j a st)) = rs_fleet st"
  "\<exists>f. rs_rows (snd (SetRollbackApprovalID flt now j a st)) = map f (rs_rows st) \<and> (\<forall>r. rb_RollbackID (f r) = rb_RollbackID r)"
proof -
  show "length (active_for i (snd (SetRollbackApprovalID flt now j a st))) \<le> length (active_for i st)"
    unfolding active_for_def SetRollbackApprovalID_def
    by (cases flt) (auto intro!: length_filter_mono split: if_splits)
  show "rs_fleet (snd (SetRollbackApprovalID flt now j a st)) = rs_fleet st"
    by (cases flt) (simp_all add: SetRollbackApprovalID_def)
  show "\<exists>f. rs_rows (snd (SetRollbackApprovalID flt now j a st)) = map f (rs_rows st) \<and> (\<forall>r. rb_RollbackID (f r) = rb_RollbackID r)"
    by (cases flt) (auto simp: SetRollbackApprovalID_def intro: exI [of _ id]
        exI [of _ "\<lambda>r. if rb_RollbackID r = j then r\<lparr>rb_ApprovalID := a, rb_UpdatedAt := now\<rparr> else r"])
qed

lemma link_cases:
  assumes "link_approval env rbk plan req who s = (rbk', s')"
  shows "rv_store s' = rv_store s \<and> rbk' = rbk \<or> (\<exists>flt now a.
    rv_store s' = snd (SetRollbackApprovalID flt now (rb_RollbackID rbk) a (rv_store s)) \<and> rbk' = rbk\<lparr>rb_ApprovalID := a\<rparr>)"
proof (cases "rv_approvals s")
  case (Some aps)
  obtain x aps' where "CreateRequest (re_approve env) (re_uid_approval env) (re_clock env 2)
      (rollback_approval env rbk plan req who) aps = (x, aps')"
    by (cases "CreateRequest (re_approve env) (re_uid_approval env) (re_clock env 2) (rollback_approval env rbk plan req who) aps")
  with Some assms show ?thesis
  proof (cases x)
    case (Inr a)
    with \<open>CreateRequest _ _ _ _ _ = _\<close> Some assms show ?thesis
      by (intro disjI2 exI [of _ "re_link env"] exI [of _ "re_clock env 3"] exI [of _ "ap_ApprovalID a"])
        (auto simp: link_approval_def)
  qed (auto simp: link_approval_def)
qed (use assms in \<open>simp add: link_approval_def\<close>)

lemma link_keeps:
  assumes "link_approval env rbk plan req who s = (rbk', s')"
  shows "length (active_for i (rv_store s')) \<le> length (active_for i (rv_store s))"
    "rs_fleet (rv_store s') = rs_fleet (rv_store s)"
    "\<exists>f. rs_rows (rv_store s') = map f (rs_rows (rv_store s)) \<and> (\<forall>r. rb_RollbackID (f r) = rb_RollbackID r)"
    "rb_RollbackID rbk' = rb_RollbackID rbk" "rb_PlanJSON rbk' = rb_PlanJSON rbk" "rb_Status rbk' = rb_Status rbk"
proof -
  have same: "\<exists>f. xs = map f xs \<and> (\<forall>r. rb_RollbackID (f r) = rb_RollbackID r)" for xs :: "rollback_record list"
    by (rule exI [of _ id]) simp
  show "length (active_for i (rv_store s')) \<le> length (active_for i (rv_store s))"
    using link_cases [OF assms] link_store(1) by (elim disjE exE conjE) simp_all
  show "rs_fleet (rv_store s') = rs_fleet (rv_store s)"
    using link_cases [OF assms] link_store(2) by (elim disjE exE conjE) simp_all
  show "\<exists>f. rs_rows (rv_store s') = map f (rs_rows (rv_store s)) \<and> (\<forall>r. rb_RollbackID (f r) = rb_RollbackID r)"
    using link_cases [OF assms] link_store(3) same by (elim disjE exE conjE) simp_all
  show "rb_RollbackID rbk' = rb_RollbackID rbk" "rb_PlanJSON rbk' = rb_PlanJSON rbk" "rb_Status rbk' = rb_Status rbk"
    using link_cases [OF assms] by auto
qed

lemma create_active:
  assumes "CreateRollback flt uid now r st = (Inr r', st')"
  shows "rs_rows st' = rs_rows st @ [r'] \<and> rs_fleet st' = rs_fleet st \<and> rb_OriginalEventID r' = rb_OriginalEventID r \<and>
    rb_PlanJSON r' = rb_PlanJSON r \<and> (rb_Status r \<noteq> [] \<longrightarrow> rb_Status r' = rb_Status r) \<and> rb_RollbackID r' \<notin> rb_RollbackID ` set (rs_rows st)"
  using assms by (auto simp: CreateRollback_def Let_def list_ex_iff split: option.splits if_splits)

lemma update_active:
  "status = ''cancelled'' \<Longrightarrow> length (active_for i (snd (UpdateRollbackStatus flt now j status out st))) \<le> length (active_for i st)"
  "rs_fleet (snd (UpdateRollbackStatus flt now j status out st)) = rs_fleet st"
  by (cases flt; auto simp: UpdateRollbackStatus_def active_for_def active_def intro!: length_filter_mono split: if_splits)+

lemma initiate_store:
  assumes "slice_sort (re_srt env)" "honest (re_dup env)"
  shows "rs_fleet (rv_store (snd (handleInitiateRollback env who b s))) = rs_fleet (rv_store s) \<and>
    (length (active_for i (rv_store (snd (handleInitiateRollback env who b s)))) \<le> max 1 (length (active_for i (rv_store s))))"
proof (cases "initiate_check env b s")
  case (Inr c)
  obtain req e plan where c: "c = (req, e, plan)"
    by (cases c)
  have none: "active_for (ir_OriginalEventID req) (rv_store s) = []"
    using Inr no_active [OF _ assms]
    by (auto simp: initiate_check_def c split: body.splits if_splits sum.splits prod.splits option.splits)
  define r0 where "r0 = \<lparr>rb_RollbackID = [], rb_OriginalEventID = ir_OriginalEventID req, rb_OriginalTraceID = ev_TraceID e,
    rb_OriginalJobID = [], rb_Status = ''pending_approval'', rb_InitiatedBy = if EffectiveID who = [] then ''unknown'' else EffectiveID who,
    rb_InitiatedAt = 0, rb_ApprovalID = [], rb_RollbackTraceID = [], rb_PlanJSON = plan_json plan, rb_ResultOutput = [],
    rb_CompletedAt = 0, rb_CreatedAt = 0, rb_UpdatedAt = 0\<rparr>"
  obtain x st where cr: "CreateRollback (re_create env) (re_uid_rollback env) (re_clock env 1) r0 (rv_store s) = (x, st)"
    by (cases "CreateRollback (re_create env) (re_uid_rollback env) (re_clock env 1) r0 (rv_store s)")
  show ?thesis
  proof (cases x)
    case (Inl err)
    then have "st = rv_store s"
      using cr by (auto simp: CreateRollback_def Let_def split: option.splits if_splits)
    with Inr c cr Inl show ?thesis
      by (simp add: handleInitiateRollback_def initiate_create_def r0_def Let_def)
  next
    case (Inr r)
    obtain r' s' where l: "link_approval env r plan req (if EffectiveID who = [] then ''unknown'' else EffectiveID who) (s\<lparr>rv_store := st\<rparr>) = (r', s')"
      by (cases "link_approval env r plan req (if EffectiveID who = [] then ''unknown'' else EffectiveID who) (s\<lparr>rv_store := st\<rparr>)")
    have out: "rv_store (snd (handleInitiateRollback env who b s)) = rv_store s'"
      using \<open>initiate_check env b s = Inr c\<close> c cr Inr l
      by (simp add: handleInitiateRollback_def initiate_create_def r0_def Let_def)
    have "length (active_for i st) \<le> max 1 (length (active_for i (rv_store s)))"
      using create_active [OF cr [unfolded Inr]] none by (auto simp: active_for_def r0_def)
    with link_keeps(1) [OF l, of i] link_keeps(2) [OF l] create_active [OF cr [unfolded Inr]] show ?thesis
      unfolding out by auto
  qed
qed (simp add: handleInitiateRollback_def)

lemma cancel_store:
  "rs_fleet (rv_store (snd (handleCancelRollback env j s))) = rs_fleet (rv_store s) \<and>
   length (active_for i (rv_store (snd (handleCancelRollback env j s)))) \<le> length (active_for i (rv_store s))"
proof -
  obtain x st where u: "UpdateRollbackStatus (re_update env) (re_clock env 0) j ''cancelled'' [] (rv_store s) = (x, st)"
    by (cases "UpdateRollbackStatus (re_update env) (re_clock env 0) j ''cancelled'' [] (rv_store s)")
  have "rs_fleet st = rs_fleet (rv_store s)" "length (active_for i st) \<le> length (active_for i (rv_store s))"
    using update_active(1) [where status = "''cancelled''"] update_active(2) [where status = "''cancelled''"] u
    by (metis snd_conv)+
  then show ?thesis
    by (auto simp: handleCancelRollback_def u split: sum.splits option.splits)
qed

lemma create_fleet_active:
  assumes "CreateFleetRollback flt uid now r st = (x, st')" "fleet_active_for (fb_OriginalJobID r) st = []"
  shows "rs_rows st' = rs_rows st \<and> length (fleet_active_for i st') \<le> max 1 (length (fleet_active_for i st))"
  using assms by (auto simp: CreateFleetRollback_def fleet_active_for_def Let_def split: option.splits if_splits)

lemma fleet_cases:
  "rv_store (snd (handleInitiateFleetRollback env srt who j b s)) = rv_store s \<or>
   (GetFleetRollbackByJobID srt (re_dup env) j (rv_store s) = Inr None \<and>
    (\<exists>flt uid now r. fb_OriginalJobID r = j \<and>
      rv_store (snd (handleInitiateFleetRollback env srt who j b s)) = snd (CreateFleetRollback flt uid now r (rv_store s))))"
proof (cases "\<exists>job. j \<noteq> [] \<and> GetJob (re_get env) j (rv_fleet s) = Inr job \<and>
    GetFleetRollbackByJobID srt (re_dup env) j (rv_store s) = Inr None")
  case True
  obtain scope dry where b: "(case b of Body req \<Rightarrow> (fq_Scope req, fq_DryRun req) | _ \<Rightarrow> ([], False)) = (scope, dry)"
    by fastforce
  let ?r = "\<lparr>fb_FleetRollbackID = [], fb_OriginalJobID = j, fb_Status = [],
    fb_InitiatedBy = if EffectiveID who = [] then ''unknown'' else EffectiveID who, fb_ApprovalID = [],
    fb_Scope = if scope = [] then ''all'' else scope, fb_RollbackJobID = [], fb_CreatedAt = 0, fb_UpdatedAt = 0\<rparr>"
  obtain x st where c: "CreateFleetRollback (re_create env) (re_uid_rollback env) (re_clock env 1) ?r (rv_store s) = (x, st)"
    by fastforce
  from True c have "rv_store (snd (handleInitiateFleetRollback env srt who j b s)) = (if dry then rv_store s else st)"
    by (cases x) (auto simp: handleInitiateFleetRollback_def Let_def b)
  moreover have "st = snd (CreateFleetRollback (re_create env) (re_uid_rollback env) (re_clock env 1) ?r (rv_store s))"
    using c by simp
  moreover have "fb_OriginalJobID ?r = j"
    by simp
  ultimately show ?thesis
    using True by (cases dry) (simp only: if_True, blast, simp only: if_False, blast)
next
  case False
  then have "rv_store (snd (handleInitiateFleetRollback env srt who j b s)) = rv_store s"
    by (auto simp: handleInitiateFleetRollback_def split: sum.splits option.splits)
  then show ?thesis ..
qed

lemma fleet_store:
  assumes "slice_sort srt" "honest (re_dup env)"
  shows "rs_rows (rv_store (snd (handleInitiateFleetRollback env srt who j b s))) = rs_rows (rv_store s) \<and>
    length (fleet_active_for i (rv_store (snd (handleInitiateFleetRollback env srt who j b s)))) \<le>
      max 1 (length (fleet_active_for i (rv_store s)))"
  using fleet_cases [of env srt who j b s]
proof (elim disjE conjE exE)
  fix flt uid now r
  assume g: "GetFleetRollbackByJobID srt (re_dup env) j (rv_store s) = Inr None" and r: "fb_OriginalJobID r = j"
    and st: "rv_store (snd (handleInitiateFleetRollback env srt who j b s)) = snd (CreateFleetRollback flt uid now r (rv_store s))"
  show ?thesis
    unfolding st
    by (rule create_fleet_active [OF prod.collapse [symmetric]]) (simp add: r no_fleet_active [OF g assms])
qed simp

text \<open>C32: However the handlers are called one after the other, and whatever the database refuses, an event
  has at most one rollback that is not failed or cancelled, and so has a fleet job.\<close>

theorem one_active_rollback:
  assumes "served s"
  shows "length (active_for i (rv_store s)) \<le> 1 \<and> length (fleet_active_for j (rv_store s)) \<le> 1"
  using assms
proof (induction rule: served.induct)
  case (initiate s env who b)
  then show ?case
    using initiate_store [of env who b s i] by (simp add: fleet_active_for_def)
next
  case (cancel s env k)
  then show ?case
    using cancel_store [of env k s i] by (simp add: fleet_active_for_def)
next
  case (fleet s srt env who jobID b)
  then show ?case
    using fleet_store [of srt env who jobID b s j] by (simp add: active_for_def)
qed (simp_all add: active_for_def fleet_active_for_def)

section \<open>From the request to the inverse operation\<close>

lemma initiated_record:
  assumes "handleInitiateRollback env who b s = ((code, Inr (Initiated rbk plan)), s')"
  shows "rb_PlanJSON rbk = plan_json plan" "rb_Status rbk = ''pending_approval''"
    "\<exists>r. find (\<lambda>r. rb_RollbackID r = rb_RollbackID rbk) (rs_rows (rv_store s')) = Some r"
    "\<exists>e. wf_plan e (re_clock env 0) plan" "rp_GeneratedAt plan = re_clock env 0"
proof -
  obtain req e where c: "initiate_check env b s = Inr (req, e, plan)"
    and cr: "initiate_create env who req e plan s = ((code, Inr (Initiated rbk plan)), s')"
    using assms by (auto simp: handleInitiateRollback_def initiate_check_def initiate_create_def Let_def
        split: sum.splits body.splits if_splits prod.splits option.splits)
  obtain i x where "event_plan env i s = Inr (x, plan)"
    using c by (auto simp: initiate_check_def split: body.splits if_splits sum.splits option.splits)
  then obtain ev where "DeriveRollbackPlan (re_scale env) (re_dml env) (re_clock env 0) ev = Inr plan"
    by (auto simp: event_plan_def split: sum.splits list.splits)
  then show "\<exists>e. wf_plan e (re_clock env 0) plan"
    using derived_plan [where dec_scale = "re_scale env" and dec_dml = "re_dml env" and now = "re_clock env 0" and e = ev]
    by auto
  then show "rp_GeneratedAt plan = re_clock env 0"
    by (auto simp: wf_plan_def)
  let ?u = "if EffectiveID who = [] then ''unknown'' else EffectiveID who"
  from cr obtain r0 r st s1 where r: "CreateRollback (re_create env) (re_uid_rollback env) (re_clock env 1) r0 (rv_store s) = (Inr r, st)"
      "rb_PlanJSON r0 = plan_json plan" "rb_Status r0 = ''pending_approval''"
    and l: "link_approval env r plan req ?u (s\<lparr>rv_store := st\<rparr>) = (rbk, s1)" and st: "rv_store s' = rv_store s1"
    by (auto simp: initiate_create_def Let_def split: prod.splits sum.splits)
  note k = link_keeps(3-6) [OF l] and a = create_active [OF r(1)]
  show "rb_PlanJSON rbk = plan_json plan" "rb_Status rbk = ''pending_approval''"
    using k a r(2,3) by simp_all
  obtain f where f: "rs_rows (rv_store s1) = map f (rs_rows st @ [])" "\<forall>x. rb_RollbackID (f x) = rb_RollbackID x"
    using k(1) by auto
  have "\<exists>x \<in> set (rs_rows (rv_store s')). rb_RollbackID x = rb_RollbackID rbk"
    using f k(2) a unfolding st by auto
  then show "\<exists>r. find (\<lambda>r. rb_RollbackID r = rb_RollbackID rbk) (rs_rows (rv_store s')) = Some r"
    by (cases "find (\<lambda>r. rb_RollbackID r = rb_RollbackID rbk) (rs_rows (rv_store s'))") (auto simp: find_None_iff)
qed

lemma find_map_same_id:
  "(\<And>r. rb_RollbackID (f r) = rb_RollbackID r) \<Longrightarrow>
   find (\<lambda>r. rb_RollbackID r = j) (map (\<lambda>r. if rb_RollbackID r = j then f r else r) xs) =
     map_option f (find (\<lambda>r. rb_RollbackID r = j) xs)"
  by (induction xs) auto

lemma find_updated:
  assumes "find (\<lambda>r. rb_RollbackID r = j) (rs_rows st) = Some r"
  shows "\<exists>r'. GetRollback None j (snd (UpdateRollbackStatus None now j status out st)) = Inr r' \<and> rb_Status r' = status"
proof -
  have "find (\<lambda>r. rb_RollbackID r = j) (rs_rows (snd (UpdateRollbackStatus None now j status out st))) =
    map_option (\<lambda>r. r\<lparr>rb_Status := status, rb_ResultOutput := (if out \<noteq> [] then out else rb_ResultOutput r),
      rb_CompletedAt := (if terminal status then now else rb_CompletedAt r), rb_UpdatedAt := now\<rparr>) (Some r)"
    unfolding UpdateRollbackStatus_def assms [symmetric] option.case snd_conv rollback_store.simps
    by (subst find_map_same_id [symmetric]) simp_all
  then show ?thesis
    by (simp add: GetRollback_def)
qed


section \<open>An example\<close>

text \<open>A deployment was scaled down from three replicas, and its scaling is rolled back.\<close>

definition scaled :: event where
  "scaled = zero_event\<lparr>ev_EventID := ''e'', ev_EventType := EventTypeToolExecution, ev_TraceID := ''t'',
     ev_Tool := Some \<lparr>tx_Name = ''scale_deployment'', tx_Agent = ''k8s'', tx_Parameters = [], tx_RawCommand = [],
       tx_Result = [], tx_Error = [], tx_Duration = 0, tx_PreState = ''p''\<rparr>\<rparr>"

definition scaled_server :: rollback_server where
  "scaled_server = \<lparr>rv_store = \<lparr>rs_rows = [], rs_fleet = []\<rparr>,
     rv_audit = \<lparr>au_rows = [row_of scaled], au_lastHash = GenesisHash\<rparr>,
     rv_fleet = \<lparr>fl_jobs = [], fl_servers = [], fl_steps = []\<rparr>, rv_approvals = None\<rparr>"

definition scaled_env :: rollback_env where
  "scaled_env = \<lparr>re_srt_events = insertionSort, re_conf_le = (\<lambda>_ _. True), re_srt = insertionSort,
     re_scale = (\<lambda>_. Inr \<lparr>sp_Namespace = ''ns'', sp_DeploymentName = ''web'', sp_PreviousReplicas = 3\<rparr>),
     re_dml = (\<lambda>_. Inl ''no rows''), re_text = (\<lambda>_. []), re_digest = (\<lambda>_. ''h''), re_query = None, re_dup = None,
     re_create = None, re_approve = None, re_link = None, re_get = None, re_update = None,
     re_record = \<lparr>ra_uid = [], ra_now = 1, ra_marshal = None, ra_insert = None\<rparr>, re_uid_rollback = ''r'',
     re_uid_approval = ''a'', re_uid_event = ''u'', re_clock = (\<lambda>_. 5)\<rparr>"

definition scaled_request :: initiate_request where
  "scaled_request = \<lparr>ir_OriginalEventID = ''e'', ir_Justification = [], ir_DryRun = False\<rparr>"

definition scaled_plan :: rollback_plan where
  "scaled_plan = \<lparr>rp_OriginalEventID = ''e'', rp_OriginalTool = ''scale_deployment'', rp_OriginalTraceID = ''t'',
     rp_Reversibility = ReversibilityYes, rp_NotReversibleReason = [],
     rp_InverseOp = Some \<lparr>io_Agent = ''k8s'', io_Tool = ''scale_deployment'',
       io_Args = [(''namespace'', JStr ''ns''), (''deployment'', JStr ''web''), (''replicas'', JNum 3)],
       io_Description = ''restore deployment/web in namespace ns to 3 replica(s)''\<rparr>, rp_GeneratedAt = 5\<rparr>"

lemma scaled_check: "initiate_check scaled_env (Body scaled_request) scaled_server = Inr (scaled_request, scaled, scaled_plan)"
proof -
  have raw: "aw_raw (row_of scaled) = scaled"
    by (simp add: row_of_def Let_def case_prod_unfold)
  have sel: "row_selected c (event_query ''e'') (row_of scaled)" for c
    by (simp add: row_selected_def event_query_def row_of_def scaled_def zero_event_def wants_def outcome_columns_def
        EventTypeToolExecution_def Let_def)
  have "DeriveRollbackPlan (re_scale scaled_env) (re_dml scaled_env) 5 scaled = Inr scaled_plan"
    by (simp add: DeriveRollbackPlan_def deriveScaleRollback_def reversible_def scaled_def scaled_env_def scaled_plan_def
        zero_event_def Itoa_def nat_str.simps digit_eval Let_def)
  moreover have "Query (re_srt_events scaled_env) (re_conf_le scaled_env) (re_query scaled_env) (event_query ''e'') (rv_audit scaled_server) =
      Inr [scaled]"
    using sel raw by (simp add: Query_def scaled_server_def scaled_env_def insertionSort_def event_query_def Let_def)
  ultimately have "event_plan scaled_env ''e'' scaled_server = Inr (scaled, scaled_plan)"
    by (simp add: event_plan_def) (simp add: scaled_env_def)
  then show ?thesis
    by (simp add: initiate_check_def scaled_request_def scaled_plan_def reversibility_defs GetRollbackByEventID_def
        scaled_server_def scaled_env_def insertionSort_def)
qed

lemma scaled_created:
  "\<exists>rbk s'. initiate_create (scaled_env\<lparr>re_uid_rollback := uid\<rparr>) zero_principal scaled_request scaled scaled_plan s =
     ((201, Inr (Initiated rbk scaled_plan)), s') \<and> rv_approvals s' = None \<and>
     (\<exists>r. rs_rows (rv_store s') = rs_rows (rv_store s) @ [r] \<and> rb_RollbackID r = ''rbk_'' @ take 8 uid \<and>
       rb_OriginalEventID r = ''e'' \<and> active (rb_Status r))"
  if "''rbk_'' @ take 8 uid \<notin> rb_RollbackID ` set (rs_rows (rv_store s))" "rv_approvals s = None"
proof -
  have "\<not> list_ex (\<lambda>x. rb_RollbackID x = ''rbk_'' @ take 8 uid) (rs_rows (rv_store s))"
    using that(1) unfolding list_ex_iff by (metis image_eqI)
  then show ?thesis
    using that(2) by (simp add: initiate_create_def CreateRollback_def link_approval_def scaled_env_def scaled_request_def
        active_def Let_def)
qed

lemma scaled_initiated:
  "\<exists>rbk s'. handleInitiateRollback scaled_env zero_principal (Body scaled_request) scaled_server =
    ((201, Inr (Initiated rbk scaled_plan)), s') \<and> length (active_for ''e'' (rv_store s')) = 1"
proof -
  have env: "scaled_env\<lparr>re_uid_rollback := ''r''\<rparr> = scaled_env" and empty: "rs_rows (rv_store scaled_server) = []" "rv_approvals scaled_server = None"
    by (simp_all add: scaled_env_def scaled_server_def)
  from scaled_created [of "''r''" scaled_server] show ?thesis
    unfolding env handleInitiateRollback_def scaled_check sum.case prod.case by (auto simp: empty active_for_def)
qed

theorem one_active_rollback_witness:
  "\<exists>s. served s \<and> length (active_for ''e'' (rv_store s)) = 1 \<and> length (fleet_active_for ''j'' (rv_store s)) \<le> 1"
proof -
  obtain rbk s' where h: "handleInitiateRollback scaled_env zero_principal (Body scaled_request) scaled_server =
      ((201, Inr (Initiated rbk scaled_plan)), s')" "length (active_for ''e'' (rv_store s')) = 1"
    using scaled_initiated by blast
  have "served scaled_server"
    by (rule served.fresh) (simp_all add: scaled_server_def)
  then have "served (snd (handleInitiateRollback scaled_env zero_principal (Body scaled_request) scaled_server))"
    by (rule served.initiate) (simp_all add: scaled_env_def honest_def ins.slice_sort_axioms)
  then have "served s'"
    by (simp add: h(1))
  with one_active_rollback [OF this] h(2) show ?thesis
    by blast
qed


text \<open>The check for an active rollback and the creation of a record are separate steps: two requests for
  the same event that are both checked before either record is created leave two active rollbacks.\<close>

theorem rollback_race:
  "\<exists>r1 r2 s1 s2.
     initiate_check scaled_env (Body scaled_request) scaled_server = Inr (scaled_request, scaled, scaled_plan) \<and>
     initiate_create (scaled_env\<lparr>re_uid_rollback := ''a''\<rparr>) zero_principal scaled_request scaled scaled_plan scaled_server =
       ((201, Inr r1), s1) \<and>
     initiate_create (scaled_env\<lparr>re_uid_rollback := ''b''\<rparr>) zero_principal scaled_request scaled scaled_plan s1 = ((201, Inr r2), s2) \<and>
     length (active_for ''e'' (rv_store s2)) = 2"
proof -
  have empty: "rs_rows (rv_store scaled_server) = []" "rv_approvals scaled_server = None"
    by (simp_all add: scaled_server_def)
  obtain rbk1 s1 r1 where one: "initiate_create (scaled_env\<lparr>re_uid_rollback := ''a''\<rparr>) zero_principal scaled_request scaled scaled_plan scaled_server =
      ((201, Inr (Initiated rbk1 scaled_plan)), s1)" "rv_approvals s1 = None" "rs_rows (rv_store s1) = [r1]" "rb_RollbackID r1 = ''rbk_a''"
      "rb_OriginalEventID r1 = ''e''" "active (rb_Status r1)"
    using scaled_created [of "''a''" scaled_server] by (auto simp: empty)
  obtain rbk2 s2 r2 where two: "initiate_create (scaled_env\<lparr>re_uid_rollback := ''b''\<rparr>) zero_principal scaled_request scaled scaled_plan s1 =
      ((201, Inr (Initiated rbk2 scaled_plan)), s2)" "rs_rows (rv_store s2) = [r1, r2]" "rb_OriginalEventID r2 = ''e''" "active (rb_Status r2)"
    using scaled_created [of "''b''" s1] one by auto
  have "length (active_for ''e'' (rv_store s2)) = 2"
    using one two by (simp add: active_for_def)
  with scaled_check one(1) two(1) show ?thesis
    by blast
qed

end
