(* ===== verification/Go_Url.thy ===== *)
theory Go_Url
  imports Prelude
begin

text \<open>
  The parts of \<^verbatim>\<open>net/url\<close> and \<^verbatim>\<open>strconv\<close> that handlers use on query strings: the
  first value of a query parameter and the decimal integer of a text. A pair of the query whose key
  or value has a bad escape, or that holds a semicolon, is skipped, as \<^verbatim>\<open>URL.Query\<close> does when it
  drops the errors.
\<close>

section \<open>Query strings\<close>

definition unhex :: "char \<Rightarrow> nat option" where
  "unhex c = (let n = (of_char c :: nat) in
     if 48 \<le> n \<and> n \<le> 57 then Some (n - 48)
     else if 65 \<le> n \<and> n \<le> 70 then Some (n - 55)
     else if 97 \<le> n \<and> n \<le> 102 then Some (n - 87)
     else None)"

fun QueryUnescape :: "string \<Rightarrow> string option" where
  "QueryUnescape [] = Some []"
| "QueryUnescape (c # cs) =
     (if c = CHR ''%'' then
        (case cs of
           a # b # rest \<Rightarrow>
             (case (unhex a, unhex b, QueryUnescape rest) of
                (Some x, Some y, Some r) \<Rightarrow> Some (char_of (16 * x + y) # r)
              | _ \<Rightarrow> None)
         | _ \<Rightarrow> None)
      else map_option (Cons (if c = CHR ''+'' then CHR '' '' else c)) (QueryUnescape cs))"

text \<open>\<^verbatim>\<open>strings.Cut\<close> at a character.\<close>

fun cut_char :: "char \<Rightarrow> string \<Rightarrow> string \<times> string" where
  "cut_char c [] = ([], [])"
| "cut_char c (x # xs) = (if x = c then ([], xs) else (let (a, b) = cut_char c xs in (x # a, b)))"

definition query_pair :: "string \<Rightarrow> (string \<times> string) option" where
  "query_pair s = (if s = [] \<or> CHR '';'' \<in> set s then None
     else (case cut_char (CHR ''='') s of (k, v) \<Rightarrow>
       (case (QueryUnescape k, QueryUnescape v) of (Some k', Some v') \<Rightarrow> Some (k', v') | _ \<Rightarrow> None)))"

definition query_pairs :: "string \<Rightarrow> (string \<times> string) list" where
  "query_pairs q = List.map_filter query_pair (split_char (CHR ''&'') q)"

text \<open>\<^verbatim>\<open>r.URL.Query().Get(k)\<close> for the text of a URL without a fragment.\<close>

definition query_get :: "string \<Rightarrow> string \<Rightarrow> string" where
  "query_get url k = (case map_of (query_pairs (snd (cut_char (CHR ''?'') url))) k of Some v \<Rightarrow> v | None \<Rightarrow> [])"

section \<open>Integers\<close>

definition digit_val :: "char \<Rightarrow> nat option" where
  "digit_val c = (let n = (of_char c :: nat) in if 48 \<le> n \<and> n \<le> 57 then Some (n - 48) else None)"

fun digits_val :: "nat \<Rightarrow> string \<Rightarrow> nat option" where
  "digits_val acc [] = Some acc"
| "digits_val acc (c # cs) = (case digit_val c of None \<Rightarrow> None | Some d \<Rightarrow> digits_val (10 * acc + d) cs)"

text \<open>\<^verbatim>\<open>strconv.Atoi\<close>, absent when it returns an error.\<close>

definition Atoi :: "string \<Rightarrow> int option" where
  "Atoi s =
     (let neg = (s \<noteq> [] \<and> hd s = CHR ''-'');
          ds = (if s \<noteq> [] \<and> (hd s = CHR ''-'' \<or> hd s = CHR ''+'') then tl s else s)
      in if ds = [] then None
         else (case digits_val 0 ds of
           None \<Rightarrow> None
         | Some n \<Rightarrow> (let i = (if neg then - int n else int n) in
             if - (2 ^ 63) \<le> i \<and> i < 2 ^ 63 then Some i else None)))"

section \<open>Facts\<close>

text \<open>Characters that stand for themselves in a query value.\<close>

definition query_safe :: "char \<Rightarrow> bool" where
  "query_safe c \<longleftrightarrow> c \<notin> {CHR ''%'', CHR ''+'', CHR ''&'', CHR '';'', CHR ''='', CHR ''?'', CHR ''#''}"

lemma QueryUnescape_safe: "list_all query_safe s \<Longrightarrow> QueryUnescape s = Some s"
  by (induction s) (auto simp: query_safe_def)

lemma cut_char_append: "c \<notin> set s \<Longrightarrow> cut_char c (s @ c # t) = (s, t)"
  by (induction s) auto

lemma split_char_safe: "c \<notin> set s \<Longrightarrow> split_char c s = [s]"
  by (induction s) auto

lemma split_char_cons: "c \<notin> set s \<Longrightarrow> split_char c (s @ c # t) = s # split_char c t"
  by (induction s) auto

lemma safe_not_in:
  assumes "list_all query_safe s"
  shows "CHR ''&'' \<notin> set s" "CHR '';'' \<notin> set s" "CHR ''='' \<notin> set s" "CHR ''?'' \<notin> set s"
  using assms by (auto simp: list_all_iff query_safe_def)

lemma query_pair_safe:
  assumes "list_all query_safe k" "list_all query_safe v"
  shows "query_pair (k @ CHR ''='' # v) = Some (k, v)"
  using safe_not_in [OF assms(1)] safe_not_in [OF assms(2)]
  by (simp add: query_pair_def cut_char_append QueryUnescape_safe assms)

lemma query_pairs_one:
  assumes "list_all query_safe k" "list_all query_safe v"
  shows "query_pairs (k @ CHR ''='' # v) = [(k, v)]"
  using safe_not_in [OF assms(1)] safe_not_in [OF assms(2)]
  by (simp add: query_pairs_def split_char_safe List.map_filter_def query_pair_safe assms)

lemma query_pairs_more:
  assumes "list_all query_safe k" "list_all query_safe v"
  shows "query_pairs (k @ CHR ''='' # v @ CHR ''&'' # q) = (k, v) # query_pairs q"
proof -
  have "split_char (CHR ''&'') ((k @ CHR ''='' # v) @ CHR ''&'' # q) = (k @ CHR ''='' # v) # split_char (CHR ''&'') q"
    using safe_not_in [OF assms(1)] safe_not_in [OF assms(2)] by (intro split_char_cons) simp
  then show ?thesis
    by (simp add: query_pairs_def List.map_filter_def query_pair_safe assms)
qed

lemma query_get_url:
  assumes "list_all query_safe base"
  shows "query_get (base @ CHR ''?'' # q) k = (case map_of (query_pairs q) k of Some v \<Rightarrow> v | None \<Rightarrow> [])"
  using safe_not_in [OF assms] by (simp add: query_get_def cut_char_append)

end
