(* ===== verification/Remote_Audit.thy ===== *)
theory Remote_Audit
  imports Tool_Audit Approval_Handlers Http_Client Go_Url
begin

text \<open>
  How events travel to the audit service and back: the event handlers of \<^verbatim>\<open>cmd/auditd/main.go\<close>,
  their client \<^verbatim>\<open>internal/audit/remote_store.go\<close>, and the auditor of the gateway,
  \<^verbatim>\<open>internal/audit/gateway.go\<close>. The JSON form of an event is the argument \<open>ec\<close>: the encoder and
  the decoder of the \<^verbatim>\<open>Event\<close> structure; what the properties need of it is that the decoder undoes
  the encoder. Encoding does not fail on the events the code builds. \<open>parse\<close> is
  \<^verbatim>\<open>time.Parse\<close> with the two layouts the handler tries.
\<close>

section \<open>Handlers of the audit service\<close>

definition handleRecordEvent ::
  "digest \<Rightarrow> record_args \<Rightarrow> event body \<Rightarrow> audit_store \<Rightarrow> json_map response \<times> audit_store" where
  "handleRecordEvent digest a b s = (case b of
     ReadError \<Rightarrow> ((400, Inl ''failed to read body''), s)
   | BadJSON e \<Rightarrow> ((400, Inl (''invalid JSON: '' @ e)), s)
   | Body ev \<Rightarrow>
       (case Record digest a ev s of
          (Inl _, s') \<Rightarrow> ((500, Inl ''failed to record event''), s')
        | (Inr e, s') \<Rightarrow> ((200, Inr [(''event_id'', JStr (ev_EventID e)), (''event_hash'', JStr (ev_EventHash e)),
            (''prev_hash'', JStr (ev_PrevHash e))]), s')))"

definition handleRecordOutcome ::
  "string option \<Rightarrow> string \<Rightarrow> outcome body \<Rightarrow> audit_store \<Rightarrow> unit response \<times> audit_store" where
  "handleRecordOutcome flt eventID b s =
     (if eventID = [] then ((400, Inl ''missing event ID''), s)
      else (case b of
        ReadError \<Rightarrow> ((400, Inl ''failed to read body''), s)
      | BadJSON e \<Rightarrow> ((400, Inl (''invalid JSON: '' @ e)), s)
      | Body o' \<Rightarrow>
          (case RecordOutcome flt eventID o' s of
             (Some _, s') \<Rightarrow> ((500, Inl ''failed to record outcome''), s')
           | (None, s') \<Rightarrow> ((200, Inr ()), s'))))"

definition zero_query :: query_options where
  "zero_query = \<lparr>qe_EventID = [], qe_SessionID = [], qe_EventType = [], qe_EventTypes = [], qe_Agent = [],
     qe_Since = 0, qe_MinConfidence = None, qe_MaxConfidence = None, qe_Limit = 0, qe_TraceID = [],
     qe_TraceIDPrefix = [], qe_ActionClass = [], qe_ToolName = [], qe_ApprovalStatus = [],
     qe_OutcomeStatus = [], qe_Origin = []\<rparr>"

definition events_query :: "(string \<Rightarrow> time option) \<Rightarrow> (string \<Rightarrow> string) \<Rightarrow> query_options" where
  "events_query parse get = zero_query\<lparr>
     qe_Limit := (case Atoi (get ''limit'') of Some n \<Rightarrow> if n > 0 then n else 100 | None \<Rightarrow> 100),
     qe_SessionID := get ''session_id'', qe_TraceID := get ''trace_id'',
     qe_TraceIDPrefix := get ''trace_id_prefix'', qe_EventType := get ''event_type'',
     qe_EventTypes := (if get ''types'' = [] then []
        else filter (\<lambda>t. t \<noteq> []) (map TrimSpace (split_char (CHR '','') (get ''types'')))),
     qe_Agent := get ''agent'', qe_ActionClass := get ''action_class'',
     qe_Since := (if get ''since'' = [] then 0 else (case parse (get ''since'') of Some t \<Rightarrow> t | None \<Rightarrow> 0)),
     qe_OutcomeStatus := get ''outcome_status'', qe_Origin := get ''origin'',
     qe_ToolName := get ''tool_name''\<rparr>"

type_synonym row_sort = "(audit_row \<Rightarrow> audit_row \<Rightarrow> bool) \<Rightarrow> audit_row list \<Rightarrow> audit_row list"

definition handleQueryEvents ::
  "row_sort \<Rightarrow> (string \<Rightarrow> string \<Rightarrow> bool) \<Rightarrow> (string \<Rightarrow> time option) \<Rightarrow> string option \<Rightarrow> string \<Rightarrow>
   audit_store \<Rightarrow> event list response" where
  "handleQueryEvents srt conf_le parse flt url s =
     (case Query srt conf_le flt (events_query parse (query_get url)) s of
        Inl _ \<Rightarrow> (500, Inl ''failed to query events'')
      | Inr es \<Rightarrow> (200, Inr es))"

text \<open>The outer option is the panic of the chain check on a short hash.\<close>

definition handleVerifyChain ::
  "digest \<Rightarrow> string option \<Rightarrow> audit_store \<Rightarrow> chain_status response option" where
  "handleVerifyChain digest flt s = map_option (\<lambda>r. case r of
     Inl _ \<Rightarrow> (500, Inl ''failed to verify chain'')
   | Inr st \<Rightarrow> (200, Inr st)) (VerifyIntegrity digest flt s)"

definition handleHealth :: "string \<Rightarrow> json_map response" where
  "handleHealth version = (200, Inr [(''status'', JStr ''ok''), (''version'', JStr version)])"

section \<open>The client\<close>

record event_codec =
  ec_json :: "event \<Rightarrow> json"
  ec_event :: "json \<Rightarrow> event option"

record remote_store =
  rs_baseURL :: string
  rs_token :: "string option"

definition NewRemoteStore :: "string \<Rightarrow> remote_store" where
  "NewRemoteStore baseURL = \<lparr>rs_baseURL = baseURL, rs_token = None\<rparr>"

definition WithAPIKey :: "string \<Rightarrow> remote_store \<Rightarrow> remote_store" where
  "WithAPIKey apiKey r = \<lparr>rs_baseURL = rs_baseURL r, rs_token = Some apiKey\<rparr>"

definition rs_auth :: "remote_store \<Rightarrow> (string \<times> string) list" where
  "rs_auth r = (case rs_token r of Some k \<Rightarrow> [(''Authorization'', ''Bearer '' @ k)] | None \<Rightarrow> [])"

definition service_error :: "int \<Rightarrow> string \<Rightarrow> string" where
  "service_error c b = ''audit service returned '' @ Itoa c @ '': '' @ b"

definition rs_post :: "remote_store \<Rightarrow> string \<Rightarrow> json \<Rightarrow> http_req" where
  "rs_post r path v = \<lparr>hq_method = ''POST'', hq_url = rs_baseURL r @ path, hq_headers = json_type # rs_auth r,
     hq_body = Some v\<rparr>"

definition rs_get :: "remote_store \<Rightarrow> string \<Rightarrow> http_req" where
  "rs_get r path = \<lparr>hq_method = ''GET'', hq_url = rs_baseURL r @ path, hq_headers = rs_auth r, hq_body = None\<rparr>"

text \<open>The reply of a recording overwrites the three fields of the event when it decodes.\<close>

definition recorded_reply :: "codec \<Rightarrow> string \<Rightarrow> event \<Rightarrow> event" where
  "recorded_reply cd b e = (case cd_parse cd b of
     Inl _ \<Rightarrow> e
   | Inr v \<Rightarrow> (case (field_str ''event_id'' v, field_str ''event_hash'' v, field_str ''prev_hash'' v) of
       (Some i, Some h, Some p) \<Rightarrow> e\<lparr>ev_EventID := i, ev_EventHash := h, ev_PrevHash := p\<rparr>
     | _ \<Rightarrow> e))"

definition rs_Record :: "codec \<Rightarrow> event_codec \<Rightarrow> remote_store \<Rightarrow> event \<Rightarrow> (string option \<times> event) prog" where
  "rs_Record cd ec r e = bindP (http_do cd (rs_post r ''/v1/events'' (ec_json ec e))) (\<lambda>x. Return (case x of
     NotBuilt err \<Rightarrow> (Some (''create request: '' @ err), e)
   | NotSent err \<Rightarrow> (Some (''send event: '' @ err), e)
   | Got c b \<Rightarrow> (if c \<noteq> 200 then (Some (service_error c b), e) else (None, recorded_reply cd b e))))"

definition outcome_json :: "outcome \<Rightarrow> json" where
  "outcome_json o' = JObj ([(''status'', JStr (oc_Status o'))] @ omit ''error_message'' (oc_ErrorMessage o') @
     [(''duration_ms'', JNum (oc_Duration o'))])"

definition rs_RecordOutcome :: "codec \<Rightarrow> remote_store \<Rightarrow> string \<Rightarrow> outcome \<Rightarrow> string option prog" where
  "rs_RecordOutcome cd r eventID o' =
     bindP (http_do cd (rs_post r (''/v1/events/'' @ eventID @ ''/outcome'') (outcome_json o'))) (\<lambda>x. Return (case x of
       NotBuilt err \<Rightarrow> Some (''create request: '' @ err)
     | NotSent err \<Rightarrow> Some (''send outcome: '' @ err)
     | Got c b \<Rightarrow> (if c \<noteq> 200 then Some (service_error c b) else None)))"

text \<open>A JSON array of events; \<^verbatim>\<open>null\<close> decodes to no events.\<close>

definition decode_events :: "codec \<Rightarrow> event_codec \<Rightarrow> string \<Rightarrow> string + event list" where
  "decode_events cd ec b = (case cd_parse cd b of
     Inl e \<Rightarrow> Inl e
   | Inr JNull \<Rightarrow> Inr []
   | Inr (JArr vs) \<Rightarrow> (if list_all (\<lambda>v. ec_event ec v \<noteq> None) vs then Inr (map (\<lambda>v. the (ec_event ec v)) vs)
       else Inl ''json: cannot unmarshal'')
   | Inr _ \<Rightarrow> Inl ''json: cannot unmarshal'')"

definition param :: "string \<Rightarrow> string \<Rightarrow> string" where
  "param k v = (if v \<noteq> [] then k @ ''='' @ v @ ''&'' else [])"

definition rs_Query :: "codec \<Rightarrow> event_codec \<Rightarrow> remote_store \<Rightarrow> query_options \<Rightarrow> (string + event list) prog" where
  "rs_Query cd ec r q =
     bindP (http_do cd (rs_get r (''/v1/events?'' @ param ''session_id'' (qe_SessionID q) @
         param ''trace_id'' (qe_TraceID q) @ param ''event_type'' (qe_EventType q) @ param ''agent'' (qe_Agent q) @
         param ''action_class'' (qe_ActionClass q) @
         (if qe_Since q \<noteq> 0 then ''since='' @ fmt_seconds (qe_Since q) @ ''Z&'' else [])))) (\<lambda>x. Return (case x of
       NotBuilt err \<Rightarrow> Inl (''create request: '' @ err)
     | NotSent err \<Rightarrow> Inl (''query events: '' @ err)
     | Got c b \<Rightarrow> (if c \<noteq> 200 then Inl (service_error c b)
         else (case decode_events cd ec b of Inl e \<Rightarrow> Inl (''decode events: '' @ e) | Inr es \<Rightarrow> Inr es))))"

text \<open>The interface \<^verbatim>\<open>Auditor\<close> as the programs behind its methods, and the client as one.\<close>

record auditor =
  ad_Record :: "event \<Rightarrow> (string option \<times> event) prog"
  ad_RecordOutcome :: "string \<Rightarrow> outcome \<Rightarrow> string option prog"

definition remote_auditor :: "codec \<Rightarrow> event_codec \<Rightarrow> remote_store \<Rightarrow> auditor" where
  "remote_auditor cd ec r = \<lparr>ad_Record = rs_Record cd ec r, ad_RecordOutcome = rs_RecordOutcome cd r\<rparr>"

section \<open>The auditor of the gateway\<close>

definition categorizeAgent :: "string \<Rightarrow> string" where
  "categorizeAgent agent =
     (if agent = ''postgres_database_agent'' then ''database''
      else if agent = ''k8s_agent'' then ''kubernetes''
      else if agent = ''incident_agent'' then ''incident''
      else if agent = ''research_agent'' then ''research''
      else if agent = ''sysadmin_agent'' then ''sysadmin''
      else if agent = ''gateway'' then ''fleet'' else ''unknown'')"

record gateway_request =
  gr_RequestID :: string
  gr_TraceID :: string
  gr_ParentID :: string
  gr_Principal :: string
  gr_ResolvedPrincipal :: principal
  gr_Purpose :: string
  gr_PurposeNote :: string
  gr_Environment :: string
  gr_Endpoint :: string
  gr_Method :: string
  gr_Agent :: string
  gr_ToolName :: string
  gr_ToolParameters :: string
  gr_ActionClass :: string
  gr_Message :: string
  gr_Response :: string
  gr_StartTime :: time
  gr_Duration :: duration
  gr_Status :: string
  gr_Error :: string

record gateway_auditor =
  ga_auditor :: "auditor option"
  ga_manager :: approval_manager

definition NewGatewayAuditor :: "auditor option \<Rightarrow> gateway_auditor" where
  "NewGatewayAuditor a = \<lparr>ga_auditor = a, ga_manager = NewApprovalManager None\<rparr>"

definition NewGatewayAuditorWithPolicy :: "auditor option \<Rightarrow> approval_policy option \<Rightarrow> gateway_auditor" where
  "NewGatewayAuditorWithPolicy a policy = \<lparr>ga_auditor = a, ga_manager = NewApprovalManager policy\<rparr>"

definition CheckApproval :: "time \<Rightarrow> approval_manager \<Rightarrow> approval_request \<Rightarrow> approval" where
  "CheckApproval now m req = approval_Evaluate now (am_policy m) req"

definition request_class :: "gateway_request \<Rightarrow> string" where
  "request_class req =
     (if gr_ActionClass req = [] then
        (if gr_ToolName req \<noteq> [] then ClassifyTool (gr_ToolName req)
         else ClassifyEndpoint (gr_Method req) (gr_Endpoint req))
      else gr_ActionClass req)"

definition request_tool :: "gateway_request \<Rightarrow> tool_execution option" where
  "request_tool req =
     (if gr_ToolName req = [] then None
      else Some \<lparr>tx_Name = gr_ToolName req, tx_Agent = [], tx_Parameters = gr_ToolParameters req,
        tx_RawCommand = [], tx_Result = truncateString (gr_Response req) 500,
        tx_Error = (if gr_Status req = ''error'' then gr_Error req else []), tx_Duration = gr_Duration req,
        tx_PreState = []\<rparr>)"

definition request_event :: "approval_manager \<Rightarrow> string \<Rightarrow> string \<Rightarrow> time \<Rightarrow> gateway_request \<Rightarrow> event" where
  "request_event m tuid uid now req = zero_event\<lparr>ev_EventID := ''gw_'' @ take 8 uid,
     ev_Timestamp := gr_StartTime req, ev_EventType := EventTypeGatewayRequest,
     ev_TraceID := (if gr_TraceID req = [] then NewTraceIDWithPrefix tuid ''tr_'' else gr_TraceID req),
     ev_ParentID := gr_ParentID req, ev_ActionClass := request_class req,
     ev_Principal := (let p = gr_ResolvedPrincipal req in
        if EffectiveID p \<noteq> [] \<or> pr_AuthMethod p \<noteq> [] then Some p else None),
     ev_Purpose := gr_Purpose req, ev_PurposeNote := gr_PurposeNote req,
     ev_Session := (ev_Session zero_event)\<lparr>ss_ID := gr_RequestID req, ss_UserID := gr_Principal req\<rparr>,
     ev_Input := (ev_Input zero_event)\<lparr>in_UserQuery := gr_Message req\<rparr>,
     ev_Output := Some (gr_Response req), ev_Tool := request_tool req,
     ev_Approval := Some (CheckApproval now m \<lparr>aq_ActionClass = request_class req, aq_Agent = gr_Agent req,
        aq_Tool = gr_ToolName req, aq_Environment = gr_Environment req, aq_Principal = gr_Principal req\<rparr>),
     ev_Decision := Some \<lparr>rd_Agent = gr_Agent req, rd_RequestCategory = categorizeAgent (gr_Agent req),
        rd_Confidence = ''1'', rd_UserIntent = gr_Endpoint req, rd_ReasoningChain = [],
        rd_AlternativesConsidered = []\<rparr>,
     ev_Outcome := Some \<lparr>oc_Status = gr_Status req, oc_ErrorMessage = gr_Error req,
        oc_Duration = gr_Duration req\<rparr>\<rparr>"

definition RecordEvent :: "gateway_auditor \<Rightarrow> event \<Rightarrow> string option prog" where
  "RecordEvent a e = (case ga_auditor a of
     None \<Rightarrow> Return None
   | Some au \<Rightarrow> bindP (ad_Record au e) (\<lambda>(err, _). Return err))"

definition RecordRequest ::
  "gateway_auditor \<Rightarrow> string \<Rightarrow> string \<Rightarrow> gateway_request \<Rightarrow> string option prog" where
  "RecordRequest a tuid uid req = (case ga_auditor a of
     None \<Rightarrow> Return None
   | Some au \<Rightarrow> Now (\<lambda>now. bindP (ad_Record au (request_event (ga_manager a) tuid uid now req))
       (\<lambda>(err, _). Return err)))"

text \<open>The middleware records the status the wrapped handler wrote.\<close>

definition AuditMiddleware ::
  "gateway_auditor \<Rightarrow> string \<Rightarrow> string \<Rightarrow> string \<Rightarrow> (int \<times> 'r) prog \<Rightarrow> (int \<times> 'r) prog" where
  "AuditMiddleware a uid method path next = (case ga_auditor a of
     None \<Rightarrow> next
   | Some au \<Rightarrow> Now (\<lambda>start. bindP next (\<lambda>(status, r). Now (\<lambda>finish.
       bindP (ad_Record au (zero_event\<lparr>ev_EventID := ''gw_'' @ take 8 uid, ev_Timestamp := start,
           ev_EventType := EventTypeGatewayRequest,
           ev_Session := (ev_Session zero_event)\<lparr>ss_ID := take 8 uid\<rparr>,
           ev_Input := (ev_Input zero_event)\<lparr>in_UserQuery := path\<rparr>,
           ev_Decision := Some \<lparr>rd_Agent = [], rd_RequestCategory = [], rd_Confidence = ''1'',
             rd_UserIntent = method @ '' '' @ path, rd_ReasoningChain = [], rd_AlternativesConsidered = []\<rparr>,
           ev_Outcome := Some \<lparr>oc_Status = (if status \<ge> 400 then ''error'' else ''success''),
             oc_ErrorMessage = [], oc_Duration = int finish - int start\<rparr>\<rparr>))
         (\<lambda>_. Return (status, r))))))"

section \<open>Facts\<close>

lemma field_str_reply:
  "field_str ''event_id'' (JObj [(''event_id'', JStr i), (''event_hash'', JStr h), (''prev_hash'', JStr p)]) = Some i"
  "field_str ''event_hash'' (JObj [(''event_id'', JStr i), (''event_hash'', JStr h), (''prev_hash'', JStr p)]) = Some h"
  "field_str ''prev_hash'' (JObj [(''event_id'', JStr i), (''event_hash'', JStr h), (''prev_hash'', JStr p)]) = Some p"
  by (simp_all add: field_str_def ToLower_def lower_char_def)

lemma decode_events_encoded:
  assumes "cd_parse cd (cd_text cd (JArr (map (ec_json ec) es))) = Inr (JArr (map (ec_json ec) es))"
    and "\<forall>e \<in> set es. ec_event ec (ec_json ec e) = Some e"
  shows "decode_events cd ec (cd_text cd (JArr (map (ec_json ec) es))) = Inr es"
proof -
  have "map (\<lambda>v. the (ec_event ec v)) (map (ec_json ec) es) = es"
    using assms(2) by (induction es) auto
  moreover have "list_all (\<lambda>v. ec_event ec v \<noteq> None) (map (ec_json ec) es)"
    using assms(2) by (auto simp: list_all_iff)
  ultimately show ?thesis
    by (simp add: decode_events_def assms(1))
qed

text \<open>The tables the service can have: from an empty one by requests of the two recording routes.\<close>

inductive event_log :: "digest \<Rightarrow> audit_store \<Rightarrow> bool" for digest where
  start: "event_log digest (initLastHash [])"
| recording: "event_log digest s \<Longrightarrow> event_log digest (snd (handleRecordEvent digest a b s))"
| outcomes: "event_log digest s \<Longrightarrow> event_log digest (snd (handleRecordOutcome flt eventID o' s))"

definition indexed :: "audit_row \<Rightarrow> bool" where
  "indexed r \<longleftrightarrow> aw_event_type r = ev_EventType (aw_raw r) \<and> aw_trace_id r = ev_TraceID (aw_raw r) \<and>
     aw_timestamp r = fmt_sqlite (ev_Timestamp (aw_raw r))"

lemma indexed_row_of: "indexed (row_of e)"
  by (simp add: indexed_def row_of_def Let_def case_prod_unfold)

lemma Record_indexed:
  assumes "list_all indexed (au_rows s)"
  shows "list_all indexed (au_rows (snd (Record digest a e s)))"
  using assms unfolding Record_def Let_def by (auto simp: indexed_row_of split: option.splits)

lemma RecordOutcome_indexed:
  assumes "list_all indexed (au_rows s)"
  shows "list_all indexed (au_rows (snd (RecordOutcome flt i o' s)))"
  using assms by (auto simp: RecordOutcome_def list_all_iff indexed_def split: option.splits)

lemma event_log_indexed: "event_log digest s \<Longrightarrow> list_all indexed (au_rows s)"
proof (induction rule: event_log.induct)
  case start
  then show ?case by (simp add: initLastHash_def)
next
  case (recording s a b)
  then show ?case
    using Record_indexed [of s digest a]
    by (auto simp: handleRecordEvent_def split: body.splits prod.splits sum.splits) (metis snd_conv)+
next
  case (outcomes s flt eventID o')
  then show ?case
    using RecordOutcome_indexed [of s flt eventID]
    by (auto simp: handleRecordOutcome_def split: body.splits prod.splits option.splits) (metis snd_conv)+
qed

text \<open>What the client of the service learns: when the reply of the handler arrives, the event in the
  client's hands has the identifier and the hashes under which the service stored it.\<close>

theorem remote_record_faithful:
  assumes "cd_url cd (rs_baseURL r @ ''/v1/events'') = None"
    and "handleRecordEvent digest a (Body e) s = ((200, Inr m), s')"
    and "wd_reply w n (rs_post r ''/v1/events'' (ec_json ec e)) = (Response 200 (cd_text cd (JObj m)), d)"
    and "cd_parse cd (cd_text cd (JObj m)) = Inr (JObj m)"
  shows "\<exists>stored e' n'. run w (rs_Record cd ec r e) n = ((None, e'), n') \<and>
     recorded s' = recorded s @ [stored] \<and> ev_EventID e' = ev_EventID stored \<and>
     ev_EventHash e' = ev_EventHash stored \<and> ev_PrevHash e' = au_lastHash s"
proof -
  obtain stored where rec: "Record digest a e s = (Inr stored, s')"
      and m: "m = [(''event_id'', JStr (ev_EventID stored)), (''event_hash'', JStr (ev_EventHash stored)),
        (''prev_hash'', JStr (ev_PrevHash stored))]"
    using assms(2) by (auto simp: handleRecordEvent_def split: prod.splits sum.splits)
  obtain e0 where "stored = seal digest (au_lastHash s) e0" and log: "recorded s' = recorded s @ [stored]"
    using Record_seal [OF rec] by blast
  then have "ev_PrevHash stored = au_lastHash s" by (simp add: seal_def Let_def)
  with log show ?thesis
    using assms(1,3,4)
    by (simp add: rs_Record_def http_do_def rs_post_def send_def recorded_reply_def m field_str_reply)
qed

end
