(* ===== verification/Delegation.thy ===== *)
theory Delegation
  imports Remote_Audit
begin

text \<open>
  How the orchestrator delegates: the guard of \<^verbatim>\<open>internal/audit/delegation_guard.go\<close>, the model
  callback of \<^verbatim>\<open>internal/audit/no_delegation_callback.go\<close>, and the delegation tool with its
  verification of \<^verbatim>\<open>internal/audit/delegate_tool.go\<close>. The agent framework that calls the callback
  and the tool is not part of the sources: its calls are a sequence of actions. The A2A client is the
  argument \<open>a2a\<close>, a program that sends a message to the URL of an agent card. \<open>uid\<close> and \<open>uid'\<close> are
  fresh UUID texts.
\<close>

section \<open>The guard\<close>

record delegation_guard =
  dg_called :: "string \<rightharpoonup> bool"
  dg_retries :: "string \<rightharpoonup> int"

definition NewDelegationGuard :: delegation_guard where
  "NewDelegationGuard = \<lparr>dg_called = Map.empty, dg_retries = Map.empty\<rparr>"

definition MarkCalled :: "string \<Rightarrow> delegation_guard \<Rightarrow> delegation_guard" where
  "MarkCalled invID g = g\<lparr>dg_called := (dg_called g)(invID \<mapsto> True)\<rparr>"

definition WasCalled :: "string \<Rightarrow> delegation_guard \<Rightarrow> bool" where
  "WasCalled invID g = (case dg_called g invID of Some b \<Rightarrow> b | None \<Rightarrow> False)"

definition RetryCount :: "string \<Rightarrow> delegation_guard \<Rightarrow> int" where
  "RetryCount invID g = (case dg_retries g invID of Some n \<Rightarrow> n | None \<Rightarrow> 0)"

definition IncrementRetry :: "string \<Rightarrow> delegation_guard \<Rightarrow> int \<times> delegation_guard" where
  "IncrementRetry invID g = (let n = wrap64 (RetryCount invID g + 1)
     in (n, g\<lparr>dg_retries := (dg_retries g)(invID \<mapsto> n)\<rparr>))"

definition guard_Reset :: "string \<Rightarrow> delegation_guard \<Rightarrow> delegation_guard" where
  "guard_Reset invID g = g\<lparr>dg_called := (dg_called g)(invID := None), dg_retries := (dg_retries g)(invID := None)\<rparr>"

section \<open>The callback after the model\<close>

record llm_part =
  lp_Text :: string
  lp_Thought :: bool
  lp_FunctionCall :: "(string \<times> json_map) option"

record llm_content =
  lc_Role :: string
  lc_Parts :: "llm_part list"

text \<open>A response is its content, which may be missing.\<close>

type_synonym llm_response = "llm_content option"

definition CorrectionToolName :: string where
  "CorrectionToolName = ''_delegation_required''"

definition DefaultMaxDelegationRetries :: int where
  "DefaultMaxDelegationRetries = 2"

definition suppressed :: "int \<Rightarrow> llm_response" where
  "suppressed maxRetries = Some \<lparr>lc_Role = ''model'', lc_Parts = [\<lparr>lp_Text =
     ''I was unable to route this request through the appropriate specialist agent after '' @ Itoa maxRetries @
     '' attempts. Please try rephrasing your question or contact support.'',
     lp_Thought = False, lp_FunctionCall = None\<rparr>]\<rparr>"

definition injected :: "int \<Rightarrow> llm_response" where
  "injected attempt = Some \<lparr>lc_Role = ''model'', lc_Parts = [\<lparr>lp_Text = [], lp_Thought = False,
     lp_FunctionCall = Some (CorrectionToolName, [(''attempt'', JNum attempt)])\<rparr>]\<rparr>"

definition max_retries :: "int \<Rightarrow> int" where
  "max_retries maxRetries = (if maxRetries \<le> 0 then DefaultMaxDelegationRetries else maxRetries)"

text \<open>The result is the replacement of the response; \<^term>\<open>None\<close> lets the response of the model
  through. The error of the model is not looked at.\<close>

definition NoDelegationCallback ::
  "int \<Rightarrow> string \<Rightarrow> llm_response option \<Rightarrow> delegation_guard \<Rightarrow> llm_response option \<times> delegation_guard" where
  "NoDelegationCallback maxRetries invID llmResponse g =
     (let maxRetries = max_retries maxRetries in
      case llmResponse of
        None \<Rightarrow> (None, g)
      | Some None \<Rightarrow> (None, g)
      | Some (Some content) \<Rightarrow>
          (if WasCalled invID g then (None, g)
           else
             (let hasText = list_ex (\<lambda>p. lp_Text p \<noteq> [] \<and> \<not> lp_Thought p) (lc_Parts content);
                  hasFunctionCall = list_ex (\<lambda>p. lp_FunctionCall p \<noteq> None) (lc_Parts content)
              in if hasFunctionCall \<or> \<not> hasText then (None, g)
                 else (let (attempt, g) = IncrementRetry invID g in
                   if attempt > maxRetries then (Some (suppressed maxRetries), g)
                   else (Some (injected attempt), g)))))"

definition correction_message :: "int \<Rightarrow> string" where
  "correction_message attempt = ''[SYSTEM CORRECTION '' @ em_dash @ '' attempt '' @ Itoa attempt @
     ''] You responded directly without calling delegate_to_agent. '' @
     ''You MUST delegate ALL technical requests to a specialist agent using the delegate_to_agent tool. '' @
     ''Do not answer infrastructure, database, or Kubernetes questions directly. '' @
     ''Call delegate_to_agent now.''"

definition NoDelegationCorrectionTool ::
  "auditor option \<Rightarrow> string \<Rightarrow> string \<Rightarrow> int \<Rightarrow> json_map prog" where
  "NoDelegationCorrectionTool auditor sessionID uid attempt =
     (let res = [(''correction'', JStr (correction_message attempt))] in
      case auditor of
        None \<Rightarrow> Return res
      | Some au \<Rightarrow> Now (\<lambda>now. bindP (ad_Record au (zero_event\<lparr>ev_EventID := ''nd_'' @ take 8 uid,
            ev_Timestamp := now, ev_EventType := ''no_delegation_turn'',
            ev_Session := (ev_Session zero_event)\<lparr>ss_ID := sessionID\<rparr>,
            ev_Output := Some (''correction attempt '' @ Itoa attempt)\<rparr>)) (\<lambda>_. Return res)))"

text \<open>One orchestrator serves many invocations on one guard. An action is the tool starting for an
  invocation or the model answering it; a run returns what the callback makes of every answer.\<close>

datatype guard_action = Delegated string | Answered string "llm_response option"

fun guard_run :: "int \<Rightarrow> guard_action list \<Rightarrow> delegation_guard \<Rightarrow> (string \<times> llm_response option) list" where
  "guard_run m [] g = []"
| "guard_run m (Delegated i # acts) g = guard_run m acts (MarkCalled i g)"
| "guard_run m (Answered i r # acts) g =
     (let (x, g') = NoDelegationCallback m i r g in (i, x) # guard_run m acts g')"

section \<open>Arguments and results of the tool\<close>

record delegate_args =
  da_Agent :: string
  da_RequestCategory :: string
  da_Confidence :: string
  da_UserIntent :: string
  da_ReasoningChain :: "string list"
  da_AlternativesConsidered :: "alternative list"
  da_Message :: string

record delegate_result =
  dr_Agent :: string
  dr_Response :: string
  dr_Duration :: string
  dr_EventID :: string

text \<open>The registry is a map; the order in which its names are listed is not specified, and
  \<open>order\<close> is one of them.\<close>

type_synonym agent_registry = "string \<rightharpoonup> string"

definition Register :: "string \<Rightarrow> string \<Rightarrow> agent_registry \<Rightarrow> agent_registry" where
  "Register name url r = r(name \<mapsto> url)"

definition registry_Get :: "agent_registry \<Rightarrow> string \<Rightarrow> string" where
  "registry_Get r name = (case r name of Some u \<Rightarrow> u | None \<Rightarrow> [])"

text \<open>\<^verbatim>\<open>Duration.String\<close>.\<close>

definition fraction_str :: "nat \<Rightarrow> nat \<Rightarrow> string" where
  "fraction_str k u = (let ds = rev (dropWhile (\<lambda>c. c = CHR ''0'') (rev (digits k (u mod 10 ^ k))))
     in if ds = [] then [] else CHR ''.'' # ds)"

definition duration_str :: "duration \<Rightarrow> string" where
  "duration_str d =
     (let u = nat \<bar>d\<bar>; secs = u div 10 ^ 9;
          body = (if u = 0 then ''0s''
            else if u < 10 ^ 3 then nat_str u @ ''ns''
            else if u < 10 ^ 6 then nat_str (u div 10 ^ 3) @ fraction_str 3 u @ [CHR 0xC2, CHR 0xB5, CHR ''s'']
            else if u < 10 ^ 9 then nat_str (u div 10 ^ 6) @ fraction_str 6 u @ ''ms''
            else (if secs div 3600 > 0 then nat_str (secs div 3600) @ ''h'' else []) @
              (if secs div 60 > 0 then nat_str (secs div 60 mod 60) @ ''m'' else []) @
              nat_str (secs mod 60) @ fraction_str 9 u @ ''s'')
      in if d < 0 then CHR ''-'' # body else body)"

section \<open>Calling the agent\<close>

datatype a2a_part = TextPart string | OtherPart

record a2a_reply =
  rm_agent :: bool
  rm_Parts :: "a2a_part list"

datatype a2a_result =
    A2ATask "a2a_reply option" "a2a_reply list" "a2a_part list list"
  | A2AMessage "a2a_part list"

definition partsToText :: "a2a_part list \<Rightarrow> string" where
  "partsToText parts = join_str [CHR 10]
     (List.map_filter (\<lambda>p. case p of TextPart t \<Rightarrow> Some t | OtherPart \<Rightarrow> None) parts)"

definition first_text :: "a2a_part list list \<Rightarrow> string" where
  "first_text pss = (case find (\<lambda>ps. partsToText ps \<noteq> []) pss of Some ps \<Rightarrow> partsToText ps | None \<Rightarrow> [])"

text \<open>A task: the status message, the agent messages of the history from the last, the artifacts.\<close>

definition extractResponseText :: "a2a_result \<Rightarrow> string" where
  "extractResponseText res = (case res of
     A2ATask status history artifacts \<Rightarrow>
       first_text ((case status of Some m \<Rightarrow> [rm_Parts m] | None \<Rightarrow> []) @
         map rm_Parts (filter rm_agent (rev history)) @ artifacts)
   | A2AMessage parts \<Rightarrow> partsToText parts)"

definition fetchAgentCard :: "codec \<Rightarrow> string \<Rightarrow> (string + json) prog" where
  "fetchAgentCard cd cardURL =
     bindP (http_do cd \<lparr>hq_method = ''GET'', hq_url = cardURL, hq_headers = [], hq_body = None\<rparr>) (\<lambda>x. Return (case x of
       NotBuilt err \<Rightarrow> Inl err
     | NotSent err \<Rightarrow> Inl err
     | Got c b \<Rightarrow> (if c \<noteq> 200 then Inl (''HTTP '' @ Itoa c @ '' from '' @ cardURL) else cd_parse cd b)))"

text \<open>The client gets the card, the URL that replaces the one of the card, the text and the metadata.\<close>

datatype a2a_failure = NoClient string | NotDelivered string

type_synonym a2a_client = "json \<Rightarrow> string \<Rightarrow> string \<Rightarrow> json_map \<Rightarrow> (a2a_failure + a2a_result) prog"

definition callAgentWithTrace ::
  "codec \<Rightarrow> a2a_client \<Rightarrow> trace_context option \<Rightarrow> string \<Rightarrow> string \<Rightarrow> string \<Rightarrow> (string + string) prog" where
  "callAgentWithTrace cd a2a tc agentURL message traceID =
     bindP (fetchAgentCard cd (TrimSuffix agentURL ''/'' @ ''/.well-known/agent-card.json'')) (\<lambda>card.
       case card of
         Inl err \<Rightarrow> Return (Inl (''fetching agent card: '' @ err))
       | Inr c \<Rightarrow> bindP (a2a c (TrimSuffix agentURL ''/'' @ ''/invoke'') message (delegate_metadata traceID tc)) (\<lambda>r.
           Return (case r of
             Inl (NoClient err) \<Rightarrow> Inl (''creating A2A client: '' @ err)
           | Inl (NotDelivered err) \<Rightarrow> Inl (''sending message: '' @ err)
           | Inr v \<Rightarrow> Inr (extractResponseText v))))"

section \<open>Verification of a delegation\<close>

definition TrimRight_slash :: "string \<Rightarrow> string" where
  "TrimRight_slash s = rev (dropWhile (\<lambda>c. c = CHR ''/'') (rev s))"

definition verification_url :: "string \<Rightarrow> string \<Rightarrow> time \<Rightarrow> string" where
  "verification_url auditURL traceID since = TrimRight_slash auditURL @
     ''/v1/events?event_type=tool_execution&trace_id='' @ traceID @ ''&since='' @ fmt_seconds since @ ''Z''"

definition verification_get :: "string \<Rightarrow> string \<Rightarrow> string \<Rightarrow> time \<Rightarrow> http_req" where
  "verification_get auditURL apiKey traceID since = \<lparr>hq_method = ''GET'',
     hq_url = verification_url auditURL traceID since, hq_headers = bearer apiKey, hq_body = None\<rparr>"

text \<open>One attempt; the status of the reply is not looked at.\<close>

definition fetch_attempt :: "codec \<Rightarrow> event_codec \<Rightarrow> http_req \<Rightarrow> event list option prog" where
  "fetch_attempt cd ec req = bindP (http_do cd req) (\<lambda>x. Return (case x of
     Got c b \<Rightarrow> (case decode_events cd ec b of Inr es \<Rightarrow> Some es | Inl _ \<Rightarrow> None)
   | _ \<Rightarrow> None))"

definition fetchToolExecutionEvents ::
  "codec \<Rightarrow> event_codec \<Rightarrow> string \<Rightarrow> string \<Rightarrow> string \<Rightarrow> time \<Rightarrow> event list prog" where
  "fetchToolExecutionEvents cd ec auditURL apiKey traceID since =
     (let req = verification_get auditURL apiKey traceID since in
      bindP (fetch_attempt cd ec req) (\<lambda>r. case r of
        Some es \<Rightarrow> Return es
      | None \<Rightarrow> Sleep 200000000 (bindP (fetch_attempt cd ec req) (\<lambda>r. Return (case r of
          Some es \<Rightarrow> es | None \<Rightarrow> [])))))"

definition zero_verification :: delegation_verification where
  "zero_verification = \<lparr>dv_DelegationEventID = [], dv_Agent = [], dv_ActionClass = [], dv_ToolsConfirmed = [],
     dv_WriteConfirmed = [], dv_DestructiveConfirmed = [], dv_Mismatch = False, dv_MismatchReason = []\<rparr>"

definition tool_names :: "event list \<Rightarrow> string list" where
  "tool_names es = List.map_filter (\<lambda>e. case ev_Tool e of
     Some t \<Rightarrow> if tx_Name t = [] then None else Some (tx_Name t) | None \<Rightarrow> None) es"

definition verify_events :: "string \<Rightarrow> event list \<Rightarrow> delegation_verification \<Rightarrow> delegation_verification" where
  "verify_events actionClass es v =
     (let ts = tool_names es;
          ds = filter (\<lambda>t. ClassifyTool t = ClassDestructive) ts;
          ws = filter (\<lambda>t. ClassifyTool t = ClassWrite) ts
      in v\<lparr>dv_ToolsConfirmed := ts, dv_DestructiveConfirmed := ds, dv_WriteConfirmed := ws,
          dv_Mismatch := (if actionClass = ClassDestructive then ds = []
            else if actionClass = ClassWrite then ws = [] \<and> ds = [] else False)\<rparr>)"

definition buildDelegationVerification ::
  "codec \<Rightarrow> event_codec \<Rightarrow> string \<Rightarrow> string \<Rightarrow> string \<Rightarrow> time \<Rightarrow> string \<Rightarrow> string \<Rightarrow> string \<Rightarrow>
   delegation_verification prog" where
  "buildDelegationVerification cd ec auditURL auditAPIKey traceID since actionClass delegationEventID agent =
     (let v = zero_verification\<lparr>dv_DelegationEventID := delegationEventID, dv_Agent := agent,
          dv_ActionClass := actionClass\<rparr>
      in if auditURL = [] then Return v
         else bindP (fetchToolExecutionEvents cd ec auditURL auditAPIKey traceID since)
           (\<lambda>es. Return (verify_events actionClass es v)))"

definition mismatch_lines :: "string \<Rightarrow> string" where
  "mismatch_lines cls = [CHR 0xE2, CHR 0x9A, CHR 0xA0, CHR 0xEF, CHR 0xB8, CHR 0x8F] @
     ''  MISMATCH: this delegation was classified as '' @ cls @ '' but NO '' @ cls @
     ''-or-stronger tool execution appears in the audit trail.'' @ [CHR 10] @
     ''You MUST tell the user the action could not be verified and was likely not executed. Do NOT claim success.'' @
     [CHR 10]"

definition clean_line :: string where
  "clean_line = [CHR 0xE2, CHR 0x9C, CHR 0x93] @ '' VERIFICATION CLEAN: no mismatch. Tool execution matches delegation. '' @
     ''Report the agent'' @ [CHR 39] @ ''s result as-is (success or error).'' @ [CHR 10]"

definition confirmed_line :: "string \<Rightarrow> string list \<Rightarrow> string" where
  "confirmed_line label ts = label @ (if ts = [] then ''none'' else join_str '', '' ts) @ [CHR 10]"

definition formatVerificationBlock :: "delegation_verification \<Rightarrow> string" where
  "formatVerificationBlock v =
     [CHR 10, CHR 10] @ ''---[AUDIT VERIFICATION | delegation: '' @ dv_DelegationEventID v @ '']'' @ [CHR 10] @
     confirmed_line ''Tools confirmed by audit trail: ''
       (map (\<lambda>t. t @ '' ('' @ ClassifyTool t @ '')'') (dv_ToolsConfirmed v)) @
     confirmed_line ''Write tools confirmed: '' (dv_WriteConfirmed v) @
     confirmed_line ''Destructive tools confirmed: '' (dv_DestructiveConfirmed v) @
     (if dv_Mismatch v then mismatch_lines (dv_ActionClass v) else clean_line) @ ''---''"

section \<open>The delegation tool\<close>

record delegate_config =
  dc_auditor :: "auditor option"
  dc_auditURL :: string
  dc_auditAPIKey :: string
  dc_registry :: agent_registry
  dc_order :: "string list"
  dc_sessionID :: string
  dc_userID :: string
  dc_traceID :: string
  dc_callerName :: string
  dc_sessionPurpose :: string

definition maybe_record :: "auditor option \<Rightarrow> event \<Rightarrow> event prog" where
  "maybe_record auditor e = (case auditor of
     None \<Rightarrow> Return e | Some au \<Rightarrow> bindP (ad_Record au e) (\<lambda>(_, e'). Return e'))"

definition maybe_outcome :: "auditor option \<Rightarrow> string \<Rightarrow> outcome \<Rightarrow> unit prog" where
  "maybe_outcome auditor eventID o' = (case auditor of
     None \<Rightarrow> Return () | Some au \<Rightarrow> bindP (ad_RecordOutcome au eventID o') (\<lambda>_. Return ()))"

definition delegation_event :: "delegate_config \<Rightarrow> string \<Rightarrow> time \<Rightarrow> int \<Rightarrow> delegate_args \<Rightarrow> event" where
  "delegation_event dc uid start n args = zero_event\<lparr>ev_EventID := ''evt_'' @ take 8 uid,
     ev_Timestamp := start, ev_EventType := EventTypeDelegation, ev_TraceID := dc_traceID dc,
     ev_ActionClass := ClassifyDelegation (da_Agent args) (da_Message args),
     ev_Session := \<lparr>ss_ID = dc_sessionID dc, ss_UserID = dc_userID dc, ss_AgentName = dc_callerName dc,
       ss_StartedAt = start, ss_DelegationCount = n\<rparr>,
     ev_Input := (ev_Input zero_event)\<lparr>in_UserQuery := da_UserIntent args\<rparr>,
     ev_Decision := Some \<lparr>rd_Agent = da_Agent args, rd_RequestCategory = da_RequestCategory args,
       rd_Confidence = da_Confidence args, rd_UserIntent = da_UserIntent args,
       rd_ReasoningChain = da_ReasoningChain args, rd_AlternativesConsidered = da_AlternativesConsidered args\<rparr>\<rparr>"

definition delegation_context :: "delegate_config \<Rightarrow> trace_context option" where
  "delegation_context dc = (if dc_sessionPurpose dc = [] then None
     else Some \<lparr>tc_TraceID = dc_traceID dc, tc_ParentID = [], tc_Origin = [], tc_Principal = zero_principal,
       tc_Purpose = dc_sessionPurpose dc, tc_PurposeNote = [], tc_PurposeExplicit = True,
       tc_ApprovalMode = [], tc_ApprovalSession = []\<rparr>)"

definition elapsed :: "time \<Rightarrow> time \<Rightarrow> duration" where
  "elapsed start now = int now - int start"

definition verified_reply ::
  "codec \<Rightarrow> event_codec \<Rightarrow> delegate_config \<Rightarrow> string \<Rightarrow> time \<Rightarrow> duration \<Rightarrow> event \<Rightarrow> delegate_args \<Rightarrow> string \<Rightarrow>
   delegate_result prog" where
  "verified_reply cd ec dc uid' start d ev args response =
     bindP (buildDelegationVerification cd ec (dc_auditURL dc) (dc_auditAPIKey dc) (dc_traceID dc) start
         (ClassifyDelegation (da_Agent args) (da_Message args)) (ev_EventID ev) (da_Agent args)) (\<lambda>verif.
     Now (\<lambda>now. bindP (maybe_record (dc_auditor dc) (zero_event\<lparr>ev_EventID := ''evt_'' @ take 8 uid',
         ev_Timestamp := now, ev_EventType := EventTypeDelegationVerification, ev_TraceID := dc_traceID dc,
         ev_Session := ev_Session ev, ev_DelegationVerification := Some verif\<rparr>)) (\<lambda>_.
       Return \<lparr>dr_Agent = da_Agent args, dr_Response = response @ formatVerificationBlock verif,
         dr_Duration = duration_str d, dr_EventID = ev_EventID ev\<rparr>)))"

definition call_delegate ::
  "codec \<Rightarrow> event_codec \<Rightarrow> a2a_client \<Rightarrow> delegate_config \<Rightarrow> string \<Rightarrow> time \<Rightarrow> event \<Rightarrow> delegate_args \<Rightarrow>
   delegate_result prog" where
  "call_delegate cd ec a2a dc uid' start ev args =
     bindP (callAgentWithTrace cd a2a (delegation_context dc) (registry_Get (dc_registry dc) (da_Agent args))
         (da_Message args) (dc_traceID dc)) (\<lambda>r.
     Now (\<lambda>now. let d = elapsed start now in
       case r of
         Inl err \<Rightarrow>
           bindP (maybe_outcome (dc_auditor dc) (ev_EventID ev)
               \<lparr>oc_Status = ''error'', oc_ErrorMessage = err, oc_Duration = d\<rparr>) (\<lambda>_.
             Return \<lparr>dr_Agent = da_Agent args, dr_Response = ''Error calling agent: '' @ err,
               dr_Duration = duration_str d, dr_EventID = ev_EventID ev\<rparr>)
       | Inr response \<Rightarrow>
           bindP (maybe_outcome (dc_auditor dc) (ev_EventID ev)
               \<lparr>oc_Status = ''success'', oc_ErrorMessage = [], oc_Duration = d\<rparr>) (\<lambda>_.
             verified_reply cd ec dc uid' start d ev args response)))"

definition unknown_agent :: "delegate_config \<Rightarrow> time \<Rightarrow> event \<Rightarrow> delegate_args \<Rightarrow> delegate_result prog" where
  "unknown_agent dc start ev args =
     Now (\<lambda>now. bindP (maybe_outcome (dc_auditor dc) (ev_EventID ev) \<lparr>oc_Status = ''error'',
         oc_ErrorMessage = ''agent '' @ Quote (da_Agent args) @ '' not found in registry'',
         oc_Duration = elapsed start now\<rparr>) (\<lambda>_.
       Now (\<lambda>now. Return \<lparr>dr_Agent = da_Agent args,
         dr_Response = ''Error: agent '' @ Quote (da_Agent args) @ '' is not available. Available agents: '' @
           fmt_strs (dc_order dc),
         dr_Duration = duration_str (elapsed start now), dr_EventID = ev_EventID ev\<rparr>)))"

text \<open>One call of the tool, from the count of delegations so far and the guard.\<close>

definition delegateFunc ::
  "codec \<Rightarrow> event_codec \<Rightarrow> a2a_client \<Rightarrow> delegate_config \<Rightarrow> string \<Rightarrow> string \<Rightarrow> string \<Rightarrow> delegate_args \<Rightarrow>
   int \<times> delegation_guard \<Rightarrow> (delegate_result \<times> int \<times> delegation_guard) prog" where
  "delegateFunc cd ec a2a dc uid uid' invID args st =
     (case st of (n, g) \<Rightarrow>
      Now (\<lambda>start. bindP (maybe_record (dc_auditor dc) (delegation_event dc uid start (n + 1) args)) (\<lambda>ev.
        bindP (if registry_Get (dc_registry dc) (da_Agent args) = [] then unknown_agent dc start ev args
               else call_delegate cd ec a2a dc uid' start ev args) (\<lambda>r.
          Return (r, n + 1, MarkCalled invID g)))))"

definition DelegateToolWithTrace :: "string \<Rightarrow> delegate_config \<Rightarrow> delegate_config \<times> int \<times> delegation_guard" where
  "DelegateToolWithTrace uid dc =
     ((if dc_traceID dc = [] then dc\<lparr>dc_traceID := NewTraceIDWithPrefix uid ''tr_''\<rparr> else dc), 0, NewDelegationGuard)"

section \<open>Facts about the guard\<close>

definition text_only :: "llm_response option \<Rightarrow> bool" where
  "text_only r = (case r of
     Some (Some c) \<Rightarrow> list_ex (\<lambda>p. lp_Text p \<noteq> [] \<and> \<not> lp_Thought p) (lc_Parts c) \<and>
       \<not> list_ex (\<lambda>p. lp_FunctionCall p \<noteq> None) (lc_Parts c)
   | _ \<Rightarrow> False)"

text \<open>The answers of one invocation in a sequence, the results of one invocation in a run, and what
  an invocation without delegation is due: the k-th answer in plain text becomes the k-th correction
  up to the maximum and the fixed message afterwards; all other answers pass.\<close>

definition answers :: "string \<Rightarrow> guard_action list \<Rightarrow> llm_response option list" where
  "answers i acts = List.map_filter (\<lambda>a. case a of
     Answered j r \<Rightarrow> if j = i then Some r else None | Delegated _ \<Rightarrow> None) acts"

definition results_of :: "string \<Rightarrow> (string \<times> 'r) list \<Rightarrow> 'r list" where
  "results_of i xs = map snd (filter (\<lambda>x. fst x = i) xs)"

fun corrections :: "int \<Rightarrow> int \<Rightarrow> llm_response option list \<Rightarrow> llm_response option list" where
  "corrections m k [] = []"
| "corrections m k (r # rs) =
     (if text_only r then Some (if k < m then injected (k + 1) else suppressed m) # corrections m (k + 1) rs
      else None # corrections m k rs)"

lemma answers_simps [simp]:
  "answers i [] = []" "answers i (Delegated j # acts) = answers i acts"
  "answers i (Answered j r # acts) = (if j = i then r # answers i acts else answers i acts)"
  by (simp_all add: answers_def List.map_filter_def)

lemma results_of_simps [simp]:
  "results_of i [] = []" "results_of i ((j, x) # xs) = (if j = i then x # results_of i xs else results_of i xs)"
  by (simp_all add: results_of_def)

lemma results_of_append [simp]: "results_of i (xs @ ys) = results_of i xs @ results_of i ys"
  by (simp add: results_of_def)

lemma guard_other:
  assumes "i \<noteq> j"
  shows "WasCalled i (MarkCalled j g) = WasCalled i g" "RetryCount i (MarkCalled j g) = RetryCount i g"
    "WasCalled i (snd (NoDelegationCallback m j r g)) = WasCalled i g"
    "RetryCount i (snd (NoDelegationCallback m j r g)) = RetryCount i g"
  using assms
  by (auto simp: WasCalled_def MarkCalled_def RetryCount_def NoDelegationCallback_def IncrementRetry_def Let_def
      split: option.splits)

lemma callback_called: "WasCalled i g \<Longrightarrow> NoDelegationCallback m i r g = (None, g)"
  by (simp add: NoDelegationCallback_def Let_def split: option.splits)

lemma callback_other: "\<not> text_only r \<Longrightarrow> NoDelegationCallback m i r g = (None, g)"
  by (auto simp: NoDelegationCallback_def text_only_def Let_def split: option.splits)

lemma callback_text_only:
  assumes "text_only r" "\<not> WasCalled i g" "0 \<le> RetryCount i g" "RetryCount i g + 1 < 2 ^ 63"
  shows "fst (NoDelegationCallback m i r g) =
      Some (if RetryCount i g < max_retries m then injected (RetryCount i g + 1) else suppressed (max_retries m))"
    and "RetryCount i (snd (NoDelegationCallback m i r g)) = RetryCount i g + 1"
    and "WasCalled i (snd (NoDelegationCallback m i r g)) \<longleftrightarrow> False"
proof -
  obtain c where r: "r = Some (Some c)"
    using assms(1) by (auto simp: text_only_def split: option.splits)
  have w: "wrap64 (RetryCount i g + 1) = RetryCount i g + 1"
    by (rule wrap64_id) (use assms(3,4) in simp_all)
  have cb: "NoDelegationCallback m i r g = (let (attempt, g') = IncrementRetry i g in
      if attempt > max_retries m then (Some (suppressed (max_retries m)), g') else (Some (injected attempt), g'))"
    using assms(1,2) by (simp add: NoDelegationCallback_def r text_only_def Let_def)
  show "fst (NoDelegationCallback m i r g) =
      Some (if RetryCount i g < max_retries m then injected (RetryCount i g + 1) else suppressed (max_retries m))"
    by (simp add: cb IncrementRetry_def w Let_def)
  have "RetryCount i (g\<lparr>dg_retries := (dg_retries g)(i \<mapsto> n)\<rparr>) = n" for n
    by (simp add: RetryCount_def)
  then show "RetryCount i (snd (NoDelegationCallback m i r g)) = RetryCount i g + 1"
    by (simp add: cb IncrementRetry_def w Let_def)
  show "WasCalled i (snd (NoDelegationCallback m i r g)) \<longleftrightarrow> False"
    using assms(2) by (simp add: cb IncrementRetry_def Let_def WasCalled_def)
qed

lemma guard_run_called:
  "WasCalled i g \<Longrightarrow> results_of i (guard_run m acts g) = map (\<lambda>_. None) (answers i acts)"
proof (induction m acts g rule: guard_run.induct)
  case (2 m j acts g)
  have "WasCalled i (MarkCalled j g)"
    using "2.prems" guard_other(1) [of i j] by (cases "i = j") (simp_all add: WasCalled_def MarkCalled_def)
  with 2 show ?case by simp
next
  case (3 m j r acts g)
  obtain x g' where cb: "NoDelegationCallback m j r g = (x, g')" by force
  show ?case
  proof (cases "i = j")
    case True
    with "3.prems" cb have "x = None" "g' = g" by (simp_all add: callback_called)
    with True "3.IH" [OF cb [symmetric] refl] "3.prems" cb show ?thesis by simp
  next
    case False
    with "3.prems" guard_other(3) [OF False, of m r g] cb have "WasCalled i g'" by simp
    with False "3.IH" [OF cb [symmetric] refl] cb show ?thesis by simp
  qed
qed simp

lemma guard_run_undelegated:
  assumes "Delegated i \<notin> set acts" "\<not> WasCalled i g" "0 \<le> RetryCount i g"
    and "RetryCount i g + int (length acts) < 2 ^ 63"
  shows "results_of i (guard_run m (acts @ rest) g) =
    corrections (max_retries m) (RetryCount i g) (answers i acts) @
    results_of i (guard_run m rest (fold (\<lambda>a g. case a of Delegated j \<Rightarrow> MarkCalled j g
      | Answered j r \<Rightarrow> snd (NoDelegationCallback m j r g)) acts g))"
  using assms
proof (induction acts arbitrary: g)
  case (Cons a acts)
  show ?case
  proof (cases a)
    case (Delegated j)
    with Cons.prems(1) have "i \<noteq> j" by auto
    then show ?thesis
      using Cons.IH [of "MarkCalled j g"] Cons.prems by (simp add: Delegated guard_other(1,2))
  next
    case (Answered j r)
    obtain x g' where cb: "NoDelegationCallback m j r g = (x, g')" by force
    show ?thesis
    proof (cases "i = j")
      case False
      then show ?thesis
        using Cons.IH [of g'] Cons.prems guard_other(3,4) [OF False, of m r g] by (simp add: Answered cb)
    next
      case True
      show ?thesis
      proof (cases "text_only r")
        case plain: True
        have b: "RetryCount i g + 1 < 2 ^ 63" using Cons.prems(4) by simp
        note t = callback_text_only [OF plain Cons.prems(2,3) b, of m]
        show ?thesis
          using Cons.IH [of g'] Cons.prems t cb True plain by (simp add: Answered)
      next
        case plain: False
        then have "x = None" "g' = g" using callback_other [OF plain, of m j g] cb by simp_all
        then show ?thesis
          using Cons.IH [of g'] Cons.prems cb True plain by (simp add: Answered)
      qed
    qed
  qed
qed simp

section \<open>Facts about the verification\<close>

lemma safe_digit: "k < 10 \<Longrightarrow> query_safe (digit k)"
  by (auto simp: query_safe_def dest: arg_cong [of "digit k" _ "of_char :: char \<Rightarrow> nat"] simp: of_char_digit)

lemma safe_digits: "list_all query_safe (digits w n)"
  by (induction w arbitrary: n) (simp_all add: safe_digit)

lemma safe_nat_str: "list_all query_safe (nat_str n)"
  by (induction n rule: nat_str.induct) (subst nat_str.simps, simp add: safe_digit)

lemma safe_fmt_seconds: "list_all query_safe (fmt_seconds t)"
  by (simp add: fmt_seconds_def fmt_year_def safe_digits safe_nat_str query_safe_def split: prod.split)

lemma verification_query:
  assumes "list_all query_safe (TrimRight_slash auditURL)" "list_all query_safe traceID"
    and "parse (fmt_seconds since @ ''Z'') = Some t"
  shows "events_query parse (query_get (verification_url auditURL traceID since)) =
    zero_query\<lparr>qe_Limit := 100, qe_EventType := EventTypeToolExecution, qe_TraceID := traceID, qe_Since := t\<rparr>"
proof -
  let ?ts = "fmt_seconds since @ ''Z''"
  let ?q = "''event_type'' @ CHR ''='' # ''tool_execution'' @ CHR ''&'' #
    (''trace_id'' @ CHR ''='' # traceID @ CHR ''&'' # (''since'' @ CHR ''='' # ?ts))"
  have url: "verification_url auditURL traceID since = (TrimRight_slash auditURL @ ''/v1/events'') @ CHR ''?'' # ?q"
    by (simp add: verification_url_def)
  have ts: "list_all query_safe ?ts"
    using safe_fmt_seconds by (simp add: query_safe_def)
  have base: "list_all query_safe (TrimRight_slash auditURL @ ''/v1/events'')"
    using assms(1) by (simp add: query_safe_def)
  have words: "list_all query_safe ''event_type''" "list_all query_safe ''tool_execution''"
      "list_all query_safe ''trace_id''" "list_all query_safe ''since''"
    by (simp_all add: query_safe_def)
  have pairs: "query_pairs ?q = [(''event_type'', ''tool_execution''), (''trace_id'', traceID), (''since'', ?ts)]"
    by (simp only: query_pairs_more [OF words(1,2)] query_pairs_more [OF words(3) assms(2)]
        query_pairs_one [OF words(4) ts])
  have get: "query_get (verification_url auditURL traceID since) k = (if k = ''event_type'' then ''tool_execution''
      else if k = ''trace_id'' then traceID else if k = ''since'' then ?ts else [])" for k
    unfolding url query_get_url [OF base] pairs by simp
  show ?thesis
    by (simp add: events_query_def get Atoi_def assms(3) EventTypeToolExecution_def zero_query_def)
qed

text \<open>The tool executions of a trace from the second in which the delegation began.\<close>

definition executed_since :: "string \<Rightarrow> time \<Rightarrow> audit_store \<Rightarrow> event list" where
  "executed_since traceID since s = filter (\<lambda>e. ev_EventType e = EventTypeToolExecution \<and>
     ev_TraceID e = traceID \<and> since div sec_ns * sec_ns \<le> ev_Timestamp e) (recorded s)"

definition ran_class :: "string \<Rightarrow> event list \<Rightarrow> bool" where
  "ran_class cls es = list_ex (\<lambda>e. case ev_Tool e of Some t \<Rightarrow> ClassifyTool (tx_Name t) = cls | None \<Rightarrow> False) es"

lemma year_of_second: "year_of (t div sec_ns * sec_ns) = year_of t"
  by (simp add: year_of_def day_of_def sec_ns_def)

lemma row_selected_verification:
  assumes "indexed r" "sec_ns \<le> since" "traceID \<noteq> []"
    and "year_of (ev_Timestamp (aw_raw r)) < 10000" "year_of since < 10000"
  shows "row_selected conf_le (zero_query\<lparr>qe_Limit := 100, qe_EventType := EventTypeToolExecution,
      qe_TraceID := traceID, qe_Since := since div sec_ns * sec_ns\<rparr>) r \<longleftrightarrow>
    ev_EventType (aw_raw r) = EventTypeToolExecution \<and> ev_TraceID (aw_raw r) = traceID \<and>
    since div sec_ns * sec_ns \<le> ev_Timestamp (aw_raw r)"
proof -
  have nz: "since div sec_ns * sec_ns \<noteq> 0"
    using assms(2) by (simp add: sec_ns_def div_eq_0_iff)
  have le: "str_le (fmt_sqlite t) (fmt_sqlite u) \<longleftrightarrow> t \<le> u" if "year_of t < 10000" "year_of u < 10000" for t u
    using fmt_sqlite_less [OF that] fmt_sqlite_less [OF that(2,1)] str_less_linear [of "fmt_sqlite t" "fmt_sqlite u"]
      str_less_irrefl [of "fmt_sqlite t"] by (auto simp: str_le_def)
  show ?thesis
    using assms nz by (auto simp: row_selected_def zero_query_def wants_def indexed_def le year_of_second
        EventTypeToolExecution_def)
qed

lemma tool_names_class:
  assumes "cls \<noteq> ClassUnknown"
  shows "filter (\<lambda>t. ClassifyTool t = cls) (tool_names es) \<noteq> [] \<longleftrightarrow> ran_class cls es"
proof -
  have "ClassifyTool [] = ClassUnknown" by (simp add: ClassifyTool_def ToolClassification_def)
  with assms show ?thesis
    by (induction es) (auto simp: tool_names_def ran_class_def List.map_filter_def filter_empty_conv split: option.splits)
qed

lemma verify_events_mismatch:
  "dv_Mismatch (verify_events cls es v) \<longleftrightarrow>
     cls = ClassDestructive \<and> \<not> ran_class ClassDestructive es \<or>
     cls = ClassWrite \<and> \<not> ran_class ClassWrite es \<and> \<not> ran_class ClassDestructive es"
  using tool_names_class [of ClassDestructive es] tool_names_class [of ClassWrite es]
  by (auto simp: verify_events_def Let_def)

lemma ran_class_set: "set es = set es' \<Longrightarrow> ran_class cls es = ran_class cls es'"
  by (simp add: ran_class_def list_ex_iff)

lemma fetch_answered:
  assumes "cd_url cd (verification_url auditURL traceID since) = None"
    and "fst (wd_reply w n (verification_get auditURL key traceID since)) = Response c b"
    and "decode_events cd ec b = Inr es"
  shows "fst (run w (fetchToolExecutionEvents cd ec auditURL key traceID since) n) = es"
  using assms
  by (auto simp: fetchToolExecutionEvents_def fetch_attempt_def http_do_def verification_get_def send_def
      run_bindP Let_def case_prod_unfold)

section \<open>Properties\<close>

text \<open>C36: no answer reaches the user without a delegation. On one guard shared by any number of
  interleaved invocations, the answers of an invocation before its first delegation are treated
  exactly so: an answer in plain text is replaced, the first ones by a call of the correction
  tool with the number of the attempt, up to the configured maximum (two when it is not positive),
  and all later ones by the fixed apology; answers with a tool call or without text pass. Once the
  invocation has delegated every answer passes, and other invocations never change the count.\<close>

theorem no_undelegated_answer:
  assumes "Delegated i \<notin> set acts" "length acts < 2 ^ 63"
  shows "results_of i (guard_run m acts NewDelegationGuard) = corrections (max_retries m) 0 (answers i acts) \<and>
    results_of i (guard_run m (acts @ Delegated i # rest) NewDelegationGuard) =
      corrections (max_retries m) 0 (answers i acts) @ map (\<lambda>_. None) (answers i rest)"
proof -
  have fresh: "\<not> WasCalled i NewDelegationGuard" "RetryCount i NewDelegationGuard = 0"
    by (simp_all add: WasCalled_def RetryCount_def NewDelegationGuard_def)
  note run = guard_run_undelegated [OF assms(1) fresh(1)]
  have "WasCalled i (MarkCalled i g)" for g
    by (simp add: WasCalled_def MarkCalled_def)
  then show ?thesis
    using run [of m "[]"] run [of m "Delegated i # rest"] by (simp add: fresh assms(2) [simplified] guard_run_called)
qed

definition plain_answer :: "llm_response option" where
  "plain_answer = Some (Some \<lparr>lc_Role = ''model'', lc_Parts = [\<lparr>lp_Text = ''All pods are healthy.'',
     lp_Thought = False, lp_FunctionCall = None\<rparr>]\<rparr>)"

theorem no_undelegated_answer_witness:
  "results_of ''a'' (guard_run 0 ([Answered ''a'' plain_answer, Delegated ''b'', Answered ''a'' plain_answer,
       Answered ''a'' plain_answer] @ Delegated ''a'' # [Answered ''a'' plain_answer]) NewDelegationGuard) =
     [Some (injected 1), Some (injected 2), Some (suppressed 2), None]"
  using no_undelegated_answer [of "''a''" "[Answered ''a'' plain_answer, Delegated ''b'',
       Answered ''a'' plain_answer, Answered ''a'' plain_answer]" 0 "[Answered ''a'' plain_answer]"]
  by (simp add: plain_answer_def text_only_def max_retries_def DefaultMaxDelegationRetries_def)


definition destructive_event :: event where
  "destructive_event = zero_event\<lparr>ev_EventID := ''tool_1'', ev_Timestamp := 5 * sec_ns + 7,
     ev_EventType := EventTypeToolExecution, ev_TraceID := ''tr_1'',
     ev_Tool := Some \<lparr>tx_Name = ''restart_service'', tx_Agent = [], tx_Parameters = [], tx_RawCommand = [],
       tx_Result = [], tx_Error = [], tx_Duration = 0, tx_PreState = []\<rparr>\<rparr>"

definition fixed_digest :: digest where
  "fixed_digest = (\<lambda>_. ''h'')"

definition one_event_log :: audit_store where
  "one_event_log = snd (handleRecordEvent fixed_digest \<lparr>ra_uid = [], ra_now = 1, ra_marshal = None,
     ra_insert = None\<rparr> (Body destructive_event) (initLastHash []))"

definition stored_event :: event where
  "stored_event = destructive_event\<lparr>ev_PrevHash := GenesisHash, ev_EventHash := ''h''\<rparr>"

lemma one_event_log_rows:
  "au_rows one_event_log = [row_of stored_event]" "recorded one_event_log = [stored_event]"
  by (simp_all add: one_event_log_def handleRecordEvent_def Record_def destructive_event_def initLastHash_def Let_def
      ComputeEventHash_def fixed_digest_def stored_event_def recorded_def row_of_hash sec_ns_def)

lemma stored_event_fields:
  "ev_EventType stored_event = EventTypeToolExecution" "ev_TraceID stored_event = ''tr_1''"
  "ev_Timestamp stored_event = 5 * sec_ns + 7"
  by (simp_all add: stored_event_def destructive_event_def)

lemma small_year: "year_of (5 * sec_ns + 7) = 1"
  by (simp add: year_of_def day_of_def sec_ns_def)

lemma one_event_executed: "executed_since ''tr_1'' (5 * sec_ns + 7) one_event_log = [stored_event]"
  by (simp add: executed_since_def one_event_log_rows stored_event_fields sec_ns_def)

definition echo_codec :: codec where
  "echo_codec = \<lparr>cd_url = (\<lambda>_. None), cd_parse = (\<lambda>_. Inr (JArr [JNull])), cd_text = (\<lambda>_. [])\<rparr>"

definition echo_events :: event_codec where
  "echo_events = \<lparr>ec_json = (\<lambda>_. JNull), ec_event = (\<lambda>_. Some stored_event)\<rparr>"

definition echo_world :: world where
  "echo_world = \<lparr>wd_reply = (\<lambda>_ _. (Response 200 [], 0)), wd_late = (\<lambda>_. 0)\<rparr>"

lemma one_event_query:
  "handleQueryEvents insertionSort (\<lambda>_ _. True) (\<lambda>_. Some (5 * sec_ns))
     None (verification_url ''u'' ''tr_1'' (5 * sec_ns + 7)) one_event_log = (200, Inr [stored_event])"
proof -
  have "row_selected (\<lambda>_ _. True) (zero_query\<lparr>qe_Limit := 100, qe_EventType := EventTypeToolExecution,
      qe_TraceID := ''tr_1'', qe_Since := (5 * sec_ns + 7) div sec_ns * sec_ns\<rparr>) (row_of stored_event)"
    by (subst row_selected_verification)
      (simp_all add: indexed_row_of row_of_hash small_year stored_event_fields)
  moreover have "(5 * sec_ns + 7) div sec_ns * sec_ns = 5 * sec_ns" by (simp add: sec_ns_def)
  ultimately have "row_selected (\<lambda>_ _. True) (zero_query\<lparr>qe_Limit := 100, qe_EventType := EventTypeToolExecution,
      qe_TraceID := ''tr_1'', qe_Since := 5 * sec_ns\<rparr>) (row_of stored_event)" by (simp only:)
  then show ?thesis
    by (subst handleQueryEvents_def, subst verification_query [where t = "5 * sec_ns"])
      (simp_all add: Query_def one_event_log_rows TrimRight_slash_def query_safe_def insertionSort_def row_of_hash
        zero_query_def)
qed


lemma fetch_failed:
  assumes "\<And>n. case fst (wd_reply w n (verification_get auditURL key traceID since)) of
      Refused _ \<Rightarrow> True | Response c b \<Rightarrow> \<exists>e. decode_events cd ec b = Inl e"
  shows "fst (run w (fetchToolExecutionEvents cd ec auditURL key traceID since) n) = []"
proof -
  have "fst (run w (fetch_attempt cd ec (verification_get auditURL key traceID since)) n) = None" for n
    using assms [of n]
    by (auto simp: fetch_attempt_def http_do_def send_def run_bindP Let_def case_prod_unfold
        split: option.splits http_reply.splits)
  then show ?thesis
    by (simp add: fetchToolExecutionEvents_def run_bindP Let_def case_prod_unfold)
qed

text \<open>How a delegation ends: the program is cut at the verification.\<close>

lemma delegateFunc_response:
  fixes cd ec a2a dc uid uid' i args k g w n
  defines "r \<equiv> fst (fst (run w (delegateFunc cd ec a2a dc uid uid' i args (k, g)) n))"
  shows "registry_Get (dc_registry dc) (da_Agent args) = [] \<and> HasPrefix (dr_Response r) ''Error: agent '' \<or>
    HasPrefix (dr_Response r) ''Error calling agent: '' \<or>
    (\<exists>answer eid n'. dr_Response r = answer @ formatVerificationBlock (fst (run w
      (buildDelegationVerification cd ec (dc_auditURL dc) (dc_auditAPIKey dc) (dc_traceID dc) (nt_now n)
        (ClassifyDelegation (da_Agent args) (da_Message args)) eid (da_Agent args)) n')))"
proof -
  have unknown: "HasPrefix (dr_Response (fst (run w (unknown_agent dc start ev args) n))) ''Error: agent ''" for start ev n
    by (simp add: unknown_agent_def run_bindP Let_def case_prod_unfold)
  have reply: "dr_Response (fst (run w (verified_reply cd ec dc uid' start d ev args answer) n)) =
      answer @ formatVerificationBlock (fst (run w (buildDelegationVerification cd ec (dc_auditURL dc)
        (dc_auditAPIKey dc) (dc_traceID dc) start (ClassifyDelegation (da_Agent args) (da_Message args))
        (ev_EventID ev) (da_Agent args)) n))" for start d ev answer n
    by (simp add: verified_reply_def run_bindP Let_def case_prod_unfold)
  have call: "HasPrefix (dr_Response (fst (run w (call_delegate cd ec a2a dc uid' start ev args) n))) ''Error calling agent: '' \<or>
    (\<exists>answer eid n'. dr_Response (fst (run w (call_delegate cd ec a2a dc uid' start ev args) n)) =
      answer @ formatVerificationBlock (fst (run w (buildDelegationVerification cd ec (dc_auditURL dc)
        (dc_auditAPIKey dc) (dc_traceID dc) start (ClassifyDelegation (da_Agent args) (da_Message args))
        eid (da_Agent args)) n')))" for start ev n
    by (cases "fst (run w (callAgentWithTrace cd a2a (delegation_context dc)
        (registry_Get (dc_registry dc) (da_Agent args)) (da_Message args) (dc_traceID dc)) n)")
      (simp add: call_delegate_def run_bindP Let_def case_prod_unfold,
       simp add: call_delegate_def run_bindP Let_def case_prod_unfold reply, blast)
  show ?thesis
    unfolding r_def delegateFunc_def
    using unknown call by (simp add: run_bindP Let_def case_prod_unfold)
qed

text \<open>what cannot be verified is not reported as done. When no attempt to query the audit
  trail gives a list of events (the service is down, refuses, or answers with anything else), a
  delegation classified write or destructive to a registered agent ends in an error or in the
  instruction to tell the user that the action was likely not executed, whatever the agent said.\<close>

theorem unverified_not_clean:
  assumes "dc_auditURL dc \<noteq> []" "registry_Get (dc_registry dc) (da_Agent args) \<noteq> []"
    and "cls = ClassifyDelegation (da_Agent args) (da_Message args)" "cls = ClassWrite \<or> cls = ClassDestructive"
    and "\<And>n'. case fst (wd_reply w n' (verification_get (dc_auditURL dc) (dc_auditAPIKey dc) (dc_traceID dc) (nt_now n))) of
      Refused _ \<Rightarrow> True | Response c b \<Rightarrow> \<exists>e. decode_events cd ec b = Inl e"
  shows "\<exists>t. dr_Response (fst (fst (run w (delegateFunc cd ec a2a dc uid uid' i args (k, g)) n))) =
      ''Error calling agent: '' @ t \<or>
    dr_Response (fst (fst (run w (delegateFunc cd ec a2a dc uid uid' i args (k, g)) n))) = t @ mismatch_lines cls @ ''---''"
proof -
  let ?r = "dr_Response (fst (fst (run w (delegateFunc cd ec a2a dc uid uid' i args (k, g)) n)))"
  let ?v = "\<lambda>eid n'. fst (run w (buildDelegationVerification cd ec (dc_auditURL dc) (dc_auditAPIKey dc)
      (dc_traceID dc) (nt_now n) cls eid (da_Agent args)) n')"
  have none: "fst (run w (fetchToolExecutionEvents cd ec (dc_auditURL dc) (dc_auditAPIKey dc) (dc_traceID dc)
      (nt_now n)) n') = []" for n'
    by (rule fetch_failed) (rule assms(5))
  have v: "dv_Mismatch (?v eid n') \<and> dv_ActionClass (?v eid n') = cls" for eid n'
    using assms(1,4) none [of n']
    by (auto simp: buildDelegationVerification_def run_bindP Let_def case_prod_unfold verify_events_def tool_names_def
        List.map_filter_def)
  have block: "\<exists>t. formatVerificationBlock (?v eid n') = t @ mismatch_lines cls @ ''---''" for eid n'
    using v [of eid n'] by (simp add: formatVerificationBlock_def)
  consider "HasPrefix ?r ''Error calling agent: ''" |
      answer eid n' where "?r = answer @ formatVerificationBlock (?v eid n')"
    using delegateFunc_response [of dc args w cd ec a2a uid uid' i k g n] assms(2,3) by auto
  then show ?thesis
  proof cases
    case 1
    then show ?thesis by (auto simp: HasPrefix_iff)
  next
    case 2
    with block [of eid n'] show ?thesis by (metis append_assoc)
  qed
qed

definition drain_args :: delegate_args where
  "drain_args = \<lparr>da_Agent = ''k8s_agent'', da_RequestCategory = ''kubernetes'', da_Confidence = ''1'',
     da_UserIntent = ''drain the node'', da_ReasoningChain = [], da_AlternativesConsidered = [],
     da_Message = ''drain node n1''\<rparr>"

definition drain_config :: "string \<Rightarrow> delegate_config" where
  "drain_config auditURL = \<lparr>dc_auditor = None, dc_auditURL = auditURL, dc_auditAPIKey = [],
     dc_registry = [''k8s_agent'' \<mapsto> ''http://k8s''], dc_order = [''k8s_agent''], dc_sessionID = [], dc_userID = [],
     dc_traceID = ''tr_1'', dc_callerName = [], dc_sessionPurpose = []\<rparr>"

definition claims_done :: a2a_client where
  "claims_done = (\<lambda>_ _ _ _. Return (Inr (A2AMessage [TextPart ''The node is drained.''])))"

definition text_codec :: codec where
  "text_codec = \<lparr>cd_url = (\<lambda>_. None), cd_parse = (\<lambda>_. Inr (JStr [])), cd_text = (\<lambda>_. [])\<rparr>"

lemma drain_class: "ClassifyDelegation (da_Agent drain_args) (da_Message drain_args) = ClassDestructive"
  by (simp add: drain_args_def ClassifyDelegation_def Let_def ToLower_def lower_char_def inquiryPrefixes_def
      destructiveKeywords_def)

theorem unverified_not_clean_witness:
  "\<exists>t. dr_Response (fst (fst (run echo_world (delegateFunc text_codec echo_events claims_done (drain_config ''http://auditd'')
        ''u1'' ''u2'' ''inv'' drain_args (0, NewDelegationGuard)) \<lparr>nt_calls = [], nt_now = 0\<rparr>))) =
      ''Error calling agent: '' @ t \<or>
    dr_Response (fst (fst (run echo_world (delegateFunc text_codec echo_events claims_done (drain_config ''http://auditd'')
        ''u1'' ''u2'' ''inv'' drain_args (0, NewDelegationGuard)) \<lparr>nt_calls = [], nt_now = 0\<rparr>))) =
      t @ mismatch_lines ClassDestructive @ ''---''"
  by (rule unverified_not_clean)
    (simp_all add: drain_class, simp_all add: drain_config_def registry_Get_def drain_args_def echo_world_def
      decode_events_def text_codec_def)

text \<open>Without the URL of the audit service nothing is looked up, and the block still says that the tool
  execution matches the delegation.\<close>

theorem verification_disabled_clean:
  "\<exists>t. dr_Response (fst (fst (run echo_world (delegateFunc text_codec echo_events claims_done (drain_config [])
        ''u1'' ''u2'' ''inv'' drain_args (0, NewDelegationGuard)) \<lparr>nt_calls = [], nt_now = 0\<rparr>))) =
      t @ clean_line @ ''---''"
proof -
  have reply: "fst (run echo_world (callAgentWithTrace text_codec claims_done tc u m t) n) = Inr ''The node is drained.''"
    for tc u m t n
    by (simp add: callAgentWithTrace_def fetchAgentCard_def http_do_def text_codec_def claims_done_def run_bindP
        send_def echo_world_def extractResponseText_def partsToText_def List.map_filter_def)
  have agent: "registry_Get (dc_registry (drain_config [])) (da_Agent drain_args) \<noteq> []"
    "dc_auditor (drain_config []) = None" "dc_auditURL (drain_config []) = []"
    by (simp_all add: drain_config_def registry_Get_def drain_args_def)
  show ?thesis
    by (simp add: delegateFunc_def call_delegate_def run_bindP maybe_record_def maybe_outcome_def agent Let_def
        verified_reply_def buildDelegationVerification_def formatVerificationBlock_def zero_verification_def
        reply case_prod_unfold)
qed

end
