(* ===== verification/Playbook_Store.thy ===== *)
theory Playbook_Store
  imports Approval_Handlers Go_Url
begin

text \<open>
  The table of playbooks, \<^verbatim>\<open>internal/audit/playbook_store.go\<close>, and its handlers in
  \<^verbatim>\<open>cmd/auditd/playbook_handlers.go\<close>. A table is the list of its rows in the order of insertion;
  the JSON columns are the lists they encode, and a row is what reading it back gives. \<open>flt\<close> is a
  failure of the database, \<open>uids\<close> are fresh UUID texts. Reading a row and changing it in
  one operation of the store is one step. \<open>dbtext\<close> is how the database driver writes a time, by which
  the listing is ordered, and \<open>srt\<close> is the sort of the database.
\<close>

section \<open>Playbooks\<close>

record playbook =
  pb_PlaybookID :: string
  pb_Name :: string
  pb_Description :: string
  pb_TargetHints :: "string list"
  pb_CreatedBy :: string
  pb_CreatedAt :: time
  pb_UpdatedAt :: time
  pb_ProblemClass :: string
  pb_Symptoms :: "string list"
  pb_Guidance :: string
  pb_Escalation :: "string list"
  pb_RelatedPlaybooks :: "string list"
  pb_Author :: string
  pb_LastValidated :: "time option"
  pb_Version :: string
  pb_SeriesID :: string
  pb_IsActive :: bool
  pb_IsSystem :: bool
  pb_Source :: string
  pb_OriginTrace :: string
  pb_PlaybookType :: string
  pb_EntryPoint :: bool
  pb_EscalatesTo :: "string list"
  pb_TransitionsTo :: "string list"
  pb_RequiresEvidence :: "string list"
  pb_ExecutionMode :: string
  pb_PermittedTools :: "string list"
  pb_ApprovalMode :: string
  pb_AgentName :: string
  pb_JudgeVerdict :: string
  pb_JudgeModel :: string
  pb_JudgeAt :: time
  pb_RootCauseClasses :: "(string \<times> string list) option"

definition zero_playbook :: playbook where
  "zero_playbook = \<lparr>pb_PlaybookID = [], pb_Name = [], pb_Description = [], pb_TargetHints = [], pb_CreatedBy = [],
     pb_CreatedAt = 0, pb_UpdatedAt = 0, pb_ProblemClass = [], pb_Symptoms = [], pb_Guidance = [],
     pb_Escalation = [], pb_RelatedPlaybooks = [], pb_Author = [], pb_LastValidated = None, pb_Version = [],
     pb_SeriesID = [], pb_IsActive = False, pb_IsSystem = False, pb_Source = [], pb_OriginTrace = [],
     pb_PlaybookType = [], pb_EntryPoint = False, pb_EscalatesTo = [], pb_TransitionsTo = [],
     pb_RequiresEvidence = [], pb_ExecutionMode = [], pb_PermittedTools = [], pb_ApprovalMode = [],
     pb_AgentName = [], pb_JudgeVerdict = [], pb_JudgeModel = [], pb_JudgeAt = 0, pb_RootCauseClasses = None\<rparr>"

datatype pb_error = PbNoRows | ErrSystemPlaybook | PbDB string

text \<open>What is read back of a row: a zero validation time and a taxonomy without classes are absent, and
  the time of a verdict set on insertion is kept to the second.\<close>

definition scanPlaybook :: "playbook \<Rightarrow> playbook" where
  "scanPlaybook pb = pb\<lparr>
     pb_LastValidated := (case pb_LastValidated pb of Some t \<Rightarrow> if t = 0 then None else Some t | None \<Rightarrow> None),
     pb_JudgeAt := to_seconds (pb_JudgeAt pb),
     pb_RootCauseClasses := (case pb_RootCauseClasses pb of
        Some (v, cs) \<Rightarrow> if cs = [] then None else Some (v, cs) | None \<Rightarrow> None)\<rparr>"

definition pb_Create ::
  "string option \<Rightarrow> string \<times> string \<Rightarrow> time \<Rightarrow> playbook \<Rightarrow> playbook list \<Rightarrow> (pb_error + playbook) \<times> playbook list" where
  "pb_Create flt uids now pb tbl =
     (let pb = (if pb_PlaybookID pb = [] then pb\<lparr>pb_PlaybookID := ''pb_'' @ take 8 (fst uids)\<rparr> else pb);
          seriesWasEmpty = (pb_SeriesID pb = []);
          pb = (if seriesWasEmpty then pb\<lparr>pb_SeriesID := ''pbs_'' @ take 8 (snd uids)\<rparr> else pb);
          pb = (if pb_Source pb = [] then pb\<lparr>pb_Source := ''manual''\<rparr> else pb);
          pb = (if pb_ExecutionMode pb = [] then pb\<lparr>pb_ExecutionMode := ''fleet''\<rparr> else pb);
          pb = (if seriesWasEmpty \<and> pb_Source pb \<noteq> ''imported'' \<and> pb_Source pb \<noteq> ''generated''
                then pb\<lparr>pb_IsActive := True\<rparr> else pb);
          pb = pb\<lparr>pb_CreatedAt := now, pb_UpdatedAt := now\<rparr>
      in case flt of
           Some e \<Rightarrow> (Inl (PbDB e), tbl)
         | None \<Rightarrow>
             (if list_ex (\<lambda>r. pb_PlaybookID r = pb_PlaybookID pb) tbl
              then (Inl (PbDB ''UNIQUE constraint failed: playbooks.playbook_id''), tbl)
              else (Inr pb, tbl @ [scanPlaybook pb])))"

definition find_playbook :: "string \<Rightarrow> playbook list \<Rightarrow> playbook option" where
  "find_playbook i tbl = find (\<lambda>r. pb_PlaybookID r = i) tbl"

definition pb_Get :: "string option \<Rightarrow> string \<Rightarrow> playbook list \<Rightarrow> pb_error + playbook" where
  "pb_Get flt i tbl = (case flt of
     Some e \<Rightarrow> Inl (PbDB e)
   | None \<Rightarrow> (case find_playbook i tbl of None \<Rightarrow> Inl PbNoRows | Some r \<Rightarrow> Inr r))"

text \<open>The columns an update writes.\<close>

definition overwrite :: "playbook \<Rightarrow> playbook \<Rightarrow> playbook" where
  "overwrite pb r = r\<lparr>pb_Name := pb_Name pb, pb_Description := pb_Description pb,
     pb_TargetHints := pb_TargetHints pb, pb_UpdatedAt := pb_UpdatedAt pb, pb_ProblemClass := pb_ProblemClass pb,
     pb_Symptoms := pb_Symptoms pb, pb_Guidance := pb_Guidance pb, pb_Escalation := pb_Escalation pb,
     pb_RelatedPlaybooks := pb_RelatedPlaybooks pb, pb_Author := pb_Author pb,
     pb_LastValidated := (case pb_LastValidated pb of Some t \<Rightarrow> if t = 0 then None else Some t | None \<Rightarrow> None),
     pb_Version := pb_Version pb, pb_SeriesID := pb_SeriesID pb, pb_EntryPoint := pb_EntryPoint pb,
     pb_EscalatesTo := pb_EscalatesTo pb, pb_RequiresEvidence := pb_RequiresEvidence pb,
     pb_ExecutionMode := (if pb_ExecutionMode pb = [] then ''fleet'' else pb_ExecutionMode pb),
     pb_PermittedTools := pb_PermittedTools pb, pb_ApprovalMode := pb_ApprovalMode pb,
     pb_AgentName := pb_AgentName pb, pb_TransitionsTo := pb_TransitionsTo pb,
     pb_PlaybookType := pb_PlaybookType pb\<rparr>"

definition update_where :: "('r \<Rightarrow> bool) \<Rightarrow> ('r \<Rightarrow> 'r) \<Rightarrow> 'r list \<Rightarrow> 'r list" where
  "update_where p f tbl = map (\<lambda>r. if p r then f r else r) tbl"

definition pb_Update ::
  "string option \<Rightarrow> time \<Rightarrow> playbook \<Rightarrow> playbook list \<Rightarrow> (pb_error + playbook) \<times> playbook list" where
  "pb_Update flt now pb tbl = (case flt of
     Some e \<Rightarrow> (Inl (PbDB e), tbl)
   | None \<Rightarrow> (case find_playbook (pb_PlaybookID pb) tbl of
       None \<Rightarrow> (Inl PbNoRows, tbl)
     | Some r \<Rightarrow>
         (if pb_IsSystem r then (Inl ErrSystemPlaybook, tbl)
          else (let pb = pb\<lparr>pb_UpdatedAt := now\<rparr>
            in (Inr pb, update_where (\<lambda>r. pb_PlaybookID r = pb_PlaybookID pb) (overwrite pb) tbl)))))"

definition pb_Delete :: "string option \<Rightarrow> string \<Rightarrow> playbook list \<Rightarrow> pb_error option \<times> playbook list" where
  "pb_Delete flt i tbl = (case flt of
     Some e \<Rightarrow> (Some (PbDB e), tbl)
   | None \<Rightarrow> (case find_playbook i tbl of
       None \<Rightarrow> (None, tbl)
     | Some r \<Rightarrow> (if pb_IsSystem r then (Some ErrSystemPlaybook, tbl)
         else (None, filter (\<lambda>r. pb_PlaybookID r \<noteq> i) tbl))))"

definition SetJudgeVerdict ::
  "string option \<Rightarrow> time \<Rightarrow> string \<Rightarrow> string \<Rightarrow> string \<Rightarrow> playbook list \<Rightarrow> pb_error option \<times> playbook list" where
  "SetJudgeVerdict flt now i verdict judgeModel tbl = (case flt of
     Some e \<Rightarrow> (Some (PbDB e), tbl)
   | None \<Rightarrow>
       (if list_ex (\<lambda>r. pb_PlaybookID r = i) tbl
        then (None, update_where (\<lambda>r. pb_PlaybookID r = i)
          (\<lambda>r. r\<lparr>pb_JudgeVerdict := verdict, pb_JudgeModel := judgeModel, pb_JudgeAt := now\<rparr>) tbl)
        else (Some PbNoRows, tbl)))"

section \<open>Activation\<close>

text \<open>The number \<^verbatim>\<open>Sscanf\<close> reads with \<^verbatim>\<open>%d\<close>: blanks, a sign and at least one digit;
  what follows is ignored.\<close>

definition scan_int :: "string \<Rightarrow> int option" where
  "scan_int s =
     (let s = dropWhile (\<lambda>c. is_space c \<and> c \<noteq> CHR 10) s;
          neg = (s \<noteq> [] \<and> hd s = CHR ''-'');
          rest = (if s \<noteq> [] \<and> (hd s = CHR ''-'' \<or> hd s = CHR ''+'') then tl s else s);
          ds = takeWhile (\<lambda>c. digit_val c \<noteq> None) rest
      in Atoi ((if neg then ''-'' else []) @ ds))"

definition nextVersion :: "string \<Rightarrow> string" where
  "nextVersion current =
     (if current = [] then ''1.0''
      else if CHR ''.'' \<notin> set current then current @ ''.1''
      else (case cut_char (CHR ''.'') current of (major, rest) \<Rightarrow>
        (case scan_int rest of None \<Rightarrow> [] | Some minor \<Rightarrow> major @ ''.'' @ Itoa (wrap64 (minor + 1)))))"

definition set_active :: "string \<Rightarrow> string \<Rightarrow> playbook list \<Rightarrow> playbook list" where
  "set_active series i tbl = update_where (\<lambda>r. pb_PlaybookID r = i) (\<lambda>r. r\<lparr>pb_IsActive := True\<rparr>)
     (update_where (\<lambda>r. pb_SeriesID r = series \<and> pb_PlaybookID r \<noteq> i) (\<lambda>r. r\<lparr>pb_IsActive := False\<rparr>) tbl)"

text \<open>The version of an unversioned draft; the active row the query finds is the first.\<close>

definition assign_version :: "string \<Rightarrow> playbook \<Rightarrow> playbook list \<Rightarrow> playbook list" where
  "assign_version series r tbl =
     (if pb_Version r \<noteq> [] then tbl
      else (let current = (case find (\<lambda>r. pb_SeriesID r = series \<and> pb_IsActive r) tbl of
              Some a \<Rightarrow> pb_Version a | None \<Rightarrow> []);
              next = nextVersion current
        in if next = [] then tbl
           else update_where (\<lambda>x. pb_PlaybookID x = pb_PlaybookID r) (\<lambda>x. x\<lparr>pb_Version := next\<rparr>) tbl))"

definition pb_Activate :: "string option \<Rightarrow> string \<Rightarrow> playbook list \<Rightarrow> pb_error option \<times> playbook list" where
  "pb_Activate flt i tbl = (case flt of
     Some e \<Rightarrow> (Some (PbDB e), tbl)
   | None \<Rightarrow> (case find_playbook i tbl of
       None \<Rightarrow> (Some PbNoRows, tbl)
     | Some r \<Rightarrow>
         (if pb_IsSystem r then (Some ErrSystemPlaybook, tbl)
          else (None, set_active (pb_SeriesID r) i (assign_version (pb_SeriesID r) r tbl)))))"

definition ActivateSystem :: "string option \<Rightarrow> string \<Rightarrow> string \<Rightarrow> playbook list \<Rightarrow> pb_error option \<times> playbook list" where
  "ActivateSystem flt i series tbl = (case flt of
     Some e \<Rightarrow> (Some (PbDB e), tbl) | None \<Rightarrow> (None, set_active series i tbl))"

section \<open>Listing\<close>

record playbook_query =
  pq_ActiveOnly :: bool
  pq_IncludeSystem :: bool
  pq_SeriesID :: string
  pq_Source :: string

definition DefaultPlaybookListQuery :: playbook_query where
  "DefaultPlaybookListQuery = \<lparr>pq_ActiveOnly = True, pq_IncludeSystem = True, pq_SeriesID = [], pq_Source = []\<rparr>"

type_synonym pb_sort = "(playbook \<Rightarrow> playbook \<Rightarrow> bool) \<Rightarrow> playbook list \<Rightarrow> playbook list"

definition pb_selected :: "playbook_query \<Rightarrow> playbook \<Rightarrow> bool" where
  "pb_selected q r \<longleftrightarrow> (pq_ActiveOnly q \<longrightarrow> pb_IsActive r) \<and> (\<not> pq_IncludeSystem q \<longrightarrow> \<not> pb_IsSystem r) \<and>
     (pq_SeriesID q = [] \<or> pb_SeriesID r = pq_SeriesID q) \<and> (pq_Source q = [] \<or> pb_Source r = pq_Source q)"

definition pb_List ::
  "pb_sort \<Rightarrow> (time \<Rightarrow> string) \<Rightarrow> string option \<Rightarrow> playbook_query \<Rightarrow> playbook list \<Rightarrow> pb_error + playbook list" where
  "pb_List srt dbtext flt q tbl = (case flt of
     Some e \<Rightarrow> Inl (PbDB e)
   | None \<Rightarrow> Inr (srt (\<lambda>a b. str_less (dbtext (pb_CreatedAt b)) (dbtext (pb_CreatedAt a)))
       (filter (pb_selected q) tbl)))"

section \<open>Handlers\<close>

definition named :: "playbook body \<Rightarrow> int \<times> string + playbook" where
  "named b = (case b of
     ReadError \<Rightarrow> Inl (400, ''failed to read body'')
   | BadJSON e \<Rightarrow> Inl (400, ''invalid JSON: '' @ e)
   | Body pb \<Rightarrow>
       (if pb_Name pb = [] then Inl (400, ''name is required'')
        else if pb_Description pb = [] then Inl (400, ''description is required'') else Inr pb))"

definition playbook_handleCreate ::
  "string option \<Rightarrow> string \<times> string \<Rightarrow> time \<Rightarrow> playbook body \<Rightarrow> playbook list \<Rightarrow> playbook response \<times> playbook list" where
  "playbook_handleCreate flt uids now b tbl = (case named b of
     Inl (c, e) \<Rightarrow> ((c, Inl e), tbl)
   | Inr pb \<Rightarrow> (case pb_Create flt uids now pb tbl of
       (Inl _, tbl') \<Rightarrow> ((500, Inl ''failed to create playbook''), tbl')
     | (Inr pb', tbl') \<Rightarrow> ((201, Inr pb'), tbl')))"

definition playbook_handleGet :: "string option \<Rightarrow> string \<Rightarrow> playbook list \<Rightarrow> playbook response" where
  "playbook_handleGet flt i tbl =
     (if i = [] then (400, Inl ''missing playbook ID'')
      else (case pb_Get flt i tbl of
        Inl PbNoRows \<Rightarrow> (404, Inl ''playbook not found'')
      | Inl _ \<Rightarrow> (500, Inl ''failed to get playbook'')
      | Inr pb \<Rightarrow> (200, Inr pb)))"

definition playbook_list_query :: "(string \<Rightarrow> string) \<Rightarrow> playbook_query" where
  "playbook_list_query get = DefaultPlaybookListQuery\<lparr>
     pq_ActiveOnly := (get ''active_only'' \<noteq> ''false''), pq_IncludeSystem := (get ''include_system'' \<noteq> ''false''),
     pq_SeriesID := get ''series_id'', pq_Source := get ''source''\<rparr>"

definition playbook_handleUpdate ::
  "string option \<Rightarrow> time \<Rightarrow> string \<Rightarrow> playbook body \<Rightarrow> playbook list \<Rightarrow> playbook response \<times> playbook list" where
  "playbook_handleUpdate flt now i b tbl =
     (if i = [] then ((400, Inl ''missing playbook ID''), tbl)
      else (case named b of
        Inl (c, e) \<Rightarrow> ((c, Inl e), tbl)
      | Inr pb \<Rightarrow> (case pb_Update flt now (pb\<lparr>pb_PlaybookID := i\<rparr>) tbl of
          (Inl PbNoRows, tbl') \<Rightarrow> ((404, Inl ''playbook not found''), tbl')
        | (Inl ErrSystemPlaybook, tbl') \<Rightarrow> ((400, Inl ''system playbooks are read-only''), tbl')
        | (Inl _, tbl') \<Rightarrow> ((500, Inl ''failed to update playbook''), tbl')
        | (Inr pb', tbl') \<Rightarrow> ((200, Inr pb'), tbl'))))"

definition playbook_handleDelete ::
  "string option \<Rightarrow> string \<Rightarrow> playbook list \<Rightarrow> unit response \<times> playbook list" where
  "playbook_handleDelete flt i tbl =
     (if i = [] then ((400, Inl ''missing playbook ID''), tbl)
      else (case pb_Delete flt i tbl of
        (Some ErrSystemPlaybook, tbl') \<Rightarrow> ((400, Inl ''system playbooks are read-only''), tbl')
      | (Some _, tbl') \<Rightarrow> ((500, Inl ''failed to delete playbook''), tbl')
      | (None, tbl') \<Rightarrow> ((204, Inr ()), tbl')))"

definition handleSetJudgeVerdict ::
  "string option \<Rightarrow> time \<Rightarrow> string \<Rightarrow> (string \<times> string) body \<Rightarrow> playbook list \<Rightarrow> unit response \<times> playbook list" where
  "handleSetJudgeVerdict flt now i b tbl =
     (if i = [] then ((400, Inl ''missing playbook ID''), tbl)
      else (case b of
        ReadError \<Rightarrow> ((400, Inl ''invalid JSON: ''), tbl)
      | BadJSON e \<Rightarrow> ((400, Inl (''invalid JSON: '' @ e)), tbl)
      | Body (verdict, model) \<Rightarrow>
          (if verdict = [] then ((400, Inl ''verdict is required''), tbl)
           else (case SetJudgeVerdict flt now i verdict model tbl of
             (Some PbNoRows, tbl') \<Rightarrow> ((404, Inl ''playbook not found''), tbl')
           | (Some _, tbl') \<Rightarrow> ((500, Inl ''failed to record judge verdict''), tbl')
           | (None, tbl') \<Rightarrow> ((204, Inr ()), tbl')))))"

text \<open>\<open>flt'\<close> is the failure of reading the row back.\<close>

definition playbook_handleActivate ::
  "string option \<Rightarrow> string option \<Rightarrow> string \<Rightarrow> playbook list \<Rightarrow> playbook response \<times> playbook list" where
  "playbook_handleActivate flt flt' i tbl =
     (if i = [] then ((400, Inl ''missing playbook ID''), tbl)
      else (case pb_Activate flt i tbl of
        (Some PbNoRows, tbl') \<Rightarrow> ((404, Inl ''playbook not found''), tbl')
      | (Some ErrSystemPlaybook, tbl') \<Rightarrow>
          ((400, Inl (''system playbooks cannot be activated via API '' @ em_dash @ '' managed by system seeder'')), tbl')
      | (Some _, tbl') \<Rightarrow> ((500, Inl ''failed to activate playbook''), tbl')
      | (None, tbl') \<Rightarrow> (case pb_Get flt' i tbl' of
          Inl _ \<Rightarrow> ((500, Inl ''activation succeeded but failed to fetch result''), tbl')
        | Inr pb \<Rightarrow> ((200, Inr pb), tbl'))))"

section \<open>Facts\<close>

lemma update_where_keys: "(\<And>r. k (f r) = k r) \<Longrightarrow> map k (update_where p f tbl) = map k tbl"
  by (simp add: update_where_def)

lemma in_update_where: "r \<in> set tbl \<Longrightarrow> (if p r then f r else r) \<in> set (update_where p f tbl)"
  by (auto simp: update_where_def)

lemma find_playbook_Some:
  "find_playbook i tbl = Some r \<Longrightarrow> r \<in> set tbl \<and> pb_PlaybookID r = i"
  by (auto simp: find_playbook_def find_Some_iff)

lemma find_playbook_eq:
  assumes "distinct (map pb_PlaybookID tbl)" "find_playbook i tbl = Some r" "x \<in> set tbl" "pb_PlaybookID x = i"
  shows "x = r"
  using assms find_playbook_Some [OF assms(2)] by (auto simp: distinct_map inj_on_def)

lemma filter_key:
  "distinct (map k tbl) \<Longrightarrow> r \<in> set tbl \<Longrightarrow> filter (\<lambda>x. k x = k r) tbl = [r]"
proof (induction tbl)
  case (Cons a tbl)
  then show ?case
    by (cases "k a = k r") (auto simp: filter_empty_conv image_iff)
qed simp

lemma keep_active: "b = pb_IsActive r \<Longrightarrow> r\<lparr>pb_IsActive := b\<rparr> = r"
  by simp

lemma keep_version: "v = pb_Version r \<Longrightarrow> r\<lparr>pb_Version := v\<rparr> = r"
  by simp

lemma set_active_nth:
  "set_active series i tbl = map (\<lambda>r. r\<lparr>pb_IsActive :=
     (pb_PlaybookID r = i \<or> pb_SeriesID r \<noteq> series \<and> pb_IsActive r)\<rparr>) tbl"
  by (auto simp: set_active_def update_where_def keep_active)

definition version_of :: "string \<Rightarrow> playbook \<Rightarrow> playbook list \<Rightarrow> string" where
  "version_of series r tbl = (if pb_Version r \<noteq> [] then pb_Version r
     else nextVersion (case find (\<lambda>r. pb_SeriesID r = series \<and> pb_IsActive r) tbl of
       Some a \<Rightarrow> pb_Version a | None \<Rightarrow> []))"

lemma assign_version_map:
  assumes "\<And>x. x \<in> set tbl \<Longrightarrow> pb_PlaybookID x = pb_PlaybookID r \<Longrightarrow> x = r"
  shows "assign_version series r tbl = map (\<lambda>x. x\<lparr>pb_Version :=
     (if pb_PlaybookID x = pb_PlaybookID r then version_of series r tbl else pb_Version x)\<rparr>) tbl"
proof -
  have self: "v = pb_Version r \<Longrightarrow> x \<in> set tbl \<Longrightarrow> pb_PlaybookID x = pb_PlaybookID r \<Longrightarrow> x\<lparr>pb_Version := v\<rparr> = x" for x v
    using assms [of x] by auto
  show ?thesis
    by (auto simp: assign_version_def version_of_def update_where_def Let_def keep_version self intro!: map_idI [symmetric])
qed

section \<open>The requests of the service\<close>

inductive playbook_api :: "playbook list \<Rightarrow> playbook list \<Rightarrow> bool" where
  create: "playbook_api tbl (snd (playbook_handleCreate flt uids now b tbl))"
| update: "playbook_api tbl (snd (playbook_handleUpdate flt now i b tbl))"
| delete: "playbook_api tbl (snd (playbook_handleDelete flt i tbl))"
| judge: "playbook_api tbl (snd (handleSetJudgeVerdict flt now i v tbl))"
| activate: "playbook_api tbl (snd (playbook_handleActivate flt flt' i tbl))"

definition same_content :: "playbook \<Rightarrow> playbook \<Rightarrow> bool" where
  "same_content r x \<longleftrightarrow> x = r\<lparr>pb_IsActive := pb_IsActive x, pb_JudgeVerdict := pb_JudgeVerdict x,
     pb_JudgeModel := pb_JudgeModel x, pb_JudgeAt := pb_JudgeAt x\<rparr>"

lemma same_content_refl [simp]: "same_content r r"
  by (simp add: same_content_def)

lemma same_content_keys:
  assumes "same_content r x"
  shows "pb_PlaybookID x = pb_PlaybookID r" "pb_IsSystem x = pb_IsSystem r"
  by (subst assms [unfolded same_content_def], simp)+

lemma same_content_trans:
  assumes "same_content a b" "same_content b c"
  shows "same_content a c"
  unfolding same_content_def
  by (subst assms(2) [unfolded same_content_def], subst assms(1) [unfolded same_content_def]) simp

text \<open>What one request keeps: the identifiers stay unique and every system row keeps its content.\<close>

definition keeps_system :: "playbook list \<Rightarrow> playbook list \<Rightarrow> bool" where
  "keeps_system tbl tbl' \<longleftrightarrow> (distinct (map pb_PlaybookID tbl) \<longrightarrow> distinct (map pb_PlaybookID tbl') \<and>
     (\<forall>r \<in> set tbl. pb_IsSystem r \<longrightarrow> (\<exists>x \<in> set tbl'. same_content r x)))"

lemma keeps_system_refl [simp]: "keeps_system tbl tbl"
  unfolding keeps_system_def by (blast intro: same_content_refl)

lemma keeps_system_map:
  assumes "\<And>r. pb_PlaybookID (f r) = pb_PlaybookID r"
    and "\<And>r. distinct (map pb_PlaybookID tbl) \<Longrightarrow> r \<in> set tbl \<Longrightarrow> pb_IsSystem r \<Longrightarrow> same_content r (f r)"
  shows "keeps_system tbl (map f tbl)"
proof -
  have "map pb_PlaybookID (map f tbl) = map pb_PlaybookID tbl" by (simp add: assms(1))
  then show ?thesis using assms(2) unfolding keeps_system_def by (metis image_eqI set_map)
qed

lemma pb_Create_keeps: "keeps_system tbl (snd (pb_Create flt uids now pb tbl))"
proof -
  have ids: "pb_PlaybookID (scanPlaybook x) = pb_PlaybookID x" for x by (simp add: scanPlaybook_def)
  have "keeps_system tbl (tbl @ [scanPlaybook x])" if "\<not> list_ex (\<lambda>r. pb_PlaybookID r = pb_PlaybookID x) tbl" for x
    using that keeps_system_refl [of tbl] unfolding keeps_system_def by (auto simp: ids list_ex_iff)
  then show ?thesis
    unfolding pb_Create_def Let_def by (simp split: option.split)
qed

lemma pb_Update_keeps: "keeps_system tbl (snd (pb_Update flt now pb tbl))"
proof (cases flt)
  case None
  show ?thesis
  proof (cases "find_playbook (pb_PlaybookID pb) tbl")
    case (Some r)
    have "keeps_system tbl (update_where (\<lambda>r. pb_PlaybookID r = pb_PlaybookID pb) (overwrite p) tbl)"
      if "\<not> pb_IsSystem r" for p
      unfolding update_where_def
      by (rule keeps_system_map) (use that find_playbook_eq [OF _ Some] in \<open>auto simp: overwrite_def\<close>)
    then show ?thesis by (simp add: pb_Update_def None Some Let_def)
  qed (simp add: pb_Update_def None)
qed (simp add: pb_Update_def)

lemma pb_Delete_keeps: "keeps_system tbl (snd (pb_Delete flt i tbl))"
proof (cases flt)
  case None
  show ?thesis
  proof (cases "find_playbook i tbl")
    case (Some r)
    have "keeps_system tbl (filter (\<lambda>r. pb_PlaybookID r \<noteq> i) tbl)" if "\<not> pb_IsSystem r"
      using that find_playbook_eq [OF _ Some] unfolding keeps_system_def by (fastforce simp: distinct_map_filter)
    then show ?thesis by (simp add: pb_Delete_def None Some)
  qed (simp add: pb_Delete_def None)
qed (simp add: pb_Delete_def)

lemma SetJudgeVerdict_keeps: "keeps_system tbl (snd (SetJudgeVerdict flt now i v m tbl))"
proof -
  have "keeps_system tbl (update_where (\<lambda>r. pb_PlaybookID r = i)
      (\<lambda>r. r\<lparr>pb_JudgeVerdict := v, pb_JudgeModel := m, pb_JudgeAt := now\<rparr>) tbl)"
    unfolding update_where_def by (rule keeps_system_map) (auto simp: same_content_def)
  then show ?thesis by (simp add: SetJudgeVerdict_def split: option.split)
qed

lemma pb_Activate_keeps: "keeps_system tbl (snd (pb_Activate flt i tbl))"
proof (cases flt)
  case None
  show ?thesis
  proof (cases "find_playbook i tbl")
    case (Some r)
    have "keeps_system tbl (set_active (pb_SeriesID r) i (assign_version (pb_SeriesID r) r tbl))" if "\<not> pb_IsSystem r"
    proof (cases "distinct (map pb_PlaybookID tbl)")
      case True
      have r: "pb_PlaybookID r = i" using find_playbook_Some [OF Some] by simp
      have one: "x = r" if "x \<in> set tbl" "pb_PlaybookID x = pb_PlaybookID r" for x
        using find_playbook_eq [OF True Some that(1)] that(2) r by simp
      have av: "assign_version (pb_SeriesID r) r tbl = map (\<lambda>x. x\<lparr>pb_Version :=
          (if pb_PlaybookID x = pb_PlaybookID r then version_of (pb_SeriesID r) r tbl else pb_Version x)\<rparr>) tbl"
        by (rule assign_version_map) (rule one)
      show ?thesis
        unfolding set_active_nth av map_map o_def
        by (rule keeps_system_map) (use that one r in \<open>auto simp: same_content_def\<close>)
    qed (simp add: keeps_system_def)
    then show ?thesis by (simp add: pb_Activate_def None Some)
  qed (simp add: pb_Activate_def None)
qed (simp add: pb_Activate_def)

lemmas store_keeps = pb_Create_keeps pb_Update_keeps pb_Delete_keeps SetJudgeVerdict_keeps pb_Activate_keeps

lemma playbook_api_keeps: "playbook_api tbl tbl' \<Longrightarrow> keeps_system tbl tbl'"
proof (induction rule: playbook_api.induct)
  case (create tbl flt uids now b)
  then show ?case
    using pb_Create_keeps [of tbl flt uids now]
    by (auto simp: playbook_handleCreate_def split: sum.split prod.split) (metis snd_conv)+
next
  case (update tbl flt now i b)
  then show ?case
    using pb_Update_keeps [of tbl flt now]
    by (auto simp: playbook_handleUpdate_def split: sum.split prod.split pb_error.split) (metis snd_conv)+
next
  case (delete tbl flt i)
  then show ?case
    using pb_Delete_keeps [of tbl flt i]
    by (auto simp: playbook_handleDelete_def split: option.split prod.split pb_error.split)
next
  case (judge tbl flt now i v)
  then show ?case
    using SetJudgeVerdict_keeps [of tbl flt now i]
    by (auto simp: handleSetJudgeVerdict_def split: body.split option.split prod.split pb_error.split)
      (metis snd_conv)+
next
  case (activate tbl flt flt' i)
  then show ?case
    using pb_Activate_keeps [of tbl flt i]
    by (auto simp: playbook_handleActivate_def split: option.split prod.split pb_error.split sum.split)
qed

section \<open>Properties\<close>

text \<open>activation promotes one version. Activating a version that exists and is not a system
  playbook succeeds; afterwards it is the only active row of its series, a missing version number is
  the successor of the one that was active, and apart from these two columns no row changes, in
  this or any other series.\<close>

theorem activation_promotes:
  assumes "distinct (map pb_PlaybookID tbl)" "find_playbook i tbl = Some r" "\<not> pb_IsSystem r"
  shows "pb_Activate None i tbl = (None, map (\<lambda>x. x\<lparr>
      pb_Version := (if pb_PlaybookID x = i then version_of (pb_SeriesID r) r tbl else pb_Version x),
      pb_IsActive := (pb_PlaybookID x = i \<or> pb_SeriesID x \<noteq> pb_SeriesID r \<and> pb_IsActive x)\<rparr>) tbl) \<and>
    map pb_PlaybookID (filter (\<lambda>x. pb_SeriesID x = pb_SeriesID r \<and> pb_IsActive x) (snd (pb_Activate None i tbl))) = [i]"
proof -
  have r: "r \<in> set tbl" "pb_PlaybookID r = i" using find_playbook_Some [OF assms(2)] by auto
  have one: "x = r" if "x \<in> set tbl" "pb_PlaybookID x = pb_PlaybookID r" for x
    using find_playbook_eq [OF assms(1,2) that(1)] that(2) r(2) by simp
  have av: "assign_version (pb_SeriesID r) r tbl = map (\<lambda>x. x\<lparr>pb_Version :=
      (if pb_PlaybookID x = pb_PlaybookID r then version_of (pb_SeriesID r) r tbl else pb_Version x)\<rparr>) tbl"
    by (rule assign_version_map) (rule one)
  have act: "pb_Activate None i tbl = (None, map (\<lambda>x. x\<lparr>
      pb_Version := (if pb_PlaybookID x = i then version_of (pb_SeriesID r) r tbl else pb_Version x),
      pb_IsActive := (pb_PlaybookID x = i \<or> pb_SeriesID x \<noteq> pb_SeriesID r \<and> pb_IsActive x)\<rparr>) tbl)"
  proof -
    have "pb_Activate None i tbl = (None, set_active (pb_SeriesID r) i (assign_version (pb_SeriesID r) r tbl))"
      by (simp add: pb_Activate_def assms(2,3))
    also have "set_active (pb_SeriesID r) i (assign_version (pb_SeriesID r) r tbl) = map (\<lambda>x. x\<lparr>
        pb_Version := (if pb_PlaybookID x = i then version_of (pb_SeriesID r) r tbl else pb_Version x),
        pb_IsActive := (pb_PlaybookID x = i \<or> pb_SeriesID x \<noteq> pb_SeriesID r \<and> pb_IsActive x)\<rparr>) tbl"
      unfolding set_active_nth av map_map o_def r(2) by (rule map_cong [OF refl]) simp
    finally show ?thesis .
  qed
  have "filter (\<lambda>x. pb_SeriesID x = pb_SeriesID r \<and>
      (pb_PlaybookID x = i \<or> pb_SeriesID x \<noteq> pb_SeriesID r \<and> pb_IsActive x)) tbl = filter (\<lambda>x. pb_PlaybookID x = pb_PlaybookID r) tbl"
  proof (rule filter_cong [OF refl])
    fix x assume "x \<in> set tbl"
    with one [of x] r(2) show "(pb_SeriesID x = pb_SeriesID r \<and> (pb_PlaybookID x = i \<or>
        pb_SeriesID x \<noteq> pb_SeriesID r \<and> pb_IsActive x)) = (pb_PlaybookID x = pb_PlaybookID r)"
      by auto
  qed
  also have "\<dots> = [r]" by (rule filter_key [OF assms(1) r(1)])
  finally show ?thesis
    by (simp add: act filter_map o_def r(2))
qed

definition two_versions :: "playbook list" where
  "two_versions = [zero_playbook\<lparr>pb_PlaybookID := ''pb_1'', pb_SeriesID := ''pbs_1'', pb_Version := ''1.9'',
       pb_IsActive := True, pb_IsSystem := True\<rparr>,
     zero_playbook\<lparr>pb_PlaybookID := ''pb_2'', pb_SeriesID := ''pbs_1''\<rparr>]"

lemma two_versions_rows:
  "distinct (map pb_PlaybookID two_versions)"
  "find_playbook ''pb_2'' two_versions = Some (zero_playbook\<lparr>pb_PlaybookID := ''pb_2'', pb_SeriesID := ''pbs_1''\<rparr>)"
  "\<not> pb_IsSystem (zero_playbook\<lparr>pb_PlaybookID := ''pb_2'', pb_SeriesID := ''pbs_1''\<rparr>)"
  by (simp_all add: two_versions_def find_playbook_def zero_playbook_def)

theorem activation_promotes_witness:
  "map pb_PlaybookID (filter (\<lambda>x. pb_SeriesID x = ''pbs_1'' \<and> pb_IsActive x)
     (snd (pb_Activate None ''pb_2'' two_versions))) = [''pb_2'']"
  using conjunct2 [OF activation_promotes [OF two_versions_rows]] by simp

text \<open>C37: system playbooks are read-only over the API. Whatever sequence of requests the five handlers
  of the table serve, a row that is marked as a system playbook stays, with every column but the active
  flag and the three columns of the judge unchanged, and identifiers stay unique.\<close>

theorem system_playbooks_kept:
  assumes "playbook_api\<^sup>*\<^sup>* tbl tbl'" "distinct (map pb_PlaybookID tbl)"
  shows "distinct (map pb_PlaybookID tbl') \<and>
    (\<forall>r \<in> set tbl. pb_IsSystem r \<longrightarrow> (\<exists>x \<in> set tbl'. same_content r x))"
  using assms(1)
proof (induction rule: rtranclp_induct)
  case base
  then show ?case using assms(2) same_content_refl by blast
next
  case (step t t')
  have "keeps_system t t'" using step.hyps(2) by (rule playbook_api_keeps)
  with step.IH show ?case
    unfolding keeps_system_def using same_content_trans same_content_keys(2) by metis
qed

theorem system_playbooks_kept_witness:
  "\<exists>x \<in> set (snd (playbook_handleActivate None None ''pb_2''
     (snd (playbook_handleDelete None ''pb_1'' two_versions)))). same_content (hd two_versions) x"
proof -
  have api: "playbook_api\<^sup>*\<^sup>* two_versions (snd (playbook_handleActivate None None ''pb_2''
      (snd (playbook_handleDelete None ''pb_1'' two_versions))))"
    by (rule rtranclp.rtrancl_into_rtrancl [OF r_into_rtranclp]) (rule playbook_api.intros)+
  show ?thesis
    using system_playbooks_kept [OF api two_versions_rows(1)] by (simp add: two_versions_def)
qed

text \<open>Two things the table does not promise. Activation takes the active flag from a system playbook,
  which no request can give back; and a creation with the identifier of a series, or an update that
  moves an active row to another series, leaves two active versions in it.\<close>

theorem system_playbook_deactivated:
  "map pb_IsActive (snd (playbook_handleActivate None None ''pb_2'' two_versions)) = [False, True] \<and>
   fst (fst (playbook_handleActivate None None ''pb_1'' two_versions)) = 400"
  by (simp add: playbook_handleActivate_def pb_Activate_def two_versions_def find_playbook_def zero_playbook_def
      set_active_def assign_version_def nextVersion_def scan_int_def digit_val_def is_space_def Atoi_def
      update_where_def pb_Get_def Let_def)

theorem two_active_versions:
  "length (filter (\<lambda>x. pb_SeriesID x = ''pbs_1'' \<and> pb_IsActive x)
     (snd (playbook_handleCreate None (''u'', ''v'') 1 (Body (zero_playbook\<lparr>pb_Name := ''n'', pb_Description := ''d'',
       pb_SeriesID := ''pbs_1'', pb_IsActive := True\<rparr>)) two_versions))) = 2"
  by (simp add: playbook_handleCreate_def named_def pb_Create_def two_versions_def zero_playbook_def scanPlaybook_def Let_def)

end
