(* ===== verification/Go_Number.thy ===== *)
theory Go_Number
  imports Go_Float Go_Url
begin

text \<open>
  \<^verbatim>\<open>float64\<close> values over their whole range: finite numbers, infinities and the value that is not
  a number. \<open>f_round\<close> rounds a rational to the nearest value with ties to even, down to the
  subnormal numbers and up to overflow; \<open>ParseFloat\<close> reads the decimal and hexadecimal texts
  \<^verbatim>\<open>strconv.ParseFloat\<close> accepts. The two zeros are one value here.
\<close>

datatype fval = Fin rat | NaN | Inf bool

fun f_less :: "fval \<Rightarrow> fval \<Rightarrow> bool" where
  "f_less (Fin x) (Fin y) = (x < y)"
| "f_less (Fin x) (Inf p) = p"
| "f_less (Inf p) (Fin y) = (\<not> p)"
| "f_less (Inf p) (Inf q) = (\<not> p \<and> q)"
| "f_less _ _ = False"

section \<open>Rounding\<close>

fun halvings :: "nat \<Rightarrow> nat" where
  "halvings n = (if n < 2 ^ 53 then 0 else Suc (halvings (n div 2)))"

declare halvings.simps [simp del]

definition round_pos :: "rat \<Rightarrow> rat" where
  "round_pos x =
     (if x * 2 ^ 1022 < 1 then of_int (round_even (x * 2 ^ 1074)) / 2 ^ 1074
      else if x < 2 ^ 53 then fl64 x
      else (let k = halvings (nat \<lfloor>x\<rfloor>) in of_int (round_even (x / 2 ^ k)) * 2 ^ k))"

definition f_round :: "rat \<Rightarrow> fval" where
  "f_round x = (let r = round_pos \<bar>x\<bar> in
     if 2 ^ 1024 \<le> r then Inf (0 < x) else Fin (if x < 0 then - r else r))"

text \<open>Products with a positive finite number, and the verb \<^verbatim>\<open>%.0f\<close>.\<close>

fun f_scale :: "rat \<Rightarrow> fval \<Rightarrow> fval" where
  "f_scale q (Fin x) = f_round (x * q)"
| "f_scale q (Inf p) = Inf p"
| "f_scale q NaN = NaN"

fun fmt0_f :: "fval \<Rightarrow> string" where
  "fmt0_f (Fin x) = fmt0 x"
| "fmt0_f (Inf p) = (if p then ''+Inf'' else ''-Inf'')"
| "fmt0_f NaN = ''NaN''"

section \<open>Reading a number\<close>

definition mant_digit :: "bool \<Rightarrow> char \<Rightarrow> nat option" where
  "mant_digit hex c = (if hex then unhex c else digit_val c)"

fun scan_mant :: "bool \<Rightarrow> bool \<Rightarrow> nat \<Rightarrow> nat \<Rightarrow> bool \<Rightarrow> string \<Rightarrow> nat \<times> nat \<times> bool \<times> string" where
  "scan_mant hex dot m fr saw [] = (m, fr, saw, [])"
| "scan_mant hex dot m fr saw (c # cs) =
     (if c = CHR ''_'' then scan_mant hex dot m fr saw cs
      else if c = CHR ''.'' then
        (if dot then (m, fr, saw, c # cs) else scan_mant hex True m fr saw cs)
      else (case mant_digit hex c of
        Some d \<Rightarrow> scan_mant hex dot ((if hex then 16 else 10) * m + d) (if dot then Suc fr else fr) True cs
      | None \<Rightarrow> (m, fr, saw, c # cs)))"

text \<open>The digits of an exponent are counted up to the first value of at least 10000.\<close>

fun scan_exp :: "nat \<Rightarrow> string \<Rightarrow> nat \<times> string" where
  "scan_exp e [] = (e, [])"
| "scan_exp e (c # cs) =
     (if c = CHR ''_'' then scan_exp e cs
      else (case digit_val c of
        Some d \<Rightarrow> scan_exp (if e < 10000 then e * 10 + d else e) cs
      | None \<Rightarrow> (e, c # cs)))"

text \<open>Underscores stand between digits; a base prefix counts as a digit.\<close>

fun underscores :: "bool \<Rightarrow> char \<Rightarrow> string \<Rightarrow> bool" where
  "underscores hex saw [] = (saw \<noteq> CHR ''_'')"
| "underscores hex saw (c # cs) =
     (if mant_digit hex c \<noteq> None then underscores hex (CHR ''0'') cs
      else if c = CHR ''_'' then saw = CHR ''0'' \<and> underscores hex (CHR ''_'') cs
      else saw \<noteq> CHR ''_'' \<and> underscores hex (CHR ''!'') cs)"

definition strip_sign :: "string \<Rightarrow> bool \<times> string" where
  "strip_sign s = (if s \<noteq> [] \<and> hd s = CHR ''-'' then (True, tl s)
     else if s \<noteq> [] \<and> hd s = CHR ''+'' then (False, tl s) else (False, s))"

definition is_hex :: "string \<Rightarrow> bool" where
  "is_hex s \<longleftrightarrow> 2 < length s \<and> s ! 0 = CHR ''0'' \<and> lower_char (s ! 1) = CHR ''x''"

definition underscoreOK :: "string \<Rightarrow> bool" where
  "underscoreOK s = (if 2 \<le> length s \<and> s ! 0 = CHR ''0'' \<and> lower_char (s ! 1) \<in> {CHR ''b'', CHR ''o'', CHR ''x''}
     then underscores (lower_char (s ! 1) = CHR ''x'') (CHR ''0'') (drop 2 s) else underscores False (CHR ''^'') s)"

text \<open>The exponent after the mantissa: absent, or a letter, a sign and a digit at least.\<close>

definition read_exp :: "bool \<Rightarrow> string \<Rightarrow> (int \<times> string) option" where
  "read_exp hex s = (case s of
     c # cs \<Rightarrow>
       (if lower_char c = (if hex then CHR ''p'' else CHR ''e'') then
          (case strip_sign cs of (neg, ds) \<Rightarrow>
             (if ds = [] \<or> digit_val (hd ds) = None then None
              else (case scan_exp 0 ds of (e, rest) \<Rightarrow> Some (if neg then - int e else int e, rest))))
        else if hex then None else Some (0, s))
   | [] \<Rightarrow> if hex then None else Some (0, []))"

definition power_int_rat :: "rat \<Rightarrow> int \<Rightarrow> rat" where
  "power_int_rat b e = (if 0 \<le> e then b ^ nat e else 1 / b ^ nat (- e))"

definition readFloat :: "string \<Rightarrow> rat option" where
  "readFloat s = (case strip_sign s of (neg, t) \<Rightarrow>
     (let hex = is_hex t in
      case scan_mant hex False 0 0 False (if hex then drop 2 t else t) of (m, fr, saw, rest) \<Rightarrow>
        (if \<not> saw then None
         else (case read_exp hex rest of
           None \<Rightarrow> None
         | Some (e, rest') \<Rightarrow>
             (if rest' \<noteq> [] \<or> CHR ''_'' \<in> set t \<and> \<not> underscoreOK t then None
              else (let x = of_nat m * (if hex then power_int_rat 2 (e - 4 * int fr) else power_int_rat 10 (e - int fr))
                    in Some (if neg then - x else x)))))))"

definition ParseFloat :: "string \<Rightarrow> fval option" where
  "ParseFloat s = (case strip_sign s of (neg, t) \<Rightarrow>
     (if ToLower t = ''inf'' \<or> ToLower t = ''infinity'' then Some (Inf (\<not> neg))
      else if ToLower s = ''nan'' then Some NaN
      else (case readFloat s of
        None \<Rightarrow> None
      | Some x \<Rightarrow> (case f_round x of Inf _ \<Rightarrow> None | v \<Rightarrow> Some v))))"

end
