(* ===== verification/Playbook_Runs.thy ===== *)
theory Playbook_Runs
  imports Playbook_Store Go_Number Go_Json Go_Sort
begin

text \<open>
  The runs of playbooks: \<^verbatim>\<open>internal/audit/playbook_run_store.go\<close>,
  \<^verbatim>\<open>playbook_run_step_store.go\<close> and \<^verbatim>\<open>run_feedback_store.go\<close>, with the handlers of
  \<^verbatim>\<open>cmd/auditd/playbook_run_handlers.go\<close> and \<^verbatim>\<open>playbook_run_step_handlers.go\<close> over them. Tables
  are lists of rows, times of runs are kept to the second, \<open>flt\<close> is a failure of the database.
  Rates are quotients of counts rounded to a \<^verbatim>\<open>float64\<close>.
\<close>

section \<open>Diagnostic reports\<close>

text \<open>A confidence is a \<^verbatim>\<open>float64\<close>; the JSON encoder refuses the values that are not finite.\<close>

record diagnostic_hypothesis =
  hy_Rank :: int
  hy_Text :: string
  hy_Confidence :: fval
  hy_Evidence :: string
  hy_RejectedReason :: string
  hy_IsPrimary :: bool

record diagnostic_report =
  dy_Hypotheses :: "diagnostic_hypothesis list"
  dy_RootCause :: string
  dy_ActionTaken :: string

definition stored_report :: "diagnostic_report option \<Rightarrow> diagnostic_report option" where
  "stored_report d = (case d of
     None \<Rightarrow> None
   | Some r \<Rightarrow> if list_all (\<lambda>h. case hy_Confidence h of Fin _ \<Rightarrow> True | _ \<Rightarrow> False) (dy_Hypotheses r) then Some r else None)"

section \<open>Runs\<close>

record playbook_run =
  pn_RunID :: string
  pn_PlaybookID :: string
  pn_SeriesID :: string
  pn_ExecutionMode :: string
  pn_Outcome :: string
  pn_EscalatedTo :: string
  pn_TransitionedTo :: string
  pn_FindingsSummary :: string
  pn_DiagnosticReport :: "diagnostic_report option"
  pn_ContextID :: string
  pn_ConnectionString :: string
  pn_TraceID :: string
  pn_AgentTranscript :: string
  pn_PriorRunID :: string
  pn_TriggerContext :: string
  pn_Operator :: string
  pn_StartedAt :: time
  pn_CompletedAt :: time

definition run_Record ::
  "string option \<Rightarrow> string \<Rightarrow> time \<Rightarrow> playbook_run \<Rightarrow> playbook_run list \<Rightarrow> (string + playbook_run) \<times> playbook_run list" where
  "run_Record flt uid now r rows =
     (let r = (if pn_RunID r = [] then r\<lparr>pn_RunID := ''plr_'' @ take 8 uid\<rparr> else r);
          r = (if pn_StartedAt r = 0 then r\<lparr>pn_StartedAt := now\<rparr> else r)
      in case flt of
           Some e \<Rightarrow> (Inl e, rows)
         | None \<Rightarrow>
             (if list_ex (\<lambda>x. pn_RunID x = pn_RunID r) rows
              then (Inl ''UNIQUE constraint failed: playbook_runs.run_id'', rows)
              else (Inr r, rows @ [r\<lparr>pn_Outcome := (if pn_Outcome r = [] then ''unknown'' else pn_Outcome r),
                pn_DiagnosticReport := stored_report (pn_DiagnosticReport r), pn_AgentTranscript := [],
                pn_StartedAt := to_seconds (pn_StartedAt r), pn_CompletedAt := to_seconds (pn_CompletedAt r)\<rparr>])))"

record run_update =
  ux_Outcome :: string
  ux_EscalatedTo :: string
  ux_TransitionedTo :: string
  ux_FindingsSummary :: string
  ux_AgentTranscript :: string
  ux_TraceID :: string
  ux_DiagnosticReport :: "diagnostic_report option"

definition run_Update ::
  "string option \<Rightarrow> time \<Rightarrow> string \<Rightarrow> run_update \<Rightarrow> playbook_run list \<Rightarrow> string option \<times> playbook_run list" where
  "run_Update flt now runID u rows = (case flt of
     Some e \<Rightarrow> (Some e, rows)
   | None \<Rightarrow> (None, update_where (\<lambda>r. pn_RunID r = runID) (\<lambda>r. r\<lparr>pn_Outcome := ux_Outcome u,
       pn_EscalatedTo := ux_EscalatedTo u, pn_TransitionedTo := ux_TransitionedTo u,
       pn_FindingsSummary := ux_FindingsSummary u, pn_DiagnosticReport := stored_report (ux_DiagnosticReport u),
       pn_AgentTranscript := ux_AgentTranscript u, pn_CompletedAt := to_seconds now,
       pn_TraceID := (if ux_TraceID u \<noteq> [] then ux_TraceID u else pn_TraceID r)\<rparr>) rows))"

definition GetByRunID :: "string option \<Rightarrow> string \<Rightarrow> playbook_run list \<Rightarrow> pb_error + playbook_run" where
  "GetByRunID flt runID rows = (case flt of
     Some e \<Rightarrow> Inl (PbDB e)
   | None \<Rightarrow> (case find (\<lambda>r. pn_RunID r = runID) rows of None \<Rightarrow> Inl PbNoRows | Some r \<Rightarrow> Inr r))"

text \<open>The layout of the time columns.\<close>

definition fmt_datetime :: "time \<Rightarrow> string" where
  "fmt_datetime t = map (\<lambda>c. if c = CHR ''T'' then CHR '' '' else c) (fmt_seconds t)"

definition started_later :: "playbook_run \<Rightarrow> playbook_run \<Rightarrow> bool" where
  "started_later a b = str_less (fmt_datetime (pn_StartedAt b)) (fmt_datetime (pn_StartedAt a))"

type_synonym run_sort = "(playbook_run \<Rightarrow> playbook_run \<Rightarrow> bool) \<Rightarrow> playbook_run list \<Rightarrow> playbook_run list"

definition list_runs ::
  "run_sort \<Rightarrow> string option \<Rightarrow> (playbook_run \<Rightarrow> bool) \<Rightarrow> int \<Rightarrow> playbook_run list \<Rightarrow> string + playbook_run list" where
  "list_runs srt flt p limit rows = (case flt of
     Some e \<Rightarrow> Inl e | None \<Rightarrow> Inr (take (nat limit) (srt started_later (filter p rows))))"

definition clamp :: "int \<Rightarrow> int \<Rightarrow> int \<Rightarrow> int" where
  "clamp cap dflt limit = (if limit \<le> 0 \<or> limit > cap then dflt else limit)"

definition ListByPlaybook where
  "ListByPlaybook srt flt playbookID limit rows =
     list_runs srt flt (\<lambda>r. pn_PlaybookID r = playbookID) (clamp 100 20 limit) rows"

definition ListByPriorRunID where
  "ListByPriorRunID srt flt priorRunID limit rows =
     list_runs srt flt (\<lambda>r. pn_PriorRunID r = priorRunID) (clamp 100 10 limit) rows"

definition ListBySeriesID where
  "ListBySeriesID srt flt seriesID limit rows =
     list_runs srt flt (\<lambda>r. pn_SeriesID r = seriesID) (clamp 200 50 limit) rows"

definition ListByOutcome where
  "ListByOutcome srt flt outcome limit rows =
     list_runs srt flt (\<lambda>r. pn_Outcome r = outcome) (clamp 100 50 limit) rows"

section \<open>Steps of a run\<close>

record run_step =
  pst_RunID :: string
  pst_StepIndex :: int
  pst_Agent :: string
  pst_Tool :: string
  pst_Args :: json_map
  pst_Reason :: string
  pst_Status :: string
  pst_ApprovalID :: string
  pst_Result :: string
  pst_Error :: string
  pst_CreatedAt :: time
  pst_UpdatedAt :: time

definition CreateStep ::
  "string option \<Rightarrow> time \<Rightarrow> run_step \<Rightarrow> run_step list \<Rightarrow> (string + run_step) \<times> run_step list" where
  "CreateStep flt now p rows =
     (let p = p\<lparr>pst_CreatedAt := now, pst_UpdatedAt := now\<rparr>;
          p = (if pst_Status p = [] then p\<lparr>pst_Status := ''proposed''\<rparr> else p)
      in case flt of
           Some e \<Rightarrow> (Inl e, rows)
         | None \<Rightarrow>
             (if list_ex (\<lambda>x. pst_RunID x = pst_RunID p \<and> pst_StepIndex x = pst_StepIndex p) rows
              then (Inl ''UNIQUE constraint failed'', rows)
              else (Inr p, rows @ [p\<lparr>pst_Result := [], pst_Error := []\<rparr>])))"

definition UpdateStep ::
  "string option \<Rightarrow> time \<Rightarrow> string \<Rightarrow> int \<Rightarrow> string \<Rightarrow> string \<Rightarrow> string \<Rightarrow> string \<Rightarrow> run_step list \<Rightarrow>
   string option \<times> run_step list" where
  "UpdateStep flt now runID stepIndex status approvalID result stepErr rows = (case flt of
     Some e \<Rightarrow> (Some e, rows)
   | None \<Rightarrow> (None, update_where (\<lambda>p. pst_RunID p = runID \<and> pst_StepIndex p = stepIndex)
       (\<lambda>p. p\<lparr>pst_Status := status, pst_ApprovalID := approvalID, pst_Result := result, pst_Error := stepErr,
         pst_UpdatedAt := now\<rparr>) rows))"

definition is_open :: "run_step \<Rightarrow> bool" where
  "is_open p \<longleftrightarrow> pst_Status p = ''proposed'' \<or> pst_Status p = ''approved'' \<or> pst_Status p = ''executing''"

definition ListSteps :: "string option \<Rightarrow> string \<Rightarrow> run_step list \<Rightarrow> string + run_step list" where
  "ListSteps flt runID rows = (case flt of
     Some e \<Rightarrow> Inl e | None \<Rightarrow> Inr (sort_key pst_StepIndex (filter (\<lambda>p. pst_RunID p = runID) rows)))"

definition GetPendingStep :: "string option \<Rightarrow> string \<Rightarrow> run_step list \<Rightarrow> string + run_step option" where
  "GetPendingStep flt runID rows = (case flt of
     Some e \<Rightarrow> Inl e
   | None \<Rightarrow> Inr (case sort_key pst_StepIndex (filter (\<lambda>p. pst_RunID p = runID \<and> is_open p) rows) of
       [] \<Rightarrow> None | p # _ \<Rightarrow> Some p))"

definition NextStepIndex :: "string option \<Rightarrow> string \<Rightarrow> run_step list \<Rightarrow> string + int" where
  "NextStepIndex flt runID rows = (case flt of
     Some e \<Rightarrow> Inl e
   | None \<Rightarrow> (let is = map pst_StepIndex (filter (\<lambda>p. pst_RunID p = runID) rows)
       in Inr (if is = [] then 1 else wrap64 (fold max is (hd is) + 1))))"

section \<open>Feedback\<close>

record run_feedback =
  fk_RunID :: string
  fk_FeedbackType :: string
  fk_FeedbackTime :: string
  fk_SeriesID :: string
  fk_VerdictCorrect :: "bool option"
  fk_VerdictNotes :: string
  fk_Operator :: string
  fk_SubmittedAt :: time
  fk_FeedbackSource :: string

definition fk_key :: "run_feedback \<Rightarrow> string \<times> string \<times> string" where
  "fk_key f = (fk_RunID f, fk_FeedbackType f, fk_FeedbackTime f)"

text \<open>The insertion with its conflict clause. The caller's value keeps an empty source.\<close>

definition Submit ::
  "string option \<Rightarrow> time \<Rightarrow> run_feedback \<Rightarrow> run_feedback list \<Rightarrow> (string + run_feedback) \<times> run_feedback list" where
  "Submit flt now f rows =
     (let f = (if fk_SubmittedAt f = 0 then f\<lparr>fk_SubmittedAt := now\<rparr> else f);
          f = (if fk_FeedbackType f = [] then f\<lparr>fk_FeedbackType := ''triage''\<rparr> else f);
          f = (if fk_FeedbackTime f = [] then f\<lparr>fk_FeedbackTime := ''post_incident''\<rparr> else f);
          row = f\<lparr>fk_FeedbackSource := (if fk_FeedbackSource f = [] then ''human'' else fk_FeedbackSource f)\<rparr>
      in case flt of
           Some e \<Rightarrow> (Inl (''submit run feedback: '' @ e), rows)
         | None \<Rightarrow>
             (Inr f, if list_ex (\<lambda>x. fk_key x = fk_key row) rows
                then update_where (\<lambda>x. fk_key x = fk_key row) (\<lambda>_. row) rows else rows @ [row]))"

definition GetByRunIDAndType ::
  "string option \<Rightarrow> string \<Rightarrow> string \<Rightarrow> string \<Rightarrow> run_feedback list \<Rightarrow> pb_error + run_feedback" where
  "GetByRunIDAndType flt runID ty tm rows = (case flt of
     Some e \<Rightarrow> Inl (PbDB e)
   | None \<Rightarrow> (case find (\<lambda>f. fk_key f = (runID, ty, tm)) rows of None \<Rightarrow> Inl PbNoRows | Some f \<Rightarrow> Inr f))"

type_synonym fk_sort = "(run_feedback \<Rightarrow> run_feedback \<Rightarrow> bool) \<Rightarrow> run_feedback list \<Rightarrow> run_feedback list"

definition submitted_before :: "run_feedback \<Rightarrow> run_feedback \<Rightarrow> bool" where
  "submitted_before a b = str_less (fmt_rfc3339nano (fk_SubmittedAt a)) (fmt_rfc3339nano (fk_SubmittedAt b))"

definition feedback_ListByRunID :: "fk_sort \<Rightarrow> string option \<Rightarrow> string \<Rightarrow> run_feedback list \<Rightarrow> string + run_feedback list" where
  "feedback_ListByRunID srt flt runID rows = (case flt of
     Some e \<Rightarrow> Inl (''list feedback by run_id: '' @ e)
   | None \<Rightarrow> Inr (srt submitted_before (filter (\<lambda>f. fk_RunID f = runID) rows)))"

definition ListPending :: "fk_sort \<Rightarrow> string option \<Rightarrow> run_feedback list \<Rightarrow> string + run_feedback list" where
  "ListPending srt flt rows = (case flt of
     Some e \<Rightarrow> Inl (''list pending feedback: '' @ e)
   | None \<Rightarrow> Inr (srt (\<lambda>a b. submitted_before b a) (filter (\<lambda>f. fk_VerdictCorrect f = None \<and>
       fk_FeedbackType f = ''triage'' \<and> fk_FeedbackTime f = ''post_incident'') rows)))"

section \<open>Statistics\<close>

definition rate :: "nat \<Rightarrow> nat \<Rightarrow> rat" where
  "rate a b = fl64 (of_nat a / of_nat b)"

record feedback_stats =
  fz_FeedbackCount :: nat
  fz_CorrectCount :: nat
  fz_AccuracyRate :: rat
  fz_AtGateCount :: nat
  fz_AtGateCorrect :: nat
  fz_AtGateAccuracyRate :: rat
  fz_PostIncidentCount :: nat
  fz_PostIncidentCorrect :: nat
  fz_PostIncidentAccuracyRate :: rat
  fz_RemFeedbackCount :: nat
  fz_RemCorrectCount :: nat
  fz_RemAccuracyRate :: rat
  fz_RemAtGateCount :: nat
  fz_RemAtGateCorrect :: nat
  fz_RemPostIncidentCount :: nat
  fz_RemPostIncidentCorrect :: nat

definition zero_feedback_stats :: feedback_stats where
  "zero_feedback_stats = \<lparr>fz_FeedbackCount = 0, fz_CorrectCount = 0, fz_AccuracyRate = 0, fz_AtGateCount = 0,
     fz_AtGateCorrect = 0, fz_AtGateAccuracyRate = 0, fz_PostIncidentCount = 0, fz_PostIncidentCorrect = 0,
     fz_PostIncidentAccuracyRate = 0, fz_RemFeedbackCount = 0, fz_RemCorrectCount = 0, fz_RemAccuracyRate = 0,
     fz_RemAtGateCount = 0, fz_RemAtGateCorrect = 0, fz_RemPostIncidentCount = 0, fz_RemPostIncidentCorrect = 0\<rparr>"

text \<open>The groups of the query: feedback time, number of verdicts, number of positive ones.\<close>

definition verdict_rows :: "string \<Rightarrow> string \<Rightarrow> run_feedback list \<Rightarrow> run_feedback list" where
  "verdict_rows ty seriesID rows = filter (\<lambda>f. fk_SeriesID f = seriesID \<and> fk_FeedbackType f = ty \<and>
     fk_VerdictCorrect f \<noteq> None) rows"

definition verdict_groups :: "string \<Rightarrow> string \<Rightarrow> run_feedback list \<Rightarrow> (string \<times> nat \<times> nat) list" where
  "verdict_groups ty seriesID rows =
     (let vs = verdict_rows ty seriesID rows in
      map (\<lambda>tm. let g = filter (\<lambda>f. fk_FeedbackTime f = tm) vs
           in (tm, length g, length (filter (\<lambda>f. fk_VerdictCorrect f = Some True) g)))
        (remdups (map fk_FeedbackTime vs)))"

definition triage_group :: "string \<times> nat \<times> nat \<Rightarrow> feedback_stats \<Rightarrow> feedback_stats" where
  "triage_group g st = (case g of (tm, tot, correct) \<Rightarrow>
     (let st = st\<lparr>fz_FeedbackCount := fz_FeedbackCount st + tot, fz_CorrectCount := fz_CorrectCount st + correct\<rparr>
      in if tm = ''at_gate'' then st\<lparr>fz_AtGateCount := tot, fz_AtGateCorrect := correct,
           fz_AtGateAccuracyRate := (if tot > 0 then rate correct tot else fz_AtGateAccuracyRate st)\<rparr>
         else if tm = ''post_incident'' then st\<lparr>fz_PostIncidentCount := tot, fz_PostIncidentCorrect := correct,
           fz_PostIncidentAccuracyRate := (if tot > 0 then rate correct tot else fz_PostIncidentAccuracyRate st)\<rparr>
         else st))"

definition remediation_group :: "string \<times> nat \<times> nat \<Rightarrow> feedback_stats \<Rightarrow> feedback_stats" where
  "remediation_group g st = (case g of (tm, tot, correct) \<Rightarrow>
     (let st = st\<lparr>fz_RemFeedbackCount := fz_RemFeedbackCount st + tot, fz_RemCorrectCount := fz_RemCorrectCount st + correct\<rparr>
      in if tm = ''at_gate'' then st\<lparr>fz_RemAtGateCount := tot, fz_RemAtGateCorrect := correct\<rparr>
         else if tm = ''post_incident'' then st\<lparr>fz_RemPostIncidentCount := tot, fz_RemPostIncidentCorrect := correct\<rparr>
         else st))"

definition StatsBySeries ::
  "string option \<times> string option \<Rightarrow> string \<Rightarrow> run_feedback list \<Rightarrow> string + feedback_stats" where
  "StatsBySeries flts seriesID rows = (case flts of
     (Some e, _) \<Rightarrow> Inl (''stats by series: '' @ e)
   | (None, Some e) \<Rightarrow> Inl (''remediation stats by series: '' @ e)
   | (None, None) \<Rightarrow>
       (let st = fold triage_group (verdict_groups ''triage'' seriesID rows) zero_feedback_stats;
            st = (if fz_FeedbackCount st > 0
              then st\<lparr>fz_AccuracyRate := rate (fz_CorrectCount st) (fz_FeedbackCount st)\<rparr> else st);
            st = fold remediation_group (verdict_groups ''remediation'' seriesID rows) st;
            st = (if fz_RemFeedbackCount st > 0
              then st\<lparr>fz_RemAccuracyRate := rate (fz_RemCorrectCount st) (fz_RemFeedbackCount st)\<rparr> else st)
        in Inr st))"

text \<open>The feedback part of the statistics of a series is merged in by the handlers.\<close>

record run_stats =
  rz_SeriesID :: string
  rz_TotalRuns :: nat
  rz_Resolved :: nat
  rz_Escalated :: nat
  rz_Abandoned :: nat
  rz_EscalationRate :: rat
  rz_ResolutionRate :: rat
  rz_LastRunAt :: string
  rz_Feedback :: feedback_stats
  rz_AvgStepCount :: rat
  rz_AvgRecoverySecs :: rat

definition outcome_count :: "string \<Rightarrow> playbook_run list \<Rightarrow> nat" where
  "outcome_count out rs = length (filter (\<lambda>r. pn_Outcome r = out) rs)"

definition last_run :: "playbook_run list \<Rightarrow> string" where
  "last_run rs = (let m = fold (\<lambda>x m. if str_less m x then x else m) (map (\<lambda>r. fmt_datetime (pn_StartedAt r)) rs) []
     in if m = [] then [] else map (\<lambda>c. if c = CHR '' '' then CHR ''T'' else c) m @ ''Z'')"

definition run_counts :: "string \<Rightarrow> playbook_run list \<Rightarrow> run_stats" where
  "run_counts seriesID rs =
     (let tot = length rs; resolved = outcome_count ''resolved'' rs; escalated = outcome_count ''escalated'' rs
      in \<lparr>rz_SeriesID = seriesID, rz_TotalRuns = tot, rz_Resolved = resolved, rz_Escalated = escalated,
          rz_Abandoned = outcome_count ''abandoned'' rs,
          rz_EscalationRate = (if tot > 0 then rate escalated tot else 0),
          rz_ResolutionRate = (if tot > 0 then rate resolved tot else 0),
          rz_LastRunAt = last_run rs, rz_Feedback = zero_feedback_stats, rz_AvgStepCount = 0,
          rz_AvgRecoverySecs = 0\<rparr>)"

text \<open>The scan over the runs of several series with one accumulator for each: the number of steps, of
  runs, of seconds and of completed runs.\<close>

type_synonym accum = "nat \<times> nat \<times> nat \<times> nat"

definition step_count :: "run_step list \<Rightarrow> playbook_run \<Rightarrow> nat" where
  "step_count steps r = length (filter (\<lambda>p. pst_RunID p = pn_RunID r) steps)"

definition recovery :: "playbook_run \<Rightarrow> nat option" where
  "recovery r = (if pn_StartedAt r \<noteq> 0 \<and> pn_CompletedAt r \<noteq> 0 \<and> pn_StartedAt r < pn_CompletedAt r
     then Some ((pn_CompletedAt r - pn_StartedAt r) div sec_ns) else None)"

definition accum_row :: "run_step list \<Rightarrow> playbook_run \<Rightarrow> (string \<rightharpoonup> accum) \<Rightarrow> (string \<rightharpoonup> accum)" where
  "accum_row steps r acc = (case (case acc (pn_SeriesID r) of Some a \<Rightarrow> a | None \<Rightarrow> (0, 0, 0, 0)) of (st, tot, rec, cnt) \<Rightarrow>
     acc(pn_SeriesID r \<mapsto> (st + step_count steps r, tot + 1,
       (case recovery r of Some x \<Rightarrow> rec + x | None \<Rightarrow> rec), (case recovery r of Some _ \<Rightarrow> cnt + 1 | None \<Rightarrow> cnt))))"

definition augment :: "(string \<rightharpoonup> accum) \<Rightarrow> string \<times> run_stats \<Rightarrow> string \<times> run_stats" where
  "augment acc x = (case x of (sid, st) \<Rightarrow> (sid, (case acc sid of
     None \<Rightarrow> st
   | Some (steps, tot, rec, cnt) \<Rightarrow>
       (if tot = 0 then st
        else (let st = st\<lparr>rz_AvgStepCount := rate steps tot\<rparr>
          in if cnt > 0 then st\<lparr>rz_AvgRecoverySecs := rate rec cnt\<rparr> else st)))))"

definition augmentEfficiencyStats ::
  "string option \<Rightarrow> run_step list \<Rightarrow> playbook_run list \<Rightarrow> (string \<times> run_stats) list \<Rightarrow> (string \<times> run_stats) list" where
  "augmentEfficiencyStats flt steps rows stats = (case flt of
     Some _ \<Rightarrow> stats
   | None \<Rightarrow>
       (let acc = fold (accum_row steps) (filter (\<lambda>r. List.member (map fst stats) (pn_SeriesID r)) rows) Map.empty
        in map (augment acc) stats))"

definition series_rows :: "string \<Rightarrow> playbook_run list \<Rightarrow> playbook_run list" where
  "series_rows seriesID rows = filter (\<lambda>r. pn_SeriesID r = seriesID) rows"

definition Stats ::
  "string option \<times> string option \<Rightarrow> string \<Rightarrow> run_step list \<Rightarrow> playbook_run list \<Rightarrow> string + run_stats" where
  "Stats flts seriesID steps rows = (case fst flts of
     Some e \<Rightarrow> Inl e
   | None \<Rightarrow> Inr (snd (hd (augmentEfficiencyStats (snd flts) steps rows
       [(seriesID, run_counts seriesID (series_rows seriesID rows))]))))"

definition StatsBatch ::
  "string option \<times> string option \<Rightarrow> string list \<Rightarrow> run_step list \<Rightarrow> playbook_run list \<Rightarrow>
   string + (string \<times> run_stats) list" where
  "StatsBatch flts seriesIDs steps rows =
     (if seriesIDs = [] then Inr []
      else (case fst flts of
        Some e \<Rightarrow> Inl e
      | None \<Rightarrow>
          (let sel = filter (\<lambda>r. List.member seriesIDs (pn_SeriesID r)) rows
           in Inr (augmentEfficiencyStats (snd flts) steps rows
             (map (\<lambda>sid. (sid, run_counts sid (series_rows sid sel))) (remdups (map pn_SeriesID sel)))))))"

section \<open>Handlers\<close>

record run_tables =
  tb_playbooks :: "playbook list"
  tb_runs :: "playbook_run list"
  tb_steps :: "run_step list"
  tb_feedback :: "run_feedback list"

text \<open>The series and the mode of a run come from its playbook when the body does not say.\<close>

definition fill_run :: "string option \<Rightarrow> string \<Rightarrow> playbook_run \<Rightarrow> playbook list \<Rightarrow> playbook_run" where
  "fill_run flt playbookID run pbs =
     (let run = run\<lparr>pn_PlaybookID := playbookID\<rparr>
      in if pn_SeriesID run = [] \<or> pn_ExecutionMode run = [] then
           (case pb_Get flt playbookID pbs of
              Inl _ \<Rightarrow> run
            | Inr pb \<Rightarrow>
                (let run = (if pn_SeriesID run = [] then run\<lparr>pn_SeriesID := pb_SeriesID pb\<rparr> else run)
                 in if pn_ExecutionMode run = [] then run\<lparr>pn_ExecutionMode := pb_ExecutionMode pb\<rparr> else run))
         else run)"

definition run_handleRecord ::
  "string option \<times> string option \<Rightarrow> string \<Rightarrow> time \<Rightarrow> string \<Rightarrow> playbook_run body \<Rightarrow> run_tables \<Rightarrow>
   playbook_run response \<times> run_tables" where
  "run_handleRecord flts uid now playbookID b t =
     (if playbookID = [] then ((400, Inl ''playbookID is required''), t)
      else (case b of
        ReadError \<Rightarrow> ((400, Inl ''invalid JSON: ''), t)
      | BadJSON e \<Rightarrow> ((400, Inl (''invalid JSON: '' @ e)), t)
      | Body run \<Rightarrow>
          (let run = fill_run (fst flts) playbookID run (tb_playbooks t) in
           if pn_SeriesID run = [] then ((400, Inl ''series_id is required''), t)
           else (case run_Record (snd flts) uid now run (tb_runs t) of
             (Inl _, rows) \<Rightarrow> ((500, Inl ''failed to record run''), t\<lparr>tb_runs := rows\<rparr>)
           | (Inr r, rows) \<Rightarrow> ((201, Inr r), t\<lparr>tb_runs := rows\<rparr>)))))"

definition run_handleUpdate ::
  "string option \<Rightarrow> time \<Rightarrow> string \<Rightarrow> run_update body \<Rightarrow> run_tables \<Rightarrow> unit response \<times> run_tables" where
  "run_handleUpdate flt now runID b t =
     (if runID = [] then ((400, Inl ''runID is required''), t)
      else (case b of
        ReadError \<Rightarrow> ((400, Inl ''invalid JSON: ''), t)
      | BadJSON e \<Rightarrow> ((400, Inl (''invalid JSON: '' @ e)), t)
      | Body u \<Rightarrow>
          (if ux_Outcome u = [] then ((400, Inl ''outcome is required''), t)
           else (case run_Update flt now runID u (tb_runs t) of
             (Some _, rows) \<Rightarrow> ((500, Inl ''failed to update run''), t\<lparr>tb_runs := rows\<rparr>)
           | (None, rows) \<Rightarrow> ((204, Inr ()), t\<lparr>tb_runs := rows\<rparr>)))))"

definition query_limit :: "int \<Rightarrow> string \<Rightarrow> int" where
  "query_limit dflt l = (case Atoi l of Some n \<Rightarrow> n | None \<Rightarrow> dflt)"

definition run_handleList ::
  "run_sort \<Rightarrow> string option \<Rightarrow> string \<Rightarrow> (string \<Rightarrow> string) \<Rightarrow> run_tables \<Rightarrow> playbook_run list response" where
  "run_handleList srt flt playbookID get t =
     (case ListByPlaybook srt flt playbookID (query_limit 20 (get ''limit'')) (tb_runs t) of
        Inl _ \<Rightarrow> (500, Inl ''failed to list runs'') | Inr rs \<Rightarrow> (200, Inr rs))"

definition run_handleGet :: "string option \<Rightarrow> string \<Rightarrow> run_tables \<Rightarrow> playbook_run response" where
  "run_handleGet flt runID t =
     (if runID = [] then (400, Inl ''runID is required'')
      else (case GetByRunID flt runID (tb_runs t) of
        Inl PbNoRows \<Rightarrow> (404, Inl ''run not found'')
      | Inl _ \<Rightarrow> (500, Inl ''failed to get run'')
      | Inr r \<Rightarrow> (200, Inr r)))"

definition run_handleListByOutcome ::
  "run_sort \<Rightarrow> string option \<Rightarrow> (string \<Rightarrow> string) \<Rightarrow> run_tables \<Rightarrow> playbook_run list response" where
  "run_handleListByOutcome srt flt get t =
     (let limit = query_limit 50 (get ''limit'');
          reply = (\<lambda>r. case r of Inl _ \<Rightarrow> (500, Inl ''failed to list runs'') | Inr rs \<Rightarrow> (200, Inr rs))
      in if get ''series_id'' \<noteq> [] then reply (ListBySeriesID srt flt (get ''series_id'') limit (tb_runs t))
         else if get ''prior_run_id'' \<noteq> [] then reply (ListByPriorRunID srt flt (get ''prior_run_id'') limit (tb_runs t))
         else if get ''outcome'' = [] then (400, Inl ''series_id, prior_run_id, or outcome query parameter is required'')
         else reply (ListByOutcome srt flt (get ''outcome'') limit (tb_runs t)))"

definition merge_feedback :: "string option \<times> string option \<Rightarrow> run_feedback list \<Rightarrow> run_stats \<Rightarrow> run_stats" where
  "merge_feedback flts fbs st = (case StatsBySeries flts (rz_SeriesID st) fbs of
     Inr f \<Rightarrow> st\<lparr>rz_Feedback := f\<rparr> | Inl _ \<Rightarrow> st)"

definition run_handleStats ::
  "string option \<Rightarrow> string option \<times> string option \<Rightarrow> string option \<times> string option \<Rightarrow> string \<Rightarrow> run_tables \<Rightarrow>
   run_stats response" where
  "run_handleStats flt flts fflts playbookID t = (case pb_Get flt playbookID (tb_playbooks t) of
     Inl _ \<Rightarrow> (404, Inl ''playbook not found'')
   | Inr pb \<Rightarrow> (case Stats flts (pb_SeriesID pb) (tb_steps t) (tb_runs t) of
       Inl _ \<Rightarrow> (500, Inl ''failed to get stats'')
     | Inr st \<Rightarrow> (200, Inr (merge_feedback fflts (tb_feedback t) st))))"

text \<open>The listing of playbooks with the statistics of their series.\<close>

definition playbook_handleList ::
  "pb_sort \<Rightarrow> (time \<Rightarrow> string) \<Rightarrow> string option \<Rightarrow> string option \<times> string option \<Rightarrow> string option \<times> string option \<Rightarrow>
   (string \<Rightarrow> string) \<Rightarrow> run_tables \<Rightarrow> (playbook \<times> run_stats option) list response" where
  "playbook_handleList srt dbtext flt flts fflts get t =
     (case pb_List srt dbtext flt (playbook_list_query get) (tb_playbooks t) of
        Inl _ \<Rightarrow> (500, Inl ''failed to list playbooks'')
      | Inr pbs \<Rightarrow>
          (200, Inr (case StatsBatch flts (filter (\<lambda>x. x \<noteq> []) (map pb_SeriesID pbs)) (tb_steps t) (tb_runs t) of
             Inl _ \<Rightarrow> map (\<lambda>pb. (pb, None)) pbs
           | Inr stats \<Rightarrow> map (\<lambda>pb. (pb, map_option (merge_feedback fflts (tb_feedback t)) (map_of stats (pb_SeriesID pb)))) pbs)))"

definition handleSubmitFeedback ::
  "string option \<times> string option \<Rightarrow> time \<Rightarrow> string \<Rightarrow> string \<Rightarrow> run_feedback body \<Rightarrow> run_tables \<Rightarrow>
   run_feedback response \<times> run_tables" where
  "handleSubmitFeedback flts now user runID b t =
     (if runID = [] then ((400, Inl ''runID is required''), t)
      else (case b of
        ReadError \<Rightarrow> ((400, Inl ''invalid JSON: ''), t)
      | BadJSON e \<Rightarrow> ((400, Inl (''invalid JSON: '' @ e)), t)
      | Body f \<Rightarrow>
          (let f = f\<lparr>fk_RunID := runID\<rparr>;
               f = (if user \<noteq> [] \<and> fk_Operator f = [] then f\<lparr>fk_Operator := user\<rparr> else f);
               f = (if fk_SeriesID f = [] then
                      (case GetByRunID (fst flts) runID (tb_runs t) of Inr r \<Rightarrow> f\<lparr>fk_SeriesID := pn_SeriesID r\<rparr> | Inl _ \<Rightarrow> f)
                    else f)
           in case Submit (snd flts) now f (tb_feedback t) of
                (Inl _, rows) \<Rightarrow> ((500, Inl ''failed to submit feedback''), t\<lparr>tb_feedback := rows\<rparr>)
              | (Inr f', rows) \<Rightarrow> ((201, Inr f'), t\<lparr>tb_feedback := rows\<rparr>))))"

definition handleGetFeedback ::
  "fk_sort \<Rightarrow> string option \<Rightarrow> string \<Rightarrow> (string \<Rightarrow> string) \<Rightarrow> run_tables \<Rightarrow> (run_feedback list + run_feedback) response" where
  "handleGetFeedback srt flt runID get t =
     (if runID = [] then (400, Inl ''runID is required'')
      else if get ''feedback_type'' = [] \<and> get ''feedback_time'' = [] then
        (case feedback_ListByRunID srt flt runID (tb_feedback t) of
           Inl _ \<Rightarrow> (500, Inl ''failed to list feedback'') | Inr fs \<Rightarrow> (200, Inr (Inl fs)))
      else
        (let ty = (if get ''feedback_type'' = [] then ''triage'' else get ''feedback_type'');
             tm = (if get ''feedback_time'' = [] then ''post_incident'' else get ''feedback_time'')
         in case GetByRunIDAndType flt runID ty tm (tb_feedback t) of
              Inl PbNoRows \<Rightarrow> (404, Inl ''no feedback for run'')
            | Inl _ \<Rightarrow> (500, Inl ''failed to get feedback'')
            | Inr f \<Rightarrow> (200, Inr (Inr f))))"

definition handleListPendingFeedback ::
  "fk_sort \<Rightarrow> string option \<Rightarrow> run_tables \<Rightarrow> run_feedback list response" where
  "handleListPendingFeedback srt flt t = (case ListPending srt flt (tb_feedback t) of
     Inl _ \<Rightarrow> (500, Inl ''failed to list pending feedback'') | Inr fs \<Rightarrow> (200, Inr fs))"

definition handleCreateStep ::
  "string option \<times> string option \<Rightarrow> time \<Rightarrow> string \<Rightarrow> run_step body \<Rightarrow> run_tables \<Rightarrow> run_step response \<times> run_tables" where
  "handleCreateStep flts now runID b t =
     (if runID = [] then ((400, Inl ''runID is required''), t)
      else (case b of
        ReadError \<Rightarrow> ((400, Inl ''invalid JSON: ''), t)
      | BadJSON e \<Rightarrow> ((400, Inl (''invalid JSON: '' @ e)), t)
      | Body p \<Rightarrow>
          (let p = p\<lparr>pst_RunID := runID\<rparr> in
           if pst_Tool p = [] \<or> pst_Agent p = [] then ((400, Inl ''agent and tool are required''), t)
           else (case (if pst_StepIndex p = 0 then NextStepIndex (fst flts) runID (tb_steps t) else Inr (pst_StepIndex p)) of
             Inl _ \<Rightarrow> ((500, Inl ''failed to assign step index''), t)
           | Inr i \<Rightarrow> (case CreateStep (snd flts) now (p\<lparr>pst_StepIndex := i\<rparr>) (tb_steps t) of
               (Inl _, rows) \<Rightarrow> ((500, Inl ''failed to create step''), t\<lparr>tb_steps := rows\<rparr>)
             | (Inr p', rows) \<Rightarrow> ((201, Inr p'), t\<lparr>tb_steps := rows\<rparr>))))))"

definition handleUpdateStep ::
  "string option \<Rightarrow> time \<Rightarrow> string \<Rightarrow> string \<Rightarrow> (string \<times> string \<times> string \<times> string) body \<Rightarrow> run_tables \<Rightarrow>
   unit response \<times> run_tables" where
  "handleUpdateStep flt now runID stepIndexStr b t =
     (if runID = [] \<or> stepIndexStr = [] then ((400, Inl ''runID and stepIndex are required''), t)
      else (case Atoi stepIndexStr of
        None \<Rightarrow> ((400, Inl ''invalid stepIndex''), t)
      | Some i \<Rightarrow> (case b of
          ReadError \<Rightarrow> ((400, Inl ''invalid JSON: ''), t)
        | BadJSON e \<Rightarrow> ((400, Inl (''invalid JSON: '' @ e)), t)
        | Body (status, approvalID, res, err) \<Rightarrow>
            (if status = [] then ((400, Inl ''status is required''), t)
             else (case UpdateStep flt now runID i status approvalID res err (tb_steps t) of
               (Some _, rows) \<Rightarrow> ((500, Inl ''failed to update step''), t\<lparr>tb_steps := rows\<rparr>)
             | (None, rows) \<Rightarrow> ((204, Inr ()), t\<lparr>tb_steps := rows\<rparr>))))))"

definition handleListSteps :: "string option \<Rightarrow> string \<Rightarrow> run_tables \<Rightarrow> run_step list response" where
  "handleListSteps flt runID t =
     (if runID = [] then (400, Inl ''runID is required'')
      else (case ListSteps flt runID (tb_steps t) of Inl _ \<Rightarrow> (500, Inl ''failed to list steps'') | Inr ps \<Rightarrow> (200, Inr ps)))"

definition handleGetPendingStep :: "string option \<Rightarrow> string \<Rightarrow> run_tables \<Rightarrow> run_step response" where
  "handleGetPendingStep flt runID t =
     (if runID = [] then (400, Inl ''runID is required'')
      else (case GetPendingStep flt runID (tb_steps t) of
        Inl _ \<Rightarrow> (500, Inl ''failed to get pending step'')
      | Inr None \<Rightarrow> (404, Inl ''no pending step'')
      | Inr (Some p) \<Rightarrow> (200, Inr p)))"

section \<open>Facts about the statistics\<close>

lemma series_rows_simps [simp]:
  "series_rows sid [] = []"
  "series_rows sid (r # rs) = (if pn_SeriesID r = sid then r # series_rows sid rs else series_rows sid rs)"
  by (simp_all add: series_rows_def)

lemma accum_row_other: "pn_SeriesID r \<noteq> sid \<Longrightarrow> accum_row steps r acc sid = acc sid"
  by (simp add: accum_row_def split: prod.split)

lemma accum_row_same: "acc (pn_SeriesID r) = acc' (pn_SeriesID r) \<Longrightarrow>
    accum_row steps r acc (pn_SeriesID r) = accum_row steps r acc' (pn_SeriesID r)"
  by (simp add: accum_row_def split: prod.split)

text \<open>The accumulator of a series depends on the rows of that series only.\<close>

lemma fold_accum_local:
  "acc sid = acc' sid \<Longrightarrow> fold (accum_row steps) rs acc sid = fold (accum_row steps) (series_rows sid rs) acc' sid"
proof (induction rs arbitrary: acc acc')
  case (Cons r rs)
  show ?case
  proof (cases "pn_SeriesID r = sid")
    case True
    with Cons.prems accum_row_same [of acc r acc' steps] have "accum_row steps r acc sid = accum_row steps r acc' sid"
      by simp
    from Cons.IH [of "accum_row steps r acc" "accum_row steps r acc'", OF this] True show ?thesis by simp
  next
    case False
    with Cons.prems have "accum_row steps r acc sid = acc' sid" by (simp add: accum_row_other)
    from Cons.IH [of "accum_row steps r acc" acc', OF this] False show ?thesis by simp
  qed
qed simp

lemma series_rows_filter: "(\<And>r. pn_SeriesID r = sid \<Longrightarrow> p r) \<Longrightarrow> series_rows sid (filter p rows) = series_rows sid rows"
  by (induction rows) auto

lemma member_iff: "List.member xs x \<longleftrightarrow> x \<in> set xs"
  by simp

definition efficiency :: "run_step list \<Rightarrow> playbook_run list \<Rightarrow> string \<Rightarrow> run_stats \<Rightarrow> run_stats" where
  "efficiency steps rows sid st =
     snd (augment (fold (accum_row steps) (series_rows sid rows) Map.empty) (sid, st))"

lemma augment_cong: "acc sid = acc' sid \<Longrightarrow> augment acc (sid, st) = augment acc' (sid, st)"
  by (simp add: augment_def)

lemma fst_augment [simp]: "fst (augment acc x) = fst x"
  by (simp add: augment_def split: prod.split)

lemma augmentEfficiencyStats_each:
  "augmentEfficiencyStats None steps rows stats = map (\<lambda>(sid, st). (sid, efficiency steps rows sid st)) stats"
proof -
  have "augment (fold (accum_row steps) (filter (\<lambda>r. List.member (map fst stats) (pn_SeriesID r)) rows) Map.empty) (sid, st) =
      (sid, efficiency steps rows sid st)" if "(sid, st) \<in> set stats" for sid st
  proof -
    have "fold (accum_row steps) (filter (\<lambda>r. List.member (map fst stats) (pn_SeriesID r)) rows) Map.empty sid =
        fold (accum_row steps) (series_rows sid (filter (\<lambda>r. List.member (map fst stats) (pn_SeriesID r)) rows)) Map.empty sid"
      by (rule fold_accum_local) simp
    also have "series_rows sid (filter (\<lambda>r. List.member (map fst stats) (pn_SeriesID r)) rows) = series_rows sid rows"
      by (rule series_rows_filter) (use that in \<open>force simp: member_iff\<close>)
    finally have "augment (fold (accum_row steps) (filter (\<lambda>r. List.member (map fst stats) (pn_SeriesID r)) rows) Map.empty) (sid, st) =
        augment (fold (accum_row steps) (series_rows sid rows) Map.empty) (sid, st)"
      by (rule augment_cong)
    also have "\<dots> = (sid, efficiency steps rows sid st)"
      by (simp add: efficiency_def prod_eq_iff)
    finally show ?thesis .
  qed
  then show ?thesis
    by (auto simp: augmentEfficiencyStats_def Let_def)
qed

lemma Stats_each:
  "Stats (None, None) sid steps rows = Inr (efficiency steps rows sid (run_counts sid (series_rows sid rows)))"
  by (simp add: Stats_def augmentEfficiencyStats_each)

lemma map_of_series:
  "map_of (map (\<lambda>sid. (sid, f sid)) xs) s = (if s \<in> set xs then Some (f s) else None)"
  by (induction xs) auto

section \<open>Properties of the statistics\<close>

text \<open>the statistics of many series are those of each. The query for a list of series, with its
  grouping and its single scan over the runs of all of them, gives for each series with at least one
  run exactly what the query for that series alone gives, and nothing for others.\<close>

theorem batch_matches_stats:
  "\<exists>m. StatsBatch (None, None) seriesIDs steps rows = Inr m \<and>
    (\<forall>sid. map_of m sid = (if List.member seriesIDs sid \<and> series_rows sid rows \<noteq> []
       then (case Stats (None, None) sid steps rows of Inr st \<Rightarrow> Some st | Inl _ \<Rightarrow> None) else None))"
proof (cases "seriesIDs = []")
  case True
  then show ?thesis by (simp add: StatsBatch_def member_iff)
next
  case False
  let ?sel = "filter (\<lambda>r. List.member seriesIDs (pn_SeriesID r)) rows"
  let ?f = "\<lambda>sid. efficiency steps rows sid (run_counts sid (series_rows sid ?sel))"
  have m: "StatsBatch (None, None) seriesIDs steps rows = Inr (map (\<lambda>sid. (sid, ?f sid)) (remdups (map pn_SeriesID ?sel)))"
    using False by (simp add: StatsBatch_def augmentEfficiencyStats_each Let_def o_def)
  have "map_of (map (\<lambda>sid. (sid, ?f sid)) (remdups (map pn_SeriesID ?sel))) sid =
      (if List.member seriesIDs sid \<and> series_rows sid rows \<noteq> []
       then (case Stats (None, None) sid steps rows of Inr st \<Rightarrow> Some st | Inl _ \<Rightarrow> None) else None)" for sid
  proof -
    have "sid \<in> set (remdups (map pn_SeriesID ?sel)) \<longleftrightarrow> List.member seriesIDs sid \<and> series_rows sid rows \<noteq> []"
      by (auto simp: series_rows_def filter_empty_conv)
    moreover have "List.member seriesIDs sid \<Longrightarrow> series_rows sid ?sel = series_rows sid rows"
      by (rule series_rows_filter) simp
    ultimately show ?thesis
      by (simp add: map_of_series Stats_each)
  qed
  with m show ?thesis by blast
qed


section \<open>Properties of feedback\<close>

text \<open>The groups of a query partition its rows by feedback time.\<close>

definition verdicts_at :: "string \<Rightarrow> run_feedback list \<Rightarrow> run_feedback list" where
  "verdicts_at tm vs = filter (\<lambda>f. fk_FeedbackTime f = tm) vs"

definition confirmed :: "run_feedback list \<Rightarrow> run_feedback list" where
  "confirmed vs = filter (\<lambda>f. fk_VerdictCorrect f = Some True) vs"

lemma sum_of_groups:
  assumes "distinct ks" "set (map key vs) \<subseteq> set ks"
  shows "sum_list (map (\<lambda>k. length (filter P (filter (\<lambda>v. key v = k) vs))) ks) = length (filter P vs)"
  using assms(2)
proof (induction vs)
  case Nil
  then show ?case by simp
next
  case (Cons v vs)
  let ?g = "\<lambda>vs k. length (filter P (filter (\<lambda>v. key v = k) vs))"
  have "?g (v # vs) k = (if k = key v \<and> P v then 1 else 0) + ?g vs k" for k by auto
  then have "sum_list (map (?g (v # vs)) ks) =
      sum_list (map (\<lambda>k. if k = key v \<and> P v then 1 else 0) ks) + sum_list (map (?g vs) ks)"
    by (simp only: sum_list_addf)
  moreover have "sum_list (map (\<lambda>k. if k = key v \<and> P v then 1 else 0) ks) = (if P v then 1 else (0::nat))"
    using assms(1) Cons.prems
    by (auto simp: sum_list_distinct_conv_sum_set sum.delta)
  ultimately show ?case using Cons by simp
qed

lemma fold_triage_group:
  assumes "distinct tms"
  shows "fold triage_group (map (\<lambda>tm. (tm, n tm, c tm)) tms) st = st\<lparr>
     fz_FeedbackCount := fz_FeedbackCount st + sum_list (map n tms),
     fz_CorrectCount := fz_CorrectCount st + sum_list (map c tms),
     fz_AtGateCount := (if ''at_gate'' \<in> set tms then n ''at_gate'' else fz_AtGateCount st),
     fz_AtGateCorrect := (if ''at_gate'' \<in> set tms then c ''at_gate'' else fz_AtGateCorrect st),
     fz_AtGateAccuracyRate := (if ''at_gate'' \<in> set tms \<and> n ''at_gate'' > 0 then rate (c ''at_gate'') (n ''at_gate'')
        else fz_AtGateAccuracyRate st),
     fz_PostIncidentCount := (if ''post_incident'' \<in> set tms then n ''post_incident'' else fz_PostIncidentCount st),
     fz_PostIncidentCorrect := (if ''post_incident'' \<in> set tms then c ''post_incident'' else fz_PostIncidentCorrect st),
     fz_PostIncidentAccuracyRate := (if ''post_incident'' \<in> set tms \<and> n ''post_incident'' > 0
        then rate (c ''post_incident'') (n ''post_incident'') else fz_PostIncidentAccuracyRate st)\<rparr>"
  using assms
proof (induction tms arbitrary: st)
  case Nil
  show ?case by simp
next
  case (Cons tm tms)
  then show ?case
    by (cases "tm = ''at_gate''"; cases "tm = ''post_incident''") (simp_all add: triage_group_def Let_def)
qed

lemma fold_remediation_group:
  assumes "distinct tms"
  shows "fold remediation_group (map (\<lambda>tm. (tm, n tm, c tm)) tms) st = st\<lparr>
     fz_RemFeedbackCount := fz_RemFeedbackCount st + sum_list (map n tms),
     fz_RemCorrectCount := fz_RemCorrectCount st + sum_list (map c tms),
     fz_RemAtGateCount := (if ''at_gate'' \<in> set tms then n ''at_gate'' else fz_RemAtGateCount st),
     fz_RemAtGateCorrect := (if ''at_gate'' \<in> set tms then c ''at_gate'' else fz_RemAtGateCorrect st),
     fz_RemPostIncidentCount := (if ''post_incident'' \<in> set tms then n ''post_incident'' else fz_RemPostIncidentCount st),
     fz_RemPostIncidentCorrect := (if ''post_incident'' \<in> set tms then c ''post_incident'' else fz_RemPostIncidentCorrect st)\<rparr>"
  using assms
proof (induction tms arbitrary: st)
  case Nil
  show ?case by simp
next
  case (Cons tm tms)
  then show ?case
    by (cases "tm = ''at_gate''"; cases "tm = ''post_incident''") (simp_all add: remediation_group_def Let_def)
qed

lemma verdict_groups_map:
  "verdict_groups ty sid rows = map (\<lambda>tm. (tm, length (verdicts_at tm (verdict_rows ty sid rows)),
      length (confirmed (verdicts_at tm (verdict_rows ty sid rows)))))
     (remdups (map fk_FeedbackTime (verdict_rows ty sid rows)))"
  by (simp add: verdict_groups_def verdicts_at_def confirmed_def Let_def)

lemma group_sums:
  "sum_list (map (\<lambda>tm. length (verdicts_at tm vs)) (remdups (map fk_FeedbackTime vs))) = length vs"
  "sum_list (map (\<lambda>tm. length (confirmed (verdicts_at tm vs))) (remdups (map fk_FeedbackTime vs))) = length (confirmed vs)"
  using sum_of_groups [of "remdups (map fk_FeedbackTime vs)" fk_FeedbackTime vs "\<lambda>_. True"]
    sum_of_groups [of "remdups (map fk_FeedbackTime vs)" fk_FeedbackTime vs "\<lambda>f. fk_VerdictCorrect f = Some True"]
  by (simp_all add: verdicts_at_def confirmed_def)

text \<open>A share in percent is the quotient when there is something to share.\<close>

definition share :: "nat \<Rightarrow> nat \<Rightarrow> rat" where
  "share a b = (if b > 0 then rate a b else 0)"

lemma zero_remediation [simp]:
  "fz_RemFeedbackCount zero_feedback_stats = 0" "fz_RemCorrectCount zero_feedback_stats = 0"
  "fz_RemAtGateCount zero_feedback_stats = 0" "fz_RemAtGateCorrect zero_feedback_stats = 0"
  "fz_RemPostIncidentCount zero_feedback_stats = 0" "fz_RemPostIncidentCorrect zero_feedback_stats = 0"
  by (simp_all add: zero_feedback_stats_def)

definition triage_figures :: "run_feedback list \<Rightarrow> feedback_stats \<Rightarrow> feedback_stats" where
  "triage_figures vs st = st\<lparr>
     fz_FeedbackCount := length vs, fz_CorrectCount := length (confirmed vs),
     fz_AtGateCount := length (verdicts_at ''at_gate'' vs), fz_AtGateCorrect := length (confirmed (verdicts_at ''at_gate'' vs)),
     fz_AtGateAccuracyRate := share (length (confirmed (verdicts_at ''at_gate'' vs))) (length (verdicts_at ''at_gate'' vs)),
     fz_PostIncidentCount := length (verdicts_at ''post_incident'' vs),
     fz_PostIncidentCorrect := length (confirmed (verdicts_at ''post_incident'' vs)),
     fz_PostIncidentAccuracyRate :=
       share (length (confirmed (verdicts_at ''post_incident'' vs))) (length (verdicts_at ''post_incident'' vs))\<rparr>"

definition remediation_figures :: "run_feedback list \<Rightarrow> feedback_stats \<Rightarrow> feedback_stats" where
  "remediation_figures ws st = st\<lparr>
     fz_RemFeedbackCount := length ws, fz_RemCorrectCount := length (confirmed ws),
     fz_RemAtGateCount := length (verdicts_at ''at_gate'' ws), fz_RemAtGateCorrect := length (confirmed (verdicts_at ''at_gate'' ws)),
     fz_RemPostIncidentCount := length (verdicts_at ''post_incident'' ws),
     fz_RemPostIncidentCorrect := length (confirmed (verdicts_at ''post_incident'' ws))\<rparr>"

text \<open>A time that no verdict has leaves its figures at zero.\<close>

lemma absent_time:
  "(if tm \<in> set (remdups (map fk_FeedbackTime vs)) then length (verdicts_at tm vs) else 0) = length (verdicts_at tm vs)"
  "(if tm \<in> set (remdups (map fk_FeedbackTime vs)) then length (confirmed (verdicts_at tm vs)) else 0) =
     length (confirmed (verdicts_at tm vs))"
  "(if tm \<in> set (remdups (map fk_FeedbackTime vs)) \<and> length (verdicts_at tm vs) > 0 then rate a (length (verdicts_at tm vs)) else 0) =
     share a (length (verdicts_at tm vs))"
  by (auto simp: verdicts_at_def confirmed_def share_def filter_empty_conv)

lemma triage_of_groups:
  "fold triage_group (verdict_groups ''triage'' sid rows) zero_feedback_stats =
     triage_figures (verdict_rows ''triage'' sid rows) zero_feedback_stats"
  unfolding verdict_groups_map fold_triage_group [OF distinct_remdups] group_sums triage_figures_def
  by (simp only: zero_feedback_stats_def feedback_stats.simps absent_time add_0)

lemma remediation_of_groups:
  assumes "fz_RemFeedbackCount st = 0" "fz_RemCorrectCount st = 0" "fz_RemAtGateCount st = 0" "fz_RemAtGateCorrect st = 0"
    "fz_RemPostIncidentCount st = 0" "fz_RemPostIncidentCorrect st = 0"
  shows "fold remediation_group (verdict_groups ''remediation'' sid rows) st =
     remediation_figures (verdict_rows ''remediation'' sid rows) st"
  unfolding verdict_groups_map fold_remediation_group [OF distinct_remdups] group_sums remediation_figures_def
  by (simp only: assms absent_time add_0)

text \<open>what the accuracy figures of a series count. Over the verdicts recorded for the series, at
  most one query row per feedback time, the totals are the numbers of triage and remediation verdicts
  and of the positive ones among them, the figures at the gate and after the incident those of the
  verdicts of that time, every rate the quotient of its two counts, and zero without verdicts.\<close>

theorem feedback_stats_exact:
  "\<exists>st. StatsBySeries (None, None) sid rows = Inr st \<and>
    (let vs = verdict_rows ''triage'' sid rows; gate = verdicts_at ''at_gate'' vs; post = verdicts_at ''post_incident'' vs;
         ws = verdict_rows ''remediation'' sid rows; rgate = verdicts_at ''at_gate'' ws; rpost = verdicts_at ''post_incident'' ws
     in st = \<lparr>fz_FeedbackCount = length vs, fz_CorrectCount = length (confirmed vs),
       fz_AccuracyRate = share (length (confirmed vs)) (length vs),
       fz_AtGateCount = length gate, fz_AtGateCorrect = length (confirmed gate),
       fz_AtGateAccuracyRate = share (length (confirmed gate)) (length gate),
       fz_PostIncidentCount = length post, fz_PostIncidentCorrect = length (confirmed post),
       fz_PostIncidentAccuracyRate = share (length (confirmed post)) (length post),
       fz_RemFeedbackCount = length ws, fz_RemCorrectCount = length (confirmed ws),
       fz_RemAccuracyRate = share (length (confirmed ws)) (length ws),
       fz_RemAtGateCount = length rgate, fz_RemAtGateCorrect = length (confirmed rgate),
       fz_RemPostIncidentCount = length rpost, fz_RemPostIncidentCorrect = length (confirmed rpost)\<rparr>)"
proof -
  define vs where "vs = verdict_rows ''triage'' sid rows"
  define ws where "ws = verdict_rows ''remediation'' sid rows"
  define t where "t = triage_figures vs zero_feedback_stats"
  define u where "u = t\<lparr>fz_AccuracyRate := share (length (confirmed vs)) (length vs)\<rparr>"
  define r where "r = remediation_figures ws u"
  have tr: "fold triage_group (verdict_groups ''triage'' sid rows) zero_feedback_stats = t"
    by (simp add: t_def vs_def triage_of_groups)
  have rem: "fold remediation_group (verdict_groups ''remediation'' sid rows) u = r"
    unfolding r_def ws_def by (rule remediation_of_groups) (simp_all add: u_def t_def triage_figures_def)
  have u: "(if fz_FeedbackCount t > 0 then t\<lparr>fz_AccuracyRate := rate (fz_CorrectCount t) (fz_FeedbackCount t)\<rparr> else t) = u"
    by (cases "vs = []") (simp_all add: u_def t_def share_def triage_figures_def zero_feedback_stats_def)
  have "(if fz_RemFeedbackCount r > 0 then r\<lparr>fz_RemAccuracyRate := rate (fz_RemCorrectCount r) (fz_RemFeedbackCount r)\<rparr>
      else r) = r\<lparr>fz_RemAccuracyRate := share (length (confirmed ws)) (length ws)\<rparr>"
    by (cases "ws = []") (simp_all add: r_def u_def t_def share_def triage_figures_def remediation_figures_def zero_feedback_stats_def)
  then have "StatsBySeries (None, None) sid rows = Inr (r\<lparr>fz_RemAccuracyRate := share (length (confirmed ws)) (length ws)\<rparr>)"
    by (simp only: StatsBySeries_def Let_def prod.case option.case tr u rem)
  then show ?thesis
    by (simp add: r_def u_def t_def triage_figures_def remediation_figures_def zero_feedback_stats_def Let_def
        flip: vs_def ws_def)
qed

text \<open>The row a submission writes.\<close>

definition submitted_row :: "time \<Rightarrow> run_feedback \<Rightarrow> run_feedback" where
  "submitted_row now f = f\<lparr>
     fk_SubmittedAt := (if fk_SubmittedAt f = 0 then now else fk_SubmittedAt f),
     fk_FeedbackType := (if fk_FeedbackType f = [] then ''triage'' else fk_FeedbackType f),
     fk_FeedbackTime := (if fk_FeedbackTime f = [] then ''post_incident'' else fk_FeedbackTime f),
     fk_FeedbackSource := (if fk_FeedbackSource f = [] then ''human'' else fk_FeedbackSource f)\<rparr>"

lemma Submit_rows:
  "snd (Submit None now f rows) = (if list_ex (\<lambda>x. fk_key x = fk_key (submitted_row now f)) rows
     then update_where (\<lambda>x. fk_key x = fk_key (submitted_row now f)) (\<lambda>_. submitted_row now f) rows
     else rows @ [submitted_row now f])"
  by (simp add: Submit_def submitted_row_def Let_def)


lemma fk_key_row: "fk_key (submitted_row now f) = (fk_RunID f,
    if fk_FeedbackType f = [] then ''triage'' else fk_FeedbackType f,
    if fk_FeedbackTime f = [] then ''post_incident'' else fk_FeedbackTime f)"
  by (simp add: fk_key_def submitted_row_def)

lemma find_replaced:
  "find (\<lambda>x. key x = k) (update_where (\<lambda>x. key x = key v) (\<lambda>_. v) rs) =
    (if k = key v \<and> list_ex (\<lambda>x. key x = key v) rs then Some v else find (\<lambda>x. key x = k) rs)"
  by (induction rs) (auto simp: update_where_def find_None_iff list_ex_iff)

lemma find_submitted:
  "find (\<lambda>x. fk_key x = k) (snd (Submit None now f rows)) =
     (if k = fk_key (submitted_row now f) then Some (submitted_row now f) else find (\<lambda>x. fk_key x = k) rows)"
proof (cases "list_ex (\<lambda>x. fk_key x = fk_key (submitted_row now f)) rows")
  case True
  then show ?thesis by (simp add: Submit_rows find_replaced)
next
  case False
  then have "find (\<lambda>x. fk_key x = fk_key (submitted_row now f)) rows = None"
    by (simp add: find_None_iff list_ex_iff)
  with False show ?thesis by (simp add: Submit_rows find_append split: option.split)
qed

lemma keys_submitted: "distinct (map fk_key rows) \<Longrightarrow> distinct (map fk_key (snd (Submit None now f rows)))"
proof (cases "list_ex (\<lambda>x. fk_key x = fk_key (submitted_row now f)) rows")
  case True
  moreover have "map fk_key (update_where (\<lambda>x. fk_key x = fk_key v) (\<lambda>_. v) rs) = map fk_key rs" for v rs
    by (induction rs) (auto simp: update_where_def)
  moreover assume "distinct (map fk_key rows)"
  ultimately show ?thesis by (simp add: Submit_rows)
next
  case False
  moreover assume "distinct (map fk_key rows)"
  ultimately show ?thesis by (auto simp: Submit_rows list_ex_iff)
qed

definition submissions :: "(time \<times> run_feedback) list \<Rightarrow> run_feedback list" where
  "submissions fs = fold (\<lambda>(now, f) rows. snd (Submit None now f rows)) fs []"

text \<open>the last feedback wins. After any submissions the table has one row for each run, type and
  time of feedback, and looking it up returns the last submission with that key, with the defaults of
  type, time, source and instant filled in.\<close>

theorem feedback_last_wins:
  "distinct (map fk_key (submissions fs)) \<and>
   GetByRunIDAndType None runID ty tm (submissions fs) =
     (case find (\<lambda>(now, f). fk_key (submitted_row now f) = (runID, ty, tm)) (rev fs) of
        None \<Rightarrow> Inl PbNoRows | Some (now, f) \<Rightarrow> Inr (submitted_row now f))"
proof (induction fs rule: rev_induct)
  case Nil
  show ?case by (simp add: submissions_def GetByRunIDAndType_def)
next
  case (snoc x fs)
  obtain now f where x: "x = (now, f)" by (cases x)
  have step: "submissions (fs @ [(now, f)]) = snd (Submit None now f (submissions fs))"
    by (simp add: submissions_def)
  from snoc show ?case
    by (auto simp: step keys_submitted GetByRunIDAndType_def find_submitted x)
qed

end
