(* ===== verification/Playbook_Text.thy ===== *)
theory Playbook_Text
  imports Playbook_Runs Delegation Infra
begin

text \<open>
  What the gateway reads out of the text of an agent and how it judges it
  (\<^verbatim>\<open>cmd/gateway/playbooks.go\<close>): the signal lines that end a triage, the diagnostic report with
  its hypotheses and confidences, the conclusion as a fallback, the evidence and consistency warnings
  over the context of the operator, the drift of the targets the agent contacted, the allow-lists of
  follow-up playbooks, and the confidence gates. Regular expressions written in the source are
  translated; those of playbooks are compiled by an argument.
\<close>

section \<open>Library operations on strings\<close>

text \<open>\<^verbatim>\<open>strings.Split\<close> on a longer separator and \<^verbatim>\<open>strings.NewReplacer\<close>: the number counts the
  characters of a match that are still to be skipped.\<close>

fun split_sep :: "string \<Rightarrow> nat \<Rightarrow> string \<Rightarrow> string list" where
  "split_sep sep k [] = [[]]"
| "split_sep sep (Suc k) (c # cs) = split_sep sep k cs"
| "split_sep sep 0 (c # cs) =
     (if HasPrefix (c # cs) sep then [] # split_sep sep (length sep - 1) cs
      else (case split_sep sep 0 cs of [] \<Rightarrow> [[c]] | y # ys \<Rightarrow> (c # y) # ys))"

fun replace_all :: "(string \<times> string) list \<Rightarrow> nat \<Rightarrow> string \<Rightarrow> string" where
  "replace_all rs k [] = []"
| "replace_all rs (Suc k) (c # cs) = replace_all rs k cs"
| "replace_all rs 0 (c # cs) = (case find (\<lambda>(old, _). HasPrefix (c # cs) old) rs of
     Some (old, repl) \<Rightarrow> repl @ replace_all rs (length old - 1) cs
   | None \<Rightarrow> c # replace_all rs 0 cs)"

definition CutPrefix :: "string \<Rightarrow> string \<Rightarrow> string option" where
  "CutPrefix s p = (if HasPrefix s p then Some (drop (length p) s) else None)"

definition HasSuffix :: "string \<Rightarrow> string \<Rightarrow> bool" where
  "HasSuffix s p = HasPrefix (rev s) (rev p)"

definition cutset :: "string \<Rightarrow> string \<Rightarrow> string" where
  "cutset cs s = trim_with (\<lambda>c. List.member cs c) s"

definition newline :: char where
  "newline = CHR 10"

definition split_lines :: "string \<Rightarrow> string list" where
  "split_lines s = split_char newline s"

section \<open>Findings when the protocol was ignored\<close>

definition inline_conclusion :: "string \<Rightarrow> string option" where
  "inline_conclusion line = (let t = TrimSpace line in
     find (\<lambda>v. v \<noteq> []) (map (\<lambda>p. if HasPrefix t p then cutset ''* '' (TrimSpace (TrimPrefix t p)) else [])
       [''**CONCLUSION:**'', ''**Conclusion:**'', ''CONCLUSION:'']))"

text \<open>The heading pattern: one to three hash signs, blanks, and one of four titles in any case.\<close>

definition re_blank :: "char \<Rightarrow> bool" where
  "re_blank c \<longleftrightarrow> (of_char c :: nat) \<in> {9, 10, 12, 13, 32}"

definition two_words :: "string \<Rightarrow> string \<Rightarrow> string \<Rightarrow> bool" where
  "two_words a b s = (case CutPrefix s a of
     Some r \<Rightarrow> r \<noteq> [] \<and> re_blank (hd r) \<and> HasPrefix (dropWhile re_blank r) b | None \<Rightarrow> False)"

definition heading_line :: "string \<Rightarrow> bool" where
  "heading_line s =
     (let h = length (takeWhile (\<lambda>c. c = CHR ''#'') s); r = drop h s; w = ToLower (dropWhile re_blank r)
      in 1 \<le> h \<and> h \<le> 3 \<and> r \<noteq> [] \<and> re_blank (hd r) \<and>
         (two_words ''findings'' ''summary'' w \<or> HasPrefix w ''summary'' \<or> HasPrefix w ''conclusion'' \<or>
          two_words ''investigation'' ''summary'' w))"

definition section_text :: "string list \<Rightarrow> string option" where
  "section_text ls = find (\<lambda>v. v \<noteq> []) (map (\<lambda>l. let v = TrimSpace l in
     if v = [] \<or> HasPrefix v ''#'' then [] else cutset ''* _'' v) ls)"

fun heading_conclusion :: "string list \<Rightarrow> string option" where
  "heading_conclusion [] = None"
| "heading_conclusion (l # ls) = (if heading_line (TrimSpace l)
     then (case section_text ls of Some v \<Rightarrow> Some v | None \<Rightarrow> heading_conclusion ls)
     else heading_conclusion ls)"

definition status_line :: "string \<Rightarrow> bool" where
  "status_line t = list_ex (str_contains (ToLower t))
     [''operational'', ''healthy'', ''unavailable'', ''unreachable'', ''down'', ''resolved'', ''escalat'']"

definition bold_status :: "string \<Rightarrow> string option" where
  "bold_status line = (let t = TrimSpace line; v = cutset ''* '' t in
     if HasPrefix t ''**'' \<and> HasSuffix t ''**'' \<and> status_line t \<and> v \<noteq> [] then Some v else None)"

fun first_some :: "('a \<Rightarrow> 'b option) \<Rightarrow> 'a list \<Rightarrow> 'b option" where
  "first_some f [] = None"
| "first_some f (x # xs) = (case f x of Some y \<Rightarrow> Some y | None \<Rightarrow> first_some f xs)"

definition extractConclusionFallback :: "string \<Rightarrow> string" where
  "extractConclusionFallback text =
     (let ls = split_lines text in
      case first_some inline_conclusion ls of
        Some v \<Rightarrow> v
      | None \<Rightarrow> (case heading_conclusion ls of
          Some v \<Rightarrow> v
        | None \<Rightarrow> (case first_some bold_status (drop (length ls * 2 div 3) ls) of Some v \<Rightarrow> v | None \<Rightarrow> [])))"

section \<open>Signal lines\<close>

record agent_escalation =
  ae_Findings :: string
  ae_EscalateTo :: string
  ae_TransitionTo :: string
  ae_CleanText :: string

text \<open>What a line says: a signal with its value, or text.\<close>

datatype signal = Transition string | Escalate string | Finding string | Visible

definition normalise_bold :: "string \<Rightarrow> string" where
  "normalise_bold t = replace_all [(''**FINDINGS:**'', ''FINDINGS:''), (''**ESCALATE_TO:**'', ''ESCALATE_TO:'')] 0 t"

definition signal_of :: "string \<Rightarrow> signal" where
  "signal_of line = (let t = normalise_bold (TrimSpace line) in
     if HasPrefix t ''TRANSITION_TO:'' then Transition (TrimSpace (TrimPrefix t ''TRANSITION_TO:''))
     else if HasPrefix t ''ESCALATE_TO:'' then Escalate (TrimSpace (TrimPrefix t ''ESCALATE_TO:''))
     else if HasPrefix t ''FINDINGS:'' then Finding (TrimSpace (TrimPrefix t ''FINDINGS:''))
     else Visible)"

definition escalation_line :: "string \<Rightarrow> agent_escalation \<Rightarrow> agent_escalation" where
  "escalation_line line r = (case signal_of line of
     Transition v \<Rightarrow> (if v \<noteq> ''none'' \<and> v \<noteq> [] then r\<lparr>ae_TransitionTo := v\<rparr> else r)
   | Escalate v \<Rightarrow> (if v \<noteq> ''none'' \<and> v \<noteq> [] then r\<lparr>ae_EscalateTo := v\<rparr> else r)
   | Finding v \<Rightarrow> r\<lparr>ae_Findings := v\<rparr>
   | Visible \<Rightarrow> r\<lparr>ae_CleanText := ae_CleanText r @ line @ [newline]\<rparr>)"

definition trim_newlines :: "string \<Rightarrow> string" where
  "trim_newlines s = rev (dropWhile (\<lambda>c. c = newline) (rev s))"

definition parseAgentEscalation :: "string \<Rightarrow> agent_escalation" where
  "parseAgentEscalation text =
     (let r = fold escalation_line (split_lines text)
          \<lparr>ae_Findings = [], ae_EscalateTo = [], ae_TransitionTo = [], ae_CleanText = []\<rparr>;
          r = r\<lparr>ae_CleanText := trim_newlines (ae_CleanText r)\<rparr>
      in if ae_Findings r = [] then r\<lparr>ae_Findings := extractConclusionFallback (ae_CleanText r)\<rparr> else r)"

text \<open>The value after the first \<^verbatim>\<open>recommended=\<close>, up to a separator.\<close>

fun after_first :: "string \<Rightarrow> string \<Rightarrow> string option" where
  "after_first key [] = (if key = [] then Some [] else None)"
| "after_first key (c # cs) = (case CutPrefix (c # cs) key of Some r \<Rightarrow> Some r | None \<Rightarrow> after_first key cs)"

definition findingsRecommendMonitor :: "string \<Rightarrow> bool" where
  "findingsRecommendMonitor findings = (case after_first ''recommended='' findings of
     None \<Rightarrow> False
   | Some r \<Rightarrow> (let v = takeWhile (\<lambda>c. \<not> List.member ([CHR '';'', CHR '' '', CHR 9, newline]) c) r
       in v = ''monitor'' \<or> v = ''no_changes_needed''))"

section \<open>Diagnostic reports\<close>

definition zero_hypothesis :: diagnostic_hypothesis where
  "zero_hypothesis = \<lparr>hy_Rank = 0, hy_Text = [], hy_Confidence = Fin 0, hy_Evidence = [], hy_RejectedReason = [],
     hy_IsPrimary = False\<rparr>"

definition hypothesis_field :: "string \<Rightarrow> diagnostic_hypothesis \<Rightarrow> diagnostic_hypothesis" where
  "hypothesis_field part h = (let p = TrimSpace part in
     case CutPrefix p ''CONFIDENCE:'' of
       Some a \<Rightarrow> (case ParseFloat (TrimSpace a) of Some c \<Rightarrow> h\<lparr>hy_Confidence := c\<rparr> | None \<Rightarrow> h)
     | None \<Rightarrow> (case CutPrefix p ''EVIDENCE:'' of
         Some a \<Rightarrow> h\<lparr>hy_Evidence := cutset [CHR 34] (TrimSpace a)\<rparr>
       | None \<Rightarrow> (case CutPrefix p ''REJECTED:'' of
           Some a \<Rightarrow> h\<lparr>hy_RejectedReason := TrimSpace a\<rparr>
         | None \<Rightarrow> h)))"

definition matchHypothesisLine :: "string \<Rightarrow> diagnostic_hypothesis option" where
  "matchHypothesisLine line =
     (if \<not> HasPrefix (ToUpper line) ''HYPOTHESIS_'' then None
      else if CHR '':'' \<notin> set line then None
      else (case cut_char (CHR '':'') line of (before, after) \<Rightarrow>
        (case Atoi (drop (length ''HYPOTHESIS_'') before) of
           None \<Rightarrow> None
         | Some rank \<Rightarrow>
             (let parts = split_sep '' | '' 0 (TrimSpace after)
              in Some (fold hypothesis_field (tl parts)
                   (zero_hypothesis\<lparr>hy_Rank := rank, hy_Text := TrimSpace (hd parts)\<rparr>))))))"

text \<open>The lines after a hypothesis that continue it, at most five; the first other line ends them.\<close>

fun continuation :: "string list \<Rightarrow> diagnostic_hypothesis \<Rightarrow> diagnostic_hypothesis" where
  "continuation [] h = h"
| "continuation (l # ls) h = (let next = TrimSpace (cutset ''*'' l) in
     if next = [] then continuation ls h
     else (case CutPrefix next ''CONFIDENCE:'' of
       Some a \<Rightarrow> continuation ls (if hy_Confidence h = Fin 0 then
           (case ParseFloat (TrimSpace a) of Some c \<Rightarrow> h\<lparr>hy_Confidence := c\<rparr> | None \<Rightarrow> h) else h)
     | None \<Rightarrow> (case CutPrefix next ''EVIDENCE:'' of
         Some a \<Rightarrow> continuation ls (if hy_Evidence h = [] then h\<lparr>hy_Evidence := cutset [CHR 34] (TrimSpace a)\<rparr> else h)
       | None \<Rightarrow> (case CutPrefix next ''REJECTED:'' of
           Some a \<Rightarrow> continuation ls (if hy_RejectedReason h = [] then h\<lparr>hy_RejectedReason := TrimSpace a\<rparr> else h)
         | None \<Rightarrow> h))))"

text \<open>The scan over the lines: the hypotheses, the root cause line and the action line read last.\<close>

fun report_lines :: "string list \<Rightarrow> diagnostic_hypothesis list \<times> string \<times> string \<Rightarrow> diagnostic_hypothesis list \<times> string \<times> string" where
  "report_lines [] acc = acc"
| "report_lines (l # ls) (hs, rc, act) = (let t = cutset ''*'' (TrimSpace l) in
     case matchHypothesisLine t of
       Some h \<Rightarrow> report_lines ls (hs @ [continuation (take 5 ls) h], rc, act)
     | None \<Rightarrow>
         (if HasPrefix t ''ROOT_CAUSE:'' then report_lines ls (hs, TrimSpace (TrimPrefix t ''ROOT_CAUSE:''), act)
          else if HasPrefix t ''ACTION_TAKEN:'' then report_lines ls (hs, rc, TrimSpace (TrimPrefix t ''ACTION_TAKEN:''))
          else report_lines ls (hs, rc, act)))"

definition primary_rank :: "string \<Rightarrow> int" where
  "primary_rank ref = (case CutPrefix ref ''HYPOTHESIS_'' of
     Some d \<Rightarrow> (case Atoi d of Some n \<Rightarrow> n | None \<Rightarrow> 1) | None \<Rightarrow> 1)"

definition mark_primary :: "int \<Rightarrow> diagnostic_hypothesis \<Rightarrow> diagnostic_hypothesis" where
  "mark_primary n h = (if hy_Rank h = n then h\<lparr>hy_IsPrimary := True\<rparr> else h)"

definition parseDiagnosticReport :: "string \<Rightarrow> diagnostic_report option" where
  "parseDiagnosticReport text = (case report_lines (split_lines text) ([], [], []) of (hs, rc, act) \<Rightarrow>
     (if hs = [] then None
      else Some \<lparr>dy_Hypotheses = map (mark_primary (primary_rank rc)) hs,
        dy_RootCause = fold (\<lambda>h acc. if hy_Rank h = primary_rank rc then hy_Text h else acc) hs [],
        dy_ActionTaken = act\<rparr>))"


section \<open>Confidence\<close>

definition hy_above :: "diagnostic_hypothesis \<Rightarrow> diagnostic_hypothesis \<Rightarrow> bool" where
  "hy_above a b = f_less (hy_Confidence b) (hy_Confidence a)"

definition ranked :: "diagnostic_hypothesis list \<Rightarrow> diagnostic_hypothesis list" where
  "ranked hs = map (\<lambda>(i, h). h\<lparr>hy_Rank := int i + 1, hy_IsPrimary := (i = 0)\<rparr>) (zip [0..<length hs] hs)"

type_synonym hy_sort = "(diagnostic_hypothesis \<Rightarrow> diagnostic_hypothesis \<Rightarrow> bool) \<Rightarrow> diagnostic_hypothesis list \<Rightarrow> diagnostic_hypothesis list"

definition mergeDiagnosticReports ::
  "hy_sort \<Rightarrow> diagnostic_report option \<Rightarrow> diagnostic_report option \<Rightarrow> diagnostic_report option" where
  "mergeDiagnosticReports srt primary secondary = (case (primary, secondary) of
     (None, _) \<Rightarrow> secondary
   | (_, None) \<Rightarrow> primary
   | (Some p, Some q) \<Rightarrow>
       Some \<lparr>dy_Hypotheses = ranked (srt hy_above (map (\<lambda>h. h\<lparr>hy_IsPrimary := False\<rparr>) (dy_Hypotheses p) @ dy_Hypotheses q)),
         dy_RootCause = (if dy_RootCause q \<noteq> [] then dy_RootCause q else dy_RootCause p),
         dy_ActionTaken = (if dy_ActionTaken q \<noteq> [] then dy_ActionTaken q else dy_ActionTaken p)\<rparr>)"

definition confidenceWarning :: "diagnostic_report option \<Rightarrow> string \<times> string" where
  "confidenceWarning report = (case report of
     None \<Rightarrow> ([], [])
   | Some r \<Rightarrow> (case dy_Hypotheses r of
       [] \<Rightarrow> ([], [])
     | p # rest \<Rightarrow>
         (let c = hy_Confidence p;
              lowAbsolute = f_less c (Fin (fl64 (7 / 10)));
              competing = (case rest of [] \<Rightarrow> False | q # _ \<Rightarrow> f_less (f_scale (fl64 (7 / 10)) c) (hy_Confidence q))
          in if \<not> lowAbsolute \<and> \<not> competing then ([], [])
             else (''Primary hypothesis confidence '' @ fmt0_f (f_scale 100 c) @ ''%'' @
                   (if competing then '' '' @ em_dash @ '' competing hypothesis at '' @
                      fmt0_f (f_scale 100 (hy_Confidence (hd rest))) @ ''%'' else []) @
                   ''. Uncertain diagnosis: consider step-by-step approval.'', ''manual''))))"

definition lowConfidenceForceGate :: "diagnostic_report option \<Rightarrow> bool" where
  "lowConfidenceForceGate report = (case report of
     None \<Rightarrow> False
   | Some r \<Rightarrow> (case find hy_IsPrimary (dy_Hypotheses r) of
       Some h \<Rightarrow> f_less (hy_Confidence h) (Fin (1 / 2)) | None \<Rightarrow> True))"

section \<open>Follow-up playbooks\<close>

definition terminalEscalations :: "string list" where
  "terminalEscalations = [''requires_operator_approval'']"

definition directiveTransition :: string where "directiveTransition = ''TRANSITION_TO''"

definition directiveEscalate :: string where "directiveEscalate = ''ESCALATE_TO''"

definition isAllowedNextPlaybook :: "playbook option \<Rightarrow> string \<Rightarrow> string \<Rightarrow> bool" where
  "isAllowedNextPlaybook pb emitted directive =
     (if emitted = [] \<or> emitted = ''none'' then True
      else if List.member terminalEscalations emitted then True
      else (case pb of
        None \<Rightarrow> True
      | Some p \<Rightarrow>
          (if directive = directiveTransition then pb_TransitionsTo p = [] \<or> List.member (pb_TransitionsTo p) emitted
           else if directive = directiveEscalate then pb_EscalatesTo p = [] \<or> List.member (pb_EscalatesTo p) emitted
           else True)))"

section \<open>Warnings over the context of the operator\<close>

text \<open>\<open>re pat s\<close> compiles a pattern, without regard to case, and matches it: None when it does not
  compile.\<close>

definition evidence_found :: "(string \<Rightarrow> string \<Rightarrow> bool option) \<Rightarrow> string \<Rightarrow> string \<Rightarrow> bool" where
  "evidence_found re ctx pat = (ctx \<noteq> [] \<and> (case re pat ctx of
     Some b \<Rightarrow> b | None \<Rightarrow> str_contains (ToLower ctx) (ToLower pat)))"

definition checkRequiresEvidence :: "(string \<Rightarrow> string \<Rightarrow> bool option) \<Rightarrow> string list \<Rightarrow> string \<Rightarrow> string list" where
  "checkRequiresEvidence re patterns ctx =
     map (\<lambda>pat. ''expected evidence pattern not found in provided context: '' @ Quote pat)
       (filter (\<lambda>pat. \<not> evidence_found re ctx pat) patterns)"

text \<open>The server a target names: by its key, its display name or its connection string.\<close>

definition named_server :: "infra_config \<Rightarrow> string \<Rightarrow> db_server option" where
  "named_server cfg target = map_option snd (find (\<lambda>(key, db). key = target \<or> db_Name db = target \<or>
     db_ConnectionString db = target) (ic_DBServers cfg))"

definition vm_of :: "infra_config \<Rightarrow> db_server \<Rightarrow> vm option" where
  "vm_of cfg db = (if db_VMName db = [] then None else map_of (ic_VMs cfg) (db_VMName db))"

definition runtime_of :: "infra_config \<Rightarrow> db_server \<Rightarrow> string" where
  "runtime_of cfg db = (case vm_of cfg db of Some v \<Rightarrow> vm_Runtime v | None \<Rightarrow> [])"

definition is_container :: "string \<Rightarrow> bool" where
  "is_container rt \<longleftrightarrow> rt = ''docker'' \<or> rt = ''podman''"

definition serverHostingLabel :: "db_server \<Rightarrow> string \<Rightarrow> string" where
  "serverHostingLabel db rt = (if is_container rt then rt @ ''-hosted''
     else if db_VMName db \<noteq> [] then ''VM-hosted'' else ''standalone'')"

definition k8sKeywords :: "string list" where
  "k8sKeywords = [''pod '', ''pods '', ''kubectl'', ''deployment'', ''statefulset'', ''namespace'', ''kubernetes'', ''k8s'']"

definition containerKeywords :: "string list" where
  "containerKeywords = [''docker '', ''docker exec'', ''docker run'', ''podman '']"

definition checkContextConsistency :: "infra_config option \<Rightarrow> string \<Rightarrow> string \<Rightarrow> string list" where
  "checkContextConsistency cfg connectionString operatorContext = (case cfg of
     None \<Rightarrow> []
   | Some c \<Rightarrow>
       (if connectionString = [] \<or> operatorContext = [] then []
        else (case named_server c connectionString of
          None \<Rightarrow> []
        | Some server \<Rightarrow>
            (let isK8s = (db_K8sCluster server \<noteq> []); rt = runtime_of c server; ctx = ToLower operatorContext
             in (if isK8s then [] else (case find (str_contains ctx) k8sKeywords of
                   Some kw \<Rightarrow> [''context mentions '' @ Quote (TrimSpace kw) @ '' but '' @ Quote (db_Name server) @ '' is '' @
                     serverHostingLabel server rt @ '' '' @ em_dash @ '' Kubernetes tools will not apply to this server'']
                 | None \<Rightarrow> [])) @
                (if is_container rt \<or> isK8s then [] else (case find (str_contains ctx) containerKeywords of
                   Some kw \<Rightarrow> [''context mentions '' @ Quote (TrimSpace kw) @ '' but '' @ Quote (db_Name server) @
                     '' is not container-hosted (runtime='' @ Quote rt @ '')'']
                 | None \<Rightarrow> []))))))"

definition buildServerTypeHint :: "infra_config option \<Rightarrow> string \<Rightarrow> string" where
  "buildServerTypeHint cfg connectionString = (case cfg of
     None \<Rightarrow> []
   | Some c \<Rightarrow>
       (if connectionString = [] then []
        else (case named_server c connectionString of
          None \<Rightarrow> []
        | Some s \<Rightarrow>
            (let rt = runtime_of c s; addr = (case vm_of c s of Some v \<Rightarrow> vm_Address v | None \<Rightarrow> []) in
             if db_K8sCluster s \<noteq> [] then
               ''Server type: Kubernetes pod (cluster: '' @ db_K8sCluster s @ '', namespace: '' @
               (if db_K8sNamespace s = [] then ''default'' else db_K8sNamespace s) @ '')'' @
               (if db_K8sPodSelector s \<noteq> [] then '', pod selector: '' @ db_K8sPodSelector s else []) @
               ''.'' @ [newline] @ ''Kubectl commands, pod log retrieval, and K8s event lookups are applicable to this server.''
             else if is_container rt then
               ''Server type: '' @ rt @ '' container'' @
               (if addr \<noteq> [] then '' on VM '' @ Quote (db_VMName s) @ '' ('' @ addr @ '')'' else []) @
               (if db_ContainerName s \<noteq> [] then '', container name: '' @ db_ContainerName s else []) @
               ''.'' @ [newline] @ ''This is NOT a Kubernetes-managed server '' @ em_dash @
               '' do NOT attempt kubectl commands, pod queries, pod log retrieval, or K8s event lookups. Use docker/host-level diagnostics only.''
             else if db_VMName s \<noteq> [] then
               ''Server type: bare VM ('' @ db_VMName s @ (if addr \<noteq> [] then '' / '' @ addr else []) @ '')'' @
               (if db_SystemdUnit s \<noteq> [] then '', systemd unit: '' @ db_SystemdUnit s else []) @
               ''.'' @ [newline] @ ''This is NOT a Kubernetes-managed server '' @ em_dash @ '' do NOT use kubectl or K8s tools.''
             else ''Server type: standalone PostgreSQL '' @ em_dash @
               '' NOT Kubernetes-managed. Do NOT use kubectl or K8s tools.''))))"

section \<open>Drift of the target\<close>

definition parseConnFields :: "string \<Rightarrow> string \<rightharpoonup> string" where
  "parseConnFields s = map_of (rev (List.map_filter Cut_eq (Fields s)))"

definition conn_keys :: "string \<Rightarrow> string list" where
  "conn_keys s = filter (\<lambda>k. k \<noteq> ''password'') (map fst (List.map_filter Cut_eq (Fields s)))"

definition targetMatches :: "string \<Rightarrow> string \<Rightarrow> bool" where
  "targetMatches intended actual =
     (if intended = actual then True
      else if list_ex (\<lambda>f. case Cut_eq f of Some (_, v) \<Rightarrow> v = intended | None \<Rightarrow> False) (Fields actual) then True
      else if conn_keys intended = [] then False
      else list_all (\<lambda>k. (case parseConnFields actual k of Some v \<Rightarrow> v | None \<Rightarrow> []) =
             (case parseConnFields intended k of Some v \<Rightarrow> v | None \<Rightarrow> [])) (conn_keys intended))"

definition contacted_target :: "codec \<Rightarrow> event \<Rightarrow> string" where
  "contacted_target cd e = (case ev_Tool e of
     Some t \<Rightarrow> (case cd_parse cd (tx_Parameters t) of
       Inr (JObj m) \<Rightarrow> str_or_empty (map_of (rev m) ''connection_string'') | _ \<Rightarrow> [])
   | None \<Rightarrow> [])"

definition resolved_target :: "infra_config option \<Rightarrow> string \<Rightarrow> string" where
  "resolved_target cfg intended = (case cfg of
     None \<Rightarrow> intended
   | Some c \<Rightarrow> (case find (\<lambda>(key, db). key = intended \<or> db_Name db = intended) (ic_DBServers c) of
       Some (_, db) \<Rightarrow> db_ConnectionString db | None \<Rightarrow> intended))"

definition drifted :: "codec \<Rightarrow> infra_config option \<Rightarrow> string \<Rightarrow> event list \<Rightarrow> string list" where
  "drifted cd cfg intended es = filter (\<lambda>cs. cs \<noteq> [] \<and> \<not> targetMatches intended cs \<and>
     \<not> targetMatches (resolved_target cfg intended) cs) (map (contacted_target cd) es)"

definition checkTargetScope ::
  "(string list \<Rightarrow> string list) \<Rightarrow> codec \<Rightarrow> event_codec \<Rightarrow> infra_config option \<Rightarrow> string \<Rightarrow> string \<Rightarrow> string \<Rightarrow> time \<Rightarrow> string \<Rightarrow>
   string list prog" where
  "checkTargetScope sortStrings cd ec cfg auditURL apiKey traceID since intended =
     (if auditURL = [] \<or> traceID = [] \<or> intended = [] then Return []
      else if resolved_target cfg intended = intended \<and> \<not> str_contains intended ''='' then Return []
      else bindP (fetchToolExecutionEvents cd ec auditURL apiKey traceID since)
        (\<lambda>es. Return (sortStrings (remdups (drifted cd cfg intended es)))))"


section \<open>Facts about signal lines\<close>

lemma split_char_nonempty [simp]: "split_char c s \<noteq> []"
  by (induction s) (auto split: list.split)

lemma split_char_sep: "split_char c (s @ c # t) = split_char c s @ split_char c t"
  by (induction s) (auto split: list.split)

lemma split_char_free: "l \<in> set (split_char c s) \<Longrightarrow> c \<notin> set l"
  by (induction s arbitrary: l) (auto split: list.splits if_splits)

text \<open>The lines as the scan writes them back, and what is left of them after trimming.\<close>

definition unlines :: "string list \<Rightarrow> string" where
  "unlines ls = concat (map (\<lambda>l. l @ [newline]) ls)"

lemma split_unlines: "list_all (\<lambda>l. newline \<notin> set l) ls \<Longrightarrow> split_lines (unlines ls) = ls @ [[]]"
  by (induction ls) (simp_all add: split_lines_def unlines_def split_char_sep split_char_safe)

lemma trimmed: obtains k where "t = trim_newlines t @ replicate k newline"
proof -
  let ?r = "takeWhile (\<lambda>c. c = newline) (rev t)"
  have "?r = replicate (length ?r) newline"
    by (rule replicate_length_same [symmetric]) (auto dest: set_takeWhileD)
  moreover have "t = trim_newlines t @ rev ?r"
    unfolding trim_newlines_def by (metis rev_append rev_rev_ident takeWhile_dropWhile_id)
  ultimately show ?thesis by (intro that [of "length ?r"]) (metis rev_replicate)
qed

lemma split_trimmed: "set (split_lines (trim_newlines t)) \<subseteq> set (split_lines t)"
proof -
  obtain k where t: "t = trim_newlines t @ replicate k newline" by (rule trimmed)
  have "set (split_lines s) \<subseteq> set (split_lines (s @ replicate k newline))" for s
    by (cases k) (simp_all add: split_lines_def split_char_sep)
  with t show ?thesis by metis
qed

text \<open>The values of a kind of signal in the order of the lines.\<close>

definition transitions :: "string list \<Rightarrow> string list" where
  "transitions ls = List.map_filter (\<lambda>l. case signal_of l of
     Transition v \<Rightarrow> if v \<noteq> ''none'' \<and> v \<noteq> [] then Some v else None | _ \<Rightarrow> None) ls"

definition escalations :: "string list \<Rightarrow> string list" where
  "escalations ls = List.map_filter (\<lambda>l. case signal_of l of
     Escalate v \<Rightarrow> if v \<noteq> ''none'' \<and> v \<noteq> [] then Some v else None | _ \<Rightarrow> None) ls"

definition findings_of :: "string list \<Rightarrow> string list" where
  "findings_of ls = List.map_filter (\<lambda>l. case signal_of l of Finding v \<Rightarrow> Some v | _ \<Rightarrow> None) ls"

definition visible_lines :: "string list \<Rightarrow> string list" where
  "visible_lines ls = filter (\<lambda>l. signal_of l = Visible) ls"

definition last_of :: "'a \<Rightarrow> 'a list \<Rightarrow> 'a" where
  "last_of d xs = (if xs = [] then d else last xs)"

lemma last_of_Cons [simp]: "last_of d (x # xs) = last_of x xs"
  by (simp add: last_of_def)

lemma last_of_Nil [simp]: "last_of d [] = d"
  by (simp add: last_of_def)

lemma signal_lists:
  "transitions [] = []" "escalations [] = []" "findings_of [] = []" "visible_lines [] = []" "unlines [] = []"
  "transitions (l # ls) = (case signal_of l of
     Transition v \<Rightarrow> if v \<noteq> ''none'' \<and> v \<noteq> [] then v # transitions ls else transitions ls | _ \<Rightarrow> transitions ls)"
  "escalations (l # ls) = (case signal_of l of
     Escalate v \<Rightarrow> if v \<noteq> ''none'' \<and> v \<noteq> [] then v # escalations ls else escalations ls | _ \<Rightarrow> escalations ls)"
  "findings_of (l # ls) = (case signal_of l of Finding v \<Rightarrow> v # findings_of ls | _ \<Rightarrow> findings_of ls)"
  "visible_lines (l # ls) = (if signal_of l = Visible then l # visible_lines ls else visible_lines ls)"
  "unlines (l # ls) = l @ newline # unlines ls"
  by (simp_all add: transitions_def escalations_def findings_of_def visible_lines_def unlines_def List.map_filter_def
      split: signal.split)

lemma fold_escalation:
  "fold escalation_line ls r = r\<lparr>
     ae_Findings := last_of (ae_Findings r) (findings_of ls),
     ae_EscalateTo := last_of (ae_EscalateTo r) (escalations ls),
     ae_TransitionTo := last_of (ae_TransitionTo r) (transitions ls),
     ae_CleanText := ae_CleanText r @ unlines (visible_lines ls)\<rparr>"
proof (induction ls arbitrary: r)
  case Nil
  show ?case by (simp add: signal_lists)
next
  case (Cons l ls)
  show ?case
    by (cases "signal_of l") (simp_all add: Cons signal_lists escalation_line_def [of l])
qed

lemma signal_empty: "signal_of [] = Visible"
  by (simp add: signal_of_def normalise_bold_def TrimSpace_def trim_with_def Let_def)

text \<open>C30: signals are read and never shown. Of the signal lines of a response, in plain or in bold
  type, the last findings, the last transition and the last escalation with a value other than none
  are taken; without findings the conclusion of the shown text stands in. No line of the text that is
  shown to the operator is a signal line, and every other line is kept in its place.\<close>

theorem signals_read_and_stripped:
  "let ls = split_lines text; r = parseAgentEscalation text
   in ae_TransitionTo r = last_of [] (transitions ls) \<and> ae_EscalateTo r = last_of [] (escalations ls) \<and>
      ae_Findings r = (if last_of [] (findings_of ls) = [] then extractConclusionFallback (ae_CleanText r)
        else last_of [] (findings_of ls)) \<and>
      ae_CleanText r = trim_newlines (unlines (visible_lines ls)) \<and>
      list_all (\<lambda>l. signal_of l = Visible) (split_lines (ae_CleanText r))"
proof -
  let ?ls = "split_lines text" and ?r = "parseAgentEscalation text"
  have clean: "ae_CleanText ?r = trim_newlines (unlines (visible_lines ?ls))"
    by (simp add: parseAgentEscalation_def Let_def fold_escalation)
  have "list_all (\<lambda>l. newline \<notin> set l) (visible_lines ?ls)"
    by (auto simp: list_all_iff visible_lines_def split_lines_def dest: split_char_free)
  then have "set (split_lines (unlines (visible_lines ?ls))) = set (visible_lines ?ls) \<union> {[]}"
    by (simp add: split_unlines)
  with split_trimmed have "set (split_lines (ae_CleanText ?r)) \<subseteq> set (visible_lines ?ls) \<union> {[]}"
    unfolding clean by blast
  then have "list_all (\<lambda>l. signal_of l = Visible) (split_lines (ae_CleanText ?r))"
    by (auto simp: list_all_iff visible_lines_def signal_empty)
  with clean show ?thesis
    by (simp add: parseAgentEscalation_def Let_def fold_escalation)
qed

end
