(* ===== verification/Playbook_Report.thy ===== *)
theory Playbook_Report
  imports Playbook_Text
begin

text \<open>
  The protocol of diagnostic reports: what an agent writes in the documented format is what the
  gateway reads (\<^verbatim>\<open>parseDiagnosticReport\<close>, \<^verbatim>\<open>matchHypothesisLine\<close>), and what the gateway
  makes of the confidences when it decides whether a diagnosis may start a remediation.
\<close>

section \<open>Texts without blanks around them\<close>

definition tight :: "string \<Rightarrow> bool" where
  "tight s \<longleftrightarrow> s \<noteq> [] \<and> \<not> is_space (hd s) \<and> \<not> is_space (last s)"

lemma trim_with_fixed:
  assumes "s \<noteq> []" "\<not> p (hd s)" "\<not> p (last s)"
  shows "trim_with p s = s"
proof -
  have "dropWhile p s = s" using assms by (cases s) auto
  moreover have "dropWhile p (rev s) = rev s"
    using assms by (cases "rev s") (auto simp: hd_rev [symmetric])
  ultimately show ?thesis by (simp add: trim_with_def)
qed

lemma TrimSpace_tight: "tight s \<Longrightarrow> TrimSpace s = s"
  by (simp add: TrimSpace_def tight_def trim_with_fixed)

lemma TrimSpace_blank: "is_space c \<Longrightarrow> TrimSpace (c # s) = TrimSpace s"
  by (simp add: TrimSpace_def trim_with_def)

lemma tight_append: "tight (a @ b) \<longleftrightarrow>
    (if a = [] then tight b else if b = [] then tight a else \<not> is_space (hd a) \<and> \<not> is_space (last b))"
  by (auto simp: tight_def)

lemma tight_last: "tight s \<Longrightarrow> \<not> is_space (last s)"
  by (simp add: tight_def)

lemma blank_space: "is_space (CHR '' '')"
  by (simp add: is_space_def)

section \<open>Fields between bars\<close>

lemma split_sep_last: "CHR ''|'' \<notin> set a \<Longrightarrow> split_sep '' | '' 0 a = [a]"
proof (induction a)
  case (Cons x a)
  then have "\<not> HasPrefix (x # a) '' | ''" by (cases a) auto
  with Cons show ?case by simp
qed simp

lemma split_sep_field:
  "CHR ''|'' \<notin> set a \<Longrightarrow> split_sep '' | '' 0 (a @ '' | '' @ b) = a # split_sep '' | '' 0 b"
proof (induction a)
  case Nil
  show ?case by (simp add: numeral_2_eq_2)
next
  case (Cons x a)
  then have "\<not> HasPrefix (x # a @ '' | '' @ b) '' | ''" by (cases a) auto
  with Cons show ?case by simp
qed

section \<open>Numbers\<close>

lemma digits_val_append: "digits_val acc (s @ t) = Option.bind (digits_val acc s) (\<lambda>n. digits_val n t)"
  by (induction s arbitrary: acc) (auto split: option.split)

lemma digit_val_digit: "k < 10 \<Longrightarrow> digit_val (digit k) = Some k"
  by (simp add: digit_val_def)

lemma digits_val_nat: "digits_val 0 (nat_str n) = Some n"
proof (induction n rule: nat_str.induct)
  case (1 n)
  show ?case
    by (cases "n < 10") (simp_all add: nat_str.simps [of n] 1 digits_val_append digit_val_digit)
qed


lemma nat_str_head: "nat_str n \<noteq> []" "hd (nat_str n) \<noteq> CHR ''-''" "hd (nat_str n) \<noteq> CHR ''+''"
proof -
  have "nat_str n \<noteq> [] \<and> hd (nat_str n) \<noteq> CHR ''-'' \<and> hd (nat_str n) \<noteq> CHR ''+''"
  proof (induction n rule: nat_str.induct)
    case (1 n)
    have "digit n \<noteq> CHR ''-'' \<and> digit n \<noteq> CHR ''+''" if "n < 10"
      using digit_val_digit [OF that] by (auto simp: digit_val_def)
    with 1 show ?case by (cases "n < 10") (simp_all add: nat_str.simps [of n])
  qed
  then show "nat_str n \<noteq> []" "hd (nat_str n) \<noteq> CHR ''-''" "hd (nat_str n) \<noteq> CHR ''+''" by auto
qed

lemma Atoi_nat: "n < 2 ^ 63 \<Longrightarrow> Atoi (nat_str n) = Some (int n)"
  using nat_str_head [of n] by (simp add: Atoi_def Let_def digits_val_nat)

lemma nat_str_digits: "c \<in> set (nat_str n) \<Longrightarrow> digit_val c \<noteq> None"
proof (induction n rule: nat_str.induct)
  case (1 n)
  then show ?case
    by (cases "n < 10") (auto simp: nat_str.simps [of n] digit_val_digit)
qed

lemma nat_str_free: "c \<in> set (nat_str n) \<Longrightarrow> c \<noteq> CHR '':'' \<and> c \<noteq> newline \<and> c \<noteq> CHR ''*'' \<and> \<not> is_space c"
  using nat_str_digits [of c n] by (auto simp: digit_val_def newline_def is_space_def)

section \<open>The documented line of a hypothesis\<close>

definition hypothesis_text :: "string \<Rightarrow> diagnostic_hypothesis \<Rightarrow> string" where
  "hypothesis_text c h = ''HYPOTHESIS_'' @ nat_str (nat (hy_Rank h)) @ '': '' @ hy_Text h @ '' | CONFIDENCE: '' @ c @
     (if hy_RejectedReason h = [] then '' | EVIDENCE: '' @ [CHR 34] @ hy_Evidence h @ [CHR 34]
      else '' | REJECTED: '' @ hy_RejectedReason h)"

definition plain :: "string \<Rightarrow> bool" where
  "plain s \<longleftrightarrow> CHR ''|'' \<notin> set s \<and> newline \<notin> set s"

text \<open>\<open>c\<close> is the text of the confidence; evidence stands without the quotes around it.\<close>

definition written :: "string \<Rightarrow> diagnostic_hypothesis \<Rightarrow> bool" where
  "written c h \<longleftrightarrow> 0 \<le> hy_Rank h \<and> hy_Rank h < 2 ^ 63 \<and> \<not> hy_IsPrimary h \<and>
     tight (hy_Text h) \<and> plain (hy_Text h) \<and> tight c \<and> plain c \<and> ParseFloat c = Some (hy_Confidence h) \<and>
     (if hy_RejectedReason h = [] then plain (hy_Evidence h) \<and> CHR 34 \<notin> set (hy_Evidence h)
      else hy_Evidence h = [] \<and> tight (hy_RejectedReason h) \<and> plain (hy_RejectedReason h) \<and>
        last (hy_RejectedReason h) \<noteq> CHR ''*'')"

lemma upper_head: "ToUpper ''HYPOTHESIS_'' = ''HYPOTHESIS_''"
  by code_simp

lemma ToUpper_append: "ToUpper (a @ b) = ToUpper a @ ToUpper b"
  by (simp add: ToUpper_def)

lemma cutset_quotes: "CHR 34 \<notin> set s \<Longrightarrow> cutset [CHR 34] (CHR 34 # s @ [CHR 34]) = s"
proof -
  assume a: "CHR 34 \<notin> set s"
  let ?p = "\<lambda>c. c = CHR 34"
  have d: "dropWhile ?p (u @ [CHR 34]) = u @ [CHR 34]" if "u \<noteq> []" "CHR 34 \<notin> set u" for u
    using that by (cases u) auto
  have e: "dropWhile ?p u = u" if "CHR 34 \<notin> set u" for u
    using that by (cases u) auto
  show ?thesis
    by (cases "s = []") (use a in \<open>simp_all add: cutset_def trim_with_def d e\<close>)
qed

lemma field_confidence:
  "tight c \<Longrightarrow> ParseFloat c = Some v \<Longrightarrow> hypothesis_field (''CONFIDENCE: '' @ c) h = h\<lparr>hy_Confidence := v\<rparr>"
  using TrimSpace_tight [of "''CONFIDENCE: '' @ c"] TrimSpace_blank [OF blank_space, of c] TrimSpace_tight [of c]
  by (simp add: hypothesis_field_def Let_def CutPrefix_def tight_def is_space_def)

lemma field_evidence:
  assumes "CHR 34 \<notin> set e"
  shows "hypothesis_field (''EVIDENCE: '' @ [CHR 34] @ e @ [CHR 34]) h = h\<lparr>hy_Evidence := e\<rparr>"
proof -
  let ?q = "CHR 34 # e @ [CHR 34]"
  have q: "tight ?q" "tight (''EVIDENCE: '' @ ?q)" by (simp_all add: tight_def is_space_def)
  then have "TrimSpace (CHR '' '' # ?q) = ?q"
    using TrimSpace_blank [OF blank_space, of ?q] TrimSpace_tight by metis
  with q(2) show ?thesis
    using TrimSpace_tight [OF q(2)] cutset_quotes [OF assms]
    by (simp add: hypothesis_field_def Let_def CutPrefix_def)
qed

lemma field_rejected:
  "tight r \<Longrightarrow> hypothesis_field (''REJECTED: '' @ r) h = h\<lparr>hy_RejectedReason := r\<rparr>"
  using TrimSpace_tight [of "''REJECTED: '' @ r"] TrimSpace_blank [OF blank_space, of r] TrimSpace_tight [of r]
  by (simp add: hypothesis_field_def Let_def CutPrefix_def tight_def is_space_def)


text \<open>The shape of a written line: it begins with a letter and ends in a character that is neither a
  blank nor an asterisk.\<close>

lemma hypothesis_text_ends:
  assumes "written c h"
  shows "hypothesis_text c h \<noteq> []" "hd (hypothesis_text c h) = CHR ''H''"
    "\<not> is_space (last (hypothesis_text c h))" "last (hypothesis_text c h) \<noteq> CHR ''*''"
proof -
  show "hypothesis_text c h \<noteq> []" "hd (hypothesis_text c h) = CHR ''H''"
    by (simp_all add: hypothesis_text_def)
  have "\<not> is_space (last (hypothesis_text c h)) \<and> last (hypothesis_text c h) \<noteq> CHR ''*''"
  proof (cases "hy_RejectedReason h = []")
    case True
    then show ?thesis by (simp add: hypothesis_text_def is_space_def)
  next
    case False
    with assms show ?thesis by (simp add: hypothesis_text_def written_def tight_def)
  qed
  then show "\<not> is_space (last (hypothesis_text c h))" "last (hypothesis_text c h) \<noteq> CHR ''*''" by auto
qed

lemma hypothesis_text_trimmed:
  assumes "written c h"
  shows "cutset ''*'' (TrimSpace (hypothesis_text c h)) = hypothesis_text c h"
    "TrimSpace (cutset ''*'' (hypothesis_text c h)) = hypothesis_text c h"
proof -
  note ends = hypothesis_text_ends [OF assms]
  have t: "tight (hypothesis_text c h)" using ends by (simp add: tight_def is_space_def)
  have c: "cutset ''*'' (hypothesis_text c h) = hypothesis_text c h"
    unfolding cutset_def by (rule trim_with_fixed) (use ends in auto)
  from t c show "cutset ''*'' (TrimSpace (hypothesis_text c h)) = hypothesis_text c h"
    "TrimSpace (cutset ''*'' (hypothesis_text c h)) = hypothesis_text c h"
    by (simp_all add: TrimSpace_tight)
qed

lemma hypothesis_text_line: "written c h \<Longrightarrow> newline \<notin> set (hypothesis_text c h)"
  using nat_str_free [of newline "nat (hy_Rank h)"]
  by (auto simp: hypothesis_text_def written_def plain_def newline_def split: if_splits)

lemma match_hypothesis_text:
  assumes w: "written c h"
  shows "matchHypothesisLine (hypothesis_text c h) = Some h"
proof -
  define tail where "tail = (if hy_RejectedReason h = [] then ''EVIDENCE: '' @ [CHR 34] @ hy_Evidence h @ [CHR 34]
    else ''REJECTED: '' @ hy_RejectedReason h)"
  define head where "head = ''HYPOTHESIS_'' @ nat_str (nat (hy_Rank h))"
  define rest where "rest = hy_Text h @ '' | '' @ (''CONFIDENCE: '' @ c) @ '' | '' @ tail"
  have line: "hypothesis_text c h = head @ CHR '':'' # '' '' @ rest"
    by (simp add: hypothesis_text_def head_def rest_def tail_def)
  have "HasPrefix (ToUpper (hypothesis_text c h)) ''HYPOTHESIS_''"
    unfolding line head_def ToUpper_append upper_head append_assoc by (rule HasPrefix_append)
  moreover have "cut_char (CHR '':'') (hypothesis_text c h) = (head, '' '' @ rest)"
    unfolding line by (rule cut_char_append) (use nat_str_free in \<open>auto simp: head_def\<close>)
  moreover have "Atoi (drop (length ''HYPOTHESIS_'') head) = Some (hy_Rank h)"
    using w by (simp add: head_def written_def Atoi_nat nat_less_iff)
  moreover have "TrimSpace ('' '' @ rest) = rest"
  proof -
    have "tight tail"
      using w by (auto simp: tail_def written_def tight_def is_space_def)
    then have "tight rest"
      using w by (simp add: rest_def written_def tight_def)
    then show ?thesis using TrimSpace_blank [OF blank_space, of rest] by (simp add: TrimSpace_tight)
  qed
  moreover have "split_sep '' | '' 0 rest = [hy_Text h, ''CONFIDENCE: '' @ c, tail]"
  proof -
    have "CHR ''|'' \<notin> set tail" using w by (auto simp: tail_def written_def plain_def split: if_splits)
    moreover have "CHR ''|'' \<notin> set (''CONFIDENCE: '' @ c)" "CHR ''|'' \<notin> set (hy_Text h)"
      using w by (simp_all add: written_def plain_def)
    ultimately show ?thesis
      unfolding rest_def using split_sep_field [of "hy_Text h" "(''CONFIDENCE: '' @ c) @ '' | '' @ tail"]
        split_sep_field [of "''CONFIDENCE: '' @ c" tail] split_sep_last [of tail] by metis
  qed
  moreover have "hypothesis_field tail (hypothesis_field (''CONFIDENCE: '' @ c)
      (zero_hypothesis\<lparr>hy_Rank := hy_Rank h, hy_Text := hy_Text h\<rparr>)) = h"
  proof -
    have "hypothesis_field (''CONFIDENCE: '' @ c) g = g\<lparr>hy_Confidence := hy_Confidence h\<rparr>" for g
      using w by (intro field_confidence) (simp_all add: written_def)
    moreover have "hypothesis_field tail g = (if hy_RejectedReason h = [] then g\<lparr>hy_Evidence := hy_Evidence h\<rparr>
        else g\<lparr>hy_RejectedReason := hy_RejectedReason h\<rparr>)" for g
      using w field_evidence [of "hy_Evidence h" g] field_rejected [of "hy_RejectedReason h" g]
      by (simp add: tail_def written_def)
    ultimately show ?thesis using w by (cases h) (auto simp: zero_hypothesis_def written_def)
  qed
  moreover have "TrimSpace (hy_Text h) = hy_Text h"
    using w by (simp add: written_def TrimSpace_tight)
  moreover have "CHR '':'' \<in> set (hypothesis_text c h)" by (simp add: line)
  ultimately show ?thesis
    by (simp add: matchHypothesisLine_def)
qed

section \<open>The whole report\<close>

definition root_ref :: "int \<Rightarrow> string" where
  "root_ref k = ''HYPOTHESIS_'' @ nat_str (nat k)"

definition root_line :: "int \<Rightarrow> string" where
  "root_line k = ''ROOT_CAUSE: HYPOTHESIS_'' @ nat_str (nat k)"

definition report_text :: "(string \<times> diagnostic_hypothesis) list \<Rightarrow> int \<Rightarrow> string" where
  "report_text hs k = join_str [newline] (map (\<lambda>(c, h). hypothesis_text c h) hs @ [root_line k])"


lemma split_join: "ls \<noteq> [] \<Longrightarrow> list_all (\<lambda>l. newline \<notin> set l) ls \<Longrightarrow> split_lines (join_str [newline] ls) = ls"
proof (induction ls rule: induct_list012)
  case (3 x y ys)
  have "join_str [newline] (x # y # ys) = x @ newline # join_str [newline] (y # ys)" by simp
  with 3 show ?case by (simp only: split_lines_def split_char_sep) (simp add: split_char_safe)
qed (simp_all add: split_lines_def split_char_safe)

lemma root_line_trimmed:
  "cutset ''*'' (TrimSpace (root_line k)) = root_line k" "TrimSpace (cutset ''*'' (root_line k)) = root_line k"
  "newline \<notin> set (root_line k)"
proof -
  have last: "last (root_line k) \<in> set (nat_str (nat k))"
    using nat_str_head(1) [of "nat k"] by (simp add: root_line_def)
  have t: "tight (root_line k)"
    using nat_str_free [OF last] by (simp add: tight_def) (simp add: root_line_def is_space_def)
  have c: "cutset ''*'' (root_line k) = root_line k"
    unfolding cutset_def by (rule trim_with_fixed) (use nat_str_free [OF last] in \<open>auto simp: root_line_def\<close>)
  from t c show "cutset ''*'' (TrimSpace (root_line k)) = root_line k" "TrimSpace (cutset ''*'' (root_line k)) = root_line k"
    by (simp_all add: TrimSpace_tight)
  show "newline \<notin> set (root_line k)"
    using nat_str_free by (auto simp: root_line_def newline_def)
qed

lemma match_root_line: "matchHypothesisLine (root_line k) = None"
  by (simp add: matchHypothesisLine_def root_line_def ToUpper_append) (simp add: ToUpper_def upper_char_def)

text \<open>Neither another hypothesis nor the root cause continues a hypothesis.\<close>

lemma continuation_stops:
  assumes "TrimSpace (cutset ''*'' l) = l" "HasPrefix l ''HYPOTHESIS_'' \<or> HasPrefix l ''ROOT_CAUSE:''"
  shows "continuation (l # ls) h = h"
proof -
  from assms(2) obtain t where "l = ''HYPOTHESIS_'' @ t \<or> l = ''ROOT_CAUSE:'' @ t"
    by (auto simp: HasPrefix_iff)
  then have "l \<noteq> []" "CutPrefix l ''CONFIDENCE:'' = None" "CutPrefix l ''EVIDENCE:'' = None" "CutPrefix l ''REJECTED:'' = None"
    by (auto simp: CutPrefix_def)
  with assms(1) show ?thesis by simp
qed

lemma report_lines_written:
  assumes "list_all (\<lambda>(c, h). written c h) hs"
  shows "report_lines (map (\<lambda>(c, h). hypothesis_text c h) hs @ [root_line k]) (acc, rc, act) =
    (acc @ map snd hs, root_ref k, act)"
  using assms
proof (induction hs arbitrary: acc rc)
  case Nil
  have "last (nat_str (nat k)) \<in> set (nat_str (nat k))" by (simp add: nat_str_head)
  then have "\<not> is_space (last (nat_str (nat k)))" using nat_str_free by blast
  then have "tight (root_ref k)"
    using nat_str_head(1) [of "nat k"] by (simp add: tight_def root_ref_def) (simp add: is_space_def)
  then have "TrimSpace (CHR '' '' # root_ref k) = root_ref k"
    using TrimSpace_blank [OF blank_space] by (simp add: TrimSpace_tight)
  moreover have "HasPrefix (root_line k) ''ROOT_CAUSE:''"
    "TrimPrefix (root_line k) ''ROOT_CAUSE:'' = CHR '' '' # root_ref k"
    by (simp_all add: root_line_def root_ref_def TrimPrefix_def)
  ultimately show ?case
    by (simp add: root_line_trimmed match_root_line Let_def)
next
  case (Cons x hs)
  obtain c h where x: "x = (c, h)" by (cases x)
  with Cons.prems have w: "written c h" by simp
  let ?ls = "map (\<lambda>(c, h). hypothesis_text c h) hs @ [root_line k]"
  have "continuation (take 5 ?ls) h = h"
  proof (cases hs)
    case Nil
    then show ?thesis
      using continuation_stops [OF root_line_trimmed(2), of k] by (simp add: root_line_def)
  next
    case (Cons y ys)
    obtain d g where y: "y = (d, g)" by (cases y)
    have "written d g" using Cons.prems Cons y x \<open>list_all (\<lambda>(c, h). written c h) (x # hs)\<close> by simp
    then have "continuation (hypothesis_text d g # take 4 (map (\<lambda>(c, h). hypothesis_text c h) ys @ [root_line k])) h = h"
      by (intro continuation_stops hypothesis_text_trimmed(2)) (simp_all add: hypothesis_text_def)
    with Cons y show ?thesis by simp
  qed
  then show ?case
    using Cons.IH [of "acc @ [h]" rc] Cons.prems
    by (simp add: x hypothesis_text_trimmed [OF w] match_hypothesis_text [OF w] Let_def)
qed


lemma primary_rank_written: "0 \<le> k \<Longrightarrow> k < 2 ^ 63 \<Longrightarrow> primary_rank (root_ref k) = k"
  by (simp add: root_ref_def primary_rank_def CutPrefix_def Atoi_nat nat_less_iff)

text \<open>C31: an agent that follows the protocol is understood. A report of hypotheses in the documented
  format, one on each line, closed by the line that names the root cause, is read back as written: every
  hypothesis with its rank, text, confidence, evidence or reason, the named one marked as primary and
  its text taken as the root cause.\<close>

theorem report_roundtrip:
  assumes "hs \<noteq> []" "list_all (\<lambda>(c, h). written c h) hs" "0 \<le> k" "k < 2 ^ 63"
  shows "parseDiagnosticReport (report_text hs k) = Some \<lparr>
     dy_Hypotheses = map (\<lambda>(c, h). h\<lparr>hy_IsPrimary := (hy_Rank h = k)\<rparr>) hs,
     dy_RootCause = last_of [] (map (\<lambda>(c, h). hy_Text h) (filter (\<lambda>(c, h). hy_Rank h = k) hs)),
     dy_ActionTaken = []\<rparr>"
proof -
  have "list_all (\<lambda>l. newline \<notin> set l) (map (\<lambda>(c, h). hypothesis_text c h) hs @ [root_line k])"
    using assms(2) by (auto simp: list_all_iff root_line_trimmed hypothesis_text_line)
  then have lines: "split_lines (report_text hs k) = map (\<lambda>(c, h). hypothesis_text c h) hs @ [root_line k]"
    unfolding report_text_def by (intro split_join) simp_all
  have "mark_primary k h = h\<lparr>hy_IsPrimary := (hy_Rank h = k)\<rparr>" if "written c h" for c h
    using that by (cases h) (auto simp: mark_primary_def written_def)
  then have "map (mark_primary k) (map snd hs) = map (\<lambda>(c, h). h\<lparr>hy_IsPrimary := (hy_Rank h = k)\<rparr>) hs"
    using assms(2) by (auto simp: list_all_iff)
  moreover have "fold (\<lambda>h acc. if hy_Rank h = k then hy_Text h else acc) (map snd xs) d =
      last_of d (map (\<lambda>(c, h). hy_Text h) (filter (\<lambda>(c, h). hy_Rank h = k) xs))" for xs :: "(string \<times> diagnostic_hypothesis) list" and d
    by (induction xs arbitrary: d) auto
  ultimately show ?thesis
    using assms by (simp add: parseDiagnosticReport_def lines report_lines_written primary_rank_written)
qed

definition sample_hypotheses :: "(string \<times> diagnostic_hypothesis) list" where
  "sample_hypotheses =
    [(''0.5'', zero_hypothesis\<lparr>hy_Rank := 1, hy_Text := ''disk full'', hy_Confidence := Fin (1 / 2), hy_Evidence := ''no space''\<rparr>),
     (''0'', zero_hypothesis\<lparr>hy_Rank := 2, hy_Text := ''network'', hy_RejectedReason := ''ping ok''\<rparr>)]"

lemma parse_half: "ParseFloat ''0.5'' = Some (Fin (1 / 2))"
proof -
  have "readFloat ''0.5'' = Some (1 / 2)"
    by (simp add: readFloat_def strip_sign_def is_hex_def mant_digit_def digit_val_def read_exp_def power_int_rat_def
        lower_char_def)
  moreover have "f_round (1 / 2) = Fin (1 / 2)"
    by (simp add: f_round_def round_pos_def)
  ultimately show ?thesis
    by (simp add: ParseFloat_def strip_sign_def ToLower_def lower_char_def)
qed

lemma parse_zero: "ParseFloat ''0'' = Some (Fin 0)"
proof -
  have "readFloat ''0'' = Some 0"
    by (simp add: readFloat_def strip_sign_def is_hex_def mant_digit_def digit_val_def read_exp_def power_int_rat_def)
  moreover have "f_round 0 = Fin 0"
    by (simp add: f_round_def round_pos_def round_even_def)
  ultimately show ?thesis
    by (simp add: ParseFloat_def strip_sign_def ToLower_def lower_char_def)
qed

theorem report_roundtrip_witness:
  "list_all (\<lambda>(c, h). written c h) sample_hypotheses \<and>
   (\<exists>r. parseDiagnosticReport (report_text sample_hypotheses 1) = Some r \<and> dy_RootCause r = ''disk full'' \<and>
     map hy_IsPrimary (dy_Hypotheses r) = [True, False])"
proof -
  have w: "list_all (\<lambda>(c, h). written c h) sample_hypotheses"
    by (simp add: sample_hypotheses_def zero_hypothesis_def written_def parse_half parse_zero tight_def plain_def
        is_space_def newline_def)
  then show ?thesis
    using report_roundtrip [of sample_hypotheses 1] by (simp add: sample_hypotheses_def zero_hypothesis_def)
qed

end
