(* ===== verification/Tool_Registry.thy ===== *)
theory Tool_Registry
  imports Action_Class Go_Json
begin

text \<open>
  The catalog of tools the gateway builds from the cards of the agents
  (\<^verbatim>\<open>internal/toolregistry\<close>): entries from the skills and tags of a card, lookup by name, agent and
  eligibility, removal of superseded tools and the check of required parameters. The map of cards is an
  association list whose order stands for the order of the iteration.
\<close>

record registry_entry =
  ry_Name :: string
  ry_Agent :: string
  ry_Description :: string
  ry_InputSchema :: "json_map option"
  ry_ActionClass :: string
  ry_FleetEligible :: bool
  ry_AutoRemediationEligible :: bool
  ry_Capabilities :: "string list"
  ry_Supersedes :: "string list"
  ry_AgentVersion :: string
  ry_SchemaFingerprint :: string

type_synonym registry = "registry_entry list"

text \<open>The map by name keeps the last entry of a name.\<close>

definition registry_get :: "registry \<Rightarrow> string \<Rightarrow> registry_entry option" where
  "registry_get r name = find (\<lambda>e. ry_Name e = name) (rev r)"

definition ListByAgent :: "registry \<Rightarrow> string \<Rightarrow> registry_entry list" where
  "ListByAgent r agent = filter (\<lambda>e. ry_Agent e = agent) r"

definition ListFleetEligible :: "registry \<Rightarrow> registry_entry list" where
  "ListFleetEligible r = filter ry_FleetEligible r"

definition ListAutoRemediationEligible :: "registry \<Rightarrow> registry_entry list" where
  "ListAutoRemediationEligible r = filter ry_AutoRemediationEligible r"

definition IsAutoRemediationEligible :: "registry \<Rightarrow> string \<Rightarrow> bool" where
  "IsAutoRemediationEligible r name = (case registry_get r name of Some e \<Rightarrow> ry_AutoRemediationEligible e | None \<Rightarrow> False)"

definition ListByCapability :: "registry \<Rightarrow> string \<Rightarrow> registry_entry list" where
  "ListByCapability r cap = filter (\<lambda>e. List.member (ry_Capabilities e) cap) r"

definition supersedes_of :: "registry \<Rightarrow> string \<Rightarrow> string list" where
  "supersedes_of r n = (case registry_get r n of Some e \<Rightarrow> ry_Supersedes e | None \<Rightarrow> [])"

definition ResolveSuperseded :: "registry \<Rightarrow> string list \<Rightarrow> string list" where
  "ResolveSuperseded r names =
     (let dominated = filter (List.member names) (concat (map (supersedes_of r) names))
      in if dominated = [] then names else filter (\<lambda>n. \<not> List.member dominated n) names)"

definition required_keys :: "json option \<Rightarrow> string list" where
  "required_keys v = (case v of Some (JArr xs) \<Rightarrow> strs_of xs | _ \<Rightarrow> [])"

definition registry_Validate :: "registry \<Rightarrow> string \<Rightarrow> json_map option \<Rightarrow> string option" where
  "registry_Validate r toolName args = (case registry_get r toolName of
     None \<Rightarrow> Some (''unknown tool: '' @ toolName)
   | Some e \<Rightarrow> (case ry_InputSchema e of
       None \<Rightarrow> None
     | Some schema \<Rightarrow>
         (case find (\<lambda>key. case args of None \<Rightarrow> True | Some m \<Rightarrow> map_of m key = None)
             (required_keys (map_of schema ''required'')) of
            Some key \<Rightarrow> Some (''tool '' @ toolName @ '': missing required parameter '' @ Quote key)
          | None \<Rightarrow> None)))"

section \<open>Building the catalog\<close>

definition agentShortName :: "(string \<times> string) list" where
  "agentShortName = [(''postgres_database_agent'', ''database''), (''k8s_agent'', ''k8s''),
     (''incident_agent'', ''incident''), (''research_agent'', ''research''), (''sysadmin_agent'', ''sysadmin'')]"

definition NormalizeAgentName :: "string \<Rightarrow> string" where
  "NormalizeAgentName name = (case map_of agentShortName name of Some s \<Rightarrow> s | None \<Rightarrow> name)"

record agent_skill =
  sk_ID :: string
  sk_Name :: string
  sk_Description :: string
  sk_Tags :: "string list"

record agent_card =
  ag_Skills :: "agent_skill list"
  ag_Version :: string

definition extractToolName :: "string \<Rightarrow> string \<Rightarrow> string" where
  "extractToolName agentName skillID =
     (if HasPrefix skillID (agentName @ ''-'') then TrimPrefix skillID (agentName @ ''-'') else [])"

record skill_tags =
  sg_fleet :: bool
  sg_auto :: bool
  sg_caps :: "string list"
  sg_supersedes :: "string list"
  sg_fingerprint :: string

definition skill_tag :: "string \<Rightarrow> skill_tags \<Rightarrow> skill_tags" where
  "skill_tag tag g =
     (if tag = ''fleet:true'' then g\<lparr>sg_fleet := True\<rparr>
      else if tag = ''auto_remediation:true'' then g\<lparr>sg_auto := True\<rparr>
      else if HasPrefix tag ''cap:'' then g\<lparr>sg_caps := sg_caps g @ [TrimPrefix tag ''cap:'']\<rparr>
      else if HasPrefix tag ''supersedes:'' then g\<lparr>sg_supersedes := sg_supersedes g @ [TrimPrefix tag ''supersedes:'']\<rparr>
      else if HasPrefix tag ''schema_hash:'' then g\<lparr>sg_fingerprint := TrimPrefix tag ''schema_hash:''\<rparr>
      else g)"

definition parseSkillTags :: "string list \<Rightarrow> skill_tags" where
  "parseSkillTags tags = fold skill_tag tags
     \<lparr>sg_fleet = False, sg_auto = False, sg_caps = [], sg_supersedes = [], sg_fingerprint = []\<rparr>"

type_synonym tool_schemas = "(string \<times> (string \<times> json_map) list) list"

definition skill_entry ::
  "tool_schemas \<Rightarrow> (string \<rightharpoonup> string) \<Rightarrow> string \<Rightarrow> string \<Rightarrow> agent_skill \<Rightarrow> registry_entry option" where
  "skill_entry schemas classification version agentName skill =
     (let toolName = extractToolName agentName (sk_ID skill); g = parseSkillTags (sk_Tags skill) in
      if toolName = [] then None
      else Some \<lparr>ry_Name = toolName, ry_Agent = NormalizeAgentName agentName,
        ry_Description = (if sk_Description skill = [] then sk_Name skill else sk_Description skill),
        ry_InputSchema = (case map_of schemas agentName of Some ts \<Rightarrow> map_of ts toolName | None \<Rightarrow> None),
        ry_ActionClass = (case classification toolName of Some c \<Rightarrow> c | None \<Rightarrow> ClassUnknown),
        ry_FleetEligible = sg_fleet g, ry_AutoRemediationEligible = sg_auto g, ry_Capabilities = sg_caps g,
        ry_Supersedes = sg_supersedes g, ry_AgentVersion = version, ry_SchemaFingerprint = sg_fingerprint g\<rparr>)"

definition registry_Build ::
  "(string \<times> agent_card option) list \<Rightarrow> tool_schemas \<Rightarrow> (string \<rightharpoonup> string) \<Rightarrow> registry" where
  "registry_Build cards schemas classification = concat (map (\<lambda>(agentName, card). case card of
     None \<Rightarrow> []
   | Some c \<Rightarrow> List.map_filter (skill_entry schemas classification (ag_Version c) agentName) (ag_Skills c)) cards)"

section \<open>Facts\<close>

text \<open>superseded tools are dropped and no others. What is left of a selection are its tools, in
  order, that no tool of the selection supersedes; nothing left supersedes anything else left, and a
  second pass changes nothing.\<close>

theorem superseded_dropped:
  "ResolveSuperseded r names = filter (\<lambda>n. list_all (\<lambda>m. \<not> List.member (supersedes_of r m) n) names) names \<and>
   ResolveSuperseded r (ResolveSuperseded r names) = ResolveSuperseded r names \<and>
   list_all (\<lambda>m. list_all (\<lambda>n. \<not> List.member (supersedes_of r m) n) (ResolveSuperseded r names)) (ResolveSuperseded r names)"
proof -
  have exact: "ResolveSuperseded r ns = filter (\<lambda>n. list_all (\<lambda>m. \<not> List.member (supersedes_of r m) n) ns) ns" for ns
  proof -
    let ?d = "filter (List.member ns) (concat (map (supersedes_of r) ns))"
    have mem: "n \<in> set ns \<Longrightarrow> n \<in> set ?d \<longleftrightarrow> (\<exists>m \<in> set ns. n \<in> set (supersedes_of r m))" for n by auto
    have keep: "filter (\<lambda>n. list_all (\<lambda>m. \<not> List.member (supersedes_of r m) n) ns) ns = filter (\<lambda>n. \<not> List.member ?d n) ns"
      by (rule filter_cong) (use mem in \<open>auto simp: list_all_iff\<close>)
    show ?thesis
    proof (cases "?d = []")
      case True
      then show ?thesis unfolding keep by (simp add: ResolveSuperseded_def)
    next
      case False
      then show ?thesis unfolding keep by (simp add: ResolveSuperseded_def Let_def)
    qed
  qed
  have none: "list_all (\<lambda>m. list_all (\<lambda>n. \<not> List.member (supersedes_of r m) n) (ResolveSuperseded r names)) (ResolveSuperseded r names)"
    by (auto simp: exact [of names] list_all_iff)
  have "ResolveSuperseded r (ResolveSuperseded r names) = ResolveSuperseded r names"
    using none by (subst exact) (auto simp: list_all_iff intro!: filter_True)
  with none exact show ?thesis by blast
qed

end
