(* ===== verification/Decisions.thy ===== *)
theory Decisions
  imports Http_Client
begin

text \<open>
  The decision notifier (\<^verbatim>\<open>internal/decisions\<close>): a decision that waits for an operator, or that was
  resolved, is sent to a webhook, in a form of its own for Slack, and by mail. The keyed hash of a
  payload is the argument \<open>hmac\<close>; a mail is the request with the method \<^verbatim>\<open>SMTP\<close>. A value that may fail to
  encode is a \<open>json option\<close>.
\<close>

type_synonym fields = "(string \<times> json option) list"

text \<open>The object of some fields, absent when one of them cannot be encoded; a key given twice keeps the
  last value.\<close>

definition encode_fields :: "fields \<Rightarrow> json_map \<Rightarrow> json_map option" where
  "encode_fields fs m = (if list_all (\<lambda>(_, v). v \<noteq> None) fs then Some (fold (\<lambda>(k, v) m. json_put k (the v) m) fs m) else None)"

record op_decision =
  dn_ID :: string
  dn_Type :: string
  dn_Status :: string
  dn_Summary :: string
  dn_RequestedBy :: string
  dn_ResolveURL :: string
  dn_Extra :: fields

definition DecisionTypeGate :: string where "DecisionTypeGate = ''gate''"

record notifier =
  nf_WebhookURL :: string
  nf_WebhookSecret :: string
  nf_SMTPHost :: string
  nf_SMTPPort :: string
  nf_SMTPUser :: string
  nf_EmailFrom :: string
  nf_EmailTo :: "string list"

definition webhookPayload :: "string \<Rightarrow> op_decision \<Rightarrow> time \<Rightarrow> json option" where
  "webhookPayload event d now = (case encode_fields (dn_Extra d) [] of
     None \<Rightarrow> None
   | Some extra \<Rightarrow> Some (JObj ([(''event'', JStr event), (''decision_id'', JStr (dn_ID d)), (''type'', JStr (dn_Type d)),
       (''status'', JStr (dn_Status d)), (''summary'', JStr (dn_Summary d))] @ omit ''requested_by'' (dn_RequestedBy d) @
       omit ''resolve_url'' (dn_ResolveURL d) @ (if extra = [] then [] else [(''extra'', JObj extra)]) @
       [(''timestamp'', JStr (fmt_rfc3339 now))])))"

definition slack_color :: "string \<Rightarrow> string \<Rightarrow> string" where
  "slack_color event status =
     (if event = ''decision_resolved'' then
        (if status = ''approved'' then ''#36a64f''
         else if status \<in> {''denied'', ''abandoned'', ''expired''} then ''#d00000'' else ''#f0ad4e'')
      else ''#f0ad4e'')"

definition warning_sign :: string where
  "warning_sign = [CHR 0xE2, CHR 0x9A, CHR 0xA0]"

definition last_field :: "fields \<Rightarrow> string \<Rightarrow> string" where
  "last_field fs k = (case map_of (rev fs) k of Some v \<Rightarrow> str_or_empty v | None \<Rightarrow> [])"

definition slackPayload :: "string \<Rightarrow> op_decision \<Rightarrow> time \<Rightarrow> json" where
  "slackPayload event d now =
     (let title = ''['' @ ToUpper (dn_Type d) @ ''] '' @ dn_Summary d;
          warn = last_field (dn_Extra d) ''confidence_warning'';
          lines = (if dn_RequestedBy d \<noteq> [] then [''Requested by: '' @ dn_RequestedBy d] else []) @
            (if dn_ResolveURL d \<noteq> [] \<and> event = ''decision_pending'' then [''Resolve: '' @ dn_ResolveURL d] else []) @
            (if warn \<noteq> [] then [warning_sign @ '' '' @ warn] else [])
      in JObj [(''attachments'', JArr [JObj [(''color'', JStr (slack_color event (dn_Status d))), (''title'', JStr title),
           (''text'', JStr (join_str [CHR 0x0A] lines)), (''footer'', JStr ''aiHelpDesk Decision Hub''),
           (''ts'', JNum (int (now div 1000000000)))]])])"

definition sendWebhook ::
  "codec \<Rightarrow> (string \<Rightarrow> string \<Rightarrow> string) \<Rightarrow> notifier \<Rightarrow> string \<Rightarrow> op_decision \<Rightarrow> time \<Rightarrow> unit prog" where
  "sendWebhook cd hmac nf event d now = Now (\<lambda>t.
     case (if str_contains (nf_WebhookURL nf) ''slack.com'' then Some (slackPayload event d t) else webhookPayload event d now) of
       None \<Rightarrow> Return ()
     | Some body \<Rightarrow>
         bindP (http_do cd \<lparr>hq_method = ''POST'', hq_url = nf_WebhookURL nf,
             hq_headers = json_type # (if nf_WebhookSecret nf = [] then [] else
               [(''X-Helpdesk-Signature'', ''sha256='' @ hmac (nf_WebhookSecret nf) (cd_text cd body))]),
             hq_body = Some body\<rparr>) (\<lambda>_. Return ()))"

definition mail_body :: "op_decision \<Rightarrow> string" where
  "mail_body d = ''Decision ID: '' @ dn_ID d @ [CHR 0x0A] @ ''Type:        '' @ dn_Type d @ [CHR 0x0A] @
     ''Status:      '' @ dn_Status d @ [CHR 0x0A] @
     (if dn_RequestedBy d \<noteq> [] then ''Requested by: '' @ dn_RequestedBy d @ [CHR 0x0A] else []) @
     (if dn_ResolveURL d \<noteq> [] then [CHR 0x0A] @ ''To resolve:'' @ [CHR 0x0A] @ ''  '' @ dn_ResolveURL d @ [CHR 0x0A] else [])"

definition sendEmail :: "notifier \<Rightarrow> string \<Rightarrow> op_decision \<Rightarrow> unit prog" where
  "sendEmail nf event d =
     (let crlf = [CHR 0x0D, CHR 0x0A];
          msg = ''To: '' @ join_str '', '' (nf_EmailTo nf) @ crlf @ ''From: '' @ nf_EmailFrom nf @ crlf @
            ''Subject: [aiHelpDesk] Decision '' @ event @ '': '' @ dn_Summary d @ crlf @ crlf @ mail_body d
      in Call \<lparr>hq_method = ''SMTP'',
           hq_url = nf_SMTPHost nf @ '':'' @ (if nf_SMTPPort nf = [] then ''587'' else nf_SMTPPort nf),
           hq_headers = (if nf_SMTPUser nf = [] then [] else [(''AUTH'', nf_SMTPUser nf)]) @ [(''MAIL FROM'', nf_EmailFrom nf)] @
             map (\<lambda>t. (''RCPT TO'', t)) (nf_EmailTo nf),
           hq_body = Some (JStr msg)\<rparr> (\<lambda>_. Return ()))"

text \<open>\<^verbatim>\<open>NotifyPending\<close> and \<^verbatim>\<open>NotifyResolved\<close> start \<open>notify\<close> as a goroutine with their event.\<close>

definition notify ::
  "codec \<Rightarrow> (string \<Rightarrow> string \<Rightarrow> string) \<Rightarrow> notifier \<Rightarrow> string \<Rightarrow> op_decision \<Rightarrow> unit prog" where
  "notify cd hmac nf event d = Now (\<lambda>now.
     bindP (if nf_WebhookURL nf \<noteq> [] then sendWebhook cd hmac nf event d now else Return ()) (\<lambda>_.
       if nf_SMTPHost nf \<noteq> [] \<and> nf_EmailFrom nf \<noteq> [] \<and> nf_EmailTo nf \<noteq> [] then sendEmail nf event d else Return ()))"

definition NotifyPending where
  "NotifyPending cd hmac n d = (case n of None \<Rightarrow> [] | Some nf \<Rightarrow> [notify cd hmac nf ''decision_pending'' d])"

definition NotifyResolved where
  "NotifyResolved cd hmac n d = (case n of None \<Rightarrow> [] | Some nf \<Rightarrow> [notify cd hmac nf ''decision_resolved'' d])"

end
