(* ===== verification/Gateway_Client.thy ===== *)
theory Gateway_Client
  imports Playbook_Text Tool_Registry Decisions
begin

text \<open>
  The gateway's side of the playbook service of auditd (\<^verbatim>\<open>cmd/gateway/playbooks.go\<close>): the
  requests that fetch playbooks, runs and steps, that record runs, steps and approvals, and that post
  feedback. The JSON forms of the stored structs are the argument \<open>sc\<close>; an encoder that fails is an
  absent value. A goroutine the source starts with \<^verbatim>\<open>go\<close> is a program of its own in the result.
\<close>

record gateway =
  gw_agents :: "(string \<times> string) list"
  gw_clients :: "string list"
  gw_auditURL :: string
  gw_auditAPIKey :: string
  gw_agentAPIKey :: string
  gw_auditor :: "gateway_auditor option"
  gw_infra :: "infra_config option"
  gw_registry :: "registry option"
  gw_planner :: bool
  gw_operatingMode :: string
  gw_crystalBall :: bool
  gw_baseURL :: string
  gw_notifier :: "notifier option"

record store_codec =
  sc_playbook_of :: "json \<Rightarrow> string + playbook"
  sc_run_of :: "json \<Rightarrow> string + playbook_run"
  sc_step_of :: "json \<Rightarrow> string + run_step"
  sc_approval_of :: "json \<Rightarrow> string + stored_approval"
  sc_session_of :: "json \<Rightarrow> string + approval_session"
  sc_run :: "playbook_run \<Rightarrow> json option"
  sc_step :: "run_step \<Rightarrow> json option"
  sc_approval :: "stored_approval \<Rightarrow> json option"
  sc_report :: "diagnostic_report \<Rightarrow> json option"
  sc_principal :: "principal \<Rightarrow> json"

section \<open>Requests to auditd\<close>

definition auditd_url :: "gateway \<Rightarrow> string \<Rightarrow> string" where
  "auditd_url g path = TrimSuffix (gw_auditURL g) ''/'' @ path"

definition auditd_get :: "gateway \<Rightarrow> string \<Rightarrow> http_req" where
  "auditd_get g path = \<lparr>hq_method = ''GET'', hq_url = auditd_url g path, hq_headers = bearer (gw_auditAPIKey g), hq_body = None\<rparr>"

definition auditd_send :: "gateway \<Rightarrow> string \<Rightarrow> string \<Rightarrow> json option \<Rightarrow> http_req" where
  "auditd_send g verb path b = \<lparr>hq_method = verb, hq_url = auditd_url g path,
     hq_headers = json_type # bearer (gw_auditAPIKey g), hq_body = b\<rparr>"

text \<open>A reply decoded, with the errors of the transport and of the decoder; \<open>status\<close> judges the
  status code.\<close>

definition decode_reply :: "codec \<Rightarrow> (int \<Rightarrow> string option) \<Rightarrow> (json \<Rightarrow> string + 'a) \<Rightarrow> sent \<Rightarrow> string + 'a" where
  "decode_reply cd status dec x = (case x of
     NotBuilt e \<Rightarrow> Inl e
   | NotSent e \<Rightarrow> Inl e
   | Got c b \<Rightarrow> (case status c of
       Some e \<Rightarrow> Inl e
     | None \<Rightarrow> (case cd_parse cd b of Inl e \<Rightarrow> Inl e | Inr v \<Rightarrow> dec v)))"

definition returned :: "int \<Rightarrow> string" where
  "returned c = ''auditd returned '' @ Itoa c"

definition only_ok :: "int \<Rightarrow> string option" where
  "only_ok c = (if c = 200 then None else Some (returned c))"

definition found_ok :: "int \<Rightarrow> string option" where
  "found_ok c = (if c = 404 then Some ''not found'' else only_ok c)"

text \<open>The array under a key of a decoded object.\<close>

definition field_list :: "string \<Rightarrow> (json \<Rightarrow> string + 'a) \<Rightarrow> json \<Rightarrow> string + 'a list" where
  "field_list k dec v = (case v of
     JNull \<Rightarrow> Inr []
   | JObj m \<Rightarrow> (case find (\<lambda>(k', _). ToLower k' = k) (rev m) of
       None \<Rightarrow> Inr []
     | Some (_, JNull) \<Rightarrow> Inr []
     | Some (_, JArr vs) \<Rightarrow> (case find isl (map dec vs) of
         Some (Inl e) \<Rightarrow> Inl e
       | _ \<Rightarrow> Inr (map (\<lambda>v. projr (dec v)) vs))
     | Some _ \<Rightarrow> Inl ''json: cannot unmarshal'')
   | _ \<Rightarrow> Inl ''json: cannot unmarshal'')"

definition first_found :: "string + 'a list \<Rightarrow> string + 'a" where
  "first_found r = (case r of Inl e \<Rightarrow> Inl e | Inr [] \<Rightarrow> Inl ''not found'' | Inr (x # _) \<Rightarrow> Inr x)"

definition fetchPlaybookRun :: "codec \<Rightarrow> store_codec \<Rightarrow> gateway \<Rightarrow> string \<Rightarrow> (string + playbook_run) prog" where
  "fetchPlaybookRun cd sc g runID =
     bindP (http_do cd (auditd_get g (''/v1/fleet/playbook-runs/'' @ runID)))
       (\<lambda>x. Return (decode_reply cd found_ok (sc_run_of sc) x))"

definition fetchPlaybookBySeriesID :: "codec \<Rightarrow> store_codec \<Rightarrow> gateway \<Rightarrow> string \<Rightarrow> (string + playbook) prog" where
  "fetchPlaybookBySeriesID cd sc g seriesID =
     bindP (http_do cd (auditd_get g (''/v1/fleet/playbooks?series_id='' @ seriesID @ ''&active_only=true&include_system=true'')))
       (\<lambda>x. Return (first_found (decode_reply cd only_ok (field_list ''playbooks'' (sc_playbook_of sc)) x)))"

text \<open>By identifier, then by series; a transport or decoding error of the first lookup is final.\<close>

definition fetchPlaybook :: "codec \<Rightarrow> store_codec \<Rightarrow> gateway \<Rightarrow> string \<Rightarrow> (string + playbook) prog" where
  "fetchPlaybook cd sc g i =
     bindP (http_do cd (auditd_get g (''/v1/fleet/playbooks/'' @ i))) (\<lambda>x.
       case x of
         Got c b \<Rightarrow>
           (if c = 200 then Return (decode_reply cd (\<lambda>_. None) (sc_playbook_of sc) x)
            else bindP (http_do cd (auditd_get g (''/v1/fleet/playbooks?series_id='' @ i @ ''&active_only=true'')))
              (\<lambda>y. Return (first_found (decode_reply cd (\<lambda>c. if c = 200 then None else Some ''not found'')
                 (field_list ''playbooks'' (sc_playbook_of sc)) y))))
       | _ \<Rightarrow> Return (decode_reply cd (\<lambda>_. None) (sc_playbook_of sc) x))"

definition fetchApprovalSession :: "codec \<Rightarrow> store_codec \<Rightarrow> gateway \<Rightarrow> string \<Rightarrow> (string + approval_session) prog" where
  "fetchApprovalSession cd sc g sessionID =
     bindP (http_do cd (auditd_get g (''/v1/approval/sessions/'' @ sessionID))) (\<lambda>x. Return (case x of
         NotSent e \<Rightarrow> Inl (''auditd unreachable: '' @ e)
       | NotBuilt e \<Rightarrow> Inl e
       | Got c b \<Rightarrow>
           (if c = 404 then Inl ''session not found''
            else if c \<noteq> 200 then Inl (returned c)
            else (case cd_parse cd b of
              Inl e \<Rightarrow> Inl (''decode session: '' @ e)
            | Inr v \<Rightarrow> (case sc_session_of sc v of Inl e \<Rightarrow> Inl (''decode session: '' @ e) | Inr s \<Rightarrow> Inr s)))))"

section \<open>Runs\<close>

definition zero_run :: playbook_run where
  "zero_run = \<lparr>pn_RunID = [], pn_PlaybookID = [], pn_SeriesID = [], pn_ExecutionMode = [], pn_Outcome = [],
     pn_EscalatedTo = [], pn_TransitionedTo = [], pn_FindingsSummary = [], pn_DiagnosticReport = None,
     pn_ContextID = [], pn_ConnectionString = [], pn_TraceID = [], pn_AgentTranscript = [], pn_PriorRunID = [],
     pn_TriggerContext = [], pn_Operator = [], pn_StartedAt = 0, pn_CompletedAt = 0\<rparr>"

text \<open>The identifier of the recorded run, empty when it could not be recorded.\<close>

definition recordPlaybookRunStart ::
  "codec \<Rightarrow> store_codec \<Rightarrow> gateway \<Rightarrow> playbook \<Rightarrow> string \<Rightarrow> string \<Rightarrow> string \<Rightarrow> string \<Rightarrow> string \<Rightarrow> string \<Rightarrow> string prog" where
  "recordPlaybookRunStart cd sc g pb contextID connStr traceID priorRunID triggerContext operator =
     (if gw_auditURL g = [] then Return []
      else (case sc_run sc (zero_run\<lparr>pn_PlaybookID := pb_PlaybookID pb, pn_SeriesID := pb_SeriesID pb,
              pn_ExecutionMode := pb_ExecutionMode pb, pn_ContextID := contextID, pn_ConnectionString := connStr,
              pn_TraceID := traceID, pn_PriorRunID := priorRunID, pn_TriggerContext := triggerContext,
              pn_Operator := operator\<rparr>) of
        None \<Rightarrow> Return []
      | Some body \<Rightarrow>
          bindP (http_do cd (auditd_send g ''POST'' (''/v1/fleet/playbooks/'' @ pb_PlaybookID pb @ ''/runs'') (Some body)))
            (\<lambda>x. Return (case decode_reply cd (\<lambda>c. if c = 201 then None else Some (returned c)) (sc_run_of sc) x of
               Inr r \<Rightarrow> pn_RunID r | Inl _ \<Rightarrow> []))))"

text \<open>The body of a completed run; with a report that cannot be encoded it is empty.\<close>

definition completion ::
  "store_codec \<Rightarrow> string \<Rightarrow> string \<Rightarrow> string \<Rightarrow> string \<Rightarrow> string \<Rightarrow> string \<Rightarrow> diagnostic_report option \<Rightarrow> json option" where
  "completion sc out escalatedTo transitionedTo findings transcript traceID report =
     (let base = [(''outcome'', JStr out), (''escalated_to'', JStr escalatedTo), (''transitioned_to'', JStr transitionedTo),
          (''findings_summary'', JStr findings)] @ omit ''agent_transcript'' transcript @ omit ''trace_id'' traceID
      in case report of
           None \<Rightarrow> Some (JObj base)
         | Some r \<Rightarrow> (case sc_report sc r of None \<Rightarrow> None | Some j \<Rightarrow> Some (JObj (base @ [(''diagnostic_report'', j)]))))"

definition recordPlaybookRunComplete ::
  "codec \<Rightarrow> store_codec \<Rightarrow> gateway \<Rightarrow> string \<Rightarrow> string \<Rightarrow> string \<Rightarrow> string \<Rightarrow> string \<Rightarrow> string \<Rightarrow> string \<Rightarrow>
   diagnostic_report option \<Rightarrow> unit prog" where
  "recordPlaybookRunComplete cd sc g runID out escalatedTo transitionedTo findings transcript traceID report =
     (if gw_auditURL g = [] \<or> runID = [] then Return ()
      else bindP (http_do cd (auditd_send g ''PATCH'' (''/v1/fleet/playbook-runs/'' @ runID)
          (completion sc out escalatedTo transitionedTo findings transcript traceID report))) (\<lambda>_. Return ()))"

section \<open>Feedback\<close>

definition feedback_path :: "string \<Rightarrow> string" where
  "feedback_path runID = ''/v1/fleet/playbook-runs/'' @ runID @ ''/feedback''"

definition postAtGateFeedback ::
  "codec \<Rightarrow> gateway \<Rightarrow> string \<Rightarrow> string \<Rightarrow> bool option \<Rightarrow> string \<Rightarrow> unit prog" where
  "postAtGateFeedback cd g runID operator verdict notes =
     (if gw_auditURL g = [] \<or> runID = [] then Return ()
      else bindP (http_do cd (auditd_send g ''POST'' (feedback_path runID) (Some (JObj (
          [(''operator'', JStr operator), (''feedback_type'', JStr ''triage''), (''feedback_time'', JStr ''at_gate'')] @
          (case verdict of Some b \<Rightarrow> [(''verdict_correct'', JBool b)] | None \<Rightarrow> []) @ omit ''verdict_notes'' notes)))))
        (\<lambda>_. Return ()))"

definition submitDenialFeedback ::
  "codec \<Rightarrow> gateway \<Rightarrow> string \<Rightarrow> string \<Rightarrow> string \<Rightarrow> string \<Rightarrow> unit prog" where
  "submitDenialFeedback cd g runID seriesID operator reason =
     (if gw_auditURL g = [] \<or> runID = [] \<or> seriesID = [] then Return ()
      else bindP (http_do cd (auditd_send g ''POST'' (feedback_path runID) (Some (JObj (
          [(''series_id'', JStr seriesID), (''verdict_correct'', JBool False), (''feedback_type'', JStr ''triage''),
           (''feedback_time'', JStr ''at_gate''), (''operator'', JStr operator)] @ omit ''verdict_notes'' reason)))))
        (\<lambda>_. Return ()))"


section \<open>Requests that leave the service\<close>

text \<open>\<open>quiet_gw\<close>: a request to auditd or to the planner. \<open>outside\<close>: the other requests of a run of a
  program, in order.\<close>

definition quiet_gw :: "gateway \<Rightarrow> http_req \<Rightarrow> bool" where
  "quiet_gw g r \<longleftrightarrow> HasPrefix (hq_url r) (auditd_url g ''/v1/'') \<or> hq_method r = ''PLAN''"

definition outside :: "gateway \<Rightarrow> world \<Rightarrow> 'a prog \<Rightarrow> net \<Rightarrow> http_req list" where
  "outside g w p n = filter (\<lambda>r. \<not> quiet_gw g r) (map fst (new n (snd (run w p n))))"

lemma outside_Return [simp]: "outside g w (Return x) n = []"
  by (simp add: outside_def)

lemma outside_bindP:
  assumes "run w p n = (x, n')"
  shows "outside g w (bindP p f) n = outside g w p n @ outside g w (f x) n'"
proof -
  obtain y n'' where y: "run w (f x) n' = (y, n'')" by (cases "run w (f x) n'")
  have "new n n'' = new n n' @ new n' n''"
    by (rule new_trans [OF later_run [OF assms] later_run [OF y]])
  with assms y show ?thesis by (simp add: outside_def run_bindP)
qed

lemma outside_quiet:
  assumes "talks (quiet_gw g) p"
  shows "outside g w p n = []"
proof -
  obtain x n' where "run w p n = (x, n')" by (cases "run w p n")
  with talks_run [OF assms this] show ?thesis
    by (auto simp: outside_def filter_empty_conv)
qed

text \<open>\<open>yields P p\<close>: whatever the world answers, the result of the program satisfies \<open>P\<close>.\<close>

primrec yields :: "('a \<Rightarrow> bool) \<Rightarrow> 'a prog \<Rightarrow> bool" where
  "yields P (Return x) = P x"
| "yields P (Now f) = (\<forall>t. yields P (f t))"
| "yields P (Sleep d p) = yields P p"
| "yields P (Call r f) = (\<forall>x. yields P (f x))"

lemma yields_run: "yields P p \<Longrightarrow> P (fst (run w p n))"
  by (induction p arbitrary: n) (auto simp: case_prod_unfold Let_def)

lemma yields_bindP: "yields Q p \<Longrightarrow> (\<And>x. Q x \<Longrightarrow> yields P (f x)) \<Longrightarrow> yields P (bindP p f)"
  by (induction p) auto

lemma yields_any: "(\<And>x. yields P (f x)) \<Longrightarrow> yields P (bindP p f)"
  by (induction p) auto

named_theorems gw_talks \<open>programs of the gateway that talk to auditd and the planner only\<close>

lemma quiet_auditd [simp]:
  "HasPrefix p ''/v1/'' \<Longrightarrow> quiet_gw g (auditd_get g p)" "HasPrefix p ''/v1/'' \<Longrightarrow> quiet_gw g (auditd_send g m p b)"
  by (auto simp: quiet_gw_def auditd_get_def auditd_send_def auditd_url_def HasPrefix_iff)

lemma sends_quiet: "Q r \<Longrightarrow> (\<And>x. talks Q (f x)) \<Longrightarrow> talks Q (bindP (http_do cd r) f)"
  by (auto simp: http_do_def intro!: talks_bindP split: option.split)

lemma talks_fetches [gw_talks]:
  "talks (quiet_gw g) (fetchPlaybookRun cd sc g i)" "talks (quiet_gw g) (fetchPlaybookBySeriesID cd sc g i)"
  "talks (quiet_gw g) (fetchPlaybook cd sc g i)" "talks (quiet_gw g) (fetchApprovalSession cd sc g i)"
  unfolding fetchPlaybookRun_def fetchPlaybookBySeriesID_def fetchPlaybook_def fetchApprovalSession_def
  by (auto intro!: sends_quiet split: sent.split)

lemma talks_run_records [gw_talks]:
  "talks (quiet_gw g) (recordPlaybookRunStart cd sc g pb c s t p tc u)"
  "talks (quiet_gw g) (recordPlaybookRunComplete cd sc g i out e t f tr tid rep)"
  "talks (quiet_gw g) (postAtGateFeedback cd g i u v notes)" "talks (quiet_gw g) (submitDenialFeedback cd g i sid u reason)"
  unfolding recordPlaybookRunStart_def recordPlaybookRunComplete_def postAtGateFeedback_def submitDenialFeedback_def
    feedback_path_def
  by (auto intro!: sends_quiet split: option.split)

text \<open>\<open>calls\<close>: all requests of a run of a program, in order.\<close>

definition calls :: "world \<Rightarrow> 'a prog \<Rightarrow> net \<Rightarrow> http_req list" where
  "calls w p n = map fst (new n (snd (run w p n)))"

lemma calls_Return [simp]: "calls w (Return x) n = []"
  by (simp add: calls_def)

lemma calls_bindP: "calls w (bindP p f) n = calls w p n @ calls w (f (fst (run w p n))) (snd (run w p n))"
proof -
  obtain x n' where x: "run w p n = (x, n')" by fastforce
  obtain y n'' where y: "run w (f x) n' = (y, n'')" by fastforce
  have "new n n'' = new n n' @ new n' n''"
    by (rule new_trans [OF later_run [OF x] later_run [OF y]])
  with x y show ?thesis by (simp add: calls_def run_bindP)
qed

lemma calls_http_do: "cd_url cd (hq_url r) = None \<Longrightarrow> calls w (http_do cd r) n = [r]"
proof -
  assume a: "cd_url cd (hq_url r) = None"
  obtain z n' where z: "send w r n = (z, n')" by fastforce
  with a show ?thesis by (simp add: http_do_def calls_def new_send [OF z])
qed

lemma calls_Now: "calls w (Now f) n = calls w (f (nt_now n)) n"
  by (simp add: calls_def)

end
