(* ===== verification/Playbook_Steps.thy ===== *)
theory Playbook_Steps
  imports Gateway_Client
begin

text \<open>
  Playbooks that run one approved step at a time (\<^verbatim>\<open>cmd/gateway/step_proposer.go\<close> and the
  \<^verbatim>\<open>agent_approve\<close> part of \<^verbatim>\<open>cmd/gateway/playbooks.go\<close>): the planner proposes one tool call,
  the proposal is stored with a pending approval, and a request to proceed denies it or executes it and
  plans the next one. The planner is a language model: a call of it is a request with the method
  \<^verbatim>\<open>PLAN\<close> that the world answers with a text or refuses. \<open>first\<close> is the JSON scanner, the text of
  the first complete value. Handlers return the response and the programs of the goroutines they start.
\<close>

section \<open>Steps in auditd\<close>

definition steps_path :: "string \<Rightarrow> string" where
  "steps_path runID = ''/v1/fleet/playbook-runs/'' @ runID @ ''/steps''"

definition createRunStep :: "codec \<Rightarrow> store_codec \<Rightarrow> gateway \<Rightarrow> run_step \<Rightarrow> string option prog" where
  "createRunStep cd sc g p =
     (if gw_auditURL g = [] then Return None
      else (case sc_step sc p of
        None \<Rightarrow> Return (Some ''json: unsupported value'')
      | Some body \<Rightarrow> bindP (http_do cd (auditd_send g ''POST'' (steps_path (pst_RunID p)) (Some body))) (\<lambda>x. Return (case x of
          NotBuilt e \<Rightarrow> Some e
        | NotSent e \<Rightarrow> Some e
        | Got c _ \<Rightarrow> (if c \<ge> 300 then Some (returned c @ '' creating step'') else None)))))"

definition step_patch :: "string \<Rightarrow> string \<Rightarrow> string \<Rightarrow> string \<Rightarrow> json" where
  "step_patch status approvalID res err = JObj [(''status'', JStr status), (''approval_id'', JStr approvalID),
     (''result'', JStr res), (''error'', JStr err)]"

definition update_request :: "gateway \<Rightarrow> string \<Rightarrow> int \<Rightarrow> string \<Rightarrow> string \<Rightarrow> string \<Rightarrow> string \<Rightarrow> http_req" where
  "update_request g runID i status approvalID res err =
     auditd_send g ''PATCH'' (steps_path runID @ ''/'' @ Itoa i) (Some (step_patch status approvalID res err))"

definition updateRunStep ::
  "codec \<Rightarrow> gateway \<Rightarrow> string \<Rightarrow> int \<Rightarrow> string \<Rightarrow> string \<Rightarrow> string \<Rightarrow> string \<Rightarrow> unit prog" where
  "updateRunStep cd g runID i status approvalID res err =
     (if gw_auditURL g = [] then Return ()
      else bindP (http_do cd (update_request g runID i status approvalID res err)) (\<lambda>_. Return ()))"

definition fetchPendingStep :: "codec \<Rightarrow> store_codec \<Rightarrow> gateway \<Rightarrow> string \<Rightarrow> (string + run_step option) prog" where
  "fetchPendingStep cd sc g runID =
     (if gw_auditURL g = [] then Return (Inl ''auditd not configured'')
      else bindP (http_do cd (auditd_get g (''/v1/fleet/playbook-runs/'' @ runID @ ''/pending-step''))) (\<lambda>x. Return (
        case x of
          Got c _ \<Rightarrow> (if c = 404 then Inr None
            else (case decode_reply cd only_ok (sc_step_of sc) x of Inl e \<Rightarrow> Inl e | Inr p \<Rightarrow> Inr (Some p)))
        | NotBuilt e \<Rightarrow> Inl e
        | NotSent e \<Rightarrow> Inl e)))"

definition fetchRunSteps :: "codec \<Rightarrow> store_codec \<Rightarrow> gateway \<Rightarrow> string \<Rightarrow> (string + run_step list) prog" where
  "fetchRunSteps cd sc g runID =
     (if gw_auditURL g = [] then Return (Inr [])
      else bindP (http_do cd (auditd_get g (steps_path runID)))
        (\<lambda>x. Return (decode_reply cd only_ok (field_list ''steps'' (sc_step_of sc)) x)))"

section \<open>Proposals\<close>

record step_proposal =
  sp_Index :: int
  sp_Agent :: string
  sp_Tool :: string
  sp_Args :: json_map
  sp_Reason :: string
  sp_ActionClass :: string

record proposer_result =
  px_Action :: string
  px_Agent :: string
  px_Tool :: string
  px_Args :: json_map
  px_Reason :: string
  px_Summary :: string

definition field_obj :: "string \<Rightarrow> json \<Rightarrow> json_map option" where
  "field_obj k v = (case v of
     JNull \<Rightarrow> Some []
   | JObj m \<Rightarrow> (case find (\<lambda>(k', _). ToLower k' = k) (rev m) of
       None \<Rightarrow> Some [] | Some (_, JNull) \<Rightarrow> Some [] | Some (_, JObj a) \<Rightarrow> Some a | Some _ \<Rightarrow> None)
   | _ \<Rightarrow> None)"

definition proposer_of :: "json \<Rightarrow> proposer_result option" where
  "proposer_of v = (case (field_str ''action'' v, field_str ''agent'' v, field_str ''tool'' v, field_obj ''args'' v,
       field_str ''reason'' v, field_str ''summary'' v) of
     (Some a, Some ag, Some t, Some m, Some r, Some s) \<Rightarrow>
       Some \<lparr>px_Action = a, px_Agent = ag, px_Tool = t, px_Args = m, px_Reason = r, px_Summary = s\<rparr>
   | _ \<Rightarrow> None)"

definition catalog_line :: "registry_entry \<Rightarrow> string" where
  "catalog_line e = ''  '' @ ry_Name e @ (if ry_Description e \<noteq> [] then '' '' @ em_dash @ '' '' @ ry_Description e else [])"

definition catalog_section :: "string \<Rightarrow> registry_entry list \<Rightarrow> string" where
  "catalog_section title es = (if es = [] then [] else title @ [newline] @ concat (map (\<lambda>e. catalog_line e @ [newline]) es))"

definition no_tools :: "string \<Rightarrow> string" where
  "no_tools agent = ''(no tools registered for agent '' @ agent @ '')'' @ [newline]"

definition buildStepProposerToolCatalog :: "registry option \<Rightarrow> string \<Rightarrow> string" where
  "buildStepProposerToolCatalog reg agentName = (case reg of
     None \<Rightarrow> ''(tool registry not available)'' @ [newline]
   | Some r \<Rightarrow>
       (let es = ListByAgent r agentName in
        if es = [] then no_tools agentName
        else catalog_section ''Read-only:'' (filter (\<lambda>e. ry_ActionClass e \<noteq> ''write'' \<and> ry_ActionClass e \<noteq> ''destructive'') es) @
          catalog_section ''Write (require approval):'' (filter (\<lambda>e. ry_ActionClass e = ''write'') es) @
          catalog_section ''Destructive (require approval):'' (filter (\<lambda>e. ry_ActionClass e = ''destructive'') es)))"

definition buildHistorySection :: "codec \<Rightarrow> run_step list \<Rightarrow> string" where
  "buildHistorySection cd history =
     (if history = [] then ''(none yet '' @ em_dash @ '' this is the first tool call)''
      else trim_newlines (concat (map (\<lambda>p. ''Tool call #'' @ Itoa (pst_StepIndex p) @ '': '' @ pst_Tool p @ ''('' @
        cd_text cd (JObj (pst_Args p)) @ '')'' @ [newline] @ ''Result: '' @ pst_Result p @ [newline, newline]) history)))"

text \<open>A text in Markdown fences is unwrapped; then the first complete value after a brace is taken.\<close>

definition unfence :: "string \<Rightarrow> string" where
  "unfence s = (if HasPrefix s ''```'' then
       (let s = (if newline \<in> set s then TrimSpace (snd (cut_char newline s)) else s)
        in if HasSuffix s ''```'' then TrimSpace (take (length s - 3) s) else s)
     else s)"

definition extractFirstJSON :: "(string \<Rightarrow> string option) \<Rightarrow> string \<Rightarrow> string" where
  "extractFirstJSON first s =
     (let s = unfence (TrimSpace s); t = dropWhile (\<lambda>c. c \<noteq> CHR ''{'') s
      in if t = [] then s else (case first t of Some v \<Rightarrow> v | None \<Rightarrow> t))"

text \<open>The prompt: the seven literal pieces of the template and its six fields.\<close>

definition proposer_template :: "string list" where
  "proposer_template = [
     ''You are executing a database remediation playbook step-by-step.'' @ [newline] @ [newline] @ ''PLAYBOOK: '',
     [newline] @ ''GUIDANCE:'' @ [newline],
     [newline] @ [newline] @ ''TARGET: '',
     [newline],
     [newline] @ ''TOOL CALLS EXECUTED SO FAR (in order):'' @ [newline],
     [newline] @ [newline] @ ''AVAILABLE TOOLS (you MUST only use tools from this list '' @ em_dash @
      '' do not invent tool names):'' @ [newline],
     [newline] @
      ''Based on the guidance above and the tool results so far, what is the SINGLE next tool call to make?'' @
      [newline] @ ''Do NOT confuse the numbered tool calls above with the numbered steps in the guidance '' @
      em_dash @ '' they are independent.'' @ [newline] @
      ''Determine what the guidance still requires that has not yet been done, and propose the next tool call for it.'' @
      [newline] @
      ''You MUST use a tool from the AVAILABLE TOOLS list above. If the guidance describes an action that has no corresponding tool, skip that action and proceed to the next one or declare complete.'' @
      [newline] @ [newline] @
      ''Only return action=complete when ALL goals in the guidance have been achieved (including any required terminations and verification).'' @
      [newline] @ [newline] @ ''Respond with JSON only, no other text:'' @ [newline] @ ''{'' @ [newline] @
      ''  '' @ [CHR 34] @ ''action'' @ [CHR 34] @ '': '' @ [CHR 34] @ ''execute_step'' @ [CHR 34] @ '','' @
      [newline] @ ''  '' @ [CHR 34] @ ''agent'' @ [CHR 34] @ '': '' @ [CHR 34] @ ''database'' @ [CHR 34] @
      '','' @ [newline] @ ''  '' @ [CHR 34] @ ''tool'' @ [CHR 34] @ '': '' @ [CHR 34] @ ''<tool_name>'' @
      [CHR 34] @ '','' @ [newline] @ ''  '' @ [CHR 34] @ ''args'' @ [CHR 34] @ '': {},'' @ [newline] @ ''  '' @
      [CHR 34] @ ''reason'' @ [CHR 34] @ '': '' @ [CHR 34] @
      ''<one sentence shown to the operator explaining why>'' @ [CHR 34] @ [newline] @ ''}'' @ [newline] @
      ''OR when done:'' @ [newline] @ ''{'' @ [newline] @ ''  '' @ [CHR 34] @ ''action'' @ [CHR 34] @ '': '' @
      [CHR 34] @ ''complete'' @ [CHR 34] @ '','' @ [newline] @ ''  '' @ [CHR 34] @ ''summary'' @ [CHR 34] @
      '': '' @ [CHR 34] @ ''<brief summary of what was accomplished>'' @ [CHR 34] @ [newline] @ ''}'']"

definition prior_section :: "string \<Rightarrow> string" where
  "prior_section findings = (if findings = [] then []
     else [newline] @ ''PRIOR TRIAGE FINDINGS:'' @ [newline] @ findings @ [newline] @ ''Start from this diagnosis '' @ em_dash @
       '' verify the root blocker is still blocked, then execute the remediation steps.'' @ [newline])"

fun fill :: "string list \<Rightarrow> string list \<Rightarrow> string" where
  "fill (l # ls) (f # fs) = l @ f @ fill ls fs"
| "fill ls fs = concat ls"

definition plan_request :: "string \<Rightarrow> http_req" where
  "plan_request prompt = \<lparr>hq_method = ''PLAN'', hq_url = [], hq_headers = [], hq_body = Some (JStr prompt)\<rparr>"

text \<open>The precision of \<^verbatim>\<open>%.200s\<close> counts runes.\<close>

fun take_runes :: "nat \<Rightarrow> string \<Rightarrow> string" where
  "take_runes n [] = []"
| "take_runes n (c # cs) = (if 128 \<le> (of_char c :: nat) \<and> (of_char c :: nat) < 192 then c # take_runes n cs
     else (case n of 0 \<Rightarrow> [] | Suc m \<Rightarrow> c # take_runes m cs))"

datatype proposed = NextStep step_proposal | Done string

definition proposal_of :: "run_step list \<Rightarrow> proposer_result \<Rightarrow> string + proposed" where
  "proposal_of history r =
     (if px_Action r = ''complete'' then Inr (Done (px_Summary r))
      else if px_Tool r = [] then Inl ''step proposer returned empty tool name''
      else Inr (NextStep \<lparr>sp_Index = int (length history) + 1,
        sp_Agent = (if px_Agent r = [] then ''database'' else px_Agent r), sp_Tool = px_Tool r, sp_Args = px_Args r,
        sp_Reason = px_Reason r,
        sp_ActionClass = (case map_of ToolClassification (px_Tool r) of Some c \<Rightarrow> c | None \<Rightarrow> ClassUnknown)\<rparr>))"

definition proposeNextStep ::
  "codec \<Rightarrow> (string \<Rightarrow> string option) \<Rightarrow> gateway \<Rightarrow> playbook \<Rightarrow> string \<Rightarrow> string \<Rightarrow> run_step list \<Rightarrow>
   (string + proposed) prog" where
  "proposeNextStep cd first g pb connStr priorFindings history =
     (if \<not> gw_planner g then Return (Inl ''planner LLM not configured'')
      else (let agentName = NormalizeAgentName (if pb_AgentName pb = [] then ''database'' else pb_AgentName pb);
                catalog = buildStepProposerToolCatalog (gw_registry g) agentName
            in if HasPrefix catalog ''(no tools registered'' then
                 Return (Inl (''no tools registered for agent '' @ Quote agentName @ '' '' @ em_dash @ '' playbook cannot run''))
               else Call (plan_request (fill proposer_template [pb_Name pb, pb_Guidance pb, connStr, prior_section priorFindings,
                    buildHistorySection cd history, catalog])) (\<lambda>x. Return (case x of
                   Refused e \<Rightarrow> Inl (''step proposer LLM call failed: '' @ e)
                 | Response _ raw \<Rightarrow> (case cd_parse cd (extractFirstJSON first raw) of
                     Inl e \<Rightarrow> Inl (''step proposer response parse failed: '' @ e @ '' (raw: '' @ take_runes 200 raw @ '')'')
                   | Inr v \<Rightarrow> (case proposer_of v of
                       None \<Rightarrow> Inl (''step proposer response parse failed: json: cannot unmarshal (raw: '' @ take_runes 200 raw @ '')'')
                     | Some r \<Rightarrow> proposal_of history r))))))"

definition proposed_step :: "string \<Rightarrow> step_proposal \<Rightarrow> run_step" where
  "proposed_step runID p = \<lparr>pst_RunID = runID, pst_StepIndex = sp_Index p, pst_Agent = sp_Agent p, pst_Tool = sp_Tool p,
     pst_Args = sp_Args p, pst_Reason = sp_Reason p, pst_Status = ''proposed'', pst_ApprovalID = [], pst_Result = [],
     pst_Error = [], pst_CreatedAt = 0, pst_UpdatedAt = 0\<rparr>"

definition with_target :: "string \<Rightarrow> json_map \<Rightarrow> json_map" where
  "with_target connStr args = (if connStr = [] then args else json_put ''connection_string'' (JStr connStr) args)"


section \<open>Calling a tool\<close>

definition agentAliases :: "(string \<times> string) list" where
  "agentAliases = [(''database'', ''postgres_database_agent''), (''db'', ''postgres_database_agent''), (''k8s'', ''k8s_agent''),
     (''incident'', ''incident_agent''), (''research'', ''research_agent''), (''sysadmin'', ''sysadmin_agent''),
     (''host'', ''sysadmin_agent'')]"

definition resolve_alias :: "string \<Rightarrow> string" where
  "resolve_alias agent = (case map_of agentAliases agent of Some a \<Rightarrow> a | None \<Rightarrow> agent)"

definition step_tool_request ::
  "store_codec \<Rightarrow> gateway \<Rightarrow> string \<Rightarrow> string \<Rightarrow> string \<Rightarrow> string \<Rightarrow> json_map \<Rightarrow> principal \<Rightarrow> http_req" where
  "step_tool_request sc g traceID purpose invokeURL toolName args p = \<lparr>hq_method = ''POST'',
     hq_url = TrimSuffix invokeURL ''/invoke'' @ ''/tool/'' @ toolName,
     hq_headers = json_type # bearer (gw_agentAPIKey g),
     hq_body = Some (JObj (omit ''trace_id'' traceID @ [(''principal'', sc_principal sc p)] @ omit ''purpose'' purpose @
       (if purpose \<noteq> [] then [(''purpose_explicit'', JBool True)] else []) @ [(''args'', JObj args)]))\<rparr>"

text \<open>The reply of an agent: its status is not looked at, and a body that does not decode is output.\<close>

definition tool_reply :: "codec \<Rightarrow> string \<Rightarrow> string + string" where
  "tool_reply cd b = (case cd_parse cd b of
     Inl _ \<Rightarrow> Inr b
   | Inr v \<Rightarrow> (case (field_str ''output'' v, field_str ''error'' v) of
       (Some out, Some err) \<Rightarrow> (if err \<noteq> [] then Inl err else Inr out)
     | _ \<Rightarrow> Inr b))"

definition callToolWithPrincipal ::
  "codec \<Rightarrow> store_codec \<Rightarrow> gateway \<Rightarrow> string \<Rightarrow> string \<Rightarrow> string \<Rightarrow> string \<Rightarrow> json_map \<Rightarrow> principal \<Rightarrow> (string + string) prog" where
  "callToolWithPrincipal cd sc g traceID purpose agent toolName args p =
     (let agentName = resolve_alias agent in
      case map_of (gw_agents g) agentName of
        None \<Rightarrow> Return (Inl (''agent '' @ Quote agentName @ '' not available''))
      | Some invokeURL \<Rightarrow>
          bindP (http_do cd (step_tool_request sc g traceID purpose invokeURL toolName args p)) (\<lambda>x. Return (case x of
            NotBuilt e \<Rightarrow> Inl (''build tool request: '' @ e)
          | NotSent e \<Rightarrow> Inl (''tool call to '' @ agentName @ ''/'' @ toolName @ '': '' @ e)
          | Got _ b \<Rightarrow> tool_reply cd b)))"

section \<open>Approvals of steps\<close>

definition step_approval :: "codec \<Rightarrow> string \<Rightarrow> step_proposal \<Rightarrow> string \<Rightarrow> stored_approval" where
  "step_approval cd runID p requestedBy = zero_stored\<lparr>ap_ActionClass := ''destructive'', ap_ToolName := sp_Tool p,
     ap_AgentName := sp_Agent p, ap_RequestedBy := (if requestedBy = [] then ''gateway'' else requestedBy),
     ap_Status := ''pending'', ap_TraceID := runID,
     ap_RequestContext := cd_text cd (JObj [(''run_id'', JStr runID), (''step_index'', JNum (sp_Index p)),
       (''args'', JObj (sp_Args p)), (''reason'', JStr (sp_Reason p)), (''action_class'', JStr (sp_ActionClass p))])\<rparr>"

definition createStepApproval ::
  "codec \<Rightarrow> store_codec \<Rightarrow> gateway \<Rightarrow> string \<Rightarrow> step_proposal \<Rightarrow> string \<Rightarrow> (string \<times> unit prog list) prog" where
  "createStepApproval cd sc g runID p requestedBy =
     (if gw_auditURL g = [] then Return ([], [])
      else (case sc_approval sc (step_approval cd runID p requestedBy) of
        None \<Rightarrow> Return ([], [])
      | Some body \<Rightarrow> bindP (http_do cd (auditd_send g ''POST'' ''/v1/approvals'' (Some body))) (\<lambda>x. Return (
          case decode_reply cd (\<lambda>c. if c \<ge> 300 then Some (returned c) else None) (sc_approval_of sc) x of
            Inl _ \<Rightarrow> ([], [])
          | Inr a \<Rightarrow> (ap_ApprovalID a, [updateRunStep cd g runID (sp_Index p) ''proposed'' (ap_ApprovalID a) [] []])))))"

section \<open>The handlers\<close>

record playbook_run_request =
  rq_ConnectionString :: string
  rq_Context :: string
  rq_TriggerContext :: string
  rq_ContextID :: string
  rq_PriorRunID :: string
  rq_PriorFindings :: string
  rq_ApprovalMode :: string
  rq_ApprovalSession :: string
  rq_GateEscalation :: bool
  rq_RemediationSeriesID :: string
  rq_Purpose :: string
  rq_PurposeNote :: string

record approve_response =
  ar_RunID :: string
  ar_Status :: string
  ar_Step :: "step_proposal option"
  ar_ApprovalID :: string
  ar_Summary :: string
  ar_Warnings :: "string list"
  ar_EffectiveApprovalMode :: string

definition zero_approve_response :: approve_response where
  "zero_approve_response = \<lparr>ar_RunID = [], ar_Status = [], ar_Step = None, ar_ApprovalID = [], ar_Summary = [],
     ar_Warnings = [], ar_EffectiveApprovalMode = []\<rparr>"

type_synonym approve_result = "approve_response response \<times> unit prog list"

text \<open>Storing a proposal and asking for its approval.\<close>

definition offer_step ::
  "codec \<Rightarrow> store_codec \<Rightarrow> gateway \<Rightarrow> string \<Rightarrow> step_proposal \<Rightarrow> string \<Rightarrow> (string \<times> unit prog list) prog" where
  "offer_step cd sc g runID p requestedBy =
     bindP (createRunStep cd sc g (proposed_step runID p)) (\<lambda>_. createStepApproval cd sc g runID p requestedBy)"

definition handlePlaybookRunApprove ::
  "codec \<Rightarrow> store_codec \<Rightarrow> (string \<Rightarrow> string option) \<Rightarrow> gateway \<Rightarrow> string \<Rightarrow> playbook \<Rightarrow> playbook_run_request \<Rightarrow> string \<Rightarrow>
   string list \<Rightarrow> approve_result prog" where
  "handlePlaybookRunApprove cd sc first g user pb req runID warnings =
     (if \<not> gw_planner g then Return ((503, Inl ''planner LLM not configured (required for agent_approve mode)''), [])
      else bindP (proposeNextStep cd first g pb (rq_ConnectionString req) (rq_PriorFindings req) []) (\<lambda>r. case r of
        Inl e \<Rightarrow> Return ((500, Inl (''step proposal failed: '' @ e)), [])
      | Inr (Done summary) \<Rightarrow> Return ((200, Inr (zero_approve_response\<lparr>ar_RunID := runID, ar_Status := ''complete'',
            ar_Summary := summary, ar_Warnings := warnings, ar_EffectiveApprovalMode := rq_ApprovalMode req\<rparr>)),
          [recordPlaybookRunComplete cd sc g runID ''resolved'' [] [] summary [] [] None])
      | Inr (NextStep p) \<Rightarrow>
          (let p = p\<lparr>sp_Args := with_target (rq_ConnectionString req) (sp_Args p)\<rparr>
           in bindP (offer_step cd sc g runID p user) (\<lambda>(approvalID, bg).
             Return ((202, Inr (zero_approve_response\<lparr>ar_RunID := runID, ar_Status := ''pending_approval'',
               ar_Step := Some p, ar_ApprovalID := approvalID, ar_Warnings := warnings,
               ar_EffectiveApprovalMode := rq_ApprovalMode req\<rparr>)), bg)))))"

record proceed_request =
  pq_Resolution :: string
  pq_ResolvedBy :: string
  pq_Reason :: string
  pq_StepIndex :: int
  pq_ConnectionString :: string

text \<open>The target of the next plan: of the request, of the executed step, or of a step before.\<close>

definition replan_target :: "string \<Rightarrow> json_map \<Rightarrow> run_step list \<Rightarrow> string" where
  "replan_target connStr args history =
     (if connStr \<noteq> [] then connStr
      else if str_or_empty (map_of args ''connection_string'') \<noteq> [] then str_or_empty (map_of args ''connection_string'')
      else (case find (\<lambda>p. str_or_empty (map_of (pst_Args p) ''connection_string'') \<noteq> []) history of
        Some p \<Rightarrow> str_or_empty (map_of (pst_Args p) ''connection_string'') | None \<Rightarrow> []))"

definition abandon :: "codec \<Rightarrow> store_codec \<Rightarrow> gateway \<Rightarrow> playbook_run \<Rightarrow> string \<Rightarrow> string \<Rightarrow> unit prog" where
  "abandon cd sc g rn runID why = recordPlaybookRunComplete cd sc g runID ''abandoned'' [] [] why [] (pn_TraceID rn) None"

text \<open>After a successful step: the history is read, the findings of the run before are threaded in and
  the next step is planned.\<close>

definition replan_step ::
  "codec \<Rightarrow> store_codec \<Rightarrow> (string \<Rightarrow> string option) \<Rightarrow> gateway \<Rightarrow> playbook \<Rightarrow> playbook_run \<Rightarrow> string \<Rightarrow> string \<Rightarrow> string \<Rightarrow>
   run_step \<Rightarrow> json_map \<Rightarrow> approve_result prog" where
  "replan_step cd sc first g pb rn runID resolvedBy reqConn pending args =
     bindP (fetchRunSteps cd sc g runID) (\<lambda>h.
       let history = (case h of Inl _ \<Rightarrow> [] | Inr ps \<Rightarrow> ps); connStr = replan_target reqConn args history in
       bindP (if pn_PriorRunID rn = [] then Return []
              else bindP (fetchPlaybookRun cd sc g (pn_PriorRunID rn)) (\<lambda>x. Return (case x of
                Inr prior \<Rightarrow> pn_FindingsSummary prior | Inl _ \<Rightarrow> []))) (\<lambda>priorFindings.
       bindP (proposeNextStep cd first g pb connStr priorFindings history) (\<lambda>r. case r of
         Inl e \<Rightarrow> Return ((422, Inl (''re-planning failed after step '' @ Itoa (pst_StepIndex pending) @ '': '' @ e)),
             [abandon cd sc g rn runID (''re-planning failed: '' @ e)])
       | Inr (Done summary) \<Rightarrow> Return ((200, Inr (zero_approve_response\<lparr>ar_RunID := runID, ar_Status := ''complete'',
             ar_Summary := summary\<rparr>)),
           [recordPlaybookRunComplete cd sc g runID ''resolved'' [] [] summary [] (pn_TraceID rn) None])
       | Inr (NextStep p) \<Rightarrow>
           (let p = p\<lparr>sp_Args := with_target connStr (sp_Args p)\<rparr>
            in bindP (offer_step cd sc g runID p resolvedBy) (\<lambda>(approvalID, bg).
              Return ((200, Inr (zero_approve_response\<lparr>ar_RunID := runID, ar_Status := ''pending_approval'',
                ar_Step := Some p, ar_ApprovalID := approvalID\<rparr>)), bg))))))"

definition execute_step ::
  "codec \<Rightarrow> store_codec \<Rightarrow> (string \<Rightarrow> string option) \<Rightarrow> gateway \<Rightarrow> principal \<Rightarrow> string \<Rightarrow> playbook \<Rightarrow> playbook_run \<Rightarrow> string \<Rightarrow>
   string \<Rightarrow> string \<Rightarrow> run_step \<Rightarrow> approve_result prog" where
  "execute_step cd sc first g caller traceID pb rn runID resolvedBy reqConn pending =
     bindP (updateRunStep cd g runID (pst_StepIndex pending) ''executing'' (pst_ApprovalID pending) [] []) (\<lambda>_.
     let args = with_target (pn_ConnectionString rn) (pst_Args pending) in
     bindP (callToolWithPrincipal cd sc g traceID ''remediation'' (pst_Agent pending) (pst_Tool pending) args caller) (\<lambda>r.
       case r of
         Inl err \<Rightarrow>
           bindP (updateRunStep cd g runID (pst_StepIndex pending) ''failed'' (pst_ApprovalID pending) [] err) (\<lambda>_.
             Return ((422, Inl (''tool execution failed: '' @ err)), [abandon cd sc g rn runID (''tool execution failed: '' @ err)]))
       | Inr out \<Rightarrow>
           bindP (updateRunStep cd g runID (pst_StepIndex pending) ''succeeded'' (pst_ApprovalID pending) out []) (\<lambda>_.
             replan_step cd sc first g pb rn runID resolvedBy reqConn pending args)))"

definition default_to :: "string \<Rightarrow> string \<Rightarrow> string" where
  "default_to d s = (if s = [] then d else s)"

definition handlePlaybookRunProceed ::
  "codec \<Rightarrow> store_codec \<Rightarrow> (string \<Rightarrow> string option) \<Rightarrow> gateway \<Rightarrow> string \<Rightarrow> principal \<Rightarrow> (string \<Rightarrow> string) \<Rightarrow> string \<Rightarrow>
   proceed_request body \<Rightarrow> approve_result prog" where
  "handlePlaybookRunProceed cd sc first g uid caller header runID b =
     (if runID = [] then Return ((400, Inl ''missing runID''), [])
      else (case b of
        ReadError \<Rightarrow> Return ((400, Inl ''invalid request body: ''), [])
      | BadJSON e \<Rightarrow> Return ((400, Inl (''invalid request body: '' @ e)), [])
      | Body req \<Rightarrow>
          (let resolution = default_to ''approved'' (pq_Resolution req);
               resolvedBy = default_to ''operator'' (default_to (header ''X-User'') (pq_ResolvedBy req)) in
           bindP (fetchPlaybookRun cd sc g runID) (\<lambda>x. case x of
             Inl e \<Rightarrow> Return ((404, Inl (''run not found: '' @ e)), [])
           | Inr rn \<Rightarrow> bindP (fetchPlaybook cd sc g (pn_PlaybookID rn)) (\<lambda>y. case y of
               Inl e \<Rightarrow> Return ((404, Inl (''playbook not found: '' @ e)), [])
             | Inr pb \<Rightarrow> bindP (fetchPendingStep cd sc g runID) (\<lambda>z. case z of
                 Inr (Some pending) \<Rightarrow>
                   (if pq_StepIndex req \<noteq> 0 \<and> pq_StepIndex req \<noteq> pst_StepIndex pending
                    then Return ((409, Inl (''step_index mismatch: expected '' @ Itoa (pst_StepIndex pending) @ '', got '' @
                      Itoa (pq_StepIndex req))), [])
                    else if resolution = ''denied'' then
                      bindP (updateRunStep cd g runID (pst_StepIndex pending) ''denied'' [] [] []) (\<lambda>_.
                        Return ((200, Inr (zero_approve_response\<lparr>ar_RunID := runID, ar_Status := ''denied''\<rparr>)),
                          [abandon cd sc g rn runID ''step denied by operator'']))
                    else execute_step cd sc first g caller
                      (default_to (NewTraceIDWithPrefix uid ''sa_'') (default_to (header ''X-Trace-ID'') (pn_TraceID rn)))
                      pb rn runID resolvedBy (pq_ConnectionString req) pending)
               | _ \<Rightarrow> Return ((409, Inl ''no pending step found for this run''), [])))))))"


section \<open>What proceeding sends\<close>

lemma talks_steps [gw_talks]:
  "talks (quiet_gw g) (createRunStep cd sc g p)" "talks (quiet_gw g) (updateRunStep cd g i k st a res err)"
  "talks (quiet_gw g) (fetchPendingStep cd sc g i)" "talks (quiet_gw g) (fetchRunSteps cd sc g i)"
  "talks (quiet_gw g) (createStepApproval cd sc g i q u)"
  unfolding createRunStep_def updateRunStep_def fetchPendingStep_def fetchRunSteps_def createStepApproval_def
    update_request_def steps_path_def
  by (auto intro!: sends_quiet split: option.split sent.split)

lemma talks_proposer [gw_talks]: "talks (quiet_gw g) (proposeNextStep cd first g pb c f h)"
  by (simp add: proposeNextStep_def Let_def plan_request_def quiet_gw_def)

lemma talks_replan [gw_talks]: "talks (quiet_gw g) (replan_step cd sc first g pb rn i u c p a)"
  unfolding replan_step_def offer_step_def
  by (auto simp: Let_def intro!: talks_bindP gw_talks split: sum.split proposed.split prod.split)

lemma talks_approve [gw_talks]: "talks (quiet_gw g) (handlePlaybookRunApprove cd sc first g u pb req i ws)"
  unfolding handlePlaybookRunApprove_def offer_step_def
  by (auto simp: Let_def intro!: talks_bindP gw_talks split: sum.split proposed.split prod.split)

lemma outside_step:
  assumes "talks (quiet_gw g) p"
  shows "outside g w (bindP p f) n = outside g w (f (fst (run w p n))) (snd (run w p n))"
  using outside_bindP [of w p n "fst (run w p n)" "snd (run w p n)" g f] outside_quiet [OF assms] by simp

lemma outside_call: "outside g w (http_do cd r) n = (if cd_url cd (hq_url r) = None \<and> \<not> quiet_gw g r then [r] else [])"
proof (cases "cd_url cd (hq_url r)")
  case None
  obtain x n' where x: "send w r n = (x, n')" by (cases "send w r n")
  with None show ?thesis by (simp add: http_do_def outside_def new_send [OF x])
qed (simp add: http_do_def)

lemma outside_then_quiet:
  "(\<And>x. talks (quiet_gw g) (f x)) \<Longrightarrow> outside g w (bindP p f) n = outside g w p n"
  using outside_bindP [of w p n "fst (run w p n)" "snd (run w p n)" g f] by (simp add: outside_quiet)

text \<open>Executing a step sends one request besides those to auditd and the planner: the call of its tool.\<close>

definition step_request :: "store_codec \<Rightarrow> gateway \<Rightarrow> principal \<Rightarrow> string \<Rightarrow> playbook_run \<Rightarrow> run_step \<Rightarrow> http_req option" where
  "step_request sc g caller traceID rn p = map_option (\<lambda>url. step_tool_request sc g traceID ''remediation'' url (pst_Tool p)
     (with_target (pn_ConnectionString rn) (pst_Args p)) caller) (map_of (gw_agents g) (resolve_alias (pst_Agent p)))"

lemma outside_execute:
  "outside g w (execute_step cd sc first g caller tid pb rn i u c p) n =
     (case step_request sc g caller tid rn p of
        None \<Rightarrow> []
      | Some r \<Rightarrow> if cd_url cd (hq_url r) = None \<and> \<not> quiet_gw g r then [r] else [])"
proof -
  have rest: "talks (quiet_gw g) (case r of
         Inl err \<Rightarrow> bindP (updateRunStep cd g i (pst_StepIndex p) ''failed'' (pst_ApprovalID p) [] err) (\<lambda>_.
             Return ((422, Inl (''tool execution failed: '' @ err)), [abandon cd sc g rn i (''tool execution failed: '' @ err)]))
       | Inr out \<Rightarrow> bindP (updateRunStep cd g i (pst_StepIndex p) ''succeeded'' (pst_ApprovalID p) out []) (\<lambda>_.
             replan_step cd sc first g pb rn i u c p (with_target (pn_ConnectionString rn) (pst_Args p))))" for r
    by (auto intro!: talks_bindP gw_talks split: sum.split)
  show ?thesis
    unfolding execute_step_def Let_def outside_step [OF talks_steps(2)] outside_then_quiet [OF rest]
    by (cases "map_of (gw_agents g) (resolve_alias (pst_Agent p))")
      (simp_all add: callToolWithPrincipal_def Let_def step_request_def outside_then_quiet outside_call)
qed


definition step_trace :: "string \<Rightarrow> (string \<Rightarrow> string) \<Rightarrow> playbook_run \<Rightarrow> string" where
  "step_trace uid header rn = default_to (NewTraceIDWithPrefix uid ''sa_'') (default_to (header ''X-Trace-ID'') (pn_TraceID rn))"

lemma run_abandon [gw_talks]: "talks (quiet_gw g) (abandon cd sc g rn i why)"
  by (auto simp: abandon_def intro!: gw_talks)

lemma outside_proceed:
  assumes i: "runID \<noteq> []"
    and rn: "run w (fetchPlaybookRun cd sc g runID) n = (Inr rn, n1)"
    and pb: "run w (fetchPlaybook cd sc g (pn_PlaybookID rn)) n1 = (Inr pb, n2)"
    and p: "run w (fetchPendingStep cd sc g runID) n2 = (Inr (Some p), n3)"
  shows "outside g w (handlePlaybookRunProceed cd sc first g uid caller header runID (Body req)) n =
    (if pq_StepIndex req \<noteq> 0 \<and> pq_StepIndex req \<noteq> pst_StepIndex p \<or> pq_Resolution req = ''denied'' then []
     else (case step_request sc g caller (step_trace uid header rn) rn p of
        None \<Rightarrow> []
      | Some r \<Rightarrow> if cd_url cd (hq_url r) = None \<and> \<not> quiet_gw g r then [r] else []))"
proof -
  have deny: "talks (quiet_gw g) (bindP (updateRunStep cd g runID k ''denied'' [] [] []) (\<lambda>_. Return v))" for k v
    by (intro talks_bindP gw_talks) simp
  have "default_to ''approved'' s = ''denied'' \<longleftrightarrow> s = ''denied''" for s by (simp add: default_to_def)
  then show ?thesis
    using i by (simp add: handlePlaybookRunProceed_def Let_def outside_step talks_fetches talks_steps rn pb p outside_execute
        outside_quiet [OF deny] step_trace_def)
qed

text \<open>The goroutines left running.\<close>

abbreviation bg_quiet :: "gateway \<Rightarrow> 'r \<times> unit prog list \<Rightarrow> bool" where
  "bg_quiet g r \<equiv> list_all (talks (quiet_gw g)) (snd r)"

lemma approval_background: "yields (bg_quiet g) (createStepApproval cd sc g i q u)"
  unfolding createStepApproval_def by (auto intro!: yields_any gw_talks split: option.split sum.split)

lemma replan_background: "yields (bg_quiet g) (replan_step cd sc first g pb rn i u c p a)"
  unfolding replan_step_def offer_step_def bindP_assoc
  by (auto simp: Let_def intro!: yields_any gw_talks yields_bindP [OF approval_background] split: sum.split proposed.split)

lemma execute_background: "yields (bg_quiet g) (execute_step cd sc first g caller tid pb rn i u c p)"
  unfolding execute_step_def
  by (auto simp: Let_def intro!: yields_any gw_talks replan_background split: sum.split)

lemma proceed_background: "yields (bg_quiet g) (handlePlaybookRunProceed cd sc first g uid caller header i b)"
  unfolding handlePlaybookRunProceed_def
  by (auto simp: Let_def intro!: yields_any gw_talks execute_background split: sum.split option.split body.split)

text \<open>C27: a step is executed only as it was stored and offered. A request to proceed sends nothing but
  requests to auditd and the planner, unless it does not deny the step, the run and its playbook are
  found, the run has a pending step and the index of the request, when given, is that of the step; then
  the one other request it may send calls the tool of that step at its agent, with the stored arguments,
  the target of the run in place of theirs, and the identity of the caller. What it leaves running in the
  background talks to auditd only.\<close>

theorem step_executed_as_stored:
  fixes cd sc first g uid caller header runID b w n
  defines "p \<equiv> handlePlaybookRunProceed cd sc first g uid caller header runID b"
  shows "(outside g w p n = [] \<or>
     (\<exists>req rn n1 pb n2 st n3 r. b = Body req \<and> pq_Resolution req \<noteq> ''denied'' \<and>
        run w (fetchPlaybookRun cd sc g runID) n = (Inr rn, n1) \<and>
        run w (fetchPlaybook cd sc g (pn_PlaybookID rn)) n1 = (Inr pb, n2) \<and>
        run w (fetchPendingStep cd sc g runID) n2 = (Inr (Some st), n3) \<and>
        (pq_StepIndex req = 0 \<or> pq_StepIndex req = pst_StepIndex st) \<and>
        step_request sc g caller (step_trace uid header rn) rn st = Some r \<and> outside g w p n = [r])) \<and>
    list_all (talks (quiet_gw g)) (snd (fst (run w p n)))"
    (is "(_ \<or> ?E) \<and> _")
proof -
  have "outside g w p n = [] \<or> ?E"
  proof (cases "runID \<noteq> [] \<and> (\<exists>req. b = Body req)")
    case False
    then show ?thesis by (cases b) (auto simp: p_def handlePlaybookRunProceed_def)
  next
    case True
    then obtain req where i: "runID \<noteq> []" and b: "b = Body req" by blast
    note unfolds = p_def b handlePlaybookRunProceed_def Let_def outside_step talks_fetches talks_steps run_bindP
    obtain x n1 where x: "run w (fetchPlaybookRun cd sc g runID) n = (x, n1)" by fastforce
    show ?thesis
    proof (cases x)
      case (Inl e)
      with x i show ?thesis by (simp add: unfolds)
    next
      case rn: (Inr rn)
      obtain y n2 where y: "run w (fetchPlaybook cd sc g (pn_PlaybookID rn)) n1 = (y, n2)" by fastforce
      obtain z n3 where z: "run w (fetchPendingStep cd sc g runID) n2 = (z, n3)" by fastforce
      consider e where "y = Inl e" | pb where "y = Inr pb" "z = Inr None \<or> (\<exists>e. z = Inl e)"
        | pb st where "y = Inr pb" "z = Inr (Some st)"
        by (metis obj_sumE not_None_eq)
      then show ?thesis
      proof cases
        case 3
        with outside_proceed [OF i x [unfolded rn] y [unfolded 3] z [unfolded 3]] x y z rn b show ?thesis
          by (auto simp: p_def split: option.splits if_splits)
      qed (use x y z rn i in \<open>auto simp: unfolds\<close>)
    qed
  qed
  moreover have "list_all (talks (quiet_gw g)) (snd (fst (run w p n)))"
    unfolding p_def by (rule yields_run [OF proceed_background])
  ultimately show ?thesis by blast
qed


section \<open>The life of an executed step\<close>

lemma calls_updateRunStep:
  assumes "\<And>u. cd_url cd u = None" "gw_auditURL g \<noteq> []"
  shows "calls w (updateRunStep cd g i k st a res err) n = [update_request g i k st a res err]"
  using assms by (simp add: updateRunStep_def calls_bindP calls_http_do)

text \<open>The outcome a step is recorded with.\<close>

definition outcome_patch :: "gateway \<Rightarrow> string \<Rightarrow> run_step \<Rightarrow> string + string \<Rightarrow> http_req" where
  "outcome_patch g runID p r = (case r of
     Inl err \<Rightarrow> update_request g runID (pst_StepIndex p) ''failed'' (pst_ApprovalID p) [] err
   | Inr out \<Rightarrow> update_request g runID (pst_StepIndex p) ''succeeded'' (pst_ApprovalID p) out [])"

lemma calls_execute:
  assumes url: "\<And>u. cd_url cd u = None" and a: "gw_auditURL g \<noteq> []" and r: "step_request sc g caller tid rn p = Some r"
  shows "\<exists>res rest. calls w (execute_step cd sc first g caller tid pb rn i u c p) n =
    [update_request g i (pst_StepIndex p) ''executing'' (pst_ApprovalID p) [] [], r, outcome_patch g i p res] @ rest"
proof -
  let ?m = "snd (run w (updateRunStep cd g i (pst_StepIndex p) ''executing'' (pst_ApprovalID p) [] []) n)"
  let ?call = "callToolWithPrincipal cd sc g tid ''remediation'' (pst_Agent p) (pst_Tool p)
    (with_target (pn_ConnectionString rn) (pst_Args p)) caller"
  obtain res m where m: "run w ?call ?m = (res, m)" by fastforce
  have "calls w ?call ?m = [r]"
    using r url by (auto simp: step_request_def callToolWithPrincipal_def Let_def calls_bindP calls_http_do)
  then show ?thesis
    unfolding execute_step_def Let_def calls_bindP calls_updateRunStep [OF url a] m
    by (cases res) (auto simp: calls_bindP calls_updateRunStep [OF url a] outcome_patch_def
        intro!: exI [of _ "res"])
qed



definition sample_step :: run_step where
  "sample_step = \<lparr>pst_RunID = ''plr_1'', pst_StepIndex = 1, pst_Agent = ''database'', pst_Tool = ''kill_session'',
     pst_Args = [(''pid'', JNum 7)], pst_Reason = ''blocker'', pst_Status = ''proposed'', pst_ApprovalID = ''ap_1'',
     pst_Result = [], pst_Error = [], pst_CreatedAt = 0, pst_UpdatedAt = 0\<rparr>"

definition sample_gateway :: gateway where
  "sample_gateway = \<lparr>gw_agents = [(''postgres_database_agent'', ''http://db/invoke'')], gw_clients = [], gw_auditURL = ''http://auditd'',
     gw_auditAPIKey = [], gw_agentAPIKey = [], gw_auditor = None, gw_infra = None, gw_registry = None, gw_planner = True,
     gw_operatingMode = [], gw_crystalBall = False, gw_baseURL = [], gw_notifier = None\<rparr>"

definition sample_codec :: codec where
  "sample_codec = \<lparr>cd_url = (\<lambda>_. None), cd_parse = (\<lambda>_. Inr JNull), cd_text = (\<lambda>_. [])\<rparr>"

definition sample_store_codec :: store_codec where
  "sample_store_codec = \<lparr>sc_playbook_of = (\<lambda>_. Inr zero_playbook), sc_run_of = (\<lambda>_. Inr (zero_run\<lparr>pn_ConnectionString := ''prod''\<rparr>)),
     sc_step_of = (\<lambda>_. Inr sample_step), sc_approval_of = (\<lambda>_. Inl []), sc_session_of = (\<lambda>_. Inl []), sc_run = (\<lambda>_. None),
     sc_step = (\<lambda>_. None), sc_approval = (\<lambda>_. None), sc_report = (\<lambda>_. None), sc_principal = (\<lambda>_. JNull)\<rparr>"

definition ok_world :: world where
  "ok_world = \<lparr>wd_reply = (\<lambda>_ _. (Response 200 [], 0)), wd_late = (\<lambda>_. 0)\<rparr>"

lemma run_ok:
  "run ok_world (bindP (http_do sample_codec r) f) n =
     run ok_world (f (Got 200 [])) (n\<lparr>nt_calls := nt_calls n @ [(r, Response 200 [])]\<rparr>)"
  by (simp add: http_do_def sample_codec_def send_def ok_world_def)

definition sample_proceed :: proceed_request where
  "sample_proceed = \<lparr>pq_Resolution = ''approved'', pq_ResolvedBy = [], pq_Reason = [], pq_StepIndex = 1, pq_ConnectionString = []\<rparr>"

definition idle :: net where
  "idle = \<lparr>nt_calls = [], nt_now = 0\<rparr>"

definition sample_tool_call :: http_req where
  "sample_tool_call = step_tool_request sample_store_codec sample_gateway ''tr_1'' ''remediation'' ''http://db/invoke'' ''kill_session''
     [(''pid'', JNum 7), (''connection_string'', JStr ''prod'')] zero_principal"


text \<open>A tool that failed counts as a success: the status of the reply is not looked at, so an error page
  in plain text is taken as the output of the tool.\<close>

theorem failed_call_succeeds:
  assumes "map_of (gw_agents g) (resolve_alias agent) = Some url"
    and "cd_url cd (hq_url (step_tool_request sc g tid purpose url tool args p)) = None"
    and "fst (send w (step_tool_request sc g tid purpose url tool args p) n) = Response status page" and "cd_parse cd page = Inl e"
  shows "fst (run w (callToolWithPrincipal cd sc g tid purpose agent tool args p) n) = Inr page"
proof -
  obtain m where "send w (step_tool_request sc g tid purpose url tool args p) n = (Response status page, m)"
    using assms(3) by (metis prod.collapse)
  then show ?thesis
    using assms by (simp add: callToolWithPrincipal_def http_do_def tool_reply_def)
qed

end
