(* ===== verification/Playbook_Prompt.thy ===== *)
theory Playbook_Prompt
  imports Playbook_Steps
begin

text \<open>
  The prompts of agent-mode playbook runs (\<^verbatim>\<open>assembleTriagePrompt\<close> and
  \<^verbatim>\<open>assembleCrystalBallPrompt\<close> of \<^verbatim>\<open>cmd/gateway/playbooks.go\<close>): the target, the protocol the
  answer has to follow, the guidance of the playbook, earlier findings and the constraints.
\<close>

definition sysadmin_agent :: string where
  "sysadmin_agent = ''sysadmin_agent''"

definition triage_opening :: "playbook \<Rightarrow> playbook_run_request \<Rightarrow> string \<Rightarrow> string" where
  "triage_opening pb req hint =
     (if rq_ConnectionString req \<noteq> [] then
       (if pb_AgentName pb = sysadmin_agent then
       ''Your target is connection_string='' @
       Quote (rq_ConnectionString req) @
       ''. Follow the Expert Guidance below '' @ em_dash @
       '' use check_host and restart_container as instructed. Do not call check_connection (that is a '' @
       ''DB-agent tool, not available here).'' @ [newline]
       else
       ''Call check_connection with connection_string='' @
       Quote (rq_ConnectionString req) @
       '' and begin diagnosing why it is unavailable. Do not ask which database '' @ em_dash @ '' the target is '' @
       Quote (rq_ConnectionString req) @
       ''.'' @ [newline]) @
       (if hint \<noteq> [] then hint @ [newline] else []) @ [newline]
     else
       ''Read the '' @ [CHR 0x27] @ ''Additional context'' @ [CHR 0x27] @ '' section at the bottom of this prompt first.'' @
       [newline] @ ''It identifies the specific namespace, pod, or service to investigate.'' @ [newline] @
       ''Use exactly what the context specifies '' @ em_dash @
       '' do not substitute or expand to other systems listed in your infrastructure configuration.'' @ [newline] @
       ''Then follow the playbook guidance below.'' @ [newline, newline])"

definition response_protocol :: string where
  "response_protocol =
       ''## Response Protocol'' @ [newline] @ ''Do NOT write a CONCLUSION section or end with '' @ [CHR 0x27] @ ''---'' @
       [CHR 0x27] @ ''. Close your response with this exact block (plain text, no markdown, no bold, no backticks):'' @
       [newline, newline] @ ''HYPOTHESIS_1: <primary hypothesis> | CONFIDENCE: <0.0'' @ [CHR 0xE2, CHR 0x80, CHR 0x93] @
       ''1.0> | EVIDENCE: '' @ [CHR 0x22] @ ''<verbatim quote from tool output>'' @ [CHR 0x22, newline] @
       ''HYPOTHESIS_2: <alternative hypothesis> | CONFIDENCE: <0.0'' @ [CHR 0xE2, CHR 0x80, CHR 0x93] @
       ''1.0> | REJECTED: <one-sentence reason>'' @ [newline] @ ''ROOT_CAUSE: HYPOTHESIS_1'' @ [newline] @
       ''FINDINGS: <one-sentence diagnosis and recommended action>'' @ [newline] @ ''TRANSITION_TO: <series_id>   '' @
       em_dash @ '' use this when the Expert Guidance '' @ [CHR 0x27] @ ''Final step'' @ [CHR 0x27] @
       '' specifies TRANSITION_TO (same-domain handoff to the expected remediation playbook)'' @ [newline] @
       ''ESCALATE_TO: <series_id or '' @ [CHR 0x22] @ ''none'' @ [CHR 0x22] @ ''>   '' @ em_dash @
       '' use this for true out-of-scope escalations to a different domain; use '' @ [CHR 0x22] @ ''none'' @ [CHR 0x22] @
       '' if no escalation is needed'' @ [newline] @
       ''Emit exactly one of TRANSITION_TO or ESCALATE_TO (not both). Follow the '' @ [CHR 0x27] @ ''Final step'' @
       [CHR 0x27] @ '' in Expert Guidance to determine which signal and which series_id.'' @ [newline, newline] @
       ''Rules: list hypotheses in descending confidence order; EVIDENCE must be a short verbatim quote '' @
       ''from a tool output; every non-primary hypothesis must have REJECTED with a reason; CONFIDENCE '' @ ''is 0.0'' @
       [CHR 0xE2, CHR 0x80, CHR 0x93] @ ''1.0.'' @ [newline, newline]"

definition section_of :: "string \<Rightarrow> string \<Rightarrow> string" where
  "section_of title t = (if t = [] then [] else ''## '' @ title @ [newline] @ t @ [newline, newline])"

definition triage_sections :: "playbook \<Rightarrow> playbook_run_request \<Rightarrow> string" where
  "triage_sections pb req = ''## Playbook: '' @ pb_Name pb @ [newline, newline] @ section_of ''Objective'' (pb_Description pb) @
     section_of ''Expert Guidance'' (pb_Guidance pb) @
     (if pb_TransitionsTo pb = [] then [] else
       ''## Same-domain transitions'' @ [newline] @
       ''When triage completes successfully and a follow-on remediation under the same agent is '' @
       ''appropriate, the allowed next playbooks are (by series ID): '' @
       join_str '', '' (pb_TransitionsTo pb) @
       [newline, newline]) @
     (if pb_EscalatesTo pb = [] then [] else
       ''## Cross-domain escalations'' @ [newline] @ ''If the issue is out of scope for this playbook'' @ [CHR 0x27] @
       ''s agent (different problem class or different agent needed), the allowed escalation targets are '' @
       ''(by series ID): '' @
       join_str '', '' (pb_EscalatesTo pb) @
       [newline, newline]) @
     (if rq_PriorFindings req = [] then [] else
       ''## Prior Investigation Findings'' @ [newline] @ ''A previous investigation reached the following conclusion:'' @
       [newline] @
       rq_PriorFindings req @
       [newline, newline] @ ''Continue from this context and investigate further.'' @ [newline, newline])"

definition triage_constraints :: "playbook_run_request \<Rightarrow> string" where
  "triage_constraints req =
       ''## Constraints'' @ [newline] @
       ''- Use only read-only diagnostic tools. Do not execute any write or destructive operations.'' @ [newline] @
       ''- Collect evidence, form a hypothesis, and if the evidence contradicts it, back out and pursue '' @
       ''a different hypothesis.'' @ [newline] @
       ''- When you reach a clear diagnosis, present your findings and recommended remediation steps.'' @ [newline] @
       ''- Do NOT execute remediation '' @ em_dash @ '' describe it for operator review and approval.'' @ [newline] @
     (if rq_ConnectionString req = [] then [] else
       ''- Use ONLY '' @ [CHR 0x60] @ ''connection_string'' @ [CHR 0x60] @ '' = '' @ [CHR 0x60] @
       rq_ConnectionString req @
       [CHR 0x60] @ ''. Do not query any other server, even if your context lists others.'' @ [newline]) @ [newline]"

definition triage_closing :: "playbook_run_request \<Rightarrow> string" where
  "triage_closing req = (if rq_ConnectionString req = [] then [] else
       ''REMINDER: your target is connection_string='' @
       Quote (rq_ConnectionString req) @
       '' only. Do not check other databases.'' @ [newline]) @
       ''IMPORTANT: Do not write **CONCLUSION:** or end with ---. Close with exactly:'' @ [newline] @
       ''HYPOTHESIS_1: ... | CONFIDENCE: ... | EVIDENCE: '' @ [CHR 0x22] @ ''...'' @ [CHR 0x22, newline] @
       ''HYPOTHESIS_2: ... | CONFIDENCE: ... | REJECTED: ...'' @ [newline] @ ''ROOT_CAUSE: HYPOTHESIS_1'' @ [newline] @
       ''FINDINGS: <one-sentence diagnosis>'' @ [newline] @ ''TRANSITION_TO: <series_id>   (if Expert Guidance '' @
       [CHR 0x27] @ ''Final step'' @ [CHR 0x27] @ '' says TRANSITION_TO)'' @ [newline] @ ''ESCALATE_TO: <series_id or '' @
       [CHR 0x22] @ ''none'' @ [CHR 0x22] @ ''>   (for true cross-domain escalations; '' @ [CHR 0x22] @ ''none'' @
       [CHR 0x22] @ '' if neither applies)'' @ [newline] @
       ''Use exactly the signal and series_id from the Expert Guidance '' @ [CHR 0x27] @ ''Final step'' @ [CHR 0x27] @
       ''. Do not substitute one signal for the other.'' @ [newline] @
       ''EXCEPTION: if you were unable to complete the investigation (policy denial, connection failure, '' @
       ''or insufficient evidence to form a hypothesis), emit ESCALATE_TO: none regardless of what the '' @
       ''Expert Guidance specifies.'' @ [newline]"

definition assembleTriagePrompt :: "playbook \<Rightarrow> playbook_run_request \<Rightarrow> string \<Rightarrow> string" where
  "assembleTriagePrompt pb req serverTypeHint = triage_opening pb req serverTypeHint @ response_protocol @ triage_sections pb req @
     triage_constraints req @ section_of ''Additional context'' (rq_Context req) @ triage_closing req"

definition assembleCrystalBallPrompt :: "playbook_run_request \<Rightarrow> string \<Rightarrow> string" where
  "assembleCrystalBallPrompt req serverTypeHint =
       ''You are a database operations assistant with access to diagnostic tools.'' @ [newline, newline] @
     (if rq_ConnectionString req \<noteq> [] then
       (if rq_Context req \<noteq> [] then
       ''The operator is reporting an issue with '' @
       Quote (rq_ConnectionString req) @
       ''. Investigate using whatever tools you judge appropriate and explain what you find.'' @ [newline]
       else
       ''The operator is reporting that '' @
       Quote (rq_ConnectionString req) @
       '' is unavailable. Investigate using whatever tools you judge appropriate and explain what you '' @ ''find.'' @
       [newline]) @
       (if serverTypeHint \<noteq> [] then serverTypeHint @ [newline] else [])
     else
       ''The operator needs help diagnosing a database issue. Investigate and explain what you find.'' @ [newline]) @
     (if rq_Context req = [] then [] else
       [newline] @ ''Additional context from the operator:'' @ [newline] @
       rq_Context req @
       [newline]) @
       [newline] @ ''Use your tools to investigate. When you have a diagnosis, explain your findings and what you '' @
       ''recommend.'' @ [newline]"

end
