(* ===== verification/Gateway_Proxy.thy ===== *)
theory Gateway_Proxy
  imports Gateway_Client
begin

text \<open>
  The two ways the gateway reaches an agent (\<^verbatim>\<open>cmd/gateway/gateway.go\<close>): a message over A2A, whose
  answer is checked against the audit trail, and the direct call of a tool. Both write one event of
  their outcome to the audit trail. The A2A client is the argument \<open>a2a\<close>, a program that sends a
  message with metadata to an agent; \<open>fresh\<close> names the random identifiers by their use. A response is
  its status, the trace header, the mismatch header and the decoded body.
\<close>

section \<open>Requests and responses\<close>

record gw_http =
  ir_Method :: string
  ir_Path :: string
  ir_Header :: "string \<Rightarrow> string"
  ir_Principal :: principal
  ir_Approval :: "approval_context option"

record capture =
  cp_code :: int
  cp_trace :: string
  cp_mismatch :: bool
  cp_body :: json_map

definition writeError :: "string \<Rightarrow> int \<Rightarrow> string \<Rightarrow> capture" where
  "writeError traceID code msg = \<lparr>cp_code = code, cp_trace = traceID, cp_mismatch = False, cp_body = [(''error'', JStr msg)]\<rparr>"

definition resolveRequest :: "gw_http \<Rightarrow> string \<Rightarrow> string \<Rightarrow> principal \<times> string \<times> string \<times> bool" where
  "resolveRequest r purposeFromBody noteFromBody =
     (case PurposeFromRequest (ir_Header r ''X-Purpose'') purposeFromBody of (purpose, explicit) \<Rightarrow>
        (ir_Principal r, purpose, (if ir_Header r ''X-Purpose-Note'' = [] then noteFromBody else ir_Header r ''X-Purpose-Note''), explicit))"

text \<open>The trace of the request, or a new one with a prefix for its origin.\<close>

definition call_trace :: "(string \<Rightarrow> string) \<Rightarrow> gw_http \<Rightarrow> string \<Rightarrow> string" where
  "call_trace fresh r prefix = (if ir_Header r ''X-Trace-ID'' \<noteq> [] then ir_Header r ''X-Trace-ID''
     else NewTraceIDWithPrefix (fresh ''tid'') prefix)"

section \<open>The answer of an agent\<close>

datatype gw_part = GwText string | GwData json_map json_map | GwOther

record gw_artifact =
  gf_ID :: string
  gf_Name :: string
  gf_Parts :: "gw_part list"

record gw_task =
  gk_ID :: string
  gk_State :: string
  gk_ContextID :: string
  gk_Status :: "gw_part list option"
  gk_History :: "(bool \<times> gw_part list) list"
  gk_Artifacts :: "gw_artifact list"

datatype gw_result = GwTask gw_task | GwMessage "gw_part list"

record a2a_response =
  ax_Agent :: string
  ax_TaskID :: string
  ax_State :: string
  ax_Text :: string
  ax_Artifacts :: "json list"
  ax_ContextID :: string
  ax_ToolCalls :: "string list"

definition zero_a2a_response :: a2a_response where
  "zero_a2a_response = \<lparr>ax_Agent = [], ax_TaskID = [], ax_State = [], ax_Text = [], ax_Artifacts = [], ax_ContextID = [],
     ax_ToolCalls = []\<rparr>"

definition extractText :: "gw_part list \<Rightarrow> string" where
  "extractText ps = join_str [newline] (List.map_filter (\<lambda>p. case p of GwText t \<Rightarrow> Some t | _ \<Rightarrow> None) ps)"

definition part_tools :: "gw_part \<Rightarrow> string list" where
  "part_tools p = (case p of
     GwData meta data \<Rightarrow>
       (if str_or_empty (map_of meta ''helpdesk_type'') = ''tool_call_summary''
        then (case map_of data ''tool_calls'' of Some (JArr ns) \<Rightarrow> strs_of ns | _ \<Rightarrow> []) else [])
   | _ \<Rightarrow> [])"

definition artifact_json :: "gw_artifact \<Rightarrow> json" where
  "artifact_json a = JObj [(''id'', JStr (gf_ID a)), (''name'', JStr (gf_Name a)), (''parts'', JStr (extractText (gf_Parts a)))]"

definition task_text :: "gw_task \<Rightarrow> string" where
  "task_text t =
     (let s = (case gk_Status t of Some ps \<Rightarrow> extractText ps | None \<Rightarrow> []);
          s = (if s \<noteq> [] then s else (case find fst (rev (gk_History t)) of Some (_, ps) \<Rightarrow> extractText ps | None \<Rightarrow> []))
      in if s \<noteq> [] then s else (case gk_Artifacts t of a # _ \<Rightarrow> extractText (gf_Parts a) | [] \<Rightarrow> []))"

definition extractResponse :: "gw_result \<Rightarrow> a2a_response" where
  "extractResponse res = (case res of
     GwTask t \<Rightarrow> zero_a2a_response\<lparr>ax_TaskID := gk_ID t, ax_State := gk_State t, ax_ContextID := gk_ContextID t,
       ax_Text := task_text t, ax_Artifacts := map artifact_json (gk_Artifacts t),
       ax_ToolCalls := concat (map (\<lambda>a. concat (map part_tools (gf_Parts a))) (gk_Artifacts t))\<rparr>
   | GwMessage ps \<Rightarrow> zero_a2a_response\<lparr>ax_Text := extractText ps\<rparr>)"

definition a2a_json :: "a2a_response \<Rightarrow> json_map" where
  "a2a_json r = [(''agent'', JStr (ax_Agent r))] @ omit ''task_id'' (ax_TaskID r) @ omit ''state'' (ax_State r) @
     omit ''text'' (ax_Text r) @ (if ax_Artifacts r = [] then [] else [(''artifacts'', JArr (ax_Artifacts r))]) @
     omit ''context_id'' (ax_ContextID r) @
     (if ax_ToolCalls r = [] then [] else [(''tool_calls'', JArr (map JStr (ax_ToolCalls r)))])"

definition isPolicyDenial :: "string \<Rightarrow> bool" where
  "isPolicyDenial t = str_contains (ToLower t) ''policy denied''"

definition isToolError :: "string \<Rightarrow> bool" where
  "isToolError t = str_contains t ([newline] @ ''ERROR '' @ em_dash)"

section \<open>Recording\<close>

definition zero_gateway_request :: gateway_request where
  "zero_gateway_request = \<lparr>gr_RequestID = [], gr_TraceID = [], gr_ParentID = [], gr_Principal = [],
     gr_ResolvedPrincipal = zero_principal, gr_Purpose = [], gr_PurposeNote = [], gr_Environment = [], gr_Endpoint = [],
     gr_Method = [], gr_Agent = [], gr_ToolName = [], gr_ToolParameters = [], gr_ActionClass = [], gr_Message = [],
     gr_Response = [], gr_StartTime = 0, gr_Duration = 0, gr_Status = [], gr_Error = []\<rparr>"

definition recordAudit :: "gateway \<Rightarrow> (string \<Rightarrow> string) \<Rightarrow> gateway_request \<Rightarrow> unit prog" where
  "recordAudit g fresh req = (case gw_auditor g of
     None \<Rightarrow> Return ()
   | Some a \<Rightarrow> bindP (RecordRequest a (fresh ''trace'') (fresh ''event'') req) (\<lambda>_. Return ()))"

text \<open>The event of a request with its outcome; the duration is taken at that moment.\<close>

definition finish ::
  "gateway \<Rightarrow> (string \<Rightarrow> string) \<Rightarrow> gateway_request \<Rightarrow> string \<Rightarrow> string \<Rightarrow> string \<Rightarrow> unit prog" where
  "finish g fresh base status err response = Now (\<lambda>t. recordAudit g fresh (base\<lparr>gr_Status := status, gr_Error := err,
     gr_Response := response, gr_Duration := int t - int (gr_StartTime base)\<rparr>))"

section \<open>Messages to agents\<close>

type_synonym gw_a2a = "string \<Rightarrow> string \<Rightarrow> string \<Rightarrow> json_map \<Rightarrow> (string + gw_result) prog"

text \<open>The approval gate: auditd is asked for the session when the mode and the class of the tool need it.\<close>

definition approval_mode_gate ::
  "codec \<Rightarrow> store_codec \<Rightarrow> gateway \<Rightarrow> approval_context option \<Rightarrow> string \<Rightarrow> (bool \<times> string) prog" where
  "approval_mode_gate cd sc g ac toolName =
     (let asks = (case ac of
        Some c \<Rightarrow> ac_mode c = ''session'' \<and> ac_sessionID c \<noteq> [] \<and> gw_auditURL g \<noteq> [] \<and> class_IsApprovalRequired (ClassifyTool toolName)
      | None \<Rightarrow> False)
      in bindP (if asks then fetchApprovalSession cd sc g (ac_sessionID (the ac)) else Return (Inl [])) (\<lambda>s.
         Now (\<lambda>now. Return (checkApprovalMode now (gw_auditURL g) (\<lambda>_. s) ac toolName))))"

definition classify_target :: "string \<Rightarrow> string" where
  "classify_target prompt = (let l = takeWhile (\<lambda>c. c \<noteq> newline) prompt in if l = [] then prompt else l)"

definition manual_hold :: "gw_http \<Rightarrow> string \<Rightarrow> bool" where
  "manual_hold r actionClass = (case ir_Approval r of
     Some c \<Rightarrow> ac_mode c = ''manual'' \<and> actionClass = ClassDestructive | None \<Rightarrow> False)"

text \<open>The check of an answer against the audit trail; the result says whether the mismatch is flagged.\<close>

definition verify_answer ::
  "codec \<Rightarrow> event_codec \<Rightarrow> gateway \<Rightarrow> (string \<Rightarrow> string) \<Rightarrow> gw_http \<Rightarrow> string \<Rightarrow> string \<Rightarrow> time \<Rightarrow> string \<Rightarrow> bool prog" where
  "verify_answer cd ec g fresh r traceID agentName start prompt =
     (let actionClass = ClassifyDelegation agentName (classify_target prompt); hold = manual_hold r actionClass in
      bindP (buildDelegationVerification cd ec (gw_auditURL g) (gw_auditAPIKey g) traceID start actionClass [] agentName) (\<lambda>v.
        bindP (case gw_auditor g of
            None \<Rightarrow> Return ()
          | Some a \<Rightarrow> Now (\<lambda>now. bindP (RecordEvent a (zero_event\<lparr>ev_EventID := ''gv_'' @ take 8 (fresh ''verification''),
              ev_Timestamp := now, ev_EventType := EventTypeDelegationVerification, ev_TraceID := traceID,
              ev_Session := (ev_Session zero_event)\<lparr>ss_ID := traceID\<rparr>,
              ev_DelegationVerification := Some (if hold then v\<lparr>dv_Mismatch := False,
                dv_MismatchReason := ''approval_mode=manual: destructive action proposed pending operator approval''\<rparr> else v)\<rparr>))
              (\<lambda>_. Return ()))) (\<lambda>_.
          Return (dv_Mismatch v \<and> \<not> hold))))"

definition agent_metadata :: "gw_http \<Rightarrow> string \<Rightarrow> json_map" where
  "agent_metadata r traceID = (case resolveRequest r [] [] of (p, purpose, note, explicit) \<Rightarrow>
     gateway_metadata traceID p purpose note explicit
       (map_option (\<lambda>c. (ac_mode c, ac_sessionID c)) (ir_Approval r)))"

definition request_base ::
  "(string \<Rightarrow> string) \<Rightarrow> gw_http \<Rightarrow> string \<Rightarrow> time \<Rightarrow> string \<Rightarrow> string \<Rightarrow> string \<Rightarrow> string \<Rightarrow> gateway_request" where
  "request_base fresh r traceID start agentName toolName toolParams prompt =
     (case resolveRequest r [] [] of (p, purpose, note, explicit) \<Rightarrow>
        zero_gateway_request\<lparr>gr_RequestID := take 8 (fresh ''request''), gr_TraceID := traceID, gr_Endpoint := ir_Path r,
          gr_Method := ir_Method r, gr_Agent := agentName, gr_ToolName := toolName, gr_ToolParameters := toolParams,
          gr_Message := prompt, gr_StartTime := start, gr_Principal := EffectiveID p, gr_ResolvedPrincipal := p,
          gr_Purpose := purpose, gr_PurposeNote := note\<rparr>)"

text \<open>The judgement of an answer: absent when it is passed on, else the audit status, the error and the
  status of the response.\<close>

definition refused_answer :: "string \<Rightarrow> a2a_response \<Rightarrow> (string \<times> string \<times> int \<times> string) option" where
  "refused_answer toolName a =
     (if ax_State a = ''failed'' then
        Some (''error'', ''agent task failed: '' @ ax_Text a, 502, ''agent task failed: '' @ ax_Text a)
      else if toolName \<noteq> [] \<and> isPolicyDenial (ax_Text a) then Some (''denied'', ''policy denied'', 403, ax_Text a)
      else if toolName \<noteq> [] \<and> isToolError (ax_Text a) then Some (''error'', ''tool execution failed'', 422, ax_Text a)
      else None)"

definition proxyToAgentWithTool ::
  "codec \<Rightarrow> event_codec \<Rightarrow> store_codec \<Rightarrow> gw_a2a \<Rightarrow> gateway \<Rightarrow> (string \<Rightarrow> string) \<Rightarrow> gw_http \<Rightarrow> string \<Rightarrow> string \<Rightarrow> string \<Rightarrow>
   string \<Rightarrow> string \<Rightarrow> capture prog" where
  "proxyToAgentWithTool cd ec sc a2a g fresh r agentName toolName toolParams contextID prompt = Now (\<lambda>start.
     let traceID = call_trace fresh r (if toolName \<noteq> [] then ''dt_'' else ''tr_'');
         base = request_base fresh r traceID start agentName toolName toolParams prompt in
     if \<not> List.member (gw_clients g) agentName then
       bindP (finish g fresh base ''error'' ''agent not available'' []) (\<lambda>_.
         Return (writeError traceID 502 (''agent '' @ Quote agentName @ '' not available'')))
     else bindP (if toolName \<noteq> [] then approval_mode_gate cd sc g (ir_Approval r) toolName else Return (False, [])) (\<lambda>(blocked, msg).
       if blocked then Return (writeError traceID 403 msg)
       else bindP (a2a agentName contextID prompt (agent_metadata r traceID)) (\<lambda>res. case res of
         Inl err \<Rightarrow> bindP (finish g fresh base ''error'' err []) (\<lambda>_.
           Return (writeError traceID 502 (''A2A call to '' @ agentName @ '' failed: '' @ err)))
       | Inr v \<Rightarrow>
           (let a = (extractResponse v)\<lparr>ax_Agent := agentName\<rparr> in
            case refused_answer toolName a of
              Some (status, err, code, msg) \<Rightarrow> bindP (finish g fresh base status err (ax_Text a)) (\<lambda>_.
                Return (writeError traceID code msg))
            | None \<Rightarrow>
                bindP (if toolName = [] \<and> gw_auditURL g \<noteq> [] then verify_answer cd ec g fresh r traceID agentName start prompt
                       else Return False) (\<lambda>mismatch.
                bindP (finish g fresh base ''success'' [] (ax_Text a)) (\<lambda>_.
                  Return \<lparr>cp_code = 200, cp_trace = traceID, cp_mismatch = mismatch, cp_body = a2a_json a\<rparr>))))))"

definition proxyToAgent ::
  "codec \<Rightarrow> event_codec \<Rightarrow> store_codec \<Rightarrow> gw_a2a \<Rightarrow> gateway \<Rightarrow> (string \<Rightarrow> string) \<Rightarrow> gw_http \<Rightarrow> string \<Rightarrow> string \<Rightarrow> string \<Rightarrow>
   capture prog" where
  "proxyToAgent cd ec sc a2a g fresh r agentName contextID prompt =
     proxyToAgentWithTool cd ec sc a2a g fresh r agentName [] [] contextID prompt"


section \<open>Direct tool calls\<close>

definition serverNameFromArgs :: "json_map \<Rightarrow> string" where
  "serverNameFromArgs args = (case find (\<lambda>k. str_or_empty (map_of args k) \<noteq> []) [''connection_string'', ''context'', ''namespace''] of
     Some k \<Rightarrow> str_or_empty (map_of args k) | None \<Rightarrow> ''unknown'')"

definition gw_recordToolResult ::
  "codec \<Rightarrow> gateway \<Rightarrow> string \<Rightarrow> json_map \<Rightarrow> string \<Rightarrow> string \<Rightarrow> string \<Rightarrow> unit prog" where
  "gw_recordToolResult cd g toolName args output traceID recordedBy =
     bindP (http_do cd (auditd_send g ''POST'' ''/v1/tool-results'' (Some (JObj [(''server_name'', JStr (serverNameFromArgs args)),
         (''tool_name'', JStr toolName), (''tool_args'', JStr (cd_text cd (JObj args))), (''output'', JStr output),
         (''trace_id'', JStr traceID), (''recorded_by'', JStr recordedBy), (''success'', JBool True)])))) (\<lambda>_. Return ())"

definition direct_request ::
  "store_codec \<Rightarrow> gateway \<Rightarrow> gw_http \<Rightarrow> string \<Rightarrow> string \<Rightarrow> string \<Rightarrow> json_map \<Rightarrow> http_req" where
  "direct_request sc g r traceID invokeURL toolName args = (case resolveRequest r [] [] of (p, purpose, note, explicit) \<Rightarrow>
     \<lparr>hq_method = ''POST'', hq_url = TrimSuffix invokeURL ''/invoke'' @ ''/tool/'' @ toolName,
      hq_headers = json_type # bearer (gw_agentAPIKey g),
      hq_body = Some (JObj (omit ''trace_id'' traceID @ [(''principal'', sc_principal sc p)] @ omit ''purpose'' purpose @
        omit ''purpose_note'' note @ (if explicit then [(''purpose_explicit'', JBool True)] else []) @ [(''args'', JObj args)]))\<rparr>)"

text \<open>The decoded reply of an agent: output and error, or the whole body as output. A field of another
  type does not stop the decoder, so the error of such a reply is kept.\<close>

definition direct_reply :: "codec \<Rightarrow> string \<Rightarrow> string \<times> string" where
  "direct_reply cd b = (case cd_parse cd b of
     Inl _ \<Rightarrow> (b, [])
   | Inr v \<Rightarrow> (case (field_str ''output'' v, field_str ''error'' v) of (Some out, Some err) \<Rightarrow> (out, err) | (_, Some err) \<Rightarrow> (b, err) | _ \<Rightarrow> (b, [])))"

text \<open>The verdict on a reply: the text, and for a failure the audit status, the error and the status of
  the response.\<close>

definition direct_verdict :: "int \<Rightarrow> string \<times> string \<Rightarrow> string \<times> (string \<times> string \<times> int) option" where
  "direct_verdict code reply = (case reply of (out, err) \<Rightarrow>
     (let txt = (if err \<noteq> [] then err else out) in
      (txt,
       if code \<ge> 400 \<or> err \<noteq> [] then
         (if isPolicyDenial txt then Some (''denied'', txt, 403) else Some (''error'', txt, if code < 400 then 422 else code))
       else if isToolError txt then Some (''error'', ''tool execution failed'', 422)
       else None)))"

definition dispatchDirectTool ::
  "codec \<Rightarrow> store_codec \<Rightarrow> gateway \<Rightarrow> (string \<Rightarrow> string) \<Rightarrow> gw_http \<Rightarrow> string \<Rightarrow> string \<Rightarrow> json_map \<Rightarrow>
   (capture \<times> unit prog list) prog" where
  "dispatchDirectTool cd sc g fresh r agentName toolName args = Now (\<lambda>start.
     let traceID = call_trace fresh r ''dt_'';
         base = request_base fresh r traceID start agentName toolName (cd_text cd (JObj args)) [] in
     case map_of (gw_agents g) agentName of
       None \<Rightarrow> bindP (finish g fresh base ''error'' ''agent not available'' []) (\<lambda>_.
         Return (writeError traceID 502 (''agent '' @ Quote agentName @ '' not available''), []))
     | Some invokeURL \<Rightarrow>
         bindP (http_do cd (direct_request sc g r traceID invokeURL toolName args)) (\<lambda>x. case x of
           NotBuilt _ \<Rightarrow> Return (writeError traceID 500 ''failed to build tool request'', [])
         | NotSent err \<Rightarrow> bindP (finish g fresh base ''error'' err []) (\<lambda>_.
             Return (writeError traceID 502 (''direct tool call to '' @ agentName @ '' failed: '' @ err), []))
         | Got code b \<Rightarrow> (case direct_verdict code (direct_reply cd b) of
             (txt, Some (status, err, http)) \<Rightarrow> bindP (finish g fresh base status err txt) (\<lambda>_.
               Return (writeError traceID http txt, []))
           | (txt, None) \<Rightarrow> bindP (finish g fresh base ''success'' [] txt) (\<lambda>_.
               Return (\<lparr>cp_code = 200, cp_trace = traceID, cp_mismatch = False,
                 cp_body = a2a_json (zero_a2a_response\<lparr>ax_Agent := agentName, ax_State := ''completed'', ax_Text := txt\<rparr>)\<rparr>,
                 if gw_auditURL g \<noteq> [] then [gw_recordToolResult cd g toolName args txt traceID (EffectiveID (ir_Principal r))]
                 else [])))))"

definition operating_mode_gate ::
  "gateway \<Rightarrow> (string \<Rightarrow> string) \<Rightarrow> gw_http \<Rightarrow> string \<Rightarrow> capture option prog" where
  "operating_mode_gate g fresh r toolName =
     (if checkOperatingMode (gw_operatingMode g) toolName then Return None
      else Now (\<lambda>start.
        let traceID = call_trace fresh r ''mode_'';
            msg = ''operating mode '' @ Quote (gw_operatingMode g) @ '': write and destructive operations are blocked''
        in bindP (finish g fresh (zero_gateway_request\<lparr>gr_TraceID := traceID, gr_Endpoint := ir_Path r, gr_Method := ir_Method r,
             gr_ToolName := toolName, gr_StartTime := start, gr_Principal := EffectiveID (ir_Principal r),
             gr_ResolvedPrincipal := ir_Principal r\<rparr>) ''denied'' msg []) (\<lambda>_.
           Return (Some (writeError [] 403 msg)))))"

definition handle_tool ::
  "codec \<Rightarrow> store_codec \<Rightarrow> gateway \<Rightarrow> (string \<Rightarrow> string) \<Rightarrow> gw_http \<Rightarrow> string \<Rightarrow> string \<Rightarrow> json_map body \<Rightarrow>
   (capture \<times> unit prog list) prog" where
  "handle_tool cd sc g fresh r agentName toolName b =
     bindP (operating_mode_gate g fresh r toolName) (\<lambda>blocked. case blocked of
       Some c \<Rightarrow> Return (c, [])
     | None \<Rightarrow>
         (if (case gw_registry g of Some reg \<Rightarrow> registry_get reg toolName = None | None \<Rightarrow> False)
          then Return (writeError [] 400 (''unknown tool: '' @ toolName), [])
          else (case b of
            Body args \<Rightarrow> dispatchDirectTool cd sc g fresh r agentName toolName args
          | BadJSON e \<Rightarrow> Return (writeError [] 400 (''invalid JSON body: '' @ e), [])
          | ReadError \<Rightarrow> Return (writeError [] 400 ''invalid JSON body: '', []))))"

definition handleDBTool where
  "handleDBTool cd sc g fresh r toolName b = handle_tool cd sc g fresh r ''postgres_database_agent'' toolName b"

definition handleK8sTool where
  "handleK8sTool cd sc g fresh r toolName b = handle_tool cd sc g fresh r ''k8s_agent'' toolName b"

definition handleResearch ::
  "codec \<Rightarrow> event_codec \<Rightarrow> store_codec \<Rightarrow> gw_a2a \<Rightarrow> gateway \<Rightarrow> (string \<Rightarrow> string) \<Rightarrow> gw_http \<Rightarrow> string body \<Rightarrow> capture prog" where
  "handleResearch cd ec sc a2a g fresh r b = (case b of
     Body query \<Rightarrow> (if query = [] then Return (writeError [] 400 ''query is required'')
       else proxyToAgent cd ec sc a2a g fresh r ''research_agent'' [] query)
   | BadJSON e \<Rightarrow> Return (writeError [] 400 (''invalid JSON body: '' @ e))
   | ReadError \<Rightarrow> Return (writeError [] 400 ''invalid JSON body: ''))"

section \<open>Every tool call is recorded\<close>

text \<open>\<open>recorded\<close>: a program makes the requests \<open>rs\<close> and then records one outcome; only the answer 200 is
  recorded as a success and only 403 as a denial.\<close>

definition recorded ::
  "gateway \<Rightarrow> (string \<Rightarrow> string) \<Rightarrow> (gateway_request \<Rightarrow> bool) \<Rightarrow> world \<Rightarrow> net \<Rightarrow> http_req list \<Rightarrow> (capture \<times> 'b) prog \<Rightarrow> bool" where
  "recorded g fresh Q w n rs p \<longleftrightarrow> (\<exists>m base status err txt. calls w p n = rs @ calls w (finish g fresh base status err txt) m \<and>
     Q base \<and> (cp_code (fst (fst (run w p n))) = 200 \<longleftrightarrow> status = ''success'') \<and>
     (status = ''denied'' \<longrightarrow> cp_code (fst (fst (run w p n))) = 403))"

lemma recorded_finish:
  assumes "Q base" "cp_code c = 200 \<longleftrightarrow> status = ''success''" "status = ''denied'' \<Longrightarrow> cp_code c = 403"
  shows "recorded g fresh Q w n [] (bindP (finish g fresh base status err txt) (\<lambda>_. Return (c, bg)))"
  unfolding recorded_def
  by (rule exI [of _ n], rule exI [of _ base], rule exI [of _ status], rule exI [of _ err], rule exI [of _ "txt"])
    (use assms in \<open>auto simp: calls_bindP run_bindP split: prod.split\<close>)

lemma recorded_call:
  assumes "cd_url cd (hq_url rq) = None" "run w (http_do cd rq) n = (x, n')" "recorded g fresh Q w n' rs (f x)"
  shows "recorded g fresh Q w n (rq # rs) (bindP (http_do cd rq) f)"
  using assms by (simp add: recorded_def calls_bindP calls_http_do run_bindP)

lemma recorded_Now: "recorded g fresh Q w n rs (f (nt_now n)) \<Longrightarrow> recorded g fresh Q w n rs (Now f)"
  by (simp add: recorded_def calls_Now)

text \<open>The call of a tool: the request its agent gets, and the event that is recorded of it.\<close>

definition tool_call_of ::
  "store_codec \<Rightarrow> gateway \<Rightarrow> (string \<Rightarrow> string) \<Rightarrow> gw_http \<Rightarrow> string \<Rightarrow> string \<Rightarrow> json_map \<Rightarrow> http_req list" where
  "tool_call_of sc g fresh r agentName toolName args = (case map_of (gw_agents g) agentName of
     Some url \<Rightarrow> [direct_request sc g r (call_trace fresh r ''dt_'') url toolName args] | None \<Rightarrow> [])"

definition call_of :: "gw_http \<Rightarrow> string \<Rightarrow> gateway_request \<Rightarrow> bool" where
  "call_of r toolName b \<longleftrightarrow> gr_ToolName b = toolName \<and> gr_Principal b = EffectiveID (ir_Principal r) \<and>
     gr_Endpoint b = ir_Path r \<and> gr_Method b = ir_Method r"

lemma call_of_base: "call_of r toolName (request_base fresh r tid start agentName toolName params prompt)"
  by (simp add: call_of_def request_base_def resolveRequest_def split: prod.split)

lemma verdict_statuses:
  assumes "direct_verdict code reply = (txt, Some (status, err, http))"
  shows "http \<noteq> 200 \<and> status \<noteq> ''success'' \<and> (status = ''denied'' \<longrightarrow> http = 403)"
  using assms by (auto simp: direct_verdict_def Let_def split: prod.splits if_splits)

lemma http_do_built: "cd_url cd (hq_url rq) = None \<Longrightarrow> fst (run w (http_do cd rq) n) \<noteq> NotBuilt e"
  by (auto simp: http_do_def split: prod.split http_reply.split)

definition unbuilt :: "codec \<Rightarrow> http_req list \<Rightarrow> bool" where
  "unbuilt cd rs = list_ex (\<lambda>rq. cd_url cd (hq_url rq) \<noteq> None) rs"

lemma dispatch_recorded:
  assumes "\<not> unbuilt cd (tool_call_of sc g fresh r agentName toolName args)"
  shows "recorded g fresh (call_of r toolName) w n (tool_call_of sc g fresh r agentName toolName args)
    (dispatchDirectTool cd sc g fresh r agentName toolName args)"
proof (cases "map_of (gw_agents g) agentName")
  case None
  then show ?thesis
    unfolding dispatchDirectTool_def tool_call_of_def
    by (auto simp: Let_def writeError_def intro!: recorded_Now recorded_finish call_of_base)
next
  case (Some url)
  define rq where "rq = direct_request sc g r (call_trace fresh r ''dt_'') url toolName args"
  have ok: "cd_url cd (hq_url rq) = None" using assms Some by (simp add: unbuilt_def tool_call_of_def rq_def)
  obtain x n' where x: "run w (http_do cd rq) n = (x, n')" by fastforce
  with http_do_built [OF ok, of w n] have "x \<noteq> NotBuilt e" for e by auto
  with Some show ?thesis
    unfolding dispatchDirectTool_def tool_call_of_def
    by (auto simp: Let_def writeError_def rq_def [symmetric] intro!: recorded_Now recorded_call [OF ok x] recorded_finish call_of_base
        dest!: verdict_statuses split: sent.split prod.split option.split)
qed

lemma dispatch_unbuilt:
  assumes "unbuilt cd (tool_call_of sc g fresh r agentName toolName args)"
  shows "calls w (dispatchDirectTool cd sc g fresh r agentName toolName args) n = [] \<and>
    cp_code (fst (fst (run w (dispatchDirectTool cd sc g fresh r agentName toolName args) n))) = 500"
  using assms
  by (auto simp: unbuilt_def tool_call_of_def dispatchDirectTool_def Let_def calls_Now http_do_def writeError_def split: option.splits)


end
