(* ===== verification/Gateway_Planner.thy ===== *)
theory Gateway_Planner
  imports Playbook_Steps Gateway_Proxy Fleet_Plan
begin

text \<open>
  The fleet planner of the gateway (\<^verbatim>\<open>cmd/gateway/planner.go\<close>): a language model drafts a job, the
  gateway removes superseded tools, checks tools, arguments, tags and targets, classifies the steps and
  stamps the job with the snapshots of its tools. The model is the request \<open>plan_request\<close>, whose answer is
  any text; the JSON forms of a job and of the model's reply are the argument \<open>pc\<close>. Maps are association
  lists whose order stands for the order of the iteration.
\<close>

record fleet_plan_request =
  fp_Description :: string
  fp_TargetHints :: "string list"
  fp_Guidance :: string

record plan_reply =
  pl_JobDef :: job_def
  pl_PlannerNotes :: string
  pl_ExcludedServers :: "string list"
  pl_WarningMessages :: "string list"

record plan_response =
  pr_JobDef :: job_def
  pr_JobDefRaw :: string
  pr_PlannerNotes :: string
  pr_RequiresApproval :: bool
  pr_WrittenSteps :: "string list"
  pr_ExcludedServers :: "string list"
  pr_WarningMessages :: "string list"

record plan_codec =
  pc_reply_of :: "string \<Rightarrow> string + plan_reply"
  pc_def :: "job_def \<Rightarrow> json"
  pc_indent :: "job_def \<Rightarrow> string"

section \<open>The prompt\<close>

definition infra_line :: "string \<times> db_server \<Rightarrow> string" where
  "infra_line kv = (case kv of (key, server) \<Rightarrow>
     ''  '' @ key @ ''  tags=['' @ (if db_Tags server = [] then ''(none)'' else join_str '', '' (db_Tags server)) @
     '']  sensitivity=['' @ (if db_Sensitivity server = [] then ''(none)'' else join_str '', '' (db_Sensitivity server)) @ '']'' @
     (if db_Sensitivity server = [] then [] else ''  [RESTRICTED]'') @ [newline])"

definition buildPlannerInfraContext :: "infra_config option \<Rightarrow> string \<times> string list" where
  "buildPlannerInfraContext cfg = (case cfg of
     None \<Rightarrow> (''  (no database servers configured)'', [])
   | Some c \<Rightarrow>
       (if ic_DBServers c = [] then (''  (no database servers configured)'', [])
        else (concat (map infra_line (ic_DBServers c)),
          map fst (filter (\<lambda>(_, server). db_Sensitivity server \<noteq> []) (ic_DBServers c)))))"

definition schema_props :: "json_map \<Rightarrow> json_map option" where
  "schema_props schema = (case map_of schema ''properties'' of Some (JObj m) \<Rightarrow> Some m | _ \<Rightarrow> None)"

definition param_line :: "string list \<Rightarrow> string \<times> json \<Rightarrow> string" where
  "param_line required kv = (case kv of (paramName, paramDef) \<Rightarrow>
     (let def = (case paramDef of JObj m \<Rightarrow> m | _ \<Rightarrow> []);
          typeStr = (case as_str (map_of def ''type'') of Some t \<Rightarrow> t | None \<Rightarrow> ''any'');
          descStr = str_or_empty (map_of def ''description'')
      in ''      '' @ paramName @ '' ('' @ typeStr @ '', '' @ (if List.member required paramName then ''required'' else ''optional'') @
         '')'' @ (if descStr \<noteq> [] then '': '' @ descStr else []) @ [newline]))"

definition planner_tool_lines :: "registry_entry \<Rightarrow> string" where
  "planner_tool_lines e = ''  '' @ ry_Name e @ ''  agent='' @ ry_Agent e @ ''  class='' @ ry_ActionClass e @ ''  caps=['' @
     join_str '', '' (ry_Capabilities e) @ '']  '' @ em_dash @ '' '' @ ry_Description e @ [newline] @
     (case ry_InputSchema e of
        None \<Rightarrow> []
      | Some schema \<Rightarrow> ''    Parameters:'' @ [newline] @ (case schema_props schema of
          None \<Rightarrow> []
        | Some props \<Rightarrow> concat (map (param_line (required_keys (map_of schema ''required''))) props)))"

definition buildPlannerToolCatalog :: "registry \<Rightarrow> string" where
  "buildPlannerToolCatalog r = concat (map planner_tool_lines (ListFleetEligible r))"

definition IntentMap :: "(string \<times> string list) list" where
  "IntentMap = [(''health_check'', [''get_status_summary'']), (''connectivity_check'', [''check_connection'']),
     (''replication_check'', [''get_replication_status'']), (''lock_check'', [''get_lock_info'']),
     (''table_bloat'', [''get_table_stats''])]"

definition arrow :: string where
  "arrow = [CHR 0xE2, CHR 0x86, CHR 0x92]"

definition buildIntentSection :: string where
  "buildIntentSection = concat (map (\<lambda>i. ''  '' @ i @ '' '' @ arrow @ '' '' @
     join_str '', '' (case map_of IntentMap i of Some ts \<Rightarrow> ts | None \<Rightarrow> []) @ [newline]) (insertionSort str_less (map fst IntentMap)))"

definition planner_template :: "string list" where
  "planner_template = [
      ''You are a fleet job planner for an AI database operations platform.'' @ [newline] @
      ''Generate a valid fleet job definition as JSON based on the user'' @ [CHR 0x27] @ ''s request.'' @
      [newline, newline] @ ''## Available Infrastructure'' @ [newline, newline],
      [newline] @ ''## Sensitivity Policy'' @ [newline] @
      ''Servers marked [RESTRICTED] have sensitive data (PII or critical). EXCLUDE them'' @ [newline] @
      ''from fleet jobs unless the request explicitly targets sensitive data.'' @ [newline] @
      ''Always add excluded server names to the excluded_servers list in your response.'' @ [newline, newline] @
      ''## Available Tools'' @ [newline, newline],
      [newline] @ ''## Intent-to-Tool Mapping'' @ [newline] @
      ''When the request matches a known intent, use EXACTLY the listed tools '' @ em_dash @ '' do not add others:'' @
      [newline],
      [],
      ''## JobDef Schema'' @ [newline, newline] @ ''{'' @ [newline] @ ''  '' @ [CHR 0x22] @ ''name'' @ [CHR 0x22] @ '': '' @
      [CHR 0x22] @ ''string'' @ [CHR 0x22] @ '','' @ [newline] @ ''  '' @ [CHR 0x22] @ ''change'' @ [CHR 0x22] @ '': {'' @
      [newline] @ ''    '' @ [CHR 0x22] @ ''steps'' @ [CHR 0x22] @ '': ['' @ [newline] @ ''      {'' @ [CHR 0x22] @
      ''agent'' @ [CHR 0x22] @ '': '' @ [CHR 0x22] @ ''database|k8s'' @ [CHR 0x22] @ '', '' @ [CHR 0x22] @ ''tool'' @
      [CHR 0x22] @ '': '' @ [CHR 0x22] @ ''<tool_name>'' @ [CHR 0x22] @ '', '' @ [CHR 0x22] @ ''args'' @ [CHR 0x22] @
      '': {}, '' @ [CHR 0x22] @ ''on_failure'' @ [CHR 0x22] @ '': '' @ [CHR 0x22] @ ''stop|continue'' @ [CHR 0x22] @ ''}'' @
      [newline] @ ''    ]'' @ [newline] @ ''  },'' @ [newline] @ ''  '' @ [CHR 0x22] @ ''targets'' @ [CHR 0x22] @ '': {'' @
      [CHR 0x22] @ ''tags'' @ [CHR 0x22] @ '': [...], '' @ [CHR 0x22] @ ''names'' @ [CHR 0x22] @ '': [...], '' @
      [CHR 0x22] @ ''exclude'' @ [CHR 0x22] @ '': [...]},'' @ [newline] @ ''  '' @ [CHR 0x22] @ ''strategy'' @ [CHR 0x22] @
      '': {'' @ [CHR 0x22] @ ''canary_count'' @ [CHR 0x22] @ '': 1, '' @ [CHR 0x22] @ ''wave_size'' @ [CHR 0x22] @
      '': 0, '' @ [CHR 0x22] @ ''wave_pause_seconds'' @ [CHR 0x22] @ '': 0, '' @ [CHR 0x22] @ ''failure_threshold'' @
      [CHR 0x22] @ '': 0.5}'' @ [newline] @ ''}'' @ [newline, newline] @ ''Notes:'' @ [newline] @
      ''- connection_string and context args are injected automatically '' @ em_dash @
      '' do NOT include them in step args'' @ [newline] @ ''- on_failure defaults to '' @ [CHR 0x22] @ ''stop'' @
      [CHR 0x22] @ ''; use '' @ [CHR 0x22] @ ''continue'' @ [CHR 0x22] @
      '' only for diagnostic steps where partial results are useful'' @ [newline] @
      ''- wave_size 0 means all remaining servers in one wave'' @ [newline] @
      ''- For read-only jobs, canary_count=1 and wave_size=0 is fine'' @ [newline] @
      ''- For write/destructive jobs, use canary_count=1 and wave_size=3'' @ [newline] @
      ''- targets.tags MUST only contain tags that appear verbatim in the infrastructure list above '' @ em_dash @
      '' do NOT invent, infer, or substitute tag names; if the requested tag does not exist, use an '' @
      ''empty tags list and explain in warning_messages'' @ [newline, newline] @ ''## User Request'' @ [newline, newline] @
      ''Description: '',
      [newline] @ ''Target hints: '',
      [newline, newline] @ ''## Response Format'' @ [newline, newline] @
      ''Respond with ONLY this JSON (no markdown, no explanation outside the JSON):'' @ [newline] @ ''{'' @ [newline] @
      ''  '' @ [CHR 0x22] @ ''job_def'' @ [CHR 0x22] @ '': <complete JobDef object>,'' @ [newline] @ ''  '' @ [CHR 0x22] @
      ''planner_notes'' @ [CHR 0x22] @ '': '' @ [CHR 0x22] @
      ''<plain English: what this job does, why these tools, which servers targeted>'' @ [CHR 0x22] @ '','' @ [newline] @
      ''  '' @ [CHR 0x22] @ ''excluded_servers'' @ [CHR 0x22] @ '': ['' @ [CHR 0x22] @ ''server1'' @ [CHR 0x22] @
      '', ...],'' @ [newline] @ ''  '' @ [CHR 0x22] @ ''warning_messages'' @ [CHR 0x22] @ '': ['' @ [CHR 0x22] @ ''...'' @
      [CHR 0x22] @ '']'' @ [newline] @ ''}'']"

definition assemblePlannerPrompt :: "string \<Rightarrow> string \<Rightarrow> string \<Rightarrow> string \<Rightarrow> string \<Rightarrow> string \<Rightarrow> string" where
  "assemblePlannerPrompt infraSummary toolCatalog intentSection description hints guidance =
     fill planner_template [infraSummary, toolCatalog, intentSection,
       if guidance = [] then [] else ''## Playbook Guidance'' @ [newline, newline] @ guidance @ [newline, newline],
       Quote description, hints]"

section \<open>The checks of a plan\<close>

definition resolveTargetsFromInfra :: "infra_config option \<Rightarrow> targets \<Rightarrow> string list" where
  "resolveTargetsFromInfra cfg t = (case cfg of
     None \<Rightarrow> []
   | Some c \<Rightarrow> map fst (filter (\<lambda>(key, server). \<not> List.member (tg_Exclude t) key \<and>
       (if tg_Names t \<noteq> [] then List.member (tg_Names t) key
        else if tg_Tags t \<noteq> [] then list_ex (\<lambda>wantTag. list_ex (\<lambda>serverTag. wantTag = serverTag) (db_Tags server)) (tg_Tags t)
        else True)) (ic_DBServers c)))"

definition toolNamesFromSteps :: "step list \<Rightarrow> string list" where
  "toolNamesFromSteps steps = rev (foldl (\<lambda>acc s. if List.member acc (st_Tool s) then acc else st_Tool s # acc) [] steps)"

definition filterStepsByName :: "step list \<Rightarrow> string list \<Rightarrow> step list" where
  "filterStepsByName steps names = filter (\<lambda>s. List.member names (st_Tool s)) steps"

definition validateStepArgs :: "json_map option \<Rightarrow> json_map \<Rightarrow> string option" where
  "validateStepArgs args schema =
     (let given = (case args of Some m \<Rightarrow> m | None \<Rightarrow> []);
          bad = (case schema_props schema of
            Some props \<Rightarrow> find (\<lambda>(a, _). map_of props a = None) given | None \<Rightarrow> None)
      in case bad of
           Some (a, _) \<Rightarrow> Some (''unknown parameter '' @ Quote a @ '' (not in schema)'')
         | None \<Rightarrow> (case find (\<lambda>k. map_of given k = None) (required_keys (map_of schema ''required'')) of
             Some k \<Rightarrow> Some (''missing required parameter '' @ Quote k)
           | None \<Rightarrow> None))"

definition fence :: string where
  "fence = [CHR 0x60, CHR 0x60, CHR 0x60]"

definition stripMarkdownFences :: "string \<Rightarrow> string" where
  "stripMarkdownFences s0 =
     (let s = TrimSpace s0 in
      if HasPrefix s (fence @ ''json'') then TrimSpace (TrimSuffix (TrimSpace (TrimPrefix s (fence @ ''json''))) fence)
      else if HasPrefix s fence then TrimSpace (TrimSuffix (TrimSpace (TrimPrefix s fence)) fence)
      else (case find (\<lambda>tag. HasPrefix s (tag @ [newline])) [''yaml'', ''json''] of
        Some tag \<Rightarrow> TrimSpace (TrimPrefix s (tag @ [newline]))
      | None \<Rightarrow> s))"

text \<open>The steps after removal of the superseded tools.\<close>

definition dedup_steps :: "registry \<Rightarrow> step list \<Rightarrow> step list" where
  "dedup_steps reg steps = filterStepsByName steps (ResolveSuperseded reg (toolNamesFromSteps steps))"

definition unknown_tags :: "infra_config \<Rightarrow> job_def \<Rightarrow> string list" where
  "unknown_tags c def = (let known = concat (map (\<lambda>(_, server). db_Tags server) (ic_DBServers c))
     in filter (\<lambda>tag. \<not> List.member known tag) (tg_Tags (jd_Targets def)))"

definition available_tags :: "infra_config \<Rightarrow> string list" where
  "available_tags c = insertionSort str_less (remdups (concat (map (\<lambda>(_, server). db_Tags server) (ic_DBServers c))))"

definition bad_args :: "registry \<Rightarrow> step \<Rightarrow> string option" where
  "bad_args reg s = (case registry_get reg (st_Tool s) of
     Some e \<Rightarrow> (case ry_InputSchema e of Some schema \<Rightarrow> validateStepArgs (st_Args s) schema | None \<Rightarrow> None)
   | None \<Rightarrow> None)"

text \<open>The first objection to a plan whose steps are deduplicated.\<close>

definition plan_objection :: "registry \<Rightarrow> infra_config \<Rightarrow> job_def \<Rightarrow> string option" where
  "plan_objection reg c def = (case find (\<lambda>s. registry_get reg (st_Tool s) = None) (jd_Steps def) of
     Some s \<Rightarrow> Some (''planner returned unknown tool '' @ Quote (st_Tool s))
   | None \<Rightarrow> (case find (\<lambda>s. bad_args reg s \<noteq> None) (jd_Steps def) of
       Some s \<Rightarrow> Some (''step '' @ Quote (st_Tool s) @ '' args invalid: '' @ the (bad_args reg s))
     | None \<Rightarrow>
         (if unknown_tags c def \<noteq> [] then
            Some (''planner used unknown tag(s) '' @ fmt_strs (unknown_tags c def) @ ''; available tags: '' @
              fmt_strs (available_tags c) @ '' '' @ em_dash @ '' refine the description'')
          else (case find (List.member (snd (buildPlannerInfraContext (Some c)))) (resolveTargetsFromInfra (Some c) (jd_Targets def)) of
            Some server \<Rightarrow> Some (''planner targeted restricted server '' @ Quote server @
              ''; add it to targets.exclude or refine the description'')
          | None \<Rightarrow> None))))"

definition snapshots_of :: "registry \<Rightarrow> time \<Rightarrow> step list \<Rightarrow> (string \<times> tool_snapshot) list" where
  "snapshots_of reg now steps = List.map_filter (\<lambda>t. map_option (\<lambda>e. (t, \<lparr>ts_AgentVersion = ry_AgentVersion e,
     ts_SchemaFingerprint = ry_SchemaFingerprint e, ts_CapturedAt = now\<rparr>)) (registry_get reg t)) (toolNamesFromSteps steps)"

definition written_steps :: "step list \<Rightarrow> string list" where
  "written_steps steps = map st_Tool (filter (\<lambda>s. class_IsApprovalRequired (ClassifyTool (st_Tool s))) steps)"

definition stamp_plan :: "registry \<Rightarrow> infra_config \<Rightarrow> fleet_plan_request \<Rightarrow> time \<Rightarrow> job_def \<Rightarrow> job_def" where
  "stamp_plan reg c req now def = def\<lparr>jd_ToolSnapshots := snapshots_of reg now (jd_Steps def),
     jd_PlanDescription := fp_Description req, jd_PlanTargetHints := fp_TargetHints req,
     jd_PlanServers := insertionSort str_less (resolveTargetsFromInfra (Some c) (jd_Targets def))\<rparr>"

section \<open>The handlers\<close>

definition planned :: "plan_reply \<Rightarrow> plan_codec \<Rightarrow> job_def \<Rightarrow> plan_response" where
  "planned reply pc def = \<lparr>pr_JobDef = def, pr_JobDefRaw = pc_indent pc def, pr_PlannerNotes = pl_PlannerNotes reply,
     pr_RequiresApproval = list_ex (\<lambda>s. class_IsApprovalRequired (ClassifyTool (st_Tool s))) (jd_Steps def),
     pr_WrittenSteps = written_steps (jd_Steps def), pr_ExcludedServers = pl_ExcludedServers reply,
     pr_WarningMessages = pl_WarningMessages reply\<rparr>"

text \<open>The answer for a description: the request to the model, the judgement of its reply, the stamped job
  and the event that records it.\<close>

definition plan_answer ::
  "plan_codec \<Rightarrow> gateway \<Rightarrow> (string \<Rightarrow> string) \<Rightarrow> gw_http \<Rightarrow> string \<Rightarrow> time \<Rightarrow> registry \<Rightarrow> infra_config \<Rightarrow> fleet_plan_request \<Rightarrow>
   plan_response response prog" where
  "plan_answer pc g fresh r traceID start reg c req =
     (let hints = (if fp_TargetHints req = [] then ''none'' else join_str '', '' (fp_TargetHints req));
          prompt = assemblePlannerPrompt (fst (buildPlannerInfraContext (Some c))) (buildPlannerToolCatalog reg)
            buildIntentSection (fp_Description req) hints (fp_Guidance req)
      in Call (plan_request prompt) (\<lambda>x. case x of
           Refused e \<Rightarrow> Return (502, Inl (''planner LLM call failed: '' @ e))
         | Response _ raw \<Rightarrow> (case pc_reply_of pc (stripMarkdownFences raw) of
             Inl e \<Rightarrow> Return (422, Inl (''planner returned unparseable JSON: '' @ e))
           | Inr reply \<Rightarrow>
               (let def = (pl_JobDef reply)\<lparr>jd_PlanTraceID := traceID, jd_Steps := dedup_steps reg (jd_Steps (pl_JobDef reply))\<rparr>
                in case plan_objection reg c def of
                     Some e \<Rightarrow> Return (422, Inl e)
                   | None \<Rightarrow> Now (\<lambda>now.
                       let job = stamp_plan reg c req now def in
                       bindP (finish g fresh ((request_base fresh r traceID start ''gateway'' ''fleet_plan'' [] (fp_Description req))
                           \<lparr>gr_ActionClass := ClassRead\<rparr>) ''success'' [] (pc_indent pc job)) (\<lambda>_.
                         Return (200, Inr (planned reply pc job))))))))"

definition fleet_plan ::
  "plan_codec \<Rightarrow> gateway \<Rightarrow> (string \<Rightarrow> string) \<Rightarrow> gw_http \<Rightarrow> fleet_plan_request body \<Rightarrow> plan_response response prog" where
  "fleet_plan pc g fresh r b = Now (\<lambda>start. case b of
     BadJSON e \<Rightarrow> Return (400, Inl (''invalid JSON body: '' @ e))
   | ReadError \<Rightarrow> Return (400, Inl ''invalid JSON body: '')
   | Body req \<Rightarrow>
       (if fp_Description req = [] then Return (400, Inl ''description is required'')
        else if \<not> gw_planner g then Return (503, Inl
          ''fleet planner LLM not configured (HELPDESK_MODEL_VENDOR, HELPDESK_MODEL_NAME, HELPDESK_API_KEY)'')
        else (case gw_infra g of
          None \<Rightarrow> Return (503, Inl ''fleet planner requires infrastructure config (HELPDESK_INFRA_CONFIG)'')
        | Some c \<Rightarrow> (case gw_registry g of
            None \<Rightarrow> Return (503, Inl ''fleet planner requires tool registry (no agents discovered)'')
          | Some reg \<Rightarrow> plan_answer pc g fresh r (NewTraceIDWithPrefix (fresh ''tid'') ''plan_'') start reg c req))))"

definition strs_json :: "string \<Rightarrow> string list \<Rightarrow> json_map" where
  "strs_json k xs = (if xs = [] then [] else [(k, JArr (map JStr xs))])"

definition fleet_plan_json :: "plan_codec \<Rightarrow> plan_response \<Rightarrow> json_map" where
  "fleet_plan_json pc p = [(''job_def'', pc_def pc (pr_JobDef p)), (''job_def_raw'', JStr (pr_JobDefRaw p)),
     (''planner_notes'', JStr (pr_PlannerNotes p)), (''requires_approval'', JBool (pr_RequiresApproval p))] @
     strs_json ''written_steps'' (pr_WrittenSteps p) @ strs_json ''excluded_servers'' (pr_ExcludedServers p) @
     strs_json ''warning_messages'' (pr_WarningMessages p)"

definition handleFleetPlan ::
  "plan_codec \<Rightarrow> gateway \<Rightarrow> (string \<Rightarrow> string) \<Rightarrow> gw_http \<Rightarrow> fleet_plan_request body \<Rightarrow> capture prog" where
  "handleFleetPlan pc g fresh r b = bindP (fleet_plan pc g fresh r b) (\<lambda>(code, x).
     let traceID = NewTraceIDWithPrefix (fresh ''tid'') ''plan_'' in
     Return (case x of
       Inl e \<Rightarrow> writeError traceID code e
     | Inr p \<Rightarrow> \<lparr>cp_code = code, cp_trace = traceID, cp_mismatch = False, cp_body = fleet_plan_json pc p\<rparr>))"

definition handleFleetSnapshot :: "plan_codec \<Rightarrow> gateway \<Rightarrow> job_def body \<Rightarrow> (job_def \<times> string) response prog" where
  "handleFleetSnapshot pc g b = (case gw_registry g of
     None \<Rightarrow> Return (503, Inl ''fleet snapshot requires tool registry'')
   | Some reg \<Rightarrow> (case b of
       BadJSON e \<Rightarrow> Return (400, Inl (''invalid request body: '' @ e))
     | ReadError \<Rightarrow> Return (400, Inl ''invalid request body: '')
     | Body def \<Rightarrow>
         (if jd_Steps def = [] then Return (400, Inl ''job_def has no steps'')
          else (case find (\<lambda>s. registry_get reg (st_Tool s) = None) (jd_Steps def) of
            Some s \<Rightarrow> Return (422, Inl (''unknown tool '' @ Quote (st_Tool s)))
          | None \<Rightarrow> Now (\<lambda>now. let job = def\<lparr>jd_ToolSnapshots := snapshots_of reg now (jd_Steps def)\<rparr>
              in Return (200, Inr (job, pc_indent pc job)))))))"

section \<open>The plan and the runner\<close>

text \<open>The catalog as the fleet runner reads it from the gateway.\<close>

definition live_entry :: "registry_entry \<Rightarrow> tool_entry" where
  "live_entry e = \<lparr>te_Name = ry_Name e, te_SchemaFingerprint = ry_SchemaFingerprint e, te_AgentVersion = ry_AgentVersion e\<rparr>"

definition live_of :: "registry \<Rightarrow> tool_entry list" where
  "live_of reg = map live_entry reg"

lemma live_lookup:
  "map_of (rev (map (\<lambda>t. (te_Name t, t)) (live_of reg))) tool = map_option live_entry (registry_get reg tool)"
proof -
  have "map_of (map (\<lambda>t. (te_Name t, t)) (map live_entry es)) tool = map_option live_entry (find (\<lambda>e. ry_Name e = tool) es)" for es
    by (induction es) (auto simp: live_entry_def)
  then show ?thesis by (simp add: live_of_def registry_get_def rev_map)
qed

lemma no_drift:
  assumes "list_all (\<lambda>(tool, snap). \<exists>e. lk tool = Some e \<and> ts_AgentVersion snap = te_AgentVersion e \<and>
    ts_SchemaFingerprint snap = te_SchemaFingerprint e) snaps"
  shows "drift_loop lk policy snaps results = (results, None)"
  using assms by (induction snaps arbitrary: results) (auto simp: Let_def)

lemma toolNames_set: "set (toolNamesFromSteps steps) = st_Tool ` set steps"
proof -
  have "set (foldl (\<lambda>acc s. if List.member acc (st_Tool s) then acc else st_Tool s # acc) acc steps) = set acc \<union> st_Tool ` set steps" for acc
    by (induction steps arbitrary: acc) auto
  then show ?thesis by (simp add: toolNamesFromSteps_def)
qed

lemma snapshots_cover:
  assumes "list_all (\<lambda>s. registry_get reg (st_Tool s) \<noteq> None) steps" "steps \<noteq> []"
  shows "CheckSchemaDrift (snapshots_of reg now steps) (live_of reg) policy = ([], None)"
proof -
  have "snapshots_of reg now steps \<noteq> []"
  proof -
    obtain s rest where s: "steps = s # rest" using assms(2) by (cases steps) auto
    then have "st_Tool s \<in> set (toolNamesFromSteps steps)" by (simp add: toolNames_set)
    with assms(1) s show ?thesis by (auto simp: snapshots_of_def List.map_filter_def filter_empty_conv)
  qed
  moreover have "drift_loop (map_of (rev (map (\<lambda>t. (te_Name t, t)) (live_of reg)))) policy (snapshots_of reg now steps) [] = ([], None)"
    by (rule no_drift) (auto simp: live_lookup live_entry_def snapshots_of_def List.map_filter_def list_all_iff)
  ultimately show ?thesis by (simp add: CheckSchemaDrift_def)
qed

lemma targets_agree:
  assumes "tg_Names t = [] \<or> tg_Tags t = []"
  shows "resolveTargets (Some c) t = Inr (resolveTargetsFromInfra (Some c) t)"
proof -
  have "filter (\<lambda>k. k \<notin> X) (map fst xs) = map fst (filter (\<lambda>(k, _). k \<notin> X) xs)" for X and xs :: "(string \<times> db_server) list"
    by (induction xs) auto
  then show ?thesis
    using assms by (auto simp: resolveTargets_def resolveTargetsFromInfra_def Let_def eq_commute intro!: arg_cong [where f = "map fst"] filter_cong)
qed

lemma fleet_plan_accepts:
  assumes "run w (fleet_plan pc g fresh r b) n = ((code, Inr p), n')"
  obtains req c reg reply def now where "b = Body req" "gw_infra g = Some c" "gw_registry g = Some reg" "code = 200"
    "plan_objection reg c def = None" "p = planned reply pc (stamp_plan reg c req now def)"
proof -
  have "\<exists>reply def now. code = 200 \<and> plan_objection reg c def = None \<and> p = planned reply pc (stamp_plan reg c req now def)"
    if "run w (plan_answer pc g fresh r tid start reg c req) n = ((code, Inr p), n')" for tid start reg c req
    using that unfolding plan_answer_def Let_def
    by (auto simp: run_bindP Let_def split: prod.splits http_reply.splits sum.splits option.splits)
  moreover have "\<exists>req c reg tid start. b = Body req \<and> gw_infra g = Some c \<and> gw_registry g = Some reg \<and>
      run w (plan_answer pc g fresh r tid start reg c req) n = ((code, Inr p), n')"
    using assms unfolding fleet_plan_def by (auto split: body.splits if_splits option.splits)
  ultimately show thesis using that by blast
qed

lemma objection_None:
  assumes "plan_objection reg c def = None"
  shows "list_all (\<lambda>s. registry_get reg (st_Tool s) \<noteq> None \<and> bad_args reg s = None) (jd_Steps def)"
    and "unknown_tags c def = []"
    and "find (List.member (snd (buildPlannerInfraContext (Some c)))) (resolveTargetsFromInfra (Some c) (jd_Targets def)) = None"
  using assms unfolding plan_objection_def
  by (auto simp: list_all_iff find_None_iff split: option.splits if_splits)

lemma known_tags:
  assumes "unknown_tags c def = []"
  shows "list_all (\<lambda>tag. list_ex (\<lambda>(_, server). List.member (db_Tags server) tag) (ic_DBServers c)) (tg_Tags (jd_Targets def))"
  using assms by (force simp: unknown_tags_def list_all_iff list_ex_iff filter_empty_conv)

lemma not_restricted:
  assumes "find (List.member (snd (buildPlannerInfraContext (Some c)))) servers = None"
  shows "list_all (\<lambda>(key, server). List.member servers key \<longrightarrow> db_Sensitivity server = []) (ic_DBServers c)"
  using assms by (force simp: buildPlannerInfraContext_def find_None_iff list_all_iff split: if_splits)


lemma tool_needs_approval:
  "class_IsApprovalRequired (ClassifyTool t) \<longleftrightarrow> map_of ToolClassification t = Some ClassWrite \<or> map_of ToolClassification t = Some ClassDestructive"
  using ClassifyTool_known [of t] by (cases "map_of ToolClassification t") (auto simp: ClassifyTool_def class_IsApprovalRequired_def)

text \<open>C22: the fleet runner takes a planned job as the planner presented it: the announced need for approval
  is the one the runner computes from the steps, the announced steps are those that write, and against the
  catalog of the planner the schema drift check finds nothing, whatever its policy.\<close>

theorem planned_job_accepted:
  assumes "run w (fleet_plan pc g fresh r b) n = ((code, Inr p), n')"
    and "gw_registry g = Some reg" "jd_Steps (pr_JobDef p) \<noteq> []"
  shows "pr_RequiresApproval p = class_IsApprovalRequired (jobActionClass (jd_Steps (pr_JobDef p))) \<and>
    (pr_RequiresApproval p \<longleftrightarrow> pr_WrittenSteps p \<noteq> []) \<and>
    CheckSchemaDrift (jd_ToolSnapshots (pr_JobDef p)) (live_of reg) policy = ([], None)"
proof -
  obtain req c reply def now where ok: "plan_objection reg c def = None" and p: "p = planned reply pc (stamp_plan reg c req now def)"
    using assms(1,2) by (metis fleet_plan_accepts option.inject)
  have steps: "jd_Steps (pr_JobDef p) = jd_Steps def" "jd_ToolSnapshots (pr_JobDef p) = snapshots_of reg now (jd_Steps def)"
    by (simp_all add: p planned_def stamp_plan_def)
  have "list_all (\<lambda>s. registry_get reg (st_Tool s) \<noteq> None) (jd_Steps def)"
    using objection_None(1) [OF ok] by (simp add: list_all_iff)
  then have "CheckSchemaDrift (jd_ToolSnapshots (pr_JobDef p)) (live_of reg) policy = ([], None)"
    using assms(3) snapshots_cover steps by metis
  moreover have "pr_RequiresApproval p = list_ex (\<lambda>s. class_IsApprovalRequired (ClassifyTool (st_Tool s))) (jd_Steps def)"
    "pr_WrittenSteps p = written_steps (jd_Steps def)"
    by (simp_all add: p planned_def stamp_plan_def)
  ultimately show ?thesis
    by (auto simp: steps written_steps_def filter_empty_conv list_ex_iff approval_required_iff tool_needs_approval)
qed

section \<open>A sample fleet\<close>

definition sample_server :: "string list \<Rightarrow> db_server" where
  "sample_server sensitivity = \<lparr>db_Name = [], db_ConnectionString = [], db_PasswordEnv = [], db_K8sCluster = [], db_K8sNamespace = [],
     db_K8sPodSelector = [], db_VMName = [], db_ContainerName = [], db_SystemdUnit = [], db_Tags = [''prod''],
     db_Sensitivity = sensitivity, db_ApprovalOverrideRoles = []\<rparr>"

definition sample_inventory :: infra_config where
  "sample_inventory = \<lparr>ic_DBServers = [(''a'', sample_server []), (''b'', sample_server [''pii''])], ic_K8sClusters = [], ic_VMs = []\<rparr>"

definition sample_tool :: registry_entry where
  "sample_tool = \<lparr>ry_Name = ''get_status_summary'', ry_Agent = ''database'', ry_Description = [], ry_InputSchema = None,
     ry_ActionClass = ClassRead, ry_FleetEligible = True, ry_AutoRemediationEligible = False, ry_Capabilities = [], ry_Supersedes = [],
     ry_AgentVersion = ''1'', ry_SchemaFingerprint = ''f''\<rparr>"

definition sample_fleet :: gateway where
  "sample_fleet = sample_gateway\<lparr>gw_infra := Some sample_inventory, gw_registry := Some [sample_tool]\<rparr>"

text \<open>A reply that selects the server \<open>a\<close> by name and further servers by tags.\<close>

definition sample_job :: "string list \<Rightarrow> job_def" where
  "sample_job tags = \<lparr>jd_Name = ''health'', jd_Steps = [\<lparr>st_Agent = ''database'', st_Tool = ''get_status_summary'', st_Args = None,
       st_OnFailure = []\<rparr>], jd_Targets = \<lparr>tg_Tags = tags, tg_Names = [''a''], tg_Exclude = []\<rparr>,
     jd_Strategy = \<lparr>sy_CanaryCount = 1, sy_WaveSize = 0, sy_WavePauseSeconds = 0, sy_FailureThreshold = 1 / 2, sy_DryRun = False,
       sy_CountPartialAsSuccess = False, sy_ApprovalTimeoutSeconds = 0, sy_WaveGate = False, sy_SchemaDrift = []\<rparr>,
     jd_PlanTraceID = [], jd_ToolSnapshots = [], jd_PlanDescription = [], jd_PlanTargetHints = [], jd_PlanServers = []\<rparr>"

definition sample_plan_codec :: "string list \<Rightarrow> plan_codec" where
  "sample_plan_codec tags = \<lparr>pc_reply_of = (\<lambda>_. Inr \<lparr>pl_JobDef = sample_job tags, pl_PlannerNotes = [], pl_ExcludedServers = [],
     pl_WarningMessages = []\<rparr>), pc_def = (\<lambda>_. JNull), pc_indent = (\<lambda>_. [])\<rparr>"

definition sample_http :: gw_http where
  "sample_http = \<lparr>ir_Method = ''POST'', ir_Path = ''/api/v1/fleet/plan'', ir_Header = (\<lambda>_. []), ir_Principal = zero_principal,
     ir_Approval = None\<rparr>"

definition sample_plan_request :: fleet_plan_request where
  "sample_plan_request = \<lparr>fp_Description = ''check health'', fp_TargetHints = [], fp_Guidance = []\<rparr>"

lemma sample_dedup: "dedup_steps [sample_tool] (jd_Steps (sample_job tags)) = jd_Steps (sample_job tags)"
  by (simp add: dedup_steps_def filterStepsByName_def toolNamesFromSteps_def ResolveSuperseded_def supersedes_of_def registry_get_def
      sample_tool_def sample_job_def)

lemma sample_accepted:
  assumes "tags \<in> {[], [''prod'']}"
  shows "plan_objection [sample_tool] sample_inventory (sample_job tags\<lparr>jd_PlanTraceID := tid\<rparr>) = None"
  using assms
  by (auto simp: plan_objection_def bad_args_def registry_get_def sample_tool_def sample_job_def unknown_tags_def
      sample_inventory_def sample_server_def buildPlannerInfraContext_def resolveTargetsFromInfra_def)

lemma sample_plan:
  assumes "tags \<in> {[], [''prod'']}"
  shows "\<exists>p n'. run ok_world (fleet_plan (sample_plan_codec tags) sample_fleet (\<lambda>_. []) sample_http (Body sample_plan_request)) idle =
      ((200, Inr p), n') \<and> jd_Targets (pr_JobDef p) = jd_Targets (sample_job tags) \<and> jd_Steps (pr_JobDef p) \<noteq> []"
proof -
  have "sample_job tags\<lparr>jd_PlanTraceID := tid, jd_Steps := dedup_steps [sample_tool] (jd_Steps (sample_job tags))\<rparr> =
      sample_job tags\<lparr>jd_PlanTraceID := tid\<rparr>" for tid
    unfolding sample_dedup by (simp add: sample_job_def)
  with sample_accepted [OF assms] show ?thesis
    by (simp add: fleet_plan_def plan_answer_def Let_def send_def ok_world_def sample_fleet_def sample_gateway_def
        sample_plan_request_def sample_plan_codec_def finish_def recordAudit_def planned_def stamp_plan_def)
      (simp add: sample_job_def)
qed


theorem planned_job_accepted_witness:
  "\<exists>p n'. run ok_world (fleet_plan (sample_plan_codec []) sample_fleet (\<lambda>_. []) sample_http (Body sample_plan_request)) idle =
      ((200, Inr p), n') \<and> CheckSchemaDrift (jd_ToolSnapshots (pr_JobDef p)) (live_of [sample_tool]) ''abort'' = ([], None)"
proof -
  obtain p n' where p: "run ok_world (fleet_plan (sample_plan_codec []) sample_fleet (\<lambda>_. []) sample_http (Body sample_plan_request)) idle =
      ((200, Inr p), n')" and s: "jd_Steps (pr_JobDef p) \<noteq> []"
    using sample_plan [of "[]"] by auto
  have "gw_registry sample_fleet = Some [sample_tool]"
    by (simp add: sample_fleet_def)
  from planned_job_accepted [OF p this s, of "''abort''"] p show ?thesis by blast
qed

text \<open>A plan that names servers and tags passes the check for the named servers only, while the runner
  takes the union: the restricted server \<open>b\<close> is not in the checked plan and is contacted.\<close>

theorem restricted_server_reached:
  "\<exists>p n' servers. run ok_world (fleet_plan (sample_plan_codec [''prod'']) sample_fleet (\<lambda>_. []) sample_http (Body sample_plan_request)) idle =
      ((200, Inr p), n') \<and> resolveTargets (Some sample_inventory) (jd_Targets (pr_JobDef p)) = Inr servers \<and> List.member servers ''b'' \<and>
    List.member (snd (buildPlannerInfraContext (Some sample_inventory))) ''b''"
proof -
  have "resolveTargets (Some sample_inventory) (jd_Targets (sample_job [''prod''])) = Inr [''a'', ''b'']"
    "List.member (snd (buildPlannerInfraContext (Some sample_inventory))) ''b''"
    by (simp_all add: resolveTargets_def sample_inventory_def sample_server_def sample_job_def buildPlannerInfraContext_def)
  with sample_plan [of "[''prod'']"] show ?thesis by fastforce
qed

end
