(* ===== verification/Playbook_Chain.thy ===== *)
theory Playbook_Chain
  imports Playbook_Prompt Gateway_Planner
begin

text \<open>
  Agent-mode playbook runs of the gateway (\<^verbatim>\<open>cmd/gateway/playbooks.go\<close>): one run of an agent with
  the signals of its answer checked against the playbook, the chain of follow-up playbooks with its gates,
  the operator's answer to a gate, and the entry point that chooses between the execution modes. What the
  gateway takes from libraries is the record \<open>gw_lib\<close>; \<open>fresh\<close> names the random identifiers by their use,
  one family per agent run. A response body is the decoded object.
\<close>

record gw_lib =
  gl_cd :: codec
  gl_ec :: event_codec
  gl_sc :: store_codec
  gl_a2a :: gw_a2a
  gl_first :: "string \<Rightarrow> string option"
  gl_hmac :: "string \<Rightarrow> string \<Rightarrow> string"
  gl_srt :: hy_sort
  gl_sortStrings :: "string list \<Rightarrow> string list"
  gl_regex :: "string \<Rightarrow> string \<Rightarrow> bool option"
  gl_plan :: plan_codec

definition put_field :: "string \<Rightarrow> json option \<Rightarrow> fields \<Rightarrow> fields" where
  "put_field k v fs = filter (\<lambda>(k', _). k' \<noteq> k) fs @ [(k, v)]"

definition put_str_field :: "string \<Rightarrow> string \<Rightarrow> fields \<Rightarrow> fields" where
  "put_str_field k s fs = (if s = [] then fs else put_field k (Some (JStr s)) fs)"

definition injectFields :: "capture \<Rightarrow> fields \<Rightarrow> capture" where
  "injectFields c extra = (if extra = [] \<or> cp_code c \<noteq> 200 then c
     else (case encode_fields extra (cp_body c) of None \<Rightarrow> c | Some b \<Rightarrow> c\<lparr>cp_body := b\<rparr>))"

definition capturedText :: "capture \<Rightarrow> string" where
  "capturedText c = (if cp_code c \<noteq> 200 then [] else str_or_empty (map_of (cp_body c) ''text''))"

definition appendChainedText :: "capture \<Rightarrow> capture \<Rightarrow> capture" where
  "appendChainedText primary chained =
     (if cp_code chained \<noteq> 200 then primary
      else (let t = str_or_empty (map_of (cp_body chained) ''text'') in
        if t = [] then primary
        else primary\<lparr>cp_body := json_put ''text'' (JStr (str_or_empty (map_of (cp_body primary) ''text'') @
          [newline, newline] @ ''---'' @ [newline, newline] @ t)) (cp_body primary)\<rparr>))"

section \<open>One run of an agent\<close>

record agent_run =
  xr_capture :: capture
  xr_traceID :: string
  xr_runStart :: time
  xr_outcome :: string
  xr_escalatedTo :: string
  xr_transitionTo :: string
  xr_findings :: string
  xr_report :: "diagnostic_report option"
  xr_runID :: string
  xr_series :: string
  xr_agent :: string

definition recordEscalationDecision ::
  "gateway \<Rightarrow> (string \<Rightarrow> string) \<Rightarrow> string \<Rightarrow> principal \<Rightarrow> playbook \<Rightarrow> string \<Rightarrow> string \<Rightarrow> bool \<Rightarrow> unit prog" where
  "recordEscalationDecision g fresh traceID0 p pb nextSeries findings isTransition = (case gw_auditor g of
     None \<Rightarrow> Return ()
   | Some a \<Rightarrow> Now (\<lambda>now.
       let traceID = (if traceID0 = [] then NewTraceIDWithPrefix (fresh ''tid'') ''tr_'' else traceID0);
           noun = (if isTransition then ''transition'' else ''escalation'');
           verb = (if isTransition then ''transition'' else ''escalate'') in
       bindP (RecordEvent a (zero_event\<lparr>ev_EventID := ''ps_'' @ take 8 (fresh ''decision''), ev_Timestamp := now,
           ev_EventType := EventTypeDelegation, ev_TraceID := traceID,
           ev_Principal := (if EffectiveID p = [] then None else Some p),
           ev_Session := (ev_Session zero_event)\<lparr>ss_ID := traceID\<rparr>,
           ev_Input := \<lparr>in_UserQuery = ''playbook '' @ noun @ '' from '' @ pb_SeriesID pb, in_InfrastructureContext = []\<rparr>,
           ev_Decision := Some \<lparr>rd_Agent = nextSeries, rd_RequestCategory = ''incident'', rd_Confidence = ''1'',
             rd_UserIntent = verb @ '' from playbook '' @ pb_SeriesID pb @ '' to '' @ nextSeries,
             rd_ReasoningChain = [''agent signalled '' @ (if isTransition then ''TRANSITION_TO'' else ''ESCALATE_TO'') @
                 '' during playbook run: '' @ pb_SeriesID pb,
               (if isTransition then ''transitioning'' else ''escalating'') @ '' to next playbook: '' @ nextSeries] @
               (if findings = [] then [] else [''findings: '' @ findings]), rd_AlternativesConsidered = []\<rparr>,
           ev_Outcome := Some \<lparr>oc_Status = ''success'', oc_ErrorMessage = [], oc_Duration = 0\<rparr>\<rparr>)) (\<lambda>_. Return ())))"

text \<open>Targets that the playbook does not allow are replaced by the request for an operator.\<close>

definition checked_signals :: "playbook \<Rightarrow> agent_escalation \<Rightarrow> agent_escalation" where
  "checked_signals pb e =
     (let e = (if ae_TransitionTo e \<noteq> [] \<and> \<not> isAllowedNextPlaybook (Some pb) (ae_TransitionTo e) directiveTransition
           then e\<lparr>ae_TransitionTo := [], ae_EscalateTo := ''requires_operator_approval''\<rparr> else e)
      in if ae_EscalateTo e \<noteq> [] \<and> \<not> isAllowedNextPlaybook (Some pb) (ae_EscalateTo e) directiveEscalate
         then e\<lparr>ae_EscalateTo := ''requires_operator_approval''\<rparr> else e)"

definition with_approval :: "gw_http \<Rightarrow> playbook_run_request \<Rightarrow> gw_http" where
  "with_approval r req = (if rq_ApprovalMode req = [] then r
     else r\<lparr>ir_Approval := Some \<lparr>ac_mode = rq_ApprovalMode req, ac_sessionID = rq_ApprovalSession req\<rparr>\<rparr>)"

text \<open>The answer of the agent read into the result of a run.\<close>

definition read_answer ::
  "gateway \<Rightarrow> (string \<Rightarrow> string) \<Rightarrow> gw_http \<Rightarrow> playbook \<Rightarrow> string \<Rightarrow> agent_run \<Rightarrow> agent_run prog" where
  "read_answer g fresh r pb t res =
     (let e = checked_signals pb (parseAgentEscalation t);
          res = res\<lparr>xr_report := parseDiagnosticReport t, xr_findings := ae_Findings e,
            xr_capture := (xr_capture res)\<lparr>cp_body := json_put ''text'' (JStr (ae_CleanText e)) (cp_body (xr_capture res))\<rparr>\<rparr>
      in if ae_TransitionTo e \<noteq> [] then
           bindP (recordEscalationDecision g fresh (xr_traceID res) (ir_Principal r) pb (ae_TransitionTo e) (ae_Findings e) True)
             (\<lambda>_. Return (res\<lparr>xr_outcome := ''transitioned'', xr_transitionTo := ae_TransitionTo e\<rparr>))
         else if ae_EscalateTo e \<noteq> [] then
           bindP (if List.member terminalEscalations (ae_EscalateTo e) then Return ()
                  else recordEscalationDecision g fresh (xr_traceID res) (ir_Principal r) pb (ae_EscalateTo e) (ae_Findings e) False)
             (\<lambda>_. Return (res\<lparr>xr_outcome := ''escalated'', xr_escalatedTo := ae_EscalateTo e\<rparr>))
         else Return (if ae_Findings e \<noteq> [] then res\<lparr>xr_outcome := ''resolved''\<rparr> else res))"

definition runAgentPlaybook ::
  "gw_lib \<Rightarrow> gateway \<Rightarrow> (string \<Rightarrow> string) \<Rightarrow> gw_http \<Rightarrow> playbook \<Rightarrow> playbook_run_request \<Rightarrow> string \<Rightarrow> string \<Rightarrow> agent_run prog" where
  "runAgentPlaybook L g fresh r pb req agentName0 runID =
     (let agentName = default_to ''postgres_database_agent'' (default_to (pb_AgentName pb) agentName0);
          hint = buildServerTypeHint (gw_infra g) (rq_ConnectionString req);
          prompt = (if gw_crystalBall g then assembleCrystalBallPrompt req hint else assembleTriagePrompt pb req hint);
          r = with_approval r req
      in Now (\<lambda>start. bindP (proxyToAgent (gl_cd L) (gl_ec L) (gl_sc L) (gl_a2a L) g fresh r agentName (rq_ContextID req) prompt) (\<lambda>c.
        let res = \<lparr>xr_capture = c, xr_traceID = cp_trace c, xr_runStart = start, xr_outcome = ''unknown'', xr_escalatedTo = [],
              xr_transitionTo = [], xr_findings = [], xr_report = None, xr_runID = runID, xr_series = pb_SeriesID pb,
              xr_agent = agentName\<rparr>
        in if cp_code c \<noteq> 200 then Return res
           else (case as_str (map_of (cp_body c) ''text'') of
             None \<Rightarrow> Return res
           | Some t \<Rightarrow> read_answer g fresh r pb t res))))"

section \<open>The chain of follow-up playbooks\<close>

definition canAutoChain :: "gw_lib \<Rightarrow> gateway \<Rightarrow> string \<Rightarrow> string \<Rightarrow> playbook \<Rightarrow> bool prog" where
  "canAutoChain L g mode sessionID target =
     (if mode = ''force'' then Return True
      else if pb_ApprovalMode target = [] \<or> pb_ApprovalMode target = ''manual'' then Return False
      else if mode = ''auto'' then Return True
      else if mode = ''session'' then
        bindP (fetchApprovalSession (gl_cd L) (gl_sc L) g sessionID) (\<lambda>x. case x of
          Inl _ \<Rightarrow> Return False
        | Inr s \<Rightarrow> Now (\<lambda>now. Return (session_IsValid now (Some s) ClassEscalation)))
      else Return False)"

definition zero_run_request :: playbook_run_request where
  "zero_run_request = \<lparr>rq_ConnectionString = [], rq_Context = [], rq_TriggerContext = [], rq_ContextID = [], rq_PriorRunID = [],
     rq_PriorFindings = [], rq_ApprovalMode = [], rq_ApprovalSession = [], rq_GateEscalation = False, rq_RemediationSeriesID = [],
     rq_Purpose = [], rq_PurposeNote = []\<rparr>"

text \<open>The findings of an earlier run, empty when there is none.\<close>

definition prior_findings :: "gw_lib \<Rightarrow> gateway \<Rightarrow> string \<Rightarrow> string prog" where
  "prior_findings L g runID = (if runID = [] then Return []
     else bindP (fetchPlaybookRun (gl_cd L) (gl_sc L) g runID) (\<lambda>x. Return (case x of Inr p \<Rightarrow> pn_FindingsSummary p | Inl _ \<Rightarrow> [])))"

definition completeRun :: "gw_lib \<Rightarrow> gateway \<Rightarrow> agent_run \<Rightarrow> unit prog list" where
  "completeRun L g x = (if xr_runID x = [] then [] else [recordPlaybookRunComplete (gl_cd L) (gl_sc L) g (xr_runID x) (xr_outcome x)
     (xr_escalatedTo x) (xr_transitionTo x) (xr_findings x) (capturedText (xr_capture x)) (xr_traceID x) (xr_report x)])"

definition chainEscalation ::
  "gw_lib \<Rightarrow> gateway \<Rightarrow> (string \<Rightarrow> string) \<Rightarrow> gw_http \<Rightarrow> playbook_run_request \<Rightarrow> agent_run \<Rightarrow> playbook \<Rightarrow>
   (agent_run \<times> unit prog list) option prog" where
  "chainEscalation L g fresh r req prev nextPB =
     (if gw_auditURL g = [] then Return None
      else bindP (prior_findings L g (xr_runID prev)) (\<lambda>findings.
        let chainReq = zero_run_request\<lparr>rq_ConnectionString := rq_ConnectionString req, rq_Context := rq_Context req,
              rq_PriorRunID := xr_runID prev, rq_PriorFindings := findings, rq_ApprovalMode := rq_ApprovalMode req,
              rq_ApprovalSession := rq_ApprovalSession req\<rparr>
        in bindP (recordPlaybookRunStart (gl_cd L) (gl_sc L) g nextPB (rq_ContextID req) (rq_ConnectionString req)
              (ir_Header r ''X-Trace-ID'') (xr_runID prev) [] (ir_Header r ''X-User'')) (\<lambda>chainRunID.
          bindP (runAgentPlaybook L g fresh r nextPB chainReq (pb_AgentName nextPB) chainRunID) (\<lambda>x.
            Return (Some (x, completeRun L g x))))))"

definition buildSuggestedNext :: "string \<Rightarrow> playbook_run_request \<Rightarrow> string \<Rightarrow> string \<Rightarrow> json" where
  "buildSuggestedNext seriesID req priorRunID findings = JObj [(''playbook_series_id'', JStr seriesID), (''reason'', JStr findings),
     (''request'', JObj [(''connection_string'', JStr (rq_ConnectionString req)), (''prior_run_id'', JStr priorRunID),
       (''context'', JStr findings), (''approval_mode'', JStr (rq_ApprovalMode req))])]"

definition operator_needed :: "string \<Rightarrow> json" where
  "operator_needed token = JObj [(''escalation_token'', JStr token),
     (''message'', JStr ''This action requires explicit operator approval before it can proceed.''),
     (''requires_operator_approval'', JBool True)]"

record chain_entry =
  ce_Step :: nat
  ce_Series :: string
  ce_Agent :: string
  ce_RunID :: string
  ce_Findings :: string
  ce_Text :: string
  ce_Report :: "diagnostic_report option"

definition entry_of :: "nat \<Rightarrow> agent_run \<Rightarrow> chain_entry" where
  "entry_of k x = \<lparr>ce_Step = k, ce_Series = xr_series x, ce_Agent = xr_agent x, ce_RunID = xr_runID x, ce_Findings = xr_findings x,
     ce_Text = capturedText (xr_capture x), ce_Report = xr_report x\<rparr>"

definition report_field :: "store_codec \<Rightarrow> diagnostic_report option \<Rightarrow> json option" where
  "report_field sc r = (case r of None \<Rightarrow> Some JNull | Some d \<Rightarrow> sc_report sc d)"

definition entry_json :: "store_codec \<Rightarrow> chain_entry \<Rightarrow> json option" where
  "entry_json sc e =
     (let base = [(''step'', JNum (int (ce_Step e))), (''playbook_series_id'', JStr (ce_Series e)), (''agent_name'', JStr (ce_Agent e))] @
        omit ''run_id'' (ce_RunID e) @ omit ''findings'' (ce_Findings e) @ omit ''text'' (ce_Text e)
      in case ce_Report e of
           None \<Rightarrow> Some (JObj base)
         | Some d \<Rightarrow> map_option (\<lambda>j. JObj (base @ [(''diagnostic_report'', j)])) (sc_report sc d))"

definition chain_json :: "store_codec \<Rightarrow> chain_entry list \<Rightarrow> json option" where
  "chain_json sc es = (let js = map (entry_json sc) es in if list_all (\<lambda>j. j \<noteq> None) js then Some (JArr (map the js)) else None)"

record chain_state =
  cs_extra :: fields
  cs_outcome :: string
  cs_escalatedTo :: string
  cs_transitionedTo :: string
  cs_findings :: string
  cs_report :: "diagnostic_report option"
  cs_chain :: "chain_entry list"
  cs_prev :: agent_run
  cs_capture :: capture
  cs_gate :: bool
  cs_background :: "unit prog list"

text \<open>A gate: the fields of the response and the notification. \<open>preview\<close> is the follow-up playbook when
  it could be fetched.\<close>

definition preview_json :: "playbook \<Rightarrow> json" where
  "preview_json pb = JObj [(''series_id'', JStr (pb_SeriesID pb)), (''name'', JStr (pb_Name pb)),
     (''description'', JStr (pb_Description pb)), (''approval_mode'', JStr (pb_ApprovalMode pb))]"

definition gate_target :: "bool \<Rightarrow> string" where
  "gate_target isTransition = (if isTransition then ''transition_target'' else ''escalation_target'')"

definition gate_fields :: "store_codec \<Rightarrow> agent_run \<Rightarrow> string \<Rightarrow> bool \<Rightarrow> playbook option \<Rightarrow> fields \<Rightarrow> fields" where
  "gate_fields sc prev nextSeries isTransition preview x =
     (case confidenceWarning (xr_report prev) of (warn, suggestedMode) \<Rightarrow>
        (let x = put_field ''status'' (Some (JStr ''pending_gate'')) x;
             x = put_field ''escalation_findings'' (Some (JStr (xr_findings prev))) x;
             x = put_field (gate_target isTransition) (Some (JStr nextSeries)) x;
             x = put_field ''gate_type'' (Some (JStr (if isTransition then ''transition'' else ''escalation''))) x;
             x = (if warn = [] then x else put_field ''suggested_approval_mode'' (Some (JStr suggestedMode))
               (put_field ''confidence_warning'' (Some (JStr warn)) x));
             x = (case preview of Some pb \<Rightarrow> put_field ''remediation_preview'' (Some (preview_json pb)) x | None \<Rightarrow> x)
         in case xr_report prev of Some d \<Rightarrow> put_field ''diagnostic_report'' (sc_report sc d) x | None \<Rightarrow> x))"

definition kept_field :: "fields \<Rightarrow> string \<Rightarrow> fields" where
  "kept_field x k = (case map_of x k of Some v \<Rightarrow> [(k, v)] | None \<Rightarrow> [])"

definition resolve_url :: "gateway \<Rightarrow> string \<Rightarrow> string" where
  "resolve_url g runID = TrimSuffix (gw_baseURL g) ''/'' @ ''/api/v1/decisions/gate:'' @ runID @ ''/resolve''"

definition notify_gate :: "gw_lib \<Rightarrow> gateway \<Rightarrow> gw_http \<Rightarrow> agent_run \<Rightarrow> string \<Rightarrow> bool \<Rightarrow> fields \<Rightarrow> unit prog list" where
  "notify_gate L g r prev nextSeries isTransition x =
     (if xr_runID prev = [] then []
      else NotifyPending (gl_cd L) (gl_hmac L) (gw_notifier g) \<lparr>dn_ID = ''gate:'' @ xr_runID prev, dn_Type = DecisionTypeGate,
        dn_Status = ''pending'',
        dn_Summary = ''Triage complete '' @ em_dash @ (if isTransition then '' TRANSITION_TO '' else '' ESCALATE_TO '') @ nextSeries,
        dn_RequestedBy = ir_Header r ''X-User'', dn_ResolveURL = resolve_url g (xr_runID prev),
        dn_Extra = [(''gate_type'', Some (JStr (if isTransition then ''transition'' else ''escalation''))),
          (''findings'', Some (JStr (xr_findings prev))), (gate_target isTransition, Some (JStr nextSeries))] @
          put_str_field ''confidence_warning'' (fst (confidenceWarning (xr_report prev))) [] @
          kept_field x ''remediation_preview'' @ kept_field x ''diagnostic_report''\<rparr>)"

text \<open>The run stops at a gate: its outcome is pending, with the target and the findings of the last run.\<close>

definition open_gate ::
  "gw_lib \<Rightarrow> gateway \<Rightarrow> gw_http \<Rightarrow> string \<Rightarrow> bool \<Rightarrow> chain_state \<Rightarrow> chain_state prog" where
  "open_gate L g r nextSeries isTransition s =
     bindP (fetchPlaybookBySeriesID (gl_cd L) (gl_sc L) g nextSeries) (\<lambda>p.
       let x = gate_fields (gl_sc L) (cs_prev s) nextSeries isTransition (case p of Inr pb \<Rightarrow> Some pb | Inl _ \<Rightarrow> None) (cs_extra s)
       in Return (s\<lparr>cs_extra := x, cs_outcome := ''gate_pending'', cs_findings := xr_findings (cs_prev s),
            cs_report := xr_report (cs_prev s),
            cs_background := cs_background s @ notify_gate L g r (cs_prev s) nextSeries isTransition x\<rparr>))"

definition chain_next :: "gw_lib \<Rightarrow> chain_state \<Rightarrow> agent_run \<Rightarrow> unit prog list \<Rightarrow> chain_state" where
  "chain_next L s x bg =
     (let report = mergeDiagnosticReports (gl_srt L) (cs_report s) (xr_report x);
          e = put_field ''diagnostic_report'' (report_field (gl_sc L) report) (cs_extra s);
          e = put_field ''chained_run_id'' (Some (JStr (xr_runID x))) e;
          e = put_str_field ''chained_findings'' (xr_findings x) e;
          s = (if xr_findings x = [] then s else s\<lparr>cs_findings := xr_findings x, cs_escalatedTo := xr_escalatedTo x,
            cs_transitionedTo := xr_transitionTo x\<rparr>)
      in s\<lparr>cs_extra := e, cs_outcome := ''escalated+resolved'', cs_report := report,
           cs_chain := cs_chain s @ [entry_of (length (cs_chain s) + 1) x], cs_prev := x,
           cs_capture := appendChainedText (cs_capture s) (xr_capture x), cs_background := cs_background s @ bg\<rparr>)"

definition signalled :: "agent_run \<Rightarrow> bool" where
  "signalled x = (xr_escalatedTo x \<noteq> [] \<or> xr_transitionTo x \<noteq> [])"

text \<open>One turn of the loop; the flag says whether it goes on.\<close>

definition chain_step ::
  "gw_lib \<Rightarrow> gateway \<Rightarrow> (string \<Rightarrow> string) \<Rightarrow> gw_http \<Rightarrow> playbook_run_request \<Rightarrow> chain_state \<Rightarrow> (bool \<times> chain_state) prog" where
  "chain_step L g fresh r req s0 =
     (let prev = cs_prev s0; isTransition = (xr_escalatedTo prev = []);
          nextSeries = (if isTransition then xr_transitionTo prev else xr_escalatedTo prev)
      in if \<not> isTransition \<and> List.member terminalEscalations nextSeries then
           Return (False, s0\<lparr>cs_extra := put_field ''suggested_next'' (Some (operator_needed nextSeries)) (cs_extra s0)\<rparr>)
         else if findingsRecommendMonitor (xr_findings prev) then
           Return (False, s0\<lparr>cs_outcome := ''resolved'', cs_escalatedTo := [], cs_transitionedTo := []\<rparr>)
         else
           (let s = (if \<not> cs_gate s0 \<and> lowConfidenceForceGate (xr_report prev)
                 then s0\<lparr>cs_gate := True, cs_extra := put_field ''gate_reason'' (Some (JStr ''low_confidence'')) (cs_extra s0)\<rparr> else s0)
            in if cs_gate s then
                 bindP (open_gate L g r nextSeries isTransition s) (\<lambda>s. Return (False,
                   s\<lparr>cs_escalatedTo := (if isTransition then [] else nextSeries),
                     cs_transitionedTo := (if isTransition then nextSeries else [])\<rparr>))
               else bindP (fetchPlaybookBySeriesID (gl_cd L) (gl_sc L) g nextSeries) (\<lambda>p. case p of
                   Inl _ \<Rightarrow> Return (False, s)
                 | Inr nextPB \<Rightarrow>
                     bindP (canAutoChain L g (rq_ApprovalMode req) (rq_ApprovalSession req) nextPB) (\<lambda>ok.
                       if \<not> ok then Return (False, s\<lparr>cs_extra := put_field ''suggested_next''
                           (Some (buildSuggestedNext nextSeries req (xr_runID prev) (xr_findings prev))) (cs_extra s)\<rparr>)
                       else bindP (chainEscalation L g (\<lambda>u. fresh (u @ nat_str (length (cs_chain s)))) r req prev nextPB) (\<lambda>c. case c of
                           None \<Rightarrow> Return (False, s)
                         | Some (x, bg) \<Rightarrow> Return (True, chain_next L s x bg))))))"

text \<open>The loop ends after \<^verbatim>\<open>maxChainDepth\<close> runs: the argument is the number of runs still allowed.\<close>

definition maxChainDepth :: nat where "maxChainDepth = 5"

primrec chain_loop ::
  "gw_lib \<Rightarrow> gateway \<Rightarrow> (string \<Rightarrow> string) \<Rightarrow> gw_http \<Rightarrow> playbook_run_request \<Rightarrow> nat \<Rightarrow> chain_state \<Rightarrow> chain_state prog" where
  "chain_loop L g fresh r req 0 s = Return s"
| "chain_loop L g fresh r req (Suc k) s =
     (if \<not> signalled (cs_prev s) then Return s
      else bindP (chain_step L g fresh r req s) (\<lambda>(go, s'). if go then chain_loop L g fresh r req k s' else Return s'))"

text \<open>The gate for a named remediation when the agent gave no signal.\<close>

definition fallback_gate ::
  "gw_lib \<Rightarrow> gateway \<Rightarrow> gw_http \<Rightarrow> playbook_run_request \<Rightarrow> string list \<Rightarrow> chain_state \<Rightarrow> chain_state prog" where
  "fallback_gate L g r req warnings s =
     (if cs_gate s \<and> rq_RemediationSeriesID req \<noteq> [] \<and> \<not> signalled (cs_prev s) \<and> cs_outcome s \<noteq> ''gate_pending'' \<and>
         \<not> findingsRecommendMonitor (xr_findings (cs_prev s)) then
        bindP (open_gate L g r (rq_RemediationSeriesID req) True s) (\<lambda>s. Return
          (s\<lparr>cs_transitionedTo := rq_RemediationSeriesID req,
             cs_extra := put_field ''warnings'' (Some (JArr (map JStr (warnings @
               [''triage agent omitted required TRANSITION_TO/ESCALATE_TO signal; gate created from remediation_series_id''])))) (cs_extra s)\<rparr>))
      else Return s)"

definition first_state :: "gw_lib \<Rightarrow> playbook_run_request \<Rightarrow> fields \<Rightarrow> agent_run \<Rightarrow> chain_state" where
  "first_state L req extra x = \<lparr>cs_extra = extra, cs_outcome = xr_outcome x, cs_escalatedTo = xr_escalatedTo x,
     cs_transitionedTo = xr_transitionTo x, cs_findings = xr_findings x, cs_report = xr_report x, cs_chain = [entry_of 1 x],
     cs_prev = x, cs_capture = xr_capture x, cs_gate = rq_GateEscalation req, cs_background = []\<rparr>"

definition first_fields :: "gw_lib \<Rightarrow> string \<Rightarrow> agent_run \<Rightarrow> string list \<Rightarrow> string list \<Rightarrow> fields" where
  "first_fields L runID x warnings drift =
     (let e = put_str_field ''findings'' (xr_findings x) (put_str_field ''run_id'' runID []);
          e = (case xr_report x of None \<Rightarrow> e | Some d \<Rightarrow> put_field ''diagnostic_report'' (sc_report (gl_sc L) d) e);
          e = (if warnings = [] then e else put_field ''warnings'' (Some (JArr (map JStr warnings))) e)
      in if drift = [] then e else put_field ''target_drift'' (Some (JArr (map JStr drift))) e)"

definition crystal_ball_warning :: string where
  "crystal_ball_warning = ''Crystal-ball mode is active. Playbook guidance, hypothesis formatting, and escalation chaining are '' @
     ''bypassed. This response reflects the LLM'' @ [CHR 0x27] @ ''s unscaffolded judgment over available tools. '' @
     ''Not recommended for production use.''"

text \<open>The runs of a request and the gates between them.\<close>

definition agent_chain ::
  "gw_lib \<Rightarrow> gateway \<Rightarrow> (string \<Rightarrow> string) \<Rightarrow> gw_http \<Rightarrow> playbook \<Rightarrow> playbook_run_request \<Rightarrow> string \<Rightarrow> string list \<Rightarrow> chain_state prog" where
  "agent_chain L g fresh r pb req runID warnings =
     bindP (runAgentPlaybook L g fresh r pb req [] runID) (\<lambda>x.
       bindP (if rq_ConnectionString req = [] then Return [] else checkTargetScope (gl_sortStrings L) (gl_cd L) (gl_ec L) (gw_infra g)
           (gw_auditURL g) (gw_auditAPIKey g) (xr_traceID x) (xr_runStart x) (rq_ConnectionString req)) (\<lambda>drift.
         let s = first_state L req (first_fields L runID x warnings drift) x
         in if gw_crystalBall g then Return s
            else bindP (chain_loop L g fresh r req (maxChainDepth - 1) s) (fallback_gate L g r req warnings)))"

definition handlePlaybookRunAsAgent ::
  "gw_lib \<Rightarrow> gateway \<Rightarrow> (string \<Rightarrow> string) \<Rightarrow> gw_http \<Rightarrow> playbook \<Rightarrow> playbook_run_request \<Rightarrow> string \<Rightarrow> string list \<Rightarrow>
   (capture \<times> unit prog list) prog" where
  "handlePlaybookRunAsAgent L g fresh r pb req runID warnings =
     bindP (agent_chain L g fresh r pb req runID warnings) (\<lambda>s. Return (
       if gw_crystalBall g then
         (injectFields (cs_capture s) (put_field ''crystal_ball_warning'' (Some (JStr crystal_ball_warning))
            (put_field ''crystal_ball'' (Some (JBool True)) (cs_extra s))),
          if runID = [] then [] else [recordPlaybookRunComplete (gl_cd L) (gl_sc L) g runID (cs_outcome s) [] [] (cs_findings s) []
            (xr_traceID (cs_prev s)) None])
       else
         (injectFields (cs_capture s) (put_field ''chain'' (chain_json (gl_sc L) (cs_chain s)) (cs_extra s)),
          cs_background s @ (if runID = [] then [] else [recordPlaybookRunComplete (gl_cd L) (gl_sc L) g runID (cs_outcome s)
            (cs_escalatedTo s) (cs_transitionedTo s) (cs_findings s) (capturedText (cs_capture s)) (cp_trace (cs_capture s))
            (cs_report s)]))))"

section \<open>Approval modes\<close>

definition approvalModeRank :: "string \<Rightarrow> int" where
  "approvalModeRank mode = (case map_of [([], 0), (''manual'', 0), (''review'', 1), (''session'', 2), (''auto'', 3), (''force'', 4)] mode of
     Some k \<Rightarrow> k | None \<Rightarrow> 0)"

text \<open>The effective mode of a run and the warnings.\<close>

definition enforceApprovalOverride :: "gateway \<Rightarrow> principal \<Rightarrow> string \<Rightarrow> string \<Rightarrow> string \<Rightarrow> string \<times> string list" where
  "enforceApprovalOverride g p requested playbookMode connStr =
     (if gw_infra g = None \<or> approvalModeRank requested \<le> approvalModeRank playbookMode then (requested, [])
      else (case FindDBByConnStr (gw_infra g) connStr of
        None \<Rightarrow> (requested, [])
      | Some (db, _) \<Rightarrow>
          (if db_ApprovalOverrideRoles db = [] \<or> list_ex (HasRole p) (db_ApprovalOverrideRoles db) then (requested, [])
           else (playbookMode, [''approval_mode clamped to '' @ Quote playbookMode @ '': override to '' @ Quote requested @
             '' requires one of roles '' @ fmt_strs (db_ApprovalOverrideRoles db) @ '' (caller: '' @ EffectiveID p @ '')'']))))"

section \<open>The operator's answer to a gate\<close>

record proceed_escalation =
  pe_Resolution :: string
  pe_ResolvedBy :: string
  pe_ApprovalMode :: string
  pe_ApprovalSession :: string
  pe_ConnectionString :: string
  pe_Reason :: string
  pe_VerdictCorrect :: "bool option"
  pe_VerdictNotes :: string

definition recordGateAcknowledged ::
  "gateway \<Rightarrow> (string \<Rightarrow> string) \<Rightarrow> playbook_run \<Rightarrow> string \<Rightarrow> string \<Rightarrow> string \<Rightarrow> string \<Rightarrow> unit prog" where
  "recordGateAcknowledged g fresh rn resolvedBy resolved approvalMode reason = (case gw_auditor g of
     None \<Rightarrow> Return ()
   | Some a \<Rightarrow> Now (\<lambda>now. bindP (RecordEvent a (zero_event\<lparr>ev_EventID := ''ga_'' @ take 8 (fresh ''gate''), ev_Timestamp := now,
       ev_EventType := ''gate_acknowledged'', ev_TraceID := pn_RunID rn,
       ev_Input := \<lparr>in_UserQuery = ''gate acknowledged for triage run '' @ pn_RunID rn, in_InfrastructureContext = []\<rparr>,
       ev_Decision := Some \<lparr>rd_Agent = pn_EscalatedTo rn, rd_RequestCategory = ''incident'', rd_Confidence = ''1'',
         rd_UserIntent = resolved @ '' gate for escalation to '' @ pn_EscalatedTo rn,
         rd_ReasoningChain = [''operator '' @ resolvedBy @ '' acknowledged informed gate for run '' @ pn_RunID rn,
           ''resolution: '' @ resolved, ''escalation_target: '' @ pn_EscalatedTo rn] @
           (if approvalMode = [] then [] else [''chosen approval_mode: '' @ approvalMode]) @
           (if reason = [] then [] else [''operator_reason: '' @ reason]), rd_AlternativesConsidered = []\<rparr>,
       ev_Output := Some reason, ev_Outcome := Some \<lparr>oc_Status = ''success'', oc_ErrorMessage = [], oc_Duration = 0\<rparr>\<rparr>))
       (\<lambda>_. Return ())))"

definition step_json :: "step_proposal \<Rightarrow> json" where
  "step_json p = JObj ([(''index'', JNum (sp_Index p)), (''agent'', JStr (sp_Agent p)), (''tool'', JStr (sp_Tool p)),
     (''args'', JObj (sp_Args p))] @ omit ''reason'' (sp_Reason p) @ omit ''action_class'' (sp_ActionClass p))"

definition approve_capture :: "approve_response response \<Rightarrow> capture" where
  "approve_capture x = (case x of
     (code, Inl e) \<Rightarrow> writeError [] code e
   | (code, Inr a) \<Rightarrow> \<lparr>cp_code = code, cp_trace = [], cp_mismatch = False,
       cp_body = [(''run_id'', JStr (ar_RunID a)), (''status'', JStr (ar_Status a))] @
         (case ar_Step a of Some p \<Rightarrow> [(''step'', step_json p)] | None \<Rightarrow> []) @ omit ''approval_id'' (ar_ApprovalID a) @
         omit ''summary'' (ar_Summary a) @ strs_json ''warnings'' (ar_Warnings a) @
         omit ''effective_approval_mode'' (ar_EffectiveApprovalMode a)\<rparr>)"

definition start_trace :: "(string \<Rightarrow> string) \<Rightarrow> gw_http \<Rightarrow> playbook \<Rightarrow> string" where
  "start_trace fresh r pb = (if ir_Header r ''X-Trace-ID'' = [] \<and> pb_ExecutionMode pb = ''agent_approve''
     then NewTraceIDWithPrefix (fresh ''start'') ''tr_'' else ir_Header r ''X-Trace-ID'')"

text \<open>The remediation that an approved gate starts.\<close>

definition start_remediation ::
  "gw_lib \<Rightarrow> gateway \<Rightarrow> (string \<Rightarrow> string) \<Rightarrow> gw_http \<Rightarrow> proceed_escalation \<Rightarrow> string \<Rightarrow> string \<Rightarrow> playbook_run \<Rightarrow> playbook \<Rightarrow>
   (capture \<times> unit prog list) prog" where
  "start_remediation L g fresh r req resolvedBy runID rn nextPB =
     (let connStr = default_to (pn_ConnectionString rn) (pe_ConnectionString req) in
      case enforceApprovalOverride g (ir_Principal r) (default_to (pb_ApprovalMode nextPB) (pe_ApprovalMode req))
          (pb_ApprovalMode nextPB) connStr of (mode, warnings) \<Rightarrow>
        bindP (prior_findings L g runID) (\<lambda>findings.
          let remReq = zero_run_request\<lparr>rq_ConnectionString := connStr, rq_PriorRunID := runID, rq_ApprovalMode := mode,
                rq_ApprovalSession := pe_ApprovalSession req, rq_PriorFindings := findings\<rparr>;
              trace = start_trace fresh r nextPB
          in bindP (recordPlaybookRunStart (gl_cd L) (gl_sc L) g nextPB (pn_ContextID rn) connStr trace runID [] resolvedBy) (\<lambda>remRunID.
            if pb_ExecutionMode nextPB = ''agent_approve'' then
              bindP (if trace = [] then Return () else Now (\<lambda>now. recordAudit g fresh (zero_gateway_request\<lparr>gr_TraceID := trace,
                  gr_Agent := pb_SeriesID nextPB, gr_Method := ir_Method r, gr_Endpoint := ir_Path r, gr_StartTime := now,
                  gr_Status := ''success''\<rparr>))) (\<lambda>_.
                bindP (handlePlaybookRunApprove (gl_cd L) (gl_sc L) (gl_first L) g (ir_Header r ''X-User'') nextPB remReq remRunID warnings)
                  (\<lambda>(x, bg). Return (approve_capture x, bg)))
            else handlePlaybookRunAsAgent L g fresh r nextPB remReq remRunID warnings)))"

definition gate_resolved :: "gw_lib \<Rightarrow> gateway \<Rightarrow> string \<Rightarrow> string \<Rightarrow> string \<Rightarrow> string \<Rightarrow> fields \<Rightarrow> unit prog list" where
  "gate_resolved L g runID status summary url extra = NotifyResolved (gl_cd L) (gl_hmac L) (gw_notifier g)
     \<lparr>dn_ID = ''gate:'' @ runID, dn_Type = DecisionTypeGate, dn_Status = status, dn_Summary = summary, dn_RequestedBy = [],
      dn_ResolveURL = url, dn_Extra = extra\<rparr>"

definition deny_gate ::
  "gw_lib \<Rightarrow> gateway \<Rightarrow> (string \<Rightarrow> string) \<Rightarrow> proceed_escalation \<Rightarrow> string \<Rightarrow> string \<Rightarrow> playbook_run \<Rightarrow> (capture \<times> unit prog list) prog" where
  "deny_gate L g fresh req resolvedBy runID rn =
     bindP (recordGateAcknowledged g fresh rn resolvedBy ''denied'' (pe_ApprovalMode req) (pe_Reason req)) (\<lambda>_.
       bindP (recordPlaybookRunComplete (gl_cd L) (gl_sc L) g runID ''abandoned'' [] [] ''gate denied by operator'' [] []
           (pn_DiagnosticReport rn)) (\<lambda>_.
         Return (\<lparr>cp_code = 200, cp_trace = [], cp_mismatch = False,
             cp_body = [(''status'', JStr ''denied''), (''run_id'', JStr runID)]\<rparr>,
           [submitDenialFeedback (gl_cd L) g runID (pn_SeriesID rn) resolvedBy (pe_Reason req)] @
           gate_resolved L g runID ''denied'' (''Gate denied '' @ em_dash @ '' remediation will not proceed'') (resolve_url g runID)
             [(''resolved_by'', Some (JStr resolvedBy))])))"

definition approve_gate ::
  "gw_lib \<Rightarrow> gateway \<Rightarrow> (string \<Rightarrow> string) \<Rightarrow> gw_http \<Rightarrow> proceed_escalation \<Rightarrow> string \<Rightarrow> string \<Rightarrow> string \<Rightarrow> playbook_run \<Rightarrow>
   (capture \<times> unit prog list) prog" where
  "approve_gate L g fresh r req resolved resolvedBy runID rn =
     (let nextSeries = default_to (pn_EscalatedTo rn) (pn_TransitionedTo rn);
          out = (if pn_TransitionedTo rn = [] then ''escalated'' else ''transitioned'')
      in bindP (fetchPlaybookBySeriesID (gl_cd L) (gl_sc L) g nextSeries) (\<lambda>p. case p of
           Inl e \<Rightarrow> Return (writeError [] 404 (''remediation playbook not found: '' @ e), [])
         | Inr nextPB \<Rightarrow>
             bindP (recordGateAcknowledged g fresh rn resolvedBy resolved (pe_ApprovalMode req) (pe_Reason req)) (\<lambda>_.
             bindP (recordPlaybookRunComplete (gl_cd L) (gl_sc L) g runID out (pn_EscalatedTo rn) (pn_TransitionedTo rn)
                 (pn_FindingsSummary rn) [] [] (pn_DiagnosticReport rn)) (\<lambda>_.
             bindP (start_remediation L g fresh r req resolvedBy runID rn nextPB) (\<lambda>(c, bg). Return (c,
               (if pe_VerdictCorrect req = None \<and> pe_VerdictNotes req = [] then []
                else [postAtGateFeedback (gl_cd L) g runID resolvedBy (pe_VerdictCorrect req) (pe_VerdictNotes req)]) @
               gate_resolved L g runID ''approved'' (''Gate approved '' @ em_dash @ '' chaining to '' @ nextSeries) []
                 [(''resolved_by'', Some (JStr resolvedBy)), (''approval_mode'', Some (JStr (pe_ApprovalMode req)))] @ bg))))))"

definition handleProceedEscalation ::
  "gw_lib \<Rightarrow> gateway \<Rightarrow> (string \<Rightarrow> string) \<Rightarrow> gw_http \<Rightarrow> string \<Rightarrow> proceed_escalation body \<Rightarrow> (capture \<times> unit prog list) prog" where
  "handleProceedEscalation L g fresh r runID b =
     (if runID = [] then Return (writeError [] 400 ''missing runID'', [])
      else (case b of
        BadJSON e \<Rightarrow> Return (writeError [] 400 (''invalid request body: '' @ e), [])
      | ReadError \<Rightarrow> Return (writeError [] 400 ''invalid request body: '', [])
      | Body req \<Rightarrow>
          (let resolved = default_to ''approved'' (pe_Resolution req);
               resolvedBy = default_to ''operator'' (default_to (ir_Header r ''X-User'') (pe_ResolvedBy req))
           in bindP (fetchPlaybookRun (gl_cd L) (gl_sc L) g runID) (\<lambda>x. case x of
                Inl e \<Rightarrow> Return (writeError [] 404 (''run not found: '' @ e), [])
              | Inr rn \<Rightarrow>
                  (if pn_Outcome rn \<noteq> ''gate_pending'' then Return (writeError [] 409 (''run '' @ Quote runID @
                     '' is not in gate_pending state (outcome='' @ Quote (pn_Outcome rn) @ '')''), [])
                   else if resolved = ''denied'' then deny_gate L g fresh req resolvedBy runID rn
                   else approve_gate L g fresh r req resolved resolvedBy runID rn)))))"

section \<open>The entry point\<close>

definition bridge_purpose :: "playbook_run_request \<Rightarrow> gw_http \<Rightarrow> gw_http" where
  "bridge_purpose req r =
     (let h = ir_Header r;
          h = (if rq_Purpose req \<noteq> [] \<and> h ''X-Purpose'' = [] then h(''X-Purpose'' := rq_Purpose req) else h);
          h = (if rq_PurposeNote req \<noteq> [] \<and> h ''X-Purpose-Note'' = [] then h(''X-Purpose-Note'' := rq_PurposeNote req) else h)
      in r\<lparr>ir_Header := h\<rparr>)"

definition run_warnings :: "gw_lib \<Rightarrow> gateway \<Rightarrow> playbook \<Rightarrow> playbook_run_request \<Rightarrow> string list" where
  "run_warnings L g pb req =
     (if pb_ExecutionMode pb = ''agent'' \<and> rq_ConnectionString req = [] then
        [''no connection_string specified '' @ em_dash @ '' agent will need to ask which database to investigate''] else []) @
     checkRequiresEvidence (gl_regex L) (pb_RequiresEvidence pb) (rq_Context req) @
     checkContextConsistency (gw_infra g) (rq_ConnectionString req) (rq_Context req)"

definition run_fleet_playbook ::
  "gw_lib \<Rightarrow> gateway \<Rightarrow> (string \<Rightarrow> string) \<Rightarrow> gw_http \<Rightarrow> playbook \<Rightarrow> string \<Rightarrow> string list \<Rightarrow> (capture \<times> unit prog list) prog" where
  "run_fleet_playbook L g fresh r pb runID warnings =
     (if \<not> gw_planner g then Return (writeError [] 503 ''fleet planner LLM not configured'', [])
      else bindP (handleFleetPlan (gl_plan L) g fresh
          (r\<lparr>ir_Method := ''POST'', ir_Header := (\<lambda>h. if h \<in> {''X-User'', ''X-API-Key'', ''Authorization''} then ir_Header r h else [])\<rparr>)
          (Body \<lparr>fp_Description = pb_Description pb, fp_TargetHints = pb_TargetHints pb, fp_Guidance = pb_Guidance pb\<rparr>)) (\<lambda>c.
        Return (injectFields c (if warnings = [] then [] else [(''warnings'', Some (JArr (map JStr warnings)))]),
          if runID = [] then [] else [recordPlaybookRunComplete (gl_cd L) (gl_sc L) g runID ''unknown'' [] [] [] [] [] None])))"

text \<open>An empty body is the zero request; a body that cannot be read counts as empty.\<close>

definition handlePlaybookRun ::
  "gw_lib \<Rightarrow> gateway \<Rightarrow> (string \<Rightarrow> string) \<Rightarrow> gw_http \<Rightarrow> string \<Rightarrow> playbook_run_request body \<Rightarrow> (capture \<times> unit prog list) prog" where
  "handlePlaybookRun L g fresh r0 playbookID b =
     (if playbookID = [] then Return (writeError [] 400 ''missing playbook ID'', [])
      else if gw_auditURL g = [] then Return (writeError [] 503 ''auditd URL not configured'', [])
      else (case b of
        BadJSON e \<Rightarrow> Return (writeError [] 400 (''invalid request body: '' @ e), [])
      | _ \<Rightarrow>
          (let req = (case b of Body q \<Rightarrow> q | _ \<Rightarrow> zero_run_request); r = bridge_purpose req r0
           in bindP (fetchPlaybook (gl_cd L) (gl_sc L) g playbookID) (\<lambda>p. case p of
                Inl e \<Rightarrow> Return (writeError [] 404 (''playbook '' @ Quote playbookID @ '' not found: '' @ e), [])
              | Inr pb \<Rightarrow>
                  (case enforceApprovalOverride g (ir_Principal r) (default_to (pb_ApprovalMode pb) (rq_ApprovalMode req))
                      (pb_ApprovalMode pb) (rq_ConnectionString req) of (mode, clamped) \<Rightarrow>
                    bindP (prior_findings L g (rq_PriorRunID req)) (\<lambda>findings.
                      let req = req\<lparr>rq_ApprovalMode := mode, rq_PriorFindings := findings\<rparr>;
                          warnings = clamped @ run_warnings L g pb req
                      in bindP (recordPlaybookRunStart (gl_cd L) (gl_sc L) g pb (rq_ContextID req) (rq_ConnectionString req)
                             (start_trace fresh r pb) (rq_PriorRunID req) (rq_TriggerContext req) (ir_Header r ''X-User'')) (\<lambda>runID.
                        if pb_ExecutionMode pb = ''agent'' then handlePlaybookRunAsAgent L g fresh r pb req runID warnings
                        else if pb_ExecutionMode pb = ''agent_approve'' then
                          bindP (handlePlaybookRunApprove (gl_cd L) (gl_sc L) (gl_first L) g (ir_Header r ''X-User'') pb req runID warnings)
                            (\<lambda>(x, bg). Return (approve_capture x, bg))
                        else run_fleet_playbook L g fresh r pb runID warnings)))))))"

section \<open>What agents can signal\<close>

definition allowed_target :: "string list \<Rightarrow> string \<Rightarrow> bool" where
  "allowed_target allowed t = (t = [] \<or> t = ''none'' \<or> List.member terminalEscalations t \<or> allowed = [] \<or> List.member allowed t)"

lemma allowed_next:
  "isAllowedNextPlaybook (Some pb) t directiveTransition = allowed_target (pb_TransitionsTo pb) t"
  "isAllowedNextPlaybook (Some pb) t directiveEscalate = allowed_target (pb_EscalatesTo pb) t"
  by (auto simp: isAllowedNextPlaybook_def allowed_target_def directiveTransition_def directiveEscalate_def)

lemma checked_signals_allowed:
  "allowed_target (pb_TransitionsTo pb) (ae_TransitionTo (checked_signals pb e)) \<and>
   allowed_target (pb_EscalatesTo pb) (ae_EscalateTo (checked_signals pb e))"
  by (auto simp: checked_signals_def allowed_next Let_def) (auto simp: allowed_target_def terminalEscalations_def)

definition confined :: "playbook \<Rightarrow> agent_run \<Rightarrow> bool" where
  "confined pb x \<longleftrightarrow> allowed_target (pb_TransitionsTo pb) (xr_transitionTo x) \<and> allowed_target (pb_EscalatesTo pb) (xr_escalatedTo x) \<and>
     (xr_transitionTo x = [] \<or> xr_escalatedTo x = []) \<and>
     (xr_outcome x = ''transitioned'' \<longleftrightarrow> xr_transitionTo x \<noteq> []) \<and> (xr_outcome x = ''escalated'' \<longleftrightarrow> xr_escalatedTo x \<noteq> [])"

lemma read_answer_confined:
  assumes "xr_escalatedTo res = []" "xr_transitionTo res = []" "xr_outcome res = ''unknown''"
  shows "yields (confined pb) (read_answer g fresh r pb t res)"
  using checked_signals_allowed [of pb "parseAgentEscalation t"] assms
  by (auto simp: read_answer_def Let_def confined_def allowed_target_def intro!: yields_any)


section \<open>When a chain goes on\<close>

text \<open>\<open>authorised\<close>: a state whose chain has one run, or was started without a gate in a mode that chains.\<close>

definition authorised :: "playbook_run_request \<Rightarrow> nat \<Rightarrow> chain_state \<Rightarrow> bool" where
  "authorised req k s \<longleftrightarrow> 1 \<le> length (cs_chain s) \<and> length (cs_chain s) + k \<le> maxChainDepth \<and> (rq_GateEscalation req \<longrightarrow> cs_gate s) \<and>
     (length (cs_chain s) = 1 \<or> rq_GateEscalation req = False \<and> rq_ApprovalMode req \<in> {''force'', ''auto'', ''session''})"

lemma open_gate_keeps:
  "authorised req k s \<Longrightarrow> yields (\<lambda>s'. authorised req k s' \<and> cs_chain s' = cs_chain s) (open_gate L g r t tr s)"
  by (auto simp: open_gate_def Let_def authorised_def intro!: yields_any)

lemma canAutoChain_modes: "yields (\<lambda>ok. ok \<longrightarrow> mode \<in> {''force'', ''auto'', ''session''}) (canAutoChain L g mode sid pb)"
  by (auto simp: canAutoChain_def intro!: yields_any split: sum.split)

lemma chain_next_authorised:
  assumes "authorised req (Suc k) s" "\<not> cs_gate s" "rq_ApprovalMode req \<in> {''force'', ''auto'', ''session''}"
  shows "authorised req k (chain_next L s x bg)"
  using assms by (auto simp: authorised_def chain_next_def Let_def)

lemma authorised_upd [simp]:
  "authorised req k (s\<lparr>cs_extra := x\<rparr>) = authorised req k s" "authorised req k (s\<lparr>cs_outcome := out\<rparr>) = authorised req k s"
  "authorised req k (s\<lparr>cs_escalatedTo := e\<rparr>) = authorised req k s" "authorised req k (s\<lparr>cs_transitionedTo := t\<rparr>) = authorised req k s"
  by (simp_all add: authorised_def)

lemma chain_step_authorised:
  assumes "authorised req (Suc k) s"
  shows "yields (\<lambda>(go, s'). authorised req (if go then k else Suc k) s') (chain_step L g fresh r req s)"
proof -
  let ?P = "\<lambda>(go, s'). authorised req (if go then k else Suc k) s'"
  have gate: "yields ?P (bindP (open_gate L g r t tr s1) (\<lambda>s. Return (False, s\<lparr>cs_escalatedTo := e, cs_transitionedTo := t'\<rparr>)))"
    if "authorised req (Suc k) s1" for s1 t tr e t'
    by (rule yields_bindP [OF open_gate_keeps [OF that]]) simp
  have chain: "yields ?P (bindP (canAutoChain L g (rq_ApprovalMode req) sid pb) (\<lambda>ok.
      if \<not> ok then Return (False, s\<lparr>cs_extra := x\<rparr>)
      else bindP (chainEscalation L g f r req prev pb) (\<lambda>c. case c of None \<Rightarrow> Return (False, s) | Some (x, bg) \<Rightarrow> Return (True, chain_next L s x bg))))"
    if "\<not> cs_gate s" for sid pb x f prev
    by (rule yields_bindP [OF canAutoChain_modes])
      (use assms that in \<open>auto intro!: yields_any chain_next_authorised split: option.split\<close>)
  have forced: "authorised req (Suc k) (s\<lparr>cs_gate := True, cs_extra := x\<rparr>)" for x
    using assms by (auto simp: authorised_def)
  note fetch = yields_any [of ?P _ "fetchPlaybookBySeriesID cd sc g t" for cd sc t]
  show ?thesis
    using assms unfolding chain_step_def Let_def
    by (auto intro!: gate forced chain fetch split: sum.split)
qed

lemma chain_loop_authorised:
  "authorised req k s \<Longrightarrow> yields (authorised req 0) (chain_loop L g fresh r req k s)"
proof (induction k arbitrary: s)
  case (Suc k)
  have weaken: "authorised req (Suc k) s' \<Longrightarrow> authorised req 0 s'" for s' by (auto simp: authorised_def)
  show ?case
    using Suc.prems by (auto intro!: weaken yields_bindP [OF chain_step_authorised [OF Suc.prems]] Suc.IH)
qed simp

text \<open>C24: a request runs at most five agents, and more than one only when the caller did not ask for a gate
  and the approval mode of the run is one that chains. In manual mode, in review mode and without a mode
  exactly one agent runs, whatever it signals.\<close>

theorem chain_bounded:
  fixes L g fresh r pb req runID warnings w n
  defines "s \<equiv> fst (run w (agent_chain L g fresh r pb req runID warnings) n)"
  shows "length (cs_chain s) = 1 \<or>
    length (cs_chain s) \<le> 5 \<and> rq_GateEscalation req = False \<and> rq_ApprovalMode req \<in> {''force'', ''auto'', ''session''}"
proof -
  have first: "authorised req (maxChainDepth - 1) (first_state L req x y)" for x y
    by (simp add: authorised_def first_state_def maxChainDepth_def)
  then have first0: "authorised req 0 (first_state L req x y)" for x y
    by (auto simp: authorised_def first_state_def maxChainDepth_def)
  have gate: "authorised req 0 s \<Longrightarrow> yields (authorised req 0) (fallback_gate L g r req warnings s)" for s
    by (auto simp: fallback_gate_def intro!: yields_bindP [OF open_gate_keeps])
  have loop: "yields (authorised req 0) (bindP (chain_loop L g fresh r req (maxChainDepth - 1) (first_state L req x y))
      (fallback_gate L g r req warnings))" for x y
    by (rule yields_bindP [OF chain_loop_authorised [OF first]]) (rule gate)
  have "yields (authorised req 0) (agent_chain L g fresh r pb req runID warnings)"
    unfolding agent_chain_def Let_def by (intro yields_any) (use first0 loop in auto)
  from yields_run [OF this, of w n] show ?thesis
    by (auto simp: s_def authorised_def maxChainDepth_def)
qed

text \<open>C23: the chain goes on only with authority. When the loop runs a further agent, no gate was asked for
  and none was forced by a low confidence, the findings did not recommend to wait, the signal was not the
  request for an operator, the follow-up playbook of the signal was found, and either the caller forces the
  chain, or the playbook allows to be chained and the caller's mode, with a session that is valid for
  escalations when the mode is \<^verbatim>\<open>session\<close>, allows it; the run becomes the next entry of the chain.\<close>

theorem chained_only_if:
  fixes L g fresh r req s w n
  defines "prev \<equiv> cs_prev s"
  defines "target \<equiv> (if xr_escalatedTo prev = [] then xr_transitionTo prev else xr_escalatedTo prev)"
  assumes "run w (chain_step L g fresh r req s) n = ((True, s'), n')"
  shows "\<not> cs_gate s \<and> \<not> lowConfidenceForceGate (xr_report prev) \<and> \<not> findingsRecommendMonitor (xr_findings prev) \<and>
    (xr_escalatedTo prev = [] \<or> \<not> List.member terminalEscalations target) \<and>
    (\<exists>pb n1 x. run w (fetchPlaybookBySeriesID (gl_cd L) (gl_sc L) g target) n = (Inr pb, n1) \<and>
       (rq_ApprovalMode req = ''force'' \<or> pb_ApprovalMode pb \<notin> {[], ''manual''} \<and>
         (rq_ApprovalMode req = ''auto'' \<or> rq_ApprovalMode req = ''session'' \<and>
           (\<exists>se n2. run w (fetchApprovalSession (gl_cd L) (gl_sc L) g (rq_ApprovalSession req)) n1 = (Inr se, n2) \<and>
             session_IsValid (nt_now n2) (Some se) ClassEscalation))) \<and>
       cs_chain s' = cs_chain s @ [entry_of (length (cs_chain s) + 1) x] \<and> cs_prev s' = x)"
proof -
  have mode: "mode = ''force'' \<or> pb_ApprovalMode pb \<notin> {[], ''manual''} \<and> (mode = ''auto'' \<or> mode = ''session'' \<and>
      (\<exists>se n2. run w (fetchApprovalSession (gl_cd L) (gl_sc L) g sid) m = (Inr se, n2) \<and> session_IsValid (nt_now n2) (Some se) ClassEscalation))"
    if "run w (canAutoChain L g mode sid pb) m = (True, m')" for mode sid pb m m'
    using that by (auto simp: canAutoChain_def run_bindP split: if_splits prod.splits sum.splits)
  have nxt: "cs_chain (chain_next L s x bg) = cs_chain s @ [entry_of (length (cs_chain s) + 1) x] \<and> cs_prev (chain_next L s x bg) = x" for x bg
    by (simp add: chain_next_def Let_def)
  show ?thesis
    using assms(3) unfolding chain_step_def Let_def prev_def target_def
    by (fastforce simp: run_bindP open_gate_def nxt dest!: mode split: if_splits prod.splits sum.splits option.splits)
qed

text \<open>A chain of two runs whose second agent is not available: the chain still counts as resolved.\<close>

definition sample_lib :: gw_lib where
  "sample_lib = \<lparr>gl_cd = sample_codec\<lparr>cd_parse := (\<lambda>_. Inr (JObj [(''playbooks'', JArr [JNull])]))\<rparr>,
     gl_ec = \<lparr>ec_json = (\<lambda>_. JNull), ec_event = (\<lambda>_. None)\<rparr>,
     gl_sc = sample_store_codec\<lparr>sc_playbook_of := (\<lambda>_. Inr (zero_playbook\<lparr>pb_ApprovalMode := ''auto''\<rparr>))\<rparr>,
     gl_a2a = (\<lambda>_ _ _ _. Return (Inl [])), gl_first = (\<lambda>_. None), gl_hmac = (\<lambda>_ _. []), gl_srt = (\<lambda>_ xs. xs), gl_sortStrings = (\<lambda>xs. xs),
     gl_regex = (\<lambda>_ _. None), gl_plan = sample_plan_codec []\<rparr>"

definition sample_run :: agent_run where
  "sample_run = \<lparr>xr_capture = \<lparr>cp_code = 200, cp_trace = ''tr_1'', cp_mismatch = False, cp_body = []\<rparr>, xr_traceID = ''tr_1'',
     xr_runStart = 0, xr_outcome = ''transitioned'', xr_escalatedTo = [], xr_transitionTo = ''pbs_fix'', xr_findings = ''bloat'',
     xr_report = None, xr_runID = [], xr_series = ''pbs_triage'', xr_agent = ''postgres_database_agent''\<rparr>"

definition sample_run_request :: playbook_run_request where
  "sample_run_request = zero_run_request\<lparr>rq_ApprovalMode := ''auto''\<rparr>"

lemma sample_chain_step:
  "\<exists>s' n'. run ok_world (chain_step sample_lib sample_gateway (\<lambda>_. []) sample_http sample_run_request
      (first_state sample_lib sample_run_request [] sample_run)) idle = ((True, s'), n') \<and>
    cs_outcome s' = ''escalated+resolved'' \<and> cp_code (xr_capture (cs_prev s')) = 502"
proof -
  have fetch: "fst (run ok_world (fetchPlaybookBySeriesID (gl_cd sample_lib) (gl_sc sample_lib) sample_gateway t) n) =
      Inr (zero_playbook\<lparr>pb_ApprovalMode := ''auto''\<rparr>)" for t n
    by (simp add: fetchPlaybookBySeriesID_def http_do_def run_bindP send_def ok_world_def sample_lib_def sample_codec_def
        decode_reply_def only_ok_def field_list_def first_found_def ToLower_def lower_char_def)
  have start: "recordPlaybookRunStart (gl_cd sample_lib) (gl_sc sample_lib) sample_gateway pb c t u v x y = Return []" for pb c t u v x y
    by (simp add: recordPlaybookRunStart_def sample_lib_def sample_store_codec_def sample_gateway_def)
  have agent: "\<exists>c m'. run ok_world (proxyToAgent cd ec sc a2a sample_gateway f q a ctx prompt) m = (c, m') \<and> cp_code c = 502"
    for cd ec sc a2a f q a ctx prompt m
    by (simp add: proxyToAgent_def proxyToAgentWithTool_def Let_def sample_gateway_def finish_def recordAudit_def writeError_def)
  have "\<exists>x m'. run ok_world (runAgentPlaybook sample_lib sample_gateway f q pb req a rid) m = (x, m') \<and> cp_code (xr_capture x) = 502"
    for f q pb req a rid m
  proof -
    obtain c m' where "run ok_world (proxyToAgent (gl_cd sample_lib) (gl_ec sample_lib) (gl_sc sample_lib) (gl_a2a sample_lib) sample_gateway f
        (with_approval q req) (default_to ''postgres_database_agent'' (default_to (pb_AgentName pb) a)) (rq_ContextID req)
        (if gw_crystalBall sample_gateway then assembleCrystalBallPrompt req (buildServerTypeHint (gw_infra sample_gateway) (rq_ConnectionString req))
         else assembleTriagePrompt pb req (buildServerTypeHint (gw_infra sample_gateway) (rq_ConnectionString req)))) m = (c, m')" "cp_code c = 502"
      using agent by metis
    then show ?thesis by (simp add: runAgentPlaybook_def Let_def run_bindP)
  qed
  note run_agent = this
  have gen: "\<exists>x bg m'. run ok_world (bindP (runAgentPlaybook sample_lib sample_gateway f q pb req a rid)
      (\<lambda>x. Return (Some (x, completeRun sample_lib sample_gateway x)))) m = (Some (x, bg), m') \<and> cp_code (xr_capture x) = 502"
    for f q pb req a rid m
    using run_agent [of f q pb req a rid m] by (auto simp: run_bindP)
  have url: "gw_auditURL sample_gateway \<noteq> []" "xr_runID sample_run = []" by (simp_all add: sample_gateway_def sample_run_def)
  let ?pb = "zero_playbook\<lparr>pb_ApprovalMode := ''auto''\<rparr>"
  obtain m where m: "run ok_world (fetchPlaybookBySeriesID (gl_cd sample_lib) (gl_sc sample_lib) sample_gateway ''pbs_fix'') idle = (Inr ?pb, m)"
    using fetch by (metis prod.collapse)
  have chain: "\<exists>x bg m'. run ok_world (chainEscalation sample_lib sample_gateway f sample_http sample_run_request sample_run ?pb) m =
      (Some (x, bg), m') \<and> cp_code (xr_capture x) = 502" for f
    by (simp add: chainEscalation_def prior_findings_def start url Let_def) (use gen in blast)
  let ?s = "first_state sample_lib sample_run_request [] sample_run"
  have s: "cs_prev ?s = sample_run" "\<not> cs_gate ?s" "xr_escalatedTo sample_run = []" "xr_transitionTo sample_run = ''pbs_fix''"
    "\<not> lowConfidenceForceGate (xr_report sample_run)" "\<not> findingsRecommendMonitor (xr_findings sample_run)"
    by (simp_all add: first_state_def sample_run_def sample_run_request_def zero_run_request_def lowConfidenceForceGate_def
        findingsRecommendMonitor_def CutPrefix_def)
  have mode: "canAutoChain sample_lib sample_gateway (rq_ApprovalMode sample_run_request) sid ?pb = Return True" for sid
    by (simp add: canAutoChain_def sample_run_request_def)
  obtain x bg m' where x: "run ok_world (chainEscalation sample_lib sample_gateway (\<lambda>u. []) sample_http sample_run_request sample_run ?pb) m =
      (Some (x, bg), m')" and c: "cp_code (xr_capture x) = 502"
    using chain by blast
  have "cs_outcome (chain_next sample_lib ?s x bg) = ''escalated+resolved'' \<and> cs_prev (chain_next sample_lib ?s x bg) = x"
    by (simp add: chain_next_def Let_def)
  with c show ?thesis
    by (simp add: chain_step_def Let_def s run_bindP m mode x)
qed

theorem chained_only_if_witness:
  "\<exists>s' n' pb n1 x. run ok_world (chain_step sample_lib sample_gateway (\<lambda>_. []) sample_http sample_run_request
      (first_state sample_lib sample_run_request [] sample_run)) idle = ((True, s'), n') \<and>
    run ok_world (fetchPlaybookBySeriesID (gl_cd sample_lib) (gl_sc sample_lib) sample_gateway ''pbs_fix'') idle = (Inr pb, n1) \<and>
    pb_ApprovalMode pb \<notin> {[], ''manual''} \<and>
    cs_chain s' = cs_chain (first_state sample_lib sample_run_request [] sample_run) @ [entry_of 2 x]"
proof -
  obtain s' n' where s: "run ok_world (chain_step sample_lib sample_gateway (\<lambda>_. []) sample_http sample_run_request
      (first_state sample_lib sample_run_request [] sample_run)) idle = ((True, s'), n')"
    using sample_chain_step by blast
  have "cs_prev (first_state sample_lib sample_run_request [] sample_run) = sample_run"
    "xr_escalatedTo sample_run = []" "xr_transitionTo sample_run = ''pbs_fix''" "rq_ApprovalMode sample_run_request = ''auto''"
    "length (cs_chain (first_state sample_lib sample_run_request [] sample_run)) = 1"
    by (simp_all add: first_state_def sample_run_def sample_run_request_def)
  with chained_only_if [OF s] s show ?thesis by (auto simp: numeral_2_eq_2)
qed

section \<open>Gates are answered once they are pending\<close>

lemma deny_gate_calls:
  fixes L g fresh req who runID rn w m
  defines "ack \<equiv> recordGateAcknowledged g fresh rn who ''denied'' (pe_ApprovalMode req) (pe_Reason req)"
  shows "calls w (deny_gate L g fresh req who runID rn) m = calls w ack m @
      calls w (recordPlaybookRunComplete (gl_cd L) (gl_sc L) g runID ''abandoned'' [] [] ''gate denied by operator'' [] []
        (pn_DiagnosticReport rn)) (snd (run w ack m))"
    and "cp_code (fst (fst (run w (deny_gate L g fresh req who runID rn) m))) = 200"
  unfolding deny_gate_def ack_def [symmetric] by (simp_all add: calls_bindP run_bindP split: prod.split)

lemma approve_gate_found:
  fixes L g fresh r req res who runID rn w m
  defines "ack \<equiv> recordGateAcknowledged g fresh rn who res (pe_ApprovalMode req) (pe_Reason req)"
  assumes "run w (fetchPlaybookBySeriesID (gl_cd L) (gl_sc L) g (default_to (pn_EscalatedTo rn) (pn_TransitionedTo rn))) m = (Inr pb, m1)"
  shows "\<exists>rest. calls w (approve_gate L g fresh r req res who runID rn) m =
    calls w (fetchPlaybookBySeriesID (gl_cd L) (gl_sc L) g (default_to (pn_EscalatedTo rn) (pn_TransitionedTo rn))) m @ calls w ack m1 @
    calls w (recordPlaybookRunComplete (gl_cd L) (gl_sc L) g runID (if pn_TransitionedTo rn = [] then ''escalated'' else ''transitioned'')
      (pn_EscalatedTo rn) (pn_TransitionedTo rn) (pn_FindingsSummary rn) [] [] (pn_DiagnosticReport rn)) (snd (run w ack m1)) @ rest"
  unfolding approve_gate_def Let_def ack_def [symmetric] calls_bindP assms(2) by (auto simp: calls_bindP)

lemma approve_gate_missing:
  assumes "run w (fetchPlaybookBySeriesID (gl_cd L) (gl_sc L) g (default_to (pn_EscalatedTo rn) (pn_TransitionedTo rn))) m = (Inl e, m1)"
  shows "calls w (approve_gate L g fresh r req res who runID rn) m =
      calls w (fetchPlaybookBySeriesID (gl_cd L) (gl_sc L) g (default_to (pn_EscalatedTo rn) (pn_TransitionedTo rn))) m"
    and "cp_code (fst (fst (run w (approve_gate L g fresh r req res who runID rn) m))) = 404"
  unfolding approve_gate_def Let_def by (simp_all add: calls_bindP run_bindP assms writeError_def)

text \<open>C26: the answer to a gate. A run that is not waiting at a gate is refused with 409 and one lookup. A
  denial records the acknowledgement and the abandoned run and starts nothing. An approval first looks up
  the follow-up playbook, a transition before an escalation; when it is missing the answer is 404 and
  nothing is recorded; otherwise acknowledgement and outcome are recorded before anything else happens.\<close>

theorem gate_answered:
  fixes L g fresh r runID req w n
  defines "p \<equiv> handleProceedEscalation L g fresh r runID (Body req)"
  defines "fetch \<equiv> fetchPlaybookRun (gl_cd L) (gl_sc L) g runID"
  defines "m \<equiv> snd (run w fetch n)"
  defines "code \<equiv> cp_code (fst (fst (run w p n)))"
  defines "who \<equiv> default_to ''operator'' (default_to (ir_Header r ''X-User'') (pe_ResolvedBy req))"
  defines "ack \<equiv> \<lambda>rn res. recordGateAcknowledged g fresh rn who res (pe_ApprovalMode req) (pe_Reason req)"
  defines "closes \<equiv> \<lambda>rn out e t f. recordPlaybookRunComplete (gl_cd L) (gl_sc L) g runID out e t f [] [] (pn_DiagnosticReport rn)"
  defines "lookup_pb \<equiv> \<lambda>rn. fetchPlaybookBySeriesID (gl_cd L) (gl_sc L) g (default_to (pn_EscalatedTo rn) (pn_TransitionedTo rn))"
  shows "if runID = [] then calls w p n = [] \<and> code = 400
    else (case fst (run w fetch n) of
      Inl e \<Rightarrow> calls w p n = calls w fetch n \<and> code = 404
    | Inr rn \<Rightarrow>
        (if pn_Outcome rn \<noteq> ''gate_pending'' then calls w p n = calls w fetch n \<and> code = 409
         else if pe_Resolution req = ''denied'' then
           calls w p n = calls w fetch n @ calls w (ack rn ''denied'') m @
             calls w (closes rn ''abandoned'' [] [] ''gate denied by operator'') (snd (run w (ack rn ''denied'') m)) \<and> code = 200
         else (case run w (lookup_pb rn) m of
           (Inl e, m1) \<Rightarrow> calls w p n = calls w fetch n @ calls w (lookup_pb rn) m \<and> code = 404
         | (Inr pb, m1) \<Rightarrow> (\<exists>rest. calls w p n = calls w fetch n @ calls w (lookup_pb rn) m @
             calls w (ack rn (default_to ''approved'' (pe_Resolution req))) m1 @
             calls w (closes rn (if pn_TransitionedTo rn = [] then ''escalated'' else ''transitioned'') (pn_EscalatedTo rn)
               (pn_TransitionedTo rn) (pn_FindingsSummary rn)) (snd (run w (ack rn (default_to ''approved'' (pe_Resolution req))) m1)) @ rest))))"
proof -
  obtain x m0 where x: "run w fetch n = (x, m0)" by fastforce
  note unfolds = code_def p_def handleProceedEscalation_def Let_def calls_bindP run_bindP fetch_def [symmetric] x m_def
  show ?thesis
  proof (cases x)
    case (Inl e)
    then show ?thesis by (simp add: unfolds writeError_def)
  next
    case (Inr rn)
    have d: "default_to ''approved'' (pe_Resolution req) = ''denied'' \<longleftrightarrow> pe_Resolution req = ''denied''"
      "default_to ''approved'' ''denied'' = ''denied''"
      by (simp_all add: default_to_def)
    note all = unfolds \<open>x = Inr rn\<close> d deny_gate_calls ack_def closes_def lookup_pb_def who_def writeError_def
    obtain y m1 where y: "run w (lookup_pb rn) m0 = (y, m1)" by fastforce
    show ?thesis
    proof (cases y)
      case (Inl e)
      with y show ?thesis
        using approve_gate_missing [OF y [unfolded lookup_pb_def Inl]] by (simp add: all)
    next
      case (Inr pb)
      with y show ?thesis
        using approve_gate_found [OF y [unfolded lookup_pb_def Inr], of fresh r req "default_to ''approved'' (pe_Resolution req)" who runID]
        by (simp add: all)
    qed
  qed
qed

end
