(* ===== verification/Auditor_Notify.thy ===== *)
theory Auditor_Notify
  imports Remote_Audit Go_Float
begin

text \<open>
  The outer half of the real-time auditor, \<^verbatim>\<open>cmd/auditor/main.go\<close>: its configuration, the alerts it
  raises, the three notifiers, the metrics endpoint and the texts it prints. A message to syslog is the
  request with the method \<^verbatim>\<open>SYSLOG\<close>, a mail the one with the method \<^verbatim>\<open>SMTP\<close>. The value of a
  detail is one of the types the rules put there; what the libraries do with a \<^verbatim>\<open>float64\<close> and with the
  values of the tool parameters is collected in \<open>auditor_lib\<close>.
\<close>

section \<open>Durations and texts of the library\<close>

text \<open>\<^verbatim>\<open>Duration.String\<close>: the largest unit below a second that fits, or hours, minutes and seconds.\<close>

definition dur_frac :: "nat \<Rightarrow> nat \<Rightarrow> string" where
  "dur_frac p n = (if n = 0 then [] else CHR ''.'' # rev (dropWhile (\<lambda>c. c = CHR ''0'') (rev (digits p n))))"

definition dur_abs :: "nat \<Rightarrow> string" where
  "dur_abs u =
     (if u = 0 then ''0s''
      else if u < 1000 then nat_str u @ ''ns''
      else if u < 1000000 then nat_str (u div 1000) @ dur_frac 3 (u mod 1000) @ [CHR 0xC2, CHR 0xB5] @ ''s''
      else if u < 1000000000 then nat_str (u div 1000000) @ dur_frac 6 (u mod 1000000) @ ''ms''
      else (let s = u div 1000000000; m = s div 60; h = m div 60 in
        (if h > 0 then nat_str h @ ''h'' else []) @
        (if m > 0 then nat_str (m mod 60) @ ''m'' else []) @
        nat_str (s mod 60) @ dur_frac 9 (u mod 1000000000) @ ''s''))"

definition Duration_String :: "duration \<Rightarrow> string" where
  "Duration_String d = (if d < 0 then ''-'' else []) @ dur_abs (nat \<bar>d\<bar>)"

text \<open>\<^verbatim>\<open>Time.Sub\<close> saturates at the ends of the type.\<close>

definition time_sub :: "time \<Rightarrow> time \<Rightarrow> duration" where
  "time_sub t u = max (- (2 ^ 63)) (min (2 ^ 63 - 1) (int t - int u))"

definition hour_of :: "time \<Rightarrow> int" where
  "hour_of t = int (sod_of t div 3600)"

definition fmt_clock :: "time \<Rightarrow> string" where
  "fmt_clock t = digits 2 (sod_of t div 3600) @ '':'' @ digits 2 (sod_of t div 60 mod 60) @ '':'' @ digits 2 (sod_of t mod 60)"

definition lf :: string where
  "lf = [CHR 0x0A]"

text \<open>\<^verbatim>\<open>strings.SplitN\<close> with a separator of one character.\<close>

definition SplitN :: "char \<Rightarrow> nat \<Rightarrow> string \<Rightarrow> string list" where
  "SplitN c n s = (let ps = split_char c s in
     if length ps \<le> n then ps else take (n - 1) ps @ [join_str [c] (drop (n - 1) ps)])"

definition truncate_text :: "nat \<Rightarrow> string \<Rightarrow> string" where
  "truncate_text maxLen s = (if length s \<le> maxLen then s else take maxLen s @ ''...'')"

section \<open>Configuration, details and alerts\<close>

record auditor_config =
  cf_SocketPath :: string
  cf_LogAll :: bool
  cf_OutputJSON :: bool
  cf_Verify :: bool
  cf_DBPath :: string
  cf_WebhookURL :: string
  cf_WebhookAll :: bool
  cf_WebhookTest :: bool
  cf_PrometheusAddr :: string
  cf_SyslogEnabled :: bool
  cf_SyslogNetwork :: string
  cf_SyslogAddr :: string
  cf_SyslogTag :: string
  cf_SyslogTest :: bool
  cf_AuditServiceURL :: string
  cf_VerifyInterval :: duration
  cf_IncidentWebhookURL :: string
  cf_MaxEventsPerMinute :: int
  cf_AllowedHoursStart :: int
  cf_AllowedHoursEnd :: int
  cf_SMTPHost :: string
  cf_SMTPPort :: string
  cf_SMTPUser :: string
  cf_SMTPPassword :: string
  cf_EmailFrom :: string
  cf_EmailTo :: string
  cf_EmailTest :: bool

datatype level = Info | Warning | Critical

fun level_str :: "level \<Rightarrow> string" where
  "level_str Info = ''INFO''"
| "level_str Warning = ''WARNING''"
| "level_str Critical = ''CRITICAL''"

datatype detail = DStr string | DInt int | DBool bool | DFloat rat | DStrs "string list"

type_synonym details = "(string \<times> detail) list"

record audit_alert =
  at_Level :: level
  at_Message :: string
  at_EventID :: string
  at_SessionID :: string
  at_UserID :: string
  at_Agent :: string
  at_Details :: details
  at_Timestamp :: time

record auditor_lib =
  lb_conf :: "string \<Rightarrow> rat"
  lb_float_json :: "rat \<Rightarrow> json"
  lb_float_v :: "rat \<Rightarrow> string"
  lb_params :: "string \<Rightarrow> json_map"
  lb_any_v :: "json \<Rightarrow> string"
  lb_localHour :: "time \<Rightarrow> int"
  lb_status :: "string \<Rightarrow> string + chain_status"

fun detail_json :: "auditor_lib \<Rightarrow> detail \<Rightarrow> json" where
  "detail_json lb (DStr s) = JStr s"
| "detail_json lb (DInt n) = JNum n"
| "detail_json lb (DBool b) = JBool b"
| "detail_json lb (DFloat x) = lb_float_json lb x"
| "detail_json lb (DStrs ss) = JArr (map JStr ss)"

fun detail_v :: "auditor_lib \<Rightarrow> detail \<Rightarrow> string" where
  "detail_v lb (DStr s) = s"
| "detail_v lb (DInt n) = Itoa n"
| "detail_v lb (DBool b) = (if b then ''true'' else ''false'')"
| "detail_v lb (DFloat x) = lb_float_v lb x"
| "detail_v lb (DStrs ss) = fmt_strs ss"

definition details_json :: "auditor_lib \<Rightarrow> details \<Rightarrow> json" where
  "details_json lb ds = JObj (map (\<lambda>(k, v). (k, detail_json lb v)) ds)"

definition formatDetails :: "auditor_lib \<Rightarrow> details \<Rightarrow> string" where
  "formatDetails lb ds = (if ds = [] then ''(none)''
     else join_str lf (map (\<lambda>(k, v). ''  '' @ k @ '': '' @ detail_v lb v) ds))"

section \<open>Notifiers\<close>

record email_notifier =
  em_Host :: string
  em_Port :: string
  em_User :: string
  em_Password :: string
  em_From :: string
  em_To :: "string list"

datatype audit_notifier = WebhookNotifier string | SyslogNotifier string | EmailNotifier email_notifier

fun notifier_Name :: "audit_notifier \<Rightarrow> string" where
  "notifier_Name (WebhookNotifier _) = ''webhook''"
| "notifier_Name (SyslogNotifier _) = ''syslog''"
| "notifier_Name (EmailNotifier _) = ''email''"

definition webhook_payload :: "auditor_lib \<Rightarrow> string \<Rightarrow> audit_alert \<Rightarrow> json" where
  "webhook_payload lb url al =
     (if str_contains url ''slack.com'' then
        (let emoji = (if at_Level al = Critical then '':rotating_light:'' else '':warning:'') in
         JObj [(''text'', JStr (emoji @ '' *['' @ level_str (at_Level al) @ '']* '' @ at_Message al @ lf @
           ''>Event: '' @ at_EventID al @ '' | Agent: '' @ at_Agent al @ '' | User: '' @ at_UserID al))])
      else JObj [(''level'', JStr (level_str (at_Level al))), (''message'', JStr (at_Message al)),
        (''event_id'', JStr (at_EventID al)), (''session_id'', JStr (at_SessionID al)),
        (''user_id'', JStr (at_UserID al)), (''agent'', JStr (at_Agent al)),
        (''timestamp'', JStr (fmt_rfc3339 (at_Timestamp al))), (''details'', details_json lb (at_Details al))])"

definition webhook_Send :: "codec \<Rightarrow> auditor_lib \<Rightarrow> string \<Rightarrow> audit_alert \<Rightarrow> string option prog" where
  "webhook_Send cd lb url al =
     bindP (http_do cd \<lparr>hq_method = ''POST'', hq_url = url, hq_headers = [json_type],
         hq_body = Some (webhook_payload lb url al)\<rparr>) (\<lambda>x. Return (case x of
       NotBuilt err \<Rightarrow> Some err
     | NotSent err \<Rightarrow> Some err
     | Got c _ \<Rightarrow> (if c \<ge> 400 then Some (''webhook returned status '' @ Itoa c) else None)))"

text \<open>The address a syslog connection goes to; local without network and address.\<close>

definition syslog_url :: "string \<Rightarrow> string \<Rightarrow> string" where
  "syslog_url network addr = (if network = [] \<and> addr = [] then ''local'' else network @ ''://'' @ addr)"

definition NewSyslogNotifier :: "string \<Rightarrow> string \<Rightarrow> string \<Rightarrow> (string + audit_notifier) prog" where
  "NewSyslogNotifier network addr tag =
     Call \<lparr>hq_method = ''SYSLOG'', hq_url = syslog_url network addr, hq_headers = [(''tag'', tag)], hq_body = None\<rparr>
       (\<lambda>x. Return (case x of Refused err \<Rightarrow> Inl err | Response _ _ \<Rightarrow> Inr (SyslogNotifier (syslog_url network addr))))"

fun syslog_severity :: "level \<Rightarrow> string" where
  "syslog_severity Critical = ''crit''"
| "syslog_severity Warning = ''warning''"
| "syslog_severity Info = ''info''"

definition syslog_Send :: "string \<Rightarrow> audit_alert \<Rightarrow> string option prog" where
  "syslog_Send conn al =
     (let msg = ''['' @ level_str (at_Level al) @ ''] '' @ at_Message al @ '' (event='' @ at_EventID al @
            '' agent='' @ at_Agent al @ '' user='' @ at_UserID al @ '')''
      in Call \<lparr>hq_method = ''SYSLOG'', hq_url = conn, hq_headers = [(''severity'', syslog_severity (at_Level al))],
           hq_body = Some (JStr msg)\<rparr>
         (\<lambda>x. Return (case x of Refused err \<Rightarrow> Some err | Response _ _ \<Rightarrow> None)))"

definition email_body :: "auditor_lib \<Rightarrow> audit_alert \<Rightarrow> string" where
  "email_body lb al = ''Helpdesk Audit Alert'' @ lf @ lf @
     ''Level: '' @ level_str (at_Level al) @ lf @ ''Message: '' @ at_Message al @ lf @ lf @
     ''Event ID: '' @ at_EventID al @ lf @ ''Session: '' @ at_SessionID al @ lf @ ''User: '' @ at_UserID al @ lf @
     ''Agent: '' @ at_Agent al @ lf @ ''Time: '' @ fmt_rfc3339 (at_Timestamp al) @ lf @ lf @
     ''Details:'' @ lf @ formatDetails lb (at_Details al) @ lf"

definition email_Send :: "auditor_lib \<Rightarrow> email_notifier \<Rightarrow> audit_alert \<Rightarrow> string option prog" where
  "email_Send lb e al =
     (if at_Level al \<noteq> Critical then Return None
      else let crlf = [CHR 0x0D, CHR 0x0A];
          subject = ''[AUDIT '' @ level_str (at_Level al) @ ''] '' @ at_Message al;
          msg = ''From: '' @ em_From e @ crlf @ ''To: '' @ join_str '','' (em_To e) @ crlf @
            ''Subject: '' @ subject @ crlf @ crlf @ email_body lb al
      in Call \<lparr>hq_method = ''SMTP'', hq_url = em_Host e @ '':'' @ em_Port e,
           hq_headers = (if em_User e \<noteq> [] \<and> em_Password e \<noteq> [] then [(''AUTH'', em_User e)] else []) @
             [(''MAIL FROM'', em_From e)] @ map (\<lambda>t. (''RCPT TO'', t)) (em_To e),
           hq_body = Some (JStr msg)\<rparr>
         (\<lambda>x. Return (case x of Refused err \<Rightarrow> Some err | Response _ _ \<Rightarrow> None)))"

fun notifier_Send :: "codec \<Rightarrow> auditor_lib \<Rightarrow> audit_notifier \<Rightarrow> audit_alert \<Rightarrow> string option prog" where
  "notifier_Send cd lb (WebhookNotifier url) al = webhook_Send cd lb url al"
| "notifier_Send cd lb (SyslogNotifier conn) al = syslog_Send conn al"
| "notifier_Send cd lb (EmailNotifier e) al = email_Send lb e al"

text \<open>A failing notifier is logged and the next one is tried.\<close>

primrec send_all :: "codec \<Rightarrow> auditor_lib \<Rightarrow> audit_notifier list \<Rightarrow> audit_alert \<Rightarrow> unit prog" where
  "send_all cd lb [] al = Return ()"
| "send_all cd lb (n # ns) al = bindP (notifier_Send cd lb n al) (\<lambda>_. send_all cd lb ns al)"

definition buildNotifiers :: "auditor_config \<Rightarrow> audit_notifier list prog" where
  "buildNotifiers cfg =
     (let webhook = (if cf_WebhookURL cfg \<noteq> [] then [WebhookNotifier (cf_WebhookURL cfg)] else []);
          email = (if cf_SMTPHost cfg \<noteq> [] \<and> cf_EmailTo cfg \<noteq> [] then
            [EmailNotifier \<lparr>em_Host = cf_SMTPHost cfg, em_Port = cf_SMTPPort cfg, em_User = cf_SMTPUser cfg,
               em_Password = cf_SMTPPassword cfg, em_From = cf_EmailFrom cfg,
               em_To = split_char (CHR '','') (cf_EmailTo cfg)\<rparr>] else [])
      in if cf_SyslogEnabled cfg then
           bindP (NewSyslogNotifier (cf_SyslogNetwork cfg) (cf_SyslogAddr cfg) (cf_SyslogTag cfg)) (\<lambda>r.
             Return (webhook @ (case r of Inl _ \<Rightarrow> [] | Inr n \<Rightarrow> [n]) @ email))
         else Return (webhook @ email))"

section \<open>Metrics\<close>

text \<open>A counter map lists its keys in the order of their first use; the order of a Go map is unspecified.\<close>

type_synonym 'k counters = "('k \<times> int) list"

definition cnt :: "'k \<Rightarrow> 'k counters \<Rightarrow> int" where
  "cnt k m = (case map_of m k of Some n \<Rightarrow> n | None \<Rightarrow> 0)"

definition cnt_inc :: "'k \<Rightarrow> 'k counters \<Rightarrow> 'k counters" where
  "cnt_inc k m = (if map_of m k = None then m @ [(k, 1)] else map (\<lambda>(k', n). (k', if k' = k then n + 1 else n)) m)"

record metrics =
  mt_eventsTotal :: int
  mt_alertsTotal :: "level counters"
  mt_delegationsByAgent :: "string counters"
  mt_errorsByAgent :: "string counters"

definition NewMetrics :: metrics where
  "NewMetrics = \<lparr>mt_eventsTotal = 0, mt_alertsTotal = [], mt_delegationsByAgent = [], mt_errorsByAgent = []\<rparr>"

definition decision_agent :: "event \<Rightarrow> string" where
  "decision_agent ev = (case ev_Decision ev of Some d \<Rightarrow> rd_Agent d | None \<Rightarrow> [])"

definition outcome_error :: "event \<Rightarrow> bool" where
  "outcome_error ev = (case ev_Outcome ev of Some oc \<Rightarrow> oc_Status oc = ''error'' | None \<Rightarrow> False)"

definition metrics_RecordEvent :: "event \<Rightarrow> metrics \<Rightarrow> metrics" where
  "metrics_RecordEvent ev m =
     (let m = m\<lparr>mt_eventsTotal := mt_eventsTotal m + 1\<rparr>;
          m = (case ev_Decision ev of
            Some d \<Rightarrow> m\<lparr>mt_delegationsByAgent := cnt_inc (rd_Agent d) (mt_delegationsByAgent m)\<rparr>
          | None \<Rightarrow> m)
      in if outcome_error ev then m\<lparr>mt_errorsByAgent := cnt_inc (decision_agent ev) (mt_errorsByAgent m)\<rparr> else m)"

definition metrics_RecordAlert :: "level \<Rightarrow> metrics \<Rightarrow> metrics" where
  "metrics_RecordAlert l m = m\<lparr>mt_alertsTotal := cnt_inc l (mt_alertsTotal m)\<rparr>"

definition prom_family :: "string \<Rightarrow> string \<Rightarrow> string \<Rightarrow> (string \<times> int) list \<Rightarrow> string" where
  "prom_family name help label rows = ''# HELP '' @ name @ '' '' @ help @ lf @ ''# TYPE '' @ name @ '' counter'' @ lf @
     concat (map (\<lambda>(k, n). name @ ''{'' @ label @ ''='' @ Quote k @ ''} '' @ Itoa n @ lf) rows)"

definition metrics_ServeHTTP :: "metrics \<Rightarrow> string" where
  "metrics_ServeHTTP m =
     ''# HELP auditor_events_total Total number of audit events processed'' @ lf @
     ''# TYPE auditor_events_total counter'' @ lf @
     ''auditor_events_total '' @ Itoa (mt_eventsTotal m) @ lf @ lf @
     prom_family ''auditor_alerts_total'' ''Total number of alerts by level'' ''level''
       (map (\<lambda>(l, n). (level_str l, n)) (mt_alertsTotal m)) @ lf @
     prom_family ''auditor_delegations_total'' ''Total delegations by agent'' ''agent'' (mt_delegationsByAgent m) @ lf @
     prom_family ''auditor_errors_total'' ''Total errors by agent'' ''agent'' (mt_errorsByAgent m)"

section \<open>The log of events\<close>

fun actionClassIcon :: "string \<Rightarrow> string" where
  "actionClassIcon ac = (if ac = ''read'' then ''[R]'' else if ac = ''write'' then ''[W]''
     else if ac = ''destructive'' then ''[D]'' else ''[?]'')"

fun approvalStatusIcon :: "string \<Rightarrow> string" where
  "approvalStatusIcon st = (if st = ''approved'' \<or> st = ''auto_approved'' then ''[OK]''
     else if st = ''pending'' then ''[??]'' else if st = ''denied'' then ''[NO]'' else ''[--]'')"

definition isSensitiveParam :: "string \<Rightarrow> bool" where
  "isSensitiveParam name =
     list_ex (str_contains (ToLower name)) [''password'', ''secret'', ''token'', ''key'', ''credential'', ''auth'']"

definition formatParams :: "auditor_lib \<Rightarrow> json_map \<Rightarrow> string" where
  "formatParams lb params = (if params = [] then ''{}''
     else join_str '', '' (map (\<lambda>(k, v). if isSensitiveParam k then k @ ''=***'' else k @ ''='' @ lb_any_v lb v) params))"

definition right_arrow :: string where
  "right_arrow = [CHR 0xE2, CHR 0x86, CHR 0x92]"

definition log_line :: "string \<Rightarrow> string \<Rightarrow> string" where
  "log_line label s = ''  '' @ pad_right 12 (label @ '':'') @ s @ lf"

definition opt_line :: "string \<Rightarrow> string \<Rightarrow> string" where
  "opt_line label s = (if s = [] then [] else log_line label s)"

definition log_head :: "auditor_lib \<Rightarrow> event \<Rightarrow> string" where
  "log_head lb ev =
     (let conf = (case ev_Decision ev of Some d \<Rightarrow> lb_conf lb (rd_Confidence d) | None \<Rightarrow> 0);
          intent = (case ev_Decision ev of Some d \<Rightarrow> rd_UserIntent d | None \<Rightarrow> []);
          st = (case ev_Outcome ev of Some oc \<Rightarrow> oc_Status oc | None \<Rightarrow> []);
          dur = (case ev_Outcome ev of Some oc \<Rightarrow> Duration_String (oc_Duration oc) | None \<Rightarrow> [])
      in lf @ ''[EVENT] '' @ ev_EventID ev @ lf @ opt_line ''Trace'' (ev_TraceID ev) @
         log_line ''Time'' (fmt_clock (ev_Timestamp ev)) @ log_line ''Type'' (ev_EventType ev) @
         (if ev_ActionClass ev = [] then []
          else log_line ''Action'' (actionClassIcon (ev_ActionClass ev) @ '' '' @ ev_ActionClass ev)) @
         log_line ''Session'' (ss_ID (ev_Session ev) @ '' (user: '' @ ss_UserID (ev_Session ev) @ '')'') @
         log_line ''Agent'' (decision_agent ev @ '' (confidence: '' @ fmt0 (fl64 (conf * 100)) @ ''%)'') @
         log_line ''Intent'' intent @
         (if st = [] then [] else log_line ''Outcome'' (st @ '' ('' @ dur @ '')'')))"

definition log_tool :: "auditor_lib \<Rightarrow> tool_execution \<Rightarrow> string" where
  "log_tool lb tx = log_line ''Tool'' (tx_Name tx) @
     (if lb_params lb (tx_Parameters tx) = [] then []
      else log_line ''Params'' (formatParams lb (lb_params lb (tx_Parameters tx)))) @
     (if tx_RawCommand tx = [] then [] else log_line ''Command'' (truncate_text 100 (tx_RawCommand tx)))"

definition log_approval :: "approval \<Rightarrow> string" where
  "log_approval ap = ''  Approval:   '' @ approvalStatusIcon (av_Status ap) @ '' '' @ av_Status ap @
     (if av_ApprovedBy ap = [] then [] else '' (by '' @ av_ApprovedBy ap @ '')'') @
     (if av_PolicyName ap = [] then [] else '' ['' @ av_PolicyName ap @ '']'') @ lf"

definition log_policy :: "policy_decision \<Rightarrow> string" where
  "log_policy pd =
     (let icon = (if pd_Effect pd = ''deny'' then ''[NO] deny''
            else if pd_Effect pd = ''require_approval'' then ''[??] require_approval'' else ''[OK] allow'')
      in log_line ''Policy'' (icon @ ''  '' @ pd_Action pd @ '' '' @ right_arrow @ '' '' @ pd_ResourceName pd @
           ''  (matched: '' @ pd_PolicyName pd @ '')'') @
         (if pd_Tags pd = [] then [] else log_line ''Tags'' (join_str '', '' (pd_Tags pd))) @
         opt_line ''Msg'' (pd_Message pd) @
         (if pd_Explanation pd = [] then [] else log_line ''Explain'' (truncate_text 120 (pd_Explanation pd))))"

definition log_reasoning :: "agent_reasoning \<Rightarrow> string" where
  "log_reasoning ar = log_line ''Reasoning'' (truncate_text 120 (re_Reasoning ar)) @
     (if re_ToolCalls ar = [] then []
      else ''  '' @ right_arrow @ '' Tools:    '' @ join_str '', '' (re_ToolCalls ar) @ lf)"

text \<open>The two hashes are cut to twelve characters; \<open>None\<close> is the panic on a shorter one.\<close>

definition log_hash :: "event \<Rightarrow> string option" where
  "log_hash ev =
     (let h = ev_EventHash ev; p = ev_PrevHash ev in
      if h = [] then Some []
      else if length h < 12 then None
      else (let line = log_line ''Hash'' (take 12 h @ ''...'' @ drop (length h - 6) h) in
        if p = [] \<or> p = GenesisHash then Some line
        else if length p < 12 then None
        else Some (line @ log_line ''PrevHash'' (take 12 p @ ''...''))))"

definition logEvent :: "auditor_lib \<Rightarrow> event \<Rightarrow> string option" where
  "logEvent lb ev = map_option (\<lambda>h. log_head lb ev @
     (case ev_Tool ev of Some tx \<Rightarrow> log_tool lb tx | None \<Rightarrow> []) @
     (case ev_Approval ev of Some ap \<Rightarrow> log_approval ap | None \<Rightarrow> []) @
     (case ev_Decision ev of
        Some d \<Rightarrow> (if rd_ReasoningChain d = [] then [] else log_line ''Reasoning'' (join_str '' -> '' (rd_ReasoningChain d)))
      | None \<Rightarrow> []) @
     (case ev_PolicyDecision ev of Some pd \<Rightarrow> log_policy pd | None \<Rightarrow> []) @
     (case ev_AgentReasoning ev of Some ar \<Rightarrow> log_reasoning ar | None \<Rightarrow> []) @ h) (log_hash ev)"

end
