(* ===== verification/Auditor_Rules.thy ===== *)
theory Auditor_Rules
  imports Auditor_Notify
begin

text \<open>
  The detection rules of the real-time auditor, \<^verbatim>\<open>cmd/auditor/main.go\<close>: the state it keeps between
  events, the fourteen rules, the security alerts with their incident webhook, the verification of the
  chain through the audit service, and the two ways events arrive, the socket and the polling loop.
  \<open>ad_alerts\<close> lists the alerts the auditor raised, which is what its console shows; \<open>ad_stdout\<close> is its
  standard output; \<open>ad_spawned\<close> the goroutines it started. A timestamp is an instant in UTC, as the
  services record it, and the hour in the zone of the host is an argument. The goroutine of the periodic
  verification keeps the alerts it raises in its own copy of the state.
\<close>

section \<open>State\<close>

record security_alert =
  sec_Type :: string
  sec_Severity :: string
  sec_Message :: string
  sec_EventID :: string
  sec_TraceID :: string
  sec_Details :: details
  sec_Timestamp :: time

record audit_monitor =
  ad_cfg :: auditor_config
  ad_notifiers :: "audit_notifier list"
  ad_metrics :: "metrics option"
  ad_recentEvents :: "event list"
  ad_agentErrorCount :: "string counters"
  ad_agentCallCount :: "string counters"
  ad_sessionQueries :: "string \<Rightarrow> string list"
  ad_lastEventHash :: string
  ad_lastEventTime :: time
  ad_eventsThisMinute :: int
  ad_minuteStart :: time
  ad_securityAlerts :: "security_alert list"
  ad_alerts :: "audit_alert list"
  ad_stdout :: "string list"
  ad_spawned :: "unit prog list"

definition NewAuditor :: "auditor_config \<Rightarrow> audit_notifier list \<Rightarrow> metrics option \<Rightarrow> audit_monitor prog" where
  "NewAuditor cfg notifiers mt = Now (\<lambda>now. Return \<lparr>ad_cfg = cfg, ad_notifiers = notifiers, ad_metrics = mt,
     ad_recentEvents = [], ad_agentErrorCount = [], ad_agentCallCount = [], ad_sessionQueries = (\<lambda>_. []),
     ad_lastEventHash = [], ad_lastEventTime = 0, ad_eventsThisMinute = 0, ad_minuteStart = now,
     ad_securityAlerts = [], ad_alerts = [], ad_stdout = [], ad_spawned = []\<rparr>)"

text \<open>A bounded list: the oldest entry goes when a hundred are exceeded.\<close>

definition push100 :: "'a \<Rightarrow> 'a list \<Rightarrow> 'a list" where
  "push100 x xs = (let ys = xs @ [x] in if length ys > 100 then tl ys else ys)"

section \<open>Alerts\<close>

definition alert_of :: "level \<Rightarrow> string \<Rightarrow> event \<Rightarrow> details \<Rightarrow> audit_alert" where
  "alert_of lvl msg ev kv = \<lparr>at_Level = lvl, at_Message = msg, at_EventID = ev_EventID ev,
     at_SessionID = ss_ID (ev_Session ev), at_UserID = ss_UserID (ev_Session ev), at_Agent = decision_agent ev,
     at_Details = kv, at_Timestamp = ev_Timestamp ev\<rparr>"

definition alert_raised :: "audit_alert \<Rightarrow> audit_monitor \<Rightarrow> audit_monitor" where
  "alert_raised al a = a\<lparr>ad_metrics := map_option (metrics_RecordAlert (at_Level al)) (ad_metrics a),
     ad_alerts := ad_alerts a @ [al]\<rparr>"

definition alert ::
  "codec \<Rightarrow> auditor_lib \<Rightarrow> level \<Rightarrow> string \<Rightarrow> event \<Rightarrow> details \<Rightarrow> audit_monitor \<Rightarrow> audit_monitor prog" where
  "alert cd lb lvl msg ev kv a =
     bindP (send_all cd lb (ad_notifiers a) (alert_of lvl msg ev kv)) (\<lambda>_. Return (alert_raised (alert_of lvl msg ev kv) a))"

definition sendSecurityIncident :: "codec \<Rightarrow> auditor_lib \<Rightarrow> string \<Rightarrow> security_alert \<Rightarrow> unit prog" where
  "sendSecurityIncident cd lb url sa =
     bindP (http_do cd \<lparr>hq_method = ''POST'', hq_url = url, hq_headers = [json_type],
       hq_body = Some (JObj [(''type'', JStr ''security_incident''), (''alert_type'', JStr (sec_Type sa)),
         (''severity'', JStr (sec_Severity sa)), (''message'', JStr (sec_Message sa)), (''event_id'', JStr (sec_EventID sa)),
         (''trace_id'', JStr (sec_TraceID sa)), (''details'', details_json lb (sec_Details sa)),
         (''timestamp'', JStr (fmt_rfc3339 (sec_Timestamp sa))), (''source'', JStr ''audit_monitor'')])\<rparr>)
       (\<lambda>_. Return ())"

definition security_alert_of :: "string \<Rightarrow> level \<Rightarrow> string \<Rightarrow> event \<Rightarrow> details \<Rightarrow> time \<Rightarrow> security_alert" where
  "security_alert_of typ lvl msg ev kv now = \<lparr>sec_Type = typ, sec_Severity = level_str lvl, sec_Message = msg,
     sec_EventID = ev_EventID ev, sec_TraceID = ev_TraceID ev, sec_Details = kv, sec_Timestamp = now\<rparr>"

definition recordSecurityAlert ::
  "codec \<Rightarrow> auditor_lib \<Rightarrow> string \<Rightarrow> level \<Rightarrow> string \<Rightarrow> event \<Rightarrow> details \<Rightarrow> audit_monitor \<Rightarrow> audit_monitor prog" where
  "recordSecurityAlert cd lb typ lvl msg ev kv a = Now (\<lambda>now.
     let sa = security_alert_of typ lvl msg ev kv now;
         a = a\<lparr>ad_securityAlerts := push100 sa (ad_securityAlerts a)\<rparr>;
         a = (if cf_IncidentWebhookURL (ad_cfg a) \<noteq> [] \<and> lvl = Critical
           then a\<lparr>ad_spawned := ad_spawned a @ [sendSecurityIncident cd lb (cf_IncidentWebhookURL (ad_cfg a)) sa]\<rparr>
           else a)
     in alert cd lb lvl msg ev kv a)"

section \<open>Tracking\<close>

definition query_key :: "auditor_lib \<Rightarrow> event \<Rightarrow> tool_execution \<Rightarrow> string" where
  "query_key lb ev tx = tx_Name tx @ ''|'' @
     str_or_empty (map_of (lb_params lb (tx_Parameters tx)) ''connection_string'') @ ''|'' @ in_UserQuery (ev_Input ev)"

definition trackEvent :: "auditor_lib \<Rightarrow> event \<Rightarrow> audit_monitor \<Rightarrow> audit_monitor" where
  "trackEvent lb ev a =
     (let a = a\<lparr>ad_recentEvents := push100 ev (ad_recentEvents a)\<rparr>;
          a = (case ev_Decision ev of
            None \<Rightarrow> a
          | Some d \<Rightarrow>
              let a = a\<lparr>ad_agentCallCount := cnt_inc (rd_Agent d) (ad_agentCallCount a)\<rparr> in
              if outcome_error ev then a\<lparr>ad_agentErrorCount := cnt_inc (rd_Agent d) (ad_agentErrorCount a)\<rparr> else a)
      in case ev_Tool ev of
           None \<Rightarrow> a
         | Some tx \<Rightarrow>
             if ev_EventType ev = EventTypeToolExecution \<and> in_UserQuery (ev_Input ev) \<noteq> [] then
               a\<lparr>ad_sessionQueries := (ad_sessionQueries a)(ss_ID (ev_Session ev) :=
                 ad_sessionQueries a (ss_ID (ev_Session ev)) @ [query_key lb ev tx])\<rparr>
             else a)"

section \<open>Rules\<close>

type_synonym rule = "codec \<Rightarrow> auditor_lib \<Rightarrow> event \<Rightarrow> audit_monitor \<Rightarrow> audit_monitor prog"

definition checkLowConfidence :: rule where
  "checkLowConfidence cd lb ev a =
     (if ev_EventType ev = EventTypeToolExecution then Return a
      else case ev_Decision ev of
        None \<Rightarrow> Return a
      | Some d \<Rightarrow>
          let c = lb_conf lb (rd_Confidence d); kv = [(''confidence'', DFloat c), (''agent'', DStr (rd_Agent d))] in
          if c < 1 / 2 then alert cd lb Critical ''very low confidence delegation'' ev kv a
          else if c < fl64 (7 / 10) then alert cd lb Warning ''low confidence delegation'' ev kv a
          else Return a)"

definition expectedCategories :: "(string \<times> string list) list" where
  "expectedCategories = [(''postgres_database_agent'', [''database'']), (''k8s_agent'', [''kubernetes'']),
     (''incident_agent'', [''incident'']), (''research_agent'', [''research'']), (''gateway'', [''fleet''])]"

definition checkCategoryMismatch :: rule where
  "checkCategoryMismatch cd lb ev a = (case ev_Decision ev of
     None \<Rightarrow> Return a
   | Some d \<Rightarrow>
       (if ev_EventType ev = EventTypeGatewayRequest \<or> HasPrefix (rd_Agent d) ''pbs_'' then Return a
        else case map_of expectedCategories (rd_Agent d) of
          None \<Rightarrow> alert cd lb Warning ''unknown agent'' ev [(''agent'', DStr (rd_Agent d))] a
        | Some ex \<Rightarrow>
            if rd_RequestCategory d \<in> set ex then Return a
            else alert cd lb Warning ''category/agent mismatch'' ev [(''agent'', DStr (rd_Agent d)),
              (''category'', DStr (rd_RequestCategory d)), (''expected'', DStrs ex)] a))"

definition checkHighErrorRate :: rule where
  "checkHighErrorRate cd lb ev a = (case (ev_Decision ev, ev_Outcome ev) of
     (Some d, Some _) \<Rightarrow>
       let calls = cnt (rd_Agent d) (ad_agentCallCount a); errs = cnt (rd_Agent d) (ad_agentErrorCount a) in
       if calls < 5 then Return a
       else let rate = fl64 (of_int errs / of_int calls); pct = fmt0 (fl64 (rate * 100)) @ ''%'' in
         if rate > 1 / 2 then alert cd lb Critical ''high error rate for agent'' ev [(''agent'', DStr (rd_Agent d)),
           (''error_rate'', DStr pct), (''errors'', DInt errs), (''calls'', DInt calls)] a
         else if rate > fl64 (3 / 10) then alert cd lb Warning ''elevated error rate for agent'' ev
           [(''agent'', DStr (rd_Agent d)), (''error_rate'', DStr pct)] a
         else Return a
   | _ \<Rightarrow> Return a)"

definition trim_slashes :: "string \<Rightarrow> string" where
  "trim_slashes s = rev (dropWhile (\<lambda>c. c = CHR ''/'') (rev s))"

definition isPlaybookRun :: "event \<Rightarrow> bool" where
  "isPlaybookRun ev =
     (let intent = (case ev_Decision ev of Some d \<Rightarrow> rd_UserIntent d | None \<Rightarrow> []) in
      str_contains intent ''/fleet/playbooks'' \<and> HasPrefix (rev (trim_slashes intent)) (rev ''/run''))"

definition checkLongDuration :: rule where
  "checkLongDuration cd lb ev a = (case ev_Outcome ev of
     None \<Rightarrow> Return a
   | Some oc \<Rightarrow>
       let (warn, crit) = (if isPlaybookRun ev then (120 * Second, 300 * Second) else (15 * Second, 30 * Second));
           d = oc_Duration oc in
       if d > crit then alert cd lb Critical ''very long delegation duration'' ev
         [(''duration'', DStr (Duration_String d)), (''agent'', DStr (decision_agent ev))] a
       else if d > warn then alert cd lb Warning ''long delegation duration'' ev
         [(''duration'', DStr (Duration_String d))] a
       else Return a)"

definition display_query :: "string \<Rightarrow> string" where
  "display_query q = (let parts = SplitN (CHR ''|'') 4 q in
     if length parts = 4 then parts ! 0 @ '' on '' @ parts ! 1 @ '': '' @ parts ! 3
     else if length parts = 3 then parts ! 0 @ '': '' @ parts ! 2
     else q)"

text \<open>The loop looks at the four queries before the last one.\<close>

definition repeat_count :: "string list \<Rightarrow> nat" where
  "repeat_count qs = length (filter (\<lambda>q. q = last qs) (take 4 (tl (rev qs))))"

definition checkRepeatedQueries :: rule where
  "checkRepeatedQueries cd lb ev a =
     (let qs = ad_sessionQueries a (ss_ID (ev_Session ev)) in
      if HasPrefix (ev_TraceID ev) ''tr_flj_'' \<or> HasPrefix (ev_TraceID ev) ''dt_'' then Return a
      else if length qs < 3 then Return a
      else if repeat_count qs \<ge> 3 then
        alert cd lb Critical ''repeated identical queries detected (possible loop)'' ev
          [(''query'', DStr (truncate_text 80 (display_query (last qs)))), (''repeat_count'', DInt (int (repeat_count qs)))] a
      else Return a)"

definition checkEmptyReasoning :: rule where
  "checkEmptyReasoning cd lb ev a =
     (if ev_EventType ev \<in> {EventTypeGatewayRequest, EventTypeToolExecution, EventTypePolicyDecision, EventTypeAgentReasoning}
      then Return a
      else case ev_Decision ev of
        None \<Rightarrow> Return a
      | Some d \<Rightarrow> (if rd_ReasoningChain d = []
          then alert cd lb Warning ''delegation without reasoning chain'' ev [(''agent'', DStr (rd_Agent d))] a
          else Return a))"

definition policy_allowed :: "event \<Rightarrow> bool" where
  "policy_allowed ev = (case ev_PolicyDecision ev of Some pd \<Rightarrow> pd_Effect pd = ''allow'' | None \<Rightarrow> False)"

definition approval_status :: "event \<Rightarrow> string option" where
  "approval_status ev = map_option av_Status (ev_Approval ev)"

definition checkDangerousAction :: rule where
  "checkDangerousAction cd lb ev a =
     (let kv = [(''action_class'', DStr (ev_ActionClass ev)), (''trace_id'', DStr (ev_TraceID ev))] in
      if ev_EventType ev = EventTypeToolInvoked then Return a
      else if policy_allowed ev then Return a
      else if approval_status ev = Some ''auto_approved'' then Return a
      else if ev_ActionClass ev = ''write'' then alert cd lb Warning ''write operation detected'' ev kv a
      else if ev_ActionClass ev = ''destructive'' then alert cd lb Critical ''DESTRUCTIVE operation detected'' ev kv a
      else Return a)"

definition checkApprovalStatus :: rule where
  "checkApprovalStatus cd lb ev a = (case ev_Approval ev of
     None \<Rightarrow> Return a
   | Some ap \<Rightarrow>
       bindP (if av_Status ap = ''pending'' then alert cd lb Warning ''action pending approval'' ev
                [(''approval_status'', DStr (av_Status ap)), (''requested_by'', DStr (av_RequestedBy ap))] a
              else if av_Status ap = ''denied'' then alert cd lb Critical ''action was DENIED'' ev
                [(''approval_status'', DStr (av_Status ap)), (''denied_by'', DStr (av_ApprovedBy ap)),
                 (''reason'', DStr (av_Justification ap))] a
              else Return a) (\<lambda>a.
         if av_Status ap = ''approved'' \<and> av_ExpiresAt ap \<noteq> 0 then Now (\<lambda>now.
           if now > av_ExpiresAt ap then alert cd lb Warning ''approval has expired'' ev
             [(''expired_at'', DStr (fmt_rfc3339 (av_ExpiresAt ap)))] a
           else Return a)
         else Return a))"

definition hash_mismatch :: string where
  "hash_mismatch = ''EVENT HASH MISMATCH - possible tampering!''"

definition link_broken :: string where
  "link_broken = ''CHAIN LINK BROKEN - possible tampering!''"

definition checkChainIntegrity :: "digest \<Rightarrow> rule" where
  "checkChainIntegrity digest cd lb ev a =
     (if ev_EventHash ev = [] then Return a
      else bindP (if \<not> VerifyEventHash digest ev then alert cd lb Critical hash_mismatch ev
               [(''event_hash'', DStr (truncate_text 20 (ev_EventHash ev))), (''trace_id'', DStr (ev_TraceID ev))] a
             else Return a) (\<lambda>a.
        bindP (if ad_lastEventHash a \<noteq> [] \<and> ev_PrevHash ev \<noteq> [] \<and> ev_PrevHash ev \<noteq> ad_lastEventHash a then
               alert cd lb Critical link_broken ev
               [(''prev_hash'', DStr (truncate_text 20 (ev_PrevHash ev))),
                (''expected'', DStr (truncate_text 20 (ad_lastEventHash a))), (''trace_id'', DStr (ev_TraceID ev))] a
             else Return a) (\<lambda>a. Return (a\<lparr>ad_lastEventHash := ev_EventHash ev\<rparr>))))"

definition checkHighVolume :: rule where
  "checkHighVolume cd lb ev a =
     (let mx = cf_MaxEventsPerMinute (ad_cfg a) in
      if mx \<le> 0 then Return a
      else Now (\<lambda>now.
        let a = (if time_sub now (ad_minuteStart a) \<ge> Minute then a\<lparr>ad_eventsThisMinute := 0, ad_minuteStart := now\<rparr> else a);
            a = a\<lparr>ad_eventsThisMinute := ad_eventsThisMinute a + 1\<rparr>
        in if ad_eventsThisMinute a = mx + 1 then
             recordSecurityAlert cd lb ''high_volume'' Critical
               ''High volume activity detected - possible attack or data exfiltration'' ev
               [(''events_per_minute'', DInt (ad_eventsThisMinute a)), (''threshold'', DInt mx)] a
           else Return a))"

definition inAllowedHours :: "auditor_config \<Rightarrow> int \<Rightarrow> bool" where
  "inAllowedHours cfg hour =
     (if cf_AllowedHoursStart cfg \<le> cf_AllowedHoursEnd cfg
      then hour \<ge> cf_AllowedHoursStart cfg \<and> hour < cf_AllowedHoursEnd cfg
      else hour \<ge> cf_AllowedHoursStart cfg \<or> hour < cf_AllowedHoursEnd cfg)"

definition checkOffHours :: rule where
  "checkOffHours cd lb ev a =
     (let cfg = ad_cfg a; hour = lb_localHour lb (ev_Timestamp ev) in
      if cf_AllowedHoursStart cfg < 0 \<or> cf_AllowedHoursEnd cfg < 0 then Return a
      else if inAllowedHours cfg hour then Return a
      else recordSecurityAlert cd lb ''off_hours'' Warning ''Activity detected outside allowed hours'' ev
        [(''event_hour_local'', DInt hour), (''allowed_start'', DInt (cf_AllowedHoursStart cfg)),
         (''allowed_end'', DInt (cf_AllowedHoursEnd cfg))] a)"

definition checkUnauthorizedDestructive :: rule where
  "checkUnauthorizedDestructive cd lb ev a =
     (if ev_ActionClass ev \<noteq> ''destructive'' \<or> ev_EventType ev = EventTypeToolInvoked \<or> policy_allowed ev then Return a
      else case ev_Approval ev of
        None \<Rightarrow> recordSecurityAlert cd lb ''unauthorized_destructive'' Critical
          ''DESTRUCTIVE operation without approval record'' ev [(''action_class'', DStr (ev_ActionClass ev))] a
      | Some ap \<Rightarrow>
          (if av_Status ap \<noteq> ''approved'' \<and> av_Status ap \<noteq> ''auto_approved'' then
             recordSecurityAlert cd lb ''unauthorized_destructive'' Critical ''DESTRUCTIVE operation not approved'' ev
               [(''action_class'', DStr (ev_ActionClass ev)), (''approval_status'', DStr (av_Status ap))] a
           else Return a))"

text \<open>Whether the duration of the event itself explains that it is older than the one before.\<close>

definition gap_explained :: "event \<Rightarrow> duration \<Rightarrow> bool" where
  "gap_explained ev gap = (case ev_Outcome ev of
     Some oc \<Rightarrow> wrap64 (gap + oc_Duration oc) \<ge> - (5 * Second) | None \<Rightarrow> False)"

definition checkTimestampGap :: rule where
  "checkTimestampGap cd lb ev a =
     (if ad_lastEventTime a = 0 then Return (a\<lparr>ad_lastEventTime := ev_Timestamp ev\<rparr>)
      else let gap = time_sub (ev_Timestamp ev) (ad_lastEventTime a);
          kv = [(''gap'', DStr (Duration_String gap)), (''previous_time'', DStr (fmt_rfc3339 (ad_lastEventTime a)))] in
        bindP (if gap < - (5 * Second) \<and> \<not> gap_explained ev gap then
               recordSecurityAlert cd lb ''timestamp_anomaly'' Critical
                 ''Event timestamp is before previous event - possible manipulation'' ev kv a
             else Return a) (\<lambda>a.
        bindP (if gap > 60 * Minute \<and> 8 \<le> hour_of (ev_Timestamp ev) \<and> hour_of (ev_Timestamp ev) \<le> 18 then
               recordSecurityAlert cd lb ''timestamp_gap'' Warning ''Large gap between events - possible event deletion'' ev kv a
             else Return a) (\<lambda>a. Return (a\<lparr>ad_lastEventTime := ev_Timestamp ev\<rparr>))))"

definition fabrication_risk :: string where
  "fabrication_risk = ''FABRICATION RISK '' @ [CHR 0xE2, CHR 0x80, CHR 0x94] @
     '' agent returned success but audit trail has no matching tool executions''"

definition checkFabricationMismatch :: rule where
  "checkFabricationMismatch cd lb ev a =
     (if ev_EventType ev \<noteq> EventTypeDelegationVerification then Return a
      else case ev_DelegationVerification ev of
        None \<Rightarrow> Return a
      | Some dv \<Rightarrow> (if dv_Mismatch dv then
          recordSecurityAlert cd lb ''fabrication_mismatch'' Critical fabrication_risk ev
            [(''agent'', DStr (dv_Agent dv)), (''action_class'', DStr (dv_ActionClass dv)), (''trace_id'', DStr (ev_TraceID ev))] a
          else Return a))"

section \<open>Analysis of an event\<close>

definition rules :: "digest \<Rightarrow> rule list" where
  "rules digest = [checkLowConfidence, checkCategoryMismatch, checkHighErrorRate, checkLongDuration, checkRepeatedQueries,
     checkEmptyReasoning, checkDangerousAction, checkApprovalStatus, checkChainIntegrity digest, checkHighVolume,
     checkOffHours, checkUnauthorizedDestructive, checkTimestampGap, checkFabricationMismatch]"

primrec run_rules :: "rule list \<Rightarrow> rule" where
  "run_rules [] cd lb ev a = Return a"
| "run_rules (r # rs) cd lb ev a = bindP (r cd lb ev a) (run_rules rs cd lb ev)"

definition event_webhook_alert :: "auditor_lib \<Rightarrow> event \<Rightarrow> audit_alert" where
  "event_webhook_alert lb ev =
     (let conf = (case ev_Decision ev of Some d \<Rightarrow> lb_conf lb (rd_Confidence d) | None \<Rightarrow> 0);
          intent = (case ev_Decision ev of Some d \<Rightarrow> rd_UserIntent d | None \<Rightarrow> []);
          st = (case ev_Outcome ev of Some oc \<Rightarrow> oc_Status oc | None \<Rightarrow> [])
      in alert_of Info (''Delegation to '' @ decision_agent ev @ '' ('' @ fmt0 (fl64 (conf * 100)) @ ''% confidence)'') ev
           [(''intent'', DStr intent), (''outcome'', DStr st), (''confidence'', DFloat conf)])"

definition is_webhook :: "audit_notifier \<Rightarrow> bool" where
  "is_webhook n = (case n of WebhookNotifier _ \<Rightarrow> True | _ \<Rightarrow> False)"

definition sendEventToWebhook :: "codec \<Rightarrow> auditor_lib \<Rightarrow> event \<Rightarrow> audit_monitor \<Rightarrow> unit prog" where
  "sendEventToWebhook cd lb ev a = send_all cd lb (filter is_webhook (ad_notifiers a)) (event_webhook_alert lb ev)"

text \<open>What the analysis prints; \<open>None\<close> is the panic of the event log.\<close>

definition printed :: "codec \<Rightarrow> event_codec \<Rightarrow> auditor_lib \<Rightarrow> auditor_config \<Rightarrow> event \<Rightarrow> string list option" where
  "printed cd ec lb cfg ev =
     (if cf_OutputJSON cfg then Some [cd_text cd (ec_json ec ev) @ lf]
      else if cf_LogAll cfg then map_option (\<lambda>s. [s]) (logEvent lb ev)
      else Some [])"

definition Analyze ::
  "digest \<Rightarrow> codec \<Rightarrow> event_codec \<Rightarrow> auditor_lib \<Rightarrow> event \<Rightarrow> audit_monitor \<Rightarrow> audit_monitor option prog" where
  "Analyze digest cd ec lb ev a =
     (let a = a\<lparr>ad_metrics := map_option (metrics_RecordEvent ev) (ad_metrics a)\<rparr> in
      case printed cd ec lb (ad_cfg a) ev of
        None \<Rightarrow> Return None
      | Some out \<Rightarrow>
          let a = a\<lparr>ad_stdout := ad_stdout a @ out\<rparr> in
          bindP (if cf_WebhookAll (ad_cfg a) then sendEventToWebhook cd lb ev a else Return ()) (\<lambda>_.
            bindP (run_rules (rules digest) cd lb ev (trackEvent lb ev a)) (\<lambda>a. Return (Some a))))"

primrec analyze_all ::
  "digest \<Rightarrow> codec \<Rightarrow> event_codec \<Rightarrow> auditor_lib \<Rightarrow> event list \<Rightarrow> audit_monitor \<Rightarrow> audit_monitor option prog" where
  "analyze_all digest cd ec lb [] a = Return (Some a)"
| "analyze_all digest cd ec lb (ev # evs) a = bindP (Analyze digest cd ec lb ev a) (\<lambda>r. case r of
     None \<Rightarrow> Return None | Some a \<Rightarrow> analyze_all digest cd ec lb evs a)"

section \<open>Verification through the service\<close>

definition verifyChainFromService :: "codec \<Rightarrow> auditor_lib \<Rightarrow> string \<Rightarrow> audit_monitor \<Rightarrow> audit_monitor prog" where
  "verifyChainFromService cd lb url a =
     bindP (http_do cd \<lparr>hq_method = ''GET'', hq_url = TrimSuffix url ''/'' @ ''/v1/verify'', hq_headers = [], hq_body = None\<rparr>)
       (\<lambda>x. case x of
          Got c b \<Rightarrow>
            (if c \<noteq> 200 then Return a
             else case lb_status lb b of
               Inl _ \<Rightarrow> Return a
             | Inr st \<Rightarrow>
                 (if cs_Valid st then Return a
                  else Now (\<lambda>t1. Now (\<lambda>t2.
                    recordSecurityAlert cd lb ''chain_tampering'' Critical
                      ''AUDIT CHAIN TAMPERING DETECTED - Periodic verification failed''
                      (zero_event\<lparr>ev_EventID := ''verify_'' @ Itoa (int (t1 div sec_ns) - 62135596800), ev_Timestamp := t2,
                         ev_EventType := ''security_alert'', ev_TraceID := ''periodic_verification''\<rparr>)
                      [(''broken_at_index'', DInt (cs_BrokenAt st)), (''error'', DStr (cs_Error st)),
                       (''total_events'', DInt (int (cs_TotalEvents st))), (''hashed_events'', DInt (int (cs_HashedEvents st)))] a))))
        | _ \<Rightarrow> Return a)"

section \<open>Polling\<close>

definition fetchEventsHTTP :: "codec \<Rightarrow> event_codec \<Rightarrow> string \<Rightarrow> time \<Rightarrow> int \<Rightarrow> (string + event list) prog" where
  "fetchEventsHTTP cd ec baseURL since limit =
     (let u = baseURL @ ''/v1/events?limit='' @ Itoa limit @ (if since \<noteq> 0 then ''&since='' @ fmt_rfc3339 since else []) in
      bindP (http_do cd \<lparr>hq_method = ''GET'', hq_url = u, hq_headers = [], hq_body = None\<rparr>) (\<lambda>x. Return (case x of
        NotBuilt err \<Rightarrow> Inl err
      | NotSent err \<Rightarrow> Inl err
      | Got c b \<Rightarrow> (if c \<noteq> 200 then Inl (''audit service returned HTTP '' @ Itoa c)
          else case decode_events cd ec b of Inl e \<Rightarrow> Inl (''decode events: '' @ e) | Inr evs \<Rightarrow> Inr evs))))"

record poll_state =
  po_auditor :: audit_monitor
  po_latestSeen :: time
  po_seenIDs :: "string list"

definition latest :: "event list \<Rightarrow> time \<Rightarrow> time" where
  "latest evs t = fold (\<lambda>e t. if ev_Timestamp e > t then ev_Timestamp e else t) evs t"

definition poll_start ::
  "digest \<Rightarrow> codec \<Rightarrow> event_codec \<Rightarrow> auditor_lib \<Rightarrow> string \<Rightarrow> audit_monitor \<Rightarrow> poll_state option prog" where
  "poll_start digest cd ec lb baseURL a = bindP (fetchEventsHTTP cd ec baseURL 0 50) (\<lambda>r. case r of
     Inl _ \<Rightarrow> Return (Some \<lparr>po_auditor = a, po_latestSeen = 0, po_seenIDs = []\<rparr>)
   | Inr evs \<Rightarrow> bindP (analyze_all digest cd ec lb (rev evs) a) (\<lambda>r. Return (map_option (\<lambda>a.
       \<lparr>po_auditor = a, po_latestSeen = latest (rev evs) 0, po_seenIDs = remdups (map ev_EventID (rev evs))\<rparr>) r)))"

text \<open>The pass over a batch: the events whose identifier is new, in the order of the batch, and all identifiers.\<close>

fun unseen :: "string list \<Rightarrow> event list \<Rightarrow> event list \<times> string list" where
  "unseen ids [] = ([], ids)"
| "unseen ids (e # es) =
     (if ev_EventID e \<in> set ids then unseen ids es
      else let (evs, ids') = unseen (ids @ [ev_EventID e]) es in (e # evs, ids'))"

definition poll_round ::
  "digest \<Rightarrow> codec \<Rightarrow> event_codec \<Rightarrow> auditor_lib \<Rightarrow> string \<Rightarrow> poll_state \<Rightarrow> poll_state option prog" where
  "poll_round digest cd ec lb baseURL ps = Now (\<lambda>now.
     let since = (if po_latestSeen ps = 0 then time_add now (- Minute) else po_latestSeen ps) in
     bindP (fetchEventsHTTP cd ec baseURL since 200) (\<lambda>r. case r of
       Inl _ \<Rightarrow> Return (Some ps)
     | Inr evs \<Rightarrow>
         let (toDisplay, ids) = unseen (po_seenIDs ps) evs in
         bindP (analyze_all digest cd ec lb (rev toDisplay) (po_auditor ps)) (\<lambda>r. Return (map_option (\<lambda>a.
           \<lparr>po_auditor = a, po_latestSeen = latest evs (po_latestSeen ps),
            po_seenIDs = (if length ids > 2000 then [] else ids)\<rparr>) r))))"

text \<open>The first \<open>k\<close> rounds of the endless loop; the ticker fires every five seconds.\<close>

primrec poll_rounds ::
  "nat \<Rightarrow> digest \<Rightarrow> codec \<Rightarrow> event_codec \<Rightarrow> auditor_lib \<Rightarrow> string \<Rightarrow> poll_state \<Rightarrow> poll_state option prog" where
  "poll_rounds 0 digest cd ec lb baseURL ps = Return (Some ps)"
| "poll_rounds (Suc k) digest cd ec lb baseURL ps = Sleep (5 * Second)
     (bindP (poll_round digest cd ec lb baseURL ps) (\<lambda>r. case r of
        None \<Rightarrow> Return None | Some ps \<Rightarrow> poll_rounds k digest cd ec lb baseURL ps))"

definition runHTTPPollingMode ::
  "nat \<Rightarrow> digest \<Rightarrow> codec \<Rightarrow> event_codec \<Rightarrow> auditor_lib \<Rightarrow> auditor_config \<Rightarrow> audit_monitor \<Rightarrow> poll_state option prog" where
  "runHTTPPollingMode k digest cd ec lb cfg a =
     (let baseURL = TrimSuffix (cf_AuditServiceURL cfg) ''/'' in
      bindP (poll_start digest cd ec lb baseURL a) (\<lambda>r. case r of
        None \<Rightarrow> Return None | Some ps \<Rightarrow> poll_rounds k digest cd ec lb baseURL ps))"

section \<open>The command\<close>

text \<open>The periodic verification: once at the start and at every tick, \<open>k\<close> ticks of the endless loop.\<close>

primrec verify_ticks :: "nat \<Rightarrow> codec \<Rightarrow> auditor_lib \<Rightarrow> string \<Rightarrow> duration \<Rightarrow> audit_monitor \<Rightarrow> audit_monitor prog" where
  "verify_ticks 0 cd lb url interval a = Return a"
| "verify_ticks (Suc k) cd lb url interval a =
     Sleep interval (bindP (verifyChainFromService cd lb url a) (verify_ticks k cd lb url interval))"

definition runPeriodicVerification :: "nat \<Rightarrow> codec \<Rightarrow> auditor_lib \<Rightarrow> string \<Rightarrow> duration \<Rightarrow> audit_monitor \<Rightarrow> audit_monitor prog" where
  "runPeriodicVerification k cd lb url interval a =
     bindP (verifyChainFromService cd lb url a) (verify_ticks k cd lb url interval)"

text \<open>The verification mode: its output and the exit code; \<open>None\<close> is a panic. The first argument is the
  result of opening the database.\<close>

definition runVerifyMode ::
  "digest \<Rightarrow> string option \<Rightarrow> auditor_config \<Rightarrow> string + audit_store \<Rightarrow> (string \<times> int) option" where
  "runVerifyMode digest flt cfg db =
     (let intro = ''Audit Chain Verification'' @ lf @ ''========================'' @ lf @ ''Database: '' @ cf_DBPath cfg @ lf @ lf in
      case db of
        Inl err \<Rightarrow> Some (intro @ ''ERROR: Failed to open database: '' @ err @ lf, 1)
      | Inr s \<Rightarrow>
          (case VerifyIntegrity digest flt s of
             None \<Rightarrow> None
           | Some (Inl err) \<Rightarrow> Some (intro @ ''ERROR: Verification failed: '' @ err @ lf, 1)
           | Some (Inr st) \<Rightarrow>
               if 0 < cs_TotalEvents st \<and> cs_LastHash st \<noteq> [] \<and> length (cs_LastHash st) < 16 then None
               else
                 (let counts = ''Total Events:   '' @ nat_str (cs_TotalEvents st) @ lf @
                        ''Hashed Events:  '' @ nat_str (cs_HashedEvents st) @ lf @
                        ''Legacy Events:  '' @ nat_str (cs_LegacyEvents st) @ '' (no hash chain)'' @ lf @ lf;
                      ends = (if cs_TotalEvents st = 0 then [] else
                        ''First Event:    '' @ cs_FirstEventID st @ lf @ ''Last Event:     '' @ cs_LastEventID st @ lf @
                        (if cs_LastHash st = [] then [] else ''Last Hash:      '' @ take 16 (cs_LastHash st) @ ''...'' @
                           drop (length (cs_LastHash st) - 8) (cs_LastHash st) @ lf) @ lf)
                  in if cs_Valid st then
                       Some (intro @ counts @ ends @ ''Status: '' @ [CHR 0xE2, CHR 0x9C, CHR 0x93] @ '' VALID'' @ lf @
                         ''The audit chain has not been tampered with.'' @ lf, 0)
                     else
                       Some (intro @ counts @ ends @ ''Status: '' @ [CHR 0xE2, CHR 0x9C, CHR 0x97] @ '' INVALID'' @ lf @
                         ''Chain broken at event index: '' @ Itoa (cs_BrokenAt st) @ lf @ ''Error: '' @ cs_Error st @ lf @ lf @
                         [CHR 0xE2, CHR 0x9A, CHR 0xA0, CHR 0xEF, CHR 0xB8, CHR 0x8F] @
                         ''  The audit chain may have been tampered with!'' @ lf @
                         ''   Investigate the event at the broken link for potential issues.'' @ lf, 1))))"

text \<open>The alerts of the start-up tests, each for the notifiers of one kind.\<close>

definition test_alert :: "level \<Rightarrow> string \<Rightarrow> details \<Rightarrow> time \<Rightarrow> audit_alert" where
  "test_alert lvl what ds now = \<lparr>at_Level = lvl, at_Message = ''Auditor startup test - '' @ what @ '' is working'',
     at_EventID = ''test_startup'', at_SessionID = ''test'', at_UserID = ''auditor'', at_Agent = ''none'',
     at_Details = ds, at_Timestamp = now\<rparr>"

definition startup_tests :: "codec \<Rightarrow> auditor_lib \<Rightarrow> auditor_config \<Rightarrow> audit_notifier list \<Rightarrow> unit prog" where
  "startup_tests cd lb cfg ns =
     bindP (if cf_WebhookTest cfg \<and> cf_WebhookURL cfg \<noteq> [] then
            Now (\<lambda>now. send_all cd lb (filter is_webhook ns) (test_alert Info ''webhook'' [(''test'', DBool True)] now))
          else Return ()) (\<lambda>_.
     bindP (if cf_SyslogTest cfg \<and> cf_SyslogEnabled cfg then
            Now (\<lambda>now. send_all cd lb (filter (\<lambda>n. notifier_Name n = ''syslog'') ns) (test_alert Warning ''syslog'' [] now))
          else Return ()) (\<lambda>_.
     if cf_EmailTest cfg \<and> cf_SMTPHost cfg \<noteq> [] \<and> cf_EmailTo cfg \<noteq> [] then
       Now (\<lambda>now. send_all cd lb (filter (\<lambda>n. notifier_Name n = ''email'') ns)
         (test_alert Critical ''email'' [(''test'', DBool True)] now))
     else Return ()))"

text \<open>How the command ends: with an exit code, by a panic, or still polling after the rounds looked at.\<close>

datatype main_end = Exit int audit_monitor | Exited int | Panicked | Polling poll_state

text \<open>
  The lines the socket delivers and whether the connection then fails. The scanner of the library gives up
  on a line that does not fit its buffer of 64 KiB with the line feed.
\<close>

fun scan_events ::
  "digest \<Rightarrow> codec \<Rightarrow> event_codec \<Rightarrow> auditor_lib \<Rightarrow> string list \<Rightarrow> bool \<Rightarrow> audit_monitor \<Rightarrow> main_end prog" where
  "scan_events digest cd ec lb [] failed a = Return (Exit (if failed then 1 else 0) a)"
| "scan_events digest cd ec lb (l # ls) failed a =
     (if length l > 65535 then Return (Exit 1 a)
      else if l = [] then scan_events digest cd ec lb ls failed a
      else case cd_parse cd l of
        Inl _ \<Rightarrow> scan_events digest cd ec lb ls failed a
      | Inr v \<Rightarrow>
          (case ec_event ec v of
             None \<Rightarrow> scan_events digest cd ec lb ls failed a
           | Some ev \<Rightarrow> bindP (Analyze digest cd ec lb ev a) (\<lambda>r. case r of
               None \<Rightarrow> Return Panicked | Some a \<Rightarrow> scan_events digest cd ec lb ls failed a)))"

text \<open>The configuration after the two variables of the environment.\<close>

definition env_config :: "(string \<Rightarrow> string) \<Rightarrow> auditor_config \<Rightarrow> auditor_config" where
  "env_config getenv cfg =
     (let cfg = (if cf_SMTPPassword cfg = [] then cfg\<lparr>cf_SMTPPassword := getenv ''SMTP_PASSWORD''\<rparr> else cfg) in
      if \<not> cf_LogAll cfg \<and> getenv ''HELPDESK_AUDITOR_LOG_ALL'' \<in> {''true'', ''1''} then cfg\<lparr>cf_LogAll := True\<rparr> else cfg)"

definition auditor_main ::
  "nat \<Rightarrow> digest \<Rightarrow> codec \<Rightarrow> event_codec \<Rightarrow> auditor_lib \<Rightarrow> (string \<Rightarrow> string) \<Rightarrow> string option \<Rightarrow> string + audit_store \<Rightarrow>
   string list \<Rightarrow> bool \<Rightarrow> auditor_config \<Rightarrow> main_end prog" where
  "auditor_main k digest cd ec lb getenv flt db lines failed flags =
     (let cfg = env_config getenv flags in
      if cf_Verify cfg then
        Return (case runVerifyMode digest flt cfg db of None \<Rightarrow> Panicked | Some (_, c) \<Rightarrow> Exited c)
      else
        bindP (buildNotifiers cfg) (\<lambda>ns.
        bindP (startup_tests cd lb cfg ns) (\<lambda>_.
        let mt = (if cf_PrometheusAddr cfg \<noteq> [] then Some NewMetrics else None) in
        Call \<lparr>hq_method = ''DIAL'', hq_url = ''unix:'' @ cf_SocketPath cfg, hq_headers = [], hq_body = None\<rparr> (\<lambda>x. case x of
          Refused _ \<Rightarrow>
            (if cf_AuditServiceURL cfg \<noteq> [] then
               bindP (NewAuditor cfg ns mt) (\<lambda>a. bindP (runHTTPPollingMode k digest cd ec lb cfg a) (\<lambda>r.
                 Return (case r of None \<Rightarrow> Panicked | Some ps \<Rightarrow> Polling ps)))
             else Return (Exited 1))
        | Response _ _ \<Rightarrow>
            bindP (NewAuditor cfg ns mt) (\<lambda>a.
              let a = (if cf_VerifyInterval cfg > 0 \<and> cf_AuditServiceURL cfg \<noteq> [] then
                a\<lparr>ad_spawned := ad_spawned a @ [bindP (runPeriodicVerification k cd lb (cf_AuditServiceURL cfg)
                    (cf_VerifyInterval cfg) a) (\<lambda>_. Return ())]\<rparr> else a)
              in scan_events digest cd ec lb lines failed a)))))"

end
