(* ===== verification/Auditor_Checks.thy ===== *)
theory Auditor_Checks
  imports Auditor_Rules
begin

text \<open>
  What the real-time auditor guarantees. \<open>after M a a'\<close> relates two states of the auditor: new alerts
  have messages in \<open>M\<close>, nothing that was started is forgotten, and the hash of the last event is kept.
  \<open>steady M a p\<close> lifts it to every run of a program. The calculus of these two carries the proofs: each rule
  has a fact that names its messages, so that an alert can be traced back to the rule that raised it.
\<close>

section \<open>Effects of programs\<close>

definition after :: "string set \<Rightarrow> audit_monitor \<Rightarrow> audit_monitor \<Rightarrow> bool" where
  "after M a a' \<longleftrightarrow> (\<exists>xs. ad_alerts a' = ad_alerts a @ xs \<and> at_Message ` set xs \<subseteq> M) \<and>
     ad_recentEvents a' = ad_recentEvents a \<and> (length (ad_securityAlerts a) \<le> 100 \<longrightarrow> length (ad_securityAlerts a') \<le> 100) \<and>
     set (ad_spawned a) \<subseteq> set (ad_spawned a') \<and> ad_cfg a' = ad_cfg a \<and> ad_lastEventHash a' = ad_lastEventHash a"

definition steady :: "string set \<Rightarrow> audit_monitor \<Rightarrow> audit_monitor prog \<Rightarrow> bool" where
  "steady M a p \<longleftrightarrow> (\<forall>w n. after M a (fst (run w p n)))"

named_theorems steady_intros \<open>rules that decompose a steady program\<close>

lemma after_refl [simp]: "after M a a"
  by (simp add: after_def)

lemma after_trans: "after M a b \<Longrightarrow> after M b c \<Longrightarrow> after M a c"
  by (force simp: after_def)

lemma after_mono: "after M a b \<Longrightarrow> M \<subseteq> N \<Longrightarrow> after N a b"
  by (auto simp: after_def)

lemma after_raised: "at_Message al \<in> M \<Longrightarrow> after M a (alert_raised al a)"
  by (auto simp: after_def alert_raised_def)

lemma steady_mono: "steady M a p \<Longrightarrow> M \<subseteq> N \<Longrightarrow> steady N a p"
  by (auto simp: steady_def intro: after_mono)

lemma steady_Return [steady_intros]: "after M a b \<Longrightarrow> steady M a (Return b)"
  by (simp add: steady_def)

lemma steady_Now [steady_intros]: "(\<And>t. steady M a (f t)) \<Longrightarrow> steady M a (Now f)"
  by (simp add: steady_def)

lemma steady_bind [steady_intros]:
  assumes "steady M a p" "\<And>b. after M a b \<Longrightarrow> steady M b (g b)"
  shows "steady M a (bindP p g)"
  unfolding steady_def
proof (intro allI)
  fix w n
  obtain b m where b: "run w p n = (b, m)"
    by fastforce
  with assms(1) have ab: "after M a b"
    unfolding steady_def by (metis fst_conv)
  with assms(2) have "after M b (fst (run w (g b) m))"
    by (simp add: steady_def)
  with ab show "after M a (fst (run w (bindP p g) n))"
    by (simp add: run_bindP b after_trans)
qed

lemma steady_if [steady_intros]: "(b \<Longrightarrow> steady M a p) \<Longrightarrow> (\<not> b \<Longrightarrow> steady M a q) \<Longrightarrow> steady M a (if b then p else q)"
  by simp

lemma run_alert [simp]: "fst (run w (alert cd lb lvl msg ev kv a) n) = alert_raised (alert_of lvl msg ev kv) a"
  by (simp add: alert_def run_bindP case_prod_unfold Let_def)

lemma alert_of_simps [simp]:
  "at_Message (alert_of lvl msg ev kv) = msg" "at_Level (alert_of lvl msg ev kv) = lvl"
  "at_EventID (alert_of lvl msg ev kv) = ev_EventID ev"
  by (simp_all add: alert_of_def)

lemma steady_alert [steady_intros]: "msg \<in> M \<Longrightarrow> steady M a (alert cd lb lvl msg ev kv a)"
  by (simp add: steady_def after_raised)

lemma after_same:
  "ad_alerts a' = ad_alerts a \<Longrightarrow> ad_recentEvents a' = ad_recentEvents a \<Longrightarrow>
   (length (ad_securityAlerts a) \<le> 100 \<Longrightarrow> length (ad_securityAlerts a') \<le> 100) \<Longrightarrow> set (ad_spawned a) \<subseteq> set (ad_spawned a') \<Longrightarrow> ad_cfg a' = ad_cfg a \<Longrightarrow>
   ad_lastEventHash a' = ad_lastEventHash a \<Longrightarrow> after M a a'"
  by (simp add: after_def)

lemma steady_cong: "after M a b \<Longrightarrow> steady M b p \<Longrightarrow> steady M a p"
  by (auto simp: steady_def intro: after_trans)

lemma push100_length [simp]: "length xs \<le> 100 \<Longrightarrow> length (push100 x xs) \<le> 100"
  by (simp add: push100_def Let_def)

lemma steady_security [steady_intros]:
  "msg \<in> M \<Longrightarrow> steady M a (recordSecurityAlert cd lb typ lvl msg ev kv a)"
  by (auto simp: recordSecurityAlert_def Let_def
      intro!: steady_Now steady_cong [OF after_same steady_alert])

section \<open>The messages of the rules\<close>

lemma steady_LowConfidence:
  "steady {''very low confidence delegation'', ''low confidence delegation''} a (checkLowConfidence cd lb ev a)"
  by (auto simp: checkLowConfidence_def Let_def split: option.split intro!: steady_intros)

lemma steady_CategoryMismatch:
  "steady {''unknown agent'', ''category/agent mismatch''} a (checkCategoryMismatch cd lb ev a)"
  by (auto simp: checkCategoryMismatch_def Let_def split: option.split intro!: steady_intros)

lemma steady_HighErrorRate:
  "steady {''high error rate for agent'', ''elevated error rate for agent''} a (checkHighErrorRate cd lb ev a)"
  by (auto simp: checkHighErrorRate_def Let_def split: option.split intro!: steady_intros)

lemma steady_LongDuration:
  "steady {''very long delegation duration'', ''long delegation duration''} a (checkLongDuration cd lb ev a)"
  by (auto simp: checkLongDuration_def Let_def split: option.split intro!: steady_intros)

lemma steady_RepeatedQueries:
  "steady {''repeated identical queries detected (possible loop)''} a (checkRepeatedQueries cd lb ev a)"
  by (auto simp: checkRepeatedQueries_def Let_def intro!: steady_intros)

lemma steady_EmptyReasoning:
  "steady {''delegation without reasoning chain''} a (checkEmptyReasoning cd lb ev a)"
  by (auto simp: checkEmptyReasoning_def Let_def split: option.split intro!: steady_intros)

lemma steady_DangerousAction:
  "steady {''write operation detected'', ''DESTRUCTIVE operation detected''} a (checkDangerousAction cd lb ev a)"
  by (auto simp: checkDangerousAction_def Let_def intro!: steady_intros)

lemma steady_ApprovalStatus:
  "steady {''action pending approval'', ''action was DENIED'', ''approval has expired''} a (checkApprovalStatus cd lb ev a)"
  by (auto simp: checkApprovalStatus_def Let_def split: option.split intro!: steady_intros)

lemma steady_HighVolume:
  "steady {''High volume activity detected - possible attack or data exfiltration''} a (checkHighVolume cd lb ev a)"
  by (auto simp: checkHighVolume_def Let_def intro!: steady_Now steady_cong [OF after_same steady_security] steady_Return after_same)

lemma steady_OffHours:
  "steady {''Activity detected outside allowed hours''} a (checkOffHours cd lb ev a)"
  by (auto simp: checkOffHours_def Let_def intro!: steady_intros)

lemma steady_TimestampGap:
  "steady {''Event timestamp is before previous event - possible manipulation'',
     ''Large gap between events - possible event deletion''} a (checkTimestampGap cd lb ev a)"
  by (auto simp: checkTimestampGap_def Let_def intro!: steady_intros after_same)

lemma steady_FabricationMismatch:
  "steady {fabrication_risk} a (checkFabricationMismatch cd lb ev a)"
  by (auto simp: checkFabricationMismatch_def Let_def split: option.split intro!: steady_intros)

section \<open>From rules to the analysis\<close>

definition chain_messages :: "string set" where
  "chain_messages = {hash_mismatch, link_broken}"

definition unauthorized_messages :: "string set" where
  "unauthorized_messages = {''DESTRUCTIVE operation without approval record'', ''DESTRUCTIVE operation not approved''}"

lemmas message_defs = chain_messages_def unauthorized_messages_def hash_mismatch_def link_broken_def fabrication_risk_def

abbreviation other_messages :: "string set" where
  "other_messages \<equiv> - (chain_messages \<union> unauthorized_messages)"

definition innocent :: "rule \<Rightarrow> bool" where
  "innocent r \<longleftrightarrow> (\<forall>cd lb ev a. steady other_messages a (r cd lb ev a))"

lemma innocent_rules:
  "innocent checkLowConfidence" "innocent checkCategoryMismatch" "innocent checkHighErrorRate" "innocent checkLongDuration"
  "innocent checkRepeatedQueries" "innocent checkEmptyReasoning" "innocent checkDangerousAction"
  "innocent checkApprovalStatus" "innocent checkHighVolume" "innocent checkOffHours" "innocent checkTimestampGap"
  "innocent checkFabricationMismatch"
  unfolding innocent_def
  by (intro allI, (rule steady_LowConfidence [THEN steady_mono] steady_CategoryMismatch [THEN steady_mono]
      steady_HighErrorRate [THEN steady_mono] steady_LongDuration [THEN steady_mono]
      steady_RepeatedQueries [THEN steady_mono] steady_EmptyReasoning [THEN steady_mono]
      steady_DangerousAction [THEN steady_mono] steady_ApprovalStatus [THEN steady_mono]
      steady_HighVolume [THEN steady_mono] steady_OffHours [THEN steady_mono]
      steady_TimestampGap [THEN steady_mono] steady_FabricationMismatch [THEN steady_mono]),
      simp add: message_defs)+

lemma steady_run_rules: "list_all innocent rs \<Longrightarrow> steady other_messages a (run_rules rs cd lb ev a)"
proof (induction rs arbitrary: a)
  case (Cons r rs)
  then have "steady other_messages a (r cd lb ev a)"
    by (simp add: innocent_def)
  with Cons show ?case
    by (auto intro: steady_bind)
qed (simp add: steady_Return)

lemma run_rules_append: "run_rules (rs @ qs) cd lb ev a = bindP (run_rules rs cd lb ev a) (run_rules qs cd lb ev)"
proof (induction rs arbitrary: a)
  case (Cons r rs)
  then have "run_rules (rs @ qs) cd lb ev = (\<lambda>x. bindP (run_rules rs cd lb ev x) (run_rules qs cd lb ev))"
    by (intro ext) simp
  then show ?case
    by (simp add: bindP_assoc)
qed simp

definition rules_before :: "rule list" where
  "rules_before = [checkLowConfidence, checkCategoryMismatch, checkHighErrorRate, checkLongDuration, checkRepeatedQueries,
     checkEmptyReasoning, checkDangerousAction, checkApprovalStatus]"

lemma rules_split: "rules digest = rules_before @ [checkChainIntegrity digest] @ [checkHighVolume, checkOffHours] @
    [checkUnauthorizedDestructive] @ [checkTimestampGap, checkFabricationMismatch]"
  by (simp add: rules_def rules_before_def)

lemma run_rules_cases:
  assumes "fst (run w (run_rules (rules digest) cd lb ev a) n) = a'"
  obtains b c d e m k where "after other_messages a b" "fst (run w (checkChainIntegrity digest cd lb ev b) m) = c"
    "after other_messages c d" "fst (run w (checkUnauthorizedDestructive cd lb ev d) k) = e" "after other_messages e a'"
proof -
  let ?s = "\<lambda>rs. run_rules rs cd lb ev"
  obtain b m where b: "run w (?s rules_before a) n = (b, m)"
    by fastforce
  obtain c m1 where c: "run w (checkChainIntegrity digest cd lb ev b) m = (c, m1)"
    by fastforce
  obtain d k where d: "run w (?s [checkHighVolume, checkOffHours] c) m1 = (d, k)"
    by fastforce
  obtain e k1 where e: "run w (checkUnauthorizedDestructive cd lb ev d) k = (e, k1)"
    by fastforce
  have a': "a' = fst (run w (?s [checkTimestampGap, checkFabricationMismatch] e) k1)"
    using assms b c d e unfolding rules_split run_rules_append run_bindP by (simp add: run_bindP)
  have st: "after other_messages x (fst (run w (?s rs x) j))" if "list_all innocent rs" for rs x j
    using steady_run_rules [OF that] by (simp add: steady_def)
  show thesis
    using that [of b m c d k e] st [of rules_before a n] st [of "[checkHighVolume, checkOffHours]" c m1]
      st [of "[checkTimestampGap, checkFabricationMismatch]" e k1] b c d e a'
    by (simp add: rules_before_def innocent_rules)
qed

lemma Analyze_cases:
  assumes "run w (Analyze digest cd ec lb ev a) n = (Some a', n')"
  obtains b m where "ad_alerts b = ad_alerts a" "ad_spawned b = ad_spawned a" "ad_cfg b = ad_cfg a"
    "ad_lastEventHash b = ad_lastEventHash a" "fst (run w (run_rules (rules digest) cd lb ev b) m) = a'"
proof -
  let ?b = "\<lambda>out. trackEvent lb ev (a\<lparr>ad_metrics := map_option (metrics_RecordEvent ev) (ad_metrics a),
    ad_stdout := ad_stdout a @ out\<rparr>)"
  from assms obtain out m where "fst (run w (run_rules (rules digest) cd lb ev (?b out)) m) = a'"
    by (auto simp: Analyze_def Let_def run_bindP case_prod_unfold split: option.splits)
  moreover have "ad_alerts (?b out) = ad_alerts a" "ad_spawned (?b out) = ad_spawned a" "ad_cfg (?b out) = ad_cfg a"
    "ad_lastEventHash (?b out) = ad_lastEventHash a"
    by (simp_all add: trackEvent_def Let_def split: option.split)
  ultimately show thesis
    using that by blast
qed

section \<open>The chain rule and the destructive rule\<close>

definition chain_alarm :: "digest \<Rightarrow> string \<Rightarrow> event \<Rightarrow> bool" where
  "chain_alarm digest lasth ev \<longleftrightarrow> ev_EventHash ev \<noteq> [] \<and>
     (\<not> VerifyEventHash digest ev \<or> lasth \<noteq> [] \<and> ev_PrevHash ev \<noteq> [] \<and> ev_PrevHash ev \<noteq> lasth)"

lemma raised_simps [simp]:
  "ad_alerts (alert_raised al a) = ad_alerts a @ [al]" "ad_lastEventHash (alert_raised al a) = ad_lastEventHash a"
  "ad_spawned (alert_raised al a) = ad_spawned a" "ad_cfg (alert_raised al a) = ad_cfg a"
  "ad_securityAlerts (alert_raised al a) = ad_securityAlerts a" "ad_recentEvents (alert_raised al a) = ad_recentEvents a"
  by (simp_all add: alert_raised_def)

lemma run_chain:
  assumes "fst (run w (checkChainIntegrity digest cd lb ev a) n) = a'"
  shows "\<exists>xs. ad_alerts a' = ad_alerts a @ xs \<and> at_Message ` set xs \<subseteq> chain_messages \<and>
     (xs \<noteq> [] \<longleftrightarrow> chain_alarm digest (ad_lastEventHash a) ev)"
    and "ad_lastEventHash a' = (if ev_EventHash ev = [] then ad_lastEventHash a else ev_EventHash ev)"
    and "ad_spawned a' = ad_spawned a" "ad_cfg a' = ad_cfg a"
  using assms
  by (auto simp: checkChainIntegrity_def chain_alarm_def chain_messages_def run_bindP case_prod_unfold Let_def)

definition unauthorized :: "event \<Rightarrow> bool" where
  "unauthorized ev \<longleftrightarrow> ev_ActionClass ev = ''destructive'' \<and> ev_EventType ev \<noteq> EventTypeToolInvoked \<and>
     \<not> policy_allowed ev \<and> approval_status ev \<notin> {Some ''approved'', Some ''auto_approved''}"

definition incident_of :: "codec \<Rightarrow> auditor_lib \<Rightarrow> auditor_config \<Rightarrow> string \<Rightarrow> event \<Rightarrow> unit prog \<Rightarrow> bool" where
  "incident_of cd lb cfg typ ev p \<longleftrightarrow> (\<exists>msg kv now. p = sendSecurityIncident cd lb (cf_IncidentWebhookURL cfg)
     (security_alert_of typ Critical msg ev kv now))"

lemma incident_ofI [intro]:
  "incident_of cd lb cfg typ ev (sendSecurityIncident cd lb (cf_IncidentWebhookURL cfg)
     (security_alert_of typ Critical msg ev kv now))"
  by (auto simp: incident_of_def)

lemma run_security:
  "ad_alerts (fst (run w (recordSecurityAlert cd lb typ lvl msg ev kv a) n)) = ad_alerts a @ [alert_of lvl msg ev kv]"
  "ad_lastEventHash (fst (run w (recordSecurityAlert cd lb typ lvl msg ev kv a) n)) = ad_lastEventHash a"
  "ad_cfg (fst (run w (recordSecurityAlert cd lb typ lvl msg ev kv a) n)) = ad_cfg a"
  "ad_spawned (fst (run w (recordSecurityAlert cd lb typ lvl msg ev kv a) n)) = ad_spawned a @
     (if cf_IncidentWebhookURL (ad_cfg a) \<noteq> [] \<and> lvl = Critical then [sendSecurityIncident cd lb
        (cf_IncidentWebhookURL (ad_cfg a)) (security_alert_of typ lvl msg ev kv (nt_now n))] else [])"
  by (simp_all add: recordSecurityAlert_def Let_def)

lemma run_unauthorized:
  assumes "fst (run w (checkUnauthorizedDestructive cd lb ev a) n) = a'"
  shows "\<exists>xs. ad_alerts a' = ad_alerts a @ xs \<and> at_Message ` set xs \<subseteq> unauthorized_messages \<and>
     (\<forall>al \<in> set xs. at_Level al = Critical \<and> at_EventID al = ev_EventID ev) \<and> (xs \<noteq> [] \<longleftrightarrow> unauthorized ev)"
    and "ad_lastEventHash a' = ad_lastEventHash a" "ad_cfg a' = ad_cfg a"
    and "set (ad_spawned a) \<subseteq> set (ad_spawned a')"
    and "unauthorized ev \<Longrightarrow> cf_IncidentWebhookURL (ad_cfg a) \<noteq> [] \<Longrightarrow>
      \<exists>p \<in> set (ad_spawned a'). incident_of cd lb (ad_cfg a) ''unauthorized_destructive'' ev p"
  using assms
  by (auto simp: checkUnauthorizedDestructive_def unauthorized_def unauthorized_messages_def approval_status_def
      run_security split: option.splits if_splits)

section \<open>One event\<close>

definition alarmed :: "string set \<Rightarrow> audit_monitor \<Rightarrow> audit_monitor \<Rightarrow> bool" where
  "alarmed M a a' \<longleftrightarrow> (\<exists>al \<in> set (drop (length (ad_alerts a)) (ad_alerts a')). at_Message al \<in> M)"

lemma alarmed_append [simp]:
  "ad_alerts a' = ad_alerts a @ xs \<Longrightarrow> alarmed M a a' \<longleftrightarrow> (\<exists>al \<in> set xs. at_Message al \<in> M)"
  by (simp add: alarmed_def)

lemma Analyze_returns:
  assumes "printed cd ec lb (ad_cfg a) ev \<noteq> None"
  shows "\<exists>a' n'. run w (Analyze digest cd ec lb ev a) n = (Some a', n')"
  using assms by (auto simp: Analyze_def Let_def run_bindP case_prod_unfold)

text \<open>The new alerts of an analysis, split at the two rules of interest.\<close>

lemma Analyze_trace:
  assumes "run w (Analyze digest cd ec lb ev a) n = (Some a', n')"
  obtains xs ys zs us vs where "ad_alerts a' = ad_alerts a @ xs @ ys @ zs @ us @ vs"
    "at_Message ` set xs \<subseteq> other_messages" "at_Message ` set zs \<subseteq> other_messages" "at_Message ` set vs \<subseteq> other_messages"
    "at_Message ` set ys \<subseteq> chain_messages" "ys \<noteq> [] \<longleftrightarrow> chain_alarm digest (ad_lastEventHash a) ev"
    "at_Message ` set us \<subseteq> unauthorized_messages" "us \<noteq> [] \<longleftrightarrow> unauthorized ev"
    "\<forall>al \<in> set us. at_Level al = Critical \<and> at_EventID al = ev_EventID ev"
    "ad_cfg a' = ad_cfg a"
    "ad_lastEventHash a' = (if ev_EventHash ev = [] then ad_lastEventHash a else ev_EventHash ev)"
    "unauthorized ev \<Longrightarrow> cf_IncidentWebhookURL (ad_cfg a) \<noteq> [] \<Longrightarrow>
      \<exists>p \<in> set (ad_spawned a'). incident_of cd lb (ad_cfg a) ''unauthorized_destructive'' ev p"
proof -
  obtain b m where b: "ad_alerts b = ad_alerts a" "ad_cfg b = ad_cfg a" "ad_lastEventHash b = ad_lastEventHash a"
      and r: "fst (run w (run_rules (rules digest) cd lb ev b) m) = a'"
    using Analyze_cases [OF assms] by metis
  obtain c d e f k j where c: "after other_messages b c" and d: "fst (run w (checkChainIntegrity digest cd lb ev c) k) = d"
      and e: "after other_messages d e" and f: "fst (run w (checkUnauthorizedDestructive cd lb ev e) j) = f"
      and a': "after other_messages f a'"
    using run_rules_cases [OF r] by metis
  have cfg: "ad_cfg e = ad_cfg a" and hash: "ad_lastEventHash c = ad_lastEventHash a"
    using b c run_chain(4) [OF d] e by (simp_all add: after_def)
  obtain xs where xs: "ad_alerts c = ad_alerts a @ xs" "at_Message ` set xs \<subseteq> other_messages"
    using c b by (auto simp: after_def)
  obtain ys where ys: "ad_alerts d = ad_alerts c @ ys" "at_Message ` set ys \<subseteq> chain_messages"
      "ys \<noteq> [] \<longleftrightarrow> chain_alarm digest (ad_lastEventHash a) ev"
    using run_chain(1) [OF d] hash by auto
  obtain zs where zs: "ad_alerts e = ad_alerts d @ zs" "at_Message ` set zs \<subseteq> other_messages"
    using e by (auto simp: after_def)
  obtain us where us: "ad_alerts f = ad_alerts e @ us" "at_Message ` set us \<subseteq> unauthorized_messages"
      "\<forall>al \<in> set us. at_Level al = Critical \<and> at_EventID al = ev_EventID ev" "us \<noteq> [] \<longleftrightarrow> unauthorized ev"
    using run_unauthorized(1) [OF f] by auto
  obtain vs where vs: "ad_alerts a' = ad_alerts f @ vs" "at_Message ` set vs \<subseteq> other_messages"
    using a' by (auto simp: after_def)
  show thesis
  proof (rule that [of xs ys zs us vs])
    show "ad_lastEventHash a' = (if ev_EventHash ev = [] then ad_lastEventHash a else ev_EventHash ev)"
      using hash run_chain(2) [OF d] e run_unauthorized(2) [OF f] a' by (simp add: after_def)
    show "\<exists>p \<in> set (ad_spawned a'). incident_of cd lb (ad_cfg a) ''unauthorized_destructive'' ev p"
      if "unauthorized ev" "cf_IncidentWebhookURL (ad_cfg a) \<noteq> []"
      using run_unauthorized(5) [OF f] that a' cfg by (auto simp: after_def)
  qed (use xs ys zs us vs cfg run_unauthorized(3) [OF f] a' in \<open>simp_all add: after_def\<close>)
qed

lemma messages_disjoint: "chain_messages \<inter> unauthorized_messages = {}"
  by (auto simp: message_defs)

lemma Analyze_chain:
  assumes "run w (Analyze digest cd ec lb ev a) n = (Some a', n')"
  shows "alarmed chain_messages a a' \<longleftrightarrow> chain_alarm digest (ad_lastEventHash a) ev"
    and "ad_lastEventHash a' = (if ev_EventHash ev = [] then ad_lastEventHash a else ev_EventHash ev)"
    and "\<exists>xs. ad_alerts a' = ad_alerts a @ xs" "ad_cfg a' = ad_cfg a"
proof -
  from Analyze_trace [OF assms] obtain xs ys zs us vs where t: "ad_alerts a' = ad_alerts a @ xs @ ys @ zs @ us @ vs"
    "at_Message ` set xs \<subseteq> other_messages" "at_Message ` set zs \<subseteq> other_messages" "at_Message ` set vs \<subseteq> other_messages"
    "at_Message ` set ys \<subseteq> chain_messages" "ys \<noteq> [] \<longleftrightarrow> chain_alarm digest (ad_lastEventHash a) ev"
    "at_Message ` set us \<subseteq> unauthorized_messages"
    and rest: "ad_lastEventHash a' = (if ev_EventHash ev = [] then ad_lastEventHash a else ev_EventHash ev)"
    "\<exists>xs. ad_alerts a' = ad_alerts a @ xs" "ad_cfg a' = ad_cfg a"
    by metis
  have "(\<exists>al \<in> set (xs @ ys @ zs @ us @ vs). at_Message al \<in> chain_messages) \<longleftrightarrow> ys \<noteq> []"
    using t(2-5,7) messages_disjoint by (fastforce simp: neq_Nil_conv)
  then show "alarmed chain_messages a a' \<longleftrightarrow> chain_alarm digest (ad_lastEventHash a) ev"
    using alarmed_append [OF t(1)] t(6) by simp
  show "ad_lastEventHash a' = (if ev_EventHash ev = [] then ad_lastEventHash a else ev_EventHash ev)"
    "\<exists>xs. ad_alerts a' = ad_alerts a @ xs" "ad_cfg a' = ad_cfg a"
    by (fact rest)+
qed

lemma Analyze_unauthorized:
  assumes "run w (Analyze digest cd ec lb ev a) n = (Some a', n')"
  shows "(\<exists>al \<in> set (drop (length (ad_alerts a)) (ad_alerts a')). at_Message al \<in> unauthorized_messages \<and>
      at_Level al = Critical \<and> at_EventID al = ev_EventID ev) \<longleftrightarrow> unauthorized ev"
proof -
  from Analyze_trace [OF assms] obtain xs ys zs us vs where t: "ad_alerts a' = ad_alerts a @ xs @ ys @ zs @ us @ vs"
    "at_Message ` set xs \<subseteq> other_messages" "at_Message ` set zs \<subseteq> other_messages" "at_Message ` set vs \<subseteq> other_messages"
    "at_Message ` set ys \<subseteq> chain_messages" "at_Message ` set us \<subseteq> unauthorized_messages" "us \<noteq> [] \<longleftrightarrow> unauthorized ev"
    "\<forall>al \<in> set us. at_Level al = Critical \<and> at_EventID al = ev_EventID ev"
    by metis
  have "(\<exists>al \<in> set (xs @ ys @ zs @ us @ vs). at_Message al \<in> unauthorized_messages \<and>
      at_Level al = Critical \<and> at_EventID al = ev_EventID ev) \<longleftrightarrow> us \<noteq> []"
    using t(2-6,8) messages_disjoint by (fastforce simp: neq_Nil_conv)
  then show ?thesis
    using t(1,7) by simp
qed

section \<open>Sequences of events\<close>

lemma analyze_all_returns:
  assumes "\<forall>ev \<in> set evs. printed cd ec lb (ad_cfg a) ev \<noteq> None"
  shows "\<exists>a' n'. run w (analyze_all digest cd ec lb evs a) n = (Some a', n')"
  using assms
proof (induction evs arbitrary: a n)
  case (Cons ev evs)
  then obtain b m where b: "run w (Analyze digest cd ec lb ev a) n = (Some b, m)"
    using Analyze_returns by fastforce
  with Analyze_chain(4) [OF b] Cons show ?case
    by (simp add: run_bindP)
qed simp

lemma analyze_all_chain:
  assumes "run w (analyze_all digest cd ec lb evs a) n = (Some a', n')" "ad_lastEventHash a \<noteq> []"
    and "\<forall>ev \<in> set evs. ev_EventHash ev \<noteq> [] \<and> ev_PrevHash ev \<noteq> []"
  shows "(\<exists>xs. ad_alerts a' = ad_alerts a @ xs) \<and>
    (alarmed chain_messages a a' \<longleftrightarrow> \<not> sealed digest (ad_lastEventHash a) evs)"
  using assms
proof (induction evs arbitrary: a n)
  case Nil
  then show ?case
    by (simp add: alarmed_def)
next
  case (Cons ev evs)
  then obtain b m where b: "run w (Analyze digest cd ec lb ev a) n = (Some b, m)"
      and r: "run w (analyze_all digest cd ec lb evs b) m = (Some a', n')"
    by (auto simp: run_bindP split: prod.splits option.splits)
  from Cons.prems have h: "ev_EventHash ev \<noteq> []" "ev_PrevHash ev \<noteq> []"
    by auto
  from Analyze_chain [OF b] h obtain xs where ab: "ad_alerts b = ad_alerts a @ xs" "ad_lastEventHash b = ev_EventHash ev"
      "alarmed chain_messages a b \<longleftrightarrow> \<not> (ev_PrevHash ev = ad_lastEventHash a \<and> ev_EventHash ev = ComputeEventHash digest ev)"
    using Cons.prems(2) by (auto simp: chain_alarm_def VerifyEventHash_def)
  from Cons.IH [OF r] ab(2) h Cons.prems obtain ys where ys: "ad_alerts a' = ad_alerts b @ ys"
      "alarmed chain_messages b a' \<longleftrightarrow> \<not> sealed digest (ev_EventHash ev) evs"
    by auto
  then show ?case
    using ab by (auto simp: alarmed_append [OF ab(1)] alarmed_append [OF ys(1)] alarmed_def)
qed

lemma hashed_printed:
  assumes "12 \<le> length (ev_EventHash ev)" "12 \<le> length (ev_PrevHash ev)"
  shows "printed cd ec lb cfg ev \<noteq> None"
  using assms by (auto simp: printed_def logEvent_def log_hash_def Let_def)

text \<open>A first event without a predecessor links to whatever it names.\<close>

lemma sealed_start: "ev_EventHash ev \<noteq> [] \<Longrightarrow>
  sealed digest (ev_PrevHash ev) (ev # evs) \<longleftrightarrow> VerifyEventHash digest ev \<and> sealed digest (ev_EventHash ev) evs"
  by (auto simp: VerifyEventHash_def)

section \<open>Polling\<close>

lemma unseen_facts:
  assumes "unseen ids evs = (new_evs, ids')"
  shows "distinct (map ev_EventID new_evs) \<and> set (map ev_EventID new_evs) \<inter> set ids = {} \<and>
    set new_evs \<subseteq> set evs \<and> set ids' = set ids \<union> ev_EventID ` set evs"
  using assms
proof (induction ids evs arbitrary: new_evs ids' rule: unseen.induct)
  case (2 ids e es)
  show ?case
  proof (cases "ev_EventID e \<in> set ids")
    case True
    with 2 show ?thesis
      by auto
  next
    case False
    then obtain x where x: "unseen (ids @ [ev_EventID e]) es = (x, ids')" "new_evs = e # x"
      using 2(3) by (auto simp: Let_def split: prod.splits)
    from 2(2) [OF False x(1)] x(2) False show ?thesis
      by auto
  qed
qed simp

section \<open>Bounds\<close>

lemma chain_bounded_lists:
  assumes "fst (run w (checkChainIntegrity digest cd lb ev a) n) = a'"
  shows "ad_recentEvents a' = ad_recentEvents a" "ad_securityAlerts a' = ad_securityAlerts a"
  using assms by (auto simp: checkChainIntegrity_def run_bindP case_prod_unfold Let_def)

lemma unauthorized_after:
  assumes "fst (run w (checkUnauthorizedDestructive cd lb ev a) n) = a'"
  shows "after unauthorized_messages a a'"
proof -
  have "steady unauthorized_messages a (checkUnauthorizedDestructive cd lb ev a)"
    by (auto simp: checkUnauthorizedDestructive_def unauthorized_messages_def split: option.split intro!: steady_intros)
  with assms show ?thesis
    by (auto simp: steady_def)
qed

theorem auditor_lists_bounded:
  assumes "run w (Analyze digest cd ec lb ev a) n = (Some a', n')"
    and "length (ad_recentEvents a) \<le> 100" "length (ad_securityAlerts a) \<le> 100"
  shows "length (ad_recentEvents a') \<le> 100 \<and> length (ad_securityAlerts a') \<le> 100"
proof -
  let ?b = "\<lambda>out. trackEvent lb ev (a\<lparr>ad_metrics := map_option (metrics_RecordEvent ev) (ad_metrics a),
    ad_stdout := ad_stdout a @ out\<rparr>)"
  from assms(1) obtain out m where "fst (run w (run_rules (rules digest) cd lb ev (?b out)) m) = a'"
    by (auto simp: Analyze_def Let_def run_bindP case_prod_unfold split: option.splits)
  from run_rules_cases [OF this] obtain c d e f k j where c: "after other_messages (?b out) c"
      and d: "fst (run w (checkChainIntegrity digest cd lb ev c) k) = d"
      and e: "after other_messages d e" and f: "fst (run w (checkUnauthorizedDestructive cd lb ev e) j) = f"
      and a': "after other_messages f a'"
    by metis
  have "length (ad_recentEvents (?b out)) \<le> 100 \<and> length (ad_securityAlerts (?b out)) \<le> 100"
    using assms(2,3) by (simp add: trackEvent_def Let_def split: option.split)
  with c chain_bounded_lists [OF d] e unauthorized_after [OF f] a' show ?thesis
    by (simp add: after_def)
qed

section \<open>Properties\<close>

text \<open>C11: the chain rule of the auditor decides whether a stream is the chain that was recorded. For events that
  carry full hashes the analysis always ends, and it raises a tampering alert for some event exactly when
  the stream is not sealed: an event does not match its own hash, or does not name the hash of the one
  before it. The stream starts at the last hash the auditor saw, or at whatever its first event names when
  the auditor has just been started.\<close>

theorem auditor_detects_tampering:
  assumes "\<forall>ev \<in> set evs. 12 \<le> length (ev_EventHash ev) \<and> 12 \<le> length (ev_PrevHash ev)"
  shows "\<exists>a' n'. run w (analyze_all digest cd ec lb evs a) n = (Some a', n') \<and>
    (alarmed chain_messages a a' \<longleftrightarrow>
     \<not> sealed digest (if ad_lastEventHash a = [] then ev_PrevHash (hd evs) else ad_lastEventHash a) evs)"
proof -
  from assms have ne: "\<forall>ev \<in> set evs. ev_EventHash ev \<noteq> [] \<and> ev_PrevHash ev \<noteq> []"
    by auto
  obtain a' n' where r: "run w (analyze_all digest cd ec lb evs a) n = (Some a', n')"
    using analyze_all_returns [of evs cd ec lb a w digest n] assms hashed_printed by blast
  show ?thesis
  proof (cases "ad_lastEventHash a = [] \<and> evs \<noteq> []")
    case False
    with r ne show ?thesis
      using analyze_all_chain [OF r] by (cases evs) (auto simp: alarmed_def)
  next
    case True
    then obtain ev es where evs: "evs = ev # es"
      by (cases evs) auto
    obtain b m where b: "run w (Analyze digest cd ec lb ev a) n = (Some b, m)"
        and rb: "run w (analyze_all digest cd ec lb es b) m = (Some a', n')"
      using r by (auto simp: evs run_bindP split: prod.splits option.splits)
    from Analyze_chain [OF b] ne evs True obtain xs where ab: "ad_alerts b = ad_alerts a @ xs"
        "ad_lastEventHash b = ev_EventHash ev" "alarmed chain_messages a b \<longleftrightarrow> \<not> VerifyEventHash digest ev"
      by (auto simp: chain_alarm_def)
    from analyze_all_chain [OF rb] ab(2) ne evs obtain ys where ys: "ad_alerts a' = ad_alerts b @ ys"
        "alarmed chain_messages b a' \<longleftrightarrow> \<not> sealed digest (ev_EventHash ev) es"
      by auto
    have "alarmed chain_messages a a' \<longleftrightarrow> \<not> (VerifyEventHash digest ev \<and> sealed digest (ev_EventHash ev) es)"
      using ab ys by (auto simp: alarmed_def)
    then show ?thesis
      using r True ne evs sealed_start [of ev digest es] by auto
  qed
qed

text \<open>A concrete auditor on a host without network, with the event log switched on.\<close>

definition sample_config :: auditor_config where
  "sample_config = \<lparr>cf_SocketPath = ''audit.sock'', cf_LogAll = True, cf_OutputJSON = False, cf_Verify = False,
     cf_DBPath = ''audit.db'', cf_WebhookURL = [], cf_WebhookAll = False, cf_WebhookTest = False, cf_PrometheusAddr = [],
     cf_SyslogEnabled = False, cf_SyslogNetwork = [], cf_SyslogAddr = [], cf_SyslogTag = ''helpdesk-auditor'',
     cf_SyslogTest = False, cf_AuditServiceURL = [], cf_VerifyInterval = 0,
     cf_IncidentWebhookURL = ''http://incidents/hook'', cf_MaxEventsPerMinute = 0, cf_AllowedHoursStart = - 1,
     cf_AllowedHoursEnd = - 1, cf_SMTPHost = [], cf_SMTPPort = ''587'', cf_SMTPUser = [], cf_SMTPPassword = [],
     cf_EmailFrom = [], cf_EmailTo = [], cf_EmailTest = False\<rparr>"

definition cut_off :: world where
  "cut_off = \<lparr>wd_reply = \<lambda>_ _. (Refused ''down'', 0), wd_late = \<lambda>_. 0\<rparr>"

definition sample_start :: net where
  "sample_start = \<lparr>nt_calls = [], nt_now = 0\<rparr>"

definition plain_codec :: codec where
  "plain_codec = \<lparr>cd_url = \<lambda>_. None, cd_parse = \<lambda>_. Inl ''no JSON'', cd_text = \<lambda>_. ''{}''\<rparr>"

definition no_events :: event_codec where
  "no_events = \<lparr>ec_json = \<lambda>_. JNull, ec_event = \<lambda>_. None\<rparr>"

definition plain_lib :: auditor_lib where
  "plain_lib = \<lparr>lb_conf = \<lambda>_. 1, lb_float_json = \<lambda>_. JNull, lb_float_v = \<lambda>_. ''1'', lb_params = \<lambda>_. [],
     lb_any_v = \<lambda>_. ''x'', lb_localHour = hour_of, lb_status = \<lambda>_. Inl ''no JSON''\<rparr>"

definition sample_auditor :: audit_monitor where
  "sample_auditor = fst (run cut_off (NewAuditor sample_config [WebhookNotifier ''http://hook''] (Some NewMetrics)) sample_start)"

definition sample_stream :: "event list" where
  "sample_stream = [seal sample_digest GenesisHash (zero_event\<lparr>ev_EventID := ''evt_1''\<rparr>)]"

theorem auditor_detects_tampering_witness:
  "\<exists>a' n'. run cut_off (analyze_all sample_digest plain_codec no_events plain_lib sample_stream sample_auditor) sample_start =
      (Some a', n') \<and> \<not> alarmed chain_messages sample_auditor a'"
proof -
  have "\<forall>ev \<in> set sample_stream. 12 \<le> length (ev_EventHash ev) \<and> 12 \<le> length (ev_PrevHash ev)"
    by (simp add: sample_stream_def ComputeEventHash_def sample_digest_def GenesisHash_def)
  moreover have "ad_lastEventHash sample_auditor = []" "sealed sample_digest (ev_PrevHash (hd sample_stream)) sample_stream"
    by (simp_all add: sample_auditor_def NewAuditor_def sample_stream_def)
  ultimately show ?thesis
    using auditor_detects_tampering [of sample_stream cut_off sample_digest plain_codec no_events plain_lib sample_auditor sample_start]
    by simp
qed


definition sample_destructive :: event where
  "sample_destructive = zero_event\<lparr>ev_EventID := ''evt_9'', ev_EventType := EventTypeToolExecution,
     ev_ActionClass := ''destructive'', ev_Approval := Some (zero_approval\<lparr>av_Status := ''denied''\<rparr>)\<rparr>"


section \<open>Weak spots\<close>

text \<open>The text of a repeated query loses its beginning when the query has a bar, and a query without a bar is
  shown without its server.\<close>

theorem repeated_query_text:
  "display_query ''run_sql|host=a|select 1|2'' = ''run_sql on host=a: 2''"
  "display_query ''run_sql|host=a|select 1'' = ''run_sql: select 1''"
  by (simp_all add: display_query_def SplitN_def numeral_eq_Suc)

text \<open>An event of 64 KiB ends the auditor, whatever follows on the socket.\<close>

theorem oversized_event_ends_auditor:
  "65535 < length l \<Longrightarrow> scan_events digest cd ec lb (l # ls) failed a = Return (Exit 1 a)"
  by simp

text \<open>An event that is analysed a second time right away raises the tampering alert.\<close>

theorem reanalysed_event_alarms:
  assumes "run w (analyze_all digest cd ec lb [ev, ev] a) n = (Some a', n')"
    and "ev_EventHash ev \<noteq> []" "ev_PrevHash ev \<noteq> []" "ev_PrevHash ev \<noteq> ev_EventHash ev"
  shows "alarmed chain_messages a a'"
proof -
  obtain b m where b: "run w (Analyze digest cd ec lb ev a) n = (Some b, m)"
      and r: "run w (analyze_all digest cd ec lb [ev] b) m = (Some a', n')"
    using assms(1) by (auto simp: run_bindP split: prod.splits option.splits)
  from Analyze_chain(2,3) [OF b] assms(2) obtain xs where ab: "ad_lastEventHash b = ev_EventHash ev" "ad_alerts b = ad_alerts a @ xs"
    by auto
  from analyze_all_chain [OF r] ab(1) assms(2-4) obtain ys where "ad_alerts a' = ad_alerts b @ ys" "alarmed chain_messages b a'"
    by auto
  with ab(2) show ?thesis
    by (auto simp: alarmed_def)
qed

end
