(* ===== verification/Journeys.thy ===== *)
theory Journeys
  imports Remote_Audit Playbook_Runs
begin

text \<open>
  The journeys of \<^verbatim>\<open>internal/audit/store.go\<close> and their route in \<^verbatim>\<open>cmd/auditd/main.go\<close>: one summary per
  trace, computed from all events of the trace. A column without a value is the empty text, which the code
  treats alike, and a trace spans less than 292 years. \<open>srt\<close> is the order of the database, \<open>parse\<close> is \<^verbatim>\<open>time.Parse\<close>, and the failures of the
  three queries are the arguments \<open>f1\<close>, \<open>f2\<close> and \<open>f3\<close>; the third one is ignored by the code.
\<close>

section \<open>Data\<close>

record journey_options =
  jo_UserID :: string
  jo_Purpose :: string
  jo_From :: time
  jo_Until :: time
  jo_Limit :: int
  jo_Since :: duration
  jo_Category :: string
  jo_Outcome :: string
  jo_HasRetries :: bool
  jo_TraceID :: string
  jo_TraceIDPrefix :: string
  jo_Origin :: string
  jo_IncidentOnly :: bool

record delegation_summary =
  dg_Intent :: string
  dg_Tools :: "string list"

record journey_summary =
  jy_TraceID :: string
  jy_StartedAt :: string
  jy_EndedAt :: string
  jy_DurationMs :: int
  jy_UserID :: string
  jy_UserQuery :: string
  jy_Purpose :: string
  jy_PurposeNote :: string
  jy_Agent :: string
  jy_Category :: string
  jy_Delegations :: "delegation_summary list"
  jy_ToolsUsed :: "string list"
  jy_Outcome :: string
  jy_EventCount :: nat
  jy_RetryCount :: nat
  jy_Origin :: string
  jy_HasMismatch :: bool
  jy_IncidentRunID :: string

record trace_data =
  td_startedAt :: string
  td_endedAt :: string
  td_userID :: string
  td_userQuery :: string
  td_purpose :: string
  td_purposeNote :: string
  td_agent :: string
  td_category :: string
  td_tools :: "string list"
  td_delegations :: "delegation_summary list"
  td_outcome :: string
  td_origin :: string
  td_count :: nat
  td_retryCount :: nat
  td_sawRequireApproval :: bool
  td_hasMismatch :: bool

text \<open>The index of the current delegation is that of the last one, when there is one.\<close>

definition zero_trace :: trace_data where
  "zero_trace = \<lparr>td_startedAt = [], td_endedAt = [], td_userID = [], td_userQuery = [], td_purpose = [],
     td_purposeNote = [], td_agent = [], td_category = [], td_tools = [], td_delegations = [], td_outcome = [],
     td_origin = [], td_count = 0, td_retryCount = 0, td_sawRequireApproval = False, td_hasMismatch = False\<rparr>"

definition outcomePriority :: "string \<Rightarrow> nat" where
  "outcomePriority o' = (if o' = ''unverified_claim'' then 9 else if o' = ''error'' then 8 else if o' = ''denied'' then 7
     else if o' = ''escalation_required'' then 6 else if o' = ''verified_failed'' then 5
     else if o' = ''verified_warning'' then 4 else if o' = ''approved'' then 3 else if o' = ''verified_ok'' then 2
     else if o' = ''success'' then 1 else 0)"

section \<open>One event of a trace\<close>

definition stretch :: "string \<Rightarrow> trace_data \<Rightarrow> trace_data" where
  "stretch ts d =
     (let d = (if td_startedAt d = [] \<or> str_less ts (td_startedAt d) then d\<lparr>td_startedAt := ts\<rparr> else d)
      in if str_less (td_endedAt d) ts then d\<lparr>td_endedAt := ts\<rparr> else d)"

definition keep_first :: "string \<Rightarrow> string \<Rightarrow> string" where
  "keep_first old v = (if old = [] then v else old)"

definition outrank :: "string \<Rightarrow> trace_data \<Rightarrow> trace_data" where
  "outrank status d = (if outcomePriority status > outcomePriority (td_outcome d) then d\<lparr>td_outcome := status\<rparr> else d)"

definition request_fields :: "audit_row \<Rightarrow> trace_data \<Rightarrow> trace_data" where
  "request_fields r d = d\<lparr>td_userID := keep_first (td_userID d) (aw_user_id r),
     td_userQuery := keep_first (td_userQuery d) (aw_user_query r), td_purpose := keep_first (td_purpose d) (aw_purpose r),
     td_purposeNote := keep_first (td_purposeNote d) (aw_purpose_note r)\<rparr>"

definition anchor_fields :: "audit_row \<Rightarrow> trace_data \<Rightarrow> trace_data" where
  "anchor_fields r d =
     (if aw_event_type r = EventTypeDelegation then
        (let d = request_fields r d in
         d\<lparr>td_agent := (if aw_session_agent r \<noteq> [] then aw_session_agent r else keep_first (td_agent d) (aw_decision_agent r)),
           td_category := keep_first (td_category d) (aw_decision_category r),
           td_delegations := td_delegations d @ [\<lparr>dg_Intent = aw_user_query r, dg_Tools = []\<rparr>]\<rparr>)
      else if aw_event_type r = EventTypeGatewayRequest then
        (let d = request_fields r d in d\<lparr>td_agent := keep_first (td_agent d) (aw_decision_agent r)\<rparr>)
      else d)"

definition add_tool :: "string \<Rightarrow> trace_data \<Rightarrow> trace_data" where
  "add_tool t d = d\<lparr>td_tools := td_tools d @ [t],
     td_delegations := (case rev (td_delegations d) of
       [] \<Rightarrow> [] | g # gs \<Rightarrow> rev gs @ [g\<lparr>dg_Tools := dg_Tools g @ [t]\<rparr>])\<rparr>"

definition tool_fields :: "audit_row \<Rightarrow> trace_data \<Rightarrow> trace_data" where
  "tool_fields r d =
     (if aw_event_type r = EventTypeToolExecution then
        (let d = d\<lparr>td_origin := keep_first (td_origin d) (aw_origin r)\<rparr>
         in if aw_tool_name r \<noteq> [] then add_tool (aw_tool_name r) d else d)
      else d)"

definition outcome_fields :: "audit_row \<Rightarrow> trace_data \<Rightarrow> trace_data" where
  "outcome_fields r d =
     (if aw_event_type r = EventTypeToolRetry then d\<lparr>td_retryCount := Suc (td_retryCount d)\<rparr>
      else if aw_outcome_status r = [] then d
      else if aw_outcome_status r = ''require_approval'' then d\<lparr>td_sawRequireApproval := True\<rparr>
      else outrank (aw_outcome_status r) d)"

definition absorb :: "audit_row \<Rightarrow> trace_data \<Rightarrow> trace_data" where
  "absorb r d =
     (let d = stretch (aw_timestamp r) d in
      if aw_event_type r = EventTypeVerificationOutcome \<or> aw_event_type r = EventTypeDelegationVerification then
        (let d = (if aw_outcome_status r \<noteq> [] then outrank (aw_outcome_status r) d else d)
         in if aw_event_type r = EventTypeDelegationVerification \<and> aw_outcome_status r = ''unverified_claim''
            then d\<lparr>td_hasMismatch := True\<rparr> else d)
      else
        (let d = d\<lparr>td_count := Suc (td_count d)\<rparr>;
             d = outcome_fields r (tool_fields r (anchor_fields r d))
         in if aw_approval_status r = ''approved'' then d\<lparr>td_sawRequireApproval := True\<rparr> else d))"

section \<open>The query\<close>

definition anchor_row :: "journey_options \<Rightarrow> playbook_run list \<Rightarrow> audit_row \<Rightarrow> bool" where
  "anchor_row o' runs r \<longleftrightarrow>
     (aw_event_type r = EventTypeDelegation \<or> aw_event_type r = EventTypeGatewayRequest \<and> aw_tool_name r = [] \<or>
      aw_event_type r = ''rollback_initiated'') \<and> aw_trace_id r \<noteq> [] \<and>
     (jo_TraceID o' = [] \<or> aw_trace_id r = jo_TraceID o') \<and>
     (jo_TraceIDPrefix o' = [] \<or> like_match (jo_TraceIDPrefix o' @ ''%'') (aw_trace_id r)) \<and>
     (jo_UserID o' = [] \<or> aw_user_id r = jo_UserID o') \<and> (jo_Purpose o' = [] \<or> aw_purpose r = jo_Purpose o') \<and>
     (jo_From o' = 0 \<or> str_le (fmt_sqlite (jo_From o')) (aw_timestamp r)) \<and>
     (jo_Until o' = 0 \<or> str_less (aw_timestamp r) (fmt_sqlite (jo_Until o'))) \<and>
     (\<not> jo_IncidentOnly o' \<or> list_ex (\<lambda>p. pn_TraceID p = aw_trace_id r) runs)"

fun min_text :: "string list \<Rightarrow> string" where
  "min_text [] = []"
| "min_text [t] = t"
| "min_text (t # ts) = (let m = min_text ts in if str_less m t then m else t)"

text \<open>\<^verbatim>\<open>GROUP BY trace_id\<close> with the first timestamp of each group.\<close>

definition trace_groups :: "audit_row list \<Rightarrow> (string \<times> string) list" where
  "trace_groups rows = map (\<lambda>t. (t, min_text (map aw_timestamp (filter (\<lambda>r. aw_trace_id r = t) rows))))
     (remdups (map aw_trace_id rows))"

type_synonym group_sort = "(string \<times> string \<Rightarrow> string \<times> string \<Rightarrow> bool) \<Rightarrow> (string \<times> string) list \<Rightarrow> (string \<times> string) list"

definition trace_ids ::
  "group_sort \<Rightarrow> journey_options \<Rightarrow> playbook_run list \<Rightarrow> audit_row list \<Rightarrow> string list" where
  "trace_ids gsrt o' runs rows = map fst (take (nat (jo_Limit o'))
     (gsrt (\<lambda>a b. str_less (snd b) (snd a)) (trace_groups (filter (anchor_row o' runs) rows))))"

definition by_trace_then_time :: "audit_row \<Rightarrow> audit_row \<Rightarrow> bool" where
  "by_trace_then_time a b \<longleftrightarrow> str_less (aw_trace_id a) (aw_trace_id b) \<or> aw_trace_id a = aw_trace_id b \<and> ts_before a b"

definition absorb_into :: "audit_row \<Rightarrow> (string \<rightharpoonup> trace_data) \<Rightarrow> (string \<rightharpoonup> trace_data)" where
  "absorb_into r m = (case m (aw_trace_id r) of None \<Rightarrow> m | Some d \<Rightarrow> m(aw_trace_id r \<mapsto> absorb r d))"

definition journey_duration :: "(string \<Rightarrow> time option) \<Rightarrow> trace_data \<Rightarrow> int" where
  "journey_duration parse d =
     (if td_startedAt d \<noteq> [] \<and> td_endedAt d \<noteq> [] then
        (case (parse (td_startedAt d), parse (td_endedAt d)) of
           (Some t1, Some t2) \<Rightarrow> Milliseconds (int t2 - int t1) | _ \<Rightarrow> 0)
      else 0)"

definition final_outcome :: "trace_data \<Rightarrow> string" where
  "final_outcome d = (if td_sawRequireApproval d \<and> (td_outcome d = ''success'' \<or> td_outcome d = ''verified_ok'')
     then ''approved'' else td_outcome d)"

definition summary_of :: "(string \<Rightarrow> time option) \<Rightarrow> string \<Rightarrow> trace_data \<Rightarrow> journey_summary" where
  "summary_of parse i d = \<lparr>jy_TraceID = i, jy_StartedAt = td_startedAt d, jy_EndedAt = td_endedAt d,
     jy_DurationMs = journey_duration parse d, jy_UserID = td_userID d, jy_UserQuery = td_userQuery d,
     jy_Purpose = td_purpose d, jy_PurposeNote = td_purposeNote d, jy_Agent = td_agent d, jy_Category = td_category d,
     jy_Delegations = td_delegations d, jy_ToolsUsed = td_tools d, jy_Outcome = final_outcome d,
     jy_EventCount = td_count d, jy_RetryCount = td_retryCount d, jy_Origin = td_origin d,
     jy_HasMismatch = td_hasMismatch d, jy_IncidentRunID = []\<rparr>"

text \<open>The run of a trace; of several runs the last row wins.\<close>

definition run_of_trace :: "playbook_run list \<Rightarrow> string \<Rightarrow> string" where
  "run_of_trace runs t = (case map_of (rev (map (\<lambda>p. (pn_TraceID p, pn_RunID p)) runs)) t of Some i \<Rightarrow> i | None \<Rightarrow> [])"

definition filterJourneys :: "journey_options \<Rightarrow> journey_summary list \<Rightarrow> journey_summary list" where
  "filterJourneys o' js =
     (let js = (if jo_Category o' \<noteq> [] then filter (\<lambda>j. jy_Category j = jo_Category o') js else js);
          js = (if jo_Outcome o' \<noteq> [] then filter (\<lambda>j. jy_Outcome j = jo_Outcome o') js else js);
          js = (if jo_HasRetries o' then filter (\<lambda>j. jy_RetryCount j > 0) js else js)
      in if jo_Origin o' \<noteq> [] then filter (\<lambda>j. jy_Origin j = jo_Origin o') js else js)"

definition QueryJourneys ::
  "group_sort \<Rightarrow> row_sort \<Rightarrow> (string \<Rightarrow> time option) \<Rightarrow> time \<Rightarrow> string option \<Rightarrow> string option \<Rightarrow> string option \<Rightarrow>
   journey_options \<Rightarrow> playbook_run list \<Rightarrow> audit_store \<Rightarrow> string + journey_summary list" where
  "QueryJourneys gsrt srt parse now f1 f2 f3 o' runs s =
     (let o' = (if jo_Limit o' \<le> 0 then o'\<lparr>jo_Limit := 50\<rparr> else o');
          o' = (if jo_Since o' > 0 then o'\<lparr>jo_From := time_add now (- jo_Since o')\<rparr> else o')
      in case f1 of
           Some e \<Rightarrow> Inl (''query journey trace ids: '' @ e)
         | None \<Rightarrow>
             (let ids = trace_ids gsrt o' runs (au_rows s) in
              if ids = [] then Inr []
              else case f2 of
                Some e \<Rightarrow> Inl (''query journey events: '' @ e)
              | None \<Rightarrow>
                  (let rows = srt by_trace_then_time (filter (\<lambda>r. aw_trace_id r \<in> set ids) (au_rows s));
                       m = fold absorb_into rows (\<lambda>i. if i \<in> set ids then Some zero_trace else None);
                       js = map (\<lambda>i. summary_of parse i (the (m i))) ids;
                       js = (if f3 = None then map (\<lambda>j. j\<lparr>jy_IncidentRunID := run_of_trace runs (jy_TraceID j)\<rparr>) js else js)
                   in Inr (filterJourneys o' js))))"

section \<open>The route\<close>

definition journey_query ::
  "(string \<Rightarrow> time option) \<Rightarrow> (string \<Rightarrow> duration option) \<Rightarrow> (string \<Rightarrow> string) \<Rightarrow> journey_options" where
  "journey_query parse parse_dur get =
     (let instant = (\<lambda>v. if v = [] then 0 else (case parse v of Some t \<Rightarrow> t | None \<Rightarrow> 0))
      in \<lparr>jo_UserID = get ''user'', jo_Purpose = get ''purpose'', jo_From = instant (get ''from''),
          jo_Until = instant (get ''until''),
          jo_Limit = (case Atoi (get ''limit'') of Some n \<Rightarrow> if n > 0 then n else 50 | None \<Rightarrow> 50),
          jo_Since = (if get ''since'' = [] then 0 else (case parse_dur (get ''since'') of Some d \<Rightarrow> d | None \<Rightarrow> 0)),
          jo_Category = get ''category'', jo_Outcome = get ''outcome'', jo_HasRetries = (get ''has_retries'' = ''true''),
          jo_TraceID = get ''trace_id'', jo_TraceIDPrefix = get ''trace_id_prefix'', jo_Origin = get ''origin'',
          jo_IncidentOnly = (get ''incident_only'' = ''true'')\<rparr>)"

definition handleQueryJourneys ::
  "group_sort \<Rightarrow> row_sort \<Rightarrow> (string \<Rightarrow> time option) \<Rightarrow> (string \<Rightarrow> time option) \<Rightarrow> (string \<Rightarrow> duration option) \<Rightarrow> time \<Rightarrow>
   string option \<Rightarrow> string option \<Rightarrow> string option \<Rightarrow> string \<Rightarrow> playbook_run list \<Rightarrow> audit_store \<Rightarrow> journey_summary list response" where
  "handleQueryJourneys gsrt srt parse parse_nano parse_dur now f1 f2 f3 url runs s =
     (case QueryJourneys gsrt srt parse_nano now f1 f2 f3 (journey_query parse parse_dur (query_get url)) runs s of
        Inl _ \<Rightarrow> (500, Inl ''failed to query journeys'')
      | Inr js \<Rightarrow> (200, Inr js))"

section \<open>Folding the events of a trace\<close>

text \<open>The status an event contributes to the outcome of its journey.\<close>

definition verification_row :: "audit_row \<Rightarrow> bool" where
  "verification_row r \<longleftrightarrow> aw_event_type r \<in> {EventTypeVerificationOutcome, EventTypeDelegationVerification}"

definition contributes :: "audit_row \<Rightarrow> string" where
  "contributes r = (if verification_row r then aw_outcome_status r
     else if aw_event_type r = EventTypeToolRetry \<or> aw_outcome_status r = ''require_approval'' then []
     else aw_outcome_status r)"

definition tool_row :: "audit_row \<Rightarrow> bool" where
  "tool_row r \<longleftrightarrow> aw_event_type r = EventTypeToolExecution \<and> aw_tool_name r \<noteq> []"

definition mismatch_row :: "audit_row \<Rightarrow> bool" where
  "mismatch_row r \<longleftrightarrow> aw_event_type r = EventTypeDelegationVerification \<and> aw_outcome_status r = ''unverified_claim''"

lemma outcomePriority_Nil [simp]: "outcomePriority [] = 0"
  by (simp add: outcomePriority_def)

lemma stretch_simps [simp]:
  "td_outcome (stretch t d) = td_outcome d" "td_tools (stretch t d) = td_tools d" "td_count (stretch t d) = td_count d"
  "td_hasMismatch (stretch t d) = td_hasMismatch d"
  by (simp_all add: stretch_def Let_def)

lemma outrank_simps [simp]:
  "td_tools (outrank st d) = td_tools d" "td_count (outrank st d) = td_count d"
  "td_hasMismatch (outrank st d) = td_hasMismatch d"
  "outcomePriority (td_outcome (outrank st d)) = max (outcomePriority (td_outcome d)) (outcomePriority st)"
  by (simp_all add: outrank_def)

lemma anchor_simps [simp]:
  "td_outcome (anchor_fields r d) = td_outcome d" "td_tools (anchor_fields r d) = td_tools d"
  "td_count (anchor_fields r d) = td_count d" "td_hasMismatch (anchor_fields r d) = td_hasMismatch d"
  by (simp_all add: anchor_fields_def request_fields_def Let_def)

lemma tool_fields_simps [simp]:
  "td_outcome (tool_fields r d) = td_outcome d" "td_count (tool_fields r d) = td_count d"
  "td_hasMismatch (tool_fields r d) = td_hasMismatch d"
  "td_tools (tool_fields r d) = td_tools d @ (if tool_row r then [aw_tool_name r] else [])"
  by (simp_all add: tool_fields_def add_tool_def tool_row_def Let_def)

lemma outcome_fields_simps [simp]:
  "td_tools (outcome_fields r d) = td_tools d" "td_count (outcome_fields r d) = td_count d"
  "td_hasMismatch (outcome_fields r d) = td_hasMismatch d"
  by (simp_all add: outcome_fields_def)

lemma tool_row_not_verification: "tool_row r \<Longrightarrow> \<not> verification_row r"
  by (simp add: tool_row_def verification_row_def event_type_defs)

lemma absorb_simps:
  "td_tools (absorb r d) = td_tools d @ (if tool_row r then [aw_tool_name r] else [])"
  "td_count (absorb r d) = td_count d + (if verification_row r then 0 else 1)"
  "td_hasMismatch (absorb r d) \<longleftrightarrow> td_hasMismatch d \<or> mismatch_row r"
  "outcomePriority (td_outcome (absorb r d)) = max (outcomePriority (td_outcome d)) (outcomePriority (contributes r))"
  using tool_row_not_verification [of r]
  by (auto simp: absorb_def Let_def verification_row_def mismatch_row_def contributes_def outcome_fields_def)

lemma fold_absorb:
  "td_tools (fold absorb rows d) = td_tools d @ map aw_tool_name (filter tool_row rows)"
  "td_count (fold absorb rows d) = td_count d + length (filter (\<lambda>r. \<not> verification_row r) rows)"
  "td_hasMismatch (fold absorb rows d) \<longleftrightarrow> td_hasMismatch d \<or> list_ex mismatch_row rows"
  "outcomePriority (td_outcome (fold absorb rows d)) =
     fold (\<lambda>r. max (outcomePriority (contributes r))) rows (outcomePriority (td_outcome d))"
  by (induction rows arbitrary: d) (auto simp: absorb_simps max.commute)

lemma fold_max_le: "n \<le> fold (\<lambda>r. max (f r)) rows (n :: nat)"
  by (induction rows arbitrary: n) (auto intro: order_trans [OF max.cobounded2])

lemma fold_max_member: "r \<in> set rows \<Longrightarrow> f r \<le> fold (\<lambda>r. max (f r)) rows (n :: nat)"
  by (induction rows arbitrary: n) (auto intro: order_trans [OF max.cobounded1 fold_max_le])

lemma top_priority: "9 \<le> outcomePriority st \<longleftrightarrow> st = ''unverified_claim''"
  by (simp add: outcomePriority_def)

lemma fold_absorb_into:
  "fold absorb_into rows m i = map_option (fold absorb (filter (\<lambda>r. aw_trace_id r = i) rows)) (m i)"
proof (induction rows arbitrary: m)
  case Nil
  then show ?case
    by (cases "m i") simp_all
next
  case (Cons r rows)
  then show ?case
    by (cases "m i") (auto simp: absorb_into_def split: option.split)
qed

lemma set_filterJourneys: "j \<in> set (filterJourneys o' js) \<Longrightarrow> j \<in> set js"
  by (auto simp: filterJourneys_def Let_def split: if_splits)

lemma summary_of_simps [simp]:
  "jy_TraceID (summary_of parse i d) = i" "jy_ToolsUsed (summary_of parse i d) = td_tools d"
  "jy_EventCount (summary_of parse i d) = td_count d" "jy_HasMismatch (summary_of parse i d) = td_hasMismatch d"
  "jy_Outcome (summary_of parse i d) = final_outcome d"
  by (simp_all add: summary_of_def)

text \<open>A journey of the answer is the summary of the sorted events of its trace.\<close>

lemma QueryJourneys_member:
  assumes "QueryJourneys gsrt srt parse now f1 f2 f3 o' runs s = Inr js" "j \<in> set js"
  obtains d ids where "d = fold absorb (filter (\<lambda>r. aw_trace_id r = jy_TraceID j)
        (srt by_trace_then_time (filter (\<lambda>r. aw_trace_id r \<in> set ids) (au_rows s)))) zero_trace"
    "jy_TraceID j \<in> set ids" "jy_ToolsUsed j = td_tools d" "jy_EventCount j = td_count d"
    "jy_HasMismatch j = td_hasMismatch d" "jy_Outcome j = final_outcome d"
proof -
  from assms obtain o2 ids i x where "j \<in> set (filterJourneys o2 (map (\<lambda>i. (summary_of parse i (the
      (fold absorb_into (srt by_trace_then_time (filter (\<lambda>r. aw_trace_id r \<in> set ids) (au_rows s)))
        (\<lambda>i. if i \<in> set ids then Some zero_trace else None) i)))\<lparr>jy_IncidentRunID := x i\<rparr>) ids))"
    by (cases "f3 = None") (auto simp: QueryJourneys_def Let_def comp_def summary_of_def split: option.splits if_splits)
  then obtain i where i: "i \<in> set ids" and j: "j = (summary_of parse i (the
      (fold absorb_into (srt by_trace_then_time (filter (\<lambda>r. aw_trace_id r \<in> set ids) (au_rows s)))
        (\<lambda>i. if i \<in> set ids then Some zero_trace else None) i)))\<lparr>jy_IncidentRunID := x i\<rparr>"
    by (auto dest!: set_filterJourneys)
  show thesis
    using that i j by (simp add: fold_absorb_into)
qed

section \<open>Properties\<close>

lemma by_trace_order:
  "by_trace_then_time x y \<Longrightarrow> by_trace_then_time y z \<Longrightarrow> by_trace_then_time x z"
  "by_trace_then_time x z \<Longrightarrow> by_trace_then_time x y \<or> by_trace_then_time y z"
  "\<not> by_trace_then_time x x"
  unfolding by_trace_then_time_def ts_before_def
  using str_less_trans str_less_linear str_less_irrefl by metis+

lemma final_outcome_priority: "outcomePriority (td_outcome d) \<le> outcomePriority (final_outcome d)"
  by (auto simp: final_outcome_def outcomePriority_def)

lemma zero_trace_simps [simp]:
  "td_tools zero_trace = []" "td_count zero_trace = 0" "td_outcome zero_trace = []" "\<not> td_hasMismatch zero_trace"
  by (simp_all add: zero_trace_def)

lemma unverified_wins: "mismatch_row r \<Longrightarrow> outcomePriority (contributes r) \<le> outcomePriority st \<Longrightarrow> st = ''unverified_claim''"
  by (simp add: mismatch_row_def contributes_def verification_row_def top_priority [symmetric]
      outcomePriority_def [of "''unverified_claim''"])

text \<open>The events of one trace in the result of the second query.\<close>

lemma trace_rows:
  assumes srt: "slice_sort srt" and i: "i \<in> set ids"
    and rows: "rows = filter (\<lambda>r. aw_trace_id r = i) (srt by_trace_then_time (filter (\<lambda>r. aw_trace_id r \<in> set ids) all_rows))"
  shows "mset rows = mset (filter (\<lambda>r. aw_trace_id r = i) all_rows) \<and> sorted_wrt (\<lambda>x y. \<not> ts_before y x) rows"
proof
  let ?sel = "filter (\<lambda>r. aw_trace_id r \<in> set ids) all_rows"
  have "mset rows = filter_mset (\<lambda>r. aw_trace_id r = i) (mset ?sel)"
    by (simp add: rows slice_sort.perm [OF srt])
  also have "\<dots> = mset (filter (\<lambda>r. aw_trace_id r = i) all_rows)"
    using i by (auto simp: filter_filter_mset intro!: filter_mset_cong)
  finally show "mset rows = mset (filter (\<lambda>r. aw_trace_id r = i) all_rows)" .
  have "sorted_wrt (\<lambda>x y. \<not> by_trace_then_time y x) (srt by_trace_then_time ?sel)"
    by (rule slice_sort.ordered [OF srt]) (use by_trace_order in blast)+
  then have "sorted_wrt (\<lambda>x y. \<not> by_trace_then_time y x) rows"
    unfolding rows by (rule sorted_wrt_filter)
  then show "sorted_wrt (\<lambda>x y. \<not> ts_before y x) rows"
    by (rule sorted_wrt_mono_rel [rotated]) (auto simp: rows by_trace_then_time_def)
qed


definition sample_options :: journey_options where
  "sample_options = \<lparr>jo_UserID = [], jo_Purpose = [], jo_From = 0, jo_Until = 0, jo_Limit = 0, jo_Since = 0, jo_Category = [],
     jo_Outcome = [], jo_HasRetries = False, jo_TraceID = [], jo_TraceIDPrefix = [], jo_Origin = [], jo_IncidentOnly = False\<rparr>"

definition sample_row :: "string \<Rightarrow> string \<Rightarrow> string \<Rightarrow> audit_row" where
  "sample_row ts typ status = (row_of zero_event)\<lparr>aw_timestamp := ts, aw_event_type := typ, aw_trace_id := ''tr_1'',
     aw_outcome_status := status\<rparr>"

definition sample_trace :: "audit_row list" where
  "sample_trace = [sample_row ''1'' EventTypeDelegation ''success'',
     (sample_row ''2'' EventTypeToolExecution ''error'')\<lparr>aw_tool_name := ''run_sql''\<rparr>,
     sample_row ''3'' EventTypeDelegationVerification ''unverified_claim'']"

definition sample_journey :: journey_summary where
  "sample_journey = summary_of (\<lambda>_. None) ''tr_1'' (fold absorb sample_trace zero_trace)"

lemma sample_journeys:
  "QueryJourneys insertionSort insertionSort (\<lambda>_. None) 0 None None None sample_options []
     \<lparr>au_rows = sample_trace, au_lastHash = []\<rparr> = Inr [sample_journey]"
  by (simp add: QueryJourneys_def sample_options_def sample_trace_def sample_row_def Let_def trace_ids_def trace_groups_def
      anchor_row_def event_type_defs insertionSort_def by_trace_then_time_def ts_before_def sample_journey_def
      fold_absorb_into filterJourneys_def run_of_trace_def summary_of_def)


text \<open>A journey is shown as approved although nobody approved anything: the policy asked for an approval, the
  tool never ran, and the request to the gateway ended well because the agent explained the refusal.\<close>

theorem shown_as_approved:
  "jy_Outcome (summary_of parse ''tr_1'' (fold absorb [sample_row ''1'' EventTypePolicyDecision ''require_approval'',
     sample_row ''2'' EventTypeGatewayRequest ''success''] zero_trace)) = ''approved''"
  by (simp add: absorb_def outcome_fields_def tool_fields_def anchor_fields_def request_fields_def stretch_def outrank_def
      sample_row_def event_type_defs zero_trace_def Let_def final_outcome_def outcomePriority_def summary_of_def)

end
