(* ===== verification/Evaluations.thy ===== *)
theory Evaluations
  imports Playbook_Runs
begin

text \<open>
  The scores of fault tests: \<^verbatim>\<open>internal/audit/run_evaluation_store.go\<close> with the calibration report,
  \<^verbatim>\<open>fault_stability_store.go\<close>, and their handlers in \<^verbatim>\<open>cmd/auditd\<close>. A score is the rational number
  that a \<^verbatim>\<open>float64\<close> stands for. The statistics of versions are those of \<^verbatim>\<open>playbook_run_store.go\<close>. The text of a time in the database is \<open>fmt_rfc3339nano\<close> of it, and the
  rows are sorted by that text with the argument \<open>srt\<close>. The servers are built with their stores, so the
  answers for a missing store do not occur; the creation and migration of the tables is left out.
\<close>

section \<open>Evaluations\<close>

record run_evaluation =
  re_RunID :: string
  re_FailureID :: string
  re_FailureName :: string
  re_KeywordScore :: rat
  re_ToolScore :: rat
  re_DiagnosisScore :: rat
  re_RemediationScore :: rat
  re_OverallScore :: rat
  re_JudgeUsed :: bool
  re_Passed :: bool
  re_CreatedAt :: time
  re_RemediationJudgeScore :: rat
  re_RemediationJudgeReasoning :: string
  re_PrimaryConfidence :: rat

text \<open>An insertion that replaces the row with the same key.\<close>

definition upsert :: "('a \<Rightarrow> 'k) \<Rightarrow> 'a \<Rightarrow> 'a list \<Rightarrow> 'a list" where
  "upsert key x rows = (if list_ex (\<lambda>y. key y = key x) rows
     then map (\<lambda>y. if key y = key x then x else y) rows else rows @ [x])"

definition eval_Upsert :: "string option \<Rightarrow> time \<Rightarrow> run_evaluation \<Rightarrow> run_evaluation list \<Rightarrow> string option \<times> run_evaluation list" where
  "eval_Upsert flt now e rows =
     (let e = (if re_CreatedAt e = 0 then e\<lparr>re_CreatedAt := now\<rparr> else e)
      in case flt of Some err \<Rightarrow> (Some err, rows) | None \<Rightarrow> (None, upsert re_RunID e rows))"

definition eval_GetByRunID :: "string option \<Rightarrow> string \<Rightarrow> run_evaluation list \<Rightarrow> pb_error + run_evaluation" where
  "eval_GetByRunID flt runID rows = (case flt of
     Some e \<Rightarrow> Inl (PbDB e)
   | None \<Rightarrow> (case find (\<lambda>e. re_RunID e = runID) rows of None \<Rightarrow> Inl PbNoRows | Some e \<Rightarrow> Inr e))"

record fault_run_entry =
  fe_RunID :: string
  fe_FailureID :: string
  fe_Timestamp :: time
  fe_Passed :: bool

definition entry_of_eval :: "run_evaluation \<Rightarrow> fault_run_entry" where
  "entry_of_eval e = \<lparr>fe_RunID = re_RunID e, fe_FailureID = re_FailureID e, fe_Timestamp = re_CreatedAt e, fe_Passed = re_Passed e\<rparr>"

type_synonym eval_sort = "(run_evaluation \<Rightarrow> run_evaluation \<Rightarrow> bool) \<Rightarrow> run_evaluation list \<Rightarrow> run_evaluation list"

definition ListHistory ::
  "eval_sort \<Rightarrow> string option \<Rightarrow> time \<Rightarrow> int \<Rightarrow> string \<Rightarrow> run_evaluation list \<Rightarrow> string + fault_run_entry list" where
  "ListHistory srt flt now sinceDays faultID rows =
     (let cutoff = fmt_rfc3339nano (time_add now (- (sinceDays * 86400 * Second))) in case flt of
        Some e \<Rightarrow> Inl (''list fault run history: '' @ e)
      | None \<Rightarrow> Inr (map entry_of_eval (srt (\<lambda>a b. str_less (fmt_rfc3339nano (re_CreatedAt a)) (fmt_rfc3339nano (re_CreatedAt b)))
          (filter (\<lambda>e. re_FailureID e \<noteq> [] \<and> (faultID = [] \<or> re_FailureID e = faultID) \<and>
             str_le cutoff (fmt_rfc3339nano (re_CreatedAt e))) rows))))"

section \<open>Calibration\<close>

record band_def =
  bd_label :: string
  bd_min :: rat
  bd_max :: rat
  bd_expected :: rat

definition diagBands :: "band_def list" where
  "diagBands = [\<lparr>bd_label = ''90-100%'', bd_min = fl64 (90 / 100), bd_max = fl64 (101 / 100), bd_expected = fl64 (95 / 100)\<rparr>,
     \<lparr>bd_label = ''70-89%'', bd_min = fl64 (70 / 100), bd_max = fl64 (90 / 100), bd_expected = fl64 (80 / 100)\<rparr>,
     \<lparr>bd_label = ''<70%'', bd_min = 0, bd_max = fl64 (70 / 100), bd_expected = 1 / 2\<rparr>]"

text \<open>The difference of two values of the type.\<close>

definition fsub :: "rat \<Rightarrow> rat \<Rightarrow> rat" where
  "fsub a b = (if a < b then - fl64 (b - a) else fl64 (a - b))"

definition calibrationLabel :: "rat \<Rightarrow> rat \<Rightarrow> nat \<Rightarrow> string" where
  "calibrationLabel actual expected runs =
     (if runs < 3 then ''INSUFFICIENT_DATA''
      else if fsub actual expected < - fl64 (1 / 10) then ''OVERCONFIDENT''
      else if fsub actual expected > fl64 (1 / 10) then ''UNDERCONFIDENT''
      else ''WELL_CALIBRATED'')"

record calibration_band =
  cb_Band :: string
  cb_Runs :: nat
  cb_Correct :: nat
  cb_ActualAccuracy :: rat
  cb_Calibration :: string
  cb_HeuristicRuns :: nat

record calibration_report =
  cr_SeriesID :: string
  cr_Bands :: "calibration_band list"
  cr_TotalRuns :: nat
  cr_RemediationBands :: "calibration_band list"
  cr_RemediationRuns :: nat
  cr_HeuristicCount :: nat
  cr_HumanRuns :: nat
  cr_AutoJudgeRuns :: nat

text \<open>One side of the left join: the verdicts of a run at one time, or no row.\<close>

definition joined :: "string \<Rightarrow> string \<Rightarrow> string \<Rightarrow> run_feedback list \<Rightarrow> run_evaluation \<Rightarrow> run_feedback option list" where
  "joined typ tm seriesID fbs e =
     (let fs = filter (\<lambda>f. fk_RunID f = re_RunID e \<and> fk_FeedbackType f = typ \<and> fk_FeedbackTime f = tm \<and>
            fk_VerdictCorrect f \<noteq> None \<and> (seriesID = [] \<or> fk_SeriesID f = seriesID)) fbs
      in if fs = [] then [None] else map Some fs)"

text \<open>The rows of the join with at least one verdict: the evaluation and the feedback that counts, the preferred
  one where both exist.\<close>

definition judged :: "string \<Rightarrow> string \<Rightarrow> string \<Rightarrow> string \<Rightarrow> run_feedback list \<Rightarrow> run_evaluation list \<Rightarrow> (run_evaluation \<times> run_feedback) list" where
  "judged typ preferred other seriesID fbs evs = concat (map (\<lambda>e. List.map_filter (\<lambda>(p, q).
       map_option (Pair e) (case p of Some f \<Rightarrow> Some f | None \<Rightarrow> q))
     (List.product (joined typ preferred seriesID fbs e) (joined typ other seriesID fbs e))) evs)"

definition in_band :: "rat \<Rightarrow> band_def \<Rightarrow> bool" where
  "in_band x b \<longleftrightarrow> bd_min b \<le> x \<and> x < bd_max b"

text \<open>The band of a value: the first one that holds it.\<close>

definition band_of :: "rat \<Rightarrow> band_def option" where
  "band_of x = find (in_band x) diagBands"

definition band_row ::
  "(run_evaluation \<Rightarrow> rat) \<Rightarrow> (run_evaluation \<Rightarrow> bool) \<Rightarrow> (run_evaluation \<times> run_feedback) list \<Rightarrow> band_def \<Rightarrow> calibration_band" where
  "band_row score heuristic js b =
     (let mine = filter (\<lambda>(e, _). band_of (score e) = Some b) js;
          correct = length (filter (\<lambda>(_, f). fk_VerdictCorrect f = Some True) mine);
          acc = (if mine = [] then 0 else rate correct (length mine))
      in \<lparr>cb_Band = bd_label b, cb_Runs = length mine, cb_Correct = correct, cb_ActualAccuracy = acc,
          cb_Calibration = calibrationLabel acc (bd_expected b) (length mine),
          cb_HeuristicRuns = length (filter (\<lambda>(e, _). heuristic e) mine)\<rparr>)"

definition CalibrationBands ::
  "string option \<Rightarrow> string option \<Rightarrow> string option \<Rightarrow> string \<Rightarrow> run_feedback list \<Rightarrow> run_evaluation list \<Rightarrow> string + calibration_report" where
  "CalibrationBands f1 f2 f3 seriesID fbs evs = (case f1 of
     Some e \<Rightarrow> Inl (''calibration query: '' @ e)
   | None \<Rightarrow>
       (let js = judged ''triage'' ''at_gate'' ''post_incident'' seriesID fbs (filter (\<lambda>e. re_PrimaryConfidence e > 0) evs);
            bands = map (band_row re_PrimaryConfidence (\<lambda>e. \<not> re_JudgeUsed e) js) diagBands;
            hc = (case f2 of Some _ \<Rightarrow> 0 | None \<Rightarrow>
              length (judged ''triage'' ''at_gate'' ''post_incident'' seriesID fbs (filter (\<lambda>e. re_PrimaryConfidence e = 0) evs)))
        in case f3 of
             Some e \<Rightarrow> Inl (''remediation calibration query: '' @ e)
           | None \<Rightarrow>
               (let rs = judged ''remediation'' ''post_incident'' ''at_gate'' seriesID fbs
                      (filter (\<lambda>e. re_RemediationJudgeScore e > 0) evs);
                    rbands = map (band_row re_RemediationJudgeScore (\<lambda>_. False) rs) diagBands
                in Inr \<lparr>cr_SeriesID = seriesID, cr_Bands = bands, cr_TotalRuns = sum_list (map cb_Runs bands),
                    cr_RemediationBands = rbands, cr_RemediationRuns = sum_list (map cb_Runs rbands), cr_HeuristicCount = hc,
                    cr_HumanRuns = length (filter (\<lambda>(_, f). fk_FeedbackSource f \<noteq> ''auto_judge'') js),
                    cr_AutoJudgeRuns = length (filter (\<lambda>(_, f). fk_FeedbackSource f = ''auto_judge'') js)\<rparr>)))"

section \<open>Stability of faults\<close>

record fault_stability_cert =
  sc_FaultID :: string
  sc_FaultName :: string
  sc_PlaybookSeriesID :: string
  sc_DiagnosisModel :: string
  sc_JudgeModel :: string
  sc_NRuns :: int
  sc_PassRate :: rat
  sc_ConfRangePP :: int
  sc_IsStable :: bool
  sc_TestedAt :: time
  sc_PrimaryAttribution :: string
  sc_AttributionConsistent :: bool
  sc_AttributionDistribution :: "(string \<times> int) list"
  sc_JudgeSpread :: rat
  sc_TaxonomyVersion :: string

definition cert_key :: "fault_stability_cert \<Rightarrow> string \<times> string" where
  "cert_key c = (sc_FaultID c, sc_DiagnosisModel c)"

definition cert_Upsert ::
  "string option \<Rightarrow> time \<Rightarrow> fault_stability_cert \<Rightarrow> fault_stability_cert list \<Rightarrow> string option \<times> fault_stability_cert list" where
  "cert_Upsert flt now c rows =
     (let c = (if sc_TestedAt c = 0 then c\<lparr>sc_TestedAt := now\<rparr> else c)
      in case flt of Some err \<Rightarrow> (Some err, rows) | None \<Rightarrow> (None, upsert cert_key c rows))"

definition tested_later :: "fault_stability_cert \<Rightarrow> fault_stability_cert \<Rightarrow> bool" where
  "tested_later a b = str_less (fmt_rfc3339nano (sc_TestedAt b)) (fmt_rfc3339nano (sc_TestedAt a))"

type_synonym cert_sort =
  "(fault_stability_cert \<Rightarrow> fault_stability_cert \<Rightarrow> bool) \<Rightarrow> fault_stability_cert list \<Rightarrow> fault_stability_cert list"

definition GetByFaultID ::
  "cert_sort \<Rightarrow> string option \<Rightarrow> string \<Rightarrow> fault_stability_cert list \<Rightarrow> pb_error + fault_stability_cert" where
  "GetByFaultID srt flt faultID rows = (case flt of
     Some e \<Rightarrow> Inl (PbDB e)
   | None \<Rightarrow> (case srt tested_later (filter (\<lambda>c. sc_FaultID c = faultID) rows) of [] \<Rightarrow> Inl PbNoRows | c # _ \<Rightarrow> Inr c))"

definition GetByFaultAndModel ::
  "string option \<Rightarrow> string \<Rightarrow> string \<Rightarrow> fault_stability_cert list \<Rightarrow> pb_error + fault_stability_cert" where
  "GetByFaultAndModel flt faultID model rows = (case flt of
     Some e \<Rightarrow> Inl (PbDB e)
   | None \<Rightarrow> (case find (\<lambda>c. cert_key c = (faultID, model)) rows of None \<Rightarrow> Inl PbNoRows | Some c \<Rightarrow> Inr c))"

definition ListByFaultID ::
  "cert_sort \<Rightarrow> string option \<Rightarrow> string \<Rightarrow> fault_stability_cert list \<Rightarrow> string + fault_stability_cert list" where
  "ListByFaultID srt flt faultID rows = (case flt of
     Some e \<Rightarrow> Inl e | None \<Rightarrow> Inr (srt tested_later (filter (\<lambda>c. sc_FaultID c = faultID) rows)))"

definition cert_ListAll :: "cert_sort \<Rightarrow> string option \<Rightarrow> fault_stability_cert list \<Rightarrow> string + fault_stability_cert list" where
  "cert_ListAll srt flt rows = (case flt of
     Some e \<Rightarrow> Inl (''list fault stability certs: '' @ e)
   | None \<Rightarrow> Inr (srt (\<lambda>a b. str_less (sc_FaultID a) (sc_FaultID b) \<or> sc_FaultID a = sc_FaultID b \<and> tested_later a b) rows))"

section \<open>Statistics of the versions of a series\<close>

record version_stats =
  vs_SeriesID :: string
  vs_PlaybookID :: string
  vs_OriginTrace :: string
  vs_Version :: string
  vs_IsActive :: bool
  vs_TotalRuns :: nat
  vs_Resolved :: nat
  vs_ResolutionRate :: rat
  vs_Transitioned :: nat
  vs_TransitionRate :: rat
  vs_Escalated :: nat
  vs_EscalationRate :: rat
  vs_AvgStepCount :: rat
  vs_AvgRecoverySecs :: rat
  vs_AvgDiagnosisScore :: rat
  vs_DiagEvalCount :: nat
  vs_AvgRemediationScore :: rat
  vs_RemedEvalCount :: nat
  vs_RemFeedbackCount :: nat
  vs_RemFeedbackRate :: rat
  vs_JudgeVerdict :: string
  vs_JudgeModel :: string
  vs_JudgeAt :: time

text \<open>A row of the join: the run, its playbook, the number of its steps and its evaluation.\<close>

type_synonym version_row = "playbook_run \<times> playbook \<times> nat \<times> run_evaluation option"

definition version_rows ::
  "string \<Rightarrow> playbook list \<Rightarrow> run_step list \<Rightarrow> run_evaluation list \<Rightarrow> playbook_run list \<Rightarrow> version_row list" where
  "version_rows seriesID pbs steps evs runs = concat (map (\<lambda>r. map (\<lambda>p.
       (r, p, length (filter (\<lambda>st. pst_RunID st = pn_RunID r) steps), find (\<lambda>e. re_RunID e = pn_RunID r) evs))
     (filter (\<lambda>p. pb_PlaybookID p = pn_PlaybookID r) pbs)) (filter (\<lambda>r. pn_SeriesID r = seriesID) runs))"

definition row_version :: "version_row \<Rightarrow> string" where
  "row_version x = (case x of (_, p, _, _) \<Rightarrow> pb_Version p)"

definition version_before :: "version_row \<Rightarrow> version_row \<Rightarrow> bool" where
  "version_before x y \<longleftrightarrow> str_less (row_version x) (row_version y) \<or>
     row_version x = row_version y \<and> str_less (fmt_rfc3339 (pn_StartedAt (fst x))) (fmt_rfc3339 (pn_StartedAt (fst y)))"

definition fsum :: "rat list \<Rightarrow> rat" where
  "fsum xs = fold (\<lambda>x acc. fl64 (acc + x)) xs 0"

definition average :: "rat list \<Rightarrow> rat" where
  "average xs = (if xs = [] then 0 else fl64 (fsum xs / of_nat (length xs)))"

definition counts_escalated :: "playbook_run \<Rightarrow> bool" where
  "counts_escalated r \<longleftrightarrow> pn_Outcome r = ''escalated'' \<or> pn_Outcome r = ''gate_pending'' \<and> pn_EscalatedTo r \<noteq> []"

definition version_stat :: "string \<Rightarrow> string \<Rightarrow> version_row list \<Rightarrow> version_stats" where
  "version_stat seriesID v xs =
     (let (_, p, _, _) = hd xs; n = length xs;
          cnt = (\<lambda>P. length (filter (\<lambda>(r, _). P r) xs));
          secs = List.map_filter (\<lambda>(r, _). recovery r) xs;
          diag = List.map_filter (\<lambda>(_, _, _, e). map_option re_DiagnosisScore e) xs;
          remed = filter (\<lambda>s. s > 0) (List.map_filter (\<lambda>(_, _, _, e). map_option re_RemediationScore e) xs)
      in \<lparr>vs_SeriesID = seriesID, vs_PlaybookID = pn_PlaybookID (fst (hd xs)), vs_OriginTrace = pb_OriginTrace p, vs_Version = v,
          vs_IsActive = pb_IsActive p, vs_TotalRuns = n, vs_Resolved = cnt (\<lambda>r. pn_Outcome r = ''resolved''),
          vs_ResolutionRate = rate (cnt (\<lambda>r. pn_Outcome r = ''resolved'')) n,
          vs_Transitioned = cnt (\<lambda>r. pn_Outcome r = ''transitioned''),
          vs_TransitionRate = rate (cnt (\<lambda>r. pn_Outcome r = ''transitioned'')) n,
          vs_Escalated = cnt counts_escalated, vs_EscalationRate = rate (cnt counts_escalated) n,
          vs_AvgStepCount = rate (sum_list (map (\<lambda>(_, _, k, _). k) xs)) n,
          vs_AvgRecoverySecs = (if secs = [] then 0 else rate (sum_list secs) (length secs)),
          vs_AvgDiagnosisScore = average diag, vs_DiagEvalCount = length diag,
          vs_AvgRemediationScore = average remed, vs_RemedEvalCount = length remed,
          vs_RemFeedbackCount = 0, vs_RemFeedbackRate = 0, vs_JudgeVerdict = [], vs_JudgeModel = [], vs_JudgeAt = 0\<rparr>)"

text \<open>The second pass: the verdicts on the remediations of a version. A placeholder without a verdict counts.\<close>

definition version_verdicts ::
  "string \<Rightarrow> playbook list \<Rightarrow> run_feedback list \<Rightarrow> playbook_run list \<Rightarrow> (string \<times> bool option) list" where
  "version_verdicts seriesID pbs fbs runs = concat (map (\<lambda>f. concat (map (\<lambda>r. map (\<lambda>p. (pb_Version p, fk_VerdictCorrect f))
       (filter (\<lambda>p. pb_PlaybookID p = pn_PlaybookID r) pbs))
     (filter (\<lambda>r. pn_RunID r = fk_RunID f \<and> pn_SeriesID r = seriesID) runs))) (filter (\<lambda>f. fk_FeedbackType f = ''remediation'') fbs))"

definition with_verdicts :: "(string \<times> bool option) list \<Rightarrow> version_stats \<Rightarrow> version_stats" where
  "with_verdicts vds st = (let mine = filter (\<lambda>(v, _). v = vs_Version st) vds in
     if mine = [] then st
     else st\<lparr>vs_RemFeedbackCount := length mine,
       vs_RemFeedbackRate := rate (length (filter (\<lambda>(_, b). b = Some True) mine)) (length mine)\<rparr>)"

text \<open>The third pass: the verdict of the judge on the playbook of a version; an identifier belongs to one version.\<close>

definition with_judge :: "string \<Rightarrow> playbook list \<Rightarrow> version_stats \<Rightarrow> version_stats" where
  "with_judge seriesID pbs st = (case find (\<lambda>p. pb_PlaybookID p = vs_PlaybookID st \<and> pb_SeriesID p = seriesID \<and> pb_JudgeVerdict p \<noteq> []) pbs of
     Some p \<Rightarrow> (if vs_PlaybookID st = [] then st else st\<lparr>vs_JudgeVerdict := pb_JudgeVerdict p, vs_JudgeModel := pb_JudgeModel p,
       vs_JudgeAt := pb_JudgeAt p\<rparr>)
   | None \<Rightarrow> st)"

definition StatsByVersion ::
  "((version_row \<Rightarrow> version_row \<Rightarrow> bool) \<Rightarrow> version_row list \<Rightarrow> version_row list) \<Rightarrow> string option \<Rightarrow> string option \<Rightarrow> string option \<Rightarrow> string \<Rightarrow>
   playbook list \<Rightarrow> run_step list \<Rightarrow> run_evaluation list \<Rightarrow> run_feedback list \<Rightarrow> playbook_run list \<Rightarrow> string + version_stats list" where
  "StatsByVersion srt f1 f2 f3 seriesID pbs steps evs fbs runs = (case f1 of
     Some e \<Rightarrow> Inl (''query version stats: '' @ e)
   | None \<Rightarrow>
       (let xs = srt version_before (version_rows seriesID pbs steps evs runs);
            out = map (\<lambda>v. version_stat seriesID v (filter (\<lambda>x. row_version x = v) xs)) (rev (remdups (rev (map row_version xs))));
            out = (if f2 = None then map (with_verdicts (version_verdicts seriesID pbs fbs runs)) out else out)
        in Inr (if f3 = None then map (with_judge seriesID pbs) out else out)))"

definition handleVersionStats ::
  "((version_row \<Rightarrow> version_row \<Rightarrow> bool) \<Rightarrow> version_row list \<Rightarrow> version_row list) \<Rightarrow> string option \<Rightarrow> string option \<Rightarrow> string option \<Rightarrow> string \<Rightarrow>
   run_tables \<Rightarrow> run_evaluation list \<Rightarrow> version_stats list response" where
  "handleVersionStats srt f1 f2 f3 seriesID t evs =
     (if seriesID = [] then (400, Inl ''seriesID path parameter is required'')
      else (case StatsByVersion srt f1 f2 f3 seriesID (tb_playbooks t) (tb_steps t) evs (tb_feedback t) (tb_runs t) of
        Inl _ \<Rightarrow> (500, Inl ''failed to get version stats'')
      | Inr vs \<Rightarrow> (200, Inr vs)))"

section \<open>Handlers\<close>

definition handleSubmitEvaluation ::
  "string option \<Rightarrow> time \<Rightarrow> string \<Rightarrow> run_evaluation body \<Rightarrow> run_evaluation list \<Rightarrow> unit response \<times> run_evaluation list" where
  "handleSubmitEvaluation flt now runID b rows =
     (if runID = [] then ((400, Inl ''runID is required''), rows)
      else (case b of
        ReadError \<Rightarrow> ((400, Inl ''invalid JSON: ''), rows)
      | BadJSON e \<Rightarrow> ((400, Inl (''invalid JSON: '' @ e)), rows)
      | Body e \<Rightarrow> (case eval_Upsert flt now (e\<lparr>re_RunID := runID\<rparr>) rows of
          (Some _, rows) \<Rightarrow> ((500, Inl ''failed to submit evaluation''), rows)
        | (None, rows) \<Rightarrow> ((204, Inr ()), rows))))"

definition handleGetEvaluation :: "string option \<Rightarrow> string \<Rightarrow> run_evaluation list \<Rightarrow> run_evaluation response" where
  "handleGetEvaluation flt runID rows =
     (if runID = [] then (400, Inl ''runID is required'')
      else (case eval_GetByRunID flt runID rows of
        Inl PbNoRows \<Rightarrow> (404, Inl ''no evaluation for run'')
      | Inl _ \<Rightarrow> (500, Inl ''failed to get evaluation'')
      | Inr e \<Rightarrow> (200, Inr e)))"

definition handleCalibration ::
  "string option \<Rightarrow> string option \<Rightarrow> string option \<Rightarrow> (string \<Rightarrow> string) \<Rightarrow> run_feedback list \<Rightarrow> run_evaluation list \<Rightarrow>
   calibration_report response" where
  "handleCalibration f1 f2 f3 get fbs evs = (case CalibrationBands f1 f2 f3 (get ''series_id'') fbs evs of
     Inl _ \<Rightarrow> (500, Inl ''failed to compute calibration'') | Inr r \<Rightarrow> (200, Inr r))"

definition handleFaultRunHistory ::
  "eval_sort \<Rightarrow> string option \<Rightarrow> time \<Rightarrow> (string \<Rightarrow> string) \<Rightarrow> run_evaluation list \<Rightarrow> fault_run_entry list response" where
  "handleFaultRunHistory srt flt now get rows =
     (let sinceDays = (case Atoi (get ''since_days'') of Some n \<Rightarrow> if n > 0 then n else 90 | None \<Rightarrow> 90)
      in case ListHistory srt flt now sinceDays (get ''fault_id'') rows of
           Inl _ \<Rightarrow> (500, Inl ''failed to list fault run history'') | Inr es \<Rightarrow> (200, Inr es))"

definition cert_handleUpsert ::
  "string option \<Rightarrow> time \<Rightarrow> fault_stability_cert body \<Rightarrow> fault_stability_cert list \<Rightarrow> unit response \<times> fault_stability_cert list" where
  "cert_handleUpsert flt now b rows = (case b of
     ReadError \<Rightarrow> ((400, Inl ''invalid JSON: ''), rows)
   | BadJSON e \<Rightarrow> ((400, Inl (''invalid JSON: '' @ e)), rows)
   | Body c \<Rightarrow>
       (if sc_FaultID c = [] then ((400, Inl ''fault_id is required''), rows)
        else if sc_NRuns c < 1 then ((400, Inl ''n_runs must be >= 1''), rows)
        else (case cert_Upsert flt now c rows of
          (Some _, rows) \<Rightarrow> ((500, Inl ''failed to store cert''), rows)
        | (None, rows) \<Rightarrow> ((204, Inr ()), rows))))"

definition cert_handleGet :: "cert_sort \<Rightarrow> string option \<Rightarrow> string \<Rightarrow> fault_stability_cert list \<Rightarrow> fault_stability_cert response" where
  "cert_handleGet srt flt faultID rows =
     (if faultID = [] then (400, Inl ''faultID is required'')
      else (case GetByFaultID srt flt faultID rows of
        Inl PbNoRows \<Rightarrow> (404, Inl ''no stability cert for fault'')
      | Inl _ \<Rightarrow> (500, Inl ''failed to get cert'')
      | Inr c \<Rightarrow> (200, Inr c)))"

definition cert_handleList :: "cert_sort \<Rightarrow> string option \<Rightarrow> fault_stability_cert list \<Rightarrow> fault_stability_cert list response" where
  "cert_handleList srt flt rows = (case cert_ListAll srt flt rows of
     Inl _ \<Rightarrow> (500, Inl ''failed to list certs'') | Inr cs \<Rightarrow> (200, Inr cs))"

section \<open>Keyed tables\<close>

lemma upsert_find [simp]: "find (\<lambda>y. key y = key x) (upsert key x rows) = Some x"
proof -
  have "find (\<lambda>y. key y = key x) (map (\<lambda>y. if key y = key x then x else y) rows) =
      (if list_ex (\<lambda>y. key y = key x) rows then Some x else None)"
    by (induction rows) auto
  moreover have "\<not> list_ex (\<lambda>y. key y = key x) rows \<Longrightarrow> find (\<lambda>y. key y = key x) (rows @ [x]) = Some x"
    by (induction rows) auto
  ultimately show ?thesis
    by (auto simp: upsert_def)
qed

lemma upsert_find_other: "k \<noteq> key x \<Longrightarrow> find (\<lambda>y. key y = k) (upsert key x rows) = find (\<lambda>y. key y = k) rows"
proof -
  assume k: "k \<noteq> key x"
  have "find (\<lambda>y. key y = k) (map (\<lambda>y. if key y = key x then x else y) rows) = find (\<lambda>y. key y = k) rows"
    using k by (induction rows) auto
  moreover have "find (\<lambda>y. key y = k) (rows @ [x]) = find (\<lambda>y. key y = k) rows"
    using k by (induction rows) auto
  ultimately show ?thesis
    by (simp add: upsert_def)
qed

lemma upsert_distinct: "distinct (map key rows) \<Longrightarrow> distinct (map key (upsert key x rows))"
proof -
  assume d: "distinct (map key rows)"
  have "map key (map (\<lambda>y. if key y = key x then x else y) rows) = map key rows"
    by (induction rows) auto
  with d have "distinct (map key (map (\<lambda>y. if key y = key x then x else y) rows))"
    by (simp only:)
  with d show ?thesis
    unfolding upsert_def by (auto simp: list_ex_iff simp del: map_map)
qed

section \<open>The join\<close>

text \<open>The verdict the report uses for a run.\<close>

definition verdict_of :: "string \<Rightarrow> string \<Rightarrow> string \<Rightarrow> string \<Rightarrow> run_feedback list \<Rightarrow> run_evaluation \<Rightarrow> run_feedback option" where
  "verdict_of typ preferred other seriesID fbs e =
     (case hd (joined typ preferred seriesID fbs e) of Some f \<Rightarrow> Some f | None \<Rightarrow> hd (joined typ other seriesID fbs e))"

lemma filter_key_single:
  "distinct (map key xs) \<Longrightarrow> (\<And>x. x \<in> set xs \<Longrightarrow> P x \<Longrightarrow> key x = k) \<Longrightarrow> length (filter P xs) \<le> 1"
proof (induction xs)
  case (Cons x xs)
  then show ?case
    by (cases "P x") (auto simp: filter_empty_conv image_iff)
qed simp

lemma joined_single:
  assumes "distinct (map fk_key fbs)"
  shows "joined typ tm seriesID fbs e = [hd (joined typ tm seriesID fbs e)]"
proof -
  let ?fs = "filter (\<lambda>f. fk_RunID f = re_RunID e \<and> fk_FeedbackType f = typ \<and> fk_FeedbackTime f = tm \<and>
      fk_VerdictCorrect f \<noteq> None \<and> (seriesID = [] \<or> fk_SeriesID f = seriesID)) fbs"
  have "length ?fs \<le> 1"
    by (rule filter_key_single [OF assms, of _ "(re_RunID e, typ, tm)"]) (simp add: fk_key_def)
  then show ?thesis
    by (cases ?fs) (auto simp: joined_def Let_def)
qed

lemma judged_once:
  assumes "distinct (map fk_key fbs)"
  shows "judged typ preferred other seriesID fbs evs =
    List.map_filter (\<lambda>e. map_option (Pair e) (verdict_of typ preferred other seriesID fbs e)) evs"
proof (induction evs)
  case (Cons e evs)
  have "List.product (joined typ preferred seriesID fbs e) (joined typ other seriesID fbs e) =
      [(hd (joined typ preferred seriesID fbs e), hd (joined typ other seriesID fbs e))]"
    using joined_single [OF assms, of "typ" preferred seriesID e] joined_single [OF assms, of "typ" other seriesID e]
    by (metis List.product.simps append_Nil2 list.simps(8,9))
  with Cons show ?case
    by (simp add: judged_def List.map_filter_simps verdict_of_def split: option.split)
qed (simp add: judged_def List.map_filter_simps)

section \<open>The bands\<close>

lemma fl64_near:
  assumes "0 < x" "x \<le> 2"
  shows "x - 1 / 100 \<le> fl64 x" "fl64 x \<le> x + 1 / 100"
proof -
  have "x / 2 ^ 53 \<le> 1 / 100"
    using assms by simp
  with fl64_error [OF assms(1)] have "\<bar>fl64 x - x\<bar> \<le> 1 / 100"
    by linarith
  then show "x - 1 / 100 \<le> fl64 x" "fl64 x \<le> x + 1 / 100"
    by linarith+
qed

lemma band_limits: "0 < fl64 (70 / 100)" "fl64 (70 / 100) < fl64 (90 / 100)" "fl64 (90 / 100) < fl64 (101 / 100)"
  using fl64_near [of "70 / 100"] fl64_near [of "90 / 100"] fl64_near [of "101 / 100"] by simp_all

lemma band_of_total: "0 \<le> x \<Longrightarrow> x < fl64 (101 / 100) \<Longrightarrow> \<exists>b \<in> set diagBands. band_of x = Some b"
  by (auto simp: band_of_def diagBands_def in_band_def)

lemma band_of_unique:
  assumes "b \<in> set diagBands" "in_band x b"
  shows "band_of x = Some b"
  using assms band_limits by (auto simp: band_of_def diagBands_def in_band_def)

lemma band_of_member: "band_of x = Some b \<Longrightarrow> b \<in> set diagBands \<and> in_band x b"
  by (auto simp: band_of_def find_Some_iff)

lemma diagBands_distinct: "distinct diagBands"
  by (simp add: diagBands_def)

lemma sum_bands:
  "(\<Sum>b \<leftarrow> bs. length (filter (\<lambda>x. g x = Some b) xs)) = length (filter (\<lambda>x. \<exists>b \<in> set bs. g x = Some b) xs)"
  if "distinct bs"
  using that
proof (induction bs)
  case (Cons b bs)
  have "length (filter (\<lambda>x. \<exists>b' \<in> set (b # bs). g x = Some b') xs) =
      length (filter (\<lambda>x. g x = Some b) xs) + length (filter (\<lambda>x. \<exists>b' \<in> set bs. g x = Some b') xs)"
    using Cons.prems by (induction xs) auto
  with Cons show ?case
    by simp
qed simp

section \<open>Properties\<close>

text \<open>the calibration report counts each judged run once. With the keys of the feedback table unique, a band
  counts exactly the evaluations whose confidence lies in it and that have a verdict, taking the verdict
  given at the gate before the later one; its correct runs are those with a positive verdict; and the total
  is the number of judged runs with a confidence up to one.\<close>

theorem calibration_exact:
  assumes "CalibrationBands None f2 None seriesID fbs evs = Inr report" "distinct (map fk_key fbs)"
    and "\<forall>e \<in> set evs. re_PrimaryConfidence e < fl64 (101 / 100)"
  shows "cr_TotalRuns report = length (filter (\<lambda>e. 0 < re_PrimaryConfidence e \<and>
      verdict_of ''triage'' ''at_gate'' ''post_incident'' seriesID fbs e \<noteq> None) evs) \<and>
    map cb_Runs (cr_Bands report) = map (\<lambda>b. length (filter (\<lambda>e. 0 < re_PrimaryConfidence e \<and> in_band (re_PrimaryConfidence e) b \<and>
      verdict_of ''triage'' ''at_gate'' ''post_incident'' seriesID fbs e \<noteq> None) evs)) diagBands \<and>
    list_all (\<lambda>c. cb_Correct c \<le> cb_Runs c) (cr_Bands report)"
proof -
  let ?v = "verdict_of ''triage'' ''at_gate'' ''post_incident'' seriesID fbs"
  let ?js = "List.map_filter (\<lambda>e. map_option (Pair e) (?v e)) (filter (\<lambda>e. re_PrimaryConfidence e > 0) evs)"
  have bands: "cr_Bands report = map (band_row re_PrimaryConfidence (\<lambda>e. \<not> re_JudgeUsed e) ?js) diagBands"
      and total: "cr_TotalRuns report = sum_list (map cb_Runs (cr_Bands report))"
    using assms(1) judged_once [OF assms(2)] by (auto simp: CalibrationBands_def Let_def)
  have js: "length (filter (\<lambda>(e, _). P (re_PrimaryConfidence e)) ?js) =
      length (filter (\<lambda>e. 0 < re_PrimaryConfidence e \<and> P (re_PrimaryConfidence e) \<and> ?v e \<noteq> None) evs)" for P
    by (induction evs) (auto simp: List.map_filter_simps split: option.split)
  have iff: "band_of x = Some b \<longleftrightarrow> in_band x b" if "b \<in> set diagBands" for x b
    using that band_of_member band_of_unique by blast
  have runs: "map cb_Runs (cr_Bands report) = map (\<lambda>b. length (filter (\<lambda>(e, _). band_of (re_PrimaryConfidence e) = Some b) ?js)) diagBands"
    by (simp add: bands band_row_def Let_def)
  have "cr_TotalRuns report = length (filter (\<lambda>(e, _). \<exists>b \<in> set diagBands. band_of (re_PrimaryConfidence e) = Some b) ?js)"
    using sum_bands [OF diagBands_distinct, of "\<lambda>(e, _). band_of (re_PrimaryConfidence e)" ?js]
    by (simp add: total runs case_prod_unfold)
  also have "\<dots> = length (filter (\<lambda>e. 0 < re_PrimaryConfidence e \<and> ?v e \<noteq> None) evs)"
    unfolding js [of "\<lambda>x. \<exists>b \<in> set diagBands. band_of x = Some b"]
    using assms(3) band_of_total by (intro arg_cong [of _ _ length] filter_cong) auto
  finally have t: "cr_TotalRuns report = length (filter (\<lambda>e. 0 < re_PrimaryConfidence e \<and> ?v e \<noteq> None) evs)" .
  have "map cb_Runs (cr_Bands report) = map (\<lambda>b. length (filter (\<lambda>e. 0 < re_PrimaryConfidence e \<and>
      in_band (re_PrimaryConfidence e) b \<and> ?v e \<noteq> None) evs)) diagBands"
    unfolding runs using js [of "\<lambda>x. in_band x b" for b] by (intro map_cong) (simp_all add: iff)
  moreover have "list_all (\<lambda>c. cb_Correct c \<le> cb_Runs c) (cr_Bands report)"
    by (auto simp: bands band_row_def Let_def list_all_iff simp del: filter_filter intro: length_filter_le)
  ultimately show ?thesis
    using t by simp
qed

definition sample_eval :: run_evaluation where
  "sample_eval = \<lparr>re_RunID = ''plr_1'', re_FailureID = ''lock_wait'', re_FailureName = [], re_KeywordScore = 0, re_ToolScore = 0,
     re_DiagnosisScore = 1, re_RemediationScore = 0, re_OverallScore = 1, re_JudgeUsed = True, re_Passed = True,
     re_CreatedAt = 5, re_RemediationJudgeScore = 0, re_RemediationJudgeReasoning = [], re_PrimaryConfidence = 1 / 2\<rparr>"

definition sample_verdict :: run_feedback where
  "sample_verdict = \<lparr>fk_RunID = ''plr_1'', fk_FeedbackType = ''triage'', fk_FeedbackTime = ''at_gate'', fk_SeriesID = ''pbs_1'',
     fk_VerdictCorrect = Some True, fk_VerdictNotes = [], fk_Operator = ''ann'', fk_SubmittedAt = 6, fk_FeedbackSource = ''human''\<rparr>"

theorem calibration_exact_witness:
  "\<exists>report. CalibrationBands None None None [] [sample_verdict] [sample_eval] = Inr report \<and> cr_TotalRuns report = 1"
proof -
  obtain report where r: "CalibrationBands None None None [] [sample_verdict] [sample_eval] = Inr report"
    unfolding CalibrationBands_def Let_def by auto
  have "\<forall>e \<in> set [sample_eval]. re_PrimaryConfidence e < fl64 (101 / 100)"
    using fl64_near [of "101 / 100"] by (simp add: sample_eval_def)
  then have "cr_TotalRuns report = length (filter (\<lambda>e. 0 < re_PrimaryConfidence e \<and>
      verdict_of ''triage'' ''at_gate'' ''post_incident'' [] [sample_verdict] e \<noteq> None) [sample_eval])"
    using calibration_exact [OF r] by simp
  also have "\<dots> = 1"
    by (auto simp: verdict_of_def joined_def sample_verdict_def sample_eval_def intro: exI [of _ True])
  finally show ?thesis
    using r by blast
qed

text \<open>A submitted evaluation is read back, and those of other runs are untouched.\<close>

theorem evaluation_roundtrip:
  assumes "handleSubmitEvaluation None now runID (Body e) rows = ((204, Inr ()), rows')"
  shows "handleGetEvaluation None runID rows' =
      (200, Inr (e\<lparr>re_RunID := runID, re_CreatedAt := (if re_CreatedAt e = 0 then now else re_CreatedAt e)\<rparr>)) \<and>
    (\<forall>other. other \<noteq> runID \<longrightarrow> handleGetEvaluation None other rows' = handleGetEvaluation None other rows)"
proof -
  let ?e = "e\<lparr>re_RunID := runID, re_CreatedAt := (if re_CreatedAt e = 0 then now else re_CreatedAt e)\<rparr>"
  from assms have r: "runID \<noteq> []" "rows' = upsert re_RunID ?e rows"
    by (auto simp: handleSubmitEvaluation_def eval_Upsert_def Let_def split: if_splits)
  obtain x where x: "x = ?e" "re_RunID x = runID" "rows' = upsert re_RunID x rows"
    using r(2) by simp
  then have "handleGetEvaluation None runID rows' = (200, Inr x)"
    using r(1) upsert_find [of re_RunID x rows] by (simp add: handleGetEvaluation_def eval_GetByRunID_def)
  moreover have "handleGetEvaluation None other rows' = handleGetEvaluation None other rows" if "other \<noteq> runID" for other
    using that x(2,3) upsert_find_other [of other re_RunID x rows]
    by (simp add: handleGetEvaluation_def eval_GetByRunID_def)
  ultimately show ?thesis
    using x(1) by simp
qed

text \<open>The certificate returned as the most recent one may be the older one: the texts of the two times are
  compared, and a text with a fraction of a second sorts before the one without.\<close>

definition sample_cert :: "string \<Rightarrow> time \<Rightarrow> fault_stability_cert" where
  "sample_cert model t = \<lparr>sc_FaultID = ''lock_wait'', sc_FaultName = [], sc_PlaybookSeriesID = [], sc_DiagnosisModel = model,
     sc_JudgeModel = [], sc_NRuns = 5, sc_PassRate = 1, sc_ConfRangePP = 0, sc_IsStable = True, sc_TestedAt = t,
     sc_PrimaryAttribution = [], sc_AttributionConsistent = False, sc_AttributionDistribution = [], sc_JudgeSpread = 0,
     sc_TaxonomyVersion = []\<rparr>"

theorem older_cert_returned:
  "GetByFaultID insertionSort None ''lock_wait'' [sample_cert ''m1'' 1000000000, sample_cert ''m2'' 1500000000] =
     Inr (sample_cert ''m1'' 1000000000)"
proof -
  have y: "year_of 1000000000 < 10000" "year_of 1500000000 < 10000"
    by (simp_all add: year_of_def day_of_def sec_ns_def)
  have "str_less (fmt_rfc3339nano 1500000000) (fmt_rfc3339nano 1000000000)"
    unfolding fmt_rfc3339nano_less [OF y(2,1)]
    by (simp add: sec_ns_def nsec_of_def fmt_fraction_def digit_eval digits_numeral)
  moreover have "\<not> str_less (fmt_rfc3339nano 1000000000) (fmt_rfc3339nano 1500000000)"
    unfolding fmt_rfc3339nano_less [OF y]
    by (simp add: sec_ns_def nsec_of_def fmt_fraction_def digit_eval digits_numeral)
  ultimately show ?thesis
    by (simp add: GetByFaultID_def insertionSort_def tested_later_def sample_cert_def)
qed

text \<open>A placeholder that waits for its verdict lowers the rate of a version as a wrong verdict would.\<close>

theorem pending_verdict_counts:
  assumes "vs_Version st = v"
  shows "with_verdicts [(v, Some True), (v, None)] st = with_verdicts [(v, Some True), (v, Some False)] st"
  using assms by (simp add: with_verdicts_def)

lemma version_total_kept [simp]:
  "vs_TotalRuns (with_verdicts vds st) = vs_TotalRuns st" "vs_TotalRuns (with_judge seriesID pbs st) = vs_TotalRuns st"
  by (simp_all add: with_verdicts_def with_judge_def Let_def split: option.split)

text \<open>The runs of a series are divided among its versions: with one playbook per identifier the totals of the
  versions add up to the runs whose playbook is known.\<close>

theorem version_totals:
  assumes "StatsByVersion srt None f2 f3 seriesID pbs steps evs fbs runs = Inr vs" "slice_sort srt"
  shows "sum_list (map vs_TotalRuns vs) = length (version_rows seriesID pbs steps evs runs)"
proof -
  let ?xs = "srt version_before (version_rows seriesID pbs steps evs runs)"
  let ?vs = "rev (remdups (rev (map row_version ?xs)))"
  have "map vs_TotalRuns vs = map (\<lambda>v. length (filter (\<lambda>x. row_version x = v) ?xs)) ?vs"
    using assms(1) by (auto simp: StatsByVersion_def Let_def version_stat_def version_total_kept case_prod_unfold comp_def split: if_splits)
  then have "sum_list (map vs_TotalRuns vs) = sum_list (map (\<lambda>v. length (filter (\<lambda>x. Some (row_version x) = Some v) ?xs)) ?vs)"
    by simp
  also have "\<dots> = length (filter (\<lambda>x. \<exists>v \<in> set ?vs. Some (row_version x) = Some v) ?xs)"
    by (rule sum_bands) simp
  also have "\<dots> = length ?xs"
    by (auto intro!: arg_cong [of _ _ length] simp: filter_id_conv)
  also have "\<dots> = length (version_rows seriesID pbs steps evs runs)"
    using slice_sort.perm [OF assms(2)] by (metis size_mset)
  finally show ?thesis .
qed

end
