(* ===== verification/Jwt.thy ===== *)
theory Jwt
  imports Identity Http_Client
begin

text \<open>
  The identity provider for bearer tokens, \<^verbatim>\<open>internal/identity/jwt.go\<close>: a JSON web token is checked
  against the keys of an identity service, which are cached, and its claims become a principal. The two
  signature checks of the Go library and the decoder of the key document are the record \<open>jwt_lib\<close>; a
  position in an error of the base64 decoder is left out. Of a numeric claim the code uses the conversion
  to an integer. Reading and writing the cache are separate steps of the program, as the source holds the
  lock for each alone.
\<close>

section \<open>Configuration, keys and library\<close>

record jwt_config =
  jw_JWKSUrl :: string
  jw_Issuer :: string
  jw_Audience :: string
  jw_RolesClaim :: string
  jw_CacheTTL :: duration

datatype curve = P256 | P384 | P521

datatype pub_key = RSAKey nat int | ECKey curve nat nat

datatype hash_alg = SHA256 | SHA384 | SHA512

record jwk =
  jk_Kid :: string
  jk_Kty :: string
  jk_Alg :: string
  jk_N :: string
  jk_E :: string
  jk_Crv :: string
  jk_X :: string
  jk_Y :: string

record jwt_lib =
  jl_verifyPKCS1v15 :: "nat \<times> int \<Rightarrow> hash_alg \<Rightarrow> string \<Rightarrow> string \<Rightarrow> string option"
  jl_verifyASN1 :: "curve \<times> nat \<times> nat \<Rightarrow> hash_alg \<Rightarrow> string \<Rightarrow> string \<Rightarrow> bool"
  jl_jwks :: "string \<Rightarrow> string + jwk list"

record jwt_provider =
  jp_cfg :: jwt_config
  jp_cachedKeys :: "(string \<times> pub_key) list"
  jp_cacheExpiry :: time

definition NewJWTProvider :: "jwt_config \<Rightarrow> jwt_provider" where
  "NewJWTProvider cfg =
     (let cfg = (if jw_RolesClaim cfg = [] then cfg\<lparr>jw_RolesClaim := ''groups''\<rparr> else cfg);
          cfg = (if jw_CacheTTL cfg = 0 then cfg\<lparr>jw_CacheTTL := 5 * Minute\<rparr> else cfg)
      in \<lparr>jp_cfg = cfg, jp_cachedKeys = [], jp_cacheExpiry = 0\<rparr>)"

text \<open>\<^verbatim>\<open>base64.RawURLEncoding\<close>: the alphabet of the standard encoding with two other characters.\<close>

definition url_char :: "char \<Rightarrow> char" where
  "url_char c = (if c = CHR ''-'' then CHR ''+'' else if c = CHR ''_'' then CHR ''/''
     else if c = CHR ''+'' \<or> c = CHR ''/'' then CHR ''='' else c)"

definition url_decode :: "string \<Rightarrow> string option" where
  "url_decode s = DecodeString (map url_char s)"

definition big_bytes :: "string \<Rightarrow> nat" where
  "big_bytes bs = foldl (\<lambda>n c. n * 256 + of_char c) 0 bs"

section \<open>Keys\<close>

definition illegal :: string where
  "illegal = ''illegal base64 data''"

definition parseRSAPublicKey :: "jwk \<Rightarrow> string + pub_key" where
  "parseRSAPublicKey k = (case (url_decode (jk_N k), url_decode (jk_E k)) of
     (None, _) \<Rightarrow> Inl (''decoding RSA n: '' @ illegal)
   | (_, None) \<Rightarrow> Inl (''decoding RSA e: '' @ illegal)
   | (Some nb, Some eb) \<Rightarrow> Inr (RSAKey (big_bytes nb) (foldl (\<lambda>e c. wrap64 (e * 256 + of_char c)) 0 eb)))"

definition parseECPublicKey :: "jwk \<Rightarrow> string + pub_key" where
  "parseECPublicKey k = (case (url_decode (jk_X k), url_decode (jk_Y k)) of
     (None, _) \<Rightarrow> Inl (''decoding EC x: '' @ illegal)
   | (_, None) \<Rightarrow> Inl (''decoding EC y: '' @ illegal)
   | (Some xb, Some yb) \<Rightarrow>
       (if jk_Crv k = ''P-256'' then Inr (ECKey P256 (big_bytes xb) (big_bytes yb))
        else if jk_Crv k = ''P-384'' then Inr (ECKey P384 (big_bytes xb) (big_bytes yb))
        else if jk_Crv k = ''P-521'' then Inr (ECKey P521 (big_bytes xb) (big_bytes yb))
        else Inl (''unsupported EC curve '' @ Quote (jk_Crv k))))"

definition put_key :: "string \<Rightarrow> pub_key \<Rightarrow> (string \<times> pub_key) list \<Rightarrow> (string \<times> pub_key) list" where
  "put_key kid pub keys = filter (\<lambda>(k, _). k \<noteq> kid) keys @ [(kid, pub)]"

definition add_jwk :: "jwk \<Rightarrow> (string \<times> pub_key) list \<Rightarrow> (string \<times> pub_key) list" where
  "add_jwk k keys =
     (case (if jk_Kty k = ''RSA'' then parseRSAPublicKey k else if jk_Kty k = ''EC'' then parseECPublicKey k else Inl []) of
        Inr pub \<Rightarrow> put_key (jk_Kid k) pub keys | Inl _ \<Rightarrow> keys)"

text \<open>The status of the answer is not looked at.\<close>

definition fetchJWKS :: "codec \<Rightarrow> jwt_lib \<Rightarrow> string \<Rightarrow> (string + (string \<times> pub_key) list) prog" where
  "fetchJWKS cd jl url =
     bindP (http_do cd \<lparr>hq_method = ''GET'', hq_url = url, hq_headers = [], hq_body = None\<rparr>) (\<lambda>x. Return (case x of
       NotBuilt err \<Rightarrow> Inl (''fetching JWKS from '' @ Quote url @ '': '' @ err)
     | NotSent err \<Rightarrow> Inl (''fetching JWKS from '' @ Quote url @ '': '' @ err)
     | Got _ b \<Rightarrow> (case jl_jwks jl b of
         Inl err \<Rightarrow> Inl (''parsing JWKS response: '' @ err)
       | Inr ks \<Rightarrow> Inr (fold add_jwk ks []))))"

definition lookupKey :: "string \<Rightarrow> (string \<times> pub_key) list \<Rightarrow> pub_key option" where
  "lookupKey kid keys = (if kid \<noteq> [] then map_of keys kid
     else (case keys of [(_, v)] \<Rightarrow> Some v | _ \<Rightarrow> None))"

definition getKey :: "codec \<Rightarrow> jwt_lib \<Rightarrow> string \<Rightarrow> jwt_provider \<Rightarrow> ((string + pub_key) \<times> jwt_provider) prog" where
  "getKey cd jl kid p = Now (\<lambda>now.
     case (if now < jp_cacheExpiry p then lookupKey kid (jp_cachedKeys p) else None) of
       Some key \<Rightarrow> Return (Inr key, p)
     | None \<Rightarrow>
         bindP (fetchJWKS cd jl (jw_JWKSUrl (jp_cfg p))) (\<lambda>r. case r of
           Inl err \<Rightarrow> Return (Inl (''refreshing JWKS: '' @ err), p)
         | Inr keys \<Rightarrow> Now (\<lambda>now.
             let p = p\<lparr>jp_cachedKeys := keys, jp_cacheExpiry := time_add now (jw_CacheTTL (jp_cfg p))\<rparr>
             in Return (case lookupKey kid keys of
               Some key \<Rightarrow> (Inr key, p)
             | None \<Rightarrow> (Inl (''key ID '' @ Quote kid @ '' not found in JWKS (have '' @ nat_str (length keys) @ '' keys)''), p)))))"

section \<open>Signatures\<close>

definition algHash :: "string \<Rightarrow> hash_alg" where
  "algHash alg = (if alg = ''RS384'' \<or> alg = ''ES384'' then SHA384 else if alg = ''RS512'' \<or> alg = ''ES512'' then SHA512 else SHA256)"

definition verifyJWTSignature :: "jwt_lib \<Rightarrow> string \<Rightarrow> string \<Rightarrow> string \<Rightarrow> pub_key \<Rightarrow> string option" where
  "verifyJWTSignature jl alg signingInput sig key =
     (if alg \<in> {''RS256'', ''RS384'', ''RS512''} then
        (case key of RSAKey n e \<Rightarrow> jl_verifyPKCS1v15 jl (n, e) (algHash alg) signingInput sig
         | _ \<Rightarrow> Some (''expected RSA key for algorithm '' @ Quote alg))
      else if alg \<in> {''ES256'', ''ES384'', ''ES512''} then
        (case key of
           ECKey c x y \<Rightarrow> (if jl_verifyASN1 jl (c, x, y) (algHash alg) signingInput sig then None
             else Some ''ECDSA signature verification failed'')
         | _ \<Rightarrow> Some (''expected EC key for algorithm '' @ Quote alg))
      else Some (''unsupported JWT algorithm '' @ Quote alg))"

section \<open>Tokens\<close>

text \<open>A claim; of a repeated member the last one counts.\<close>

definition claim :: "string \<Rightarrow> json_map \<Rightarrow> json option" where
  "claim k claims = map_of (rev claims) k"

definition unix :: "time \<Rightarrow> int" where
  "unix t = int (t div sec_ns) - 62135596800"

definition parse_header :: "codec \<Rightarrow> string \<Rightarrow> string + string \<times> string" where
  "parse_header cd part = (case url_decode part of
     None \<Rightarrow> Inl (''decoding JWT header: '' @ illegal)
   | Some b \<Rightarrow> (case cd_parse cd b of
       Inl e \<Rightarrow> Inl (''parsing JWT header: '' @ e)
     | Inr v \<Rightarrow> (case (field_str ''alg'' v, field_str ''kid'' v) of
         (Some alg, Some kid) \<Rightarrow> Inr (alg, kid)
       | _ \<Rightarrow> Inl ''parsing JWT header: json: cannot unmarshal'')))"

definition parse_claims :: "codec \<Rightarrow> string \<Rightarrow> string + json_map" where
  "parse_claims cd part = (case url_decode part of
     None \<Rightarrow> Inl (''decoding JWT payload: '' @ illegal)
   | Some b \<Rightarrow> (case cd_parse cd b of
       Inl e \<Rightarrow> Inl (''parsing JWT claims: '' @ e)
     | Inr JNull \<Rightarrow> Inr []
     | Inr (JObj m) \<Rightarrow> Inr m
     | Inr _ \<Rightarrow> Inl ''parsing JWT claims: json: cannot unmarshal''))"

definition expired :: "time \<Rightarrow> json_map \<Rightarrow> bool" where
  "expired now claims = (case as_num (claim ''exp'' claims) of Some e \<Rightarrow> unix now > e | None \<Rightarrow> False)"

definition validateJWT :: "codec \<Rightarrow> jwt_lib \<Rightarrow> string \<Rightarrow> jwt_provider \<Rightarrow> ((string + json_map) \<times> jwt_provider) prog" where
  "validateJWT cd jl token p =
     (case split_char (CHR ''.'') token of
        [h, c, s] \<Rightarrow>
          (case parse_header cd h of
             Inl e \<Rightarrow> Return (Inl e, p)
           | Inr (alg, kid) \<Rightarrow>
               (case parse_claims cd c of
                  Inl e \<Rightarrow> Return (Inl e, p)
                | Inr claims \<Rightarrow>
                    (let continue = bindP (getKey cd jl kid p) (\<lambda>(r, p). Return (case r of
                           Inl e \<Rightarrow> (Inl e, p)
                         | Inr key \<Rightarrow>
                             (case url_decode s of
                                None \<Rightarrow> (Inl (''decoding JWT signature: '' @ illegal), p)
                              | Some sig \<Rightarrow>
                                  (case verifyJWTSignature jl alg (h @ ''.'' @ c) sig key of
                                     Some e \<Rightarrow> (Inl e, p)
                                   | None \<Rightarrow> (Inr claims, p)))))
                     in case as_num (claim ''exp'' claims) of
                          Some e \<Rightarrow> Now (\<lambda>now. if unix now > e then Return (Inl ''JWT expired'', p) else continue)
                        | None \<Rightarrow> continue)))
      | parts \<Rightarrow> Return (Inl (''malformed JWT: expected 3 parts, got '' @ nat_str (length parts)), p))"

definition checkAudience :: "jwt_config \<Rightarrow> json_map \<Rightarrow> bool" where
  "checkAudience cfg claims = (case claim ''aud'' claims of
     Some (JStr s) \<Rightarrow> s = jw_Audience cfg
   | Some (JArr vs) \<Rightarrow> JStr (jw_Audience cfg) \<in> set vs
   | _ \<Rightarrow> False)"

definition extractRoles :: "jwt_config \<Rightarrow> json_map \<Rightarrow> string list" where
  "extractRoles cfg claims = (case claim (jw_RolesClaim cfg) claims of
     Some (JArr vs) \<Rightarrow> filter (\<lambda>s. s \<noteq> []) (strs_of vs)
   | Some (JStr s) \<Rightarrow> (if s \<noteq> [] then [s] else [])
   | _ \<Rightarrow> [])"

definition principal_of_claims :: "jwt_config \<Rightarrow> json_map \<Rightarrow> string + principal" where
  "principal_of_claims cfg claims =
     (let sub = str_or_empty (claim ''sub'' claims); iss = str_or_empty (claim ''iss'' claims) in
      if sub = [] then Inl ''identity: JWT missing sub claim''
      else if jw_Issuer cfg \<noteq> [] \<and> iss \<noteq> jw_Issuer cfg then
        Inl (''identity: JWT issuer mismatch: got '' @ Quote iss @ '' want '' @ Quote (jw_Issuer cfg))
      else if jw_Audience cfg \<noteq> [] \<and> \<not> checkAudience cfg claims then Inl ''identity: JWT audience mismatch''
      else Inr (zero_principal\<lparr>pr_UserID := sub, pr_Roles := extractRoles cfg claims, pr_AuthMethod := ''jwt''\<rparr>))"

definition JWT_Resolve :: "codec \<Rightarrow> jwt_lib \<Rightarrow> headers \<Rightarrow> jwt_provider \<Rightarrow> ((string + principal) \<times> jwt_provider) prog" where
  "JWT_Resolve cd jl h p =
     (let auth = h ''Authorization'' in
      if \<not> HasPrefix auth ''Bearer '' then Return (Inl ''identity: Bearer token required for jwt mode'', p)
      else bindP (validateJWT cd jl (TrimPrefix auth ''Bearer '') p) (\<lambda>(r, p). Return (case r of
        Inl e \<Rightarrow> (Inl (''identity: JWT validation failed: '' @ e), p)
      | Inr claims \<Rightarrow> (principal_of_claims (jp_cfg p) claims, p))))"

section \<open>Choice of the provider\<close>

datatype identity_provider = NoAuthProvider | StaticProvider static_provider | JWTProvider jwt_provider

definition NewFromEnv ::
  "(string \<Rightarrow> string) \<Rightarrow> (string \<Rightarrow> string + string) \<Rightarrow> (string \<Rightarrow> string + users_config) \<Rightarrow> (string \<Rightarrow> duration option) \<Rightarrow>
   string + identity_provider" where
  "NewFromEnv getenv readFile unmarshal parse_dur =
     (let mode = getenv ''HELPDESK_IDENTITY_PROVIDER'' in
      if mode = [] \<or> mode = ''none'' then Inr NoAuthProvider
      else if mode = ''static'' then
        (let path = getenv ''HELPDESK_USERS_FILE'';
             path = (if path = [] then ''/etc/helpdesk/users.yaml'' else path)
         in map_sum id StaticProvider (NewStaticProvider readFile unmarshal path))
      else if mode = ''jwt'' then
        (let jwksURL = getenv ''HELPDESK_JWT_JWKS_URL''; ttl = getenv ''HELPDESK_JWT_CACHE_TTL'' in
         if jwksURL = [] then Inl ''identity: HELPDESK_JWT_JWKS_URL is required for jwt mode''
         else Inr (JWTProvider (NewJWTProvider \<lparr>jw_JWKSUrl = jwksURL, jw_Issuer = getenv ''HELPDESK_JWT_ISSUER'',
           jw_Audience = getenv ''HELPDESK_JWT_AUDIENCE'', jw_RolesClaim = getenv ''HELPDESK_JWT_ROLES_CLAIM'',
           jw_CacheTTL = (if ttl = [] then 5 * Minute else (case parse_dur ttl of Some d \<Rightarrow> d | None \<Rightarrow> 5 * Minute))\<rparr>)))
      else Inl (''identity: unknown provider mode '' @ Quote mode @ '' (valid: none, static, jwt)''))"

section \<open>Where keys come from\<close>

definition jwks_request :: "string \<Rightarrow> http_req" where
  "jwks_request url = \<lparr>hq_method = ''GET'', hq_url = url, hq_headers = [], hq_body = None\<rparr>"

text \<open>A key set that the identity service has served in the history of the network.\<close>

definition served :: "jwt_lib \<Rightarrow> string \<Rightarrow> net \<Rightarrow> (string \<times> pub_key) list \<Rightarrow> bool" where
  "served jl url n keys \<longleftrightarrow> (\<exists>c b ks. (jwks_request url, Response c b) \<in> set (nt_calls n) \<and> jl_jwks jl b = Inr ks \<and>
     keys = fold add_jwk ks [])"

definition cache_served :: "jwt_lib \<Rightarrow> jwt_provider \<Rightarrow> net \<Rightarrow> bool" where
  "cache_served jl p n \<longleftrightarrow> jp_cachedKeys p = [] \<or> served jl (jw_JWKSUrl (jp_cfg p)) n (jp_cachedKeys p)"

lemma lookupKey_Nil [simp]: "lookupKey kid [] = None"
  by (simp add: lookupKey_def)

lemma servedI: "(jwks_request url, Response c b) \<in> set (nt_calls n) \<Longrightarrow> jl_jwks jl b = Inr ks \<Longrightarrow> served jl url n (fold add_jwk ks [])"
  by (auto simp: served_def)

lemma run_fetchJWKS:
  assumes "run w (fetchJWKS cd jl url) n = (r, n')"
  shows "(\<forall>keys. r = Inr keys \<longrightarrow> served jl url n' keys) \<and> set (nt_calls n) \<subseteq> set (nt_calls n')"
proof (cases "cd_url cd url")
  case None
  obtain x m where x: "send w (jwks_request url) n = (x, m)"
    by fastforce
  then have m: "nt_calls m = nt_calls n @ [(jwks_request url, x)]"
    by (auto simp: send_def Let_def split: prod.splits)
  show ?thesis
  proof (cases x)
    case (Refused err)
    with assms None x m show ?thesis
      by (auto simp: fetchJWKS_def http_do_def jwks_request_def run_bindP)
  next
    case (Response c b)
    with assms None x m have "n' = m" "r = (case jl_jwks jl b of Inl err \<Rightarrow> Inl (''parsing JWKS response: '' @ err)
        | Inr ks \<Rightarrow> Inr (fold add_jwk ks []))"
      by (auto simp: fetchJWKS_def http_do_def jwks_request_def run_bindP)
    with m Response servedI [of url c b m jl] show ?thesis
      by (auto split: sum.splits)
  qed
next
  case (Some err)
  with assms show ?thesis
    by (auto simp: fetchJWKS_def http_do_def run_bindP)
qed

lemma served_mono: "served jl url n keys \<Longrightarrow> set (nt_calls n) \<subseteq> set (nt_calls n') \<Longrightarrow> served jl url n' keys"
  by (auto simp: served_def)

lemma run_getKey:
  assumes "run w (getKey cd jl kid p) n = ((r, p'), n')" "cache_served jl p n"
  shows "cache_served jl p' n' \<and> jp_cfg p' = jp_cfg p \<and> (\<forall>key. r = Inr key \<longrightarrow>
    served jl (jw_JWKSUrl (jp_cfg p)) n' (jp_cachedKeys p') \<and> lookupKey kid (jp_cachedKeys p') = Some key)"
proof (cases "if nt_now n < jp_cacheExpiry p then lookupKey kid (jp_cachedKeys p) else None")
  case (Some k)
  then have "lookupKey kid (jp_cachedKeys p) = Some k"
    by (simp split: if_splits)
  moreover from this have "jp_cachedKeys p \<noteq> []"
    by auto
  moreover have "r = Inr k" "p' = p" "n' = n"
    using assms(1) Some by (simp_all add: getKey_def)
  ultimately show ?thesis
    using assms(2) by (simp add: cache_served_def)
next
  case None
  obtain x m where x: "run w (fetchJWKS cd jl (jw_JWKSUrl (jp_cfg p))) n = (x, m)"
    by fastforce
  note f = run_fetchJWKS [OF x]
  show ?thesis
  proof (cases x)
    case (Inl err)
    with assms(1) None x have "\<forall>key. r \<noteq> Inr key" "p' = p" "n' = m"
      by (auto simp: getKey_def run_bindP)
    with f assms(2) served_mono show ?thesis
      by (auto simp: cache_served_def)
  next
    case (Inr keys)
    with assms(1) None x have "n' = m" "jp_cachedKeys p' = keys" "jp_cfg p' = jp_cfg p" "\<forall>key. r = Inr key \<longrightarrow> lookupKey kid keys = Some key"
      by (auto simp: getKey_def run_bindP Let_def split: option.splits)
    with f Inr show ?thesis
      by (simp add: cache_served_def)
  qed
qed

section \<open>Properties\<close>

lemma join_split: "join_str [c] (split_char c s) = s"
proof (induction s)
  case (Cons x s)
  then show ?case
    by (cases "split_char c s" rule: list.exhaust; cases "tl (split_char c s)") (auto simp: neq_Nil_conv)
qed simp

lemma validateJWT_ok:
  assumes "run w (validateJWT cd jl token p) n = ((Inr claims, p'), n')" "cache_served jl p n"
  shows "\<exists>h c s alg kid sig key. token = h @ ''.'' @ c @ ''.'' @ s \<and> parse_header cd h = Inr (alg, kid) \<and>
    parse_claims cd c = Inr claims \<and> \<not> expired (nt_now n) claims \<and> url_decode s = Some sig \<and>
    served jl (jw_JWKSUrl (jp_cfg p)) n' (jp_cachedKeys p') \<and> lookupKey kid (jp_cachedKeys p') = Some key \<and>
    verifyJWTSignature jl alg (h @ ''.'' @ c) sig key = None \<and> cache_served jl p' n' \<and> jp_cfg p' = jp_cfg p"
proof -
  from assms(1) obtain h c s where parts: "split_char (CHR ''.'') token = [h, c, s]"
    by (auto simp: validateJWT_def split: list.splits)
  with assms(1) obtain alg kid where hd: "parse_header cd h = Inr (alg, kid)"
    by (auto simp: validateJWT_def split: sum.splits)
  with parts assms(1) have cl: "parse_claims cd c = Inr claims"
    by (auto simp: validateJWT_def Let_def run_bindP split: sum.splits option.splits if_splits prod.splits)
  obtain r q m where k: "run w (getKey cd jl kid p) n = ((r, q), m)"
    by (metis surj_pair)
  from assms(1) parts hd cl k have e: "\<not> expired (nt_now n) claims"
    by (auto simp: validateJWT_def expired_def Let_def split: option.splits if_splits)
  with assms(1) parts hd cl k obtain key sig where v: "r = Inr key" "q = p'" "m = n'" "url_decode s = Some sig"
      "verifyJWTSignature jl alg (h @ ''.'' @ c) sig key = None"
    by (auto simp: validateJWT_def expired_def Let_def run_bindP split: option.splits sum.splits)
  have "token = h @ ''.'' @ c @ ''.'' @ s"
    using join_split [of "CHR ''.''" token] parts by simp
  with hd cl e v run_getKey [OF k assms(2)] show ?thesis
    by blast
qed

lemma HasPrefix_TrimPrefix: "HasPrefix s t \<Longrightarrow> s = t @ TrimPrefix s t"
proof -
  assume h: "HasPrefix s t"
  have "take (length t) s = t"
    using h by (induction s t rule: HasPrefix.induct) auto
  with h show ?thesis
    by (metis TrimPrefix_def append_take_drop_id)
qed

lemma principal_of_claims_ok:
  assumes "principal_of_claims cfg claims = Inr pr"
  shows "claim ''sub'' claims = Some (JStr (pr_UserID pr)) \<and> pr_UserID pr \<noteq> [] \<and>
    jw_Issuer cfg \<in> {[], str_or_empty (claim ''iss'' claims)} \<and>
    (if jw_Audience cfg = [] then True else checkAudience cfg claims) \<and> pr_Roles pr = extractRoles cfg claims"
proof -
  let ?sub = "str_or_empty (claim ''sub'' claims)"
  have "pr_UserID pr = ?sub" "?sub \<noteq> []" "jw_Issuer cfg \<in> {[], str_or_empty (claim ''iss'' claims)}"
    "jw_Audience cfg \<noteq> [] \<longrightarrow> checkAudience cfg claims" "pr_Roles pr = extractRoles cfg claims"
    using assms by (auto simp: principal_of_claims_def Let_def split: if_splits)
  moreover have "claim ''sub'' claims = Some (JStr ?sub)"
    using \<open>?sub \<noteq> []\<close> by (auto simp: str_or_empty_def as_str_def split: option.splits json.splits)
  ultimately show ?thesis
    by simp
qed

text \<open>C3: no principal without a valid token. Whenever the provider resolves a request, the header carries a token
  of three parts; its signature was accepted by the library, for one of the six supported algorithms and a
  key of the fitting kind, under the key that the token names in a key set the identity service has served;
  it had not expired when the check began; the principal is the subject of its claims; and issuer and
  audience are the configured ones, where they are configured. The cache of keys never holds anything else.\<close>

theorem jwt_authentic:
  assumes "run w (JWT_Resolve cd jl hdrs p) n = ((Inr pr, p'), n')" "cache_served jl p n"
  shows "\<exists>h c s alg kid claims sig keys key. hdrs ''Authorization'' = ''Bearer '' @ h @ ''.'' @ c @ ''.'' @ s \<and>
    parse_header cd h = Inr (alg, kid) \<and> parse_claims cd c = Inr claims \<and> url_decode s = Some sig \<and>
    served jl (jw_JWKSUrl (jp_cfg p)) n' keys \<and> lookupKey kid keys = Some key \<and>
    (case key of
       RSAKey m e \<Rightarrow> alg \<in> {''RS256'', ''RS384'', ''RS512''} \<and> jl_verifyPKCS1v15 jl (m, e) (algHash alg) (h @ ''.'' @ c) sig = None
     | ECKey v x y \<Rightarrow> alg \<in> {''ES256'', ''ES384'', ''ES512''} \<and> jl_verifyASN1 jl (v, x, y) (algHash alg) (h @ ''.'' @ c) sig) \<and>
    \<not> expired (nt_now n) claims \<and> claim ''sub'' claims = Some (JStr (pr_UserID pr)) \<and> pr_UserID pr \<noteq> [] \<and>
    jw_Issuer (jp_cfg p) \<in> {[], str_or_empty (claim ''iss'' claims)} \<and>
    (if jw_Audience (jp_cfg p) = [] then True else checkAudience (jp_cfg p) claims) \<and>
    pr_Roles pr = extractRoles (jp_cfg p) claims \<and> cache_served jl p' n'"
proof -
  let ?auth = "hdrs ''Authorization''"
  have pre: "HasPrefix ?auth ''Bearer ''"
    using assms(1) by (auto simp: JWT_Resolve_def Let_def split: if_splits)
  then have tok: "?auth = ''Bearer '' @ TrimPrefix ?auth ''Bearer ''"
    by (rule HasPrefix_TrimPrefix)
  obtain r q m where v: "run w (validateJWT cd jl (TrimPrefix ?auth ''Bearer '') p) n = ((r, q), m)"
    by (metis surj_pair)
  with assms(1) pre obtain claims where r: "r = Inr claims" "q = p'" "m = n'" "principal_of_claims (jp_cfg p') claims = Inr pr"
    by (auto simp: JWT_Resolve_def Let_def run_bindP split: sum.splits)
  from validateJWT_ok [OF v [unfolded r(1-3)] assms(2)] obtain h c s alg kid sig key where
      t: "TrimPrefix ?auth ''Bearer '' = h @ ''.'' @ c @ ''.'' @ s" "parse_header cd h = Inr (alg, kid)" "parse_claims cd c = Inr claims"
        "\<not> expired (nt_now n) claims" "url_decode s = Some sig" "served jl (jw_JWKSUrl (jp_cfg p)) n' (jp_cachedKeys p')"
        "lookupKey kid (jp_cachedKeys p') = Some key" "cache_served jl p' n'" "jp_cfg p' = jp_cfg p"
      and sg: "verifyJWTSignature jl alg (h @ ''.'' @ c) sig key = None"
    by blast
  have vf: "case key of
       RSAKey m e \<Rightarrow> alg \<in> {''RS256'', ''RS384'', ''RS512''} \<and> jl_verifyPKCS1v15 jl (m, e) (algHash alg) (h @ ''.'' @ c) sig = None
     | ECKey v x y \<Rightarrow> alg \<in> {''ES256'', ''ES384'', ''ES512''} \<and> jl_verifyASN1 jl (v, x, y) (algHash alg) (h @ ''.'' @ c) sig"
    using sg by (auto simp: verifyJWTSignature_def split: pub_key.splits if_splits)
  have auth: "?auth = ''Bearer '' @ h @ ''.'' @ c @ ''.'' @ s"
    using tok unfolding t(1) .
  have pc: "claim ''sub'' claims = Some (JStr (pr_UserID pr)) \<and> pr_UserID pr \<noteq> [] \<and>
      jw_Issuer (jp_cfg p) \<in> {[], str_or_empty (claim ''iss'' claims)} \<and>
      (if jw_Audience (jp_cfg p) = [] then True else checkAudience (jp_cfg p) claims) \<and> pr_Roles pr = extractRoles (jp_cfg p) claims"
    using principal_of_claims_ok [OF r(4)] unfolding t(9) .
  show ?thesis
    by (intro exI conjI, rule auth, rule t(2), rule t(3), rule t(5), rule t(6), rule t(7), rule vf, rule t(4))
      (use pc t(8) in blast)+
qed

definition toy_lib :: jwt_lib where
  "toy_lib = \<lparr>jl_verifyPKCS1v15 = (\<lambda>_ _ _ sig. if sig = ''{}'' then None else Some ''bad signature''), jl_verifyASN1 = (\<lambda>_ _ _ _. False),
     jl_jwks = (\<lambda>_. Inr [\<lparr>jk_Kid = ''k1'', jk_Kty = ''RSA'', jk_Alg = [], jk_N = ''AQAB'', jk_E = ''AQAB'', jk_Crv = [], jk_X = [], jk_Y = []\<rparr>])\<rparr>"

definition toy_codec :: codec where
  "toy_codec = \<lparr>cd_url = \<lambda>_. None, cd_parse = (\<lambda>_. Inr (JObj [(''alg'', JStr ''RS256''), (''kid'', JStr ''k1''), (''sub'', JStr ''ann'')])),
     cd_text = (\<lambda>_. ''{}'')\<rparr>"

definition toy_provider :: jwt_provider where
  "toy_provider = NewJWTProvider \<lparr>jw_JWKSUrl = ''http://idp/jwks'', jw_Issuer = [], jw_Audience = [], jw_RolesClaim = [], jw_CacheTTL = 0\<rparr>"

definition toy_world :: world where
  "toy_world = \<lparr>wd_reply = (\<lambda>_ _. (Response 200 ''{}'', 0)), wd_late = (\<lambda>_. 0)\<rparr>"

lemma toy_decoded: "url_decode ''e30'' = Some ''{}''" "url_decode ''AQAB'' = Some [CHR 0x01, CHR 0x00, CHR 0x01]"
  by code_simp+

lemma toy_resolves:
  "\<exists>p' n'. run toy_world (JWT_Resolve toy_codec toy_lib (\<lambda>_. ''Bearer e30.e30.e30'') toy_provider) \<lparr>nt_calls = [], nt_now = 0\<rparr> =
     ((Inr (zero_principal\<lparr>pr_UserID := ''ann'', pr_AuthMethod := ''jwt''\<rparr>), p'), n')"
  by (simp add: JWT_Resolve_def validateJWT_def toy_codec_def toy_lib_def toy_provider_def toy_world_def NewJWTProvider_def
      parse_header_def parse_claims_def toy_decoded TrimPrefix_def field_str_def claim_def as_num_def getKey_def fetchJWKS_def
      http_do_def send_def add_jwk_def parseRSAPublicKey_def put_key_def lookupKey_def verifyJWTSignature_def
      principal_of_claims_def extractRoles_def Let_def ToLower_def lower_char_def run_bindP zero_principal_def)

theorem jwt_authentic_witness:
  "\<exists>p' n' keys key. run toy_world (JWT_Resolve toy_codec toy_lib (\<lambda>_. ''Bearer e30.e30.e30'') toy_provider) \<lparr>nt_calls = [], nt_now = 0\<rparr> =
     ((Inr (zero_principal\<lparr>pr_UserID := ''ann'', pr_AuthMethod := ''jwt''\<rparr>), p'), n') \<and>
   served toy_lib ''http://idp/jwks'' n' keys \<and> lookupKey ''k1'' keys = Some key"
proof -
  obtain p' n' where r: "run toy_world (JWT_Resolve toy_codec toy_lib (\<lambda>_. ''Bearer e30.e30.e30'') toy_provider) \<lparr>nt_calls = [], nt_now = 0\<rparr> =
     ((Inr (zero_principal\<lparr>pr_UserID := ''ann'', pr_AuthMethod := ''jwt''\<rparr>), p'), n')"
    using toy_resolves by blast
  have kid: "kid = ''k1''" if "parse_header toy_codec h = Inr (alg, kid)" for h alg kid
    using that by (auto simp: parse_header_def toy_codec_def field_str_def ToLower_def lower_char_def split: option.splits)
  have url: "jw_JWKSUrl (jp_cfg toy_provider) = ''http://idp/jwks''" and "cache_served toy_lib toy_provider \<lparr>nt_calls = [], nt_now = 0\<rparr>"
    by (simp_all add: toy_provider_def NewJWTProvider_def cache_served_def)
  from jwt_authentic [OF r this(2)] obtain h alg kid keys key where "parse_header toy_codec h = Inr (alg, kid)"
      "served toy_lib ''http://idp/jwks'' n' keys" "lookupKey kid keys = Some key"
    unfolding url by blast
  with r kid show ?thesis
    by blast
qed

text \<open>While the cache is fresh, a token with a cached key causes no request.\<close>

theorem cached_key_needs_no_request:
  assumes "nt_now n < jp_cacheExpiry p" "lookupKey kid (jp_cachedKeys p) = Some key"
  shows "run w (getKey cd jl kid p) n = ((Inr key, p), n)"
  using assms by (simp add: getKey_def)

text \<open>A token without an expiry never expires, and the start of its validity is not looked at.\<close>

theorem no_expiry_never_expires: "claim ''exp'' claims = None \<Longrightarrow> \<not> expired now claims"
  by (simp add: expired_def as_num_def)

end
