(* ===== verification/Spec2Isabelle.thy ===== *)
theory Spec2Isabelle
  imports Enforcer Fleet_Job Fleet_Server Rollback_Store Delegation Playbook_Report Playbook_Chain Auditor_Checks Journeys Evaluations
    Jwt
begin

text \<open>
  \<^bold>\<open>The helpdesk governance core\<close>

  The program lets AI agents operate databases and clusters under governance. A gateway
  (\<^verbatim>\<open>cmd/gateway\<close>) authenticates callers, forwards questions and tool calls to agents, runs playbooks and
  plans fleet jobs; an orchestrator delegates to agents and verifies what they claim
  (\<^verbatim>\<open>internal/audit/delegate_tool.go\<close>); an agent asks its policy enforcer (\<^verbatim>\<open>agentutil\<close>) before it runs a
  tool; the enforcer decides with a policy engine of its own (\<^verbatim>\<open>internal/policy\<close>) or asks the audit daemon
  (\<^verbatim>\<open>cmd/auditd\<close>), which runs the same engine; a decision that needs approval becomes a row of the approval
  store (\<^verbatim>\<open>internal/audit/approval_store.go\<close>) that a human resolves over HTTP; every decision and every tool
  call is appended to a hash chain of audit events (\<^verbatim>\<open>internal/audit\<close>), which an auditor
  (\<^verbatim>\<open>cmd/auditor\<close>) watches; a fleet runner (\<^verbatim>\<open>cmd/fleet-runner\<close>) rolls a job out over many servers;
  recorded mutations can be rolled back.

  \<^bold>\<open>Library operations\<close>

  \<^item> \<open>Prelude\<close>, \<open>Go_Time\<close>, \<open>Go_Glob\<close>, \<open>Go_Sort\<close>, \<open>Go_Base64\<close>, \<open>Go_Json\<close>, \<open>Go_Float\<close>, \<open>Go_Number\<close>, \<open>Go_Url\<close>:
    the parts of the Go library the sources use. Strings are lists of bytes, an instant is a number of
    nanoseconds, a \<^verbatim>\<open>float64\<close> is the rational it stands for. The locale \<open>slice_sort\<close> is the contract of a sort.
  \<^item> \<open>Http_Client\<close>: programs that read the clock, sleep and send requests, the world that answers them, and
    goroutines under a schedule. It carries the facts about what a program may send and how long it runs.

  \<^bold>\<open>Policy, identity and approval\<close>

  \<^item> \<open>Policy_Types\<close>, \<open>Policy_Engine\<close>, \<open>Policy_Explain\<close>, \<open>Policy_Loader\<close> (\<^verbatim>\<open>internal/policy\<close>): evaluation refines
    the first matching rule of the first matching policy.
  \<^item> \<open>Identity\<close>, \<open>Authz\<close> (\<^verbatim>\<open>internal/identity\<close>, \<^verbatim>\<open>internal/authz\<close>): principals, API keys, permission tables and
    the middleware.
  \<^item> \<open>Jwt\<close> (\<^verbatim>\<open>internal/identity/jwt.go\<close>, \<^verbatim>\<open>new.go\<close>): bearer tokens, the cache of keys and the choice of the provider:
    no principal without a signature under a served key.
  \<^item> \<open>Action_Class\<close>, \<open>Approval_Policy\<close>, \<open>Approval_Store\<close>, \<open>Approval_Handlers\<close>: classes of operations, approval
    rules, sessions, the approval table and its handlers: four eyes, finality of a resolution, the invariant
    of the table, waiters interleaved with resolutions.
  \<^item> \<open>Infra\<close>, \<open>Governance\<close>, \<open>Enforcer\<close>: the inventory, the governance handlers of auditd, and the enforcer of
    the agents, where the components meet: a tool runs only if allowed or approved, the remote decision is
    the local one, failures of the service block.

  \<^bold>\<open>Audit\<close>

  \<^item> \<open>Audit_Event\<close>, \<open>Hash_Chain\<close>, \<open>Audit_Store\<close>, \<open>Tool_Audit\<close>, \<open>Remote_Audit\<close>: events, their chain, the event table,
    the tool auditor, the trace context and A2A metadata, the event handlers and their client. The locale
    \<open>hash_store\<close> is the contract between the chain and a store; what is recorded verifies, and tampering
    with hashed fields is detected up to a collision.
  \<^item> \<open>Journeys\<close> (\<^verbatim>\<open>QueryJourneys\<close> of \<^verbatim>\<open>internal/audit/store.go\<close>): the summary of a trace tells what the trace contains.
  \<^item> \<open>Auditor_Notify\<close>, \<open>Auditor_Rules\<close>, \<open>Auditor_Checks\<close> (\<^verbatim>\<open>cmd/auditor/main.go\<close>): alerts and notifiers, the
    fourteen rules, polling and the command, and what the rules guarantee.
  \<^item> \<open>Delegation\<close>: the guard of the orchestrator, the delegation tool and the verdict on a delegation.
  \<^item> \<open>Rollback_Plan\<close>, \<open>Rollback_Store\<close>: inverse operations, the rollback records, handlers and executor: an
    update is undone, at most one rollback of an event is active, an accepted one is executed.

  \<^bold>\<open>Fleet jobs\<close>

  \<^item> \<open>Fleet_Plan\<close>, \<open>Fleet_Run\<close>, \<open>Fleet_Safety\<close>, \<open>Fleet_Server\<close>, \<open>Fleet_Job\<close> (\<^verbatim>\<open>cmd/fleet-runner\<close>,
    \<^verbatim>\<open>internal/fleet\<close>): the plan, the steps on one server, waves under any interleaving, the circuit breaker,
    approvals and preflight, and that the command ends for every behaviour of the services.
  \<^item> \<open>Fleet_Store\<close>: the job tables of auditd and their handlers.
  \<^item> \<open>Tool_Registry\<close>, \<open>Gateway_Planner\<close> (\<^verbatim>\<open>internal/toolregistry\<close>, \<^verbatim>\<open>cmd/gateway/planner.go\<close>): what a planned
    job may contain whatever the language model answers, and that the fleet runner accepts it.

  \<^bold>\<open>Playbooks\<close>

  \<^item> \<open>Playbook_Store\<close>, \<open>Playbook_Runs\<close>, \<open>Evaluations\<close>: the tables of playbooks, runs, steps, feedback, evaluations
    and stability certificates in auditd, their statistics and their handlers.
  \<^item> \<open>Gateway_Client\<close>, \<open>Gateway_Proxy\<close>, \<open>Decisions\<close>: requests of the gateway to auditd and to the agents, and
    the notifier of pending decisions.
  \<^item> \<open>Playbook_Text\<close>, \<open>Playbook_Report\<close>, \<open>Playbook_Prompt\<close>, \<open>Playbook_Steps\<close>, \<open>Playbook_Chain\<close>
    (\<^verbatim>\<open>cmd/gateway/playbooks.go\<close>, \<^verbatim>\<open>step_proposer.go\<close>): the text protocol with the agents, runs that propose one
    approved step at a time, and chains of playbooks with their gates.

  \<^bold>\<open>Conventions\<close>

  A table is the list of its rows; a failure of the database or of an encoder is an argument of the
  operation (\<open>flt\<close>, \<open>f1\<close> and so on). A stateful operation returns the new state, an error is a value of a sum or an
  option, a panic is \<open>None\<close>. A request that reaches a service is a \<open>Call\<close> of a program, and the world answers
  with anything; a language model is a service that answers with any text; mail, syslog and dialing a socket
  are requests with methods of their own. A goroutine is a program in the result of the operation that starts it. The
  iteration over a Go map follows the order of a list. SHA-256, HMAC, Argon2id, YAML and JSON codecs, regular
  expressions of configuration files, the A2A client and the zone database are arguments; where a property needs a law of them
  the law is a hypothesis, with a witness at a concrete function. Log lines are left out.

  \<^bold>\<open>Bounds\<close>

  Recursion is structural or has a termination proof. There is no fuel but the depth of a chain of playbooks,
  which the code bounds by five itself, and the number of rounds of the two endless loops of the auditor, of which
  any prefix is described. Waits end by their deadlines. \<open>fl64\<close> rounds values below \<^term>\<open>2 ^ 53 :: rat\<close>; the
  threshold of the breaker is exact for waves below \<^term>\<open>2 ^ 50 :: nat\<close> servers. Counters stay below the limits of 64
  bits; sums that may leave them are wrapped with \<open>wrap64\<close>. Contexts are not cancelled from outside.

  \<^bold>\<open>Not modelled\<close>

  The tools of the agents (\<^verbatim>\<open>agents\<close>), which run \<^verbatim>\<open>psql\<close>, \<^verbatim>\<open>kubectl\<close> and shell commands and format their output; the
  reporting bots (\<^verbatim>\<open>cmd/govbot\<close>, \<^verbatim>\<open>cmd/secbot\<close>, \<^verbatim>\<open>cmd/srebot\<close>) and the client commands; the model client
  (\<^verbatim>\<open>internal/model\<close>); the routes of the gateway that pass requests through to auditd, import playbooks with a language
  model or take uploads; the summary pages of the governance handlers; creation and migration of database
  schemas; flag parsing; the fault injection tests.
\<close>

end
